(* ===== verification/Go_Prelude.thy ===== *)
theory Go_Prelude
  imports Main "HOL-Library.Multiset"
begin

text \<open>
  Shared vocabulary of the development: identifiers, error values, 64-bit integers and the
  generic slice and map helpers of \<^verbatim>\<open>src/pure_utils\<close>, the sequences of steps that can fail, and transactions,
  with the lemmas every component uses.

  A Go \<open>error\<close> that may be nil is a \<open>go_error option\<close>; a Go result \<open>(T, error)\<close> of which only one
  half is meaningful is \<open>go_error + 'a\<close>. Error values are symbolic: a package-level sentinel,
  a fresh error, a wrapped error, a joined error and the \<open>ArgumentError\<close> of the evaluators (index
  and name of the argument) are different constructors, and
  \<open>errors_is\<close> is the documented chain search of \<open>errors.Is\<close>.
\<close>

section \<open>Identifiers\<close>

text \<open>A \<open>uuid.UUID\<close> is an array of sixteen bytes, kept here as its integer value.\<close>

type_synonym uuid = nat

definition uuid_Nil :: uuid where
  "uuid_Nil = 0"

section \<open>Error values\<close>

datatype go_error =
    ErrSentinel string
  | ErrNew string
  | ErrWrap go_error string
  | ErrJoin "go_error list"
  | ErrArgument int string

fun errors_is :: "go_error \<Rightarrow> go_error \<Rightarrow> bool" where
  "errors_is (ErrSentinel n) t = (ErrSentinel n = t)"
| "errors_is (ErrNew m) t = (ErrNew m = t)"
| "errors_is (ErrArgument i n) t = (ErrArgument i n = t)"
| "errors_is (ErrWrap e m) t = (ErrWrap e m = t \<or> errors_is e t)"
| "errors_is (ErrJoin es) t = (ErrJoin es = t \<or> (\<exists>e\<in>set es. errors_is e t))"

definition some_errors :: "go_error option list \<Rightarrow> go_error list" where
  "some_errors es = map the (filter (\<lambda>e. e \<noteq> None) es)"

definition errors_Join :: "go_error option list \<Rightarrow> go_error option" where
  "errors_Join es = (if some_errors es = [] then None else Some (ErrJoin (some_errors es)))"

definition BadParameterError :: go_error where
  "BadParameterError = ErrSentinel ''bad parameter''"

definition UnAuthorizedError :: go_error where
  "UnAuthorizedError = ErrSentinel ''unauthorized''"

definition ForbiddenError :: go_error where
  "ForbiddenError = ErrSentinel ''forbidden''"

definition NotFoundError :: go_error where
  "NotFoundError = ErrSentinel ''not found''"

definition ConflictError :: go_error where
  "ConflictError = ErrSentinel ''duplicate value''"

definition UnprocessableEntityError :: go_error where
  "UnprocessableEntityError = ErrSentinel ''unprocessable entity''"

lemmas sentinel_defs = BadParameterError_def UnAuthorizedError_def ForbiddenError_def
  NotFoundError_def ConflictError_def

lemma errors_is_refl [simp]: "errors_is e e"
  by (cases e) simp_all

lemma errors_is_wrapI [simp]: "errors_is e t \<Longrightarrow> errors_is (ErrWrap e m) t"
  by simp

lemma errors_is_trans: "errors_is e t \<Longrightarrow> errors_is t u \<Longrightarrow> errors_is e u"
  by (induction e t rule: errors_is.induct) auto

lemma some_errors_simps [simp]:
  "some_errors [] = []"
  "some_errors (None # es) = some_errors es"
  "some_errors (Some e # es) = e # some_errors es"
  by (simp_all add: some_errors_def)

lemma set_some_errors [simp]: "set (some_errors es) = {e. Some e \<in> set es}"
  by (force simp: some_errors_def)

lemma some_errors_Nil_iff: "some_errors es = [] \<longleftrightarrow> (\<forall>e\<in>set es. e = None)"
  by (auto simp: some_errors_def filter_empty_conv)

lemma errors_Join_None_iff: "errors_Join es = None \<longleftrightarrow> (\<forall>e\<in>set es. e = None)"
  by (simp add: errors_Join_def some_errors_Nil_iff)

lemma errors_Join_Some_iff: "errors_Join es \<noteq> None \<longleftrightarrow> (\<exists>e. Some e \<in> set es)"
  by (auto simp: errors_Join_None_iff)

lemma errors_Join_is:
  "errors_Join es = Some j \<Longrightarrow> errors_is e t \<Longrightarrow> Some e \<in> set es \<Longrightarrow> errors_is j t"
  by (auto simp: errors_Join_def split: if_splits)

section \<open>64-bit integers\<close>

text \<open>
  Go's \<open>int\<close> and \<open>int64\<close> are 64-bit two's complement: an arithmetic result is reduced to
  that range. Values are mathematical integers and \<open>wrap64\<close> is the reduction.
\<close>

definition max_int64 :: int where "max_int64 = 9223372036854775807"
definition min_int64 :: int where "min_int64 = - 9223372036854775808"

definition wrap64 :: "int \<Rightarrow> int" where
  "wrap64 x = (x + 9223372036854775808) mod 18446744073709551616 - 9223372036854775808"

definition in_int64 :: "int \<Rightarrow> bool" where
  "in_int64 x \<longleftrightarrow> min_int64 \<le> x \<and> x \<le> max_int64"

lemmas int64_defs = max_int64_def min_int64_def wrap64_def in_int64_def

lemma wrap64_in_range [simp]: "in_int64 (wrap64 x)"
proof -
  have "0 \<le> (x + 9223372036854775808) mod 18446744073709551616"
    and "(x + 9223372036854775808) mod 18446744073709551616 < 18446744073709551616"
    by simp_all
  then show ?thesis by (simp add: int64_defs)
qed

lemma wrap64_id [simp]: "in_int64 x \<Longrightarrow> wrap64 x = x"
  by (simp add: int64_defs)

lemma wrap64_add_left: "wrap64 (wrap64 x + y) = wrap64 (x + y)"
proof -
  have "(wrap64 x + y + 9223372036854775808) mod 18446744073709551616
      = ((x + 9223372036854775808) mod 18446744073709551616 + y) mod 18446744073709551616"
    by (simp add: wrap64_def)
  also have "\<dots> = (x + 9223372036854775808 + y) mod 18446744073709551616"
    by (rule mod_add_left_eq)
  finally show ?thesis by (simp add: wrap64_def algebra_simps)
qed

lemma wrap64_add_right: "wrap64 (x + wrap64 y) = wrap64 (x + y)"
  using wrap64_add_left [of y x] by (simp add: add.commute)

section \<open>Slice helpers of pure\_utils\<close>

fun MapErr :: "'a list \<Rightarrow> ('a \<Rightarrow> go_error + 'b) \<Rightarrow> go_error + 'b list" where
  "MapErr [] f = Inr []"
| "MapErr (x # xs) f =
     (case f x of
        Inl e \<Rightarrow> Inl e
      | Inr y \<Rightarrow> (case MapErr xs f of Inl e \<Rightarrow> Inl e | Inr ys \<Rightarrow> Inr (y # ys)))"

fun MapWhile :: "'a list \<Rightarrow> ('a \<Rightarrow> 'b \<times> bool) \<Rightarrow> 'b list" where
  "MapWhile [] f = []"
| "MapWhile (x # xs) f = (let (item, next) = f x in item # (if next then MapWhile xs f else []))"

definition MapValues :: "('k \<times> 'a) list \<Rightarrow> ('a \<Rightarrow> 'b) \<Rightarrow> ('k \<times> 'b) list" where
  "MapValues src f = map (\<lambda>kv. (fst kv, f (snd kv))) src"

definition AllElementsIn :: "'a list \<Rightarrow> 'a list \<Rightarrow> bool" where
  "AllElementsIn a b = list_all (\<lambda>x. List.member b x) a"

definition FlatMap :: "'a list \<Rightarrow> ('a \<Rightarrow> 'b list) \<Rightarrow> 'b list" where
  "FlatMap src f = concat (map f src)"

lemma MapErr_cong [fundef_cong]:
  "xs = ys \<Longrightarrow> (\<And>x. x \<in> set ys \<Longrightarrow> f x = g x) \<Longrightarrow> MapErr xs f = MapErr ys g"
proof (induction ys arbitrary: xs)
  case (Cons a ys)
  have "MapErr ys f = MapErr ys g" by (rule Cons.IH) (auto intro: Cons.prems(2))
  then show ?case using Cons.prems by (simp split: sum.splits)
qed simp

lemma MapErr_Inr_iff: "MapErr xs f = Inr ys \<longleftrightarrow> list_all2 (\<lambda>x y. f x = Inr y) xs ys"
proof (induction xs arbitrary: ys)
  case Nil
  then show ?case by auto
next
  case (Cons x xs)
  then show ?case by (cases "f x"; cases "MapErr xs f") (auto simp: list_all2_Cons1)
qed

lemma MapErr_Inl_D: "MapErr xs f = Inl e \<Longrightarrow> \<exists>x\<in>set xs. f x = Inl e"
  by (induction xs) (auto split: sum.splits)

lemma MapErr_total: "(\<And>x. x \<in> set xs \<Longrightarrow> f x = Inr (g x)) \<Longrightarrow> MapErr xs f = Inr (map g xs)"
  by (induction xs) auto

lemma MapErr_map: "(\<And>x. g (h x) = Inr x) \<Longrightarrow> MapErr (map h xs) g = Inr xs"
  by (induction xs) auto

lemma MapWhile_all: "(\<And>x. x \<in> set xs \<Longrightarrow> snd (f x)) \<Longrightarrow> MapWhile xs f = map (fst \<circ> f) xs"
  by (induction xs) (auto simp: case_prod_beta Let_def)

lemma MapWhile_prefix: "\<exists>n \<le> length xs. MapWhile xs f = map (fst \<circ> f) (take n xs)"
proof (induction xs)
  case Nil
  then show ?case by simp
next
  case (Cons x xs)
  then obtain n where n: "n \<le> length xs" "MapWhile xs f = map (fst \<circ> f) (take n xs)" by blast
  show ?case
  proof (cases "snd (f x)")
    case True
    with n show ?thesis by (intro exI [of _ "Suc n"]) (simp add: case_prod_beta)
  next
    case False
    then show ?thesis by (intro exI [of _ "Suc 0"]) (simp add: case_prod_beta)
  qed
qed

lemma AllElementsIn_iff: "AllElementsIn a b \<longleftrightarrow> set a \<subseteq> set b"
  by (auto simp: AllElementsIn_def list_all_iff)

lemma keys_MapValues [simp]: "map fst (MapValues src f) = map fst src"
  by (simp add: MapValues_def)

lemma map_of_MapValues: "map_of (MapValues src f) k = map_option f (map_of src k)"
  by (induction src) (auto simp: MapValues_def)

section \<open>Sequences of steps\<close>

text \<open>A step that can fail, and a check, before the rest of a handler.\<close>

definition attempt :: "go_error + 'a \<Rightarrow> ('a \<Rightarrow> go_error + 'b) \<Rightarrow> go_error + 'b" where
  "attempt m k = (case m of Inl err \<Rightarrow> Inl err | Inr x \<Rightarrow> k x)"

definition check :: "go_error option \<Rightarrow> go_error + 'a \<Rightarrow> go_error + 'a" where
  "check e k = (case e of Some err \<Rightarrow> Inl err | None \<Rightarrow> k)"

lemma attempt_simps [simp]: "attempt (Inl err) k = Inl err" "attempt (Inr x) k = k x"
  by (simp_all add: attempt_def)

lemma check_simps [simp]: "check (Some err) k = Inl err" "check None k = k"
  by (simp_all add: check_def)

lemma attempt_Inr: "attempt m k = Inr y \<longleftrightarrow> (\<exists>x. m = Inr x \<and> k x = Inr y)"
  by (cases m) simp_all

lemma check_Inr: "check e k = Inr y \<longleftrightarrow> e = None \<and> k = Inr y"
  by (cases e) simp_all

text \<open>An error with the message of the caller.\<close>

abbreviation wrapped :: "go_error + 'a \<Rightarrow> string \<Rightarrow> go_error + 'a" where
  "wrapped m msg \<equiv> (case m of Inl err \<Rightarrow> Inl (ErrWrap err msg) | Inr x \<Rightarrow> Inr x)"

lemma wrapped_Inr: "wrapped m msg = Inr x \<longleftrightarrow> m = Inr x"
  by (cases m) simp_all

section \<open>Transactions\<close>

text \<open>A transaction commits the state of its function, or drops it when the function fails.\<close>

definition Transaction :: "('s \<Rightarrow> go_error + 'a \<times> 's) \<Rightarrow> 's \<Rightarrow> (go_error + 'a) \<times> 's" where
  "Transaction fn st = (case fn st of Inl err \<Rightarrow> (Inl err, st) | Inr (v, st') \<Rightarrow> (Inr v, st'))"

lemma Transaction_simps [simp]:
  "Transaction fn st = (Inr v, st') \<longleftrightarrow> fn st = Inr (v, st')"
  "Transaction fn st = (Inl err, st') \<longleftrightarrow> fn st = Inl err \<and> st' = st"
  by (auto simp: Transaction_def split: sum.splits)

lemma Transaction_changed: "Transaction fn st = (res, st') \<Longrightarrow> st' \<noteq> st \<Longrightarrow> \<exists>v. fn st = Inr (v, st')"
  by (auto simp: Transaction_def split: sum.splits)

end
