(* ===== verification/Permissions.thy ===== *)
theory Permissions
  imports Go_Prelude
begin

text \<open>
  The permission and role tables of \<^verbatim>\<open>src/models/permission.go\<close>, \<^verbatim>\<open>role.go\<close> and
  \<^verbatim>\<open>role_permission.go\<close>: the permission constants and their printed names, the roles, the
  permission list each role is granted, and the membership test \<open>HasPermission\<close>.
\<close>

section \<open>Permissions\<close>

datatype permission =
    DECISION_READ
  | DECISION_CREATE
  | PHANTOM_DECISION_CREATE
  | INGESTION
  | SCENARIO_READ
  | SCENARIO_CREATE
  | SCENARIO_PUBLISH
  | DATA_MODEL_READ
  | DATA_MODEL_WRITE
  | APIKEY_READ
  | APIKEY_CREATE
  | ANALYTICS_READ
  | ORGANIZATIONS_LIST
  | ORGANIZATIONS_CREATE
  | ORGANIZATIONS_UPDATE
  | ORGANIZATIONS_DELETE
  | USER_CREATE
  | MARBLE_USER_READ
  | MARBLE_USER_CREATE
  | MARBLE_USER_UPDATE
  | MARBLE_USER_DELETE
  | ANY_ORGANIZATION_ID_IN_CONTEXT
  | CUSTOM_LISTS_READ
  | CUSTOM_LISTS_EDIT
  | MARBLE_USER_LIST
  | CASE_READ_WRITE
  | INBOX_EDITOR
  | LICENSE_LIST
  | LICENSE_CREATE
  | LICENSE_UPDATE
  | WEBHOOK_EVENT
  | WEBHOOK
  | READ_SNOOZES
  | CREATE_SNOOZE
  | TAG_READ
  | TAG_CREATE
  | TAG_UPDATE
  | TAG_DELETE
  | SCREENING_WHITELIST_READ
  | SCREENING_WHITELIST_WRITE
  | SCREENING_FREEFORM_SEARCH
  | CONTINUOUS_SCREENING_CONFIG_READ
  | CONTINUOUS_SCREENING_CONFIG_WRITE
  | CONTINUOUS_SCREENING_HIT_READ
  | CONTINUOUS_SCREENING_HIT_WRITE
  | CONTINUOUS_SCREENING_HIT_DISMISS
  | CONTINUOUS_SCREENING_OBJECT_READ
  | CONTINUOUS_SCREENING_OBJECT_WRITE
  | ANNOTATION_DELETE
  | ANNOTATION_RISK_TAG_WRITE
  | ORG_IMPORT_ARCHETYPE_READ
  | ORG_IMPORT_INTO_EXISTING
  | ORG_EXPORT
  | SCORING_UPDATE_SETTINGS
  | SCORING_UPDATE_RULESETS
  | SCORING_OVERRIDE_SCORE

text \<open>The constant block, in the order that gives each permission its integer value.\<close>

definition permission_consts :: "permission list" where
  "permission_consts =
    [
     DECISION_READ, DECISION_CREATE, PHANTOM_DECISION_CREATE, INGESTION, SCENARIO_READ,
     SCENARIO_CREATE, SCENARIO_PUBLISH, DATA_MODEL_READ, DATA_MODEL_WRITE, APIKEY_READ,
     APIKEY_CREATE, ANALYTICS_READ, ORGANIZATIONS_LIST, ORGANIZATIONS_CREATE,
     ORGANIZATIONS_UPDATE, ORGANIZATIONS_DELETE, USER_CREATE, MARBLE_USER_READ,
     MARBLE_USER_CREATE, MARBLE_USER_UPDATE, MARBLE_USER_DELETE,
     ANY_ORGANIZATION_ID_IN_CONTEXT, CUSTOM_LISTS_READ, CUSTOM_LISTS_EDIT, MARBLE_USER_LIST,
     CASE_READ_WRITE, INBOX_EDITOR, LICENSE_LIST, LICENSE_CREATE, LICENSE_UPDATE,
     WEBHOOK_EVENT, WEBHOOK, READ_SNOOZES, CREATE_SNOOZE, TAG_READ, TAG_CREATE, TAG_UPDATE,
     TAG_DELETE, SCREENING_WHITELIST_READ, SCREENING_WHITELIST_WRITE,
     SCREENING_FREEFORM_SEARCH, CONTINUOUS_SCREENING_CONFIG_READ,
     CONTINUOUS_SCREENING_CONFIG_WRITE, CONTINUOUS_SCREENING_HIT_READ,
     CONTINUOUS_SCREENING_HIT_WRITE, CONTINUOUS_SCREENING_HIT_DISMISS,
     CONTINUOUS_SCREENING_OBJECT_READ, CONTINUOUS_SCREENING_OBJECT_WRITE, ANNOTATION_DELETE,
     ANNOTATION_RISK_TAG_WRITE, ORG_IMPORT_ARCHETYPE_READ, ORG_IMPORT_INTO_EXISTING,
     ORG_EXPORT, SCORING_UPDATE_SETTINGS, SCORING_UPDATE_RULESETS, SCORING_OVERRIDE_SCORE]"

definition permission_int :: "permission \<Rightarrow> nat" where
  "permission_int r = length (takeWhile (\<lambda>p. p \<noteq> r) permission_consts)"

definition permission_names :: "string list" where
  "permission_names =
    [
     ''DECISION_READ'', ''DECISION_CREATE'', ''PHANTOM_DECISION_CREATE'', ''INGESTION'',
     ''SCENARIO_READ'', ''SCENARIO_CREATE'', ''SCENARIO_PUBLISH'', ''DATA_MODEL_READ'',
     ''DATA_MODEL_WRITE'', ''APIKEY_READ'', ''APIKEY_CREATE'', ''ANALYTICS_READ'',
     ''ORGANIZATIONS_LIST'', ''ORGANIZATIONS_CREATE'', ''ORGANIZATIONS_UPDATE'',
     ''ORGANIZATIONS_DELETE'', ''USER_CREATE'', ''MARBLE_USER_READ'', ''MARBLE_USER_CREATE'',
     ''MARBLE_USER_UPDATE'', ''MARBLE_USER_DELETE'', ''ANY_ORGANIZATION_ID_IN_CONTEXT'',
     ''CUSTOM_LISTS_READ'', ''CUSTOM_LISTS_EDIT'', ''MARBLE_USER_LIST'', ''CASE_READ_WRITE'',
     ''INBOX_EDITOR'', ''LICENSE_LIST'', ''LICENSE_CREATE'', ''LICENSE_UPDATE'',
     ''WEBHOOK_EVENT'', ''WEBHOOK'', ''READ_SNOOZES'', ''CREATE_SNOOZE'', ''TAG_READ'',
     ''TAG_CREATE'', ''TAG_UPDATE'', ''TAG_DELETE'', ''SCREENING_WHITELIST_READ'',
     ''SCREENING_WHITELIST_WRITE'', ''SCREENING_FREEFORM_SEARCH'',
     ''CONTINUOUS_SCREENING_CONFIG_READ'', ''CONTINUOUS_SCREENING_CONFIG_WRITE'',
     ''CONTINUOUS_SCREENING_HIT_READ'', ''CONTINUOUS_SCREENING_HIT_WRITE'',
     ''CONTINUOUS_SCREENING_HIT_DISMISS'', ''CONTINUOUS_SCREENING_OBJECT_READ'',
     ''CONTINUOUS_SCREENING_OBJECT_WRITE'', ''ANNOTATION_DELETE'',
     ''ANNOTATION_RISK_TAG_WRITE'', ''ORG_IMPORT_ARCHETYPE_READ'',
     ''ORG_IMPORT_INTO_EXISTING'', ''ORG_EXPORT'', ''SCORING_UPDATE_SETTINGS'',
     ''SCORING_UPDATE_RULESETS'', ''SCORING_OVERRIDE_SCORE'']"

definition permission_String :: "permission \<Rightarrow> go_error + string" where
  "permission_String r =
     (if permission_int r > length permission_names - 1
      then Inl (ErrNew ''Invalid permission: no string representation has been set'')
      else Inr (permission_names ! permission_int r))"

section \<open>Roles\<close>

datatype Role =
    NO_ROLE
  | VIEWER
  | BUILDER
  | PUBLISHER
  | ADMIN
  | API_CLIENT
  | MARBLE_ADMIN
  | DEPREC_ROLE_1
  | DEPREC_ROLE_2
  | ANALYST

definition GetValidUserRoles :: "Role list" where
  "GetValidUserRoles = [VIEWER, BUILDER, PUBLISHER, ADMIN, MARBLE_ADMIN, ANALYST]"

fun Role_String :: "Role \<Rightarrow> string" where
  "Role_String NO_ROLE = ''NO_ROLE''"
| "Role_String VIEWER = ''VIEWER''"
| "Role_String ANALYST = ''ANALYST''"
| "Role_String BUILDER = ''BUILDER''"
| "Role_String PUBLISHER = ''PUBLISHER''"
| "Role_String ADMIN = ''ADMIN''"
| "Role_String API_CLIENT = ''API_CLIENT''"
| "Role_String MARBLE_ADMIN = ''MARBLE_ADMIN''"
| "Role_String _ = ''UNKNOWN_ROLE''"

definition RoleFromString :: "string \<Rightarrow> Role" where
  "RoleFromString s =
     (if s = ''VIEWER'' then VIEWER
      else if s = ''ANALYST'' then ANALYST
      else if s = ''BUILDER'' then BUILDER
      else if s = ''PUBLISHER'' then PUBLISHER
      else if s = ''ADMIN'' then ADMIN
      else if s = ''API_CLIENT'' then API_CLIENT
      else if s = ''MARBLE_ADMIN'' then MARBLE_ADMIN
      else NO_ROLE)"

section \<open>The permissions of each role\<close>

definition VIEWER_PERMISSIONS :: "permission list" where
  "VIEWER_PERMISSIONS =
    [
     ANALYTICS_READ, DECISION_READ, SCENARIO_READ, DATA_MODEL_READ, CUSTOM_LISTS_READ,
     CASE_READ_WRITE, SCREENING_WHITELIST_READ, SCREENING_WHITELIST_WRITE, WEBHOOK_EVENT,
     READ_SNOOZES, CREATE_SNOOZE, TAG_READ, MARBLE_USER_READ, MARBLE_USER_LIST,
     MARBLE_USER_UPDATE, CONTINUOUS_SCREENING_CONFIG_READ, CONTINUOUS_SCREENING_CONFIG_WRITE,
     CONTINUOUS_SCREENING_HIT_READ, CONTINUOUS_SCREENING_HIT_WRITE,
     CONTINUOUS_SCREENING_OBJECT_READ, CONTINUOUS_SCREENING_OBJECT_WRITE,
     SCREENING_FREEFORM_SEARCH]"

definition BUILDER_PERMISSIONS :: "permission list" where
  "BUILDER_PERMISSIONS = VIEWER_PERMISSIONS @ [SCENARIO_CREATE, CUSTOM_LISTS_EDIT]"

definition PUBLISHER_PERMISSIONS :: "permission list" where
  "PUBLISHER_PERMISSIONS = BUILDER_PERMISSIONS @ [SCENARIO_PUBLISH, SCORING_UPDATE_RULESETS]"

definition ADMIN_PERMISSIONS :: "permission list" where
  "ADMIN_PERMISSIONS = PUBLISHER_PERMISSIONS @
    [
     APIKEY_READ, APIKEY_CREATE, DATA_MODEL_WRITE, DECISION_CREATE, INGESTION,
     MARBLE_USER_CREATE, MARBLE_USER_DELETE, INBOX_EDITOR, WEBHOOK, TAG_CREATE, TAG_UPDATE,
     TAG_DELETE, ORGANIZATIONS_UPDATE, ANNOTATION_DELETE, ANNOTATION_RISK_TAG_WRITE,
     CONTINUOUS_SCREENING_HIT_DISMISS, ORG_IMPORT_ARCHETYPE_READ, ORG_IMPORT_INTO_EXISTING,
     ORG_EXPORT, SCORING_UPDATE_SETTINGS, SCORING_OVERRIDE_SCORE]"

text \<open>\<open>None\<close> is a role that is not a key of the Go map.\<close>

fun ROLES_PERMISSIONS :: "Role \<Rightarrow> permission list option" where
  "ROLES_PERMISSIONS NO_ROLE = Some []"
| "ROLES_PERMISSIONS VIEWER = Some VIEWER_PERMISSIONS"
| "ROLES_PERMISSIONS ANALYST = Some VIEWER_PERMISSIONS"
| "ROLES_PERMISSIONS BUILDER = Some BUILDER_PERMISSIONS"
| "ROLES_PERMISSIONS PUBLISHER = Some PUBLISHER_PERMISSIONS"
| "ROLES_PERMISSIONS ADMIN = Some ADMIN_PERMISSIONS"
| "ROLES_PERMISSIONS API_CLIENT = Some
    [
     SCENARIO_READ, DECISION_READ, DECISION_CREATE, PHANTOM_DECISION_CREATE, INGESTION,
     WEBHOOK_EVENT, CASE_READ_WRITE, READ_SNOOZES, CREATE_SNOOZE, SCREENING_WHITELIST_READ,
     SCREENING_WHITELIST_WRITE, SCREENING_FREEFORM_SEARCH, MARBLE_USER_LIST, MARBLE_USER_READ,
     INBOX_EDITOR, TAG_READ, CONTINUOUS_SCREENING_CONFIG_READ,
     CONTINUOUS_SCREENING_CONFIG_WRITE, CONTINUOUS_SCREENING_HIT_READ,
     CONTINUOUS_SCREENING_HIT_WRITE, CONTINUOUS_SCREENING_OBJECT_READ,
     CONTINUOUS_SCREENING_OBJECT_WRITE, ANNOTATION_RISK_TAG_WRITE, ANNOTATION_DELETE,
     SCORING_OVERRIDE_SCORE]"
| "ROLES_PERMISSIONS MARBLE_ADMIN = Some (ADMIN_PERMISSIONS @
    [
     PHANTOM_DECISION_CREATE, ORGANIZATIONS_LIST, ORGANIZATIONS_CREATE, ORGANIZATIONS_UPDATE,
     ORGANIZATIONS_DELETE, ANY_ORGANIZATION_ID_IN_CONTEXT, LICENSE_LIST, LICENSE_CREATE,
     LICENSE_UPDATE])"
| "ROLES_PERMISSIONS _ = None"

definition Permissions :: "Role \<Rightarrow> permission list" where
  "Permissions r = (case ROLES_PERMISSIONS r of None \<Rightarrow> [] | Some ps \<Rightarrow> ps)"

definition HasPermission :: "Role \<Rightarrow> permission \<Rightarrow> bool" where
  "HasPermission r p = List.member (Permissions r) p"

lemmas role_permission_defs = VIEWER_PERMISSIONS_def BUILDER_PERMISSIONS_def
  PUBLISHER_PERMISSIONS_def ADMIN_PERMISSIONS_def

section \<open>Lemmas\<close>

lemma permission_in_consts: "p \<in> set permission_consts"
  by (cases p) (simp_all add: permission_consts_def)

lemma permission_int_less_consts: "permission_int p < length permission_consts"
proof -
  have "takeWhile (\<lambda>q. q \<noteq> p) permission_consts \<noteq> permission_consts"
    using permission_in_consts [of p] by (auto simp: takeWhile_eq_all_conv)
  then show ?thesis
    using length_takeWhile_le [of "\<lambda>q. q \<noteq> p" permission_consts]
    unfolding permission_int_def by (metis nat_less_le takeWhile_eq_take take_all_iff)
qed

lemma length_permission_tables: "length permission_names = length permission_consts"
  by (simp add: permission_names_def permission_consts_def)

lemma permission_int_less: "permission_int p < length permission_names"
  using permission_int_less_consts by (simp add: length_permission_tables)

lemma permission_consts_nth: "permission_consts ! permission_int p = p"
  using nth_length_takeWhile [of "\<lambda>q. q \<noteq> p" permission_consts] permission_int_less_consts
  by (simp add: permission_int_def)

lemma permission_String_eq: "permission_String p = Inr (permission_names ! permission_int p)"
  using permission_int_less [of p] by (simp add: permission_String_def)

lemma permission_String_ok: "\<exists>s. permission_String p = Inr s"
  by (simp add: permission_String_eq)

lemma distinct_permission_names: "distinct permission_names"
  by (simp add: permission_names_def)

lemma any_org_only_marble_admin [simp]:
  "HasPermission r ANY_ORGANIZATION_ID_IN_CONTEXT \<longleftrightarrow> r = MARBLE_ADMIN"
  by (cases r) (simp_all add: HasPermission_def Permissions_def role_permission_defs)

lemma api_client_subset: "set (Permissions API_CLIENT) \<subseteq> set (Permissions MARBLE_ADMIN)"
  by (simp add: Permissions_def role_permission_defs)

section \<open>Properties\<close>

text \<open>Every permission has a printed name, and two different permissions never print the
  same: the name table is aligned with the constant block and has no gap or repetition.\<close>

theorem permission_String_injective:
  "(\<exists>s. permission_String p = Inr s) \<and> (permission_String p = permission_String q \<longleftrightarrow> p = q)"
proof -
  have "permission_String p = permission_String q \<longleftrightarrow> permission_int p = permission_int q"
    using permission_int_less [of p] permission_int_less [of q]
      nth_eq_iff_index_eq [OF distinct_permission_names]
    by (simp add: permission_String_eq)
  also have "\<dots> \<longleftrightarrow> p = q"
    by (metis permission_consts_nth)
  finally show ?thesis using permission_String_ok by simp
qed

text \<open>The organization roles form a chain (viewer and analyst, builder, publisher, admin,
  Marble admin): each level keeps every permission of the level below, and even an API client
  holds nothing a Marble admin does not hold.\<close>

theorem role_hierarchy:
  "(HasPermission ANALYST p \<longleftrightarrow> HasPermission VIEWER p) \<and>
   (HasPermission VIEWER p \<longrightarrow> HasPermission BUILDER p) \<and>
   (HasPermission BUILDER p \<longrightarrow> HasPermission PUBLISHER p) \<and>
   (HasPermission PUBLISHER p \<longrightarrow> HasPermission ADMIN p) \<and>
   (HasPermission ADMIN p \<longrightarrow> HasPermission MARBLE_ADMIN p) \<and>
   (HasPermission API_CLIENT p \<longrightarrow> HasPermission MARBLE_ADMIN p)"
proof -
  have "set (Permissions API_CLIENT) \<subseteq> set (Permissions MARBLE_ADMIN)"
    by (rule api_client_subset)
  moreover have "set (Permissions ADMIN) \<subseteq> set (Permissions MARBLE_ADMIN)"
    by (simp only: Permissions_def ROLES_PERMISSIONS.simps option.case set_append Un_upper1)
  moreover have "set (Permissions PUBLISHER) \<subseteq> set (Permissions ADMIN)"
    by (simp only: Permissions_def ROLES_PERMISSIONS.simps option.case ADMIN_PERMISSIONS_def
        set_append Un_upper1)
  moreover have "set (Permissions BUILDER) \<subseteq> set (Permissions PUBLISHER)"
    by (simp only: Permissions_def ROLES_PERMISSIONS.simps option.case PUBLISHER_PERMISSIONS_def
        set_append Un_upper1)
  moreover have "set (Permissions VIEWER) \<subseteq> set (Permissions BUILDER)"
    by (simp only: Permissions_def ROLES_PERMISSIONS.simps option.case BUILDER_PERMISSIONS_def
        set_append Un_upper1)
  moreover have "Permissions ANALYST = Permissions VIEWER"
    by (simp add: Permissions_def)
  ultimately show ?thesis
    unfolding HasPermission_def List.member_iff by (metis subsetD)
qed

theorem role_hierarchy_witness:
  "HasPermission VIEWER DECISION_READ \<and> HasPermission MARBLE_ADMIN DECISION_READ"
proof -
  have "HasPermission VIEWER DECISION_READ"
    by (simp add: HasPermission_def Permissions_def VIEWER_PERMISSIONS_def)
  then show ?thesis using role_hierarchy [of DECISION_READ] by blast
qed

text \<open>Reading a role from its printed name gives the role back for every role a user or an
  API key can have, and any other text gives the role without permissions.\<close>

theorem role_roundtrip:
  "(r \<in> insert API_CLIENT (set GetValidUserRoles) \<longrightarrow> RoleFromString (Role_String r) = r) \<and>
   (s \<notin> Role_String ` insert API_CLIENT (set GetValidUserRoles) \<longrightarrow>
      Permissions (RoleFromString s) = [])"
  by (auto simp: GetValidUserRoles_def RoleFromString_def Permissions_def)

theorem role_roundtrip_witness:
  "RoleFromString (Role_String ADMIN) = ADMIN \<and> Permissions (RoleFromString ''ROOT'') = []"
proof -
  have "ADMIN \<in> insert API_CLIENT (set GetValidUserRoles)" by (simp add: GetValidUserRoles_def)
  moreover have "''ROOT'' \<notin> Role_String ` insert API_CLIENT (set GetValidUserRoles)"
    by (simp add: GetValidUserRoles_def)
  ultimately show ?thesis using role_roundtrip [of ADMIN "''ROOT''"] by blast
qed

end
