(* ===== verification/Security.thy ===== *)
theory Security
  imports Permissions
begin

text \<open>
  Access control, \<^verbatim>\<open>src/usecases/security\<close> and \<^verbatim>\<open>src/utils/organization_security.go\<close>: the credentials
  of the caller, the two primitive checks (a permission of the role, access to an organization)
  and the guard of every protected operation. A guard answers \<open>None\<close> when the operation may go
  on and the Go error otherwise.

  Resources are records of which a guard reads the organization (the Go fields
  \<open>OrganizationId\<close> or \<open>OrgId\<close>) and whatever else it tests; they extend \<open>org_owned\<close>.
\<close>

section \<open>Credentials and resources\<close>

record Identity =
  Identity_UserId :: string
  Identity_Email :: string
  Identity_FirstName :: string
  Identity_LastName :: string
  Identity_ApiKeyId :: string
  Identity_ApiKeyName :: string

record Credentials =
  ActorIdentity :: Identity
  Cred_OrganizationId :: uuid
  Cred_Role :: Role

record org_owned =
  OrganizationId :: uuid

record User = org_owned +
  User_UserId :: string
  User_Email :: string
  User_FirstName :: string
  User_LastName :: string
  User_Role :: Role

record ApiKey = org_owned +
  ApiKey_Id :: string
  ApiKey_DisplayString :: string
  ApiKey_Role :: Role

definition user_IntoCredentials :: "User \<Rightarrow> Credentials" where
  "user_IntoCredentials u =
     \<lparr>ActorIdentity = \<lparr>Identity_UserId = User_UserId u, Identity_Email = User_Email u,
        Identity_FirstName = User_FirstName u, Identity_LastName = User_LastName u,
        Identity_ApiKeyId = '''', Identity_ApiKeyName = ''''\<rparr>,
      Cred_OrganizationId = OrganizationId u, Cred_Role = User_Role u\<rparr>"

definition apikey_IntoCredentials :: "ApiKey \<Rightarrow> Credentials" where
  "apikey_IntoCredentials k =
     \<lparr>ActorIdentity = \<lparr>Identity_UserId = '''', Identity_Email = '''',
        Identity_FirstName = '''', Identity_LastName = '''',
        Identity_ApiKeyId = ApiKey_Id k, Identity_ApiKeyName = ApiKey_DisplayString k\<rparr>,
      Cred_OrganizationId = OrganizationId k, Cred_Role = ApiKey_Role k\<rparr>"

section \<open>Primitive checks\<close>

definition EnforceOrganizationAccess :: "Credentials \<Rightarrow> uuid \<Rightarrow> go_error option" where
  "EnforceOrganizationAccess creds organizationId =
     (if HasPermission (Cred_Role creds) ANY_ORGANIZATION_ID_IN_CONTEXT then None
      else if organizationId = uuid_Nil
        then Some (ErrNew ''Empty organization Id passed to EnforceOrganizationAccess'')
      else if Cred_OrganizationId creds = uuid_Nil
        then Some (ErrWrap ForbiddenError ''credentials does not grant access to any organization'')
      else if Cred_OrganizationId creds \<noteq> organizationId
        then Some (ErrWrap ForbiddenError ''credentials does not grant access to organization'')
      else None)"

definition ReadOrganization :: "Credentials \<Rightarrow> uuid \<Rightarrow> go_error option" where
  "ReadOrganization e organizationId = EnforceOrganizationAccess e organizationId"

definition Permission :: "Credentials \<Rightarrow> permission \<Rightarrow> go_error option" where
  "Permission e permission =
     (case permission_String permission of
        Inl err \<Rightarrow> Some (ErrWrap err ''failed to adapt permission to string'')
      | Inr permissionStr \<Rightarrow>
          (if \<not> HasPermission (Cred_Role e) permission
           then Some (ErrWrap ForbiddenError (''missing permission '' @ permissionStr))
           else None))"

fun EnforcePermissions :: "Credentials \<Rightarrow> permission list \<Rightarrow> go_error option" where
  "EnforcePermissions e [] = None"
| "EnforcePermissions e (p # ps) =
     (case Permission e p of Some err \<Rightarrow> Some err | None \<Rightarrow> EnforcePermissions e ps)"

definition sec_UserId :: "Credentials \<Rightarrow> string option" where
  "sec_UserId e =
     (if Identity_UserId (ActorIdentity e) = '''' then None
      else Some (Identity_UserId (ActorIdentity e)))"

definition sec_ApiKeyId :: "Credentials \<Rightarrow> string option" where
  "sec_ApiKeyId e =
     (if Identity_ApiKeyId (ActorIdentity e) = '''' then None
      else Some (Identity_ApiKeyId (ActorIdentity e)))"

section \<open>Guards that join one permission with the resource's organization\<close>

definition ReadUser :: "Credentials \<Rightarrow> 'a org_owned_scheme \<Rightarrow> go_error option" where
  "ReadUser e r = errors_Join [Permission e MARBLE_USER_READ, ReadOrganization e (OrganizationId r)]"

definition DeleteUser :: "Credentials \<Rightarrow> 'a org_owned_scheme \<Rightarrow> go_error option" where
  "DeleteUser e r = errors_Join [Permission e MARBLE_USER_DELETE, ReadOrganization e (OrganizationId r)]"

definition ReadScenario :: "Credentials \<Rightarrow> 'a org_owned_scheme \<Rightarrow> go_error option" where
  "ReadScenario e r = errors_Join [Permission e SCENARIO_READ, ReadOrganization e (OrganizationId r)]"

definition ReadScenarioIteration :: "Credentials \<Rightarrow> 'a org_owned_scheme \<Rightarrow> go_error option" where
  "ReadScenarioIteration e r = errors_Join [Permission e SCENARIO_READ, ReadOrganization e (OrganizationId r)]"

definition CreateRule :: "Credentials \<Rightarrow> 'a org_owned_scheme \<Rightarrow> go_error option" where
  "CreateRule e r = errors_Join [Permission e SCENARIO_CREATE, ReadOrganization e (OrganizationId r)]"

definition ReadScenarioPublication :: "Credentials \<Rightarrow> 'a org_owned_scheme \<Rightarrow> go_error option" where
  "ReadScenarioPublication e r = errors_Join [Permission e SCENARIO_READ, ReadOrganization e (OrganizationId r)]"

definition PublishScenario :: "Credentials \<Rightarrow> 'a org_owned_scheme \<Rightarrow> go_error option" where
  "PublishScenario e r = errors_Join [Permission e SCENARIO_PUBLISH, ReadOrganization e (OrganizationId r)]"

definition UpdateScenario :: "Credentials \<Rightarrow> 'a org_owned_scheme \<Rightarrow> go_error option" where
  "UpdateScenario e r = errors_Join [Permission e SCENARIO_CREATE, ReadOrganization e (OrganizationId r)]"

definition ReadContinuousScreeningConfig :: "Credentials \<Rightarrow> 'a org_owned_scheme \<Rightarrow> go_error option" where
  "ReadContinuousScreeningConfig e r = errors_Join [Permission e CONTINUOUS_SCREENING_CONFIG_READ, ReadOrganization e (OrganizationId r)]"

definition ReadContinuousScreeningHit :: "Credentials \<Rightarrow> 'a org_owned_scheme \<Rightarrow> go_error option" where
  "ReadContinuousScreeningHit e r = errors_Join [Permission e CONTINUOUS_SCREENING_HIT_READ, ReadOrganization e (OrganizationId r)]"

definition ReadFreeformSearch :: "Credentials \<Rightarrow> 'a org_owned_scheme \<Rightarrow> go_error option" where
  "ReadFreeformSearch e r = errors_Join [Permission e SCREENING_FREEFORM_SEARCH, ReadOrganization e (OrganizationId r)]"

definition ReadDecision :: "Credentials \<Rightarrow> 'a org_owned_scheme \<Rightarrow> go_error option" where
  "ReadDecision e r = errors_Join [Permission e DECISION_READ, ReadOrganization e (OrganizationId r)]"

definition ReadScheduledExecution :: "Credentials \<Rightarrow> 'a org_owned_scheme \<Rightarrow> go_error option" where
  "ReadScheduledExecution e r = errors_Join [Permission e DECISION_READ, ReadOrganization e (OrganizationId r)]"

definition CreateScheduledExecution :: "Credentials \<Rightarrow> 'a org_owned_scheme \<Rightarrow> go_error option" where
  "CreateScheduledExecution e r = errors_Join [Permission e DECISION_CREATE, ReadOrganization e (OrganizationId r)]"

definition sec_OverrideScore :: "Credentials \<Rightarrow> 'a org_owned_scheme \<Rightarrow> go_error option" where
  "sec_OverrideScore e r = errors_Join [Permission e SCORING_OVERRIDE_SCORE, ReadOrganization e (OrganizationId r)]"

definition ReadTag :: "Credentials \<Rightarrow> 'a org_owned_scheme \<Rightarrow> go_error option" where
  "ReadTag e r = errors_Join [Permission e TAG_READ, ReadOrganization e (OrganizationId r)]"

definition UpdateTag :: "Credentials \<Rightarrow> 'a org_owned_scheme \<Rightarrow> go_error option" where
  "UpdateTag e r = errors_Join [Permission e TAG_UPDATE, ReadOrganization e (OrganizationId r)]"

definition DeleteTag :: "Credentials \<Rightarrow> 'a org_owned_scheme \<Rightarrow> go_error option" where
  "DeleteTag e r = errors_Join [Permission e TAG_DELETE, ReadOrganization e (OrganizationId r)]"

definition CanReadWebhook :: "Credentials \<Rightarrow> 'a org_owned_scheme \<Rightarrow> go_error option" where
  "CanReadWebhook e r = errors_Join [Permission e WEBHOOK, ReadOrganization e (OrganizationId r)]"

definition CanModifyWebhook :: "Credentials \<Rightarrow> 'a org_owned_scheme \<Rightarrow> go_error option" where
  "CanModifyWebhook e r = errors_Join [Permission e WEBHOOK, ReadOrganization e (OrganizationId r)]"

definition ReadCustomList :: "Credentials \<Rightarrow> 'a org_owned_scheme \<Rightarrow> go_error option" where
  "ReadCustomList e r = errors_Join [Permission e CUSTOM_LISTS_READ, ReadOrganization e (OrganizationId r)]"

definition ModifyCustomList :: "Credentials \<Rightarrow> 'a org_owned_scheme \<Rightarrow> go_error option" where
  "ModifyCustomList e r = errors_Join [Permission e CUSTOM_LISTS_EDIT, ReadOrganization e (OrganizationId r)]"

definition ReadSnoozesOfDecision :: "Credentials \<Rightarrow> 'a org_owned_scheme \<Rightarrow> go_error option" where
  "ReadSnoozesOfDecision e r = errors_Join [Permission e READ_SNOOZES, ReadOrganization e (OrganizationId r)]"

definition CreateSnoozesOnDecision :: "Credentials \<Rightarrow> 'a org_owned_scheme \<Rightarrow> go_error option" where
  "CreateSnoozesOnDecision e r = errors_Join [Permission e CREATE_SNOOZE, ReadOrganization e (OrganizationId r)]"

definition ReadSnoozesOfIteration :: "Credentials \<Rightarrow> 'a org_owned_scheme \<Rightarrow> go_error option" where
  "ReadSnoozesOfIteration e r = errors_Join [Permission e READ_SNOOZES, ReadOrganization e (OrganizationId r)]"

definition ReadRuleSnooze :: "Credentials \<Rightarrow> 'a org_owned_scheme \<Rightarrow> go_error option" where
  "ReadRuleSnooze e r = errors_Join [Permission e READ_SNOOZES, ReadOrganization e (OrganizationId r)]"

definition ReadApiKey :: "Credentials \<Rightarrow> 'a org_owned_scheme \<Rightarrow> go_error option" where
  "ReadApiKey e r = errors_Join [Permission e APIKEY_READ, ReadOrganization e (OrganizationId r)]"

definition ReadAnalytics :: "Credentials \<Rightarrow> 'a org_owned_scheme \<Rightarrow> go_error option" where
  "ReadAnalytics e r = errors_Join [Permission e ANALYTICS_READ, ReadOrganization e (OrganizationId r)]"

definition CreateInbox :: "Credentials \<Rightarrow> uuid \<Rightarrow> go_error option" where
  "CreateInbox e organizationId = errors_Join [Permission e INBOX_EDITOR, ReadOrganization e organizationId]"

definition WriteDataModel :: "Credentials \<Rightarrow> uuid \<Rightarrow> go_error option" where
  "WriteDataModel e organizationId = errors_Join [Permission e DATA_MODEL_WRITE, ReadOrganization e organizationId]"

definition WriteDataModelIndexes :: "Credentials \<Rightarrow> uuid \<Rightarrow> go_error option" where
  "WriteDataModelIndexes e organizationId = errors_Join [Permission e SCENARIO_CREATE, ReadOrganization e organizationId]"

definition ListScenarios :: "Credentials \<Rightarrow> uuid \<Rightarrow> go_error option" where
  "ListScenarios e organizationId = errors_Join [Permission e SCENARIO_READ, ReadOrganization e organizationId]"

definition CreateScenario :: "Credentials \<Rightarrow> uuid \<Rightarrow> go_error option" where
  "CreateScenario e organizationId = errors_Join [Permission e SCENARIO_CREATE, ReadOrganization e organizationId]"

definition WriteContinuousScreeningConfig :: "Credentials \<Rightarrow> uuid \<Rightarrow> go_error option" where
  "WriteContinuousScreeningConfig e organizationId = errors_Join [Permission e CONTINUOUS_SCREENING_CONFIG_WRITE, ReadOrganization e organizationId]"

definition ReadContinuousScreeningObject :: "Credentials \<Rightarrow> uuid \<Rightarrow> go_error option" where
  "ReadContinuousScreeningObject e organizationId = errors_Join [Permission e CONTINUOUS_SCREENING_OBJECT_READ, ReadOrganization e organizationId]"

definition WriteContinuousScreeningObject :: "Credentials \<Rightarrow> uuid \<Rightarrow> go_error option" where
  "WriteContinuousScreeningObject e organizationId = errors_Join [Permission e CONTINUOUS_SCREENING_OBJECT_WRITE, ReadOrganization e organizationId]"

definition WriteContinuousScreeningHit :: "Credentials \<Rightarrow> uuid \<Rightarrow> go_error option" where
  "WriteContinuousScreeningHit e organizationId = errors_Join [Permission e CONTINUOUS_SCREENING_HIT_WRITE, ReadOrganization e organizationId]"

definition DismissContinuousScreeningHits :: "Credentials \<Rightarrow> uuid \<Rightarrow> go_error option" where
  "DismissContinuousScreeningHits e organizationId = errors_Join [Permission e CONTINUOUS_SCREENING_HIT_DISMISS, ReadOrganization e organizationId]"

definition CreateDecision :: "Credentials \<Rightarrow> uuid \<Rightarrow> go_error option" where
  "CreateDecision e organizationId = errors_Join [Permission e DECISION_CREATE, ReadOrganization e organizationId]"

definition CreateTestRun :: "Credentials \<Rightarrow> uuid \<Rightarrow> go_error option" where
  "CreateTestRun e organizationId = errors_Join [Permission e SCENARIO_CREATE, ReadOrganization e organizationId]"

definition ReadTestRun :: "Credentials \<Rightarrow> uuid \<Rightarrow> go_error option" where
  "ReadTestRun e organizationId = errors_Join [Permission e SCENARIO_READ, ReadOrganization e organizationId]"

definition sec_UpdateSettings :: "Credentials \<Rightarrow> uuid \<Rightarrow> go_error option" where
  "sec_UpdateSettings e organizationId = errors_Join [Permission e SCORING_UPDATE_SETTINGS, ReadOrganization e organizationId]"

definition sec_UpdateRuleset :: "Credentials \<Rightarrow> uuid \<Rightarrow> go_error option" where
  "sec_UpdateRuleset e organizationId = errors_Join [Permission e SCORING_UPDATE_RULESETS, ReadOrganization e organizationId]"

definition CreateTag :: "Credentials \<Rightarrow> uuid \<Rightarrow> go_error option" where
  "CreateTag e organizationId = errors_Join [Permission e TAG_CREATE, ReadOrganization e organizationId]"

definition SendWebhookEvent :: "Credentials \<Rightarrow> uuid \<Rightarrow> go_error option" where
  "SendWebhookEvent e organizationId = errors_Join [Permission e WEBHOOK_EVENT, ReadOrganization e organizationId]"

definition CanCreateWebhook :: "Credentials \<Rightarrow> uuid \<Rightarrow> go_error option" where
  "CanCreateWebhook e organizationId = errors_Join [Permission e WEBHOOK, ReadOrganization e organizationId]"

definition CreateApiKey :: "Credentials \<Rightarrow> uuid \<Rightarrow> go_error option" where
  "CreateApiKey e organizationId = errors_Join [Permission e APIKEY_CREATE, ReadOrganization e organizationId]"

definition CanIngest :: "Credentials \<Rightarrow> uuid \<Rightarrow> go_error option" where
  "CanIngest e organizationId = errors_Join [Permission e INGESTION, ReadOrganization e organizationId]"

definition CreatePhantomDecision :: "Credentials \<Rightarrow> uuid \<Rightarrow> go_error option" where
  "CreatePhantomDecision e organizationId = errors_Join [Permission e PHANTOM_DECISION_CREATE, ReadOrganization e organizationId]"

definition ImportIntoOrg :: "Credentials \<Rightarrow> uuid \<Rightarrow> go_error option" where
  "ImportIntoOrg e organizationId = errors_Join [Permission e ORG_IMPORT_INTO_EXISTING, ReadOrganization e organizationId]"

definition ExportOrg :: "Credentials \<Rightarrow> uuid \<Rightarrow> go_error option" where
  "ExportOrg e organizationId = errors_Join [Permission e ORG_EXPORT, ReadOrganization e organizationId]"

section \<open>Guards that ask for a permission only\<close>

definition ListOrganization :: "Credentials \<Rightarrow> go_error option" where
  "ListOrganization e = errors_Join [Permission e ORGANIZATIONS_LIST]"

definition CreateOrganization :: "Credentials \<Rightarrow> go_error option" where
  "CreateOrganization e = errors_Join [Permission e ORGANIZATIONS_CREATE]"

definition DeleteOrganization :: "Credentials \<Rightarrow> go_error option" where
  "DeleteOrganization e = errors_Join [Permission e ORGANIZATIONS_DELETE]"

definition ReadDataModel :: "Credentials \<Rightarrow> go_error option" where
  "ReadDataModel e = errors_Join [Permission e DATA_MODEL_READ]"

definition ReadWhitelist :: "Credentials \<Rightarrow> go_error option" where
  "ReadWhitelist e = Permission e SCREENING_WHITELIST_READ"

definition WriteWhitelist :: "Credentials \<Rightarrow> go_error option" where
  "WriteWhitelist e = Permission e SCREENING_WHITELIST_WRITE"

definition PerformFreeformSearch :: "Credentials \<Rightarrow> go_error option" where
  "PerformFreeformSearch e = Permission e SCREENING_FREEFORM_SEARCH"

definition CreateCustomList :: "Credentials \<Rightarrow> go_error option" where
  "CreateCustomList e = errors_Join [Permission e CUSTOM_LISTS_EDIT]"

definition ListLicenses :: "Credentials \<Rightarrow> go_error option" where
  "ListLicenses e = errors_Join [Permission e LICENSE_LIST]"

definition CreateLicense :: "Credentials \<Rightarrow> go_error option" where
  "CreateLicense e = errors_Join [Permission e LICENSE_CREATE]"

definition UpdateLicense :: "Credentials \<Rightarrow> go_error option" where
  "UpdateLicense e = errors_Join [Permission e LICENSE_UPDATE]"

definition DeleteAnnotation :: "Credentials \<Rightarrow> go_error option" where
  "DeleteAnnotation e = Permission e ANNOTATION_DELETE"

definition ListOrgArchetypes :: "Credentials \<Rightarrow> go_error option" where
  "ListOrgArchetypes e = Permission e ORG_IMPORT_ARCHETYPE_READ"

section \<open>Guards with conditions of their own\<close>

definition DeleteApiKey :: "Credentials \<Rightarrow> 'a org_owned_scheme \<Rightarrow> go_error option" where
  "DeleteApiKey e apiKey = CreateApiKey e (OrganizationId apiKey)"

definition ReadRecordScore :: "Credentials \<Rightarrow> 'a org_owned_scheme \<Rightarrow> go_error option" where
  "ReadRecordScore e score = ReadOrganization e (OrganizationId score)"

definition CreateUser :: "Credentials \<Rightarrow> User \<Rightarrow> go_error option" where
  "CreateUser e input =
     (if User_Role input = MARBLE_ADMIN \<and> Cred_Role e \<noteq> MARBLE_ADMIN
        then Some (ErrWrap ForbiddenError ''only marble admins can create marble admins'')
      else if User_Role input = ADMIN \<and> \<not> (Cred_Role e = ADMIN \<or> Cred_Role e = MARBLE_ADMIN)
        then Some (ErrWrap ForbiddenError ''only org admins and marble admins can create org admins'')
      else errors_Join [Permission e MARBLE_USER_CREATE, ReadOrganization e (OrganizationId input)])"

text \<open>The update request carries an optional new role; the other fields are not tested.\<close>

definition sec_UpdateUser :: "Credentials \<Rightarrow> User \<Rightarrow> Role option \<Rightarrow> go_error option" where
  "sec_UpdateUser e targetUser newRole =
     (if newRole = Some MARBLE_ADMIN \<and> Cred_Role e \<noteq> MARBLE_ADMIN
        then Some (ErrWrap BadParameterError ''only marble admins can create marble admins'')
      else if newRole \<noteq> None \<and> Cred_Role e \<noteq> ADMIN \<and> Cred_Role e \<noteq> MARBLE_ADMIN
        then Some (ErrWrap UnAuthorizedError ''only admins can change a user's role'')
      else if newRole \<noteq> None \<and> Cred_Role e = ADMIN \<and>
              Identity_UserId (ActorIdentity e) = User_UserId targetUser \<and> newRole \<noteq> Some ADMIN
        then Some (ErrWrap BadParameterError ''Cannot remove yourself as an admin'')
      else if newRole = Some ADMIN \<and> \<not> (Cred_Role e = ADMIN \<or> Cred_Role e = MARBLE_ADMIN)
        then Some (ErrWrap BadParameterError ''Only org admins and marble admins can create org admins'')
      else if (Cred_Role e \<noteq> MARBLE_ADMIN \<and> Cred_Role e \<noteq> ADMIN) \<and>
              Identity_UserId (ActorIdentity e) \<noteq> User_UserId targetUser
        then Some (ErrWrap ForbiddenError ''non-admins can only update themselves'')
      else errors_Join [Permission e MARBLE_USER_UPDATE, ReadOrganization e (OrganizationId targetUser)])"

definition ListUsers :: "Credentials \<Rightarrow> uuid option \<Rightarrow> go_error option" where
  "ListUsers e organizationId =
     (if Cred_Role e = MARBLE_ADMIN then errors_Join [Permission e MARBLE_USER_LIST]
      else (case organizationId of
          None \<Rightarrow> Some (ErrWrap ForbiddenError ''non-admin cannot list users without organization_id'')
        | Some o' \<Rightarrow> errors_Join [Permission e MARBLE_USER_LIST, ReadOrganization e o']))"

definition ListTestRuns :: "Credentials \<Rightarrow> uuid \<Rightarrow> go_error option" where
  "ListTestRuns e organizationId =
     (if Cred_Role e = MARBLE_ADMIN then errors_Join [Permission e SCENARIO_READ]
      else if organizationId = uuid_Nil
        then Some (ErrWrap ForbiddenError ''non-admin cannot list scenarios without organization_id'')
      else errors_Join [Permission e SCENARIO_READ, ReadOrganization e organizationId])"

definition EditOrganization :: "Credentials \<Rightarrow> uuid \<Rightarrow> go_error option" where
  "EditOrganization e org_Id =
     errors_Join [Permission e ORGANIZATIONS_UPDATE, ReadOrganization e org_Id]"

definition EditOrganizationScreeningProvider :: "Credentials \<Rightarrow> uuid \<Rightarrow> bool \<Rightarrow> go_error option" where
  "EditOrganizationScreeningProvider e org_Id isManagedMarble =
     (if isManagedMarble
      then (if Cred_Role e \<noteq> MARBLE_ADMIN
            then Some (ErrWrap ForbiddenError
              ''only marble admins can change the screening provider on managed deployments'')
            else None)
      else EditOrganization e org_Id)"

datatype EntityAnnotationType =
    EntityAnnotationUnknown
  | EntityAnnotationComment
  | EntityAnnotationFile
  | EntityAnnotationTag
  | EntityAnnotationRiskTag

definition WriteAnnotation :: "Credentials \<Rightarrow> uuid \<Rightarrow> EntityAnnotationType \<Rightarrow> go_error option" where
  "WriteAnnotation e orgId kind =
     (case kind of
        EntityAnnotationRiskTag \<Rightarrow>
          errors_Join [Permission e ANNOTATION_RISK_TAG_WRITE, ReadOrganization e orgId]
      | _ \<Rightarrow> ReadOrganization e orgId)"

definition ImportOrg :: "Credentials \<Rightarrow> go_error option" where
  "ImportOrg e =
     (if Cred_Role e \<noteq> MARBLE_ADMIN
      then Some (ErrWrap UnAuthorizedError ''only admins can import an organization'') else None)"

definition ReadAuditEvents :: "Credentials \<Rightarrow> go_error option" where
  "ReadAuditEvents e =
     (if Cred_Role e \<noteq> ADMIN
      then Some (ErrWrap ForbiddenError ''only admins can read audit events'')
      else ReadOrganization e (Cred_OrganizationId e))"

subsection \<open>Cases: membership of the case's inbox\<close>

record CaseMetadata = org_owned +
  Case_InboxId :: uuid

fun inbox_available :: "uuid \<Rightarrow> uuid list \<Rightarrow> go_error option" where
  "inbox_available inbox [] = Some (ErrWrap ForbiddenError ''User does not have access to case's inbox'')"
| "inbox_available inbox (i # is) = (if i = inbox then None else inbox_available inbox is)"

definition ReadOrUpdateCase :: "Credentials \<Rightarrow> 'a CaseMetadata_scheme \<Rightarrow> uuid list \<Rightarrow> go_error option" where
  "ReadOrUpdateCase e c availableInboxIds =
     errors_Join [Permission e CASE_READ_WRITE, ReadOrganization e (OrganizationId c),
       inbox_available (Case_InboxId c) availableInboxIds]"

definition sec_CreateCase :: "Credentials \<Rightarrow> 'a CaseMetadata_scheme \<Rightarrow> uuid list \<Rightarrow> go_error option" where
  "sec_CreateCase e input availableInboxIds =
     errors_Join [Permission e CASE_READ_WRITE, ReadOrganization e (OrganizationId input),
       inbox_available (Case_InboxId input) availableInboxIds]"

subsection \<open>Inboxes and their members\<close>

type_synonym InboxUserRole = string

definition InboxUserRoleAdmin :: InboxUserRole where "InboxUserRoleAdmin = ''admin''"
definition InboxUserRoleMember :: InboxUserRole where "InboxUserRoleMember = ''member''"

record InboxUser = org_owned +
  InboxUser_UserId :: uuid
  InboxUser_InboxId :: uuid
  InboxUser_Role :: InboxUserRole

record Inbox = org_owned +
  Inbox_Id :: uuid
  Inbox_InboxUsers :: "InboxUser list"

text \<open>\<open>uuid_str\<close> is the method \<open>String\<close> of the uuid package, a parameter of the guards that compare
  a stored user identifier with the textual identifier of the caller.\<close>

definition ReadInbox :: "(uuid \<Rightarrow> string) \<Rightarrow> Credentials \<Rightarrow> Inbox \<Rightarrow> go_error option" where
  "ReadInbox uuid_str e i =
     (case Permission e INBOX_EDITOR of
        None \<Rightarrow> errors_Join [None, ReadOrganization e (OrganizationId i)]
      | Some _ \<Rightarrow>
          (if list_ex (\<lambda>u. uuid_str (InboxUser_UserId u) = Identity_UserId (ActorIdentity e))
                (Inbox_InboxUsers i)
           then None
           else Some (ErrWrap ForbiddenError ''User does not have access to this inbox'')))"

definition ReadInboxMetadata :: "Credentials \<Rightarrow> Inbox \<Rightarrow> go_error option" where
  "ReadInboxMetadata e inbox = ReadOrganization e (OrganizationId inbox)"

definition UpdateInbox :: "(uuid \<Rightarrow> string) \<Rightarrow> Credentials \<Rightarrow> Inbox \<Rightarrow> go_error option" where
  "UpdateInbox uuid_str e inbox =
     (if list_ex (\<lambda>m. uuid_str (InboxUser_UserId m) = Identity_UserId (ActorIdentity e) \<and>
           InboxUser_Role m = InboxUserRoleAdmin) (Inbox_InboxUsers inbox)
      then None
      else errors_Join [Permission e INBOX_EDITOR, ReadOrganization e (OrganizationId inbox)])"

definition ReadInboxUser :: "Credentials \<Rightarrow> InboxUser \<Rightarrow> InboxUser list \<Rightarrow> go_error option" where
  "ReadInboxUser e inboxUser actorInboxUsers =
     (case Permission e INBOX_EDITOR of
        None \<Rightarrow> errors_Join [None, ReadOrganization e (OrganizationId inboxUser)]
      | Some _ \<Rightarrow>
          (if list_ex (\<lambda>u. InboxUser_InboxId u = InboxUser_InboxId inboxUser) actorInboxUsers
           then None
           else Some (ErrWrap ForbiddenError ''User does not have access to this inbox user'')))"

definition CreateInboxUser ::
    "Credentials \<Rightarrow> uuid \<Rightarrow> InboxUser list \<Rightarrow> Inbox \<Rightarrow> User \<Rightarrow> go_error option" where
  "CreateInboxUser e input_InboxId actorInboxUsers targetInbox targetUser =
     (let organizationId = Cred_OrganizationId e in
      if OrganizationId targetUser \<noteq> organizationId
        then Some (ErrWrap ForbiddenError ''Target user does not belong to the right organization'')
      else if OrganizationId targetInbox \<noteq> organizationId
        then Some (ErrWrap ForbiddenError ''Target inbox does not belong to the right organization'')
      else (case Permission e INBOX_EDITOR of
          None \<Rightarrow> errors_Join [None, ReadOrganization e (OrganizationId targetInbox)]
        | Some _ \<Rightarrow>
            (if list_ex (\<lambda>u. InboxUser_InboxId u = input_InboxId \<and>
                  InboxUser_Role u = InboxUserRoleAdmin) actorInboxUsers
             then None
             else Some (ErrWrap ForbiddenError ''User cannot create a new member in this inbox''))))"

definition UpdateInboxUser :: "Credentials \<Rightarrow> InboxUser \<Rightarrow> InboxUser list \<Rightarrow> go_error option" where
  "UpdateInboxUser e inboxUser actorInboxUsers =
     (case Permission e INBOX_EDITOR of
        None \<Rightarrow> errors_Join [None, ReadOrganization e (OrganizationId inboxUser)]
      | Some _ \<Rightarrow>
          (if list_ex (\<lambda>u. InboxUser_InboxId u = InboxUser_InboxId inboxUser \<and>
                InboxUser_Role u = InboxUserRoleAdmin) actorInboxUsers
           then None
           else Some (ErrWrap ForbiddenError ''User cannot update this inbox user'')))"

subsection \<open>Saving a free-form search\<close>

record FreeformSearch = org_owned +
  Search_UserId :: "uuid option"
  Search_ApiKeyId :: "uuid option"

definition SaveFreeformSearch :: "(uuid \<Rightarrow> string) \<Rightarrow> Credentials \<Rightarrow> FreeformSearch \<Rightarrow> go_error option" where
  "SaveFreeformSearch uuid_str e s =
     (case errors_Join [Permission e SCREENING_FREEFORM_SEARCH, ReadOrganization e (OrganizationId s)] of
        Some err \<Rightarrow> Some err
      | None \<Rightarrow>
          (if sec_UserId e \<noteq> None \<and> Search_UserId s \<noteq> None \<and>
              map_option uuid_str (Search_UserId s) = sec_UserId e then None
           else if sec_ApiKeyId e \<noteq> None \<and> Search_ApiKeyId s \<noteq> None \<and>
              map_option uuid_str (Search_ApiKeyId s) = sec_ApiKeyId e then None
           else Some (ErrWrap ForbiddenError
             ''freeform search can only be saved by the actor who performed it'')))"

section \<open>Facts about the primitive checks\<close>

lemma Permission_None_iff [simp]: "Permission e p = None \<longleftrightarrow> HasPermission (Cred_Role e) p"
  using permission_String_ok [of p] by (auto simp: Permission_def split: if_splits)

lemma Permission_refused:
  "\<not> HasPermission (Cred_Role e) p \<Longrightarrow> \<exists>err. Permission e p = Some err \<and> errors_is err ForbiddenError"
  using permission_String_ok [of p] by (auto simp: Permission_def split: if_splits)

definition org_access :: "Credentials \<Rightarrow> uuid \<Rightarrow> bool" where
  "org_access e org_id \<longleftrightarrow>
     Cred_Role e = MARBLE_ADMIN \<or> (org_id \<noteq> uuid_Nil \<and> Cred_OrganizationId e = org_id)"

lemma ReadOrganization_None_iff [simp]: "ReadOrganization e org_id = None \<longleftrightarrow> org_access e org_id"
  by (auto simp: ReadOrganization_def EnforceOrganizationAccess_def org_access_def)

lemma refused_iffs [simp]:
  "(\<exists>err. Permission e p = Some err) \<longleftrightarrow> \<not> HasPermission (Cred_Role e) p"
  "(\<exists>err. ReadOrganization e org_id = Some err) \<longleftrightarrow> \<not> org_access e org_id"
  "(\<exists>err. errors_Join es = Some err) \<longleftrightarrow> (\<exists>x\<in>set es. x \<noteq> None)"
  using Permission_None_iff [of e p] ReadOrganization_None_iff [of e org_id]
    errors_Join_None_iff [of es] by (metis option.exhaust option.distinct(1))+

lemma EnforcePermissions_None_iff:
  "EnforcePermissions e ps = None \<longleftrightarrow> (\<forall>p\<in>set ps. HasPermission (Cred_Role e) p)"
proof (induction ps)
  case Nil
  then show ?case by simp
next
  case (Cons p ps)
  then show ?case using Permission_None_iff [of e p] by (cases "Permission e p") (auto simp del: Permission_None_iff)
qed

lemma inbox_available_None_iff [simp]: "inbox_available i is = None \<longleftrightarrow> i \<in> set is"
  by (induction "is") auto

section \<open>The contract of an organization guard\<close>

text \<open>
  Most guards have one contract: a permission, and access to the organization of the resource.
  The locale states it, proves what callers rely on, and is interpreted on every guard.
\<close>

locale org_guard =
  fixes check :: "Credentials \<Rightarrow> 'r \<Rightarrow> go_error option"
    and need :: permission
    and org_of :: "'r \<Rightarrow> uuid"
  assumes check_eq: "check e r = errors_Join [Permission e need, ReadOrganization e (org_of r)]"
begin

lemma granted_iff: "check e r = None \<longleftrightarrow> HasPermission (Cred_Role e) need \<and> org_access e (org_of r)"
  by (simp add: check_eq errors_Join_None_iff)

lemma isolated:
  "Cred_Role e \<noteq> MARBLE_ADMIN \<Longrightarrow> Cred_OrganizationId e \<noteq> org_of r \<Longrightarrow> check e r \<noteq> None"
  by (auto simp: granted_iff org_access_def)

lemma refused_is_forbidden:
  assumes "\<not> HasPermission (Cred_Role e) need"
  shows "\<exists>err. check e r = Some err \<and> errors_is err ForbiddenError"
proof -
  obtain p where p: "Permission e need = Some p" "errors_is p ForbiddenError"
    using Permission_refused [OF assms] by blast
  then obtain j where "check e r = Some j"
    by (cases "check e r") (auto simp: check_eq errors_Join_None_iff)
  with p show ?thesis by (auto simp: check_eq intro: errors_Join_is)
qed

end

interpretation g_ReadUser: org_guard ReadUser MARBLE_USER_READ OrganizationId
  by unfold_locales (simp add: ReadUser_def)

interpretation g_DeleteUser: org_guard DeleteUser MARBLE_USER_DELETE OrganizationId
  by unfold_locales (simp add: DeleteUser_def)

interpretation g_ReadScenario: org_guard ReadScenario SCENARIO_READ OrganizationId
  by unfold_locales (simp add: ReadScenario_def)

interpretation g_ReadScenarioIteration: org_guard ReadScenarioIteration SCENARIO_READ OrganizationId
  by unfold_locales (simp add: ReadScenarioIteration_def)

interpretation g_CreateRule: org_guard CreateRule SCENARIO_CREATE OrganizationId
  by unfold_locales (simp add: CreateRule_def)

interpretation g_ReadScenarioPublication: org_guard ReadScenarioPublication SCENARIO_READ OrganizationId
  by unfold_locales (simp add: ReadScenarioPublication_def)

interpretation g_PublishScenario: org_guard PublishScenario SCENARIO_PUBLISH OrganizationId
  by unfold_locales (simp add: PublishScenario_def)

interpretation g_UpdateScenario: org_guard UpdateScenario SCENARIO_CREATE OrganizationId
  by unfold_locales (simp add: UpdateScenario_def)

interpretation g_ReadContinuousScreeningConfig: org_guard ReadContinuousScreeningConfig CONTINUOUS_SCREENING_CONFIG_READ OrganizationId
  by unfold_locales (simp add: ReadContinuousScreeningConfig_def)

interpretation g_ReadContinuousScreeningHit: org_guard ReadContinuousScreeningHit CONTINUOUS_SCREENING_HIT_READ OrganizationId
  by unfold_locales (simp add: ReadContinuousScreeningHit_def)

interpretation g_ReadFreeformSearch: org_guard ReadFreeformSearch SCREENING_FREEFORM_SEARCH OrganizationId
  by unfold_locales (simp add: ReadFreeformSearch_def)

interpretation g_ReadDecision: org_guard ReadDecision DECISION_READ OrganizationId
  by unfold_locales (simp add: ReadDecision_def)

interpretation g_ReadScheduledExecution: org_guard ReadScheduledExecution DECISION_READ OrganizationId
  by unfold_locales (simp add: ReadScheduledExecution_def)

interpretation g_CreateScheduledExecution: org_guard CreateScheduledExecution DECISION_CREATE OrganizationId
  by unfold_locales (simp add: CreateScheduledExecution_def)

interpretation g_sec_OverrideScore: org_guard sec_OverrideScore SCORING_OVERRIDE_SCORE OrganizationId
  by unfold_locales (simp add: sec_OverrideScore_def)

interpretation g_ReadTag: org_guard ReadTag TAG_READ OrganizationId
  by unfold_locales (simp add: ReadTag_def)

interpretation g_UpdateTag: org_guard UpdateTag TAG_UPDATE OrganizationId
  by unfold_locales (simp add: UpdateTag_def)

interpretation g_DeleteTag: org_guard DeleteTag TAG_DELETE OrganizationId
  by unfold_locales (simp add: DeleteTag_def)

interpretation g_CanReadWebhook: org_guard CanReadWebhook WEBHOOK OrganizationId
  by unfold_locales (simp add: CanReadWebhook_def)

interpretation g_CanModifyWebhook: org_guard CanModifyWebhook WEBHOOK OrganizationId
  by unfold_locales (simp add: CanModifyWebhook_def)

interpretation g_ReadCustomList: org_guard ReadCustomList CUSTOM_LISTS_READ OrganizationId
  by unfold_locales (simp add: ReadCustomList_def)

interpretation g_ModifyCustomList: org_guard ModifyCustomList CUSTOM_LISTS_EDIT OrganizationId
  by unfold_locales (simp add: ModifyCustomList_def)

interpretation g_ReadSnoozesOfDecision: org_guard ReadSnoozesOfDecision READ_SNOOZES OrganizationId
  by unfold_locales (simp add: ReadSnoozesOfDecision_def)

interpretation g_CreateSnoozesOnDecision: org_guard CreateSnoozesOnDecision CREATE_SNOOZE OrganizationId
  by unfold_locales (simp add: CreateSnoozesOnDecision_def)

interpretation g_ReadSnoozesOfIteration: org_guard ReadSnoozesOfIteration READ_SNOOZES OrganizationId
  by unfold_locales (simp add: ReadSnoozesOfIteration_def)

interpretation g_ReadRuleSnooze: org_guard ReadRuleSnooze READ_SNOOZES OrganizationId
  by unfold_locales (simp add: ReadRuleSnooze_def)

interpretation g_ReadApiKey: org_guard ReadApiKey APIKEY_READ OrganizationId
  by unfold_locales (simp add: ReadApiKey_def)

interpretation g_ReadAnalytics: org_guard ReadAnalytics ANALYTICS_READ OrganizationId
  by unfold_locales (simp add: ReadAnalytics_def)

interpretation g_CreateInbox: org_guard CreateInbox INBOX_EDITOR "\<lambda>i. i"
  by unfold_locales (simp add: CreateInbox_def)

interpretation g_WriteDataModel: org_guard WriteDataModel DATA_MODEL_WRITE "\<lambda>i. i"
  by unfold_locales (simp add: WriteDataModel_def)

interpretation g_WriteDataModelIndexes: org_guard WriteDataModelIndexes SCENARIO_CREATE "\<lambda>i. i"
  by unfold_locales (simp add: WriteDataModelIndexes_def)

interpretation g_ListScenarios: org_guard ListScenarios SCENARIO_READ "\<lambda>i. i"
  by unfold_locales (simp add: ListScenarios_def)

interpretation g_CreateScenario: org_guard CreateScenario SCENARIO_CREATE "\<lambda>i. i"
  by unfold_locales (simp add: CreateScenario_def)

interpretation g_WriteContinuousScreeningConfig: org_guard WriteContinuousScreeningConfig CONTINUOUS_SCREENING_CONFIG_WRITE "\<lambda>i. i"
  by unfold_locales (simp add: WriteContinuousScreeningConfig_def)

interpretation g_ReadContinuousScreeningObject: org_guard ReadContinuousScreeningObject CONTINUOUS_SCREENING_OBJECT_READ "\<lambda>i. i"
  by unfold_locales (simp add: ReadContinuousScreeningObject_def)

interpretation g_WriteContinuousScreeningObject: org_guard WriteContinuousScreeningObject CONTINUOUS_SCREENING_OBJECT_WRITE "\<lambda>i. i"
  by unfold_locales (simp add: WriteContinuousScreeningObject_def)

interpretation g_WriteContinuousScreeningHit: org_guard WriteContinuousScreeningHit CONTINUOUS_SCREENING_HIT_WRITE "\<lambda>i. i"
  by unfold_locales (simp add: WriteContinuousScreeningHit_def)

interpretation g_DismissContinuousScreeningHits: org_guard DismissContinuousScreeningHits CONTINUOUS_SCREENING_HIT_DISMISS "\<lambda>i. i"
  by unfold_locales (simp add: DismissContinuousScreeningHits_def)

interpretation g_CreateDecision: org_guard CreateDecision DECISION_CREATE "\<lambda>i. i"
  by unfold_locales (simp add: CreateDecision_def)

interpretation g_CreateTestRun: org_guard CreateTestRun SCENARIO_CREATE "\<lambda>i. i"
  by unfold_locales (simp add: CreateTestRun_def)

interpretation g_ReadTestRun: org_guard ReadTestRun SCENARIO_READ "\<lambda>i. i"
  by unfold_locales (simp add: ReadTestRun_def)

interpretation g_sec_UpdateSettings: org_guard sec_UpdateSettings SCORING_UPDATE_SETTINGS "\<lambda>i. i"
  by unfold_locales (simp add: sec_UpdateSettings_def)

interpretation g_sec_UpdateRuleset: org_guard sec_UpdateRuleset SCORING_UPDATE_RULESETS "\<lambda>i. i"
  by unfold_locales (simp add: sec_UpdateRuleset_def)

interpretation g_CreateTag: org_guard CreateTag TAG_CREATE "\<lambda>i. i"
  by unfold_locales (simp add: CreateTag_def)

interpretation g_SendWebhookEvent: org_guard SendWebhookEvent WEBHOOK_EVENT "\<lambda>i. i"
  by unfold_locales (simp add: SendWebhookEvent_def)

interpretation g_CanCreateWebhook: org_guard CanCreateWebhook WEBHOOK "\<lambda>i. i"
  by unfold_locales (simp add: CanCreateWebhook_def)

interpretation g_CreateApiKey: org_guard CreateApiKey APIKEY_CREATE "\<lambda>i. i"
  by unfold_locales (simp add: CreateApiKey_def)

interpretation g_CanIngest: org_guard CanIngest INGESTION "\<lambda>i. i"
  by unfold_locales (simp add: CanIngest_def)

interpretation g_CreatePhantomDecision: org_guard CreatePhantomDecision PHANTOM_DECISION_CREATE "\<lambda>i. i"
  by unfold_locales (simp add: CreatePhantomDecision_def)

interpretation g_ImportIntoOrg: org_guard ImportIntoOrg ORG_IMPORT_INTO_EXISTING "\<lambda>i. i"
  by unfold_locales (simp add: ImportIntoOrg_def)

interpretation g_ExportOrg: org_guard ExportOrg ORG_EXPORT "\<lambda>i. i"
  by unfold_locales (simp add: ExportOrg_def)

interpretation g_EditOrganization: org_guard EditOrganization ORGANIZATIONS_UPDATE "\<lambda>i. i"
  by unfold_locales (simp add: EditOrganization_def)

interpretation g_DeleteApiKey: org_guard DeleteApiKey APIKEY_CREATE OrganizationId
  by unfold_locales (simp add: DeleteApiKey_def CreateApiKey_def)

lemmas record_guard_granted =
  g_ReadUser.granted_iff g_DeleteUser.granted_iff g_ReadScenario.granted_iff
  g_ReadScenarioIteration.granted_iff g_CreateRule.granted_iff
  g_ReadScenarioPublication.granted_iff g_PublishScenario.granted_iff
  g_UpdateScenario.granted_iff g_ReadContinuousScreeningConfig.granted_iff
  g_ReadContinuousScreeningHit.granted_iff g_ReadFreeformSearch.granted_iff
  g_ReadDecision.granted_iff g_ReadScheduledExecution.granted_iff
  g_CreateScheduledExecution.granted_iff g_sec_OverrideScore.granted_iff g_ReadTag.granted_iff
  g_UpdateTag.granted_iff g_DeleteTag.granted_iff g_CanReadWebhook.granted_iff
  g_CanModifyWebhook.granted_iff g_ReadCustomList.granted_iff g_ModifyCustomList.granted_iff
  g_ReadSnoozesOfDecision.granted_iff g_CreateSnoozesOnDecision.granted_iff
  g_ReadSnoozesOfIteration.granted_iff g_ReadRuleSnooze.granted_iff g_ReadApiKey.granted_iff
  g_ReadAnalytics.granted_iff g_DeleteApiKey.granted_iff

lemmas org_guard_granted =
  g_CreateInbox.granted_iff g_WriteDataModel.granted_iff g_WriteDataModelIndexes.granted_iff
  g_ListScenarios.granted_iff g_CreateScenario.granted_iff
  g_WriteContinuousScreeningConfig.granted_iff g_ReadContinuousScreeningObject.granted_iff
  g_WriteContinuousScreeningObject.granted_iff g_WriteContinuousScreeningHit.granted_iff
  g_DismissContinuousScreeningHits.granted_iff g_CreateDecision.granted_iff
  g_CreateTestRun.granted_iff g_ReadTestRun.granted_iff g_sec_UpdateSettings.granted_iff
  g_sec_UpdateRuleset.granted_iff g_CreateTag.granted_iff g_SendWebhookEvent.granted_iff
  g_CanCreateWebhook.granted_iff g_CreateApiKey.granted_iff g_CanIngest.granted_iff
  g_CreatePhantomDecision.granted_iff g_ImportIntoOrg.granted_iff g_ExportOrg.granted_iff
  g_EditOrganization.granted_iff

section \<open>Properties\<close>

text \<open>C8: tenant isolation. A caller who is not a Marble admin is refused by every guard of a
  resource that belongs to another organization than the one in the credentials, whatever the
  caller's role.\<close>

theorem tenant_isolation:
  assumes "Cred_Role e \<noteq> MARBLE_ADMIN"
    and "Cred_OrganizationId e \<noteq> OrganizationId r"
  shows "list_all (\<lambda>guard. guard e r \<noteq> None)
    [ReadUser, DeleteUser, ReadScenario, ReadScenarioIteration, CreateRule,
     ReadScenarioPublication, PublishScenario, UpdateScenario, ReadContinuousScreeningConfig,
     ReadContinuousScreeningHit, ReadFreeformSearch, ReadDecision, ReadScheduledExecution,
     CreateScheduledExecution, sec_OverrideScore, ReadTag, UpdateTag, DeleteTag,
     CanReadWebhook, CanModifyWebhook, ReadCustomList, ModifyCustomList, ReadSnoozesOfDecision,
     CreateSnoozesOnDecision, ReadSnoozesOfIteration, ReadRuleSnooze, ReadApiKey,
     ReadAnalytics, DeleteApiKey, ReadRecordScore]
   \<and> list_all (\<lambda>guard. guard e (OrganizationId r) \<noteq> None)
    [CreateInbox, WriteDataModel, WriteDataModelIndexes, ListScenarios, CreateScenario,
     WriteContinuousScreeningConfig, ReadContinuousScreeningObject,
     WriteContinuousScreeningObject, WriteContinuousScreeningHit,
     DismissContinuousScreeningHits, CreateDecision, CreateTestRun, ReadTestRun,
     sec_UpdateSettings, sec_UpdateRuleset, CreateTag, SendWebhookEvent, CanCreateWebhook,
     CreateApiKey, CanIngest, CreatePhantomDecision, ImportIntoOrg, ExportOrg,
     EditOrganization, ListTestRuns]"
proof -
  have no: "\<not> org_access e (OrganizationId r)"
    using assms by (auto simp: org_access_def)
  have "ReadRecordScore e r \<noteq> None" using no by (simp add: ReadRecordScore_def)
  moreover have "ListTestRuns e (OrganizationId r) \<noteq> None"
    using no assms(1) by (simp add: ListTestRuns_def errors_Join_None_iff)
  ultimately show ?thesis
    using no by (simp only: list.pred_inject record_guard_granted org_guard_granted simp_thms)
qed

theorem tenant_isolation_witness:
  "ReadScenario (user_IntoCredentials \<lparr>OrganizationId = 1, User_UserId = ''u'', User_Email = '''',
      User_FirstName = '''', User_LastName = '''', User_Role = ADMIN\<rparr>) \<lparr>OrganizationId = 2\<rparr> \<noteq> None"
proof -
  let ?e = "user_IntoCredentials \<lparr>OrganizationId = 1, User_UserId = ''u'', User_Email = '''',
      User_FirstName = '''', User_LastName = '''', User_Role = ADMIN\<rparr>"
  have "Cred_Role ?e \<noteq> MARBLE_ADMIN" and "Cred_OrganizationId ?e \<noteq> OrganizationId \<lparr>OrganizationId = 2\<rparr>"
    by (simp_all add: user_IntoCredentials_def)
  from tenant_isolation [OF this] show ?thesis by simp
qed


text \<open>C38: no privilege escalation through user management. A caller who is not a Marble admin can
  neither create a Marble admin nor promote anybody to Marble admin; a caller who is not an
  admin cannot create an admin or change any role; and only accounts of the caller's own
  organization can be touched.\<close>

theorem user_management_no_escalation:
  assumes "Cred_Role e \<noteq> MARBLE_ADMIN"
  shows "(User_Role u = MARBLE_ADMIN \<longrightarrow> CreateUser e u \<noteq> None) \<and>
    sec_UpdateUser e u (Some MARBLE_ADMIN) \<noteq> None \<and>
    (Cred_Role e \<noteq> ADMIN \<longrightarrow> User_Role u = ADMIN \<longrightarrow> CreateUser e u \<noteq> None) \<and>
    (Cred_Role e \<noteq> ADMIN \<longrightarrow> sec_UpdateUser e u (Some role) \<noteq> None) \<and>
    (OrganizationId u \<noteq> Cred_OrganizationId e \<longrightarrow> CreateUser e u \<noteq> None \<and>
           sec_UpdateUser e u nr \<noteq> None \<and> DeleteUser e u \<noteq> None)"
proof (intro conjI)
  show "User_Role u = MARBLE_ADMIN \<longrightarrow> CreateUser e u \<noteq> None"
    and "Cred_Role e \<noteq> ADMIN \<longrightarrow> User_Role u = ADMIN \<longrightarrow> CreateUser e u \<noteq> None"
    using assms by (simp_all add: CreateUser_def)
  show "sec_UpdateUser e u (Some MARBLE_ADMIN) \<noteq> None"
    and "Cred_Role e \<noteq> ADMIN \<longrightarrow> sec_UpdateUser e u (Some role) \<noteq> None"
    using assms by (simp_all add: sec_UpdateUser_def)
  have "CreateUser e u \<noteq> None \<and> sec_UpdateUser e u nr \<noteq> None \<and> DeleteUser e u \<noteq> None"
    if "OrganizationId u \<noteq> Cred_OrganizationId e"
    using assms that
    by (auto simp: CreateUser_def sec_UpdateUser_def g_DeleteUser.granted_iff errors_Join_None_iff
        org_access_def)
  then show "OrganizationId u \<noteq> Cred_OrganizationId e \<longrightarrow>
           CreateUser e u \<noteq> None \<and> sec_UpdateUser e u nr \<noteq> None \<and> DeleteUser e u \<noteq> None"
    by blast
qed

theorem user_management_no_escalation_witness:
  "sec_UpdateUser (user_IntoCredentials \<lparr>OrganizationId = 1, User_UserId = ''u'', User_Email = '''',
      User_FirstName = '''', User_LastName = '''', User_Role = ADMIN\<rparr>)
     \<lparr>OrganizationId = 1, User_UserId = ''v'', User_Email = '''',
      User_FirstName = '''', User_LastName = '''', User_Role = VIEWER\<rparr> (Some MARBLE_ADMIN) \<noteq> None"
proof -
  have "Cred_Role (user_IntoCredentials \<lparr>OrganizationId = 1, User_UserId = ''u'', User_Email = '''',
      User_FirstName = '''', User_LastName = '''', User_Role = ADMIN\<rparr>) \<noteq> MARBLE_ADMIN"
    by (simp add: user_IntoCredentials_def)
  from user_management_no_escalation [OF this] show ?thesis by blast
qed

text \<open>An inbox, its members and its cases are reachable only through inbox membership or the
  inbox editor permission. A caller without that permission reads an inbox exactly when listed
  as a member, changes it exactly when listed as an admin member, and a case is reachable exactly
  when its inbox is among the caller's inboxes, with the case permission and organization access.\<close>

theorem inbox_access:
  assumes "\<not> HasPermission (Cred_Role e) INBOX_EDITOR"
  shows "(ReadInbox uuid_str e i = None \<longleftrightarrow>
            (\<exists>u\<in>set (Inbox_InboxUsers i). uuid_str (InboxUser_UserId u) = Identity_UserId (ActorIdentity e))) \<and>
         (UpdateInbox uuid_str e i = None \<longleftrightarrow>
            (\<exists>u\<in>set (Inbox_InboxUsers i). uuid_str (InboxUser_UserId u) = Identity_UserId (ActorIdentity e) \<and>
               InboxUser_Role u = InboxUserRoleAdmin)) \<and>
         (UpdateInboxUser e iu actor = None \<longleftrightarrow>
            (\<exists>u\<in>set actor. InboxUser_InboxId u = InboxUser_InboxId iu \<and> InboxUser_Role u = InboxUserRoleAdmin)) \<and>
         (ReadOrUpdateCase e c inboxes = None \<longleftrightarrow>
            HasPermission (Cred_Role e) CASE_READ_WRITE \<and> org_access e (OrganizationId c) \<and>
            Case_InboxId c \<in> set inboxes)"
proof -
  obtain err where "Permission e INBOX_EDITOR = Some err"
    using Permission_refused [OF assms] by blast
  then show ?thesis
    using assms
    by (auto simp: ReadInbox_def UpdateInbox_def UpdateInboxUser_def ReadOrUpdateCase_def
        errors_Join_None_iff list_ex_iff)
qed

theorem inbox_access_witness:
  "ReadInbox (\<lambda>n. replicate n CHR ''x'')
     (user_IntoCredentials \<lparr>OrganizationId = 1, User_UserId = ''xx'', User_Email = '''',
        User_FirstName = '''', User_LastName = '''', User_Role = VIEWER\<rparr>)
     \<lparr>OrganizationId = 1, Inbox_Id = 7, Inbox_InboxUsers =
        [\<lparr>OrganizationId = 1, InboxUser_UserId = 2, InboxUser_InboxId = 7,
          InboxUser_Role = InboxUserRoleMember\<rparr>]\<rparr> = None"
proof -
  let ?e = "user_IntoCredentials \<lparr>OrganizationId = 1, User_UserId = ''xx'', User_Email = '''',
        User_FirstName = '''', User_LastName = '''', User_Role = VIEWER\<rparr>"
  have h: "\<not> HasPermission (Cred_Role ?e) INBOX_EDITOR"
    by (simp add: user_IntoCredentials_def HasPermission_def Permissions_def VIEWER_PERMISSIONS_def)
  show ?thesis
    by (rule iffD2 [OF conjunct1 [OF inbox_access [OF h]]])
      (simp add: user_IntoCredentials_def numeral_2_eq_2)
qed

text \<open>A free-form search is saved only by the actor that ran it: when the guard lets the caller
  through, the caller's user or API key identifier is the one recorded in the search, and the
  search belongs to an organization the caller may access.\<close>

theorem save_search_only_by_actor:
  assumes "SaveFreeformSearch uuid_str e s = None"
  shows "org_access e (OrganizationId s) \<and> HasPermission (Cred_Role e) SCREENING_FREEFORM_SEARCH \<and>
    ((\<exists>u. Search_UserId s = Some u \<and> sec_UserId e = Some (uuid_str u)) \<or>
     (\<exists>k. Search_ApiKeyId s = Some k \<and> sec_ApiKeyId e = Some (uuid_str k)))"
  using assms
  by (auto simp: SaveFreeformSearch_def errors_Join_None_iff split: option.splits if_splits)

theorem save_search_only_by_actor_witness:
  "SaveFreeformSearch (\<lambda>n. replicate n CHR ''x'')
     (user_IntoCredentials \<lparr>OrganizationId = 1, User_UserId = ''xx'', User_Email = '''',
        User_FirstName = '''', User_LastName = '''', User_Role = VIEWER\<rparr>)
     \<lparr>OrganizationId = 1, Search_UserId = Some 2, Search_ApiKeyId = None\<rparr> = None \<and>
   org_access (user_IntoCredentials \<lparr>OrganizationId = 1, User_UserId = ''xx'', User_Email = '''',
        User_FirstName = '''', User_LastName = '''', User_Role = VIEWER\<rparr>) 1"
proof -
  let ?e = "user_IntoCredentials \<lparr>OrganizationId = 1, User_UserId = ''xx'', User_Email = '''',
        User_FirstName = '''', User_LastName = '''', User_Role = VIEWER\<rparr>"
  let ?s = "\<lparr>OrganizationId = 1, Search_UserId = Some 2, Search_ApiKeyId = None\<rparr>"
  have p: "HasPermission VIEWER SCREENING_FREEFORM_SEARCH"
    by (simp add: HasPermission_def Permissions_def VIEWER_PERMISSIONS_def)
  have "errors_Join [Permission ?e SCREENING_FREEFORM_SEARCH, ReadOrganization ?e 1] = None"
    using p by (simp add: errors_Join_None_iff user_IntoCredentials_def org_access_def uuid_Nil_def)
  then have "SaveFreeformSearch (\<lambda>n. replicate n CHR ''x'') ?e ?s = None"
    by (simp add: SaveFreeformSearch_def sec_UserId_def user_IntoCredentials_def numeral_2_eq_2)
  with save_search_only_by_actor [OF this] show ?thesis by simp
qed

end
