(* ===== verification/Go_Runtime.thy ===== *)
theory Go_Runtime
  imports Complex_Main Go_Prelude "HOL-Library.Sublist"
begin

text \<open>
  The parts of Go's standard library the evaluators compute with: floating point operations, the
  string predicates, durations as 64-bit integers and IP addresses.

  Floating point numbers are an abstract type with a record of operations, so a result about an
  evaluator that has no hypothesis on the operations holds for IEEE doubles. \<open>rat_ops\<close> is the
  instance on exact rational numbers that the concrete examples use.
\<close>

section \<open>Floating point operations\<close>

record 'f float_ops =
  F_of_int :: "int \<Rightarrow> 'f"
  F_of_f32 :: "'f \<Rightarrow> 'f"
  F_add :: "'f \<Rightarrow> 'f \<Rightarrow> 'f"
  F_sub :: "'f \<Rightarrow> 'f \<Rightarrow> 'f"
  F_mul :: "'f \<Rightarrow> 'f \<Rightarrow> 'f"
  F_div :: "'f \<Rightarrow> 'f \<Rightarrow> 'f"
  F_lt :: "'f \<Rightarrow> 'f \<Rightarrow> bool"
  F_le :: "'f \<Rightarrow> 'f \<Rightarrow> bool"
  F_eq :: "'f \<Rightarrow> 'f \<Rightarrow> bool"
  F_abs :: "'f \<Rightarrow> 'f"
  F_round :: "'f \<Rightarrow> 'f"
  F_to_int :: "'f \<Rightarrow> int"
  F_1e8 :: 'f

text \<open>\<open>F_to_int\<close> is the conversion \<open>int64(x)\<close>, \<open>F_round\<close> is \<open>math.Round\<close> and \<open>F_1e8\<close> the constant 1e-8.\<close>

definition rat_truncate :: "rat \<Rightarrow> int" where
  "rat_truncate x = (if x < 0 then - \<lfloor>- x\<rfloor> else \<lfloor>x\<rfloor>)"

definition rat_round :: "rat \<Rightarrow> int" where
  "rat_round x = (if x < 0 then - \<lfloor>- x + 1 / 2\<rfloor> else \<lfloor>x + 1 / 2\<rfloor>)"

definition rat_ops :: "rat float_ops" where
  "rat_ops = \<lparr>F_of_int = of_int, F_of_f32 = id, F_add = (+), F_sub = (-), F_mul = (*), F_div = (/),
     F_lt = (<), F_le = (\<le>), F_eq = (=), F_abs = abs, F_round = (\<lambda>x. of_int (rat_round x)),
     F_to_int = rat_truncate, F_1e8 = 1 / 100000000\<rparr>"

text \<open>
  The laws that an order on floats satisfies when no operand is NaN: a total preorder whose
  equality is \<open>F_eq\<close>. They hold of the rational instance and of IEEE comparison away from NaN.
\<close>

locale float_order =
  fixes F :: "'f float_ops"
  assumes lt_not_le: "F_lt F x y \<longleftrightarrow> \<not> F_le F y x"
    and le_trans: "F_le F x y \<Longrightarrow> F_le F y z \<Longrightarrow> F_le F x z"
    and le_total: "F_le F x y \<or> F_le F y x"
    and eq_le: "F_eq F x y \<longleftrightarrow> F_le F x y \<and> F_le F y x"
begin

lemma lt_imp_le: "F_lt F x y \<Longrightarrow> F_le F x y"
  using lt_not_le le_total by blast

lemma lt_trans: "F_lt F x y \<Longrightarrow> F_lt F y z \<Longrightarrow> F_lt F x z"
  using lt_not_le le_trans le_total by blast

lemma trichotomy: "F_lt F x y \<or> F_eq F x y \<or> F_lt F y x"
  using lt_not_le eq_le by blast

end

interpretation rat_order: float_order rat_ops
  by unfold_locales (auto simp: rat_ops_def)

section \<open>Strings\<close>

definition strings_Contains :: "string \<Rightarrow> string \<Rightarrow> bool" where
  "strings_Contains s substr = sublist substr s"

definition strings_HasPrefix :: "string \<Rightarrow> string \<Rightarrow> bool" where
  "strings_HasPrefix s p = prefix p s"

definition strings_HasSuffix :: "string \<Rightarrow> string \<Rightarrow> bool" where
  "strings_HasSuffix s p = suffix p s"

fun strings_Join :: "string list \<Rightarrow> string \<Rightarrow> string" where
  "strings_Join [] sep = []"
| "strings_Join [x] sep = x"
| "strings_Join (x # xs) sep = x @ sep @ strings_Join xs sep"

definition strings_Repeat :: "string \<Rightarrow> nat \<Rightarrow> string" where
  "strings_Repeat s n = concat (replicate n s)"

section \<open>IP addresses\<close>

text \<open>An IP address is its family and its integer value; a prefix is an address and a length.\<close>

datatype ip_addr = Addr4 nat | Addr6 nat

record ip_prefix =
  prefix_addr :: ip_addr
  prefix_bits :: nat

definition bytes_value :: "nat list \<Rightarrow> nat" where
  "bytes_value bs = fold (\<lambda>b acc. acc * 256 + b) bs 0"

text \<open>\<open>netip.AddrFromSlice\<close>: four bytes or sixteen bytes.\<close>

definition AddrFromSlice :: "nat list \<Rightarrow> ip_addr option" where
  "AddrFromSlice bs =
     (if length bs = 4 then Some (Addr4 (bytes_value bs))
      else if length bs = 16 then Some (Addr6 (bytes_value bs))
      else None)"

text \<open>\<open>Addr.Unmap\<close>: an IPv4-mapped IPv6 address becomes the IPv4 address.\<close>

definition Unmap :: "ip_addr \<Rightarrow> ip_addr" where
  "Unmap a = (case a of
     Addr4 v \<Rightarrow> Addr4 v
   | Addr6 v \<Rightarrow> if v div 2 ^ 32 = 65535 then Addr4 (v mod 2 ^ 32) else Addr6 v)"

text \<open>\<open>Prefix.Contains\<close>: same family and same leading bits.\<close>

definition Prefix_Contains :: "ip_prefix \<Rightarrow> ip_addr \<Rightarrow> bool" where
  "Prefix_Contains p a = (case (prefix_addr p, a) of
     (Addr4 v, Addr4 w) \<Rightarrow> prefix_bits p \<le> 32 \<and> v div 2 ^ (32 - prefix_bits p) = w div 2 ^ (32 - prefix_bits p)
   | (Addr6 v, Addr6 w) \<Rightarrow> prefix_bits p \<le> 128 \<and> v div 2 ^ (128 - prefix_bits p) = w div 2 ^ (128 - prefix_bits p)
   | _ \<Rightarrow> False)"

end
