(* ===== verification/Ast_Node.thy ===== *)
theory Ast_Node
  imports Go_Runtime "HOL-Library.List_Lexorder" "HOL-Library.Char_ord"
begin

text \<open>
  The data of the rule engine, \<^verbatim>\<open>src/models/ast\<close>: the values a formula computes with (Go's
  \<open>any\<close>), the functions and their attribute table, the formula tree with its cost and its
  readable rendering, and the evaluation tree with its error list and statistics.

  Floating point numbers are an abstract type \<open>'f\<close>. Named children are an association list
  without repeated keys, in the (unspecified) order in which Go ranges over the map.
\<close>

section \<open>Values\<close>

datatype int_kind =
    Kint | Kint8 | Kint16 | Kint32 | Kint64 | Kuint | Kuint8 | Kuint16 | Kuint32 | Kuint64

datatype float_kind = Kfloat32 | Kfloat64

record ScoreComputationResult =
  Triggered :: bool
  Modifier :: int
  Floor :: int
  Branch :: "nat option"
  Fallback :: bool
  Default :: bool

text \<open>
  One constructor per dynamic type the evaluators distinguish: nil, \<open>bool\<close>, the integer types,
  the float types, \<open>string\<close>, \<open>time.Time\<close> (nanoseconds since the epoch), \<open>time.Duration\<close>
  (nanoseconds), \<open>[]any\<close>, \<open>[]string\<close>, a score computation, \<open>net.IP\<close> (its bytes),
  \<open>netip.Addr\<close>, \<open>netip.Prefix\<close>, \<open>[]netip.Prefix\<close>, \<open>ast.Filter\<close>, \<open>ast.FuzzyMatchOptions\<close>, and any
  other type.
\<close>

datatype 'f val =
    VNil
  | VBool bool
  | VInt int_kind int
  | VFloat float_kind 'f
  | VString string
  | VTime int
  | VDuration int
  | VList "'f val list"
  | VStrings "string list"
  | VScore ScoreComputationResult
  | VNetIP "nat list"
  | VAddr ip_addr
  | VPrefix ip_prefix
  | VPrefixes "ip_prefix list"
  | VFilter (Filter_TableName: string) (Filter_FieldName: string) (Filter_Operator: string)
      (Filter_Value: "'f val")
  | VFuzzy (Fuzzy_Algorithm: string) (Fuzzy_Threshold: 'f) (Fuzzy_Value: string)
  | VOther string

section \<open>Functions\<close>

datatype Function =
    FUNC_CONSTANT
  | FUNC_ADD
  | FUNC_SUBTRACT
  | FUNC_MULTIPLY
  | FUNC_DIVIDE
  | FUNC_GREATER
  | FUNC_GREATER_OR_EQUAL
  | FUNC_LESS
  | FUNC_LESS_OR_EQUAL
  | FUNC_EQUAL
  | FUNC_NOT_EQUAL
  | FUNC_NOT
  | FUNC_AND
  | FUNC_OR
  | FUNC_TIME_ADD
  | FUNC_TIME_NOW
  | FUNC_PARSE_TIME
  | FUNC_PAYLOAD
  | FUNC_DB_ACCESS
  | FUNC_CUSTOM_LIST_ACCESS
  | FUNC_IS_IN_LIST
  | FUNC_IS_NOT_IN_LIST
  | FUNC_STRING_CONTAINS
  | FUNC_STRING_NOT_CONTAIN
  | FUNC_CONTAINS_ANY
  | FUNC_CONTAINS_NONE
  | FUNC_AGGREGATOR
  | FUNC_LIST
  | FUNC_FILTER
  | FUNC_FUZZY_MATCH
  | FUNC_FUZZY_MATCH_ANY_OF
  | FUNC_IS_EMPTY
  | FUNC_IS_NOT_EMPTY
  | FUNC_TIMESTAMP_EXTRACT
  | FUNC_HAS_IP_FLAG
  | FUNC_STRING_STARTS_WITH
  | FUNC_STRING_ENDS_WITH
  | FUNC_IS_MULTIPLE_OF
  | FUNC_STRING_TEMPLATE
  | FUNC_STRING_CONCAT
  | FUNC_FUZZY_MATCH_FILTER_OPTIONS
  | FUNC_MONITORING_LIST_CHECK
  | FUNC_RECORD_HAS_TAGS
  | FUNC_RECORD_HAS_PAST_ALERTS
  | FUNC_RECORD_RISK_LEVEL
  | FUNC_SCORE_COMPUTATION
  | FUNC_SWITCH
  | FUNC_UNDEFINED
  | FUNC_UNKNOWN

section \<open>Formula trees and evaluation trees\<close>

datatype 'f Node = Node
  (Node_Index: nat)
  (Node_Function: Function)
  (Node_Constant: "'f val")
  (Node_Children: "'f Node list")
  (Node_NamedChildren: "(string \<times> 'f Node) list")

record NodeEvaluationPlan =
  Skipped :: bool
  Cached :: bool

text \<open>\<open>NE_Errors\<close> is \<open>None\<close> for Go's nil slice (the node was not evaluated).\<close>

datatype 'f NodeEvaluation = NodeEvaluation
  (NE_Index: nat)
  (NE_EvaluationPlan: NodeEvaluationPlan)
  (NE_Function: Function)
  (NE_ReturnValue: "'f val")
  (NE_Errors: "go_error list option")
  (NE_Children: "'f NodeEvaluation list")
  (NE_NamedChildren: "(string \<times> 'f NodeEvaluation) list")

lemma size_named_child [termination_simp]:
  "kn \<in> set named \<Longrightarrow> size (snd kn) < Suc (k + size_list (size_prod (\<lambda>_. 0) size) named)"
  by (induction named) auto

lemma size_named_child' [termination_simp]:
  "(k, n) \<in> set named \<Longrightarrow> size n < Suc (m + size_list (size_prod (\<lambda>_. 0) size) named)"
  using size_named_child by fastforce

lemma size_list_mem: "x \<in> set xs \<Longrightarrow> size x < Suc (size_list size xs)"
  by (induction xs) auto

lemma size_grandchild [termination_simp]:
  "kn \<in> set named \<Longrightarrow> x \<in> set (Node_Children (snd kn)) \<Longrightarrow>
     size x < Suc (k + size_list (size_prod (\<lambda>_. 0) size) named)"
proof -
  assume kn: "kn \<in> set named" and x: "x \<in> set (Node_Children (snd kn))"
  have "size x \<le> size (snd kn)"
    using x size_list_mem [of x "Node_Children (snd kn)"] by (cases "snd kn") auto
  with size_named_child [OF kn, of k] show ?thesis by linarith
qed

lemma size_grandchild' [termination_simp]:
  "(k, n) \<in> set named \<Longrightarrow> x \<in> set (Node_Children n) \<Longrightarrow>
     size x < Suc (m + size_list (size_prod (\<lambda>_. 0) size) named)"
  using size_grandchild [of "(k, n)" named x m] by simp

section \<open>Attributes of the functions\<close>

record 'f FuncAttributes =
  DebugName :: string
  AstName :: string
  NamedArguments :: "string list"
  LazyChildEvaluation :: "('f NodeEvaluation \<Rightarrow> bool) option"
  Commutative :: bool
  Attr_Cost :: int

definition shortCircuitIfTrue :: "'f NodeEvaluation \<Rightarrow> bool" where
  "shortCircuitIfTrue res = (case NE_ReturnValue res of VBool b \<Rightarrow> \<not> b | _ \<Rightarrow> True)"

definition shortCircuitIfFalse :: "'f NodeEvaluation \<Rightarrow> bool" where
  "shortCircuitIfFalse res = (case NE_ReturnValue res of VBool b \<Rightarrow> b | _ \<Rightarrow> True)"

definition shortCircuitIfScoringTriggered :: "'f NodeEvaluation \<Rightarrow> bool" where
  "shortCircuitIfScoringTriggered res =
     (case NE_ReturnValue res of VScore s \<Rightarrow> \<not> Triggered s | _ \<Rightarrow> False)"

text \<open>\<open>None\<close> is a function without an entry in the Go map.\<close>

fun FuncAttributesMap :: "Function \<Rightarrow> 'f FuncAttributes option" where
  "FuncAttributesMap FUNC_UNDEFINED = Some \<lparr>DebugName = ''UNDEFINED'', AstName = ''Undefined'',
     NamedArguments = [], LazyChildEvaluation = None,
     Commutative = False, Attr_Cost = 0\<rparr>"
| "FuncAttributesMap FUNC_CONSTANT = Some \<lparr>DebugName = ''CONSTANT'', AstName = '''',
     NamedArguments = [], LazyChildEvaluation = None,
     Commutative = False, Attr_Cost = 0\<rparr>"
| "FuncAttributesMap FUNC_ADD = Some \<lparr>DebugName = ''FUNC_ADD'', AstName = ''+'',
     NamedArguments = [], LazyChildEvaluation = None,
     Commutative = False, Attr_Cost = 0\<rparr>"
| "FuncAttributesMap FUNC_SUBTRACT = Some \<lparr>DebugName = ''FUNC_SUBTRACT'', AstName = ''-'',
     NamedArguments = [], LazyChildEvaluation = None,
     Commutative = False, Attr_Cost = 0\<rparr>"
| "FuncAttributesMap FUNC_MULTIPLY = Some \<lparr>DebugName = ''FUNC_MULTIPLY'', AstName = ''*'',
     NamedArguments = [], LazyChildEvaluation = None,
     Commutative = False, Attr_Cost = 0\<rparr>"
| "FuncAttributesMap FUNC_DIVIDE = Some \<lparr>DebugName = ''FUNC_DIVIDE'', AstName = ''/'',
     NamedArguments = [], LazyChildEvaluation = None,
     Commutative = False, Attr_Cost = 0\<rparr>"
| "FuncAttributesMap FUNC_GREATER = Some \<lparr>DebugName = ''FUNC_GREATER'', AstName = ''>'',
     NamedArguments = [], LazyChildEvaluation = None,
     Commutative = False, Attr_Cost = 0\<rparr>"
| "FuncAttributesMap FUNC_GREATER_OR_EQUAL = Some \<lparr>DebugName = ''FUNC_GREATER_OR_EQUAL'', AstName = ''>='',
     NamedArguments = [], LazyChildEvaluation = None,
     Commutative = False, Attr_Cost = 0\<rparr>"
| "FuncAttributesMap FUNC_LESS = Some \<lparr>DebugName = ''FUNC_LESS'', AstName = ''<'',
     NamedArguments = [], LazyChildEvaluation = None,
     Commutative = False, Attr_Cost = 0\<rparr>"
| "FuncAttributesMap FUNC_LESS_OR_EQUAL = Some \<lparr>DebugName = ''FUNC_LESS_OR_EQUAL'', AstName = ''<='',
     NamedArguments = [], LazyChildEvaluation = None,
     Commutative = False, Attr_Cost = 0\<rparr>"
| "FuncAttributesMap FUNC_EQUAL = Some \<lparr>DebugName = ''FUNC_EQUAL'', AstName = ''='',
     NamedArguments = [], LazyChildEvaluation = None,
     Commutative = False, Attr_Cost = 0\<rparr>"
| "FuncAttributesMap FUNC_NOT_EQUAL = Some \<lparr>DebugName = ''FUNC_NOT_EQUAL'', AstName = [CHR 0xE2, CHR 0x89, CHR 0xA0],
     NamedArguments = [], LazyChildEvaluation = None,
     Commutative = False, Attr_Cost = 0\<rparr>"
| "FuncAttributesMap FUNC_NOT = Some \<lparr>DebugName = ''FUNC_NOT'', AstName = ''Not'',
     NamedArguments = [], LazyChildEvaluation = None,
     Commutative = False, Attr_Cost = 0\<rparr>"
| "FuncAttributesMap FUNC_AND = Some \<lparr>DebugName = ''FUNC_AND'', AstName = ''And'',
     NamedArguments = [], LazyChildEvaluation = Some shortCircuitIfFalse,
     Commutative = True, Attr_Cost = 0\<rparr>"
| "FuncAttributesMap FUNC_OR = Some \<lparr>DebugName = ''FUNC_OR'', AstName = ''Or'',
     NamedArguments = [], LazyChildEvaluation = Some shortCircuitIfTrue,
     Commutative = True, Attr_Cost = 0\<rparr>"
| "FuncAttributesMap FUNC_TIME_ADD = Some \<lparr>DebugName = ''FUNC_TIME_ADD'', AstName = ''TimeAdd'',
     NamedArguments = [''timestampField'', ''duration'', ''sign''], LazyChildEvaluation = None,
     Commutative = False, Attr_Cost = 0\<rparr>"
| "FuncAttributesMap FUNC_TIME_NOW = Some \<lparr>DebugName = ''FUNC_TIME_NOW'', AstName = ''TimeNow'',
     NamedArguments = [], LazyChildEvaluation = None,
     Commutative = False, Attr_Cost = 0\<rparr>"
| "FuncAttributesMap FUNC_PARSE_TIME = Some \<lparr>DebugName = ''FUNC_PARSE_TIME'', AstName = ''ParseTime'',
     NamedArguments = [], LazyChildEvaluation = None,
     Commutative = False, Attr_Cost = 0\<rparr>"
| "FuncAttributesMap FUNC_PAYLOAD = Some \<lparr>DebugName = ''FUNC_PAYLOAD'', AstName = ''Payload'',
     NamedArguments = [], LazyChildEvaluation = None,
     Commutative = False, Attr_Cost = 0\<rparr>"
| "FuncAttributesMap FUNC_DB_ACCESS = Some \<lparr>DebugName = ''FUNC_DB_ACCESS'', AstName = ''DatabaseAccess'',
     NamedArguments = [''tableName'', ''fieldName'', ''path''], LazyChildEvaluation = None,
     Commutative = False, Attr_Cost = 30\<rparr>"
| "FuncAttributesMap FUNC_CUSTOM_LIST_ACCESS = Some \<lparr>DebugName = ''FUNC_CUSTOM_LIST_ACCESS'', AstName = ''CustomListAccess'',
     NamedArguments = [''customListId''], LazyChildEvaluation = None,
     Commutative = False, Attr_Cost = 30\<rparr>"
| "FuncAttributesMap FUNC_IS_IN_LIST = Some \<lparr>DebugName = ''FUNC_IS_IN_LIST'', AstName = ''IsInList'',
     NamedArguments = [], LazyChildEvaluation = None,
     Commutative = False, Attr_Cost = 0\<rparr>"
| "FuncAttributesMap FUNC_IS_NOT_IN_LIST = Some \<lparr>DebugName = ''FUNC_IS_NOT_IN_LIST'', AstName = ''IsNotInList'',
     NamedArguments = [], LazyChildEvaluation = None,
     Commutative = False, Attr_Cost = 0\<rparr>"
| "FuncAttributesMap FUNC_STRING_CONTAINS = Some \<lparr>DebugName = ''FUNC_STRING_CONTAINS'', AstName = ''StringContains'',
     NamedArguments = [], LazyChildEvaluation = None,
     Commutative = False, Attr_Cost = 0\<rparr>"
| "FuncAttributesMap FUNC_STRING_NOT_CONTAIN = Some \<lparr>DebugName = ''FUNC_STRING_NOT_CONTAIN'', AstName = ''StringNotContain'',
     NamedArguments = [], LazyChildEvaluation = None,
     Commutative = False, Attr_Cost = 0\<rparr>"
| "FuncAttributesMap FUNC_STRING_STARTS_WITH = Some \<lparr>DebugName = ''FUNC_STRING_STARTS_WITH'', AstName = ''StringStartsWith'',
     NamedArguments = [], LazyChildEvaluation = None,
     Commutative = False, Attr_Cost = 0\<rparr>"
| "FuncAttributesMap FUNC_STRING_ENDS_WITH = Some \<lparr>DebugName = ''FUNC_STRING_ENDS_WITH'', AstName = ''StringEndsWith'',
     NamedArguments = [], LazyChildEvaluation = None,
     Commutative = False, Attr_Cost = 0\<rparr>"
| "FuncAttributesMap FUNC_CONTAINS_ANY = Some \<lparr>DebugName = ''FUNC_CONTAINS_ANY'', AstName = ''ContainsAnyOf'',
     NamedArguments = [], LazyChildEvaluation = None,
     Commutative = False, Attr_Cost = 0\<rparr>"
| "FuncAttributesMap FUNC_CONTAINS_NONE = Some \<lparr>DebugName = ''FUNC_CONTAINS_NONE'', AstName = ''ContainsNoneOf'',
     NamedArguments = [], LazyChildEvaluation = None,
     Commutative = False, Attr_Cost = 0\<rparr>"
| "FuncAttributesMap FUNC_AGGREGATOR = Some \<lparr>DebugName = ''FUNC_AGGREGATOR'', AstName = ''Aggregator'',
     NamedArguments = [''tableName'', ''fieldName'', ''aggregator'', ''filters'', ''label''], LazyChildEvaluation = None,
     Commutative = False, Attr_Cost = 50\<rparr>"
| "FuncAttributesMap FUNC_LIST = Some \<lparr>DebugName = ''FUNC_LIST'', AstName = ''List'',
     NamedArguments = [], LazyChildEvaluation = None,
     Commutative = False, Attr_Cost = 0\<rparr>"
| "FuncAttributesMap FUNC_FUZZY_MATCH = Some \<lparr>DebugName = ''FUNC_FUZZY_MATCH'', AstName = ''FuzzyMatch'',
     NamedArguments = [''algorithm''], LazyChildEvaluation = None,
     Commutative = False, Attr_Cost = 0\<rparr>"
| "FuncAttributesMap FUNC_FUZZY_MATCH_ANY_OF = Some \<lparr>DebugName = ''FUNC_FUZZY_MATCH_ANY_OF'', AstName = ''FuzzyMatchAnyOf'',
     NamedArguments = [''algorithm''], LazyChildEvaluation = None,
     Commutative = False, Attr_Cost = 0\<rparr>"
| "FuncAttributesMap FUNC_FUZZY_MATCH_FILTER_OPTIONS = Some \<lparr>DebugName = ''FUNC_FUZZY_MATCH_FILTER_OPTIONS'', AstName = ''FuzzyMatchOptions'',
     NamedArguments = [''algorithm'', ''threshold'', ''value''], LazyChildEvaluation = None,
     Commutative = False, Attr_Cost = 0\<rparr>"
| "FuncAttributesMap FUNC_IS_EMPTY = Some \<lparr>DebugName = ''FUNC_IS_EMPTY'', AstName = ''IsEmpty'',
     NamedArguments = [], LazyChildEvaluation = None,
     Commutative = False, Attr_Cost = 0\<rparr>"
| "FuncAttributesMap FUNC_IS_NOT_EMPTY = Some \<lparr>DebugName = ''FUNC_IS_NOT_EMPTY'', AstName = ''IsNotEmpty'',
     NamedArguments = [], LazyChildEvaluation = None,
     Commutative = False, Attr_Cost = 0\<rparr>"
| "FuncAttributesMap FUNC_TIMESTAMP_EXTRACT = Some \<lparr>DebugName = ''FUNC_TIMESTAMP_EXTRACT'', AstName = ''TimestampExtract'',
     NamedArguments = [''timestamp'', ''part''], LazyChildEvaluation = None,
     Commutative = False, Attr_Cost = 0\<rparr>"
| "FuncAttributesMap FUNC_HAS_IP_FLAG = Some \<lparr>DebugName = ''FUNC_HAS_IP_FLAG'', AstName = ''HasIpFlag'',
     NamedArguments = [''ip'', ''flag''], LazyChildEvaluation = None,
     Commutative = False, Attr_Cost = 0\<rparr>"
| "FuncAttributesMap FUNC_IS_MULTIPLE_OF = Some \<lparr>DebugName = ''FUNC_IS_MULTIPLE_OF'', AstName = ''IsMultipleOf'',
     NamedArguments = [''value'', ''divider''], LazyChildEvaluation = None,
     Commutative = False, Attr_Cost = 0\<rparr>"
| "FuncAttributesMap FUNC_STRING_TEMPLATE = Some \<lparr>DebugName = ''FUNC_STRING_TEMPLATE'', AstName = ''StringTemplate'',
     NamedArguments = [], LazyChildEvaluation = None,
     Commutative = False, Attr_Cost = 0\<rparr>"
| "FuncAttributesMap FUNC_STRING_CONCAT = Some \<lparr>DebugName = ''FUNC_STRING_CONCAT'', AstName = ''StringConcat'',
     NamedArguments = [], LazyChildEvaluation = None,
     Commutative = False, Attr_Cost = 0\<rparr>"
| "FuncAttributesMap FUNC_FILTER = Some \<lparr>DebugName = ''FUNC_FILTER'', AstName = ''Filter'',
     NamedArguments = [''tableName'', ''fieldName'', ''operator'', ''value''], LazyChildEvaluation = None,
     Commutative = False, Attr_Cost = 0\<rparr>"
| "FuncAttributesMap FUNC_MONITORING_LIST_CHECK = Some \<lparr>DebugName = ''FUNC_MONITORING_LIST_CHECK'', AstName = ''MonitoringListCheck'',
     NamedArguments = [''config''], LazyChildEvaluation = None,
     Commutative = False, Attr_Cost = 0\<rparr>"
| "FuncAttributesMap FUNC_RECORD_HAS_TAGS = Some \<lparr>DebugName = ''FUNC_RECORD_HAS_TAGS'', AstName = ''RecordHasTags'',
     NamedArguments = [''config''], LazyChildEvaluation = None,
     Commutative = False, Attr_Cost = 0\<rparr>"
| "FuncAttributesMap FUNC_RECORD_RISK_LEVEL = Some \<lparr>DebugName = ''FUNC_RECORD_RISK_LEVEL'', AstName = ''RecordRiskLevel'',
     NamedArguments = [], LazyChildEvaluation = None,
     Commutative = False, Attr_Cost = 0\<rparr>"
| "FuncAttributesMap FUNC_RECORD_HAS_PAST_ALERTS = Some \<lparr>DebugName = ''FUNC_RECORD_HAS_PAST_ALERTS'', AstName = ''RecordHasPastAlerts'',
     NamedArguments = [], LazyChildEvaluation = None,
     Commutative = False, Attr_Cost = 0\<rparr>"
| "FuncAttributesMap FUNC_SCORE_COMPUTATION = Some \<lparr>DebugName = ''FUNC_SCORE_COMPUTATION'', AstName = ''ScoreComputation'',
     NamedArguments = [''modifier'', ''floor''], LazyChildEvaluation = None,
     Commutative = False, Attr_Cost = 0\<rparr>"
| "FuncAttributesMap FUNC_SWITCH = Some \<lparr>DebugName = ''FUNC_SWITCH'', AstName = ''Switch'',
     NamedArguments = [''field'', ''type''], LazyChildEvaluation = Some shortCircuitIfScoringTriggered,
     Commutative = False, Attr_Cost = 0\<rparr>"
| "FuncAttributesMap FUNC_UNKNOWN = None"

definition Attributes :: "Function \<Rightarrow> 'f FuncAttributes \<times> go_error option" where
  "Attributes f =
     (case FuncAttributesMap f of
        Some attributes \<Rightarrow> (attributes, None)
      | None \<Rightarrow>
          (\<lparr>DebugName = ''Unknown function'', AstName = ''Unknown function'', NamedArguments = [],
            LazyChildEvaluation = None, Commutative = False, Attr_Cost = 0\<rparr>,
           Some (ErrNew ''Unknown function'')))"

definition Function_DebugString :: "Function \<Rightarrow> string" where
  "Function_DebugString f = DebugName (fst (Attributes f :: unit FuncAttributes \<times> go_error option))"

definition IsLogicalOperation :: "Function \<Rightarrow> bool" where
  "IsLogicalOperation f = List.member [FUNC_AND, FUNC_OR] f"

definition IsMathOperation :: "Function \<Rightarrow> bool" where
  "IsMathOperation f = List.member
     [FUNC_GREATER, FUNC_GREATER_OR_EQUAL, FUNC_LESS, FUNC_LESS_OR_EQUAL, FUNC_EQUAL,
      FUNC_NOT_EQUAL, FUNC_ADD, FUNC_SUBTRACT, FUNC_MULTIPLY, FUNC_DIVIDE] f"

definition NewNodeConstant :: "'f val \<Rightarrow> 'f Node" where
  "NewNodeConstant value = Node 0 FUNC_CONSTANT value [] []"

definition AddChild :: "'f Node \<Rightarrow> 'f Node \<Rightarrow> 'f Node" where
  "AddChild node child =
     Node (Node_Index node) (Node_Function node) (Node_Constant node)
       (Node_Children node @ [child]) (Node_NamedChildren node)"

definition AddNamedChild :: "'f Node \<Rightarrow> string \<Rightarrow> 'f Node \<Rightarrow> 'f Node" where
  "AddNamedChild node name child =
     Node (Node_Index node) (Node_Function node) (Node_Constant node) (Node_Children node)
       (filter (\<lambda>kn. fst kn \<noteq> name) (Node_NamedChildren node) @ [(name, child)])"

definition ReadConstantNamedChildString :: "'f Node \<Rightarrow> string \<Rightarrow> go_error + string" where
  "ReadConstantNamedChildString node name =
     (case map_of (Node_NamedChildren node) name of
        None \<Rightarrow> Inl (ErrNew ''Node does not have the named child'')
      | Some child \<Rightarrow>
          (case Node_Constant child of
             VString value \<Rightarrow> Inr value
           | _ \<Rightarrow> Inl (ErrNew ''constant is not a string'')))"

section \<open>Cost of a formula\<close>

fun Cost :: "'f Node \<Rightarrow> int" where
  "Cost (Node i f c children named) =
     (let selfCost = (case Attributes f of (attrs, None) \<Rightarrow> Attr_Cost (attrs :: 'f FuncAttributes) | _ \<Rightarrow> 0);
          childCost = sum_list (map Cost children) + sum_list (map (\<lambda>kn. Cost (snd kn)) named)
      in selfCost + childCost)"

section \<open>Readable rendering\<close>

text \<open>
  \<open>fmt\<close> is Go's \<open>%v\<close> formatting of a constant, \<open>fmtf\<close> of a function number, and \<open>upper\<close> is
  \<open>strings.ToUpper\<close>; all three are parameters.
\<close>

definition formatOperatorFunction ::
    "(string \<Rightarrow> string) \<Rightarrow> Function \<Rightarrow> string \<Rightarrow> nat \<Rightarrow> string list \<Rightarrow> string" where
  "formatOperatorFunction upper f funcName depth childStrs =
     (if IsLogicalOperation f then
        (let operator = upper funcName;
             indentation = strings_Repeat ''  '' (depth + 1);
             baseIndentation = strings_Repeat ''  '' depth
         in if length childStrs = 1
            then ''('' @ ''\<newline>'' @ indentation @ hd childStrs @ ''\<newline>'' @ baseIndentation @ '')''
            else ''('' @ ''\<newline>'' @ indentation
                 @ strings_Join childStrs (''\<newline>'' @ indentation @ operator @ ''\<newline>'' @ indentation)
                 @ ''\<newline>'' @ baseIndentation @ '')'')
      else if IsMathOperation f
        then ''('' @ strings_Join childStrs ('' '' @ funcName @ '' '') @ '')''
      else funcName @ ''('' @ strings_Join childStrs '', '' @ '')'')"

text \<open>
  \<open>render_named\<close> is the body of the loop over the sorted keys: it takes the key, the rendered
  child, the child's function and the renderings of the child's own children.
\<close>

definition render_named :: "string \<Rightarrow> string \<Rightarrow> Function \<Rightarrow> string list \<Rightarrow> string" where
  "render_named key childStr childFunction filterStrs =
     (case Attributes childFunction :: unit FuncAttributes \<times> go_error option of
        (attrs, Some _) \<Rightarrow> key @ '': '' @ childStr
      | (attrs, None) \<Rightarrow>
          (if key = ''filters'' \<and> AstName attrs = ''List''
           then key @ '': ['' @ strings_Join filterStrs '', '' @ '']''
           else key @ '': '' @ childStr))"

function toHumanReadableWithDepth ::
    "('f val \<Rightarrow> string) \<Rightarrow> (Function \<Rightarrow> string) \<Rightarrow> (string \<Rightarrow> string) \<Rightarrow> nat \<Rightarrow> 'f Node \<Rightarrow> string" where
  "toHumanReadableWithDepth fmt fmtf upper depth (Node i f c children named) =
     (if f = FUNC_CONSTANT then fmt c
      else case Attributes f :: unit FuncAttributes \<times> go_error option of
        (attrs, Some _) \<Rightarrow> ''UNKNOWN_FUNC('' @ fmtf f @ '')''
      | (attrs, None) \<Rightarrow>
          (let regular = map (toHumanReadableWithDepth fmt fmtf upper (depth + 1)) children;
               entries = map (\<lambda>kn. (fst kn,
                   toHumanReadableWithDepth fmt fmtf upper (depth + 1) (snd kn),
                   Node_Function (snd kn),
                   map (toHumanReadableWithDepth fmt fmtf upper (depth + 1)) (Node_Children (snd kn)))) named;
               shown = filter (\<lambda>e. \<not> (f = FUNC_AGGREGATOR \<and> fst e = ''label'')) (sort_key fst entries);
               named_params = map (\<lambda>(key, childStr, cf, fs). render_named key childStr cf fs) shown
           in if named \<noteq> []
              then AstName attrs @ ''('' @ strings_Join (named_params @ regular) '', '' @ '')''
              else if children \<noteq> [] then formatOperatorFunction upper f (AstName attrs) depth regular
              else AstName attrs))"
  by pat_completeness auto

termination toHumanReadableWithDepth
proof (relation "measure (\<lambda>(_, _, _, _, n). size n)", goal_cases)
  case (4 fmt fmtf upper depth i f c children named x attrs err kn gc)
  then show ?case
    using size_grandchild [of kn named gc "size_list size children"] by simp
qed (auto simp: termination_simp)

definition ToHumanReadable ::
    "('f val \<Rightarrow> string) \<Rightarrow> (Function \<Rightarrow> string) \<Rightarrow> (string \<Rightarrow> string) \<Rightarrow> 'f Node \<Rightarrow> string" where
  "ToHumanReadable fmt fmtf upper node = toHumanReadableWithDepth fmt fmtf upper 0 node"

section \<open>Evaluation trees\<close>

definition ne_errors :: "'f NodeEvaluation \<Rightarrow> go_error list" where
  "ne_errors e = (case NE_Errors e of None \<Rightarrow> [] | Some es \<Rightarrow> es)"

fun FlattenErrors :: "'f NodeEvaluation \<Rightarrow> go_error list" where
  "FlattenErrors (NodeEvaluation i p f v errs children named) =
     (case errs of None \<Rightarrow> [] | Some es \<Rightarrow> es)
     @ concat (map FlattenErrors children) @ concat (map (\<lambda>kn. FlattenErrors (snd kn)) named)"

fun SetCached :: "'f NodeEvaluation \<Rightarrow> 'f NodeEvaluation" where
  "SetCached (NodeEvaluation i p f v errs children named) =
     NodeEvaluation i (p\<lparr>Cached := True\<rparr>) f v errs (map SetCached children)
       (map (\<lambda>kn. (fst kn, SetCached (snd kn))) named)"

datatype EvaluationStats = EvaluationStats
  (Stats_Function: Function)
  (Stats_Nodes: nat)
  (Stats_SkippedCount: nat)
  (Stats_CachedCount: nat)
  (Stats_Skipped: bool)
  (Stats_Cached: bool)
  (Stats_Children: "EvaluationStats list")

fun BuildEvaluationStats :: "bool \<Rightarrow> 'f NodeEvaluation \<Rightarrow> EvaluationStats" where
  "BuildEvaluationStats parentCached (NodeEvaluation i p f v errs children named) =
     (let skipped = Skipped p;
          cached = (parentCached \<or> Cached p);
          cs = map (BuildEvaluationStats cached) children;
          ns = map (\<lambda>kn. BuildEvaluationStats cached (snd kn)) named
      in EvaluationStats f
           (length children + length named + sum_list (map Stats_Nodes cs) + sum_list (map Stats_Nodes ns))
           (of_bool skipped + sum_list (map Stats_SkippedCount cs) + sum_list (map Stats_SkippedCount ns))
           (of_bool cached + sum_list (map Stats_CachedCount cs) + sum_list (map Stats_CachedCount ns))
           skipped cached (cs @ ns))"

record FunctionStats =
  FS_Count :: nat
  FS_Cached :: nat
  FS_Skipped :: nat

type_synonym function_stats = "string \<rightharpoonup> FunctionStats"

fun buildFunctionStats :: "function_stats \<Rightarrow> EvaluationStats \<Rightarrow> function_stats" where
  "buildFunctionStats acc (EvaluationStats f nodes sk ca skipped cached children) =
     (let name = Function_DebugString f;
          stat = (case acc name of None \<Rightarrow> \<lparr>FS_Count = 0, FS_Cached = 0, FS_Skipped = 0\<rparr> | Some s \<Rightarrow> s);
          stat1 = stat\<lparr>FS_Count := FS_Count stat + 1\<rparr>;
          stat2 = (if skipped then stat1\<lparr>FS_Skipped := FS_Skipped stat1 + 1\<rparr> else stat1);
          stat3 = (if cached then stat2\<lparr>FS_Cached := FS_Cached stat2 + 1\<rparr> else stat2)
      in fold (\<lambda>child a. buildFunctionStats a child) children (acc(name \<mapsto> stat3)))"

definition getFunctionStats :: "EvaluationStats \<Rightarrow> function_stats" where
  "getFunctionStats stats = buildFunctionStats Map.empty stats"


section \<open>The evaluation tree as a list of nodes\<close>

fun ne_nodes :: "'f NodeEvaluation \<Rightarrow> 'f NodeEvaluation list" where
  "ne_nodes (NodeEvaluation i p f v errs children named) =
     NodeEvaluation i p f v errs children named
     # concat (map ne_nodes children) @ concat (map (\<lambda>kn. ne_nodes (snd kn)) named)"

text \<open>The nodes whose value comes from the cache, themselves or as part of a cached subtree.\<close>

fun cached_nodes :: "bool \<Rightarrow> 'f NodeEvaluation \<Rightarrow> nat" where
  "cached_nodes pc (NodeEvaluation i p f v errs children named) =
     of_bool (pc \<or> Cached p)
     + sum_list (map (cached_nodes (pc \<or> Cached p)) children)
     + sum_list (map (\<lambda>kn. cached_nodes (pc \<or> Cached p) (snd kn)) named)"

fun stats_nodes :: "EvaluationStats \<Rightarrow> EvaluationStats list" where
  "stats_nodes (EvaluationStats f n sk ca s c children) =
     EvaluationStats f n sk ca s c children # concat (map stats_nodes children)"

lemma concat_map_concat: "concat (map f (concat xss)) = concat (map (\<lambda>xs. concat (map f xs)) xss)"
  by (induction xss) auto

lemma length_filter_concat: "length (filter P (concat xss)) = sum_list (map (\<lambda>xs. length (filter P xs)) xss)"
  by (induction xss) auto

lemma FlattenErrors_nodes: "FlattenErrors e = concat (map ne_errors (ne_nodes e))"
  by (induction e rule: FlattenErrors.induct)
    (simp add: ne_errors_def comp_def concat_map_concat cong: map_cong)

lemma set_FlattenErrors: "set (FlattenErrors e) = (\<Union>n\<in>set (ne_nodes e). set (ne_errors n))"
  by (induction e rule: FlattenErrors.induct) (auto simp: ne_errors_def)

lemma FlattenErrors_Nil_iff: "FlattenErrors e = [] \<longleftrightarrow> (\<forall>n\<in>set (ne_nodes e). ne_errors n = [])"
  by (simp add: FlattenErrors_nodes)

lemma FlattenErrors_SetCached [simp]: "FlattenErrors (SetCached e) = FlattenErrors e"
  by (induction e rule: SetCached.induct) (simp_all add: comp_def cong: map_cong)

lemma SetCached_simps [simp]:
  "NE_Index (SetCached e) = NE_Index e" "NE_Function (SetCached e) = NE_Function e"
  "NE_ReturnValue (SetCached e) = NE_ReturnValue e" "NE_Errors (SetCached e) = NE_Errors e"
  by (cases e; simp)+

lemma SetCached_nodes: "n \<in> set (ne_nodes (SetCached e)) \<Longrightarrow> Cached (NE_EvaluationPlan n)"
  by (induction e rule: SetCached.induct) auto

lemma length_ne_nodes_pos [simp]: "0 < length (ne_nodes e)"
  by (cases e) simp

lemma Stats_Nodes_count: "Suc (Stats_Nodes (BuildEvaluationStats pc e)) = length (ne_nodes e)"
proof (induction pc e rule: BuildEvaluationStats.induct)
  case (1 pc i p f v errs children named)
  have sums: "length xs + sum_list (map g xs) = sum_list (map (\<lambda>x. length (ne_nodes (h x))) xs)"
    if "\<And>x. x \<in> set xs \<Longrightarrow> Suc (g x) = length (ne_nodes (h x))" for xs g h
    using that by (induction xs) force+
  have c: "length children
        + sum_list (map (\<lambda>x. Stats_Nodes (BuildEvaluationStats (pc \<or> Cached p) x)) children)
      = sum_list (map (\<lambda>x. length (ne_nodes x)) children)"
    using "1.IH"(1) by (intro sums) auto
  have n: "length named
        + sum_list (map (\<lambda>x. Stats_Nodes (BuildEvaluationStats (pc \<or> Cached p) (snd x))) named)
      = sum_list (map (\<lambda>x. length (ne_nodes (snd x))) named)"
    using "1.IH"(2) by (intro sums) auto
  show ?case using c n by (simp add: Let_def length_concat comp_def)
qed

lemma Stats_Skipped_count:
  "Stats_SkippedCount (BuildEvaluationStats pc e)
     = length (filter (\<lambda>n. Skipped (NE_EvaluationPlan n)) (ne_nodes e))"
  by (induction pc e rule: BuildEvaluationStats.induct)
    (simp add: Let_def comp_def length_filter_concat cong: map_cong)

lemma Stats_Cached_count: "Stats_CachedCount (BuildEvaluationStats pc e) = cached_nodes pc e"
  by (induction pc e rule: BuildEvaluationStats.induct) (simp add: Let_def comp_def cong: map_cong)

lemma length_stats_nodes: "length (stats_nodes (BuildEvaluationStats pc e)) = length (ne_nodes e)"
  by (induction pc e rule: BuildEvaluationStats.induct)
    (simp add: Let_def length_concat comp_def cong: map_cong)

section \<open>Statistics per function\<close>

definition fs_count :: "function_stats \<Rightarrow> string \<Rightarrow> nat \<times> nat \<times> nat" where
  "fs_count acc name = (case acc name of
     None \<Rightarrow> (0, 0, 0) | Some s \<Rightarrow> (FS_Count s, FS_Cached s, FS_Skipped s))"

definition named_nodes :: "string \<Rightarrow> EvaluationStats \<Rightarrow> EvaluationStats list" where
  "named_nodes name e = filter (\<lambda>s. Function_DebugString (Stats_Function s) = name) (stats_nodes e)"

lemma named_nodes_simp: "named_nodes name (EvaluationStats f n sk ca s c children) =
    (if Function_DebugString f = name then [EvaluationStats f n sk ca s c children] else [])
    @ concat (map (named_nodes name) children)"
  by (simp add: named_nodes_def [abs_def] filter_concat comp_def)

lemma fold_buildFunctionStats:
  assumes "\<And>child a. child \<in> set children \<Longrightarrow>
     fs_count (buildFunctionStats a child) name
       = (fst (fs_count a name) + length (named_nodes name child),
          fst (snd (fs_count a name)) + length (filter Stats_Cached (named_nodes name child)),
          snd (snd (fs_count a name)) + length (filter Stats_Skipped (named_nodes name child)))"
  shows "fs_count (fold (\<lambda>child a. buildFunctionStats a child) children acc) name
     = (fst (fs_count acc name) + length (concat (map (named_nodes name) children)),
        fst (snd (fs_count acc name)) + length (filter Stats_Cached (concat (map (named_nodes name) children))),
        snd (snd (fs_count acc name)) + length (filter Stats_Skipped (concat (map (named_nodes name) children))))"
  using assms by (induction children arbitrary: acc) simp_all

lemma buildFunctionStats_count:
  "fs_count (buildFunctionStats acc e) name
     = (fst (fs_count acc name) + length (named_nodes name e),
        fst (snd (fs_count acc name)) + length (filter Stats_Cached (named_nodes name e)),
        snd (snd (fs_count acc name)) + length (filter Stats_Skipped (named_nodes name e)))"
proof (induction acc e rule: buildFunctionStats.induct)
  case (1 acc f nodes sk ca skipped cached children)
  show ?case
    unfolding buildFunctionStats.simps Let_def
    apply (subst fold_buildFunctionStats)
     apply (rule "1.IH" [OF refl refl refl refl refl], assumption)
    apply (auto simp: named_nodes_simp fs_count_def split: option.splits)
    done
qed

text \<open>The statistics of an evaluation count its tree exactly: the node count is the number of
  descendants of the root, the skipped count the number of nodes whose plan says skipped, the
  cached count the number of nodes that are cached or below a cached node; and the table per
  function counts, for each function name, the nodes of that name, the cached and the skipped ones.\<close>

theorem evaluation_stats_exact:
  "Stats_Nodes (BuildEvaluationStats pc e) + 1 = length (ne_nodes e)
   \<and> Stats_SkippedCount (BuildEvaluationStats pc e)
       = length (filter (\<lambda>n. Skipped (NE_EvaluationPlan n)) (ne_nodes e))
   \<and> Stats_CachedCount (BuildEvaluationStats pc e) = cached_nodes pc e
   \<and> fs_count (getFunctionStats (BuildEvaluationStats pc e)) name
       = (length (named_nodes name (BuildEvaluationStats pc e)),
          length (filter Stats_Cached (named_nodes name (BuildEvaluationStats pc e))),
          length (filter Stats_Skipped (named_nodes name (BuildEvaluationStats pc e))))"
  using Stats_Nodes_count [of pc e] Stats_Skipped_count [of pc e] Stats_Cached_count [of pc e]
  by (simp add: getFunctionStats_def buildFunctionStats_count) (simp add: fs_count_def)

section \<open>The label of an aggregator is not rendered\<close>

text \<open>\<open>relabel g\<close> replaces the label of every aggregator of a formula by \<open>g\<close> of it.\<close>

fun relabel :: "('f Node \<Rightarrow> 'f Node) \<Rightarrow> 'f Node \<Rightarrow> 'f Node" where
  "relabel g (Node i f c children named) = Node i f c (map (relabel g) children)
     (map (\<lambda>kn. (fst kn, if f = FUNC_AGGREGATOR \<and> fst kn = ''label'' then g (snd kn)
                         else relabel g (snd kn))) named)"

lemma relabel_simps [simp]:
  "Node_Function (relabel g n) = Node_Function n"
  "Node_Children (relabel g n) = map (relabel g) (Node_Children n)"
  by (cases n; simp)+

lemma relabel_rendered:
  "toHumanReadableWithDepth fmt fmtf upper depth (relabel g n)
     = toHumanReadableWithDepth fmt fmtf upper depth n"
proof (induction fmt fmtf upper depth n rule: toHumanReadableWithDepth.induct)
  case (1 fmt fmtf upper depth i f c children named)
  let ?r = "toHumanReadableWithDepth fmt fmtf upper (depth + 1)"
  show ?case
  proof (cases "f = FUNC_CONSTANT \<or> snd (Attributes f :: unit FuncAttributes \<times> go_error option) \<noteq> None")
    case True
    then show ?thesis by (auto split: prod.splits)
  next
    case False
    then obtain attrs where f: "f \<noteq> FUNC_CONSTANT"
      and attrs: "(Attributes f :: unit FuncAttributes \<times> go_error option) = (attrs, None)"
      by (metis prod.collapse)
    have c: "?r (relabel g x) = ?r x" if "x \<in> set children" for x
      using "1.IH"(1) [OF f attrs [symmetric] refl that] by simp
    have n: "?r (relabel g b) = ?r b" if "(a, b) \<in> set named" for a b
      using "1.IH"(2) [OF f attrs [symmetric] refl refl that] by simp
    have gc: "?r (relabel g y) = ?r y" if "(a, b) \<in> set named" "y \<in> set (Node_Children b)" for a b y
      using "1.IH"(3) [OF f attrs [symmetric] refl refl, of "(a, b)" y] that by simp
    let ?e = "\<lambda>kn. (fst kn, ?r (snd kn), Node_Function (snd kn), map ?r (Node_Children (snd kn)))"
    let ?P = "\<lambda>e. \<not> (f = FUNC_AGGREGATOR \<and> fst e = ''label'')"
    let ?l = "\<lambda>kn. (fst kn, if f = FUNC_AGGREGATOR \<and> fst kn = ''label'' then g (snd kn)
                         else relabel g (snd kn))"
    have entries: "filter ?P (sort_key fst (map ?e (map ?l named))) = filter ?P (sort_key fst (map ?e named))"
      unfolding filter_sort
      by (rule arg_cong [of _ _ "sort_key fst"])
        (auto simp: filter_map comp_def n [simplified] gc [simplified] intro!: map_cong filter_cong)
    show ?thesis
      using f attrs entries c by (simp add: Let_def comp_def cong: map_cong)
  qed
qed

text \<open>The readable rendering of a formula, which is handed to a language model, does not depend
  on the user-chosen labels of its aggregators, at any depth.\<close>

theorem label_not_rendered:
  "ToHumanReadable fmt fmtf upper (relabel g n) = ToHumanReadable fmt fmtf upper n"
  by (simp add: ToHumanReadable_def relabel_rendered)

end
