(* ===== verification/Eval_Errors.thy ===== *)
theory Eval_Errors
  imports Go_Prelude
begin

text \<open>
  The errors of formula evaluation (\<^verbatim>\<open>src/models/ast\<close>: \<open>evaluation_errors.go\<close>,
  \<open>argument_err.go\<close>, \<open>evaluation_error_dto.go\<close>, \<open>execution_error_dto.go\<close>): the sentinels, the code a
  client is shown for an error, and the classification stored with a rule execution.
\<close>

section \<open>Sentinels\<close>

definition ErrUndefinedFunction :: go_error where
  "ErrUndefinedFunction = ErrSentinel ''undefined function''"

definition ErrWrongNumberOfArgument :: go_error where
  "ErrWrongNumberOfArgument = ErrSentinel ''wrong number of arguments''"

definition ErrMissingNamedArgument :: go_error where
  "ErrMissingNamedArgument = ErrSentinel ''missing named argument''"

definition ErrArgumentMustBeIntOrFloat :: go_error where
  "ErrArgumentMustBeIntOrFloat = ErrSentinel ''arguments must be an integer or a float''"

definition ErrArgumentMustBeIntFloatOrTime :: go_error where
  "ErrArgumentMustBeIntFloatOrTime = ErrSentinel ''all arguments must be an integer, a float or a time''"

definition ErrArgumentMustBeStringOrList :: go_error where
  "ErrArgumentMustBeStringOrList = ErrSentinel ''arguments must be string or list''"

definition ErrArgumentMustBeInt :: go_error where
  "ErrArgumentMustBeInt = ErrSentinel ''arguments must be an integer''"

definition ErrArgumentMustBeString :: go_error where
  "ErrArgumentMustBeString = ErrSentinel ''arguments must be a string''"

definition ErrArgumentMustBeBool :: go_error where
  "ErrArgumentMustBeBool = ErrSentinel ''arguments must be a boolean''"

definition ErrArgumentMustBeList :: go_error where
  "ErrArgumentMustBeList = ErrSentinel ''arguments must be a list''"

definition ErrArgumentCantBeConvertedToDuration :: go_error where
  "ErrArgumentCantBeConvertedToDuration = ErrSentinel ''argument cant be converted to duration''"

definition ErrArgumentMustBeTime :: go_error where
  "ErrArgumentMustBeTime = ErrSentinel ''argument must be a time''"

definition ErrArgumentRequired :: go_error where
  "ErrArgumentRequired = ErrSentinel ''argument is required''"

definition ErrArgumentInvalidType :: go_error where
  "ErrArgumentInvalidType = ErrSentinel ''argument has an invalid type''"

definition ErrListNotFound :: go_error where
  "ErrListNotFound = ErrSentinel ''list not found''"

definition ErrFilterTableNotMatch :: go_error where
  "ErrFilterTableNotMatch = ErrSentinel ''filters must be applied on the same table''"

definition ErrAggregationFieldNotChosen :: go_error where
  "ErrAggregationFieldNotChosen = ErrSentinel ''aggregation field not chosen''"

definition ErrAggregationFieldIncompatibleAggregator :: go_error where
  "ErrAggregationFieldIncompatibleAggregator =
     ErrSentinel ''aggregation field is incompatible with the aggregator''"

definition ErrRuntimeExpression :: go_error where
  "ErrRuntimeExpression = ErrSentinel ''expression runtime error''"

definition ErrDivisionByZero :: go_error where
  "ErrDivisionByZero = ErrWrap ErrRuntimeExpression ''Division by zero''"

lemmas eval_error_defs = ErrUndefinedFunction_def ErrWrongNumberOfArgument_def
  ErrMissingNamedArgument_def ErrArgumentMustBeIntOrFloat_def ErrArgumentMustBeIntFloatOrTime_def
  ErrArgumentMustBeStringOrList_def ErrArgumentMustBeInt_def ErrArgumentMustBeString_def
  ErrArgumentMustBeBool_def ErrArgumentMustBeList_def ErrArgumentCantBeConvertedToDuration_def
  ErrArgumentMustBeTime_def ErrArgumentRequired_def ErrArgumentInvalidType_def ErrListNotFound_def
  ErrFilterTableNotMatch_def ErrAggregationFieldNotChosen_def
  ErrAggregationFieldIncompatibleAggregator_def ErrRuntimeExpression_def ErrDivisionByZero_def

section \<open>Argument errors\<close>

definition NewArgumentError :: "nat \<Rightarrow> go_error" where
  "NewArgumentError argumentIndex = ErrArgument (int argumentIndex) []"

definition NewNamedArgumentError :: "string \<Rightarrow> go_error" where
  "NewNamedArgumentError argumentName = ErrArgument (- 1) argumentName"

text \<open>\<open>errors.As\<close> on an \<open>ArgumentError\<close>: the first one of the chain, depth first.\<close>

fun errors_As_argument :: "go_error \<Rightarrow> (int \<times> string) option" where
  "errors_As_argument (ErrArgument i n) = Some (i, n)"
| "errors_As_argument (ErrSentinel m) = None"
| "errors_As_argument (ErrNew m) = None"
| "errors_As_argument (ErrWrap e m) = errors_As_argument e"
| "errors_As_argument (ErrJoin es) =
     foldr (\<lambda>e found. case errors_As_argument e of Some a \<Rightarrow> Some a | None \<Rightarrow> found) es None"

section \<open>The code shown for an error\<close>

record EvaluationErrorDto =
  EvaluationError :: string
  ArgumentIndex :: "int option"
  ArgumentName :: "string option"

definition evaluationErrorDtoMap :: "(go_error \<times> string) list" where
  "evaluationErrorDtoMap =
    [(ErrUndefinedFunction, ''UNDEFINED_FUNCTION''),
     (ErrWrongNumberOfArgument, ''WRONG_NUMBER_OF_ARGUMENTS''),
     (ErrMissingNamedArgument, ''MISSING_NAMED_ARGUMENT''),
     (ErrArgumentMustBeIntOrFloat, ''ARGUMENTS_MUST_BE_INT_OR_FLOAT''),
     (ErrArgumentMustBeIntFloatOrTime, ''ARGUMENTS_MUST_BE_INT_FLOAT_OR_TIME''),
     (ErrArgumentMustBeInt, ''ARGUMENT_MUST_BE_INTEGER''),
     (ErrArgumentMustBeString, ''ARGUMENT_MUST_BE_STRING''),
     (ErrArgumentMustBeBool, ''ARGUMENT_MUST_BE_BOOLEAN''),
     (ErrArgumentMustBeList, ''ARGUMENT_MUST_BE_LIST''),
     (ErrArgumentMustBeStringOrList, ''ARGUMENT_MUST_BE_STRING_OR_LIST''),
     (ErrArgumentCantBeConvertedToDuration, ''ARGUMENT_MUST_BE_CONVERTIBLE_TO_DURATION''),
     (ErrArgumentMustBeTime, ''ARGUMENT_MUST_BE_TIME''),
     (ErrArgumentRequired, ''ARGUMENT_REQUIRED''),
     (ErrArgumentInvalidType, ''ARGUMENT_INVALID_TYPE''),
     (ErrListNotFound, ''LIST_NOT_FOUND''),
     (ErrFilterTableNotMatch, ''FILTERS_TABLE_NOT_MATCH''),
     (ErrAggregationFieldNotChosen, ''AGGREGATION_FIELD_NOT_CHOSEN''),
     (ErrAggregationFieldIncompatibleAggregator, ''AGGREGATION_FIELD_INCOMPATIBLE_WITH_AGGREGATOR''),
     (ErrDivisionByZero, ''DIVISION_BY_ZERO''),
     (ErrRuntimeExpression, ''RUNTIME_EXPRESSION_ERROR'')]"

fun error_code :: "(go_error \<times> string) list \<Rightarrow> go_error \<Rightarrow> string" where
  "error_code [] e = ''UNEXPECTED_ERROR''"
| "error_code ((err, code) # rest) e = (if errors_is e err then code else error_code rest e)"

text \<open>The \<open>Message\<close> field of the result is left out.\<close>

definition AdaptEvaluationErrorDto :: "go_error option \<Rightarrow> EvaluationErrorDto" where
  "AdaptEvaluationErrorDto err = (case err of
     None \<Rightarrow> \<lparr>EvaluationError = ''UNEXPECTED_ERROR'', ArgumentIndex = None, ArgumentName = None\<rparr>
   | Some e \<Rightarrow>
      (let arg = errors_As_argument e
       in \<lparr>EvaluationError = error_code evaluationErrorDtoMap e,
           ArgumentIndex = (case arg of Some (i, n) \<Rightarrow> (if i \<ge> 0 then Some i else None) | None \<Rightarrow> None),
           ArgumentName = (case arg of Some (i, n) \<Rightarrow> (if n \<noteq> [] then Some n else None) | None \<Rightarrow> None)\<rparr>))"

section \<open>Classification of execution errors\<close>

datatype ExecutionError = NoError | DivisionByZero | NullFieldRead | UnknownExecutionError
  | NoRowsRead | PayloadFieldNotFound

fun ExecutionError_int :: "ExecutionError \<Rightarrow> int" where
  "ExecutionError_int NoError = 0"
| "ExecutionError_int DivisionByZero = 100"
| "ExecutionError_int NullFieldRead = 200"
| "ExecutionError_int UnknownExecutionError = - 1"
| "ExecutionError_int NoRowsRead = 201"
| "ExecutionError_int PayloadFieldNotFound = 202"

fun ExecutionError_String :: "ExecutionError \<Rightarrow> string" where
  "ExecutionError_String DivisionByZero = ''A division by zero occurred in a rule''"
| "ExecutionError_String NullFieldRead = ''A field read in a rule is null''"
| "ExecutionError_String NoRowsRead = ''No rows were read from db in a rule''"
| "ExecutionError_String PayloadFieldNotFound = ''A payload field was not found in a rule''"
| "ExecutionError_String UnknownExecutionError = ''Unknown error''"
| "ExecutionError_String NoError = []"

definition AdaptExecutionError :: "go_error option \<Rightarrow> ExecutionError" where
  "AdaptExecutionError err = (case err of
     None \<Rightarrow> NoError
   | Some e \<Rightarrow> if errors_is e ErrDivisionByZero then DivisionByZero else UnknownExecutionError)"

definition ExecutionAuthorizedErrors :: "go_error list" where
  "ExecutionAuthorizedErrors = [ErrDivisionByZero]"

definition IsAuthorizedError :: "go_error option \<Rightarrow> bool" where
  "IsAuthorizedError err = (case err of None \<Rightarrow> False
     | Some e \<Rightarrow> list_ex (\<lambda>authorizedError. errors_is e authorizedError) ExecutionAuthorizedErrors)"

section \<open>Lemmas\<close>

lemma IsAuthorizedError_iff:
  "IsAuthorizedError (Some e) \<longleftrightarrow> AdaptExecutionError (Some e) = DivisionByZero"
  by (simp add: IsAuthorizedError_def AdaptExecutionError_def ExecutionAuthorizedErrors_def)

text \<open>Adding a context that is itself not an entry of the table does not change the code.\<close>

lemma error_code_cong:
  "(\<And>t. t \<in> fst ` set table \<Longrightarrow> errors_is e t = errors_is e' t) \<Longrightarrow>
     error_code table e = error_code table e'"
  by (induction table) auto

lemma table_entries: "t \<in> fst ` set evaluationErrorDtoMap \<Longrightarrow>
    (\<exists>m. t = ErrSentinel m) \<or> t = ErrDivisionByZero"
  by (auto simp: evaluationErrorDtoMap_def eval_error_defs)

lemma error_code_wrap:
  assumes "ErrWrap e m \<noteq> ErrDivisionByZero"
  shows "error_code evaluationErrorDtoMap (ErrWrap e m) = error_code evaluationErrorDtoMap e"
  using assms by (intro error_code_cong) (auto dest!: table_entries)

lemma error_code_argument:
  "error_code evaluationErrorDtoMap (ErrJoin [e, ErrArgument i n]) = error_code evaluationErrorDtoMap e"
  by (intro error_code_cong) (auto dest!: table_entries simp: ErrDivisionByZero_def)

lemma error_code_sorted:
  "sorted_wrt (\<lambda>a b. \<not> errors_is (fst b) (fst a)) table \<Longrightarrow> (err, code) \<in> set table \<Longrightarrow>
     error_code table err = code"
  by (induction table) auto

text \<open>The sentinels are told apart by the length of their messages and the number of \<open>m\<close> in them.\<close>

fun err_key :: "go_error \<Rightarrow> nat \<times> nat \<times> bool" where
  "err_key (ErrSentinel m) = (length m, length (filter ((=) CHR ''m'') m), False)"
| "err_key (ErrWrap e m) = (fst (err_key e), fst (snd (err_key e)), True)"
| "err_key _ = (0, 0, True)"

lemma table_keys: "map (err_key \<circ> fst) evaluationErrorDtoMap =
   [(18, 0, False), (25, 2, False), (22, 3, False), (39, 2, False), (51, 3, False),
    (28, 2, False), (26, 2, False), (27, 2, False), (24, 2, False), (32, 2, False),
    (38, 1, False), (23, 3, False), (20, 1, False), (28, 1, False), (14, 0, False),
    (41, 2, False), (28, 0, False), (53, 1, False), (24, 1, True), (24, 1, False)]"
  by (simp add: evaluationErrorDtoMap_def eval_error_defs)

definition key_order :: "nat \<times> nat \<times> bool \<Rightarrow> nat \<times> nat \<times> bool \<Rightarrow> bool" where
  "key_order a b \<longleftrightarrow> (fst a, fst (snd a)) \<noteq> (fst b, fst (snd b)) \<or> snd (snd a) \<and> \<not> snd (snd b)"

lemma key_order_errors_is:
  assumes "key_order (err_key a) (err_key b)"
    and "(\<exists>m. a = ErrSentinel m) \<or> a = ErrDivisionByZero" "(\<exists>m. b = ErrSentinel m) \<or> b = ErrDivisionByZero"
  shows "\<not> errors_is b a"
  using assms by (auto simp: key_order_def ErrDivisionByZero_def ErrRuntimeExpression_def simp del: errors_is.simps(2))

lemma table_order: "sorted_wrt (\<lambda>a b. \<not> errors_is (fst b) (fst a)) evaluationErrorDtoMap"
proof -
  have "sorted_wrt key_order (map (err_key \<circ> fst) evaluationErrorDtoMap)"
    unfolding table_keys by (simp add: key_order_def)
  then have "sorted_wrt (\<lambda>a b. key_order (err_key (fst a)) (err_key (fst b))) evaluationErrorDtoMap"
    by (simp add: sorted_wrt_map)
  then show ?thesis
    by (rule sorted_wrt_mono_rel [rotated]) (rule key_order_errors_is, auto intro!: table_entries)
qed

lemmas error_code_entry = error_code_sorted [OF table_order]

lemma no_argument_entry:
  "(err, code) \<in> set evaluationErrorDtoMap \<Longrightarrow> errors_As_argument err = None"
  using table_entries [of err] by (force simp: ErrDivisionByZero_def ErrRuntimeExpression_def)

text \<open>Every evaluation error keeps its own code when it is wrapped once more and joined with the
  argument it concerns: the code shown is the one of the error, not of another entry of the table,
  and the argument's index or name is shown beside it. A division by zero is reported as such and
  not as the more general runtime error it wraps. (The excluded wrapping is the one that rebuilds
  the division-by-zero error itself.)\<close>

theorem error_code_reported:
  assumes "(err, code) \<in> set evaluationErrorDtoMap" "ErrWrap err m \<noteq> ErrDivisionByZero"
  shows "AdaptEvaluationErrorDto (Some (ErrWrap err m)) =
      \<lparr>EvaluationError = code, ArgumentIndex = None, ArgumentName = None\<rparr>
   \<and> AdaptEvaluationErrorDto (errors_Join [Some (ErrWrap err m), Some (NewArgumentError k)]) =
      \<lparr>EvaluationError = code, ArgumentIndex = Some (int k), ArgumentName = None\<rparr>
   \<and> (name \<noteq> [] \<longrightarrow>
      AdaptEvaluationErrorDto (errors_Join [Some (ErrWrap err m), Some (NewNamedArgumentError name)]) =
      \<lparr>EvaluationError = code, ArgumentIndex = None, ArgumentName = Some name\<rparr>)"
  using error_code_entry [OF assms(1)] no_argument_entry [OF assms(1)] error_code_wrap [OF assms(2)]
  by (simp add: AdaptEvaluationErrorDto_def errors_Join_def NewArgumentError_def
      NewNamedArgumentError_def error_code_argument)

theorem error_code_reported_witness:
  "AdaptEvaluationErrorDto (Some (ErrWrap ErrDivisionByZero ''Zero division error'')) =
      \<lparr>EvaluationError = ''DIVISION_BY_ZERO'', ArgumentIndex = None, ArgumentName = None\<rparr>
   \<and> AdaptEvaluationErrorDto (errors_Join [Some (ErrWrap ErrDivisionByZero ''Zero division error''),
       Some (NewNamedArgumentError ''value'')]) =
      \<lparr>EvaluationError = ''DIVISION_BY_ZERO'', ArgumentIndex = None, ArgumentName = Some ''value''\<rparr>"
  using error_code_reported [of ErrDivisionByZero "''DIVISION_BY_ZERO''" "''Zero division error''" 0 "''value''"]
  by (simp add: evaluationErrorDtoMap_def ErrDivisionByZero_def)

end
