(* ===== verification/Iso_Duration.thy ===== *)
theory Iso_Duration
  imports Go_Runtime
begin

text \<open>
  ISO 8601 durations (\<^verbatim>\<open>src/pure_utils/duration/duration.go\<close>): the parser as a loop over the
  runes of its input with the state of the Go loop (the current part and the digits read so far),
  the printer, and the conversion to nanoseconds.

  A rune is its code point. \<open>strconv.ParseFloat\<close>, \<open>strconv.FormatFloat\<close> and \<open>unicode.IsNumber\<close> are
  parameters. The conversion from \<open>time.Duration\<close>, which no other code calls, is left out.
\<close>

type_synonym rune = nat

definition rn :: "char \<Rightarrow> rune" where
  "rn c = of_char c"

definition runes :: "string \<Rightarrow> rune list" where
  "runes s = map rn s"

record 'f Duration =
  Years :: 'f
  Months :: 'f
  Weeks :: 'f
  Days :: 'f
  Hours :: 'f
  Minutes :: 'f
  Seconds :: 'f
  Negative :: bool

definition zero_duration :: "'f float_ops \<Rightarrow> 'f Duration" where
  "zero_duration F = (let z = F_of_int F 0 in
     \<lparr>Years = z, Months = z, Weeks = z, Days = z, Hours = z, Minutes = z, Seconds = z, Negative = False\<rparr>)"

definition ErrUnexpectedInput :: go_error where
  "ErrUnexpectedInput = ErrSentinel ''unexpected input''"

datatype parsing_state = parsingPeriod | parsingTime

definition hoursPerDay :: int where "hoursPerDay = 24"
definition hoursPerWeek :: int where "hoursPerWeek = hoursPerDay * 7"
definition hoursPerYear :: int where "hoursPerYear = hoursPerDay * 365"
definition hoursPerMonth :: int where "hoursPerMonth = hoursPerYear div 12"
definition nsPerSecond :: int where "nsPerSecond = 1000000000"
definition nsPerMinute :: int where "nsPerMinute = nsPerSecond * 60"
definition nsPerHour :: int where "nsPerHour = nsPerMinute * 60"
definition nsPerDay :: int where "nsPerDay = nsPerHour * hoursPerDay"
definition nsPerWeek :: int where "nsPerWeek = nsPerHour * hoursPerWeek"
definition nsPerMonth :: int where "nsPerMonth = nsPerHour * hoursPerMonth"
definition nsPerYear :: int where "nsPerYear = nsPerHour * hoursPerYear"

lemmas duration_consts = hoursPerDay_def hoursPerWeek_def hoursPerYear_def hoursPerMonth_def
  nsPerSecond_def nsPerMinute_def nsPerHour_def nsPerDay_def nsPerWeek_def nsPerMonth_def nsPerYear_def

section \<open>Parsing\<close>

record 'f duration_lib =
  parseFloat :: "rune list \<Rightarrow> go_error + 'f"
  formatFloat :: "'f \<Rightarrow> rune list"
  isNumber :: "rune \<Rightarrow> bool"

text \<open>\<open>set_field\<close> is one designator's case: parse the digits, store the value, clear the digits.\<close>

definition set_field ::
    "'f duration_lib \<Rightarrow> ('f \<Rightarrow> 'f Duration \<Rightarrow> 'f Duration) \<Rightarrow> rune list \<Rightarrow> 'f Duration
     \<Rightarrow> go_error + 'f Duration" where
  "set_field L upd num d = (case parseFloat L num of Inl e \<Rightarrow> Inl e | Inr x \<Rightarrow> Inr (upd x d))"

text \<open>One pass through the \<open>switch\<close>: the new state, digits and duration, or the error.\<close>

definition Parse_step ::
    "'f duration_lib \<Rightarrow> rune \<Rightarrow> parsing_state \<times> rune list \<times> 'f Duration
     \<Rightarrow> go_error + (parsing_state \<times> rune list \<times> 'f Duration)" where
  "Parse_step L c st = (case st of (state, num, d) \<Rightarrow>
     let stored = (\<lambda>upd. map_sum id (\<lambda>d'. (state, [], d')) (set_field L upd num d)) in
     if c = rn CHR ''-'' then Inr (state, num, d\<lparr>Negative := True\<rparr>)
     else if c = rn CHR ''P'' then Inr (parsingPeriod, num, d)
     else if c = rn CHR ''T'' then Inr (parsingTime, num, d)
     else if c = rn CHR ''Y'' then
       (if state \<noteq> parsingPeriod then Inl ErrUnexpectedInput else stored (\<lambda>x d. d\<lparr>Years := x\<rparr>))
     else if c = rn CHR ''M'' then
       (if state = parsingPeriod then stored (\<lambda>x d. d\<lparr>Months := x\<rparr>)
        else stored (\<lambda>x d. d\<lparr>Minutes := x\<rparr>))
     else if c = rn CHR ''W'' then
       (if state \<noteq> parsingPeriod then Inl ErrUnexpectedInput else stored (\<lambda>x d. d\<lparr>Weeks := x\<rparr>))
     else if c = rn CHR ''D'' then
       (if state \<noteq> parsingPeriod then Inl ErrUnexpectedInput else stored (\<lambda>x d. d\<lparr>Days := x\<rparr>))
     else if c = rn CHR ''H'' then
       (if state \<noteq> parsingTime then Inl ErrUnexpectedInput else stored (\<lambda>x d. d\<lparr>Hours := x\<rparr>))
     else if c = rn CHR ''S'' then
       (if state \<noteq> parsingTime then Inl ErrUnexpectedInput else stored (\<lambda>x d. d\<lparr>Seconds := x\<rparr>))
     else if isNumber L c \<or> c = rn CHR ''.'' then Inr (state, num @ [c], d)
     else Inl ErrUnexpectedInput)"

fun Parse_loop ::
    "'f duration_lib \<Rightarrow> rune list \<Rightarrow> parsing_state \<times> rune list \<times> 'f Duration
     \<Rightarrow> go_error + (parsing_state \<times> rune list \<times> 'f Duration)" where
  "Parse_loop L [] st = Inr st"
| "Parse_loop L (c # cs) st =
     (case Parse_step L c st of Inl e \<Rightarrow> Inl e | Inr st' \<Rightarrow> Parse_loop L cs st')"

definition Parse :: "'f float_ops \<Rightarrow> 'f duration_lib \<Rightarrow> rune list \<Rightarrow> go_error + 'f Duration" where
  "Parse F L d = map_sum id (\<lambda>st. snd (snd st)) (Parse_loop L d (parsingPeriod, [], zero_duration F))"

section \<open>Printing\<close>

text \<open>\<open>appendD\<close> on the pair of the text so far and \<open>hasTime\<close>.\<close>

definition appendD ::
    "'f duration_lib \<Rightarrow> char \<Rightarrow> 'f \<Rightarrow> bool \<Rightarrow> rune list \<times> bool \<Rightarrow> rune list \<times> bool" where
  "appendD L designator value isTime st =
     (let (d, hasTime) = st;
          (d, hasTime) = (if \<not> hasTime \<and> isTime then (d @ runes ''T'', True) else (d, hasTime))
      in (d @ formatFloat L value @ [rn designator], hasTime))"

definition append_field ::
    "'f float_ops \<Rightarrow> 'f duration_lib \<Rightarrow> char \<Rightarrow> 'f \<Rightarrow> bool \<Rightarrow> rune list \<times> bool \<Rightarrow> rune list \<times> bool" where
  "append_field F L designator value isTime st =
     (if \<not> F_eq F value (F_of_int F 0) then appendD L designator value isTime st else st)"

definition Duration_String :: "'f float_ops \<Rightarrow> 'f duration_lib \<Rightarrow> 'f Duration \<Rightarrow> rune list" where
  "Duration_String F L duration =
     (let st = (runes ''P'', False);
          st = append_field F L CHR ''Y'' (Years duration) False st;
          st = append_field F L CHR ''M'' (Months duration) False st;
          st = append_field F L CHR ''W'' (Weeks duration) False st;
          st = append_field F L CHR ''D'' (Days duration) False st;
          st = append_field F L CHR ''H'' (Hours duration) True st;
          st = append_field F L CHR ''M'' (Minutes duration) True st;
          st = append_field F L CHR ''S'' (Seconds duration) True st;
          d = (if fst st = runes ''P'' then fst st @ runes ''T0S'' else fst st)
      in if Negative duration then runes ''-'' @ d else d)"

section \<open>Conversion to nanoseconds\<close>

definition add_unit :: "'f float_ops \<Rightarrow> 'f \<Rightarrow> int \<Rightarrow> int \<Rightarrow> int" where
  "add_unit F value ns acc =
     (if \<not> F_eq F value (F_of_int F 0)
      then wrap64 (acc + F_to_int F (F_round F (F_mul F value (F_of_int F ns))))
      else acc)"

definition ToTimeDuration :: "'f float_ops \<Rightarrow> 'f Duration \<Rightarrow> int" where
  "ToTimeDuration F duration =
     (let t = add_unit F (Years duration) nsPerYear 0;
          t = add_unit F (Months duration) nsPerMonth t;
          t = add_unit F (Weeks duration) nsPerWeek t;
          t = add_unit F (Days duration) nsPerDay t;
          t = add_unit F (Hours duration) nsPerHour t;
          t = add_unit F (Minutes duration) nsPerMinute t;
          t = add_unit F (Seconds duration) nsPerSecond t
      in if Negative duration then wrap64 (- t) else t)"

section \<open>Parsing what is printed\<close>

text \<open>
  What the round trip uses of the standard library for a value that is printed: its text is made of
  digits and dots, parsing the text gives the value back, and only zero compares equal to zero.
\<close>

definition number_rune :: "'f duration_lib \<Rightarrow> rune \<Rightarrow> bool" where
  "number_rune L c \<longleftrightarrow> (isNumber L c \<or> c = rn CHR ''.'') \<and> c \<notin> set (runes ''-PTYMWDHS'')"

definition printable :: "'f float_ops \<Rightarrow> 'f duration_lib \<Rightarrow> 'f \<Rightarrow> bool" where
  "printable F L x \<longleftrightarrow> list_all (number_rune L) (formatFloat L x)
     \<and> parseFloat L (formatFloat L x) = Inr x
     \<and> (F_eq F x (F_of_int F 0) \<longleftrightarrow> x = F_of_int F 0)"

definition prints_zero :: "'f float_ops \<Rightarrow> 'f duration_lib \<Rightarrow> bool" where
  "prints_zero F L \<longleftrightarrow> number_rune L (rn CHR ''0'') \<and> parseFloat L (runes ''0'') = Inr (F_of_int F 0)"

lemmas rune_defs = runes_def rn_def

lemma Parse_loop_append:
  "Parse_loop L (xs @ ys) st = (case Parse_loop L xs st of Inl e \<Rightarrow> Inl e | Inr st' \<Rightarrow> Parse_loop L ys st')"
  by (induction xs arbitrary: st) (auto split: sum.splits)

lemma Parse_step_number: "number_rune L c \<Longrightarrow> Parse_step L c (state, num, d) = Inr (state, num @ [c], d)"
  by (auto simp: Parse_step_def number_rune_def rune_defs Let_def)

lemma Parse_step_marks [simp]:
  "Parse_step L (rn CHR ''-'') (state, num, d) = Inr (state, num, d\<lparr>Negative := True\<rparr>)"
  "Parse_step L (rn CHR ''P'') (state, num, d) = Inr (parsingPeriod, num, d)"
  "Parse_step L (rn CHR ''T'') (state, num, d) = Inr (parsingTime, num, d)"
  by (simp_all add: Parse_step_def rune_defs)

lemma Parse_loop_number:
  "list_all (number_rune L) ds \<Longrightarrow> Parse_loop L ds (state, num, d) = Inr (state, num @ ds, d)"
  by (induction ds arbitrary: num) (auto simp: Parse_step_number)

text \<open>A number without a designator is accepted and ignored: the result is the zero duration.\<close>

lemma Parse_ignores_digits: "list_all (number_rune L) ds \<Longrightarrow> Parse F L ds = Inr (zero_duration F)"
  by (simp add: Parse_def Parse_loop_number)

text \<open>\<open>parsed L init st d\<close>: the text printed so far parses, from the duration \<open>init\<close>, to \<open>d\<close>.\<close>

definition parsed :: "'f duration_lib \<Rightarrow> 'f Duration \<Rightarrow> rune list \<times> bool \<Rightarrow> 'f Duration \<Rightarrow> bool" where
  "parsed L init st d \<longleftrightarrow> Parse_loop L (fst st) (parsingPeriod, [], init)
     = Inr (if snd st then parsingTime else parsingPeriod, [], d)"

text \<open>The designator \<open>c\<close> stores its number with \<open>upd\<close> in the part of the text it belongs to.\<close>

definition designates ::
    "'f duration_lib \<Rightarrow> char \<Rightarrow> bool \<Rightarrow> ('f \<Rightarrow> 'f Duration \<Rightarrow> 'f Duration) \<Rightarrow> bool" where
  "designates L c isTime upd \<longleftrightarrow>
     (\<forall>num d x. parseFloat L num = Inr x \<longrightarrow>
       Parse_step L (rn c) (if isTime then parsingTime else parsingPeriod, num, d)
         = Inr (if isTime then parsingTime else parsingPeriod, [], upd x d))"

lemma designators:
  "designates L CHR ''Y'' False (\<lambda>x d. d\<lparr>Years := x\<rparr>)"
  "designates L CHR ''M'' False (\<lambda>x d. d\<lparr>Months := x\<rparr>)"
  "designates L CHR ''W'' False (\<lambda>x d. d\<lparr>Weeks := x\<rparr>)"
  "designates L CHR ''D'' False (\<lambda>x d. d\<lparr>Days := x\<rparr>)"
  "designates L CHR ''H'' True (\<lambda>x d. d\<lparr>Hours := x\<rparr>)"
  "designates L CHR ''M'' True (\<lambda>x d. d\<lparr>Minutes := x\<rparr>)"
  "designates L CHR ''S'' True (\<lambda>x d. d\<lparr>Seconds := x\<rparr>)"
  by (simp_all add: designates_def Parse_step_def rune_defs set_field_def Let_def)

lemma parsed_appendD:
  assumes "parsed L init st d" "designates L c isTime upd" "snd st \<longrightarrow> isTime"
    and "list_all (number_rune L) (formatFloat L v)" "parseFloat L (formatFloat L v) = Inr v"
  shows "parsed L init (appendD L c v isTime st) (upd v d)"
  using assms
  by (cases st; cases isTime)
    (auto simp: parsed_def appendD_def Let_def Parse_loop_append Parse_loop_number designates_def runes_def)

lemma parsed_append_field:
  assumes "parsed L init st d" "designates L c isTime upd" "snd st \<longrightarrow> isTime" "printable F L v"
    and "v = F_of_int F 0 \<Longrightarrow> upd v d = d"
  shows "parsed L init (append_field F L c v isTime st) (upd v d)"
    and "snd (append_field F L c v isTime st) \<longrightarrow> isTime"
  using assms parsed_appendD [of L init st d c isTime upd v]
  by (auto simp: append_field_def printable_def appendD_def Let_def split: prod.splits)

definition init_duration :: "'f float_ops \<Rightarrow> bool \<Rightarrow> 'f Duration" where
  "init_duration F neg = (zero_duration F)\<lparr>Negative := neg\<rparr>"

definition fields_printable :: "'f float_ops \<Rightarrow> 'f duration_lib \<Rightarrow> 'f Duration \<Rightarrow> bool" where
  "fields_printable F L d \<longleftrightarrow> list_all (printable F L)
     [Years d, Months d, Weeks d, Days d, Hours d, Minutes d, Seconds d]"

definition fields_text :: "'f float_ops \<Rightarrow> 'f duration_lib \<Rightarrow> 'f Duration \<Rightarrow> rune list \<times> bool" where
  "fields_text F L d =
     append_field F L CHR ''S'' (Seconds d) True (append_field F L CHR ''M'' (Minutes d) True
       (append_field F L CHR ''H'' (Hours d) True (append_field F L CHR ''D'' (Days d) False
         (append_field F L CHR ''W'' (Weeks d) False (append_field F L CHR ''M'' (Months d) False
           (append_field F L CHR ''Y'' (Years d) False (runes ''P'', False)))))))"

lemma parsed_fields:
  assumes "fields_printable F L d"
  shows "parsed L (init_duration F (Negative d)) (fields_text F L d) d"
proof -
  let ?z = "init_duration F (Negative d)"
  note step = parsed_append_field
  have p: "printable F L (Years d)" "printable F L (Months d)" "printable F L (Weeks d)"
      "printable F L (Days d)" "printable F L (Hours d)" "printable F L (Minutes d)"
      "printable F L (Seconds d)"
    using assms by (simp_all add: fields_printable_def)
  have s0: "parsed L ?z (runes ''P'', False) ?z" "snd (runes ''P'', False) \<longrightarrow> False"
    by (simp_all add: parsed_def runes_def)
  note s1 = step [OF s0(1) designators(1) s0(2) p(1)]
  note s2 = step [OF s1(1) designators(2) s1(2) p(2)]
  note s3 = step [OF s2(1) designators(3) s2(2) p(3)]
  note s4 = step [OF s3(1) designators(4) s3(2) p(4)]
  note s5 = step [OF s4(1) designators(5) _ p(5)]
  note s6 = step [OF s5(1) designators(6) s5(2) p(6)]
  note s7 = step [OF s6(1) designators(7) s6(2) p(7)]
  have "parsed L ?z (fields_text F L d)
     (?z\<lparr>Years := Years d, Months := Months d, Weeks := Weeks d, Days := Days d, Hours := Hours d,
        Minutes := Minutes d, Seconds := Seconds d\<rparr>)"
    unfolding fields_text_def using s4(2)
    by (intro s7) (simp_all add: init_duration_def zero_duration_def Let_def)
  then show ?thesis
    by (cases d) (simp add: init_duration_def zero_duration_def Let_def)
qed

lemma Duration_String_text:
  "Duration_String F L d = (if Negative d then runes ''-'' else [])
     @ (if fst (fields_text F L d) = runes ''P'' then runes ''PT0S'' else fst (fields_text F L d))"
  by (simp add: Duration_String_def fields_text_def Let_def runes_def)

lemma Parse_loop_body:
  assumes "fields_printable F L d" "prints_zero F L"
  shows "Parse_loop L (if fst (fields_text F L d) = runes ''P'' then runes ''PT0S''
       else fst (fields_text F L d)) (parsingPeriod, [], init_duration F (Negative d))
     = Inr (if fst (fields_text F L d) = runes ''P'' \<or> snd (fields_text F L d)
            then parsingTime else parsingPeriod, [], d)"
proof (cases "fst (fields_text F L d) = runes ''P''")
  case True
  with parsed_fields [OF assms(1)] have "d = init_duration F (Negative d)"
    by (simp add: parsed_def runes_def)
  then obtain neg where d: "d = init_duration F neg" by blast
  have "Parse_step L (rn CHR ''S'') (parsingTime, runes ''0'', init_duration F neg)
      = Inr (parsingTime, [], (init_duration F neg)\<lparr>Seconds := F_of_int F 0\<rparr>)"
    using designators(7) [of L] assms(2) by (simp add: designates_def prints_zero_def)
  moreover have "(init_duration F neg)\<lparr>Seconds := F_of_int F 0\<rparr> = init_duration F neg"
    "Negative (init_duration F neg) = neg"
    by (simp_all add: init_duration_def zero_duration_def Let_def)
  ultimately show ?thesis
    using True assms(2) unfolding d
    by (simp add: runes_def prints_zero_def Parse_step_number)
next
  case False
  then show ?thesis
    using parsed_fields [OF assms(1)] by (simp add: parsed_def)
qed

text \<open>C40: A duration that is printed and parsed again is the same duration: designators, the
  separator before the time part, the sign and the zero duration all survive, provided the standard
  library's number text does.\<close>

theorem duration_roundtrip:
  assumes "fields_printable F L d" "prints_zero F L"
  shows "Parse F L (Duration_String F L d) = Inr d"
proof -
  have "zero_duration F = init_duration F False"
    "(init_duration F False)\<lparr>Negative := True\<rparr> = init_duration F True"
    by (simp_all add: init_duration_def zero_duration_def Let_def)
  then show ?thesis
    using Parse_loop_body [OF assms]
    by (cases "Negative d") (simp_all add: Parse_def Duration_String_text runes_def del: split_paired_All)
qed

text \<open>A library on integers written in decimal digits, for the examples.\<close>

definition digit_value :: "rune \<Rightarrow> int" where
  "digit_value c = int c - 48"

definition dec_lib :: "int duration_lib" where
  "dec_lib = \<lparr>parseFloat = (\<lambda>ds. if ds = [] then Inl (ErrNew ''invalid syntax'')
       else Inr (fold (\<lambda>c acc. acc * 10 + digit_value c) ds 0)),
     formatFloat = (\<lambda>x. if x < 10 then [nat (x + 48)] else [nat (x div 10 + 48), nat (x mod 10 + 48)]),
     isNumber = (\<lambda>c. 48 \<le> c \<and> c \<le> 57)\<rparr>"

definition int_ops :: "int float_ops" where
  "int_ops = \<lparr>F_of_int = id, F_of_f32 = id, F_add = (+), F_sub = (-), F_mul = (*), F_div = (div),
     F_lt = (<), F_le = (\<le>), F_eq = (=), F_abs = abs, F_round = id, F_to_int = id, F_1e8 = 0\<rparr>"

definition example_duration :: "int Duration" where
  "example_duration = \<lparr>Years = 3, Months = 0, Weeks = 0, Days = 4, Hours = 12, Minutes = 30,
     Seconds = 0, Negative = True\<rparr>"

theorem duration_roundtrip_witness:
  "Parse int_ops dec_lib (runes ''-P3Y4DT12H30M'') = Inr example_duration"
proof -
  have "Duration_String int_ops dec_lib example_duration = runes ''-P3Y4DT12H30M''"
    by (simp add: Duration_String_def append_field_def appendD_def example_duration_def int_ops_def
        dec_lib_def rune_defs)
  moreover have "fields_printable int_ops dec_lib example_duration" "prints_zero int_ops dec_lib"
    by (simp_all add: fields_printable_def printable_def prints_zero_def number_rune_def
        example_duration_def int_ops_def dec_lib_def digit_value_def rune_defs)
  ultimately show ?thesis
    using duration_roundtrip [of int_ops dec_lib example_duration] by simp
qed

end
