(* ===== verification/Evaluators.thy ===== *)
theory Evaluators
  imports Ast_Node Eval_Errors Iso_Duration
begin

text \<open>
  The evaluators of pure functions (\<^verbatim>\<open>src/usecases/ast_eval/evaluate\<close>): the argument adapters of
  \<open>adaptArgument.go\<close>, \<open>to_int64.go\<close>, \<open>to_float64.go\<close> and \<open>helpers.go\<close>, then one definition per
  \<open>Evaluate\<close> method.

  A result is the value and the list of errors, as in Go; the nil and the empty error slice, which
  no caller distinguishes, are both the empty list. \<open>IsMultipleOf\<close> can panic, so its result is an
  option whose \<open>None\<close> is the panic.

  A named argument map is a partial function. Error messages are kept without their formatted
  arguments.
\<close>

record 'f eval_lib = "'f float_ops" +
  Normalize :: "string \<Rightarrow> string"
  ToLower :: "string \<Rightarrow> string"
  Format_v :: "'f val \<Rightarrow> string"
  DecodeRunes :: "string \<Rightarrow> rune list"
  DurationLib :: "'f duration_lib"
  Time_ParseDuration :: "string \<Rightarrow> int option"
  Time_Parse_RFC3339 :: "string \<Rightarrow> go_error + int"
  Time_Now :: int

type_synonym 'f eval_result = "'f val \<times> go_error list"

record 'f Arguments =
  Args :: "'f val list"
  NamedArgs :: "string \<rightharpoonup> 'f val"

section \<open>Conversions to numbers\<close>

definition ToInt64 :: "'f val \<Rightarrow> go_error + int" where
  "ToInt64 v = (case v of
     VInt k x \<Rightarrow>
       (if k = Kuint64 \<and> x > max_int64 then Inl (ErrNew ''uint64 value is too large to be converted to int64'')
        else Inr (wrap64 x))
   | _ \<Rightarrow> Inl (ErrNew ''value cannot be converted to int64''))"

definition ToFloat64 :: "('f, 'z) float_ops_scheme \<Rightarrow> 'f val \<Rightarrow> go_error + 'f" where
  "ToFloat64 F v = (case v of
     VInt k x \<Rightarrow> Inr (F_of_int F x)
   | VFloat Kfloat32 x \<Rightarrow> Inr (F_of_f32 F x)
   | VFloat Kfloat64 x \<Rightarrow> Inr x
   | _ \<Rightarrow> Inl (ErrNew ''value cannot be converted to float64''))"

section \<open>Argument adapters\<close>

definition argumentNotNil :: "'f val \<Rightarrow> go_error option" where
  "argumentNotNil argument = (if argument = VNil then Some ErrArgumentRequired else None)"

text \<open>The early return on a nil argument that every adapter starts with.\<close>

definition unless_nil :: "'f val \<Rightarrow> (go_error + 'a) \<Rightarrow> go_error + 'a" where
  "unless_nil argument r = (case argumentNotNil argument of Some err \<Rightarrow> Inl err | None \<Rightarrow> r)"

definition promoteArgumentToInt64 :: "'f val \<Rightarrow> go_error + int" where
  "promoteArgumentToInt64 argument = unless_nil argument
     (case ToInt64 argument of
        Inl err \<Rightarrow> Inl (ErrJoin [ErrWrap ErrArgumentMustBeInt ''can't promote argument to int64'', err])
      | Inr result \<Rightarrow> Inr result)"

definition promoteArgumentToFloat64 :: "('f, 'z) float_ops_scheme \<Rightarrow> 'f val \<Rightarrow> go_error + 'f" where
  "promoteArgumentToFloat64 F argument = unless_nil argument
     (case ToFloat64 F argument of
        Inl err \<Rightarrow> Inl (ErrJoin [ErrWrap ErrArgumentMustBeIntOrFloat ''can't promote argument to float64'', err])
      | Inr result \<Rightarrow> Inr result)"

definition adaptArgumentToString :: "('f, 'z) eval_lib_scheme \<Rightarrow> 'f val \<Rightarrow> go_error + string" where
  "adaptArgumentToString E argument = unless_nil argument
     (case argument of
        VString s \<Rightarrow> Inr (Normalize E s)
      | _ \<Rightarrow> Inl (ErrWrap ErrArgumentMustBeString ''can't promote argument to string''))"

definition adaptArgumentToTime :: "'f val \<Rightarrow> go_error + int" where
  "adaptArgumentToTime argument = unless_nil argument
     (case argument of
        VTime t \<Rightarrow> Inr t
      | _ \<Rightarrow> Inl (ErrWrap ErrArgumentMustBeTime ''can't promote argument to time''))"

definition adaptArgumentToIp :: "'f val \<Rightarrow> go_error + ip_addr" where
  "adaptArgumentToIp argument = unless_nil argument
     (case argument of
        VNetIP bs \<Rightarrow> (case AddrFromSlice bs of
            None \<Rightarrow> Inl (ErrNew ''can't promote argument to IP address'')
          | Some ip \<Rightarrow> Inr (Unmap ip))
      | VAddr a \<Rightarrow> Inr a
      | _ \<Rightarrow> Inl (ErrNew ''can't promote argument to IP address''))"

definition adaptArgumentToDuration :: "('f, 'z) eval_lib_scheme \<Rightarrow> 'f val \<Rightarrow> go_error + int" where
  "adaptArgumentToDuration E argument = unless_nil argument
     (let number = (case ToInt64 argument of
            Inr result \<Rightarrow> Inr result
          | Inl _ \<Rightarrow> Inl (ErrWrap ErrArgumentCantBeConvertedToDuration ''can't promote argument to duration''))
      in case argument of
        VDuration d \<Rightarrow> Inr d
      | VString str \<Rightarrow>
         (case Parse (float_ops.truncate E) (DurationLib E) (DecodeRunes E str) of
            Inr result \<Rightarrow> Inr (ToTimeDuration (float_ops.truncate E) result)
          | Inl _ \<Rightarrow> (case Time_ParseDuration E str of Some result \<Rightarrow> Inr result | None \<Rightarrow> number))
      | _ \<Rightarrow> number)"

text \<open>
  The generic adapters take the type assertion of their type parameter: \<open>thing\<close> for an element and
  \<open>things\<close> for a slice of that type.
\<close>

definition adaptArgumentToThing :: "('f val \<Rightarrow> 'a option) \<Rightarrow> 'f val \<Rightarrow> go_error + 'a" where
  "adaptArgumentToThing thing argument = (case thing argument of
     Some t \<Rightarrow> Inr t
   | None \<Rightarrow> Inl (ErrWrap ErrArgumentInvalidType ''can't promote argument''))"

definition adaptArgumentToListOfThings ::
    "('f val \<Rightarrow> 'a list option) \<Rightarrow> ('f val \<Rightarrow> 'a option) \<Rightarrow> 'f val \<Rightarrow> go_error + 'a list" where
  "adaptArgumentToListOfThings things thing argument = (case things argument of
     Some ts \<Rightarrow> Inr ts
   | None \<Rightarrow> (case argument of
        VList list \<Rightarrow> MapErr list (\<lambda>item. case thing item of
             None \<Rightarrow> Inl (ErrNew ''couldn't cast argument'')
           | Some i \<Rightarrow> Inr i)
      | _ \<Rightarrow> unless_nil argument (Inl (ErrWrap ErrArgumentMustBeList ''can't promote argument to list''))))"

definition as_string :: "'f val \<Rightarrow> string option" where
  "as_string v = (case v of VString s \<Rightarrow> Some s | _ \<Rightarrow> None)"

definition as_strings :: "'f val \<Rightarrow> string list option" where
  "as_strings v = (case v of VStrings ss \<Rightarrow> Some ss | _ \<Rightarrow> None)"

definition as_prefix :: "'f val \<Rightarrow> ip_prefix option" where
  "as_prefix v = (case v of VPrefix p \<Rightarrow> Some p | _ \<Rightarrow> None)"

definition as_prefixes :: "'f val \<Rightarrow> ip_prefix list option" where
  "as_prefixes v = (case v of VPrefixes ps \<Rightarrow> Some ps | _ \<Rightarrow> None)"

definition as_score :: "'f val \<Rightarrow> ScoreComputationResult option" where
  "as_score v = (case v of VScore s \<Rightarrow> Some s | _ \<Rightarrow> None)"

definition as_anys :: "'f val \<Rightarrow> 'f val list option" where
  "as_anys v = (case v of VList vs \<Rightarrow> Some vs | _ \<Rightarrow> None)"

definition adaptArgumentToListOfStrings :: "('f, 'z) eval_lib_scheme \<Rightarrow> 'f val \<Rightarrow> go_error + string list" where
  "adaptArgumentToListOfStrings E argument =
     map_sum id (map (Normalize E)) (adaptArgumentToListOfThings as_strings as_string argument)"

definition adaptArgumentToListOfCidrPrefixes :: "'f val \<Rightarrow> go_error + ip_prefix list" where
  "adaptArgumentToListOfCidrPrefixes argument = adaptArgumentToListOfThings as_prefixes as_prefix argument"

definition adaptArgumentToBool :: "'f val \<Rightarrow> go_error + bool" where
  "adaptArgumentToBool argument = unless_nil argument
     (case argument of
        VBool value \<Rightarrow> Inr value
      | _ \<Rightarrow> Inl (ErrWrap ErrArgumentMustBeBool ''can't promote argument to bool''))"

datatype DataType = BoolType | IntType | FloatType | StringType | TimestampType
  | IpAddressType | CoordsType | UnknownDataType

definition promoteArgumentToDataType ::
    "('f, 'z) eval_lib_scheme \<Rightarrow> 'f val \<Rightarrow> DataType \<Rightarrow> go_error + 'f val" where
  "promoteArgumentToDataType E argument datatyp = (case datatyp of
     BoolType \<Rightarrow> map_sum id VBool (adaptArgumentToBool argument)
   | IntType \<Rightarrow> map_sum id (VInt Kint64) (promoteArgumentToInt64 argument)
   | FloatType \<Rightarrow> map_sum id (VFloat Kfloat64) (promoteArgumentToFloat64 E argument)
   | StringType \<Rightarrow> map_sum id VString (adaptArgumentToString E argument)
   | TimestampType \<Rightarrow> map_sum id VTime (adaptArgumentToTime argument)
   | _ \<Rightarrow> Inl (ErrNew ''datatype not supported''))"

section \<open>Helpers\<close>

definition verifyNumberOfArguments :: "'f val list \<Rightarrow> nat \<Rightarrow> go_error option" where
  "verifyNumberOfArguments args requiredNumberOfArguments =
     (if length args \<noteq> requiredNumberOfArguments
      then Some (ErrWrap ErrWrongNumberOfArgument ''expects another number of operands'')
      else None)"

definition leftAndRight :: "'f val list \<Rightarrow> go_error + ('f val \<times> 'f val)" where
  "leftAndRight args = (case verifyNumberOfArguments args 2 of
     Some err \<Rightarrow> Inl err
   | None \<Rightarrow> Inr (args ! 0, args ! 1))"

definition err_of :: "go_error + 'a \<Rightarrow> go_error option" where
  "err_of r = (case r of Inl e \<Rightarrow> Some e | Inr _ \<Rightarrow> None)"

fun adapted_errors :: "nat \<Rightarrow> go_error option list \<Rightarrow> go_error list" where
  "adapted_errors argumentIndex [] = []"
| "adapted_errors argumentIndex (err # errs) =
     (case err of
        Some e \<Rightarrow> [ErrJoin [e, NewArgumentError argumentIndex]]
      | None \<Rightarrow> [])
     @ adapted_errors (argumentIndex + 1) errs"

definition MakeAdaptedArgsErrors :: "go_error option list \<Rightarrow> go_error list" where
  "MakeAdaptedArgsErrors errs = adapted_errors 0 errs"

definition adaptLeftAndRight ::
    "'f val \<Rightarrow> 'f val \<Rightarrow> ('f val \<Rightarrow> go_error + 'a) \<Rightarrow> go_error list + ('a \<times> 'a)" where
  "adaptLeftAndRight left right adapt =
     (case (adapt left, adapt right) of
        (Inr l, Inr r) \<Rightarrow> Inr (l, r)
      | (l, r) \<Rightarrow> Inl (MakeAdaptedArgsErrors [err_of l, err_of r]))"

definition AdaptNamedArgument ::
    "(string \<rightharpoonup> 'f val) \<Rightarrow> string \<Rightarrow> ('f val \<Rightarrow> go_error + 'a) \<Rightarrow> go_error + 'a" where
  "AdaptNamedArgument namedArgs name adapter = (case namedArgs name of
     None \<Rightarrow> Inl (ErrJoin [ErrWrap (NewNamedArgumentError name) ''missing named argument'',
                          ErrMissingNamedArgument])
   | Some value \<Rightarrow> (case adapter value of
        Inl err \<Rightarrow> Inl (ErrJoin [err, NewNamedArgumentError name])
      | Inr result \<Rightarrow> Inr result))"

definition filterNilErrors :: "go_error option list \<Rightarrow> go_error list" where
  "filterNilErrors errs = some_errors errs"

definition MakeEvaluateResult :: "'f val \<Rightarrow> go_error option list \<Rightarrow> 'f eval_result" where
  "MakeEvaluateResult result errs = (result, filterNilErrors errs)"

definition MakeEvaluateError :: "go_error \<Rightarrow> 'f eval_result" where
  "MakeEvaluateError err = (VNil, [err])"

text \<open>The first lines of every evaluator of two operands that lets a null operand through.\<close>

definition binary ::
    "'f val list \<Rightarrow> (go_error \<Rightarrow> go_error) \<Rightarrow> ('f val \<Rightarrow> 'f val \<Rightarrow> 'f eval_result) \<Rightarrow> 'f eval_result" where
  "binary args wrap body = (case leftAndRight args of
     Inl err \<Rightarrow> MakeEvaluateError (wrap err)
   | Inr (leftAny, rightAny) \<Rightarrow>
       if leftAny = VNil \<or> rightAny = VNil then (VNil, []) else body leftAny rightAny)"

section \<open>Comparisons\<close>

definition comparisonFloatFunction ::
    "('f, 'z) float_ops_scheme \<Rightarrow> Function \<Rightarrow> 'f \<Rightarrow> 'f \<Rightarrow> bool \<times> go_error option" where
  "comparisonFloatFunction F f l r =
     (if f = FUNC_GREATER then (F_lt F (F_add F r (F_1e8 F)) l, None)
      else if f = FUNC_GREATER_OR_EQUAL then (F_le F (F_sub F r (F_1e8 F)) l, None)
      else if f = FUNC_LESS then (F_lt F l (F_sub F r (F_1e8 F)), None)
      else if f = FUNC_LESS_OR_EQUAL then (F_le F l (F_add F r (F_1e8 F)), None)
      else (False, Some (ErrNew ''Comparison does not support function'')))"

definition comparisonTimeFunction :: "Function \<Rightarrow> int \<Rightarrow> int \<Rightarrow> bool \<times> go_error option" where
  "comparisonTimeFunction f l r =
     (if f = FUNC_GREATER then (l > r, None)
      else if f = FUNC_GREATER_OR_EQUAL then (l > r \<or> l = r, None)
      else if f = FUNC_LESS then (l < r, None)
      else if f = FUNC_LESS_OR_EQUAL then (l < r \<or> l = r, None)
      else (False, Some (ErrNew ''Comparison does not support function'')))"

definition Comparison_Evaluate ::
    "('f, 'z) eval_lib_scheme \<Rightarrow> Function \<Rightarrow> 'f Arguments \<Rightarrow> 'f eval_result" where
  "Comparison_Evaluate E f arguments = binary (Args arguments) id (\<lambda>leftAny rightAny.
     case adaptLeftAndRight leftAny rightAny (promoteArgumentToFloat64 E) of
       Inr (leftFloat, rightFloat) \<Rightarrow>
         (let (b, err) = comparisonFloatFunction E f leftFloat rightFloat
          in MakeEvaluateResult (VBool b) [err])
     | Inl _ \<Rightarrow>
       (case adaptLeftAndRight leftAny rightAny adaptArgumentToTime of
          Inr (leftTime, rightTime) \<Rightarrow>
            (let (b, err) = comparisonTimeFunction f leftTime rightTime
             in MakeEvaluateResult (VBool b) [err])
        | Inl _ \<Rightarrow> MakeEvaluateError (ErrWrap ErrArgumentMustBeIntFloatOrTime
            ''all arguments to Comparison Evaluate must be int, float or time'')))"

section \<open>Equality\<close>

definition Equal_Evaluate :: "('f, 'z) eval_lib_scheme \<Rightarrow> 'f Arguments \<Rightarrow> 'f eval_result" where
  "Equal_Evaluate E arguments = binary (Args arguments) id (\<lambda>leftAny rightAny.
     case adaptLeftAndRight leftAny rightAny (adaptArgumentToString E) of
       Inr (left, right) \<Rightarrow> MakeEvaluateResult (VBool (left = right)) []
     | Inl _ \<Rightarrow>
     (case adaptLeftAndRight leftAny rightAny adaptArgumentToBool of
       Inr (left, right) \<Rightarrow> MakeEvaluateResult (VBool (left = right)) []
     | Inl _ \<Rightarrow>
     (case adaptLeftAndRight leftAny rightAny promoteArgumentToInt64 of
       Inr (left, right) \<Rightarrow> MakeEvaluateResult (VBool (left = right)) []
     | Inl _ \<Rightarrow>
     (case adaptLeftAndRight leftAny rightAny (promoteArgumentToFloat64 E) of
       Inr (left, right) \<Rightarrow>
         MakeEvaluateResult (VBool (F_lt E (F_abs E (F_sub E left right)) (F_1e8 E))) []
     | Inl _ \<Rightarrow>
     (case adaptLeftAndRight leftAny rightAny adaptArgumentToTime of
       Inr (left, right) \<Rightarrow> MakeEvaluateResult (VBool (left = right)) []
     | Inl _ \<Rightarrow> MakeEvaluateError (ErrWrap ErrArgumentInvalidType
         ''all arguments to Equal Evaluate must be string, boolean, time, int or float''))))))"

definition NotEqual_Evaluate :: "('f, 'z) eval_lib_scheme \<Rightarrow> 'f Arguments \<Rightarrow> 'f eval_result" where
  "NotEqual_Evaluate E arguments = binary (Args arguments) id (\<lambda>leftAny rightAny.
     case adaptLeftAndRight leftAny rightAny (adaptArgumentToString E) of
       Inr (left, right) \<Rightarrow> MakeEvaluateResult (VBool (left \<noteq> right)) []
     | Inl _ \<Rightarrow>
     (case adaptLeftAndRight leftAny rightAny adaptArgumentToBool of
       Inr (left, right) \<Rightarrow> MakeEvaluateResult (VBool (left \<noteq> right)) []
     | Inl _ \<Rightarrow>
     (case adaptLeftAndRight leftAny rightAny promoteArgumentToInt64 of
       Inr (left, right) \<Rightarrow> MakeEvaluateResult (VBool (left \<noteq> right)) []
     | Inl _ \<Rightarrow>
     (case adaptLeftAndRight leftAny rightAny (promoteArgumentToFloat64 E) of
       Inr (left, right) \<Rightarrow>
         MakeEvaluateResult (VBool (F_lt E (F_1e8 E) (F_abs E (F_sub E left right)))) []
     | Inl _ \<Rightarrow>
     (case adaptLeftAndRight leftAny rightAny adaptArgumentToTime of
       Inr (left, right) \<Rightarrow> MakeEvaluateResult (VBool (left \<noteq> right)) []
     | Inl _ \<Rightarrow> MakeEvaluateError (ErrWrap ErrArgumentInvalidType
         ''all arguments to NotEqual Evaluate must be string, boolean, time, int or float''))))))"

definition IsEmpty_Evaluate :: "'f Arguments \<Rightarrow> 'f eval_result" where
  "IsEmpty_Evaluate arguments = (case verifyNumberOfArguments (Args arguments) 1 of
     Some err \<Rightarrow> MakeEvaluateError err
   | None \<Rightarrow> if Args arguments ! 0 = VNil \<or> Args arguments ! 0 = VString [] then (VBool True, [])
             else (VBool False, []))"

definition IsNotEmpty_Evaluate :: "'f Arguments \<Rightarrow> 'f eval_result" where
  "IsNotEmpty_Evaluate arguments = (case verifyNumberOfArguments (Args arguments) 1 of
     Some err \<Rightarrow> MakeEvaluateError err
   | None \<Rightarrow> if Args arguments ! 0 = VNil \<or> Args arguments ! 0 = VString [] then (VBool False, [])
             else (VBool True, []))"

section \<open>Boolean operators\<close>

definition Not_Evaluate :: "'f Arguments \<Rightarrow> 'f eval_result" where
  "Not_Evaluate arguments = (case verifyNumberOfArguments (Args arguments) 1 of
     Some err \<Rightarrow> MakeEvaluateError err
   | None \<Rightarrow>
      if Args arguments ! 0 = VNil then (VNil, [])
      else (case adaptArgumentToBool (Args arguments ! 0) of
              Inl err \<Rightarrow> (VNil, MakeAdaptedArgsErrors [Some err])
            | Inr v \<Rightarrow> (VBool (\<not> v), [])))"

definition boolean_operand_error :: go_error where
  "boolean_operand_error =
     ErrWrap ErrArgumentMustBeBool ''Boolean arithmetic expects all arguments to be boolean''"

fun booleanArithmeticEvalOr :: "bool \<Rightarrow> 'f val list \<Rightarrow> 'f val \<times> go_error option" where
  "booleanArithmeticEvalOr nullFound [] = (if nullFound then VNil else VBool False, None)"
| "booleanArithmeticEvalOr nullFound (arg # args) = (case arg of
     VNil \<Rightarrow> booleanArithmeticEvalOr True args
   | VBool argBool \<Rightarrow> if argBool then (VBool True, None) else booleanArithmeticEvalOr nullFound args
   | _ \<Rightarrow> (VNil, Some boolean_operand_error))"

fun booleanArithmeticEvalAnd :: "bool \<Rightarrow> 'f val list \<Rightarrow> 'f val \<times> go_error option" where
  "booleanArithmeticEvalAnd nullFound [] = (if nullFound then VNil else VBool True, None)"
| "booleanArithmeticEvalAnd nullFound (arg # args) = (case arg of
     VNil \<Rightarrow> booleanArithmeticEvalAnd True args
   | VBool argBool \<Rightarrow> if \<not> argBool then (VBool False, None) else booleanArithmeticEvalAnd nullFound args
   | _ \<Rightarrow> (VNil, Some boolean_operand_error))"

definition BooleanArithmetic_Evaluate :: "Function \<Rightarrow> 'f Arguments \<Rightarrow> 'f eval_result" where
  "BooleanArithmetic_Evaluate f arguments =
     (if length (Args arguments) < 1
      then MakeEvaluateError (ErrWrap ErrWrongNumberOfArgument
             ''Boolean arithmetic expects at least 1 operand, got 0'')
      else if f = FUNC_AND then
        (let (v, err) = booleanArithmeticEvalAnd False (Args arguments) in MakeEvaluateResult v [err])
      else if f = FUNC_OR then
        (let (v, err) = booleanArithmeticEvalOr False (Args arguments) in MakeEvaluateResult v [err])
      else MakeEvaluateError (ErrNew ''Boolean arithmetic does not support function''))"

section \<open>Arithmetic\<close>

definition arithmeticEval_int :: "Function \<Rightarrow> int \<Rightarrow> int \<Rightarrow> int \<times> go_error option" where
  "arithmeticEval_int f l r =
     (if f = FUNC_ADD then (wrap64 (l + r), None)
      else if f = FUNC_SUBTRACT then (wrap64 (l - r), None)
      else if f = FUNC_MULTIPLY then (wrap64 (l * r), None)
      else (0, Some (ErrNew ''Arithmetic does not support function'')))"

definition arithmeticEval_float ::
    "('f, 'z) float_ops_scheme \<Rightarrow> Function \<Rightarrow> 'f \<Rightarrow> 'f \<Rightarrow> 'f \<times> go_error option" where
  "arithmeticEval_float F f l r =
     (if f = FUNC_ADD then (F_add F l r, None)
      else if f = FUNC_SUBTRACT then (F_sub F l r, None)
      else if f = FUNC_MULTIPLY then (F_mul F l r, None)
      else (F_of_int F 0, Some (ErrNew ''Arithmetic does not support function'')))"

definition Arithmetic_Evaluate ::
    "('f, 'z) eval_lib_scheme \<Rightarrow> Function \<Rightarrow> 'f Arguments \<Rightarrow> 'f eval_result" where
  "Arithmetic_Evaluate E f arguments = binary (Args arguments) id (\<lambda>leftAny rightAny.
     case adaptLeftAndRight leftAny rightAny promoteArgumentToInt64 of
       Inr (left, right) \<Rightarrow>
         (let (x, err) = arithmeticEval_int f left right in MakeEvaluateResult (VInt Kint64 x) [err])
     | Inl _ \<Rightarrow>
     (case adaptLeftAndRight leftAny rightAny (promoteArgumentToFloat64 E) of
       Inr (left, right) \<Rightarrow>
         (let (x, err) = arithmeticEval_float E f left right
          in MakeEvaluateResult (VFloat Kfloat64 x) [err])
     | Inl _ \<Rightarrow> MakeEvaluateError ErrArgumentMustBeIntOrFloat))"

definition ArithmeticDivide_Evaluate ::
    "('f, 'z) eval_lib_scheme \<Rightarrow> 'f Arguments \<Rightarrow> 'f eval_result" where
  "ArithmeticDivide_Evaluate E arguments =
     binary (Args arguments) (\<lambda>err. ErrWrap err ''Error in Evaluate function Divide'') (\<lambda>leftAny rightAny.
     case adaptLeftAndRight leftAny rightAny (promoteArgumentToFloat64 E) of
       Inl errs \<Rightarrow> (VNil, errs)
     | Inr (left, right) \<Rightarrow>
        if F_eq E right (F_of_int E 0)
        then MakeEvaluateError (ErrWrap ErrDivisionByZero ''Zero division error in Evaluate function Divide'')
        else MakeEvaluateResult (VFloat Kfloat64 (F_div E left right)) [])"

definition downcastToInt64 :: "('f, 'z) float_ops_scheme \<Rightarrow> 'f \<Rightarrow> int option" where
  "downcastToInt64 F n =
     (if F_lt F n (F_of_int F min_int64) \<or> F_lt F (F_of_int F max_int64) n then None
      else (let r = F_round F n in
            if F_lt F (F_1e8 F) (F_abs F (F_sub F r n)) then None else Some (F_to_int F n)))"

text \<open>\<open>None\<close> is the panic of the integer remainder by zero.\<close>

definition IsMultipleOf_Evaluate ::
    "('f, 'z) eval_lib_scheme \<Rightarrow> 'f Arguments \<Rightarrow> 'f eval_result option" where
  "IsMultipleOf_Evaluate E arguments =
     (if NamedArgs arguments ''value'' = None \<or> NamedArgs arguments ''value'' = Some VNil
      then Some (VNil, [])
      else case (AdaptNamedArgument (NamedArgs arguments) ''value'' (promoteArgumentToFloat64 E),
                 AdaptNamedArgument (NamedArgs arguments) ''divider'' (promoteArgumentToFloat64 E)) of
        (Inr value, Inr divider) \<Rightarrow>
          (case downcastToInt64 E divider of
             None \<Rightarrow> Some (MakeEvaluateError ErrArgumentMustBeInt)
           | Some dividerInt \<Rightarrow>
              (case downcastToInt64 E value of
                 Some valueInt \<Rightarrow>
                   if dividerInt = 0 then None else Some (VBool (valueInt mod dividerInt = 0), [])
               | None \<Rightarrow> Some (VBool False, [])))
      | (value, divider) \<Rightarrow> Some (VNil, MakeAdaptedArgsErrors [err_of value, err_of divider]))"

section \<open>Strings and lists\<close>

definition unsupported :: "'f eval_result" where
  "unsupported = MakeEvaluateError (ErrNew ''function not supported'')"

definition StringContains_Evaluate ::
    "('f, 'z) eval_lib_scheme \<Rightarrow> Function \<Rightarrow> 'f Arguments \<Rightarrow> 'f eval_result" where
  "StringContains_Evaluate E f arguments = binary (Args arguments) id (\<lambda>leftAny rightAny.
     case adaptLeftAndRight leftAny rightAny (adaptArgumentToString E) of
       Inl errs \<Rightarrow> (VNil, errs)
     | Inr (left, right) \<Rightarrow>
        if f = FUNC_STRING_CONTAINS then (VBool (strings_Contains (ToLower E left) (ToLower E right)), [])
        else if f = FUNC_STRING_NOT_CONTAIN
          then (VBool (\<not> strings_Contains (ToLower E left) (ToLower E right)), [])
        else unsupported)"

definition ContainsAny_Evaluate ::
    "('f, 'z) eval_lib_scheme \<Rightarrow> Function \<Rightarrow> 'f Arguments \<Rightarrow> 'f eval_result" where
  "ContainsAny_Evaluate E f arguments = binary (Args arguments) id (\<lambda>leftAny rightAny.
     case adaptArgumentToString E leftAny of
       Inl err \<Rightarrow> MakeEvaluateError err
     | Inr left \<Rightarrow>
     (case adaptArgumentToListOfStrings E rightAny of
       Inl err \<Rightarrow> MakeEvaluateError err
     | Inr right \<Rightarrow>
        (let containsElement = list_ex (\<lambda>r. strings_Contains (ToLower E left) (ToLower E r)) right in
         if f = FUNC_CONTAINS_ANY then (VBool containsElement, [])
         else if f = FUNC_CONTAINS_NONE then (VBool (\<not> containsElement), [])
         else unsupported)))"

definition startsEndsWithString ::
    "('f, 'z) eval_lib_scheme \<Rightarrow> string \<Rightarrow> string \<Rightarrow> Function \<Rightarrow> 'f eval_result" where
  "startsEndsWithString E left right f =
     (if f = FUNC_STRING_STARTS_WITH then (VBool (strings_HasPrefix (ToLower E left) (ToLower E right)), [])
      else if f = FUNC_STRING_ENDS_WITH
        then (VBool (strings_HasSuffix (ToLower E left) (ToLower E right)), [])
      else unsupported)"

definition startsEndsWithListOfStrings ::
    "('f, 'z) eval_lib_scheme \<Rightarrow> string \<Rightarrow> string list \<Rightarrow> Function \<Rightarrow> 'f eval_result" where
  "startsEndsWithListOfStrings E left right f =
     (if f = FUNC_STRING_STARTS_WITH
        then (VBool (list_ex (\<lambda>r. strings_HasPrefix (ToLower E left) (ToLower E r)) right), [])
      else if f = FUNC_STRING_ENDS_WITH
        then (VBool (list_ex (\<lambda>r. strings_HasSuffix (ToLower E left) (ToLower E r)) right), [])
      else unsupported)"

definition StringStartsEndsWith_Evaluate ::
    "('f, 'z) eval_lib_scheme \<Rightarrow> Function \<Rightarrow> 'f Arguments \<Rightarrow> 'f eval_result" where
  "StringStartsEndsWith_Evaluate E f arguments = binary (Args arguments) id (\<lambda>leftAny rightAny.
     case adaptArgumentToString E leftAny of
       Inl err \<Rightarrow> MakeEvaluateError err
     | Inr left \<Rightarrow>
     (case adaptArgumentToString E rightAny of
       Inr rightString \<Rightarrow> startsEndsWithString E left rightString f
     | Inl _ \<Rightarrow>
     (case adaptArgumentToListOfStrings E rightAny of
       Inr rightList \<Rightarrow> startsEndsWithListOfStrings E left rightList f
     | Inl _ \<Rightarrow> MakeEvaluateError (ErrWrap ErrArgumentMustBeStringOrList
         ''can't promote to string or []string''))))"

definition stringInList :: "string \<Rightarrow> string list \<Rightarrow> bool" where
  "stringInList str l = List.member l str"

definition isIpInCidr :: "ip_addr \<Rightarrow> ip_prefix list \<Rightarrow> bool" where
  "isIpInCidr ip cidrs = list_ex (\<lambda>cidr. Prefix_Contains cidr ip) cidrs"

text \<open>The three identical \<open>switch\<close> statements on the function.\<close>

definition in_list_result :: "Function \<Rightarrow> bool \<Rightarrow> 'f eval_result" where
  "in_list_result f found =
     (if f = FUNC_IS_IN_LIST then (VBool found, [])
      else if f = FUNC_IS_NOT_IN_LIST then (VBool (\<not> found), [])
      else unsupported)"

definition StringInList_Evaluate ::
    "('f, 'z) eval_lib_scheme \<Rightarrow> Function \<Rightarrow> 'f Arguments \<Rightarrow> 'f eval_result" where
  "StringInList_Evaluate E f arguments =
     binary (Args arguments) (\<lambda>err. ErrWrap err ''Error in Evaluate function StringInList'')
     (\<lambda>leftAny rightAny.
     case adaptArgumentToListOfThings as_anys Some rightAny of
       Inl errList \<Rightarrow> MakeEvaluateError (ErrWrap errList ''right argument is not a list'')
     | Inr anyList \<Rightarrow>
        if anyList = [] then in_list_result f False
        else (case anyList ! 0 of
          VString _ \<Rightarrow>
            (case (adaptArgumentToString E leftAny, adaptArgumentToListOfStrings E rightAny) of
               (Inr left, Inr right) \<Rightarrow> in_list_result f (stringInList left right)
             | (left, right) \<Rightarrow> (VNil, MakeAdaptedArgsErrors [err_of left, err_of right]))
        | VPrefix _ \<Rightarrow>
            (case (adaptArgumentToIp leftAny, adaptArgumentToListOfCidrPrefixes rightAny) of
               (Inr left, Inr right) \<Rightarrow> in_list_result f (isIpInCidr left right)
             | (left, right) \<Rightarrow> (VNil, MakeAdaptedArgsErrors [err_of left, err_of right]))
        | _ \<Rightarrow> (VNil, [])))"

text \<open>\<open>concat_loop\<close> is the loop over the arguments; \<open>n\<close> is the number of arguments after this one.\<close>

fun concat_loop ::
    "('f, 'z) eval_lib_scheme \<Rightarrow> bool \<Rightarrow> string \<Rightarrow> string \<Rightarrow> 'f val list \<Rightarrow> 'f eval_result" where
  "concat_loop E withSeparator separator sb [] = (VString sb, [])"
| "concat_loop E withSeparator separator sb (arg # args) =
     (if arg = VNil then concat_loop E withSeparator separator sb args
      else if (case arg of VString _ \<Rightarrow> True | VInt Kint _ \<Rightarrow> True | VFloat Kfloat64 _ \<Rightarrow> True | _ \<Rightarrow> False)
      then concat_loop E withSeparator separator
             (sb @ Format_v E arg @ (if withSeparator \<and> args \<noteq> [] then separator else [])) args
      else (VNil, [ErrNew ''argument is not supported for StringConcat'']))"

definition StringConcat_Evaluate ::
    "('f, 'z) eval_lib_scheme \<Rightarrow> 'f Arguments \<Rightarrow> 'f eval_result" where
  "StringConcat_Evaluate E arguments =
     (let withSeparator = (case NamedArgs arguments ''with_separator'' of Some (VBool b) \<Rightarrow> b | _ \<Rightarrow> False);
          separator = (case NamedArgs arguments ''separator'' of Some (VString s) \<Rightarrow> s | _ \<Rightarrow> '' '')
      in concat_loop E withSeparator separator [] (Args arguments))"

definition List_Evaluate :: "'f Arguments \<Rightarrow> 'f eval_result" where
  "List_Evaluate arguments = (VList (Args arguments), [])"

definition Undefined_Evaluate :: "'f Arguments \<Rightarrow> 'f eval_result" where
  "Undefined_Evaluate arguments =
     MakeEvaluateError (ErrWrap ErrUndefinedFunction ''Evaluate function Undefined'')"

section \<open>Scores\<close>

definition no_score :: ScoreComputationResult where
  "no_score = \<lparr>Triggered = False, Modifier = 0, Floor = 0, Branch = None, Fallback = False, Default = False\<rparr>"

definition ScoreComputation_Evaluate ::
    "('f, 'z) eval_lib_scheme \<Rightarrow> 'f Arguments \<Rightarrow> 'f eval_result" where
  "ScoreComputation_Evaluate E arguments =
     (let modifier = AdaptNamedArgument (NamedArgs arguments) ''modifier'' (promoteArgumentToFloat64 E);
          floor = (case AdaptNamedArgument (NamedArgs arguments) ''floor'' (promoteArgumentToFloat64 E) of
                     Inl _ \<Rightarrow> F_of_int E 0 | Inr x \<Rightarrow> x);
          childrenErr = (if length (Args arguments) \<noteq> 1
            then Some (ErrWrap ErrWrongNumberOfArgument ''ScoreComputation must have exactly one child'')
            else None)
      in if filterNilErrors [childrenErr, err_of modifier] \<noteq> []
         then (VNil, filterNilErrors [childrenErr, err_of modifier])
         else if Args arguments ! 0 = VNil then (VScore no_score, [])
         else case adaptArgumentToBool (Args arguments ! 0) of
           Inl err \<Rightarrow> MakeEvaluateError err
         | Inr result \<Rightarrow>
            (let (m, fl) = (if \<not> result then (F_of_int E 0, F_of_int E 0)
                            else (case modifier of Inr x \<Rightarrow> x | Inl _ \<Rightarrow> F_of_int E 0, floor))
             in (VScore (no_score\<lparr>Triggered := result, Modifier := F_to_int E m,
                                  Floor := F_to_int E fl\<rparr>), [])))"

fun first_triggered :: "nat \<Rightarrow> ScoreComputationResult list \<Rightarrow> ScoreComputationResult option" where
  "first_triggered idx [] = None"
| "first_triggered idx (node # nodes) =
     (if Triggered node then Some (node\<lparr>Fallback := False, Default := False, Branch := Some idx\<rparr>)
      else first_triggered (idx + 1) nodes)"

definition Switch_Evaluate :: "'f Arguments \<Rightarrow> 'f eval_result" where
  "Switch_Evaluate arguments =
     (if Args arguments = []
      then (VNil, [ErrWrap ErrWrongNumberOfArgument ''Switch should have at least one branch''])
      else case adaptArgumentToListOfThings (\<lambda>_. None) as_score (VList (Args arguments)) of
        Inl err \<Rightarrow> (VNil, [err])
      | Inr nodes \<Rightarrow>
         (case first_triggered 0 nodes of
            Some node \<Rightarrow> (VScore node, [])
          | None \<Rightarrow>
             (case AdaptNamedArgument (NamedArgs arguments) ''fallback'' (adaptArgumentToThing as_score) of
                Inr fallback \<Rightarrow> (VScore (fallback\<lparr>Fallback := True, Default := False, Branch := None\<rparr>), [])
              | Inl _ \<Rightarrow> (VScore (no_score\<lparr>Triggered := True, Default := True\<rparr>), []))))"

section \<open>Time\<close>

text \<open>The zero \<open>time.Time\<close>: the first of January of year 1.\<close>

definition zero_time :: int where
  "zero_time = - 62135596800000000000"

definition TimeFunctions_Evaluate ::
    "('f, 'z) eval_lib_scheme \<Rightarrow> Function \<Rightarrow> 'f Arguments \<Rightarrow> 'f eval_result" where
  "TimeFunctions_Evaluate E f arguments =
     (if f = FUNC_TIME_NOW then
        (case verifyNumberOfArguments (Args arguments) 0 of
           Some err \<Rightarrow> MakeEvaluateError err
         | None \<Rightarrow> (VTime (Time_Now E), []))
      else if f = FUNC_PARSE_TIME then
        (case verifyNumberOfArguments (Args arguments) 1 of
           Some err \<Rightarrow> MakeEvaluateError err
         | None \<Rightarrow>
            if Args arguments ! 0 = VNil then (VNil, [])
            else (case adaptArgumentToString E (Args arguments ! 0) of
                Inl err \<Rightarrow> MakeEvaluateError err
              | Inr timeString \<Rightarrow>
                 (case Time_Parse_RFC3339 E timeString of
                    Inl err \<Rightarrow> MakeEvaluateResult (VTime zero_time) [Some err]
                  | Inr t \<Rightarrow> MakeEvaluateResult (VTime t) [None])))
      else unsupported)"

definition PlusSign :: string where "PlusSign = ''+''"
definition MinusSign :: string where "MinusSign = ''-''"

definition TimeArithmetic_Evaluate ::
    "('f, 'z) eval_lib_scheme \<Rightarrow> Function \<Rightarrow> 'f Arguments \<Rightarrow> 'f eval_result" where
  "TimeArithmetic_Evaluate E f arguments =
     (if f = FUNC_TIME_ADD then
        (if NamedArgs arguments ''timestampField'' = Some VNil then (VNil, [])
         else case (AdaptNamedArgument (NamedArgs arguments) ''timestampField'' adaptArgumentToTime,
                    AdaptNamedArgument (NamedArgs arguments) ''duration'' (adaptArgumentToDuration E),
                    AdaptNamedArgument (NamedArgs arguments) ''sign'' (adaptArgumentToString E)) of
           (Inr time, Inr duration, Inr sign) \<Rightarrow>
             (if sign \<noteq> PlusSign \<and> sign \<noteq> MinusSign
              then MakeEvaluateError (ErrJoin [ErrWrap (NewNamedArgumentError ''sign'') ''sign is not a valid sign'',
                     ErrRuntimeExpression])
              else if sign = MinusSign then (VTime (time + wrap64 (- duration)), [])
              else (VTime (time + duration), []))
         | (time, duration, sign) \<Rightarrow>
             (VNil, filterNilErrors [err_of time, err_of duration, err_of sign]))
      else unsupported)"

text \<open>The fields of a time in a location; the time zone data base is the parameter \<open>in_location\<close>.\<close>

record civil_time =
  Civil_Year :: int
  Civil_Month :: int
  Civil_Day :: int
  Civil_Weekday :: int
  Civil_Hour :: int

definition validTimestampExtractParts :: "string list" where
  "validTimestampExtractParts = [''year'', ''month'', ''day_of_month'', ''day_of_week'', ''hour'']"

definition TimestampExtract_Evaluate ::
    "('f, 'z) eval_lib_scheme \<Rightarrow> (go_error + string option) \<Rightarrow> (string \<Rightarrow> go_error + (int \<Rightarrow> civil_time))
     \<Rightarrow> 'f Arguments \<Rightarrow> 'f eval_result" where
  "TimestampExtract_Evaluate E organization_timezone load_location arguments =
     (if NamedArgs arguments ''timestamp'' = Some VNil then (VNil, [])
      else
       (let timestamp = AdaptNamedArgument (NamedArgs arguments) ''timestamp'' adaptArgumentToTime;
            part = AdaptNamedArgument (NamedArgs arguments) ''part'' (adaptArgumentToString E);
            partErr = (case part of
               Inr p \<Rightarrow> if List.member validTimestampExtractParts p then None else Some (NewNamedArgumentError ''part'')
             | Inl _ \<Rightarrow> None)
        in case (timestamp, part, partErr) of
           (Inr t, Inr p, None) \<Rightarrow>
             (case organization_timezone of
                Inl err \<Rightarrow> (VNil, [ErrWrap err ''failed to get organization''])
              | Inr tz \<Rightarrow>
                 (case load_location (case tz of Some z \<Rightarrow> z | None \<Rightarrow> ''UTC'') of
                    Inl err \<Rightarrow> (VNil, [ErrWrap err ''failed to load organization timezone''])
                  | Inr in_location \<Rightarrow>
                     (let c = in_location t in
                      if p = ''year'' then (VInt Kint (Civil_Year c), [])
                      else if p = ''month'' then (VInt Kint (Civil_Month c), [])
                      else if p = ''day_of_month'' then (VInt Kint (Civil_Day c), [])
                      else if p = ''day_of_week'' then
                        (VInt Kint (if Civil_Weekday c = 0 then 7 else Civil_Weekday c), [])
                      else if p = ''hour'' then (VInt Kint (Civil_Hour c), [])
                      else (VNil, [ErrNew ''should not happen'']))))
         | _ \<Rightarrow> (VNil, filterNilErrors [err_of timestamp, err_of part, partErr])))"

end
