(* ===== verification/Evaluator_Laws.thy ===== *)
theory Evaluator_Laws
  imports Evaluators
begin

text \<open>
  What the evaluators of pure functions compute: the treatment of null operands, the logic of the
  boolean operators, equality and comparison, arithmetic and its errors, list membership and score
  branches. \<open>rat_lib\<close> is the library of exact rationals used by the examples.
\<close>

section \<open>Null operands\<close>

lemma leftAndRight_two [simp]: "leftAndRight [l, r] = Inr (l, r)"
  by (simp add: leftAndRight_def verifyNumberOfArguments_def)

lemma leftAndRight_bad: "length args \<noteq> 2 \<Longrightarrow>
    leftAndRight args = Inl (ErrWrap ErrWrongNumberOfArgument ''expects another number of operands'')"
  by (simp add: leftAndRight_def verifyNumberOfArguments_def)

lemma binary_two: "binary [l, r] wrap body = (if l = VNil \<or> r = VNil then (VNil, []) else body l r)"
  by (simp add: binary_def)

lemma binary_nil: "l = VNil \<or> r = VNil \<Longrightarrow> binary [l, r] wrap body = (VNil, [])"
  by (auto simp: binary_two)

lemma binary_bad: "length args \<noteq> 2 \<Longrightarrow> binary args wrap body
    = (VNil, [wrap (ErrWrap ErrWrongNumberOfArgument ''expects another number of operands'')])"
  by (simp add: binary_def leftAndRight_bad MakeEvaluateError_def)

text \<open>The evaluators of two operands.\<close>

definition binary_evaluators :: "('f, 'z) eval_lib_scheme \<Rightarrow> ('f Arguments \<Rightarrow> 'f eval_result) list" where
  "binary_evaluators E =
     [Equal_Evaluate E, NotEqual_Evaluate E, ArithmeticDivide_Evaluate E]
     @ map (Comparison_Evaluate E)
         [FUNC_GREATER, FUNC_GREATER_OR_EQUAL, FUNC_LESS, FUNC_LESS_OR_EQUAL]
     @ map (Arithmetic_Evaluate E) [FUNC_ADD, FUNC_SUBTRACT, FUNC_MULTIPLY]
     @ map (StringContains_Evaluate E) [FUNC_STRING_CONTAINS, FUNC_STRING_NOT_CONTAIN]
     @ map (ContainsAny_Evaluate E) [FUNC_CONTAINS_ANY, FUNC_CONTAINS_NONE]
     @ map (StringStartsEndsWith_Evaluate E) [FUNC_STRING_STARTS_WITH, FUNC_STRING_ENDS_WITH]
     @ map (StringInList_Evaluate E) [FUNC_IS_IN_LIST, FUNC_IS_NOT_IN_LIST]"

lemmas binary_evaluator_defs = Equal_Evaluate_def NotEqual_Evaluate_def ArithmeticDivide_Evaluate_def
  Comparison_Evaluate_def Arithmetic_Evaluate_def StringContains_Evaluate_def ContainsAny_Evaluate_def
  StringStartsEndsWith_Evaluate_def StringInList_Evaluate_def

lemma binary_evaluator_form:
  assumes "ev \<in> set (binary_evaluators E)"
  shows "\<exists>wrap body. (\<forall>a. ev a = binary (Args a) wrap body) \<and> (\<forall>e. errors_is (wrap e) e)"
proof -
  have "\<exists>body. \<forall>a. ev a = binary (Args a) id body
     \<or> ev a = binary (Args a) (\<lambda>err. ErrWrap err ''Error in Evaluate function Divide'') body
     \<or> ev a = binary (Args a) (\<lambda>err. ErrWrap err ''Error in Evaluate function StringInList'') body"
    using assms unfolding binary_evaluators_def binary_evaluator_defs by auto
  then show ?thesis
    using assms unfolding binary_evaluators_def binary_evaluator_defs by force
qed

text \<open>A null operand makes the result of every operator of two operands null, without an error, and
  a wrong number of operands is reported as such and never evaluated.\<close>

theorem null_operand_propagates:
  assumes "ev \<in> set (binary_evaluators E)"
  shows "(Args a = [l, r] \<longrightarrow> l = VNil \<or> r = VNil \<longrightarrow> ev a = (VNil, []))
    \<and> (length (Args a) \<noteq> 2 \<longrightarrow> (\<exists>e. ev a = (VNil, [e]) \<and> errors_is e ErrWrongNumberOfArgument))"
proof -
  obtain wrap body where ev: "\<And>a. ev a = binary (Args a) wrap body" and w: "\<And>e. errors_is (wrap e) e"
    using binary_evaluator_form [OF assms] by blast
  have "errors_is (wrap (ErrWrap ErrWrongNumberOfArgument m)) ErrWrongNumberOfArgument" for m
    using errors_is_trans [OF w] by simp
  then show ?thesis by (auto simp: ev binary_nil binary_bad)
qed

section \<open>The rational library of the examples\<close>

definition rat_lib :: "rat eval_lib" where
  "rat_lib = \<lparr>F_of_int = of_int, F_of_f32 = id, F_add = (+), F_sub = (-), F_mul = (*), F_div = (/),
     F_lt = (<), F_le = (\<le>), F_eq = (=), F_abs = abs, F_round = (\<lambda>x. of_int (rat_round x)),
     F_to_int = rat_truncate, F_1e8 = 1 / 100000000,
     Normalize = id, ToLower = id, Format_v = (\<lambda>_. []), DecodeRunes = runes,
     DurationLib = \<lparr>parseFloat = (\<lambda>_. Inr 0), formatFloat = (\<lambda>_. []), isNumber = (\<lambda>_. False)\<rparr>,
     Time_ParseDuration = (\<lambda>_. None), Time_Parse_RFC3339 = (\<lambda>_. Inl (ErrNew [])), Time_Now = 0\<rparr>"

lemma rat_lib_simps [simp]:
  "F_of_int rat_lib = of_int" "F_sub rat_lib = (-)" "F_add rat_lib = (+)" "F_lt rat_lib = (<)"
  "F_le rat_lib = (\<le>)" "F_eq rat_lib = (=)" "F_abs rat_lib = abs" "F_1e8 rat_lib = 1 / 100000000"
  "F_round rat_lib = (\<lambda>x. of_int (rat_round x))" "F_to_int rat_lib = rat_truncate"
  "F_div rat_lib = (/)" "Normalize rat_lib = id"
  by (simp_all add: rat_lib_def)

theorem null_operand_propagates_witness:
  "Equal_Evaluate rat_lib \<lparr>Args = [VNil, VInt Kint 1], NamedArgs = Map.empty\<rparr> = (VNil, [])
   \<and> (\<exists>e. Equal_Evaluate rat_lib \<lparr>Args = [], NamedArgs = Map.empty\<rparr> = (VNil, [e])
        \<and> errors_is e ErrWrongNumberOfArgument)"
  using null_operand_propagates [of "Equal_Evaluate rat_lib" rat_lib "\<lparr>Args = [VNil, VInt Kint 1], NamedArgs = Map.empty\<rparr>"
      VNil "VInt Kint 1"]
    null_operand_propagates [of "Equal_Evaluate rat_lib" rat_lib "\<lparr>Args = [], NamedArgs = Map.empty\<rparr>"]
  by (simp add: binary_evaluators_def)

section \<open>Boolean operators\<close>

text \<open>An operand the boolean operators accept.\<close>

definition boolean_operand :: "'f val \<Rightarrow> bool" where
  "boolean_operand v = (case v of VNil \<Rightarrow> True | VBool _ \<Rightarrow> True | _ \<Rightarrow> False)"

definition kleene_and :: "'f val list \<Rightarrow> 'f val" where
  "kleene_and args = (if VBool False \<in> set args then VBool False
     else if VNil \<in> set args then VNil else VBool True)"

definition kleene_or :: "'f val list \<Rightarrow> 'f val" where
  "kleene_or args = (if VBool True \<in> set args then VBool True
     else if VNil \<in> set args then VNil else VBool False)"

lemma evalAnd_bad:
  "booleanArithmeticEvalAnd nf args =
     (if list_all boolean_operand (takeWhile (\<lambda>v. v \<noteq> VBool False) args)
      then (if nf \<and> VBool False \<notin> set args then VNil else kleene_and args, None)
      else (VNil, Some boolean_operand_error))"
proof (induction nf args rule: booleanArithmeticEvalAnd.induct)
  case (1 nf)
  show ?case by (simp add: kleene_and_def)
next
  case (2 nf arg args)
  then show ?case by (cases arg) (simp_all add: boolean_operand_def kleene_and_def)
qed

lemma evalOr_bad:
  "booleanArithmeticEvalOr nf args =
     (if list_all boolean_operand (takeWhile (\<lambda>v. v \<noteq> VBool True) args)
      then (if nf \<and> VBool True \<notin> set args then VNil else kleene_or args, None)
      else (VNil, Some boolean_operand_error))"
proof (induction nf args rule: booleanArithmeticEvalOr.induct)
  case (1 nf)
  show ?case by (simp add: kleene_or_def)
next
  case (2 nf arg args)
  then show ?case by (cases arg) (simp_all add: boolean_operand_def kleene_or_def)
qed

lemmas evaluate_result_simps = MakeEvaluateResult_def MakeEvaluateError_def filterNilErrors_def

lemma boolean_eval:
  assumes "args \<noteq> []"
  shows "BooleanArithmetic_Evaluate FUNC_AND \<lparr>Args = args, NamedArgs = na\<rparr> =
      (if list_all boolean_operand (takeWhile (\<lambda>v. v \<noteq> VBool False) args)
       then (kleene_and args, []) else (VNil, [boolean_operand_error]))"
    and "BooleanArithmetic_Evaluate FUNC_OR \<lparr>Args = args, NamedArgs = na\<rparr> =
      (if list_all boolean_operand (takeWhile (\<lambda>v. v \<noteq> VBool True) args)
       then (kleene_or args, []) else (VNil, [boolean_operand_error]))"
proof -
  have "\<not> length args < 1" using assms by (cases args) auto
  then show "BooleanArithmetic_Evaluate FUNC_AND \<lparr>Args = args, NamedArgs = na\<rparr> =
      (if list_all boolean_operand (takeWhile (\<lambda>v. v \<noteq> VBool False) args)
       then (kleene_and args, []) else (VNil, [boolean_operand_error]))"
    and "BooleanArithmetic_Evaluate FUNC_OR \<lparr>Args = args, NamedArgs = na\<rparr> =
      (if list_all boolean_operand (takeWhile (\<lambda>v. v \<noteq> VBool True) args)
       then (kleene_or args, []) else (VNil, [boolean_operand_error]))"
    by (simp_all add: BooleanArithmetic_Evaluate_def evalAnd_bad evalOr_bad evaluate_result_simps)
qed

lemma takeWhile_operands: "list_all boolean_operand xs \<Longrightarrow> list_all boolean_operand (takeWhile P xs)"
  by (auto simp: list_all_iff dest: set_takeWhileD)

text \<open>C39: AND and OR are the three-valued operators over true, false and null: the absorbing value
  wins over null, null over the neutral value. An operand that is neither boolean nor null is an
  error exactly when no absorbing operand comes before it, so on such operands the operators do
  depend on the order, although they are marked commutative.\<close>

theorem boolean_operators_three_valued:
  assumes "Args a \<noteq> []"
  shows "BooleanArithmetic_Evaluate FUNC_AND a =
      (if list_all boolean_operand (takeWhile (\<lambda>v. v \<noteq> VBool False) (Args a))
       then (kleene_and (Args a), []) else (VNil, [boolean_operand_error]))
   \<and> BooleanArithmetic_Evaluate FUNC_OR a =
      (if list_all boolean_operand (takeWhile (\<lambda>v. v \<noteq> VBool True) (Args a))
       then (kleene_or (Args a), []) else (VNil, [boolean_operand_error]))
   \<and> (list_all boolean_operand (Args a) \<longrightarrow> mset args' = mset (Args a) \<longrightarrow>
       BooleanArithmetic_Evaluate FUNC_AND (a\<lparr>Args := args'\<rparr>) = BooleanArithmetic_Evaluate FUNC_AND a
     \<and> BooleanArithmetic_Evaluate FUNC_OR (a\<lparr>Args := args'\<rparr>) = BooleanArithmetic_Evaluate FUNC_OR a)"
proof -
  have perm: "args' \<noteq> []" "kleene_and args' = kleene_and (Args a)" "kleene_or args' = kleene_or (Args a)"
    "list_all boolean_operand args'"
    if "mset args' = mset (Args a)" "list_all boolean_operand (Args a)"
    using that assms mset_eq_setD [OF that(1)]
    by (auto simp: kleene_and_def kleene_or_def list_all_iff)
  show ?thesis
    using assms perm boolean_eval [of "Args a" "NamedArgs a"] boolean_eval [of args' "NamedArgs a"]
    by (cases a) (auto simp: takeWhile_operands)
qed

theorem boolean_operators_three_valued_witness:
  "BooleanArithmetic_Evaluate FUNC_AND \<lparr>Args = [VNil, VBool False, VInt Kint 1], NamedArgs = Map.empty\<rparr>
     = (VBool False :: rat val, [])
   \<and> BooleanArithmetic_Evaluate FUNC_OR \<lparr>Args = [VNil, VBool False, VInt Kint 1], NamedArgs = Map.empty\<rparr>
     = (VNil :: rat val, [boolean_operand_error])"
  using boolean_operators_three_valued
      [of "\<lparr>Args = [VNil, VBool False, VInt Kint 1], NamedArgs = Map.empty\<rparr>" "[]"]
  by (simp add: boolean_operand_def kleene_and_def)

section \<open>Equality\<close>

lemmas adapter_defs = unless_nil_def argumentNotNil_def promoteArgumentToInt64_def
  promoteArgumentToFloat64_def adaptArgumentToString_def adaptArgumentToTime_def
  adaptArgumentToBool_def ToInt64_def ToFloat64_def adaptLeftAndRight_def

text \<open>The two operands are compared as floating point numbers: both are numbers, not both integers.\<close>

definition float_operands :: "('f, 'z) float_ops_scheme \<Rightarrow> 'f val \<Rightarrow> 'f val \<Rightarrow> 'f \<Rightarrow> 'f \<Rightarrow> bool" where
  "float_operands F l r x y \<longleftrightarrow>
     ToFloat64 F l = Inr x \<and> ToFloat64 F r = Inr y \<and> (err_of (ToInt64 l) \<noteq> None \<or> err_of (ToInt64 r) \<noteq> None)"

lemma adaptLeftAndRight_cases:
  "adaptLeftAndRight l r ad =
     (if err_of (ad l) = None \<and> err_of (ad r) = None then Inr (projr (ad l), projr (ad r))
      else Inl (MakeAdaptedArgsErrors [err_of (ad l), err_of (ad r)]))"
  by (simp add: adaptLeftAndRight_def err_of_def split: sum.splits)

text \<open>The two evaluators as one chain of attempts, with the test of each type as a parameter.\<close>

definition equality_chain ::
    "('f, 'z) eval_lib_scheme \<Rightarrow> (bool \<Rightarrow> bool) \<Rightarrow> ('f \<Rightarrow> 'f \<Rightarrow> bool) \<Rightarrow> go_error \<Rightarrow> 'f val \<Rightarrow> 'f val \<Rightarrow> 'f eval_result" where
  "equality_chain E b fl e l r = (
     case adaptLeftAndRight l r (adaptArgumentToString E) of
       Inr (x, y) \<Rightarrow> (VBool (b (x = y)), [])
     | Inl _ \<Rightarrow> (case adaptLeftAndRight l r adaptArgumentToBool of
       Inr (x, y) \<Rightarrow> (VBool (b (x = y)), [])
     | Inl _ \<Rightarrow> (case adaptLeftAndRight l r promoteArgumentToInt64 of
       Inr (x, y) \<Rightarrow> (VBool (b (x = y)), [])
     | Inl _ \<Rightarrow> (case adaptLeftAndRight l r (promoteArgumentToFloat64 E) of
       Inr (x, y) \<Rightarrow> (VBool (fl x y), [])
     | Inl _ \<Rightarrow> (case adaptLeftAndRight l r adaptArgumentToTime of
       Inr (x, y) \<Rightarrow> (VBool (b (x = y)), [])
     | Inl _ \<Rightarrow> (VNil, [e]))))))"

lemma equality_as_chain:
  assumes "Args a = [l, r]" "l \<noteq> VNil" "r \<noteq> VNil"
  shows "Equal_Evaluate E a = equality_chain E (\<lambda>x. x)
      (\<lambda>x y. F_lt E (F_abs E (F_sub E x y)) (F_1e8 E))
      (ErrWrap ErrArgumentInvalidType
         ''all arguments to Equal Evaluate must be string, boolean, time, int or float'') l r"
    and "NotEqual_Evaluate E a = equality_chain E Not
      (\<lambda>x y. F_lt E (F_1e8 E) (F_abs E (F_sub E x y)))
      (ErrWrap ErrArgumentInvalidType
         ''all arguments to NotEqual Evaluate must be string, boolean, time, int or float'') l r"
  using assms
  by (simp_all add: Equal_Evaluate_def NotEqual_Evaluate_def binary_two equality_chain_def
      evaluate_result_simps cong: sum.case_cong)

lemma float_adapted:
  assumes "l \<noteq> VNil" "r \<noteq> VNil"
    and "adaptLeftAndRight l r promoteArgumentToInt64 = Inl errs"
    and "adaptLeftAndRight l r (promoteArgumentToFloat64 E) = Inr (x, y)"
  shows "float_operands E l r x y"
  using assms
  by (auto simp: adaptLeftAndRight_def promoteArgumentToInt64_def promoteArgumentToFloat64_def
      unless_nil_def argumentNotNil_def float_operands_def err_of_def split: sum.splits)

text \<open>On two operands that are not null, \<open>=\<close> and \<open>!=\<close> either give opposite answers, or both
  report operands of incompatible types, or compare two numbers of which one is not an integer; only
  in the last case can both be false, when the numbers differ by exactly the threshold. Two 64-bit
  integers are compared exactly, not as floating point numbers.\<close>

theorem equality_opposites:
  assumes "Args a = [l, r]" "l \<noteq> VNil" "r \<noteq> VNil"
  shows "((\<exists>b. Equal_Evaluate E a = (VBool b, []) \<and> NotEqual_Evaluate E a = (VBool (\<not> b), []))
    \<or> (\<exists>e e'. Equal_Evaluate E a = (VNil, [e]) \<and> NotEqual_Evaluate E a = (VNil, [e'])
         \<and> errors_is e ErrArgumentInvalidType \<and> errors_is e' ErrArgumentInvalidType)
    \<or> (\<exists>x y. float_operands E l r x y
         \<and> Equal_Evaluate E a = (VBool (F_lt E (F_abs E (F_sub E x y)) (F_1e8 E)), [])
         \<and> NotEqual_Evaluate E a = (VBool (F_lt E (F_1e8 E) (F_abs E (F_sub E x y))), [])))
   \<and> (\<forall>x y. ToInt64 l = Inr x \<longrightarrow> ToInt64 r = Inr y \<longrightarrow>
        Equal_Evaluate E a = (VBool (x = y), []) \<and> NotEqual_Evaluate E a = (VBool (x \<noteq> y), []))"
proof
  note chain = equality_as_chain [OF assms, of E] equality_chain_def
  show "(\<exists>b. Equal_Evaluate E a = (VBool b, []) \<and> NotEqual_Evaluate E a = (VBool (\<not> b), []))
    \<or> (\<exists>e e'. Equal_Evaluate E a = (VNil, [e]) \<and> NotEqual_Evaluate E a = (VNil, [e'])
         \<and> errors_is e ErrArgumentInvalidType \<and> errors_is e' ErrArgumentInvalidType)
    \<or> (\<exists>x y. float_operands E l r x y
         \<and> Equal_Evaluate E a = (VBool (F_lt E (F_abs E (F_sub E x y)) (F_1e8 E)), [])
         \<and> NotEqual_Evaluate E a = (VBool (F_lt E (F_1e8 E) (F_abs E (F_sub E x y))), []))"
    by (cases "adaptLeftAndRight l r (adaptArgumentToString E)";
        cases "adaptLeftAndRight l r adaptArgumentToBool";
        cases "adaptLeftAndRight l r (promoteArgumentToInt64 :: 'a val \<Rightarrow> go_error + int)";
        cases "adaptLeftAndRight l r (promoteArgumentToFloat64 E)";
        cases "adaptLeftAndRight l r (adaptArgumentToTime :: 'a val \<Rightarrow> go_error + int)")
      (auto simp: chain dest: float_adapted [OF assms(2,3)] split: prod.splits)
  show "\<forall>x y. ToInt64 l = Inr x \<longrightarrow> ToInt64 r = Inr y \<longrightarrow>
        Equal_Evaluate E a = (VBool (x = y), []) \<and> NotEqual_Evaluate E a = (VBool (x \<noteq> y), [])"
  proof (intro allI impI)
    fix x y assume xy: "ToInt64 l = Inr x" "ToInt64 r = Inr y"
    then obtain k m k' m' where lr: "l = VInt k m" "r = VInt k' m'"
      by (cases l; cases r) (auto simp: ToInt64_def)
    have "isl (adaptLeftAndRight l r (adaptArgumentToString E))" "isl (adaptLeftAndRight l r adaptArgumentToBool)"
      "adaptLeftAndRight l r promoteArgumentToInt64 = Inr (x, y)"
      using xy by (simp_all add: lr adapter_defs)
    then show "Equal_Evaluate E a = (VBool (x = y), []) \<and> NotEqual_Evaluate E a = (VBool (x \<noteq> y), [])"
      by (auto simp: chain isl_def)
  qed
qed

theorem equality_opposites_witness:
  "Equal_Evaluate rat_lib \<lparr>Args = [VInt Kint 1, VFloat Kfloat64 (1 + 1 / 100000000)], NamedArgs = Map.empty\<rparr>
     = (VBool False, [])
   \<and> NotEqual_Evaluate rat_lib \<lparr>Args = [VInt Kint 1, VFloat Kfloat64 (1 + 1 / 100000000)], NamedArgs = Map.empty\<rparr>
     = (VBool False, [])"
proof -
  let ?a = "\<lparr>Args = [VInt Kint 1, VFloat Kfloat64 (1 + 1 / 100000000)], NamedArgs = Map.empty\<rparr> :: rat Arguments"
  have ops: "float_operands rat_lib (VInt Kint 1) (VFloat Kfloat64 (1 + 1 / 100000000)) x y
      \<longleftrightarrow> x = 1 \<and> y = 1 + 1 / 100000000" for x y
    by (auto simp: float_operands_def ToFloat64_def ToInt64_def err_of_def)
  have "Equal_Evaluate rat_lib ?a \<noteq> (VBool True, [])" "snd (Equal_Evaluate rat_lib ?a) = []"
    "NotEqual_Evaluate rat_lib ?a \<noteq> (VBool True, [])"
    by (simp_all add: Equal_Evaluate_def NotEqual_Evaluate_def binary_two adapter_defs evaluate_result_simps)
  with equality_opposites [of ?a "VInt Kint 1" "VFloat Kfloat64 (1 + 1 / 100000000)" rat_lib]
  show ?thesis by (auto simp: ops)
qed

section \<open>Comparison\<close>

text \<open>What the comparison of two numbers uses of the float order: no operand is NaN.\<close>

definition not_nan_order :: "('f, 'z) float_ops_scheme \<Rightarrow> bool" where
  "not_nan_order F \<longleftrightarrow> (\<forall>x y. F_lt F x y \<longleftrightarrow> \<not> F_le F y x)"

lemma Comparison_two:
  assumes "l \<noteq> VNil" "r \<noteq> VNil"
  shows "Comparison_Evaluate E f \<lparr>Args = [l, r], NamedArgs = na\<rparr> =
     (case adaptLeftAndRight l r (promoteArgumentToFloat64 E) of
       Inr (x, y) \<Rightarrow> (VBool (fst (comparisonFloatFunction E f x y)),
                      filterNilErrors [snd (comparisonFloatFunction E f x y)])
     | Inl _ \<Rightarrow> (case adaptLeftAndRight l r adaptArgumentToTime of
          Inr (s, t) \<Rightarrow> (VBool (fst (comparisonTimeFunction f s t)),
                        filterNilErrors [snd (comparisonTimeFunction f s t)])
        | Inl _ \<Rightarrow> (VNil, [ErrWrap ErrArgumentMustBeIntFloatOrTime
            ''all arguments to Comparison Evaluate must be int, float or time''])))"
  using assms
  by (simp add: Comparison_Evaluate_def binary_two evaluate_result_simps case_prod_beta Let_def
      cong: sum.case_cong)

text \<open>On two operands that are not null, the four comparisons agree on whether they apply, and when
  they do, \<open>>\<close> is the negation of \<open><=\<close> and \<open><\<close> the negation of \<open>>=\<close>, for numbers (within the
  tolerance, away from NaN) as for times; operands of other types are an error, never a value.\<close>

theorem comparisons_complementary:
  assumes "l \<noteq> VNil" "r \<noteq> VNil" "not_nan_order E"
  shows "let c = (\<lambda>f. Comparison_Evaluate E f \<lparr>Args = [l, r], NamedArgs = na\<rparr>) in
     (\<exists>gt lt. c FUNC_GREATER = (VBool gt, []) \<and> c FUNC_LESS_OR_EQUAL = (VBool (\<not> gt), [])
        \<and> c FUNC_LESS = (VBool lt, []) \<and> c FUNC_GREATER_OR_EQUAL = (VBool (\<not> lt), []))
   \<or> (\<exists>e. errors_is e ErrArgumentMustBeIntFloatOrTime
        \<and> (\<forall>f\<in>{FUNC_GREATER, FUNC_LESS_OR_EQUAL, FUNC_LESS, FUNC_GREATER_OR_EQUAL}. c f = (VNil, [e])))"
  using assms(3)
  by (cases "adaptLeftAndRight l r (promoteArgumentToFloat64 E)";
      cases "adaptLeftAndRight l r (adaptArgumentToTime :: 'a val \<Rightarrow> go_error + int)")
    (auto simp: Comparison_two [OF assms(1,2)] comparisonFloatFunction_def comparisonTimeFunction_def
      filterNilErrors_def not_nan_order_def Let_def split: prod.splits)

theorem comparisons_complementary_witness:
  "Comparison_Evaluate rat_lib FUNC_GREATER \<lparr>Args = [VInt Kint 2, VFloat Kfloat64 (3 / 2)], NamedArgs = Map.empty\<rparr>
     = (VBool True, [])
   \<and> Comparison_Evaluate rat_lib FUNC_LESS_OR_EQUAL
       \<lparr>Args = [VInt Kint 2, VFloat Kfloat64 (3 / 2)], NamedArgs = Map.empty\<rparr> = (VBool False, [])"
proof -
  have "Comparison_Evaluate rat_lib FUNC_GREATER
      \<lparr>Args = [VInt Kint 2, VFloat Kfloat64 (3 / 2)], NamedArgs = Map.empty\<rparr> = (VBool True, [])"
    by (simp add: Comparison_two adapter_defs comparisonFloatFunction_def filterNilErrors_def)
  then show ?thesis
    using comparisons_complementary [of "VInt Kint 2" "VFloat Kfloat64 (3 / 2)" rat_lib Map.empty]
    by (auto simp: not_nan_order_def not_le Let_def)
qed

section \<open>Arithmetic\<close>

text \<open>Addition, subtraction and multiplication of two 64-bit integers are the exact operation
  reduced to 64 bits, without an error and without a detour through floating point; the result is a
  64-bit integer. A division whose divisor equals zero never yields a value: it is an error that is
  classified as a division by zero, the one error a decision tolerates, and a division by anything
  else that is a number is a floating point number.\<close>

theorem arithmetic_results:
  assumes "ToInt64 l = Inr x" "ToInt64 r = Inr y" "ToFloat64 E n = Inr u" "ToFloat64 E d = Inr v"
  shows "Arithmetic_Evaluate E FUNC_ADD \<lparr>Args = [l, r], NamedArgs = na\<rparr> = (VInt Kint64 (wrap64 (x + y)), [])
   \<and> Arithmetic_Evaluate E FUNC_SUBTRACT \<lparr>Args = [l, r], NamedArgs = na\<rparr> = (VInt Kint64 (wrap64 (x - y)), [])
   \<and> Arithmetic_Evaluate E FUNC_MULTIPLY \<lparr>Args = [l, r], NamedArgs = na\<rparr> = (VInt Kint64 (wrap64 (x * y)), [])
   \<and> (if F_eq E v (F_of_int E 0)
      then \<exists>e. ArithmeticDivide_Evaluate E \<lparr>Args = [n, d], NamedArgs = na\<rparr> = (VNil, [e])
             \<and> AdaptExecutionError (Some e) = DivisionByZero \<and> IsAuthorizedError (Some e)
      else ArithmeticDivide_Evaluate E \<lparr>Args = [n, d], NamedArgs = na\<rparr> = (VFloat Kfloat64 (F_div E u v), []))"
proof -
  have nn: "l \<noteq> VNil" "r \<noteq> VNil" "n \<noteq> VNil" "d \<noteq> VNil"
    using assms by (auto simp: ToInt64_def ToFloat64_def)
  then have "adaptLeftAndRight l r promoteArgumentToInt64 = Inr (x, y)"
    "adaptLeftAndRight n d (promoteArgumentToFloat64 E) = Inr (u, v)"
    using assms by (simp_all add: adaptLeftAndRight_def promoteArgumentToInt64_def
        promoteArgumentToFloat64_def unless_nil_def argumentNotNil_def)
  then show ?thesis
    using nn
    by (simp add: Arithmetic_Evaluate_def ArithmeticDivide_Evaluate_def binary_two arithmeticEval_int_def
        evaluate_result_simps AdaptExecutionError_def IsAuthorizedError_iff)
qed

theorem arithmetic_results_witness:
  "Arithmetic_Evaluate rat_lib FUNC_ADD \<lparr>Args = [VInt Kint64 9223372036854775807, VInt Kint 1], NamedArgs = Map.empty\<rparr>
     = (VInt Kint64 (- 9223372036854775808), [])
   \<and> (\<exists>e. ArithmeticDivide_Evaluate rat_lib \<lparr>Args = [VInt Kint 1, VInt Kint 0], NamedArgs = Map.empty\<rparr> = (VNil, [e])
        \<and> IsAuthorizedError (Some e))"
  using arithmetic_results [of "VInt Kint64 9223372036854775807" 9223372036854775807 "VInt Kint 1" 1
      rat_lib "VInt Kint 1" 1 "VInt Kint 0" 0 Map.empty]
  by (auto simp: ToInt64_def ToFloat64_def wrap64_def)

section \<open>Multiples\<close>

definition multiple_args :: "'f val \<Rightarrow> 'f val \<Rightarrow> 'f Arguments" where
  "multiple_args value divider = \<lparr>Args = [], NamedArgs = [''value'' \<mapsto> value, ''divider'' \<mapsto> divider]\<rparr>"

text \<open>On a value and a divider that are whole numbers, "is a multiple of" is divisibility, except
  that a divider of zero makes the evaluation panic; and a value that is not a whole number is a
  multiple of nothing.\<close>

theorem is_multiple_of_divides:
  assumes "ToFloat64 E value = Inr x" "ToFloat64 E divider = Inr y" "downcastToInt64 E y = Some d"
  shows "IsMultipleOf_Evaluate E (multiple_args value divider) =
     (case downcastToInt64 E x of
        None \<Rightarrow> Some (VBool False, [])
      | Some v \<Rightarrow> if d = 0 then None else Some (VBool (d dvd v), []))"
proof -
  have nn: "value \<noteq> VNil" "divider \<noteq> VNil"
    using assms by (auto simp: ToFloat64_def)
  then show ?thesis
    using assms
    by (simp add: IsMultipleOf_Evaluate_def multiple_args_def AdaptNamedArgument_def
        promoteArgumentToFloat64_def unless_nil_def argumentNotNil_def dvd_eq_mod_eq_0
        split: option.splits)
qed

text \<open>
  The downcast truncates where its test rounds: a value just below a whole number (within the
  tolerance) becomes the whole number below it.
\<close>

lemma rat_floors:
  "\<lfloor>1 / 2 :: rat\<rfloor> = 0" "\<lfloor>3499999999 / 1000000000 :: rat\<rfloor> = 3" "\<lfloor>2999999999 / 1000000000 :: rat\<rfloor> = 2"
  by (simp_all add: floor_eq_iff)

lemma downcast_rat: "downcastToInt64 rat_lib (of_int n) = (if in_int64 n then Some n else None)"
  by (auto simp: downcastToInt64_def Let_def rat_round_def rat_truncate_def int64_defs rat_floors)

lemma downcast_truncates: "downcastToInt64 rat_lib (3 - 1 / 1000000000) = Some 2"
  by (simp add: downcastToInt64_def Let_def rat_round_def rat_truncate_def int64_defs rat_floors)

theorem is_multiple_of_divides_witness:
  "IsMultipleOf_Evaluate rat_lib (multiple_args (VInt Kint 12) (VInt Kint 4)) = Some (VBool True, [])
   \<and> IsMultipleOf_Evaluate rat_lib (multiple_args (VInt Kint 12) (VInt Kint 0)) = None
   \<and> IsMultipleOf_Evaluate rat_lib (multiple_args (VFloat Kfloat64 (3 - 1 / 1000000000)) (VInt Kint 3))
       = Some (VBool False, [])"
  using is_multiple_of_divides [of rat_lib "VInt Kint 12" 12 "VInt Kint 4" 4 4]
    is_multiple_of_divides [of rat_lib "VInt Kint 12" 12 "VInt Kint 0" 0 0]
    is_multiple_of_divides [of rat_lib "VFloat Kfloat64 (3 - 1 / 1000000000)" "3 - 1 / 1000000000" "VInt Kint 3" 3 3]
    downcast_rat [of 12] downcast_rat [of 4] downcast_rat [of 0] downcast_rat [of 3] downcast_truncates
  by (simp add: ToFloat64_def int64_defs)

section \<open>Membership in lists\<close>

lemma in_list_two:
  assumes "l \<noteq> VNil" "vs \<noteq> []"
  shows "StringInList_Evaluate E f \<lparr>Args = [l, VList vs], NamedArgs = na\<rparr> =
     (case vs ! 0 of
        VString _ \<Rightarrow>
          (case (adaptArgumentToString E l, adaptArgumentToListOfStrings E (VList vs)) of
             (Inr left, Inr right) \<Rightarrow> in_list_result f (stringInList left right)
           | (left, right) \<Rightarrow> (VNil, MakeAdaptedArgsErrors [err_of left, err_of right]))
      | VPrefix _ \<Rightarrow>
          (case (adaptArgumentToIp l, adaptArgumentToListOfCidrPrefixes (VList vs)) of
             (Inr left, Inr right) \<Rightarrow> in_list_result f (isIpInCidr left right)
           | (left, right) \<Rightarrow> (VNil, MakeAdaptedArgsErrors [err_of left, err_of right]))
      | _ \<Rightarrow> (VNil, []))"
proof -
  have "MapErr vs (\<lambda>item. case Some item of None \<Rightarrow> Inl (ErrNew ''couldn't cast argument'') | Some i \<Rightarrow> Inr i) = Inr vs"
    using MapErr_total [of vs _ "\<lambda>x. x"] by simp
  then show ?thesis
    using assms
    by (simp add: StringInList_Evaluate_def binary_two adaptArgumentToListOfThings_def as_anys_def)
qed

lemma string_list_adapted:
  "adaptArgumentToListOfStrings E (VList (map VString ss)) = Inr (map (Normalize E) ss)"
  by (simp add: adaptArgumentToListOfStrings_def adaptArgumentToListOfThings_def as_strings_def
      as_string_def MapErr_map)

lemma prefix_list_adapted:
  "adaptArgumentToListOfCidrPrefixes (VList (map VPrefix ps)) = Inr ps"
  by (simp add: adaptArgumentToListOfCidrPrefixes_def adaptArgumentToListOfThings_def as_prefixes_def
      as_prefix_def MapErr_map)

lemma score_list_adapted:
  "adaptArgumentToListOfThings (\<lambda>_. None) as_score (VList (map VScore ns)) = Inr ns"
  by (simp add: adaptArgumentToListOfThings_def as_score_def MapErr_map)

lemma in_list_empty:
  "l \<noteq> VNil \<Longrightarrow> StringInList_Evaluate E f \<lparr>Args = [l, VList []], NamedArgs = na\<rparr> = in_list_result f False"
  by (simp add: StringInList_Evaluate_def binary_two adaptArgumentToListOfThings_def as_anys_def)

lemma in_list_strings:
  "StringInList_Evaluate E f \<lparr>Args = [VString s, VList (map VString ss)], NamedArgs = na\<rparr>
     = in_list_result f (Normalize E s \<in> Normalize E ` set ss)"
proof (cases ss)
  case Nil
  then show ?thesis by (simp add: in_list_empty)
next
  case (Cons x xs)
  then have "map VString ss ! 0 = VString x" "map VString ss \<noteq> ([] :: 'a val list)" by simp_all
  with in_list_two [of "VString s" "map VString ss" E f na]
  show ?thesis
    by (simp add: string_list_adapted adaptArgumentToString_def unless_nil_def argumentNotNil_def
        stringInList_def)
qed

lemma in_list_prefixes:
  assumes "AddrFromSlice bs = Some ip"
  shows "StringInList_Evaluate E f \<lparr>Args = [VNetIP bs, VList (map VPrefix ps)], NamedArgs = na\<rparr>
     = in_list_result f (\<exists>p\<in>set ps. Prefix_Contains p (Unmap ip))"
proof (cases ps)
  case Nil
  then show ?thesis by (simp add: in_list_empty)
next
  case (Cons x xs)
  then have "map VPrefix ps ! 0 = VPrefix x" "map VPrefix ps \<noteq> ([] :: 'a val list)" by simp_all
  with assms in_list_two [of "VNetIP bs" "map VPrefix ps" E f na]
  show ?thesis
    by (simp add: prefix_list_adapted adaptArgumentToIp_def unless_nil_def argumentNotNil_def
        isIpInCidr_def list_ex_iff)
qed

text \<open>Membership of a text in a list of texts is membership up to Unicode normalisation, and
  membership of an IP address in a list of prefixes is being contained in one of them, where an
  IPv4 address written as an IPv6 address counts as the IPv4 address; "is not in" is the negation
  in both cases, also on the empty list.\<close>

theorem list_membership:
  shows "StringInList_Evaluate E FUNC_IS_IN_LIST \<lparr>Args = [VString s, VList (map VString ss)], NamedArgs = na\<rparr>
      = (VBool (Normalize E s \<in> Normalize E ` set ss), [])
   \<and> StringInList_Evaluate E FUNC_IS_NOT_IN_LIST \<lparr>Args = [VString s, VList (map VString ss)], NamedArgs = na\<rparr>
      = (VBool (Normalize E s \<notin> Normalize E ` set ss), [])
   \<and> (AddrFromSlice bs = Some ip \<longrightarrow>
       StringInList_Evaluate E FUNC_IS_IN_LIST \<lparr>Args = [VNetIP bs, VList (map VPrefix ps)], NamedArgs = na\<rparr>
         = (VBool (\<exists>p\<in>set ps. Prefix_Contains p (Unmap ip)), [])
     \<and> StringInList_Evaluate E FUNC_IS_NOT_IN_LIST \<lparr>Args = [VNetIP bs, VList (map VPrefix ps)], NamedArgs = na\<rparr>
         = (VBool (\<not> (\<exists>p\<in>set ps. Prefix_Contains p (Unmap ip))), []))"
  by (simp add: in_list_strings in_list_prefixes in_list_result_def)

theorem list_membership_witness:
  "StringInList_Evaluate rat_lib FUNC_IS_IN_LIST
     \<lparr>Args = [VNetIP [0, 0, 0, 0, 0, 0, 0, 0, 0, 0, 255, 255, 10, 1, 2, 3],
              VList [VPrefix \<lparr>prefix_addr = Addr4 167772160, prefix_bits = 8\<rparr>]], NamedArgs = Map.empty\<rparr>
     = (VBool True, [])"
  using list_membership [of rat_lib "[]" "[]" Map.empty "[0, 0, 0, 0, 0, 0, 0, 0, 0, 0, 255, 255, 10, 1, 2, 3]"
      "Addr6 281470849581571" "[\<lparr>prefix_addr = Addr4 167772160, prefix_bits = 8\<rparr>]"]
  by (simp add: AddrFromSlice_def bytes_value_def Unmap_def Prefix_Contains_def)

section \<open>Score branches\<close>

lemma first_triggered_cases:
  "(\<exists>i<length nodes. Triggered (nodes ! i) \<and> (\<forall>j<i. \<not> Triggered (nodes ! j))
      \<and> first_triggered k nodes = Some ((nodes ! i)\<lparr>Fallback := False, Default := False, Branch := Some (k + i)\<rparr>))
   \<or> (\<forall>n\<in>set nodes. \<not> Triggered n) \<and> first_triggered k nodes = None"
proof (induction nodes arbitrary: k)
  case Nil
  then show ?case by simp
next
  case (Cons n nodes)
  show ?case
  proof (cases "Triggered n")
    case True
    then show ?thesis by force
  next
    case False
    from Cons.IH [of "k + 1"] show ?thesis
    proof (elim disjE exE conjE)
      fix i assume "i < length nodes" "Triggered (nodes ! i)" "\<forall>j<i. \<not> Triggered (nodes ! j)"
        "first_triggered (k + 1) nodes
           = Some ((nodes ! i)\<lparr>Fallback := False, Default := False, Branch := Some (k + 1 + i)\<rparr>)"
      with False show ?thesis
        by (intro disjI1 exI [of _ "Suc i"]) (auto simp: nth_Cons' )
    qed (use False in auto)
  qed
qed

text \<open>A switch over score branches takes the first triggered branch, marks it with its index and
  keeps its modifier and floor; without one it takes the fallback if it has one, and otherwise the
  default, which adds nothing. The result is never an error.\<close>

theorem switch_takes_first_branch:
  assumes "nodes \<noteq> []"
  shows "\<exists>s. Switch_Evaluate \<lparr>Args = map VScore nodes, NamedArgs = na\<rparr> = (VScore s, [])
     \<and> (case Branch s of
          Some i \<Rightarrow> i < length nodes \<and> Triggered (nodes ! i) \<and> (\<forall>j<i. \<not> Triggered (nodes ! j))
            \<and> s = (nodes ! i)\<lparr>Fallback := False, Default := False, Branch := Some i\<rparr>
        | None \<Rightarrow> (\<forall>n\<in>set nodes. \<not> Triggered n)
            \<and> (case na ''fallback'' of
                 Some (VScore fb) \<Rightarrow> s = fb\<lparr>Fallback := True, Default := False, Branch := None\<rparr>
               | _ \<Rightarrow> s = no_score\<lparr>Triggered := True, Default := True\<rparr>))"
proof -
  have args: "map VScore nodes \<noteq> ([] :: 'a val list)" using assms by simp
  from first_triggered_cases [of nodes 0] show ?thesis
  proof (elim disjE exE conjE)
    fix i assume "i < length nodes" "Triggered (nodes ! i)" "\<forall>j<i. \<not> Triggered (nodes ! j)"
      "first_triggered 0 nodes = Some ((nodes ! i)\<lparr>Fallback := False, Default := False, Branch := Some (0 + i)\<rparr>)"
    then show ?thesis
      using args by (simp add: Switch_Evaluate_def score_list_adapted)
  next
    assume "\<forall>n\<in>set nodes. \<not> Triggered n" "first_triggered 0 nodes = None"
    then show ?thesis
      using args
      by (auto simp: Switch_Evaluate_def score_list_adapted AdaptNamedArgument_def
          adaptArgumentToThing_def as_score_def no_score_def split: option.splits val.splits)
  qed
qed

theorem switch_takes_first_branch_witness:
  "Switch_Evaluate \<lparr>Args = map VScore [no_score, no_score\<lparr>Triggered := True, Modifier := 7\<rparr>],
       NamedArgs = (Map.empty :: string \<rightharpoonup> rat val)\<rparr>
     = (VScore (no_score\<lparr>Triggered := True, Modifier := 7, Branch := Some 1\<rparr>), [])"
proof -
  obtain s where s: "Switch_Evaluate \<lparr>Args = map VScore [no_score, no_score\<lparr>Triggered := True, Modifier := 7\<rparr>],
       NamedArgs = (Map.empty :: string \<rightharpoonup> rat val)\<rparr> = (VScore s, [])"
    and b: "case Branch s of
          Some i \<Rightarrow> i < 2 \<and> Triggered ([no_score, no_score\<lparr>Triggered := True, Modifier := 7\<rparr>] ! i)
            \<and> s = ([no_score, no_score\<lparr>Triggered := True, Modifier := 7\<rparr>] ! i)
                    \<lparr>Fallback := False, Default := False, Branch := Some i\<rparr>
        | None \<Rightarrow> False"
    using switch_takes_first_branch [of "[no_score, no_score\<lparr>Triggered := True, Modifier := 7\<rparr>]"
        "Map.empty :: string \<rightharpoonup> rat val"]
    by (fastforce split: option.splits)
  then show ?thesis
    by (auto simp: less_2_cases_iff no_score_def split: option.splits)
qed

end
