(* ===== verification/Ast_Eval.thy ===== *)
theory Ast_Eval
  imports Evaluators "HOL-Library.Multiset"
begin

text \<open>
  Evaluation of a formula (\<^verbatim>\<open>src/usecases/ast_eval\<close>: \<open>evaluate_ast.go\<close>, \<open>weighted_nodes.go\<close>,
  \<open>evaluate_environment.go\<close>, \<open>evaluate_ast_expression.go\<close>).

  The evaluation threads the cache, whose nil pointer is \<open>None\<close>; a panic of an evaluator is \<open>None\<close>.
  A child evaluation is a function of the cache, and the children are run one after the other in
  the order of the code: named children first, then the positional children in the order of their
  cost, stopped by the lazy callback of the parent. Two calls for the same node at the same time,
  which share one execution, are not modelled; times (\<open>Took\<close>) are left out.

  Parameters: \<open>H\<close> is the hash of a node and \<open>S\<close> the order of \<open>slices.SortedFunc\<close>, which is not
  stable: it gives the positions of the sorted sequence.
\<close>

type_synonym 'f evaluator = "'f Arguments \<Rightarrow> 'f eval_result option"

record 'f AstEvaluationEnvironment =
  availableFunctions :: "Function \<rightharpoonup> 'f evaluator"
  disableCostOptimizations :: bool
  disableCircuitBreaking :: bool

text \<open>Registering a function twice panics.\<close>

definition AddEvaluator ::
    "'f AstEvaluationEnvironment \<Rightarrow> Function \<Rightarrow> 'f evaluator \<Rightarrow> 'f AstEvaluationEnvironment option" where
  "AddEvaluator environment f evaluator =
     (if availableFunctions environment f \<noteq> None then None
      else Some (environment\<lparr>availableFunctions := (availableFunctions environment)(f \<mapsto> evaluator)\<rparr>))"

definition GetEvaluator :: "'f AstEvaluationEnvironment \<Rightarrow> Function \<Rightarrow> go_error + 'f evaluator" where
  "GetEvaluator environment f = (case availableFunctions environment f of
     Some funcClass \<Rightarrow> Inr funcClass
   | None \<Rightarrow> Inl (ErrNew ''function is not available''))"

definition WithoutOptimizations :: "'f AstEvaluationEnvironment \<Rightarrow> 'f AstEvaluationEnvironment" where
  "WithoutOptimizations environment =
     environment\<lparr>disableCostOptimizations := True, disableCircuitBreaking := True\<rparr>"

definition WithoutCircuitBreaking :: "'f AstEvaluationEnvironment \<Rightarrow> 'f AstEvaluationEnvironment" where
  "WithoutCircuitBreaking environment = environment\<lparr>disableCircuitBreaking := True\<rparr>"

definition WithoutCostOptimizations :: "'f AstEvaluationEnvironment \<Rightarrow> 'f AstEvaluationEnvironment" where
  "WithoutCostOptimizations environment = environment\<lparr>disableCostOptimizations := True\<rparr>"

section \<open>Weighted nodes\<close>

record 'f WeightedNodes =
  enabled :: bool
  original :: "'f Node list"

definition set_Index :: "nat \<Rightarrow> 'f Node \<Rightarrow> 'f Node" where
  "set_Index i n = Node i (Node_Function n) (Node_Constant n) (Node_Children n) (Node_NamedChildren n)"

definition is_commutative :: "Function \<Rightarrow> bool" where
  "is_commutative f = (case (Attributes f :: unit FuncAttributes \<times> go_error option) of
     (fattrs, None) \<Rightarrow> Commutative fattrs
   | (fattrs, Some _) \<Rightarrow> False)"

definition NewWeightedNodes ::
    "'f AstEvaluationEnvironment \<Rightarrow> Function \<Rightarrow> 'f Node list \<Rightarrow> 'f WeightedNodes" where
  "NewWeightedNodes env parent nodes =
     (let en = (\<not> disableCostOptimizations env \<and> is_commutative parent)
      in \<lparr>enabled = en,
          original = (if en then map (\<lambda>(idx, n). set_Index idx n) (enumerate 0 nodes) else nodes)\<rparr>)"

text \<open>The positions, in \<open>original\<close>, of the nodes of \<open>Sorted\<close>.\<close>

definition Sorted :: "(int list \<Rightarrow> nat list) \<Rightarrow> 'f WeightedNodes \<Rightarrow> nat list" where
  "Sorted S wn = (if \<not> enabled wn then [0..<length (original wn)] else S (map Cost (original wn)))"

definition skipped_node :: "nat \<Rightarrow> 'f NodeEvaluation" where
  "skipped_node idx = NodeEvaluation idx \<lparr>Skipped = True, Cached = False\<rparr> FUNC_CONSTANT VNil None [] []"

definition set_not_skipped :: "'f NodeEvaluation \<Rightarrow> 'f NodeEvaluation" where
  "set_not_skipped e = NodeEvaluation (NE_Index e) ((NE_EvaluationPlan e)\<lparr>Skipped := False\<rparr>)
     (NE_Function e) (NE_ReturnValue e) (NE_Errors e) (NE_Children e) (NE_NamedChildren e)"

definition Reorder :: "'f WeightedNodes \<Rightarrow> 'f NodeEvaluation list \<Rightarrow> 'f NodeEvaluation list" where
  "Reorder wn results =
     (if \<not> enabled wn then results
      else fold (\<lambda>result output. output[NE_Index result := set_not_skipped result]) results
             (map skipped_node [0..<length (original wn)]))"

section \<open>Evaluation\<close>

type_synonym 'f response = "'f NodeEvaluation \<times> bool"

type_synonym 'f cache = "(nat \<rightharpoonup> 'f response) option"

type_synonym 'f run = "'f cache \<Rightarrow> ('f response \<times> 'f cache) option"

text \<open>\<open>MapWhile\<close> of \<open>evalChild\<close>: run the children until one says that the next must not run.\<close>

fun run_children :: "('f NodeEvaluation \<Rightarrow> bool) \<Rightarrow> 'f run list \<Rightarrow> 'f cache
    \<Rightarrow> ('f response list \<times> 'f cache) option" where
  "run_children evalNext [] st = Some ([], st)"
| "run_children evalNext (run # runs) st =
     (case run st of
        None \<Rightarrow> None
      | Some (r, st') \<Rightarrow>
          if evalNext (fst r) then
            (case run_children evalNext runs st' of
               None \<Rightarrow> None
             | Some (rs, st'') \<Rightarrow> Some (r # rs, st''))
          else Some ([r], st'))"

definition eval_next :: "'f AstEvaluationEnvironment \<Rightarrow> Function \<Rightarrow> 'f NodeEvaluation \<Rightarrow> bool" where
  "eval_next environment f childEval =
     (disableCircuitBreaking environment
      \<or> (case LazyChildEvaluation (fst (Attributes f)) of None \<Rightarrow> True | Some lazy \<Rightarrow> lazy childEval))"

definition no_plan :: NodeEvaluationPlan where
  "no_plan = \<lparr>Skipped = False, Cached = False\<rparr>"

text \<open>The response once all children have run without a failure, and whether it is stored.\<close>

definition apply_evaluator ::
    "'f AstEvaluationEnvironment \<Rightarrow> nat \<Rightarrow> Function \<Rightarrow> 'f NodeEvaluation list
     \<Rightarrow> (string \<times> 'f NodeEvaluation) list \<Rightarrow> ('f response \<times> bool) option" where
  "apply_evaluator environment i f children named =
     (case GetEvaluator environment f of
        Inl err \<Rightarrow> Some ((NodeEvaluation i no_plan f VNil (Some [err]) children named, False), False)
      | Inr evaluator \<Rightarrow>
         (case evaluator \<lparr>Args = map NE_ReturnValue children,
                          NamedArgs = map_of (MapValues named NE_ReturnValue)\<rparr> of
            None \<Rightarrow> None
          | Some (value, errs) \<Rightarrow>
             (let ok = (errs = []);
                  value' = (if ok then value else VNil)
              in Some ((NodeEvaluation i no_plan f value' (Some errs) children named, ok), True))))"

definition store :: "'f cache \<Rightarrow> nat \<Rightarrow> 'f response \<Rightarrow> 'f cache" where
  "store st h r = (case st of None \<Rightarrow> None | Some c \<Rightarrow> Some (c(h \<mapsto> r)))"

text \<open>The body that \<open>singleflight\<close> executes: the runs of the children are its last arguments.\<close>

definition eval_node ::
    "(int list \<Rightarrow> nat list) \<Rightarrow> 'f AstEvaluationEnvironment \<Rightarrow> nat \<Rightarrow> nat \<Rightarrow> Function \<Rightarrow> 'f WeightedNodes
     \<Rightarrow> 'f run list \<Rightarrow> (string \<times> 'f run) list \<Rightarrow> 'f run" where
  "eval_node S environment h i f weightedNodes runs named_runs st =
     (case run_children (\<lambda>_. True) (map snd named_runs) st of
        None \<Rightarrow> None
      | Some (nrs, st1) \<Rightarrow>
     (case run_children (eval_next environment f)
             (map (\<lambda>p. runs ! p) (Sorted S weightedNodes)) st1 of
        None \<Rightarrow> None
      | Some (rs, st2) \<Rightarrow>
         (let namedChildren = zip (map fst named_runs) (map fst nrs);
              children = Reorder weightedNodes (map fst rs);
              childEvaluationFail = list_ex (\<lambda>r. \<not> snd r) (nrs @ rs)
          in if childEvaluationFail then
               Some ((NodeEvaluation i no_plan f VNil
                        (if f = FUNC_UNDEFINED then Some [ErrUndefinedFunction] else None)
                        children namedChildren, False), st2)
             else
               (case apply_evaluator environment i f children namedChildren of
                  None \<Rightarrow> None
                | Some (r, stored) \<Rightarrow> Some (r, if stored then store st2 h r else st2)))))"

text \<open>A stored response is copied, with the index of the node and the plan of a cached node.\<close>

definition from_cache :: "nat \<Rightarrow> 'f response \<Rightarrow> 'f response" where
  "from_cache i r = (case r of (e, ok) \<Rightarrow>
     (NodeEvaluation i \<lparr>Skipped = False, Cached = True\<rparr> (NE_Function e) (NE_ReturnValue e)
        (NE_Errors e) (NE_Children e) (NE_NamedChildren e), ok))"

definition cached_response :: "'f cache \<Rightarrow> nat \<Rightarrow> 'f response option" where
  "cached_response st h = (case st of None \<Rightarrow> None | Some c \<Rightarrow> c h)"

lemma size_set_Index [simp]: "size (set_Index i n) = size n"
  by (cases n) (simp add: set_Index_def)

lemma size_original:
  "x \<in> set (original (NewWeightedNodes env f children)) \<Longrightarrow> size x < Suc (size_list size children)"
proof -
  assume "x \<in> set (original (NewWeightedNodes env f children))"
  then have "\<exists>c\<in>set children. size x = size c"
    by (fastforce simp: NewWeightedNodes_def Let_def in_set_enumerate_eq dest: nth_mem split: if_splits)
  then obtain c where "c \<in> set children" "size x = size c" by blast
  then show ?thesis using size_list_mem [of c children] by simp
qed

function EvaluateAst ::
    "('f Node \<Rightarrow> nat) \<Rightarrow> (int list \<Rightarrow> nat list) \<Rightarrow> 'f AstEvaluationEnvironment \<Rightarrow> 'f Node
     \<Rightarrow> 'f cache \<Rightarrow> ('f response \<times> 'f cache) option" where
  "EvaluateAst H S environment (Node i f c children named) st =
     (if f = FUNC_CONSTANT
      then Some ((NodeEvaluation i no_plan f c (Some []) [] [], True), st)
      else
       (let node = Node i f c children named; h = H node in
        case cached_response st h of
          Some response \<Rightarrow> Some (from_cache i response, st)
        | None \<Rightarrow>
           (let wn = NewWeightedNodes environment f children
            in eval_node S environment h i f wn
                 (map (\<lambda>child s. EvaluateAst H S environment child s) (original wn))
                 (map (\<lambda>kn. (fst kn, \<lambda>s. EvaluateAst H S environment (snd kn) s)) named) st)))"
  by pat_completeness auto

termination EvaluateAst
proof (relation "measure (\<lambda>(_, _, _, n, _). size n)", goal_cases)
  case (2 H S environment i f c children named st node h wn child s)
  then show ?case using size_original [of child environment f children] by simp
qed (auto simp: termination_simp)

text \<open>The result of \<open>EvaluateAstExpression\<close> is the evaluation and the error.\<close>

definition EvaluateAstExpression ::
    "('f Node \<Rightarrow> nat) \<Rightarrow> (int list \<Rightarrow> nat list) \<Rightarrow> 'f AstEvaluationEnvironment \<Rightarrow> 'f cache \<Rightarrow> 'f Node
     \<Rightarrow> (('f NodeEvaluation \<times> go_error option) \<times> 'f cache) option" where
  "EvaluateAstExpression H S environment cache ruleAstExpression =
     (case EvaluateAst H S environment ruleAstExpression cache of
        None \<Rightarrow> None
      | Some ((evaluation, ok), cache') \<Rightarrow>
          Some ((evaluation, if \<not> ok then errors_Join (map Some (FlattenErrors evaluation)) else None), cache'))"

section \<open>The order of the children\<close>

text \<open>What the evaluation uses of \<open>slices.SortedFunc\<close>: it sorts, that is, it permutes.\<close>

locale cost_order =
  fixes S :: "int list \<Rightarrow> nat list"
  assumes permutes: "mset (S costs) = mset [0..<length costs]"
    and sorts: "sorted (map (\<lambda>p. costs ! p) (S costs))"
begin

lemma set_S [simp]: "set (S costs) = {0..<length costs}"
  using mset_eq_setD [OF permutes [of costs]] by simp

lemma distinct_S [simp]: "distinct (S costs)"
  using permutes [of costs] by (metis distinct_upt mset_eq_imp_distinct_iff)

lemma length_S [simp]: "length (S costs) = length costs"
  using permutes [of costs] by (metis length_upt minus_nat.diff_0 size_mset)

lemma set_Sorted: "set (Sorted S wn) = {0..<length (original wn)}"
  by (simp add: Sorted_def)

lemma distinct_Sorted: "distinct (Sorted S wn)"
  by (simp add: Sorted_def)

end

text \<open>A stable insertion sort of the positions by their cost.\<close>

definition sort_positions :: "int list \<Rightarrow> nat list" where
  "sort_positions costs = sort_key (\<lambda>p. costs ! p) [0..<length costs]"

interpretation stable: cost_order sort_positions
  by unfold_locales (simp_all add: sort_positions_def)

end
