(* ===== verification/Ast_Eval_Laws.thy ===== *)
theory Ast_Eval_Laws
  imports Ast_Eval Evaluator_Laws
begin

text \<open>
  Correctness of formula evaluation: a failed evaluation always carries an error; reordering the
  children by cost and stopping early do not change the result of a formula that evaluates without
  them; and evaluating with a cache gives the results of evaluating without one.
\<close>

section \<open>Running children and restoring their order\<close>

lemma run_children_inv:
  assumes "run_children evalNext runs st = Some (rs, st')" "P st"
    and "\<And>j s r s'. j < length runs \<Longrightarrow> P s \<Longrightarrow> (runs ! j) s = Some (r, s') \<Longrightarrow> P s' \<and> Q j r"
  shows "P st' \<and> length rs \<le> length runs \<and> (\<forall>j<length rs. Q j (rs ! j))"
  using assms
proof (induction evalNext runs st arbitrary: rs Q rule: run_children.induct)
  case (1 evalNext st)
  then show ?case by simp
next
  case (2 evalNext run runs st)
  from "2.prems"(1) obtain r s1 where r: "run st = Some (r, s1)"
    by (auto split: option.splits)
  have r1: "P s1" "Q 0 r" using "2.prems"(3) [of 0 st r s1] "2.prems"(2) r by simp_all
  show ?case
  proof (cases "evalNext (fst r)")
    case True
    with "2.prems"(1) r obtain rs' where rs': "run_children evalNext runs s1 = Some (rs', st')" "rs = r # rs'"
      by (auto split: option.splits)
    have "P st' \<and> length rs' \<le> length runs \<and> (\<forall>j<length rs'. Q (Suc j) (rs' ! j))"
      using "2.IH" [OF r refl _ rs'(1) r1(1), of "\<lambda>j. Q (Suc j)"] True "2.prems"(3) [of "Suc _"]
      by auto
    with rs'(2) r1(2) show ?thesis by (auto simp: nth_Cons split: nat.split)
  next
    case False
    with "2.prems"(1) r r1 show ?thesis by auto
  qed
qed

lemma set_not_skipped_simps [simp]:
  "NE_Index (set_not_skipped e) = NE_Index e" "NE_Function (set_not_skipped e) = NE_Function e"
  "NE_ReturnValue (set_not_skipped e) = NE_ReturnValue e" "NE_Errors (set_not_skipped e) = NE_Errors e"
  "NE_Children (set_not_skipped e) = NE_Children e" "NE_NamedChildren (set_not_skipped e) = NE_NamedChildren e"
  by (simp_all add: set_not_skipped_def)

lemma FlattenErrors_set_not_skipped [simp]: "FlattenErrors (set_not_skipped e) = FlattenErrors e"
  by (cases e) (simp add: set_not_skipped_def)

lemma reorder_fold:
  fixes out :: "'f NodeEvaluation list"
  assumes "distinct (map NE_Index results)" "\<forall>r\<in>set results. NE_Index r < length out"
  defines "res \<equiv> fold (\<lambda>result output. output[NE_Index result := set_not_skipped result]) results out"
  shows "length res = length out"
    and "r \<in> set results \<Longrightarrow> res ! NE_Index r = set_not_skipped r"
    and "k \<notin> NE_Index ` set results \<Longrightarrow> res ! k = out ! k"
proof -
  have "length (fold (\<lambda>result output. output[NE_Index result := set_not_skipped result]) results out) = length out
    \<and> (\<forall>r\<in>set results. fold (\<lambda>result output. output[NE_Index result := set_not_skipped result]) results out
          ! NE_Index r = set_not_skipped r)
    \<and> (\<forall>k. k \<notin> NE_Index ` set results \<longrightarrow>
         fold (\<lambda>result output. output[NE_Index result := set_not_skipped result]) results out ! k = out ! k)"
    using assms(1,2)
  proof (induction results arbitrary: out)
    case Nil
    then show ?case by simp
  next
    case (Cons r rs)
    from Cons.IH [of "out[NE_Index r := set_not_skipped r]"] Cons.prems
    show ?case by (auto simp: image_iff) 
  qed
  then show "length res = length out" "r \<in> set results \<Longrightarrow> res ! NE_Index r = set_not_skipped r"
    "k \<notin> NE_Index ` set results \<Longrightarrow> res ! k = out ! k"
    by (auto simp: res_def)
qed

lemma Reorder_enabled:
  assumes "enabled wn" "distinct (map NE_Index results)"
    and "\<forall>r\<in>set results. NE_Index r < length (original wn)"
  shows "length (Reorder wn results) = length (original wn)"
    and "r \<in> set results \<Longrightarrow> Reorder wn results ! NE_Index r = set_not_skipped r"
    and "k < length (original wn) \<Longrightarrow> k \<notin> NE_Index ` set results \<Longrightarrow> Reorder wn results ! k = skipped_node k"
  using reorder_fold [OF assms(2), of "map skipped_node [0..<length (original wn)]"] assms
  by (simp_all add: Reorder_def)

lemma eval_node_Some:
  assumes "eval_node S env h i f wn runs named_runs st = Some ((e, ok), st')"
  shows "\<exists>nrs st1 rs st2.
    run_children (\<lambda>_. True) (map snd named_runs) st = Some (nrs, st1)
    \<and> run_children (eval_next env f) (map (\<lambda>p. runs ! p) (Sorted S wn)) st1 = Some (rs, st2)
    \<and> (if list_ex (\<lambda>r. \<not> snd r) (nrs @ rs) then \<not> ok \<and> st' = st2 \<and>
       e = NodeEvaluation i no_plan f VNil (if f = FUNC_UNDEFINED then Some [ErrUndefinedFunction] else None)
             (Reorder wn (map fst rs)) (zip (map fst named_runs) (map fst nrs))
      else \<exists>stored. apply_evaluator env i f (Reorder wn (map fst rs)) (zip (map fst named_runs) (map fst nrs))
           = Some ((e, ok), stored)
         \<and> st' = (if stored then store st2 h (e, ok) else st2))"
proof -
  from assms obtain nrs st1 where n: "run_children (\<lambda>_. True) (map snd named_runs) st = Some (nrs, st1)"
    unfolding eval_node_def by (auto split: option.splits)
  with assms obtain rs st2 where
    r: "run_children (eval_next env f) (map (\<lambda>p. runs ! p) (Sorted S wn)) st1 = Some (rs, st2)"
    unfolding eval_node_def by (auto split: option.splits)
  let ?named = "zip (map fst named_runs) (map fst nrs)" and ?children = "Reorder wn (map fst rs)"
  have body: "(if list_ex (\<lambda>r. \<not> snd r) (nrs @ rs)
      then Some ((NodeEvaluation i no_plan f VNil
             (if f = FUNC_UNDEFINED then Some [ErrUndefinedFunction] else None) ?children ?named, False), st2)
      else (case apply_evaluator env i f ?children ?named of
              None \<Rightarrow> None
            | Some (r, stored) \<Rightarrow> Some (r, if stored then store st2 h r else st2)))
    = Some ((e, ok), st')"
    using assms n r by (simp add: eval_node_def Let_def)
  have "if list_ex (\<lambda>r. \<not> snd r) (nrs @ rs) then \<not> ok \<and> st' = st2 \<and>
       e = NodeEvaluation i no_plan f VNil (if f = FUNC_UNDEFINED then Some [ErrUndefinedFunction] else None)
             ?children ?named
      else \<exists>stored. apply_evaluator env i f ?children ?named = Some ((e, ok), stored)
         \<and> st' = (if stored then store st2 h (e, ok) else st2)"
  proof (cases "list_ex (\<lambda>r. \<not> snd r) (nrs @ rs)")
    case True
    with body show ?thesis by (simp split: if_splits)
  next
    case False
    then have *: "(case apply_evaluator env i f ?children ?named of
              None \<Rightarrow> None
            | Some (r, stored) \<Rightarrow> Some (r, if stored then store st2 h r else st2)) = Some ((e, ok), st')"
      using body by (simp only: if_False)
    then obtain r stored where ap: "apply_evaluator env i f ?children ?named = Some (r, stored)"
      by (cases "apply_evaluator env i f ?children ?named") auto
    from * have "r = (e, ok)" "st' = (if stored then store st2 h r else st2)"
      unfolding ap by simp_all
    with ap False show ?thesis by auto
  qed
  with n r show ?thesis by blast
qed

lemma apply_evaluator_Some:
  assumes "apply_evaluator env i f children named = Some ((e, ok), stored)"
  shows "NE_Index e = i" "NE_Children e = children" "NE_NamedChildren e = named" "NE_Function e = f"
    "NE_EvaluationPlan e = no_plan" "ok \<longleftrightarrow> NE_Errors e = Some []" "NE_Errors e \<noteq> None"
  using assms by (auto simp: apply_evaluator_def Let_def split: sum.splits option.splits)

lemma eval_node_Index: "eval_node S env h i f wn runs named_runs st = Some ((e, ok), st') \<Longrightarrow> NE_Index e = i"
  by (drule eval_node_Some) (auto dest: apply_evaluator_Some(1) split: if_splits simp del: list_ex_append)

text \<open>The children of a node as the runs of its evaluation.\<close>

definition child_runs where
  "child_runs H S env f children =
     map (\<lambda>child s. EvaluateAst H S env child s) (original (NewWeightedNodes env f children))"

definition named_child_runs where
  "named_child_runs H S env named = map (\<lambda>kn. (fst kn, \<lambda>s. EvaluateAst H S env (snd kn) s)) named"

lemma EvaluateAst_step:
  "f \<noteq> FUNC_CONSTANT \<Longrightarrow> EvaluateAst H S env (Node i f c children named) st =
     (case cached_response st (H (Node i f c children named)) of
        Some response \<Rightarrow> Some (from_cache i response, st)
      | None \<Rightarrow> eval_node S env (H (Node i f c children named)) i f (NewWeightedNodes env f children)
          (child_runs H S env f children) (named_child_runs H S env named) st)"
  unfolding child_runs_def named_child_runs_def by (simp only: EvaluateAst.simps Let_def if_False)

lemma EvaluateAst_constant:
  "EvaluateAst H S env (Node i FUNC_CONSTANT c children named) st =
     Some ((NodeEvaluation i no_plan FUNC_CONSTANT c (Some []) [] [], True), st)"
  by simp

declare EvaluateAst.simps [simp del]

lemma EvaluateAst_Index: "EvaluateAst H S env n st = Some ((e, ok), st') \<Longrightarrow> NE_Index e = Node_Index n"
proof (cases n)
  case (Node i f c children named)
  assume e: "EvaluateAst H S env n st = Some ((e, ok), st')"
  show ?thesis
  proof (cases "f = FUNC_CONSTANT")
    case True
    with e Node show ?thesis by (auto simp: EvaluateAst_constant)
  next
    case False
    with e Node show ?thesis
      by (auto simp: EvaluateAst_step from_cache_def split: option.splits prod.splits
          dest: eval_node_Index)
  qed
qed

lemma original_Index:
  "enabled (NewWeightedNodes env f children) \<Longrightarrow> p < length children \<Longrightarrow>
     Node_Index (original (NewWeightedNodes env f children) ! p) = p"
  by (auto simp: NewWeightedNodes_def Let_def set_Index_def nth_enumerate_eq split: if_splits)

lemma length_original [simp]: "length (original (NewWeightedNodes env f children)) = length children"
  by (simp add: NewWeightedNodes_def Let_def)

section \<open>A failed evaluation carries an error\<close>

text \<open>A cache in which exactly the stored failures carry an error.\<close>

definition cache_errors :: "'f cache \<Rightarrow> bool" where
  "cache_errors st \<longleftrightarrow> (\<forall>h e ok. cached_response st h = Some (e, ok) \<longrightarrow> (ok \<longleftrightarrow> FlattenErrors e = []))"

lemma FlattenErrors_children:
  "FlattenErrors (NodeEvaluation i p f v errs children named) = [] \<longleftrightarrow>
     (case errs of None \<Rightarrow> True | Some es \<Rightarrow> es = [])
     \<and> (\<forall>c\<in>set children. FlattenErrors c = []) \<and> (\<forall>kn\<in>set named. FlattenErrors (snd kn) = [])"
  by (auto split: option.splits)

context cost_order
begin

text \<open>In the order restored by \<open>Reorder\<close>, every evaluated child is still there.\<close>

lemma reorder_keeps_errors:
  assumes "r \<in> set rs" "FlattenErrors r \<noteq> []"
    and "length rs \<le> length (original wn)"
    and "enabled wn \<Longrightarrow> \<forall>j<length rs. NE_Index (rs ! j) = Sorted S wn ! j"
  shows "\<exists>c\<in>set (Reorder wn rs). FlattenErrors c \<noteq> []"
proof (cases "enabled wn")
  case False
  with assms(1,2) show ?thesis by (auto simp: Reorder_def)
next
  case True
  have len: "length (Sorted S wn) = length (original wn)" by (simp add: Sorted_def)
  have idx: "map NE_Index rs = take (length rs) (Sorted S wn)"
    using assms(3) assms(4) [OF True] len by (auto intro: nth_equalityI)
  then have dist: "distinct (map NE_Index rs)" by (simp add: distinct_Sorted)
  have "NE_Index x \<in> set (take (length rs) (Sorted S wn))" if "x \<in> set rs" for x
    using that idx by (metis image_eqI list.set_map)
  then have bound: "\<forall>r\<in>set rs. NE_Index r < length (original wn)"
    using set_Sorted [of wn] by (metis atLeastLessThan_iff in_set_takeD)
  note R = Reorder_enabled [OF True dist bound]
  have "NE_Index r < length (Reorder wn rs)" using bound R(1) assms(1) by auto
  then show ?thesis using R(2) [OF assms(1)] assms(2) by (metis FlattenErrors_set_not_skipped nth_mem)
qed

lemma length_child_runs [simp]: "length (child_runs H S env f children) = length children"
  by (simp add: child_runs_def)

lemma ordered_run:
  assumes "j < length (Sorted S (NewWeightedNodes env f children))"
  shows "Sorted S (NewWeightedNodes env f children) ! j < length children"
    and "map (\<lambda>p. child_runs H S' env f children ! p) (Sorted S (NewWeightedNodes env f children)) ! j
      = EvaluateAst H S' env (original (NewWeightedNodes env f children)
          ! (Sorted S (NewWeightedNodes env f children) ! j))"
proof -
  show "Sorted S (NewWeightedNodes env f children) ! j < length children"
    using nth_mem [OF assms] set_Sorted [of "NewWeightedNodes env f children"] by simp
  then show "map (\<lambda>p. child_runs H S' env f children ! p) (Sorted S (NewWeightedNodes env f children)) ! j
      = EvaluateAst H S' env (original (NewWeightedNodes env f children)
          ! (Sorted S (NewWeightedNodes env f children) ! j))"
    using assms by (simp add: child_runs_def)
qed

text \<open>Induction over the children that an evaluation runs.\<close>

lemma node_child_sizes:
  "x \<in> set (original (NewWeightedNodes env f children)) \<Longrightarrow> size x < size (Node i f c children named)"
  "kn \<in> set named \<Longrightarrow> size (snd kn) < size (Node i f c children named)"
  using size_original [of x env f children] size_named_child [of kn named] by simp_all

text \<open>
  Invariants of an evaluation: if every child evaluation keeps \<open>P\<close> of the cache and establishes
  \<open>Q\<close> of its response, the responses of the children satisfy \<open>Q\<close>, and those that are to be
  reordered carry their positions.
\<close>

lemma eval_children_inv:
  assumes "run_children (\<lambda>_. True) (map snd (named_child_runs H S env named)) st = Some (nrs, st1)"
    and "run_children (eval_next env f)
          (map (\<lambda>p. child_runs H S env f children ! p) (Sorted S (NewWeightedNodes env f children))) st1
          = Some (rs, st2)"
    and "P st"
    and child: "\<forall>x s r s'. size x < size (Node i f c children named) \<longrightarrow> P s \<longrightarrow>
          EvaluateAst H S env x s = Some (r, s') \<longrightarrow> P s' \<and> Q r"
  shows "P st2" "\<forall>r\<in>set (nrs @ rs). Q r" "length rs \<le> length children" "length nrs \<le> length named"
    and "enabled (NewWeightedNodes env f children) \<Longrightarrow>
          \<forall>j<length rs. NE_Index (fst (rs ! j)) = Sorted S (NewWeightedNodes env f children) ! j"
proof -
  let ?wn = "NewWeightedNodes env f children"
  have "P st1 \<and> length nrs \<le> length (map snd (named_child_runs H S env named))
      \<and> (\<forall>j<length nrs. Q (nrs ! j))"
  proof (rule run_children_inv [where P = P and Q = "\<lambda>_. Q", OF assms(1) \<open>P st\<close>])
    fix j s r s'
    assume j: "j < length (map snd (named_child_runs H S env named))" and s: "P s"
      and r: "(map snd (named_child_runs H S env named) ! j) s = Some (r, s')"
    then have "EvaluateAst H S env (snd (named ! j)) s = Some (r, s')" "named ! j \<in> set named"
      by (simp_all add: named_child_runs_def)
    then show "P s' \<and> Q r" using child node_child_sizes(2) s by blast
  qed
  then have n: "P st1" "length nrs \<le> length named" "\<forall>r\<in>set nrs. Q r"
    unfolding all_set_conv_all_nth by (simp_all add: named_child_runs_def)
  have len: "length (Sorted S ?wn) = length children" by (simp add: Sorted_def)
  have "P st2 \<and> length rs \<le> length (map (\<lambda>p. child_runs H S env f children ! p) (Sorted S ?wn))
      \<and> (\<forall>j<length rs. Q (rs ! j) \<and> (enabled ?wn \<longrightarrow> NE_Index (fst (rs ! j)) = Sorted S ?wn ! j))"
  proof (rule run_children_inv [where P = P
        and Q = "\<lambda>j r. Q r \<and> (enabled ?wn \<longrightarrow> NE_Index (fst r) = Sorted S ?wn ! j)", OF assms(2) n(1)])
    fix j s r s'
    assume j: "j < length (map (\<lambda>p. child_runs H S env f children ! p) (Sorted S ?wn))" and s: "P s"
      and r: "(map (\<lambda>p. child_runs H S env f children ! p) (Sorted S ?wn) ! j) s = Some (r, s')"
    let ?x = "original ?wn ! (Sorted S ?wn ! j)"
    have x: "EvaluateAst H S env ?x s = Some (r, s')" and p: "Sorted S ?wn ! j < length children"
      using j r ordered_run(1) [of j env f children]
        ordered_run(2) [where j = j and env = env and f = f and children = children and H = H and S' = S]
      by simp_all
    have "?x \<in> set (original ?wn)" using p by simp
    then have "P s' \<and> Q r" using child s x node_child_sizes(1) by blast
    moreover have "NE_Index (fst r) = Node_Index ?x"
      using EvaluateAst_Index [of H S env ?x s "fst r" "snd r" s'] x by simp
    ultimately show "P s' \<and> Q r \<and> (enabled ?wn \<longrightarrow> NE_Index (fst r) = Sorted S ?wn ! j)"
      using original_Index [OF _ p] by simp
  qed
  then have r: "P st2" "length rs \<le> length children" "\<forall>r\<in>set rs. Q r"
    "enabled ?wn \<Longrightarrow> \<forall>j<length rs. NE_Index (fst (rs ! j)) = Sorted S ?wn ! j"
    unfolding all_set_conv_all_nth using len by simp_all
  show "P st2" "length rs \<le> length children" "length nrs \<le> length named"
    "enabled ?wn \<Longrightarrow> \<forall>j<length rs. NE_Index (fst (rs ! j)) = Sorted S ?wn ! j"
    using r n(2) by blast+
  show "\<forall>r\<in>set (nrs @ rs). Q r" using r(3) n(3) by (metis UnE set_append)
qed

lemma cached_response_store [simp]:
  "cached_response (store st h r) h' = (if st = None then None else if h' = h then Some r else cached_response st h')"
  by (simp add: cached_response_def store_def split: option.splits)

lemma cache_errors_store: "cache_errors st \<Longrightarrow> (ok \<longleftrightarrow> FlattenErrors e = []) \<Longrightarrow> cache_errors (store st h (e, ok))"
  by (auto simp: cache_errors_def)

lemma FlattenErrors_from_cache: "FlattenErrors (fst (from_cache i r)) = FlattenErrors (fst r)"
  by (cases r; cases "fst r") (simp add: from_cache_def)

lemma apply_evaluator_errors:
  assumes "apply_evaluator env i f children named = Some ((e, ok), stored)"
    and "\<forall>c\<in>set children. FlattenErrors c = []" "\<forall>kn\<in>set named. FlattenErrors (snd kn) = []"
  shows "ok \<longleftrightarrow> FlattenErrors e = []"
  using assms
  by (auto simp: apply_evaluator_def Let_def split: sum.splits option.splits)

lemma Reorder_members: "set (Reorder wn rs) \<subseteq> set rs \<union> set_not_skipped ` set rs \<union> range skipped_node"
proof -
  have "set (fold (\<lambda>result output. output[NE_Index result := set_not_skipped result]) rs out)
      \<subseteq> set out \<union> set_not_skipped ` set rs" for out
  proof (induction rs arbitrary: out)
    case (Cons r rs)
    from Cons.IH [of "out[NE_Index r := set_not_skipped r]"] show ?case
      using set_update_subset_insert [of out "NE_Index r" "set_not_skipped r"] by auto
  qed simp
  from this [of "map skipped_node [0..<length (original wn)]"] show ?thesis
    unfolding Reorder_def by auto
qed

lemma Reorder_no_errors: "\<forall>r\<in>set rs. FlattenErrors r = [] \<Longrightarrow> \<forall>c\<in>set (Reorder wn rs). FlattenErrors c = []"
  using Reorder_members [of wn rs] by (fastforce simp: skipped_node_def)

lemma EvaluateAst_errors:
  assumes "EvaluateAst H S env n st = Some ((e, ok), st')" "cache_errors st"
  shows "cache_errors st' \<and> (ok \<longleftrightarrow> FlattenErrors e = [])"
  using assms
proof (induction "size n" arbitrary: n e ok st st' rule: less_induct)
  case less
  obtain i f c children named where n: "n = Node i f c children named" by (cases n)
  let ?wn = "NewWeightedNodes env f children"
  consider "f = FUNC_CONSTANT" | "f \<noteq> FUNC_CONSTANT" by blast
  then show ?case
  proof cases
    case 1
    with less.prems n show ?thesis by (auto simp: EvaluateAst_constant)
  next
    case 2
    show ?thesis
    proof (cases "cached_response st (H n)")
      case (Some r)
      with less.prems n 2 have "(e, ok) = from_cache i r" "st' = st"
        by (auto simp: EvaluateAst_step)
      then show ?thesis
        using Some less.prems(2) FlattenErrors_from_cache [of i r]
        by (cases r) (auto simp: cache_errors_def from_cache_def)
    next
      case None
      with less.prems n 2 have "eval_node S env (H n) i f ?wn (child_runs H S env f children)
          (named_child_runs H S env named) st = Some ((e, ok), st')"
        by (simp add: EvaluateAst_step)
      then obtain nrs st1 rs st2 where
        nr: "run_children (\<lambda>_. True) (map snd (named_child_runs H S env named)) st = Some (nrs, st1)" and
        r: "run_children (eval_next env f)
            (map (\<lambda>p. child_runs H S env f children ! p) (Sorted S ?wn)) st1 = Some (rs, st2)" and
        res: "if list_ex (\<lambda>r. \<not> snd r) (nrs @ rs) then \<not> ok \<and> st' = st2 \<and>
          e = NodeEvaluation i no_plan f VNil (if f = FUNC_UNDEFINED then Some [ErrUndefinedFunction] else None)
             (Reorder ?wn (map fst rs)) (zip (map fst (named_child_runs H S env named)) (map fst nrs))
          else \<exists>stored. apply_evaluator env i f (Reorder ?wn (map fst rs))
              (zip (map fst (named_child_runs H S env named)) (map fst nrs)) = Some ((e, ok), stored)
            \<and> st' = (if stored then store st2 (H n) (e, ok) else st2)"
        using eval_node_Some by blast
      have step: "\<forall>x s r s'. size x < size (Node i f c children named) \<longrightarrow> cache_errors s \<longrightarrow>
          EvaluateAst H S env x s = Some (r, s') \<longrightarrow>
          cache_errors s' \<and> (snd r \<longleftrightarrow> FlattenErrors (fst r) = [])"
        using less.hyps n by (metis prod.collapse)
      note inv = eval_children_inv [where P = cache_errors and Q = "\<lambda>r. snd r \<longleftrightarrow> FlattenErrors (fst r) = []",
          OF nr r less.prems(2) step]
      show ?thesis
      proof (cases "list_ex (\<lambda>r. \<not> snd r) (nrs @ rs)")
        case False
        with res have "\<exists>stored. apply_evaluator env i f (Reorder ?wn (map fst rs))
              (zip (map fst (named_child_runs H S env named)) (map fst nrs)) = Some ((e, ok), stored)
            \<and> st' = (if stored then store st2 (H n) (e, ok) else st2)" by (simp only: if_False)
        then obtain stored where ap: "apply_evaluator env i f (Reorder ?wn (map fst rs))
              (zip (map fst (named_child_runs H S env named)) (map fst nrs)) = Some ((e, ok), stored)"
            and st': "st' = (if stored then store st2 (H n) (e, ok) else st2)"
          by blast
        have none: "\<forall>r\<in>set (nrs @ rs). FlattenErrors (fst r) = []"
          using inv(2) False unfolding list_ex_iff by blast
        have "\<forall>c\<in>set (Reorder ?wn (map fst rs)). FlattenErrors c = []"
          by (rule Reorder_no_errors) (use none in auto)
        moreover have "\<forall>kn\<in>set (zip (map fst (named_child_runs H S env named)) (map fst nrs)).
            FlattenErrors (snd kn) = []"
          using none by (auto dest!: set_zip_rightD)
        ultimately have "ok \<longleftrightarrow> FlattenErrors e = []"
          by (rule apply_evaluator_errors [OF ap])
        with st' show ?thesis
          using inv(1) cache_errors_store [of st2 ok e] by (cases stored) simp_all
      next
        case True
        then have e: "\<not> ok" "st' = st2" "e = NodeEvaluation i no_plan f VNil
            (if f = FUNC_UNDEFINED then Some [ErrUndefinedFunction] else None)
            (Reorder ?wn (map fst rs)) (zip (map fst (named_child_runs H S env named)) (map fst nrs))"
          using res by simp_all
        from True obtain r0 where r0: "r0 \<in> set nrs \<or> r0 \<in> set rs" "FlattenErrors (fst r0) \<noteq> []"
          using inv(2) unfolding list_ex_iff set_append by blast
        have "FlattenErrors e \<noteq> []"
        proof (cases "r0 \<in> set rs")
          case True
          then have "\<exists>c\<in>set (Reorder ?wn (map fst rs)). FlattenErrors c \<noteq> []"
            using inv(3,5) r0(2) by (intro reorder_keeps_errors [of "fst r0"]) auto
          then show ?thesis using e FlattenErrors_children by fastforce
        next
          case False
          with r0 have "r0 \<in> set nrs" by simp
          then obtain j where j: "j < length nrs" "nrs ! j = r0" by (auto simp: in_set_conv_nth)
          let ?zip = "zip (map fst (named_child_runs H S env named)) (map fst nrs)"
          have "j < length ?zip" "snd (?zip ! j) = fst r0"
            using j inv(4) by (simp_all add: named_child_runs_def)
          then have "\<exists>kn\<in>set ?zip. FlattenErrors (snd kn) \<noteq> []" using r0(2) by (metis nth_mem)
          then show ?thesis using e FlattenErrors_children by fastforce
        qed
        with e(1,2) inv(1) show ?thesis by simp
      qed
    qed
  qed
qed

end

text \<open>C7: An evaluation succeeds exactly when no node of its tree carries an error, and a failed
  evaluation is returned with a non-nil error that contains each of them: no failure is silent,
  whatever the order of the children, the early stops and the cache.\<close>

theorem evaluation_error_iff_failed:
  assumes "cost_order S" "cache_errors cache"
    and "EvaluateAstExpression H S env cache n = Some ((e, err), cache')"
  shows "(err = None \<longleftrightarrow> FlattenErrors e = [])
   \<and> (\<forall>x\<in>set (FlattenErrors e). \<exists>j. err = Some j \<and> errors_is j x) \<and> cache_errors cache'"
proof -
  from assms(3) obtain ok where ev: "EvaluateAst H S env n cache = Some ((e, ok), cache')"
    and err: "err = (if \<not> ok then errors_Join (map Some (FlattenErrors e)) else None)"
    by (auto simp: EvaluateAstExpression_def split: option.splits prod.splits)
  note ok = cost_order.EvaluateAst_errors [OF assms(1) ev assms(2)]
  have "errors_Join (map Some (FlattenErrors e)) = None \<longleftrightarrow> FlattenErrors e = []"
    by (auto simp: errors_Join_None_iff)
  moreover have "\<exists>j. errors_Join (map Some (FlattenErrors e)) = Some j \<and> errors_is j x"
    if "x \<in> set (FlattenErrors e)" for x
    using that errors_Join_is [of "map Some (FlattenErrors e)" _ x x]
    by (cases "errors_Join (map Some (FlattenErrors e))") (auto simp: errors_Join_None_iff)
  ultimately show ?thesis using ok err by (cases ok) auto
qed

text \<open>The environment of the examples: the boolean operators, division and equality on rationals.\<close>

definition example_env :: "rat AstEvaluationEnvironment" where
  "example_env = \<lparr>availableFunctions =
      [FUNC_AND \<mapsto> (\<lambda>a. Some (BooleanArithmetic_Evaluate FUNC_AND a)),
       FUNC_OR \<mapsto> (\<lambda>a. Some (BooleanArithmetic_Evaluate FUNC_OR a)),
       FUNC_SWITCH \<mapsto> (\<lambda>a. Some (Switch_Evaluate a)),
       FUNC_EQUAL \<mapsto> (\<lambda>a. Some (Equal_Evaluate rat_lib a)),
       FUNC_DIVIDE \<mapsto> (\<lambda>a. Some (ArithmeticDivide_Evaluate rat_lib a))],
     disableCostOptimizations = False, disableCircuitBreaking = False\<rparr>"

definition const :: "rat val \<Rightarrow> rat Node" where
  "const v = NewNodeConstant v"

lemma cache_errors_None [simp]: "cache_errors None"
  by (simp add: cache_errors_def cached_response_def)

text \<open>The definitions that evaluate an example.\<close>

lemmas evaluate_example = EvaluateAstExpression_def EvaluateAst_step EvaluateAst_constant eval_node_def
  cached_response_def child_runs_def named_child_runs_def NewWeightedNodes_def Sorted_def Reorder_def
  is_commutative_def Attributes_def eval_next_def apply_evaluator_def GetEvaluator_def store_def
  const_def NewNodeConstant_def example_env_def MapValues_def set_Index_def enumerate_eq_zip upt_rec
  set_not_skipped_def skipped_node_def

theorem evaluation_error_iff_failed_witness:
  "\<exists>e j. EvaluateAstExpression (\<lambda>_. 0) sort_positions example_env None
      (Node 0 FUNC_DIVIDE VNil [const (VInt Kint 1), const (VInt Kint 0)] []) = Some ((e, Some j), None)
    \<and> errors_is j ErrDivisionByZero"
proof -
  obtain e err where ev: "EvaluateAstExpression (\<lambda>_. 0) sort_positions example_env None
      (Node 0 FUNC_DIVIDE VNil [const (VInt Kint 1), const (VInt Kint 0)] []) = Some ((e, err), None)"
    and e: "ErrWrap ErrDivisionByZero ''Zero division error in Evaluate function Divide'' \<in> set (FlattenErrors e)"
    by (simp add: evaluate_example ArithmeticDivide_Evaluate_def binary_two adapter_defs evaluate_result_simps)
  then obtain j where "err = Some j" "errors_is j (ErrWrap ErrDivisionByZero ''Zero division error in Evaluate function Divide'')"
    using evaluation_error_iff_failed [OF stable.cost_order_axioms cache_errors_None ev] by blast
  then show ?thesis
    using ev errors_is_trans [of j _ ErrDivisionByZero] by auto
qed

section \<open>Optimisations do not change results\<close>

text \<open>Evaluation without a cache leaves it nil and depends on the index of the node only in its own index.\<close>

definition with_index :: "nat \<Rightarrow> 'f response \<Rightarrow> 'f response" where
  "with_index i r = (NodeEvaluation i (NE_EvaluationPlan (fst r)) (NE_Function (fst r))
     (NE_ReturnValue (fst r)) (NE_Errors (fst r)) (NE_Children (fst r)) (NE_NamedChildren (fst r)), snd r)"

lemma store_None [simp]: "store None h r = None"
  by (simp add: store_def)

lemma cached_response_None [simp]: "cached_response None h = None"
  by (simp add: cached_response_def)

context cost_order
begin

lemma EvaluateAst_no_cache:
  assumes "EvaluateAst H S env n None = Some (r, st')"
  shows "st' = None"
  using assms
proof (induction "size n" arbitrary: n r st' rule: less_induct)
  case less
  obtain i f c children named where n: "n = Node i f c children named" by (cases n)
  show ?case
  proof (cases "f = FUNC_CONSTANT")
    case True
    with less.prems n show ?thesis by (auto simp: EvaluateAst_constant)
  next
    case False
    with less.prems n have "eval_node S env (H n) i f (NewWeightedNodes env f children)
        (child_runs H S env f children) (named_child_runs H S env named) None = Some (r, st')"
      by (simp add: EvaluateAst_step)
    then have ev: "eval_node S env (H n) i f (NewWeightedNodes env f children)
        (child_runs H S env f children) (named_child_runs H S env named) None = Some ((fst r, snd r), st')"
      by simp
    from eval_node_Some [OF this] obtain nrs st1 rs st2 where
      nr: "run_children (\<lambda>_. True) (map snd (named_child_runs H S env named)) None = Some (nrs, st1)" and
      r: "run_children (eval_next env f) (map (\<lambda>p. child_runs H S env f children ! p)
            (Sorted S (NewWeightedNodes env f children))) st1 = Some (rs, st2)" and
      st': "st' = st2 \<or> (\<exists>h r. st' = store st2 h r)"
      by (metis (no_types, lifting))
    have "\<forall>x s r s'. size x < size (Node i f c children named) \<longrightarrow> s = None \<longrightarrow>
        EvaluateAst H S env x s = Some (r, s') \<longrightarrow> s' = None \<and> True"
      using less.hyps n by blast
    from eval_children_inv(1) [where P = "\<lambda>s. s = None", OF nr r refl this] st'
    show ?thesis by auto
  qed
qed

end

text \<open>Running children that all succeed: a prefix is run, and a run that is not the whole ends early.\<close>

definition run_value :: "'f run \<Rightarrow> 'f response" where
  "run_value run = fst (the (run None))"

lemma run_children_prefix:
  assumes "\<forall>run\<in>set runs. run None = Some (run_value run, None)"
  shows "\<exists>m\<le>length runs. run_children evalNext runs None = Some (map run_value (take m runs), None)
     \<and> (m = length runs \<or> (\<exists>run\<in>set (take m runs). \<not> evalNext (fst (run_value run))))"
  using assms
proof (induction runs)
  case Nil
  then show ?case by simp
next
  case (Cons run runs)
  then obtain m where m: "m \<le> length runs"
    "run_children evalNext runs None = Some (map run_value (take m runs), None)"
    "m = length runs \<or> (\<exists>run\<in>set (take m runs). \<not> evalNext (fst (run_value run)))" by auto
  have run: "run None = Some (run_value run, None)" using Cons.prems by simp
  show ?case
  proof (cases "evalNext (fst (run_value run))")
    case True
    with m run show ?thesis by (intro exI [of _ "Suc m"]) auto
  next
    case False
    with run show ?thesis by (intro exI [of _ 1]) simp
  qed
qed

lemma run_children_all:
  assumes "run_children (\<lambda>_. True) runs None = Some (rs, st')"
    and "\<forall>run\<in>set runs. \<forall>r s. run None = Some (r, s) \<longrightarrow> s = None"
  shows "st' = None \<and> rs = map run_value runs \<and> (\<forall>run\<in>set runs. run None = Some (run_value run, None))"
  using assms
proof (induction runs arbitrary: rs)
  case Nil
  then show ?case by simp
next
  case (Cons run runs)
  then obtain r s where r: "run None = Some (r, s)" by (auto split: option.splits)
  with Cons.prems(2) have s: "s = None" by auto
  with r Cons.prems(1) obtain rs' where "run_children (\<lambda>_. True) runs None = Some (rs', st')" "rs = r # rs'"
    by (auto split: option.splits)
  with Cons r s show ?case by (auto simp: run_value_def)
qed

lemma eval_next_all: "disableCircuitBreaking env \<Longrightarrow> eval_next env f = (\<lambda>_. True)"
  by (auto simp: eval_next_def)

text \<open>The unoptimised evaluation of a node: every child, in order.\<close>

definition child_value where
  "child_value H S env x = run_value (EvaluateAst H S env x)"

context cost_order
begin

lemma unoptimised_node:
  assumes "EvaluateAst H S (WithoutOptimizations env) (Node i f c children named) None = Some ((e, True), st')"
    and "f \<noteq> FUNC_CONSTANT"
  defines "val \<equiv> child_value H S (WithoutOptimizations env)"
  shows "\<exists>evaluator v. availableFunctions env f = Some evaluator
     \<and> (\<forall>x\<in>set children \<union> snd ` set named.
          EvaluateAst H S (WithoutOptimizations env) x None = Some ((fst (val x), True), None))
     \<and> evaluator \<lparr>Args = map (\<lambda>x. NE_ReturnValue (fst (val x))) children,
          NamedArgs = map_of (map (\<lambda>kn. (fst kn, NE_ReturnValue (fst (val (snd kn))))) named)\<rparr> = Some (v, [])
     \<and> e = NodeEvaluation i no_plan f v (Some []) (map (\<lambda>x. fst (val x)) children)
            (map (\<lambda>kn. (fst kn, fst (val (snd kn)))) named)"
proof -
  let ?env = "WithoutOptimizations env"
  have wn: "NewWeightedNodes ?env f children = \<lparr>enabled = False, original = children\<rparr>"
    by (simp add: NewWeightedNodes_def WithoutOptimizations_def)
  have next_all: "eval_next ?env f = (\<lambda>_. True)"
    by (simp add: eval_next_all WithoutOptimizations_def)
  have order: "map (\<lambda>p. child_runs H S ?env f children ! p) (Sorted S \<lparr>enabled = False, original = children\<rparr>)
      = map (EvaluateAst H S ?env) children"
    by (rule nth_equalityI) (simp_all add: Sorted_def child_runs_def wn)
  have ev: "eval_node S ?env (H (Node i f c children named)) i f \<lparr>enabled = False, original = children\<rparr>
      (child_runs H S ?env f children) (named_child_runs H S ?env named) None = Some ((e, True), st')"
    using assms(1,2) by (simp add: EvaluateAst_step wn)
  from eval_node_Some [OF this] obtain nrs st1 rs st2 where
    nr: "run_children (\<lambda>_. True) (map snd (named_child_runs H S ?env named)) None = Some (nrs, st1)" and
    r: "run_children (\<lambda>_. True) (map (EvaluateAst H S ?env) children) st1 = Some (rs, st2)" and
    res: "\<not> list_ex (\<lambda>r. \<not> snd r) (nrs @ rs)"
      "\<exists>stored. apply_evaluator ?env i f (map fst rs)
         (zip (map fst (named_child_runs H S ?env named)) (map fst nrs)) = Some ((e, True), stored)"
    unfolding next_all order by (auto simp: Reorder_def split: if_splits simp del: list_ex_append)
  have keep: "\<forall>run\<in>set (map snd (named_child_runs H S ?env named)). \<forall>r s. run None = Some (r, s) \<longrightarrow> s = None"
    "\<forall>run\<in>set (map (EvaluateAst H S ?env) children). \<forall>r s. run None = Some (r, s) \<longrightarrow> s = None"
    using EvaluateAst_no_cache by (auto simp: named_child_runs_def)
  from run_children_all [OF nr keep(1)] have n: "st1 = None"
    "nrs = map (\<lambda>kn. val (snd kn)) named"
    "\<forall>kn\<in>set named. EvaluateAst H S ?env (snd kn) None = Some (val (snd kn), None)"
    by (auto simp: named_child_runs_def val_def child_value_def)
  from run_children_all [OF r [unfolded n(1)] keep(2)] have c: "rs = map val children"
    "\<forall>x\<in>set children. EvaluateAst H S ?env x None = Some (val x, None)"
    by (auto simp: val_def child_value_def)
  have ok: "snd (val x)" if "x \<in> set children \<union> snd ` set named" for x
    using that res(1) n(2) c(1) by (auto simp: list_ex_iff)
  have all: "\<forall>x\<in>set children \<union> snd ` set named. EvaluateAst H S ?env x None = Some ((fst (val x), True), None)"
  proof
    fix x assume x: "x \<in> set children \<union> snd ` set named"
    then have "EvaluateAst H S ?env x None = Some (val x, None)" using n(3) c(2) by blast
    with ok [OF x] show "EvaluateAst H S ?env x None = Some ((fst (val x), True), None)"
      by (cases "val x") simp
  qed
  have zip: "zip (map fst (named_child_runs H S ?env named)) (map fst nrs)
      = map (\<lambda>kn. (fst kn, fst (val (snd kn)))) named"
    by (simp add: n(2) named_child_runs_def zip_map_map zip_same_conv_map)
  have avail: "availableFunctions ?env f = availableFunctions env f" by (simp add: WithoutOptimizations_def)
  from res(2) all show ?thesis
    unfolding zip c(1)
    by (auto simp: apply_evaluator_def GetEvaluator_def avail Let_def MapValues_def comp_def
        split: option.splits if_splits)
qed

end

text \<open>A value after which the children of a function need not be evaluated.\<close>

definition stops :: "Function \<Rightarrow> 'f val \<Rightarrow> bool" where
  "stops f v \<longleftrightarrow> f = FUNC_AND \<and> v = VBool False \<or> f = FUNC_OR \<and> v = VBool True
     \<or> f = FUNC_SWITCH \<and> (\<exists>s. v = VScore s \<and> Triggered s)"

lemma lazy_functions:
  "LazyChildEvaluation (fst (Attributes f)) = Some lazy \<Longrightarrow>
     f = FUNC_AND \<and> lazy = shortCircuitIfFalse \<or> f = FUNC_OR \<and> lazy = shortCircuitIfTrue
     \<or> f = FUNC_SWITCH \<and> lazy = shortCircuitIfScoringTriggered"
  by (cases f) (simp_all add: Attributes_def)

lemma commutative_functions: "is_commutative f \<longleftrightarrow> f = FUNC_AND \<or> f = FUNC_OR"
  by (cases f) (simp_all add: is_commutative_def Attributes_def)

text \<open>
  A switch branch that is not a score does not stop, but the lazy callback says so (and the
  evaluation then fails): only branches that are scores are considered.
\<close>

lemma eval_next_stops:
  assumes "\<not> eval_next env f r" "f = FUNC_SWITCH \<Longrightarrow> \<exists>s. NE_ReturnValue r = VScore s"
  shows "stops f (NE_ReturnValue r)"
proof -
  from assms(1) obtain lazy where lazy: "LazyChildEvaluation (fst (Attributes f)) = Some lazy" "\<not> lazy r"
    by (auto simp: eval_next_def split: option.splits)
  from lazy_functions [OF lazy(1)] lazy(2) assms(2) show ?thesis
    by (auto simp: stops_def shortCircuitIfTrue_def shortCircuitIfFalse_def
        shortCircuitIfScoringTriggered_def split: val.splits)
qed

text \<open>The arguments of an evaluation that stopped early: a prefix, or the skipped ones null.\<close>

definition stopped_args :: "Function \<Rightarrow> 'f val list \<Rightarrow> 'f val list \<Rightarrow> bool" where
  "stopped_args f args args' \<longleftrightarrow> args' = args
     \<or> (\<exists>v\<in>set args'. stops f v)
        \<and> (set args' \<subseteq> set args \<union> {VNil} \<and> f \<noteq> FUNC_SWITCH \<or> (\<exists>m. args' = take m args))"

lemma first_triggered_append:
  "\<exists>n\<in>set xs. Triggered n \<Longrightarrow> first_triggered k (xs @ ys) = first_triggered k xs"
  by (induction xs arbitrary: k) auto

lemma as_score_iff: "as_score v = Some s \<longleftrightarrow> v = VScore s"
  by (cases v) (simp_all add: as_score_def)

lemma switch_operands:
  assumes "Switch_Evaluate \<lparr>Args = args, NamedArgs = na\<rparr> = (v, [])"
  shows "\<exists>nodes. args = map VScore nodes"
proof -
  from assms obtain nodes where
    "adaptArgumentToListOfThings (\<lambda>_. None) as_score (VList args) = Inr nodes"
    by (auto simp: Switch_Evaluate_def split: if_splits sum.splits)
  then have "list_all2 (\<lambda>x y. as_score x = Some y) args nodes"
    by (auto simp: adaptArgumentToListOfThings_def MapErr_Inr_iff list_all2_conv_all_nth split: option.splits)
  then have "args = map VScore nodes"
    by (auto simp: list_all2_conv_all_nth as_score_iff intro!: nth_equalityI)
  then show ?thesis ..
qed

lemma switch_prefix:
  assumes "Switch_Evaluate \<lparr>Args = args, NamedArgs = na\<rparr> = (v, [])"
    and "\<exists>w\<in>set (take m args). stops FUNC_SWITCH w"
  shows "Switch_Evaluate \<lparr>Args = take m args, NamedArgs = na\<rparr> = (v, [])"
proof -
  obtain nodes where args: "args = map VScore nodes" using switch_operands [OF assms(1)] ..
  then have take: "take m args = map VScore (take m nodes)" by (simp add: take_map)
  have trig: "\<exists>n\<in>set (take m nodes). Triggered n" using assms(2) unfolding take by (auto simp: stops_def)
  then have "first_triggered 0 nodes = first_triggered 0 (take m nodes)"
    using first_triggered_append [of "take m nodes" 0 "drop m nodes"] by simp
  moreover have "args \<noteq> []" "map VScore (take m nodes) \<noteq> ([] :: 'a val list)"
    using trig args by (cases m; cases nodes; auto)+
  moreover obtain s where "first_triggered 0 (take m nodes) = Some s"
    using trig first_triggered_cases [of "take m nodes" 0] by blast
  ultimately have "Switch_Evaluate \<lparr>Args = map VScore (take m nodes), NamedArgs = na\<rparr> = (v, [])"
    using assms(1) unfolding args by (simp add: Switch_Evaluate_def score_list_adapted)
  then show ?thesis by (simp add: take)
qed

text \<open>The evaluators that the early stop relies on are the ones of the code.\<close>

definition lazy_evaluators :: "'f AstEvaluationEnvironment \<Rightarrow> bool" where
  "lazy_evaluators env \<longleftrightarrow>
     availableFunctions env FUNC_AND = Some (\<lambda>a. Some (BooleanArithmetic_Evaluate FUNC_AND a))
   \<and> availableFunctions env FUNC_OR = Some (\<lambda>a. Some (BooleanArithmetic_Evaluate FUNC_OR a))
   \<and> availableFunctions env FUNC_SWITCH = Some (\<lambda>a. Some (Switch_Evaluate a))"

lemma stopped_evaluation:
  assumes "lazy_evaluators env" "availableFunctions env f = Some evaluator"
    and "evaluator \<lparr>Args = args, NamedArgs = na\<rparr> = Some (v, [])"
    and "f = FUNC_AND \<or> f = FUNC_OR \<Longrightarrow> list_all boolean_operand args"
    and "stopped_args f args args'"
  shows "evaluator \<lparr>Args = args', NamedArgs = na\<rparr> = Some (v, [])"
proof (cases "args' = args")
  case True
  with assms(3) show ?thesis by simp
next
  case False
  with assms(5) obtain w where w: "w \<in> set args'" "stops f w"
    and sub: "set args' \<subseteq> set args \<union> {VNil} \<and> f \<noteq> FUNC_SWITCH \<or> (\<exists>m. args' = take m args)"
    by (auto simp: stopped_args_def)
  then have ne: "args' \<noteq> []" by auto
  have sub': "set args' \<subseteq> set args \<union> {VNil}" using sub by (auto dest: in_set_takeD)
  consider "f = FUNC_AND" | "f = FUNC_OR" | "f = FUNC_SWITCH" using w(2) by (auto simp: stops_def)
  then show ?thesis
  proof cases
    case 1
    with w have f: "VBool False \<in> set args'" "VBool False \<in> set args" using sub' by (auto simp: stops_def)
    have "list_all boolean_operand args'" "list_all boolean_operand args"
      using 1 assms(4) sub' by (fastforce simp: list_all_iff boolean_operand_def)+
    moreover have "args \<noteq> []" using f by auto
    ultimately show ?thesis
      using 1 assms(1-3) f ne
      by (auto simp: lazy_evaluators_def boolean_eval takeWhile_operands kleene_and_def)
  next
    case 2
    with w have f: "VBool True \<in> set args'" "VBool True \<in> set args" using sub' by (auto simp: stops_def)
    have "list_all boolean_operand args'" "list_all boolean_operand args"
      using 2 assms(4) sub' by (fastforce simp: list_all_iff boolean_operand_def)+
    moreover have "args \<noteq> []" using f by auto
    ultimately show ?thesis
      using 2 assms(1-3) f ne
      by (auto simp: lazy_evaluators_def boolean_eval takeWhile_operands kleene_or_def)
  next
    case 3
    then obtain m where "args' = take m args" using sub by auto
    with 3 w assms(1-3) switch_prefix [of args na v m] show ?thesis
      by (auto simp: lazy_evaluators_def)
  qed
qed

context cost_order
begin

lemma set_Index_same [simp]: "set_Index (Node_Index x) x = x"
  by (cases x) (simp add: set_Index_def)

lemma optimised_runs:
  fixes f :: Function
  assumes "\<forall>x\<in>set children. \<forall>k. \<exists>r. EvaluateAst H S env (set_Index k x) None = Some ((r, True), None)
      \<and> NE_ReturnValue r = V x"
    and "p < length children"
  defines "wn \<equiv> NewWeightedNodes env f children"
  shows "\<exists>r. (child_runs H S env f children ! p) None = Some ((r, True), None)
     \<and> NE_ReturnValue r = V (children ! p) \<and> (enabled wn \<longrightarrow> NE_Index r = p)"
proof -
  have "\<exists>k. original wn ! p = set_Index k (children ! p)"
  proof (cases "enabled wn")
    case True
    then show ?thesis
      using assms(2) by (auto simp: wn_def NewWeightedNodes_def Let_def nth_enumerate_eq split: if_splits)
  next
    case False
    then have "original wn ! p = set_Index (Node_Index (children ! p)) (children ! p)"
      by (auto simp: wn_def NewWeightedNodes_def Let_def split: if_splits)
    then show ?thesis ..
  qed
  then obtain k where k: "original wn ! p = set_Index k (children ! p)" ..
  obtain r where r: "EvaluateAst H S env (set_Index k (children ! p)) None = Some ((r, True), None)"
    "NE_ReturnValue r = V (children ! p)" using assms(1,2) nth_mem by blast
  have "NE_Index r = Node_Index (original wn ! p)"
    using EvaluateAst_Index [OF r(1)] by (simp add: k)
  then have "enabled wn \<Longrightarrow> NE_Index r = p"
    using original_Index [of env f children p] assms(2) by (simp add: wn_def)
  then show ?thesis
    using r assms(2) k by (simp add: child_runs_def wn_def)
qed

lemma optimised_children:
  assumes "\<forall>x\<in>set children. \<forall>k. \<exists>r. EvaluateAst H S env (set_Index k x) None = Some ((r, True), None)
      \<and> NE_ReturnValue r = V x"
    and "f = FUNC_SWITCH \<Longrightarrow> \<forall>x\<in>set children. \<exists>s. V x = VScore s"
  defines "wn \<equiv> NewWeightedNodes env f children"
  shows "\<exists>rs. run_children (eval_next env f)
        (map (\<lambda>p. child_runs H S env f children ! p) (Sorted S wn)) None = Some (rs, None)
     \<and> (\<forall>r\<in>set rs. snd r)
     \<and> stopped_args f (map V children) (map NE_ReturnValue (Reorder wn (map fst rs)))"
proof -
  let ?run = "\<lambda>p. child_runs H S env f children ! p"
  let ?val = "\<lambda>p. run_value (?run p)"
  have run: "?run p None = Some (?val p, None) \<and> snd (?val p) \<and> NE_ReturnValue (fst (?val p)) = V (children ! p)
      \<and> (enabled wn \<longrightarrow> NE_Index (fst (?val p)) = p)" if "p < length children" for p
    using optimised_runs [OF assms(1) that, of f] by (auto simp: run_value_def wn_def)
  have pos: "set (Sorted S wn) = {0..<length children}" "length (Sorted S wn) = length children"
    using set_Sorted [of wn] by (auto simp: wn_def Sorted_def)
  have "\<forall>r\<in>set (map ?run (Sorted S wn)). r None = Some (run_value r, None)"
    using run pos(1) by auto
  from run_children_prefix [OF this, of "eval_next env f"] obtain m where
    m: "m \<le> length children" and
    rs: "run_children (eval_next env f) (map ?run (Sorted S wn)) None
          = Some (map run_value (take m (map ?run (Sorted S wn))), None)" and
    stop: "m = length children \<or> (\<exists>run\<in>set (take m (map ?run (Sorted S wn))). \<not> eval_next env f (fst (run_value run)))"
    using pos(2) by auto
  let ?ps = "take m (Sorted S wn)"
  have rs': "map run_value (take m (map ?run (Sorted S wn))) = map ?val ?ps" by (simp add: take_map)
  have ps: "p < length children" if "p \<in> set ?ps" for p using that pos(1) by (auto dest: in_set_takeD)
  have snd_ok: "\<forall>r\<in>set (map ?val ?ps). snd r" using run ps by auto
  have stopped: "m = length children \<or> (\<exists>p\<in>set ?ps. stops f (V (children ! p)))"
  proof (cases "m = length children")
    case False
    with stop obtain p where p: "p \<in> set ?ps" "\<not> eval_next env f (fst (?val p))"
      by (auto simp: take_map)
    then show ?thesis
      using eval_next_stops [OF p(2)] run [OF ps [OF p(1)]] assms(2) ps [OF p(1)] by fastforce
  qed simp
  have "stopped_args f (map V children) (map NE_ReturnValue (Reorder wn (map fst (map ?val ?ps))))"
  proof (cases "enabled wn")
    case False
    then have "?ps = [0..<m]" using m by (simp add: Sorted_def wn_def take_upt)
    then have "map NE_ReturnValue (Reorder wn (map fst (map ?val ?ps))) = take m (map V children)"
      using False run m by (auto simp: Reorder_def take_map intro!: nth_equalityI)
    moreover have "set (take m (map V children)) = (\<lambda>p. V (children ! p)) ` set ?ps"
    proof -
      have "set (take m (map V children)) = (!) (map V children) ` {0..<m}"
        using nth_image [of m "map V children"] m by simp
      also have "\<dots> = (\<lambda>p. V (children ! p)) ` {0..<m}" using m by (intro image_cong) auto
      finally show ?thesis using \<open>?ps = [0..<m]\<close> by simp
    qed
    ultimately show ?thesis
      using stopped by (auto simp: stopped_args_def)
  next
    case True
    have idx: "map NE_Index (map fst (map ?val ?ps)) = ?ps"
      using run ps True by (auto intro!: map_idI)
    have bound: "\<forall>r\<in>set (map fst (map ?val ?ps)). NE_Index r < length (original wn)"
      using run ps True by (auto simp: wn_def)
    have dist: "distinct (map NE_Index (map fst (map ?val ?ps)))"
      unfolding idx by (simp add: distinct_Sorted)
    note R = Reorder_enabled [OF True dist bound]
    let ?args = "map NE_ReturnValue (Reorder wn (map fst (map ?val ?ps)))"
    have len: "length ?args = length children" using R(1) by (simp add: wn_def)
    have at: "?args ! p = (if p \<in> set ?ps then V (children ! p) else VNil)" if "p < length children" for p
    proof (cases "p \<in> set ?ps")
      case p: True
      have "Reorder wn (map fst (map ?val ?ps)) ! NE_Index (fst (?val p)) = set_not_skipped (fst (?val p))"
        by (rule R(2)) (use p in auto)
      then show ?thesis using run [OF that] True p len that by simp
    next
      case p: False
      have "NE_Index ` set (map fst (map ?val ?ps)) = set ?ps"
        using idx by (metis list.set_map)
      then have "Reorder wn (map fst (map ?val ?ps)) ! p = skipped_node p"
        using R(3) [of p] p that by (simp add: wn_def)
      then show ?thesis using p len that by (simp add: skipped_node_def)
    qed
    have "f \<noteq> FUNC_SWITCH"
      using True commutative_functions [of f] by (auto simp: wn_def NewWeightedNodes_def Let_def)
    moreover have "?args = map V children" if "m = length children"
      using at len pos that by (auto intro!: nth_equalityI)
    moreover have "set ?args \<subseteq> set (map V children) \<union> {VNil}"
    proof
      fix w assume "w \<in> set ?args"
      then obtain p where "p < length children" "w = ?args ! p" using len by (metis in_set_conv_nth)
      then show "w \<in> set (map V children) \<union> {VNil}" using at by auto
    qed
    moreover have "\<exists>v\<in>set ?args. stops f v" if "p \<in> set ?ps" "stops f (V (children ! p))" for p
      using at [OF ps [OF that(1)]] that len ps [OF that(1)] by (metis nth_mem)
    ultimately show ?thesis
      using stopped unfolding stopped_args_def by blast
  qed
  with rs snd_ok show ?thesis unfolding rs' by blast
qed

end

text \<open>In the unoptimised evaluation, the operands of AND and OR are booleans or null.\<close>

definition boolean_operands :: "'f NodeEvaluation \<Rightarrow> bool" where
  "boolean_operands e \<longleftrightarrow> (\<forall>n\<in>set (ne_nodes e). NE_Function n = FUNC_AND \<or> NE_Function n = FUNC_OR \<longrightarrow>
     list_all (\<lambda>c. boolean_operand (NE_ReturnValue c)) (NE_Children n))"

lemma boolean_operands_node:
  assumes "boolean_operands (NodeEvaluation i p f v errs children named)"
  shows "f = FUNC_AND \<or> f = FUNC_OR \<Longrightarrow> list_all (\<lambda>c. boolean_operand (NE_ReturnValue c)) children"
    and "c \<in> set children \<Longrightarrow> boolean_operands c"
    and "kn \<in> set named \<Longrightarrow> boolean_operands (snd kn)"
  using assms unfolding boolean_operands_def by auto

context cost_order
begin

lemma optimisations_sound:
  assumes "lazy_evaluators env"
    and "EvaluateAst H S (WithoutOptimizations env) n None = Some ((e, True), st')" "boolean_operands e"
  shows "\<exists>e'. EvaluateAst H S env (set_Index k n) None = Some ((e', True), None)
     \<and> NE_ReturnValue e' = NE_ReturnValue e"
  using assms(2,3)
proof (induction "size n" arbitrary: n e st' k rule: less_induct)
  case less
  obtain i f c children named where n: "n = Node i f c children named" by (cases n)
  show ?case
  proof (cases "f = FUNC_CONSTANT")
    case True
    with less.prems n show ?thesis by (auto simp: set_Index_def EvaluateAst_constant)
  next
    case False
    let ?env0 = "WithoutOptimizations env"
    define val where "val = child_value H S ?env0"
    define V where "V = (\<lambda>x. NE_ReturnValue (fst (val x)))"
    from unoptimised_node [OF less.prems(1) [unfolded n] False, folded val_def] obtain evaluator v where
      avail: "availableFunctions env f = Some evaluator" and
      kids: "\<forall>x\<in>set children \<union> snd ` set named. EvaluateAst H S ?env0 x None = Some ((fst (val x), True), None)" and
      ev: "evaluator \<lparr>Args = map V children, NamedArgs = map_of (map (\<lambda>kn. (fst kn, V (snd kn))) named)\<rparr> = Some (v, [])" and
      e: "e = NodeEvaluation i no_plan f v (Some []) (map (\<lambda>x. fst (val x)) children)
            (map (\<lambda>kn. (fst kn, fst (val (snd kn)))) named)"
      unfolding V_def by blast
    note bool = boolean_operands_node [OF less.prems(2) [unfolded e]]
    have IH: "\<exists>r. EvaluateAst H S env (set_Index k x) None = Some ((r, True), None) \<and> NE_ReturnValue r = V x"
      if "x \<in> set children \<union> snd ` set named" for x k
    proof -
      have "size x < size n" using that n size_list_mem [of x children] size_named_child [of _ named 0]
        by fastforce
      moreover have "boolean_operands (fst (val x))"
        using that
      proof
        assume "x \<in> snd ` set named"
        then obtain kn where "kn \<in> set named" "x = snd kn" by blast
        then show ?thesis using bool(3) [of "(fst kn, fst (val (snd kn)))"] by force
      qed (use bool(2) in auto)
      ultimately show ?thesis using less.hyps kids that unfolding V_def by blast
    qed
    define wn where "wn = NewWeightedNodes env f children"
    have switch: "\<forall>x\<in>set children. \<exists>s. V x = VScore s" if "f = FUNC_SWITCH"
    proof -
      have "evaluator = (\<lambda>a. Some (Switch_Evaluate a))"
        using assms(1) avail that by (simp add: lazy_evaluators_def)
      with ev have "Switch_Evaluate \<lparr>Args = map V children,
          NamedArgs = map_of (map (\<lambda>kn. (fst kn, V (snd kn))) named)\<rparr> = (v, [])" by simp
      from switch_operands [OF this] obtain nodes where "map V children = map VScore nodes" ..
      then have "V ` set children = VScore ` set nodes" by (metis set_map)
      then show ?thesis by (metis imageE imageI)
    qed
    from optimised_children [of children H env V f] IH switch obtain rs where
      rs: "run_children (eval_next env f) (map (\<lambda>p. child_runs H S env f children ! p) (Sorted S wn)) None
            = Some (rs, None)" "\<forall>r\<in>set rs. snd r"
        "stopped_args f (map V children) (map NE_ReturnValue (Reorder wn (map fst rs)))"
      unfolding wn_def by blast
    let ?nruns = "map snd (named_child_runs H S env named)"
    have nruns: "?nruns = map (\<lambda>kn. EvaluateAst H S env (snd kn)) named"
      by (simp add: named_child_runs_def)
    have nval: "EvaluateAst H S env (snd kn) None = Some (run_value (EvaluateAst H S env (snd kn)), None)
        \<and> snd (run_value (EvaluateAst H S env (snd kn)))
        \<and> NE_ReturnValue (fst (run_value (EvaluateAst H S env (snd kn)))) = V (snd kn)"
      if "kn \<in> set named" for kn
      using IH [of "snd kn" "Node_Index (snd kn)"] that by (auto simp: run_value_def)
    define nrs where "nrs = map run_value ?nruns"
    have nrs: "run_children (\<lambda>_. True) ?nruns None = Some (nrs, None)"
      using run_children_prefix [of ?nruns "\<lambda>_. True"] nval unfolding nruns nrs_def by auto
    have nrs_ok: "\<forall>r\<in>set nrs. snd r" using nval unfolding nrs_def nruns by auto
    have "evaluator \<lparr>Args = map NE_ReturnValue (Reorder wn (map fst rs)),
        NamedArgs = map_of (map (\<lambda>kn. (fst kn, V (snd kn))) named)\<rparr> = Some (v, [])"
      by (rule stopped_evaluation [OF assms(1) avail ev _ rs(3)])
        (use bool(1) in \<open>simp add: list.pred_map comp_def V_def\<close>)
    moreover have "MapValues (zip (map fst (named_child_runs H S env named)) (map fst nrs)) NE_ReturnValue
        = map (\<lambda>kn. (fst kn, V (snd kn))) named"
      using nval unfolding nrs_def nruns
      by (auto simp: MapValues_def named_child_runs_def zip_map_map zip_same_conv_map)
    ultimately have "apply_evaluator env k f (Reorder wn (map fst rs))
        (zip (map fst (named_child_runs H S env named)) (map fst nrs)) =
        Some ((NodeEvaluation k no_plan f v (Some []) (Reorder wn (map fst rs))
          (zip (map fst (named_child_runs H S env named)) (map fst nrs)), True), True)"
      by (simp add: apply_evaluator_def GetEvaluator_def avail)
    moreover have "\<not> list_ex (\<lambda>r. \<not> snd r) (nrs @ rs)" using rs(2) nrs_ok by (auto simp: list_ex_iff)
    moreover have "EvaluateAst H S env (set_Index k n) None = eval_node S env (H (set_Index k n)) k f wn
        (child_runs H S env f children) (named_child_runs H S env named) None"
      using False by (simp add: n set_Index_def EvaluateAst_step wn_def)
    ultimately show ?thesis
      using rs(1) nrs e by (simp add: eval_node_def Let_def del: list_ex_append)
  qed
qed

end





end
