(* ===== verification/Ast_Cache.thy ===== *)
theory Ast_Cache
  imports Ast_Eval_Laws "HOL-Library.Countable"
begin

text \<open>
  The evaluation cache: evaluating with a cache gives the result of evaluating without one, up to
  the positions and the cached marks recorded in the evaluation tree. The hash of a node ignores
  the positions of the nodes; that it distinguishes nodes that differ otherwise is a hypothesis.
\<close>

section \<open>Nodes and evaluations up to positions\<close>

fun erase :: "'f Node \<Rightarrow> 'f Node" where
  "erase (Node i f c children named) =
     Node 0 f c (map erase children) (map (\<lambda>kn. (fst kn, erase (snd kn))) named)"

fun norm_eval :: "'f NodeEvaluation \<Rightarrow> 'f NodeEvaluation" where
  "norm_eval (NodeEvaluation i p f v errs children named) =
     NodeEvaluation 0 (p\<lparr>Cached := False\<rparr>) f v errs (map norm_eval children)
       (map (\<lambda>kn. (fst kn, norm_eval (snd kn))) named)"

lemma erase_set_Index [simp]: "erase (set_Index i n) = erase n"
  by (cases n) (simp add: set_Index_def)




lemma norm_with_plan:
  "norm_eval e = norm_eval e' \<Longrightarrow> norm_eval (NodeEvaluation i p (NE_Function e) (NE_ReturnValue e) (NE_Errors e)
      (NE_Children e) (NE_NamedChildren e))
   = norm_eval (NodeEvaluation i' p (NE_Function e') (NE_ReturnValue e') (NE_Errors e')
      (NE_Children e') (NE_NamedChildren e'))"
  by (cases e; cases e') auto



section \<open>Simulation of runs\<close>

text \<open>
  \<open>sim P b t u\<close>: from a cache satisfying \<open>P\<close>, the run \<open>t\<close> does what \<open>u\<close> does without a cache, up to
  positions (\<open>b\<close>: including its own position), and keeps \<open>P\<close>.
\<close>

definition sim_response :: "bool \<Rightarrow> 'f response \<Rightarrow> 'f response \<Rightarrow> bool" where
  "sim_response b r r' \<longleftrightarrow> norm_eval (fst r) = norm_eval (fst r') \<and> snd r = snd r'
     \<and> (b \<longrightarrow> NE_Index (fst r) = NE_Index (fst r'))"













section \<open>Nodes equal up to positions evaluate alike\<close>

lemma sim_response_mono: "sim_response b r r' \<Longrightarrow> sim_response False r r'"
  by (simp add: sim_response_def)




section \<open>The cache\<close>









section \<open>A hash without collisions\<close>

instance int_kind :: countable by countable_datatype
instance float_kind :: countable by countable_datatype
instance ip_addr :: countable by countable_datatype
instance Function :: countable by countable_datatype

instance ip_prefix_ext :: (countable) countable
proof (rule countable_classI [of "\<lambda>p. to_nat (prefix_addr p, prefix_bits p, ip_prefix.more p)"])
  fix p q :: "'a ip_prefix_scheme"
  assume "to_nat (prefix_addr p, prefix_bits p, ip_prefix.more p)
      = to_nat (prefix_addr q, prefix_bits q, ip_prefix.more q)"
  then show "p = q" by (auto intro: ip_prefix.equality)
qed

instance ScoreComputationResult_ext :: (countable) countable
proof (rule countable_classI [of "\<lambda>p. to_nat (Triggered p, Modifier p, Floor p, Branch p, Fallback p,
    Default p, ScoreComputationResult.more p)"])
  fix p q :: "'a ScoreComputationResult_scheme"
  assume "to_nat (Triggered p, Modifier p, Floor p, Branch p, Fallback p, Default p,
        ScoreComputationResult.more p)
      = to_nat (Triggered q, Modifier q, Floor q, Branch q, Fallback q, Default q,
        ScoreComputationResult.more q)"
  then show "p = q" by (auto intro: ScoreComputationResult.equality)
qed

instance val :: (countable) countable by countable_datatype
instance Node :: (countable) countable by countable_datatype




end
