(* ===== verification/Data_Model.thy ===== *)
theory Data_Model
  imports Go_Prelude "HOL-Library.Char_ord" "HOL-Library.List_Lexorder" "HOL-Library.Product_Lexorder"
begin

text \<open>
  The client data model (\<^verbatim>\<open>src/models/data_model.go\<close>, \<open>data_model_pivot.go\<close>): tables, fields, links and
  the pivots that group decisions.

  A Go map is an association list in the order of its iteration. A uuid is its integer value, which
  orders like its textual form. Looking up a missing key gives the zero value of the type.
\<close>

section \<open>Data types\<close>

datatype DataType = UnknownDataType | DT_Bool | DT_Int | DT_Float | DT_String | DT_Timestamp
  | DT_IpAddress | DT_Coords

fun DataType_String :: "DataType \<Rightarrow> string" where
  "DataType_String DT_Bool = ''Bool''"
| "DataType_String DT_Int = ''Int''"
| "DataType_String DT_Float = ''Float''"
| "DataType_String DT_String = ''String''"
| "DataType_String DT_Timestamp = ''Timestamp''"
| "DataType_String DT_IpAddress = ''IpAddress''"
| "DataType_String DT_Coords = ''Coords''"
| "DataType_String UnknownDataType = ''unknown''"

definition DataTypeFrom :: "string \<Rightarrow> DataType" where
  "DataTypeFrom s =
     (if s = ''Bool'' then DT_Bool
      else if s = ''Int'' then DT_Int
      else if s = ''Float'' then DT_Float
      else if s = ''String'' then DT_String
      else if s = ''Timestamp'' then DT_Timestamp
      else if s = ''IpAddress'' then DT_IpAddress
      else if s = ''Coords'' then DT_Coords
      else UnknownDataType)"

section \<open>Tables, fields and links\<close>

datatype UnicityConstraint = NoUnicityConstraint | ActiveUniqueConstraint | PendingUniqueConstraint

fun UnicityConstraint_String :: "UnicityConstraint \<Rightarrow> string" where
  "UnicityConstraint_String NoUnicityConstraint = ''no_unicity_constraint''"
| "UnicityConstraint_String ActiveUniqueConstraint = ''active_unique_constraint''"
| "UnicityConstraint_String PendingUniqueConstraint = ''pending_unique_constraint''"

definition UnicityConstraintFromString :: "string \<Rightarrow> UnicityConstraint" where
  "UnicityConstraintFromString s =
     (if s = ''no_unicity_constraint'' then NoUnicityConstraint
      else if s = ''active_unique_constraint'' then ActiveUniqueConstraint
      else if s = ''pending_unique_constraint'' then PendingUniqueConstraint
      else NoUnicityConstraint)"

record Field =
  Field_ID :: string
  Field_Name :: string
  Field_DataType :: DataType
  Field_TableId :: string
  Field_UnicityConstraint :: UnicityConstraint

record LinkToSingle =
  Link_Id :: string
  Link_Name :: string
  ParentTableName :: string
  ParentTableId :: string
  ParentFieldName :: string
  ParentFieldId :: string
  ChildTableName :: string
  ChildTableId :: string
  ChildFieldName :: string
  ChildFieldId :: string

record Table =
  Table_ID :: string
  Table_Name :: string
  Fields :: "(string \<times> Field) list"
  LinksToSingle :: "(string \<times> LinkToSingle) list"

record DataModel =
  Tables :: "(string \<times> Table) list"

definition zero_Field :: Field where
  "zero_Field = \<lparr>Field_ID = [], Field_Name = [], Field_DataType = DT_Bool, Field_TableId = [],
     Field_UnicityConstraint = NoUnicityConstraint\<rparr>"

definition zero_Link :: LinkToSingle where
  "zero_Link = \<lparr>Link_Id = [], Link_Name = [], ParentTableName = [], ParentTableId = [], ParentFieldName = [],
     ParentFieldId = [], ChildTableName = [], ChildTableId = [], ChildFieldName = [], ChildFieldId = []\<rparr>"

definition zero_Table :: Table where
  "zero_Table = \<lparr>Table_ID = [], Table_Name = [], Fields = [], LinksToSingle = []\<rparr>"

definition get_or :: "'a \<Rightarrow> 'a option \<Rightarrow> 'a" where
  "get_or zero entry = (case entry of None \<Rightarrow> zero | Some x \<Rightarrow> x)"

definition all_links :: "DataModel \<Rightarrow> LinkToSingle list" where
  "all_links d = concat (map (\<lambda>kt. map snd (LinksToSingle (snd kt))) (Tables d))"

definition AllLinksAsMap :: "DataModel \<Rightarrow> string \<rightharpoonup> LinkToSingle" where
  "AllLinksAsMap d = fold (\<lambda>link links. links(Link_Id link \<mapsto> link)) (all_links d) Map.empty"

definition AllTablesAsMap :: "DataModel \<Rightarrow> string \<rightharpoonup> Table" where
  "AllTablesAsMap d = fold (\<lambda>kt tables. tables(Table_ID (snd kt) \<mapsto> snd kt)) (Tables d) Map.empty"

definition AllFieldsAsMap :: "DataModel \<Rightarrow> string \<rightharpoonup> Field" where
  "AllFieldsAsMap d = fold (\<lambda>field fields. fields(Field_ID field \<mapsto> field))
     (concat (map (\<lambda>kt. map snd (Fields (snd kt))) (Tables d))) Map.empty"

fun FindField :: "DataModel \<Rightarrow> Table \<Rightarrow> string list \<Rightarrow> string \<Rightarrow> Field option" where
  "FindField d table [] field = map_of (Fields table) field"
| "FindField d table (p # path) field =
     (case find (\<lambda>kl. Link_Name (snd kl) = p) (LinksToSingle table) of
        None \<Rightarrow> None
      | Some kl \<Rightarrow> FindField d (get_or zero_Table (map_of (Tables d) (ParentTableName (snd kl)))) path field)"

section \<open>Pivots\<close>

record PivotMetadata =
  PM_Id :: uuid
  PM_CreatedAt :: int
  PM_BaseTableId :: string
  PM_FieldId :: "string option"
  PM_PathLinkIds :: "string list"

record Pivot =
  Pivot_Id :: uuid
  Pivot_CreatedAt :: int
  BaseTable :: string
  BaseTableId :: string
  PivotTable :: string
  PivotTableId :: string
  Pivot_Field :: string
  Pivot_FieldId :: string
  PathLinks :: "string list"
  PathLinkIds :: "string list"

definition link_of :: "DataModel \<Rightarrow> string \<Rightarrow> LinkToSingle" where
  "link_of dm linkId = get_or zero_Link (AllLinksAsMap dm linkId)"

text \<open>An empty path is an index out of range, a panic.\<close>

definition FieldFromPath :: "DataModel \<Rightarrow> string list \<Rightarrow> Field option" where
  "FieldFromPath dm pathLinkIds =
     (if pathLinkIds = [] then None
      else Some (get_or zero_Field (AllFieldsAsMap dm (ParentFieldId (link_of dm (last pathLinkIds))))))"

definition Enrich :: "PivotMetadata \<Rightarrow> DataModel \<Rightarrow> Pivot option" where
  "Enrich p dm =
     (let baseTable = get_or zero_Table (AllTablesAsMap dm (PM_BaseTableId p));
          pivot = (\<lambda>field table tableId. \<lparr>Pivot_Id = PM_Id p, Pivot_CreatedAt = PM_CreatedAt p,
            BaseTable = Table_Name baseTable, BaseTableId = PM_BaseTableId p,
            PivotTable = table, PivotTableId = tableId,
            Pivot_Field = Field_Name field, Pivot_FieldId = Field_ID field,
            PathLinks = map (\<lambda>linkId. Link_Name (link_of dm linkId)) (PM_PathLinkIds p),
            PathLinkIds = PM_PathLinkIds p\<rparr>)
      in case PM_FieldId p of
           Some fieldId \<Rightarrow> Some (pivot (get_or zero_Field (AllFieldsAsMap dm fieldId))
             (Table_Name baseTable) (Table_ID baseTable))
         | None \<Rightarrow> (case FieldFromPath dm (PM_PathLinkIds p) of
             None \<Rightarrow> None
           | Some field \<Rightarrow> Some (pivot field
               (Table_Name (get_or zero_Table (AllTablesAsMap dm (Field_TableId field)))) (Field_TableId field))))"

text \<open>The loop of \<open>ValidatePathPivot\<close> over the consecutive links.\<close>

fun chained :: "DataModel \<Rightarrow> string \<Rightarrow> string list \<Rightarrow> bool" where
  "chained dm previous [] = True"
| "chained dm previous (linkId # linkIds) =
     (ParentTableName (link_of dm previous) = ChildTableName (link_of dm linkId) \<and> chained dm linkId linkIds)"

definition ValidatePathPivot :: "DataModel \<Rightarrow> string list \<Rightarrow> string \<Rightarrow> go_error option option" where
  "ValidatePathPivot dm pathLinkIds baseTableName =
     (case pathLinkIds of
        [] \<Rightarrow> None
      | first # rest \<Rightarrow> Some
         (if ChildTableName (link_of dm first) \<noteq> baseTableName
          then Some (ErrWrap BadParameterError ''first link's child table must be the base table'')
          else if \<not> chained dm first rest then Some (ErrWrap BadParameterError ''link is not a child of link'')
          else None))"

fun map_opt :: "('a \<Rightarrow> 'b option) \<Rightarrow> 'a list \<Rightarrow> 'b list option" where
  "map_opt f [] = Some []"
| "map_opt f (x # xs) =
     (case f x of None \<Rightarrow> None | Some y \<Rightarrow> (case map_opt f xs of None \<Rightarrow> None | Some ys \<Rightarrow> Some (y # ys)))"

definition FindPivotsForTable :: "PivotMetadata list \<Rightarrow> string \<Rightarrow> DataModel \<Rightarrow> Pivot list option" where
  "FindPivotsForTable pivotsMeta table dm =
     (case map_opt (\<lambda>p. Enrich p dm) pivotsMeta of
        None \<Rightarrow> None
      | Some pivots \<Rightarrow> Some (sort_key (\<lambda>p. (Pivot_CreatedAt p, Pivot_Id p))
          (filter (\<lambda>p. BaseTable p = table) pivots)))"

section \<open>Lemmas\<close>

lemma DataType_roundtrip: "DataTypeFrom (DataType_String d) = d"
  by (cases d) (simp_all add: DataTypeFrom_def)

lemma UnicityConstraint_roundtrip: "UnicityConstraintFromString (UnicityConstraint_String u) = u"
  by (cases u) (simp_all add: UnicityConstraintFromString_def)

lemma get_or_simps [simp]: "get_or z None = z" "get_or z (Some x) = x"
  by (simp_all add: get_or_def)

lemma fold_upd_map_of: "fold (\<lambda>x m. m(k x \<mapsto> x)) xs m = m ++ map_of (rev (map (\<lambda>x. (k x, x)) xs))"
  by (induction xs arbitrary: m) simp_all

text \<open>A link of the model is found by its identifier when identifiers are unique.\<close>

lemma link_of_member:
  assumes "distinct (map Link_Id (all_links dm))" "l \<in> set (all_links dm)"
  shows "link_of dm (Link_Id l) = l"
proof -
  have "map_of (rev (map (\<lambda>x. (Link_Id x, x)) (all_links dm))) (Link_Id l) = Some l"
    using assms by (intro map_of_is_SomeI) (auto simp: rev_map [symmetric] comp_def)
  then show ?thesis by (simp add: link_of_def AllLinksAsMap_def fold_upd_map_of)
qed

text \<open>Sorting by a key that separates the elements depends only on the elements.\<close>

lemma sort_key_mset:
  assumes "mset xs = mset ys" "inj_on f (set xs)"
  shows "sort_key f xs = sort_key f ys"
proof (rule properties_for_sort_key)
  show "mset (sort_key f ys) = mset xs" using assms(1) by simp
  show "filter (\<lambda>x. f k = f x) (sort_key f ys) = filter (\<lambda>x. f k = f x) xs" if "k \<in> set (sort_key f ys)" for k
  proof -
    have k: "k \<in> set xs" using that mset_eq_setD [OF assms(1)] by simp
    have same: "filter (\<lambda>x. f k = f x) zs = replicate (count (mset zs) k) k" if "mset zs = mset xs" for zs
    proof -
      have "set zs = set xs" using that by (rule mset_eq_setD)
      with assms(2) k have "filter (\<lambda>x. f k = f x) zs = filter (\<lambda>x. k = x) zs"
        by (intro filter_cong) (auto simp: inj_on_def)
      then show ?thesis by (simp add: replicate_count_mset_eq_filter_eq [symmetric])
    qed
    show ?thesis using same [of "sort_key f ys"] same [of xs] assms(1) by simp
  qed
  show "sorted (map f (sort_key f ys))" by simp
qed

lemma map_opt_mset:
  "mset xs = mset ys \<Longrightarrow> rel_option (\<lambda>a b. mset a = mset b) (map_opt f xs) (map_opt f ys)"
proof -
  have some: "map_opt f zs = (if None \<in> f ` set zs then None else Some (map (the \<circ> f) zs))" for zs
    by (induction zs) (auto split: option.splits)
  assume *: "mset xs = mset ys"
  then have "set xs = set ys" by (rule mset_eq_setD)
  then show ?thesis using * by (simp add: some)
qed

end
