(* ===== verification/Decision_Models.thy ===== *)
theory Decision_Models
  imports Eval_Errors Ast_Node
begin

text \<open>
  The data of a decision (\<^verbatim>\<open>src/models\<close>: \<open>outcome.go\<close>, \<open>screening.go\<close>, \<open>feature_access.go\<close>,
  \<open>rule.go\<close>, \<open>rule_snoozes.go\<close>, \<open>decision.go\<close>; \<^verbatim>\<open>src/models/ast/node_evaluation_dto.go\<close>): outcomes and
  their priority, screening statuses, rules and what their execution reports.
\<close>

section \<open>Outcomes\<close>

datatype Outcome = Approve | Review | BlockAndReview | Decline | UnknownOutcome

fun Outcome_String :: "Outcome \<Rightarrow> string" where
  "Outcome_String Approve = ''approve''"
| "Outcome_String Review = ''review''"
| "Outcome_String BlockAndReview = ''block_and_review''"
| "Outcome_String Decline = ''decline''"
| "Outcome_String UnknownOutcome = ''unknown''"

fun Priority :: "Outcome \<Rightarrow> int" where
  "Priority Approve = 0"
| "Priority Review = 1"
| "Priority BlockAndReview = 2"
| "Priority Decline = 3"
| "Priority UnknownOutcome = - 1"

definition OutcomeFrom :: "string \<Rightarrow> Outcome" where
  "OutcomeFrom s =
     (if s = ''approve'' then Approve
      else if s = ''review'' then Review
      else if s = ''block_and_review'' then BlockAndReview
      else if s = ''decline'' then Decline
      else UnknownOutcome)"

definition ValidForcedOutcome :: "Outcome list" where
  "ValidForcedOutcome = [Review, BlockAndReview, Decline]"

text \<open>The zero value of the type.\<close>

definition zero_Outcome :: Outcome where
  "zero_Outcome = Approve"

section \<open>Screening statuses and feature access\<close>

datatype ScreeningStatus = ScreeningStatusConfirmedHit | ScreeningStatusNoHit
  | ScreeningStatusInReview | ScreeningStatusError | ScreeningStatusUnknown

fun ScreeningStatus_String :: "ScreeningStatus \<Rightarrow> string" where
  "ScreeningStatus_String ScreeningStatusConfirmedHit = ''confirmed_hit''"
| "ScreeningStatus_String ScreeningStatusNoHit = ''no_hit''"
| "ScreeningStatus_String ScreeningStatusInReview = ''in_review''"
| "ScreeningStatus_String ScreeningStatusError = ''error''"
| "ScreeningStatus_String ScreeningStatusUnknown = ''unknown''"

definition ScreeningStatusFrom :: "string \<Rightarrow> ScreeningStatus" where
  "ScreeningStatusFrom s =
     (if s = ''confirmed_hit'' then ScreeningStatusConfirmedHit
      else if s = ''no_hit'' then ScreeningStatusNoHit
      else if s = ''in_review'' then ScreeningStatusInReview
      else if s = ''error'' then ScreeningStatusError
      else ScreeningStatusUnknown)"

datatype FeatureAccess = Restricted | Allowed | Test | MissingConfiguration | UnknownFeatureAccess

fun FeatureAccess_String :: "FeatureAccess \<Rightarrow> string" where
  "FeatureAccess_String Restricted = ''restricted''"
| "FeatureAccess_String Allowed = ''allowed''"
| "FeatureAccess_String Test = ''test''"
| "FeatureAccess_String MissingConfiguration = ''missing_configuration''"
| "FeatureAccess_String UnknownFeatureAccess = ''unknown''"

definition FeatureAccessFrom :: "string \<Rightarrow> FeatureAccess" where
  "FeatureAccessFrom s =
     (if s = ''allowed'' then Allowed
      else if s = ''restricted'' then Restricted
      else if s = ''test'' then Test
      else if s = ''missing_configuration'' then MissingConfiguration
      else UnknownFeatureAccess)"

definition IsAllowed :: "FeatureAccess \<Rightarrow> bool" where
  "IsAllowed f \<longleftrightarrow> f = Allowed \<or> f = Test"

section \<open>The evaluation as it is stored with a decision\<close>

text \<open>A return value is \<open>None\<close> when it is omitted (\<open>IsOmitted\<close>).\<close>

datatype 'f NodeEvaluationDto = NodeEvaluationDto
  (Dto_ReturnValue: "'f val option")
  (Dto_Errors: "EvaluationErrorDto list")
  (Dto_Children: "'f NodeEvaluationDto list")
  (Dto_NamedChildren: "(string \<times> 'f NodeEvaluationDto) list")
  (Dto_Skipped: bool)

definition isReturnValueOmitted :: "'f NodeEvaluation \<Rightarrow> bool" where
  "isReturnValueOmitted evaluation \<longleftrightarrow> NE_Function evaluation = FUNC_CUSTOM_LIST_ACCESS"

fun AdaptNodeEvaluationDto :: "'f NodeEvaluation \<Rightarrow> 'f NodeEvaluationDto" where
  "AdaptNodeEvaluationDto (NodeEvaluation i plan f v errs children named) = NodeEvaluationDto
     (if isReturnValueOmitted (NodeEvaluation i plan f v errs children named) then None else Some v)
     (map (\<lambda>err. AdaptEvaluationErrorDto (Some err)) (case errs of None \<Rightarrow> [] | Some es \<Rightarrow> es))
     (map AdaptNodeEvaluationDto children)
     (map (\<lambda>kn. (fst kn, AdaptNodeEvaluationDto (snd kn))) named)
     (Skipped plan)"

section \<open>Rules\<close>

text \<open>The fields of a rule that the execution reads; the others are labels and dates.\<close>

record 'f Rule =
  Rule_Id :: string
  FormulaAstExpression :: "'f Node option"
  ScoreModifier :: int
  Rule_SnoozeGroupId :: "string option"
  StableRuleId :: string

record RuleSnooze =
  Snooze_PivotValue :: string
  SnoozeGroupId :: string

record 'f RuleExecution =
  RE_ExecutionError :: ExecutionError
  RE_Evaluation :: "'f NodeEvaluationDto option"
  RE_Outcome :: string
  RE_Result :: bool
  RE_ResultScoreModifier :: int
  RE_Rule :: "'f Rule"

section \<open>Lemmas\<close>

lemma Outcome_roundtrip: "OutcomeFrom (Outcome_String o') = o'"
  by (cases o') (simp_all add: OutcomeFrom_def)

lemma ScreeningStatus_roundtrip: "ScreeningStatusFrom (ScreeningStatus_String st) = st"
  by (cases st) (simp_all add: ScreeningStatusFrom_def)

lemma FeatureAccess_roundtrip: "FeatureAccessFrom (FeatureAccess_String f) = f"
  by (cases f) (simp_all add: FeatureAccessFrom_def)

lemma Priority_inj: "Priority a = Priority b \<Longrightarrow> a = b"
  by (cases a; cases b) simp_all

text \<open>Outcomes are ordered by their priority.\<close>

instantiation Outcome :: linorder
begin

definition less_eq_Outcome :: "Outcome \<Rightarrow> Outcome \<Rightarrow> bool" where
  "less_eq_Outcome a b \<longleftrightarrow> Priority a \<le> Priority b"

definition less_Outcome :: "Outcome \<Rightarrow> Outcome \<Rightarrow> bool" where
  "less_Outcome a b \<longleftrightarrow> Priority a < Priority b"

instance
  by standard (auto simp: less_eq_Outcome_def less_Outcome_def dest: Priority_inj)

end

end
