(* ===== verification/Screening_Config.thy ===== *)
theory Screening_Config
  imports Decision_Models Evaluators
begin

text \<open>
  Screening configurations (\<^verbatim>\<open>src/models/scenario_iterations.go\<close>), the screenings they produce
  (\<^verbatim>\<open>src/models/screening.go\<close>) and the preprocessing of their queries
  (\<^verbatim>\<open>src/usecases/evaluate_scenario/preprocessing.go\<close>, \<^verbatim>\<open>src/models/opensanctions.go\<close>).

  Functions on Unicode text and the name recognition service are parameters, gathered in
  \<open>screening_text\<close>.
\<close>

section \<open>Filters\<close>

record ScreeningConfigFilter =
  Enabled :: bool
  Filter_Datasets :: "string list"
  Topics :: "(string \<times> string list) list"

record ScreeningConfigFilters =
  Global :: "ScreeningConfigFilter option"
  Sanctions :: "ScreeningConfigFilter option"
  Peps :: "ScreeningConfigFilter option"
  AdverseMedia :: "ScreeningConfigFilter option"
  Other :: "ScreeningConfigFilter option"
  Custom :: "ScreeningConfigFilter option"

definition zero_filter :: ScreeningConfigFilter where
  "zero_filter = \<lparr>Enabled = False, Filter_Datasets = [], Topics = []\<rparr>"

definition filter_value :: "ScreeningConfigFilter option \<Rightarrow> ScreeningConfigFilter" where
  "filter_value f = (case f of None \<Rightarrow> zero_filter | Some x \<Rightarrow> x)"

text \<open>
  \<open>Resolve\<close> followed by \<open>WithRootTopics\<close>: the filters by the key of their root topic.
\<close>

definition WithRootTopics :: "ScreeningConfigFilters \<Rightarrow> (string \<times> ScreeningConfigFilter) list" where
  "WithRootTopics scf =
     [(''global'', filter_value (Global scf)), (''sanctions'', filter_value (Sanctions scf)),
      (''pep'', filter_value (Peps scf)), (''adverse_media'', filter_value (AdverseMedia scf)),
      (''other'', filter_value (Other scf)), (''custom'', filter_value (Custom scf))]"

definition ContainsSameElements :: "'a list \<Rightarrow> 'a list \<Rightarrow> bool" where
  "ContainsSameElements a b \<longleftrightarrow> set a = set b"

definition same_filter :: "ScreeningConfigFilter \<Rightarrow> ScreeningConfigFilter \<Rightarrow> bool" where
  "same_filter lhs rhs \<longleftrightarrow>
     Enabled lhs = Enabled rhs
   \<and> ContainsSameElements (Filter_Datasets lhs) (Filter_Datasets rhs)
   \<and> length (Topics lhs) = length (Topics rhs)
   \<and> list_all (\<lambda>(lhsK, lhsV). case map_of (Topics rhs) lhsK of
        None \<Rightarrow> False | Some rhsV \<Rightarrow> ContainsSameElements lhsV rhsV) (Topics lhs)"

definition filters_Equal :: "ScreeningConfigFilters \<Rightarrow> ScreeningConfigFilters \<Rightarrow> bool" where
  "filters_Equal scf other =
     list_all2 (\<lambda>lhs rhs. same_filter (snd lhs) (snd rhs)) (WithRootTopics scf) (WithRootTopics other)"

section \<open>Configurations\<close>

record ScreeningConfigPreprocessing =
  UseNer :: bool
  NerIgnoreClassification :: bool
  cfg_SkipIfUnder :: int
  cfg_RemoveNumbers :: bool
  IgnoreListId :: string

text \<open>The classification flag is not compared.\<close>

definition preprocessing_equal :: "ScreeningConfigPreprocessing \<Rightarrow> ScreeningConfigPreprocessing \<Rightarrow> bool" where
  "preprocessing_equal cfg other \<longleftrightarrow>
     UseNer cfg = UseNer other \<and> cfg_SkipIfUnder cfg = cfg_SkipIfUnder other
   \<and> cfg_RemoveNumbers cfg = cfg_RemoveNumbers other \<and> IgnoreListId cfg = IgnoreListId other"

text \<open>A threshold is a pointer: its address and the integer it points to.\<close>

record 'f ScreeningConfig =
  SC_Id :: string
  SC_StableId :: string
  SC_ScenarioIterationId :: string
  SC_Name :: string
  Provider :: string
  Datasets :: "string list"
  Config_Filters :: ScreeningConfigFilters
  TriggerRule :: "'f Node option"
  EntityType :: string
  Config_Query :: "(string \<times> 'f Node) list option"
  Threshold :: "(nat \<times> int) option"
  ForcedOutcome :: Outcome
  CounterpartyIdExpression :: "'f Node option"
  Preprocessing :: ScreeningConfigPreprocessing

definition query_fields :: "'f ScreeningConfig \<Rightarrow> (string \<times> 'f Node) list" where
  "query_fields scc = (case Config_Query scc of None \<Rightarrow> [] | Some q \<Rightarrow> q)"

definition same_node :: "('f Node \<Rightarrow> nat) \<Rightarrow> 'f Node option \<Rightarrow> 'f Node option \<Rightarrow> bool" where
  "same_node H a b = (case (a, b) of
     (None, None) \<Rightarrow> True | (Some n, Some m) \<Rightarrow> H n = H m | _ \<Rightarrow> False)"

text \<open>The thresholds are compared as pointers.\<close>

definition HasSameQuery :: "('f Node \<Rightarrow> nat) \<Rightarrow> 'f ScreeningConfig \<Rightarrow> 'f ScreeningConfig \<Rightarrow> bool" where
  "HasSameQuery H scc other \<longleftrightarrow>
     Provider scc = Provider other
   \<and> SC_StableId scc = SC_StableId other
   \<and> ContainsSameElements (Datasets scc) (Datasets other)
   \<and> filters_Equal (Config_Filters scc) (Config_Filters other)
   \<and> EntityType scc = EntityType other
   \<and> map_option fst (Threshold scc) = map_option fst (Threshold other)
   \<and> same_node H (TriggerRule scc) (TriggerRule other)
   \<and> same_node H (CounterpartyIdExpression scc) (CounterpartyIdExpression other)
   \<and> preprocessing_equal (Preprocessing scc) (Preprocessing other)
   \<and> fst ` set (query_fields other) = fst ` set (query_fields scc)
   \<and> list_all (\<lambda>(field, query). case map_of (query_fields other) field of
        None \<Rightarrow> False | Some otherQuery \<Rightarrow> H query = H otherQuery) (query_fields scc)
   \<and> ForcedOutcome scc = ForcedOutcome other"

section \<open>Queries\<close>

record OpenSanctionsCheckQuery =
  Query_Type :: string
  Query_Filters :: "(string \<times> string list) list"

definition GetName :: "OpenSanctionsCheckQuery \<Rightarrow> string" where
  "GetName q = (case map_of (Query_Filters q) ''name'' of Some (n # ns) \<Rightarrow> n | _ \<Rightarrow> [])"

fun map_set :: "'k \<Rightarrow> 'v \<Rightarrow> ('k \<times> 'v) list \<Rightarrow> ('k \<times> 'v) list" where
  "map_set k v [] = [(k, v)]"
| "map_set k v ((k', v') # m) = (if k' = k then (k, v) # m else (k', v') # map_set k v m)"

definition SetName :: "string \<Rightarrow> OpenSanctionsCheckQuery \<Rightarrow> OpenSanctionsCheckQuery" where
  "SetName name q = q\<lparr>Query_Filters := map_set ''name'' [name] (Query_Filters q)\<rparr>"

section \<open>Preprocessing\<close>

text \<open>
  \<open>Str_Runes\<close> splits a text into the encodings of its code points, \<open>Rune_IsDigit\<close> is
  \<open>unicode.IsDigit\<close>, \<open>Str_Fields\<close> is \<open>strings.Fields\<close>, \<open>Str_ToLower\<close> and \<open>Str_TrimSpace\<close> are those of
  \<open>strings\<close>, \<open>Time_FormatDate\<close> the format \<open>2006-01-02\<close>. \<open>NameRecognizer\<close> is \<open>None\<close> when the service is
  absent or not configured; a match is a type and a text.
\<close>

record screening_text =
  Str_Runes :: "string \<Rightarrow> string list"
  Rune_IsDigit :: "string \<Rightarrow> bool"
  Str_Fields :: "string \<Rightarrow> string list"
  Str_ToLower :: "string \<Rightarrow> string"
  Str_TrimSpace :: "string \<Rightarrow> string"
  Time_FormatDate :: "int \<Rightarrow> string"
  NameRecognizer :: "(string \<Rightarrow> go_error + (string \<times> string) list) option"

type_synonym queries = "OpenSanctionsCheckQuery list"

text \<open>A step may fail, or panic (\<open>None\<close>).\<close>

type_synonym preprocessed = "(go_error + queries) option"

definition SkipIfUnder :: "ScreeningConfigPreprocessing \<Rightarrow> queries \<Rightarrow> queries" where
  "SkipIfUnder cfg queries =
     (if cfg_SkipIfUnder cfg = 0 then queries
      else filter (\<lambda>query. \<not> int (length (GetName query)) < cfg_SkipIfUnder cfg) queries)"

definition remove_digits :: "screening_text \<Rightarrow> string \<Rightarrow> string" where
  "remove_digits T s = concat (filter (\<lambda>c. \<not> Rune_IsDigit T c) (Str_Runes T s))"

definition RemoveNumbers :: "screening_text \<Rightarrow> ScreeningConfigPreprocessing \<Rightarrow> queries \<Rightarrow> queries" where
  "RemoveNumbers T cfg queries =
     (if \<not> cfg_RemoveNumbers cfg then queries
      else map (\<lambda>query. SetName (remove_digits T (GetName query)) query) queries)"

definition NewNodeCustomListAccess :: "string \<Rightarrow> 'f Node" where
  "NewNodeCustomListAccess customListId =
     AddNamedChild (Node 0 FUNC_CUSTOM_LIST_ACCESS VNil [] []) ''customListId'' (NewNodeConstant (VString customListId))"

fun CastAnySlice_string :: "'f val list \<Rightarrow> string list option" where
  "CastAnySlice_string [] = Some []"
| "CastAnySlice_string (VString s # vs) = map_option ((#) s) (CastAnySlice_string vs)"
| "CastAnySlice_string (_ # vs) = None"

definition remove_words :: "screening_text \<Rightarrow> string list \<Rightarrow> string \<Rightarrow> string" where
  "remove_words T ignored name =
     strings_Join (filter (\<lambda>word. \<not> List.member (map (Str_ToLower T) ignored) (Str_ToLower T word))
       (Str_Fields T name)) '' ''"

text \<open>The words to ignore: the value of the custom list, evaluated by \<open>ev\<close> once per query.\<close>

definition ignored_words ::
    "('f Node \<Rightarrow> ('f NodeEvaluation \<times> go_error option) option) \<Rightarrow> string \<Rightarrow> (go_error + string list) option" where
  "ignored_words ev listId =
     (case ev (NewNodeCustomListAccess listId) of
        None \<Rightarrow> None
      | Some (customListEval, Some err) \<Rightarrow> Some (Inl err)
      | Some (customListEval, None) \<Rightarrow> Some
         (case NE_ReturnValue customListEval of
            VList listAny \<Rightarrow> (case CastAnySlice_string listAny of
                None \<Rightarrow> Inl (ErrNew ''could not parse result from custom list (not []string)'')
              | Some ws \<Rightarrow> Inr ws)
          | _ \<Rightarrow> Inl (ErrNew ''could not parse result from custom list (not []any)'')))"

fun ignore_list_queries ::
    "screening_text \<Rightarrow> (go_error + string list) option \<Rightarrow> queries \<Rightarrow> preprocessed" where
  "ignore_list_queries T ws [] = Some (Inr [])"
| "ignore_list_queries T ws (query # queries) =
     (case ws of
        None \<Rightarrow> None
      | Some (Inl err) \<Rightarrow> Some (Inl err)
      | Some (Inr ignored) \<Rightarrow> (case ignore_list_queries T ws queries of
            Some (Inr out) \<Rightarrow> Some (Inr (SetName (remove_words T ignored (GetName query)) query # out))
          | r \<Rightarrow> r))"

definition IgnoreList ::
    "screening_text \<Rightarrow> ('f Node \<Rightarrow> ('f NodeEvaluation \<times> go_error option) option)
     \<Rightarrow> ScreeningConfigPreprocessing \<Rightarrow> queries \<Rightarrow> preprocessed" where
  "IgnoreList T ev cfg queries =
     (if IgnoreListId cfg = [] then Some (Inr queries)
      else ignore_list_queries T (ignored_words ev (IgnoreListId cfg)) queries)"

definition named_query :: "string \<Rightarrow> string \<Rightarrow> OpenSanctionsCheckQuery" where
  "named_query typ text' = \<lparr>Query_Type = typ, Query_Filters = [(''name'', [text'])]\<rparr>"

definition ner_query :: "bool \<Rightarrow> OpenSanctionsCheckQuery \<Rightarrow> string \<times> string \<Rightarrow> OpenSanctionsCheckQuery" where
  "ner_query ignoreClassification query m = (case m of (typ, text') \<Rightarrow>
     if ignoreClassification then named_query ''Thing'' text'
     else if typ = ''Person'' then named_query ''Person'' text'
     else if typ = ''Company'' \<or> typ = ''Organization'' then named_query ''Organization'' text'
     else query)"

fun ner_queries ::
    "(string \<Rightarrow> go_error + (string \<times> string) list) \<Rightarrow> bool \<Rightarrow> queries \<Rightarrow> go_error + queries" where
  "ner_queries recognize ignoreClassification [] = Inr []"
| "ner_queries recognize ignoreClassification (query # queries) =
     (case recognize (GetName query) of
        Inl err \<Rightarrow> Inl (ErrWrap err ''name entity recognition failed'')
      | Inr matches \<Rightarrow> (case ner_queries recognize ignoreClassification queries of
            Inl err \<Rightarrow> Inl err
          | Inr out \<Rightarrow> Inr (map (ner_query ignoreClassification query) matches @ out)))"

text \<open>The recognised queries whose name is not yet among the queries are added, one after the other.\<close>

fun add_new_names :: "queries \<Rightarrow> queries \<Rightarrow> queries" where
  "add_new_names queries [] = queries"
| "add_new_names queries (newQuery # out) =
     add_new_names (if list_ex (\<lambda>q. GetName newQuery = GetName q) queries then queries
                    else queries @ [newQuery]) out"

definition NameEntityRecognition ::
    "screening_text \<Rightarrow> ScreeningConfigPreprocessing \<Rightarrow> queries \<Rightarrow> go_error + queries" where
  "NameEntityRecognition T cfg queries =
     (if \<not> UseNer cfg then Inr queries
      else case NameRecognizer T of
        None \<Rightarrow> Inr queries
      | Some recognize \<Rightarrow>
         (case ner_queries recognize (NerIgnoreClassification cfg) queries of
            Inl err \<Rightarrow> Inl err
          | Inr out \<Rightarrow> Inr (add_new_names queries out)))"

text \<open>
  The steps in their order. The loop stops early when the queries it was given are empty; it does
  not look at the queries the steps produce.
\<close>

fun run_steps :: "(queries \<Rightarrow> preprocessed) list \<Rightarrow> queries \<Rightarrow> queries \<Rightarrow> preprocessed" where
  "run_steps [] queries out = Some (Inr out)"
| "run_steps (step # steps) queries out =
     (case step out of
        Some (Inr out') \<Rightarrow> if queries = [] then Some (Inr out') else run_steps steps queries out'
      | r \<Rightarrow> r)"

definition preprocess ::
    "screening_text \<Rightarrow> ('f Node \<Rightarrow> ('f NodeEvaluation \<times> go_error option) option)
     \<Rightarrow> ScreeningConfigPreprocessing \<Rightarrow> queries \<Rightarrow> preprocessed" where
  "preprocess T ev cfg queries =
     run_steps [\<lambda>qs. Some (Inr (SkipIfUnder cfg qs)), \<lambda>qs. Some (NameEntityRecognition T cfg qs),
       \<lambda>qs. Some (Inr (RemoveNumbers T cfg qs)), IgnoreList T ev cfg, \<lambda>qs. Some (Inr (SkipIfUnder cfg qs))]
       queries queries"

section \<open>Screenings\<close>

text \<open>The fields of a screening that the evaluation sets or reads.\<close>

record ScreeningWithMatches =
  SW_Id :: string
  SW_ScreeningConfigId :: string
  SW_Config :: "string \<times> string \<times> string"
  SW_Status :: ScreeningStatus
  SW_InitialQuery :: queries
  SW_ErrorCodes :: "string list"
  SW_NumberOfMatches :: int
  SW_UniqueCounterpartyIdentifier :: "string option"

definition outcomeNoHit :: "'f ScreeningConfig \<Rightarrow> queries \<Rightarrow> ScreeningWithMatches" where
  "outcomeNoHit scc initialQuery =
     \<lparr>SW_Id = [], SW_ScreeningConfigId = SC_Id scc, SW_Config = (SC_Id scc, SC_StableId scc, SC_Name scc),
      SW_Status = ScreeningStatusNoHit, SW_InitialQuery = initialQuery, SW_ErrorCodes = [],
      SW_NumberOfMatches = 0, SW_UniqueCounterpartyIdentifier = None\<rparr>"

definition outcomeError :: "'f ScreeningConfig \<Rightarrow> string \<Rightarrow> ScreeningWithMatches" where
  "outcomeError scc code =
     \<lparr>SW_Id = [], SW_ScreeningConfigId = SC_Id scc, SW_Config = (SC_Id scc, SC_StableId scc, SC_Name scc),
      SW_Status = ScreeningStatusError, SW_InitialQuery = [], SW_ErrorCodes = [code],
      SW_NumberOfMatches = 0, SW_UniqueCounterpartyIdentifier = None\<rparr>"

end
