(* ===== verification/Rule_Execution.thy ===== *)
theory Rule_Execution
  imports Decision_Models Ast_Eval_Laws
begin

text \<open>
  Execution of the trigger and of the rules of a scenario
  (\<^verbatim>\<open>src/usecases/evaluate_scenario/evaluate_scenario.go\<close>: \<open>evalScenarioTrigger\<close>,
  \<open>evalScenarioRule\<close>, \<open>evalAllScenarioRules\<close>).

  The rules of an iteration run in goroutines of an \<open>errgroup\<close> with a limit. They are modelled by a
  step relation: a goroutine is launched, checks the context, evaluates its rule, and adds the
  score of the rule to the shared \<open>runningSumOfScores\<close> in two steps, a read and a write, as the
  code has no lock around \<open>+=\<close>. The context is cancelled by the first error of the group; a
  cancellation by the caller is left out.
\<close>

section \<open>The interface to formula evaluation\<close>

text \<open>
  \<open>EvaluateAstExpression\<close> is an interface of the evaluator of scenarios. A provider is a function of
  the formula, for a fixed organization, payload, data model and cache; \<open>None\<close> is a panic.
\<close>

type_synonym 'f expression_evaluator = "'f Node \<Rightarrow> ('f NodeEvaluation \<times> go_error option) option"

text \<open>The laws: an error holds exactly the errors of the tree, and success leaves none.\<close>

locale expression_evaluation =
  fixes ev :: "'f expression_evaluator"
  assumes failure: "ev n = Some (e, Some err) \<Longrightarrow> FlattenErrors e \<noteq> [] \<and> err = ErrJoin (FlattenErrors e)"
    and success: "ev n = Some (e, None) \<Longrightarrow> FlattenErrors e = []"

definition ast_evaluator ::
    "('f Node \<Rightarrow> nat) \<Rightarrow> (int list \<Rightarrow> nat list) \<Rightarrow> 'f AstEvaluationEnvironment \<Rightarrow> 'f cache
     \<Rightarrow> 'f expression_evaluator" where
  "ast_evaluator H S env cache n = map_option fst (EvaluateAstExpression H S env cache n)"

lemma ast_evaluator_laws:
  assumes "cost_order S" "cache_errors cache"
  shows "expression_evaluation (ast_evaluator H S env cache)"
proof
  fix n e err
  assume "ast_evaluator H S env cache n = Some (e, Some err)"
  then obtain c ok where "EvaluateAst H S env n cache = Some ((e, ok), c)"
    "\<not> ok" "errors_Join (map Some (FlattenErrors e)) = Some err"
    by (auto simp: ast_evaluator_def EvaluateAstExpression_def split: option.splits if_splits)
  with cost_order.EvaluateAst_errors [OF assms(1) _ assms(2)]
  show "FlattenErrors e \<noteq> [] \<and> err = ErrJoin (FlattenErrors e)"
    by (auto simp: errors_Join_def some_errors_def filter_map comp_def split: if_splits)
next
  fix n e
  assume "ast_evaluator H S env cache n = Some (e, None)"
  then obtain c ok where "EvaluateAst H S env n cache = Some ((e, ok), c)"
    "\<not> ok \<Longrightarrow> errors_Join (map Some (FlattenErrors e)) = None"
    by (auto simp: ast_evaluator_def EvaluateAstExpression_def split: option.splits if_splits)
  with cost_order.EvaluateAst_errors [OF assms(1) _ assms(2)]
  show "FlattenErrors e = []" by (cases ok) (auto simp: errors_Join_None_iff)
qed

interpretation uncached: expression_evaluation "ast_evaluator H sort_positions env None"
  by (rule ast_evaluator_laws) (simp_all add: stable.cost_order_axioms)

section \<open>The trigger\<close>

definition evalScenarioTrigger :: "'f expression_evaluator \<Rightarrow> 'f Node \<Rightarrow> (go_error + bool) option" where
  "evalScenarioTrigger ev triggerAstExpression =
     (case ev triggerAstExpression of
        None \<Rightarrow> None
      | Some (triggerEvaluation, err) \<Rightarrow> Some
         (if IsAuthorizedError err then Inr False
          else case err of
            Some e \<Rightarrow> Inl (ErrWrap e ''Unexpected error evaluating trigger condition in EvalScenario'')
          | None \<Rightarrow> (case NE_ReturnValue triggerEvaluation of
              VNil \<Rightarrow> Inr False
            | VBool boolReturnValue \<Rightarrow> Inr boolReturnValue
            | _ \<Rightarrow> Inl (ErrNew ''root ast expression in trigger condition does not return a boolean''))))"

section \<open>One rule\<close>

definition context_Canceled :: go_error where
  "context_Canceled = ErrSentinel ''context canceled''"

definition rule_execution ::
    "'f Rule \<Rightarrow> 'f NodeEvaluation \<Rightarrow> bool \<Rightarrow> ExecutionError option \<Rightarrow> 'f RuleExecution" where
  "rule_execution rule ruleEvaluation returnValue hasError =
     \<lparr>RE_ExecutionError = (case hasError of None \<Rightarrow> NoError | Some execErr \<Rightarrow> execErr),
      RE_Evaluation = Some (AdaptNodeEvaluationDto ruleEvaluation),
      RE_Outcome = (if returnValue then ''hit'' else if hasError \<noteq> None then ''error'' else ''no_hit''),
      RE_Result = returnValue,
      RE_ResultScoreModifier = (if returnValue then ScoreModifier rule else 0),
      RE_Rule = rule\<rparr>"

definition snoozed_execution :: "'f Rule \<Rightarrow> 'f RuleExecution" where
  "snoozed_execution rule = \<lparr>RE_ExecutionError = NoError, RE_Evaluation = None,
     RE_Outcome = ''snoozed'', RE_Result = False, RE_ResultScoreModifier = 0, RE_Rule = rule\<rparr>"

text \<open>\<open>ctx_done\<close> is whether the context is cancelled; a missing formula is a nil dereference, a panic.\<close>

definition evalScenarioRule ::
    "'f expression_evaluator \<Rightarrow> bool \<Rightarrow> 'f Rule \<Rightarrow> RuleSnooze list
     \<Rightarrow> (go_error + int \<times> 'f RuleExecution) option" where
  "evalScenarioRule ev ctx_done rule snoozes =
     (if ctx_done then Some (Inl (ErrWrap context_Canceled ''context cancelled when evaluating rule''))
      else if list_ex (\<lambda>snooze. Rule_SnoozeGroupId rule = Some (SnoozeGroupId snooze)) snoozes
      then Some (Inr (0, snoozed_execution rule))
      else (case FormulaAstExpression rule of
        None \<Rightarrow> None
      | Some formula \<Rightarrow> (case ev formula of
          None \<Rightarrow> None
        | Some (ruleEvaluation, err) \<Rightarrow>
           (let done = (\<lambda>returnValue hasError.
                  (let x = rule_execution rule ruleEvaluation returnValue hasError
                   in Some (Inr (RE_ResultScoreModifier x, x))))
            in if IsAuthorizedError err then done False (Some (AdaptExecutionError err))
               else case err of
                 Some e \<Rightarrow> Some (Inl (ErrWrap e ''error while evaluating rule''))
               | None \<Rightarrow> (case NE_ReturnValue ruleEvaluation of
                   VNil \<Rightarrow> done False (Some NullFieldRead)
                 | VBool returnValue \<Rightarrow> done returnValue None
                 | _ \<Rightarrow> Some (Inl (ErrWrap ErrRuntimeExpression
                          ''Unexpected error while evaluating rule: rule returned a type'')))))))"

section \<open>All the rules of an iteration\<close>

definition MAX_CONCURRENT_RULE_EXECUTIONS :: nat where
  "MAX_CONCURRENT_RULE_EXECUTIONS = 5"

definition rules_limit :: "int \<Rightarrow> nat" where
  "rules_limit concurrency = (if concurrency > 0 then nat concurrency else MAX_CONCURRENT_RULE_EXECUTIONS)"

text \<open>
  A goroutine waits to be launched, has been launched, is past the check of the context, has
  evaluated its rule, has read the running sum, or is finished.
\<close>

datatype 'f rule_thread =
    Waiting
  | Launched
  | Evaluating
  | Evaluated int "'f RuleExecution"
  | Loaded int int "'f RuleExecution"
  | Finished

record 'f rules_state =
  threads :: "'f rule_thread list"
  runningSumOfScores :: int
  ruleExecutions :: "'f RuleExecution option list"
  group_err :: "go_error option"
  crashed :: bool

definition rules_start :: "'f Rule list \<Rightarrow> 'f rules_state" where
  "rules_start rules = \<lparr>threads = map (\<lambda>_. Waiting) rules, runningSumOfScores = 0,
     ruleExecutions = map (\<lambda>_. None) rules, group_err = None, crashed = False\<rparr>"

definition active :: "'f rules_state \<Rightarrow> nat" where
  "active s = length (filter (\<lambda>t. t \<noteq> Waiting \<and> t \<noteq> Finished) (threads s))"

definition cancelled :: "'f rules_state \<Rightarrow> bool" where
  "cancelled s \<longleftrightarrow> group_err s \<noteq> None"

definition set_thread :: "nat \<Rightarrow> 'f rule_thread \<Rightarrow> 'f rules_state \<Rightarrow> 'f rules_state" where
  "set_thread i t s = s\<lparr>threads := (threads s)[i := t]\<rparr>"

text \<open>A goroutine that returns an error: the group keeps the first one and cancels its context.\<close>

definition fail_thread :: "nat \<Rightarrow> go_error \<Rightarrow> 'f rules_state \<Rightarrow> 'f rules_state" where
  "fail_thread i e s = (set_thread i Finished s)
     \<lparr>group_err := (case group_err s of None \<Rightarrow> Some e | Some e' \<Rightarrow> Some e')\<rparr>"

inductive rules_step ::
    "'f expression_evaluator \<Rightarrow> nat \<Rightarrow> 'f Rule list \<Rightarrow> RuleSnooze list
     \<Rightarrow> 'f rules_state \<Rightarrow> 'f rules_state \<Rightarrow> bool"
  for ev limit rules snoozes
where
  launch: "\<lbrakk>\<not> crashed s; i < length rules; threads s ! i = Waiting; \<forall>j<i. threads s ! j \<noteq> Waiting;
      active s < limit\<rbrakk> \<Longrightarrow>
    rules_step ev limit rules snoozes s (set_thread i Launched s)"
| check_cancelled: "\<lbrakk>\<not> crashed s; i < length rules; threads s ! i = Launched; cancelled s\<rbrakk> \<Longrightarrow>
    rules_step ev limit rules snoozes s
      (fail_thread i (ErrWrap context_Canceled ''context cancelled before evaluating rule'') s)"
| check: "\<lbrakk>\<not> crashed s; i < length rules; threads s ! i = Launched; \<not> cancelled s\<rbrakk> \<Longrightarrow>
    rules_step ev limit rules snoozes s (set_thread i Evaluating s)"
| eval_ok: "\<lbrakk>\<not> crashed s; i < length rules; threads s ! i = Evaluating;
      evalScenarioRule ev False (rules ! i) snoozes = Some (Inr (scoreModifier, ruleExecution))\<rbrakk> \<Longrightarrow>
    rules_step ev limit rules snoozes s (set_thread i (Evaluated scoreModifier ruleExecution) s)"
| eval_error: "\<lbrakk>\<not> crashed s; i < length rules; threads s ! i = Evaluating;
      evalScenarioRule ev False (rules ! i) snoozes = Some (Inl err)\<rbrakk> \<Longrightarrow>
    rules_step ev limit rules snoozes s (fail_thread i err s)"
| eval_cancelled: "\<lbrakk>\<not> crashed s; i < length rules; threads s ! i = Evaluating; cancelled s;
      evalScenarioRule ev True (rules ! i) snoozes = Some (Inl err)\<rbrakk> \<Longrightarrow>
    rules_step ev limit rules snoozes s (fail_thread i err s)"
| eval_panic: "\<lbrakk>\<not> crashed s; i < length rules; threads s ! i = Evaluating;
      evalScenarioRule ev False (rules ! i) snoozes = None\<rbrakk> \<Longrightarrow>
    rules_step ev limit rules snoozes s (s\<lparr>crashed := True\<rparr>)"
| load: "\<lbrakk>\<not> crashed s; i < length rules; threads s ! i = Evaluated scoreModifier ruleExecution\<rbrakk> \<Longrightarrow>
    rules_step ev limit rules snoozes s
      (set_thread i (Loaded (runningSumOfScores s) scoreModifier ruleExecution) s)"
| store: "\<lbrakk>\<not> crashed s; i < length rules; threads s ! i = Loaded v scoreModifier ruleExecution\<rbrakk> \<Longrightarrow>
    rules_step ev limit rules snoozes s
      ((set_thread i Finished s)\<lparr>runningSumOfScores := wrap64 (v + scoreModifier),
         ruleExecutions := (ruleExecutions s)[i := Some ruleExecution]\<rparr>)"

inductive_cases rules_stepE: "rules_step ev limit rules snoozes s s'"

text \<open>
  The result once all goroutines have finished; \<open>None\<close> is the crash of the process by a panic in a
  goroutine. A slot that was never written is the zero \<open>RuleExecution\<close>, here \<open>None\<close>.
\<close>

definition all_finished :: "'f rules_state \<Rightarrow> bool" where
  "all_finished s \<longleftrightarrow> list_all (\<lambda>t. t = Finished) (threads s)"

type_synonym 'f rules_result = "(go_error + int \<times> 'f RuleExecution option list) option"

definition rules_result :: "'f rules_state \<Rightarrow> 'f rules_result" where
  "rules_result s =
     (if crashed s then None
      else case group_err s of
        Some err \<Rightarrow> Some (Inl (ErrWrap err ''at least one rule evaluation returned an error''))
      | None \<Rightarrow> Some (Inr (runningSumOfScores s, ruleExecutions s)))"

inductive evalAllScenarioRules ::
    "'f expression_evaluator \<Rightarrow> 'f Rule list \<Rightarrow> RuleSnooze list \<Rightarrow> int \<Rightarrow> 'f rules_result \<Rightarrow> bool" where
  evalAllScenarioRules: "(rules_step ev (rules_limit concurrency) rules snoozes)\<^sup>*\<^sup>* (rules_start rules) s \<Longrightarrow>
    crashed s \<or> all_finished s \<Longrightarrow>
    evalAllScenarioRules ev rules snoozes concurrency (rules_result s)"

section \<open>Invariants of the concurrent execution\<close>

lemma set_thread_simps [simp]:
  "threads (set_thread i t s) = (threads s)[i := t]"
  "runningSumOfScores (set_thread i t s) = runningSumOfScores s"
  "ruleExecutions (set_thread i t s) = ruleExecutions s"
  "group_err (set_thread i t s) = group_err s"
  "crashed (set_thread i t s) = crashed s"
  by (simp_all add: set_thread_def)

lemma fail_thread_simps [simp]:
  "threads (fail_thread i e s) = (threads s)[i := Finished]"
  "runningSumOfScores (fail_thread i e s) = runningSumOfScores s"
  "ruleExecutions (fail_thread i e s) = ruleExecutions s"
  "group_err (fail_thread i e s) = (case group_err s of None \<Rightarrow> Some e | Some e' \<Rightarrow> Some e')"
  "crashed (fail_thread i e s) = crashed s"
  by (simp_all add: fail_thread_def)

text \<open>What the rule of a goroutine yields when it is run on its own.\<close>

definition rule_value ::
    "'f expression_evaluator \<Rightarrow> RuleSnooze list \<Rightarrow> 'f Rule \<Rightarrow> (int \<times> 'f RuleExecution) option" where
  "rule_value ev snoozes rule =
     (case evalScenarioRule ev False rule snoozes of Some (Inr r) \<Rightarrow> Some r | _ \<Rightarrow> None)"

lemma rule_value_Some: "rule_value ev snoozes rule = Some r \<longleftrightarrow>
    evalScenarioRule ev False rule snoozes = Some (Inr r)"
  by (auto simp: rule_value_def split: option.splits sum.splits)

definition thread_ok ::
    "'f expression_evaluator \<Rightarrow> RuleSnooze list \<Rightarrow> 'f Rule \<Rightarrow> 'f rule_thread \<Rightarrow> 'f RuleExecution option \<Rightarrow> bool" where
  "thread_ok ev snoozes rule t slot = (case t of
     Evaluated m x \<Rightarrow> rule_value ev snoozes rule = Some (m, x) \<and> slot = None
   | Loaded v m x \<Rightarrow> rule_value ev snoozes rule = Some (m, x) \<and> slot = None
   | Finished \<Rightarrow> (\<forall>x. slot = Some x \<longrightarrow> (\<exists>m. rule_value ev snoozes rule = Some (m, x)))
   | _ \<Rightarrow> slot = None)"

definition threads_ok :: "'f expression_evaluator \<Rightarrow> 'f Rule list \<Rightarrow> RuleSnooze list \<Rightarrow> 'f rules_state \<Rightarrow> bool" where
  "threads_ok ev rules snoozes s \<longleftrightarrow>
     length (threads s) = length rules \<and> length (ruleExecutions s) = length rules
   \<and> (\<forall>i<length rules. thread_ok ev snoozes (rules ! i) (threads s ! i) (ruleExecutions s ! i))
   \<and> (\<forall>i<length rules. threads s ! i = Finished \<longrightarrow> ruleExecutions s ! i = None \<longrightarrow> group_err s \<noteq> None)"

lemma threads_ok_start: "threads_ok ev rules snoozes (rules_start rules)"
  by (simp add: threads_ok_def rules_start_def thread_ok_def)

lemma threads_ok_step:
  "rules_step ev limit rules snoozes s s' \<Longrightarrow> threads_ok ev rules snoozes s \<Longrightarrow> threads_ok ev rules snoozes s'"
  by (induction rule: rules_step.induct)
     (auto simp: threads_ok_def thread_ok_def nth_list_update rule_value_Some split: option.splits)

text \<open>The score a rule adds, and the rules whose execution has been stored.\<close>

definition rule_score :: "'f expression_evaluator \<Rightarrow> RuleSnooze list \<Rightarrow> 'f Rule \<Rightarrow> int" where
  "rule_score ev snoozes rule = (case rule_value ev snoozes rule of Some (m, x) \<Rightarrow> m | None \<Rightarrow> 0)"

definition written :: "'f rules_state \<Rightarrow> nat set" where
  "written s = {i. i < length (ruleExecutions s) \<and> ruleExecutions s ! i \<noteq> None}"

definition partial_sum ::
    "'f expression_evaluator \<Rightarrow> 'f Rule list \<Rightarrow> RuleSnooze list \<Rightarrow> 'f rules_state \<Rightarrow> int \<Rightarrow> bool" where
  "partial_sum ev rules snoozes s v \<longleftrightarrow>
     (\<exists>A. A \<subseteq> written s \<and> v = wrap64 (\<Sum>i\<in>A. rule_score ev snoozes (rules ! i)))"

definition sums_ok :: "'f expression_evaluator \<Rightarrow> 'f Rule list \<Rightarrow> RuleSnooze list \<Rightarrow> 'f rules_state \<Rightarrow> bool" where
  "sums_ok ev rules snoozes s \<longleftrightarrow>
     partial_sum ev rules snoozes s (runningSumOfScores s)
   \<and> (\<forall>i v m x. i < length rules \<longrightarrow> threads s ! i = Loaded v m x \<longrightarrow> partial_sum ev rules snoozes s v)"

lemma finite_written [simp]: "finite (written s)"
  by (simp add: written_def)

lemma written_simps [simp]:
  "written (set_thread i t s) = written s"
  "written (fail_thread i e s) = written s"
  "written (s\<lparr>crashed := c\<rparr>) = written s"
  by (simp_all add: written_def)

lemma partial_sum_cong:
  "written s' = written s \<Longrightarrow> partial_sum ev rules snoozes s' = partial_sum ev rules snoozes s"
  by (simp add: partial_sum_def fun_eq_iff)

lemma written_store:
  "i < length (ruleExecutions s) \<Longrightarrow>
     written ((set_thread i Finished s)\<lparr>runningSumOfScores := w, ruleExecutions := (ruleExecutions s)[i := Some x]\<rparr>)
     = insert i (written s)"
  by (auto simp: written_def nth_list_update)

lemma partial_sum_mono:
  "partial_sum ev rules snoozes s v \<Longrightarrow> written s \<subseteq> written s' \<Longrightarrow> partial_sum ev rules snoozes s' v"
  by (auto simp: partial_sum_def)

lemma partial_sum_insert:
  assumes "partial_sum ev rules snoozes s v" "i \<notin> written s" "written s' = insert i (written s)"
    and "rule_score ev snoozes (rules ! i) = m"
  shows "partial_sum ev rules snoozes s' (wrap64 (v + m))"
proof -
  from assms(1) obtain A where A: "A \<subseteq> written s" "v = wrap64 (\<Sum>j\<in>A. rule_score ev snoozes (rules ! j))"
    by (auto simp: partial_sum_def)
  then have "finite A" "i \<notin> A" using assms(2) finite_subset [OF A(1)] by auto
  then have "wrap64 (v + m) = wrap64 (\<Sum>j\<in>insert i A. rule_score ev snoozes (rules ! j))"
    using A(2) assms(4) by (simp add: wrap64_add_left wrap64_add_right add.commute)
  then show ?thesis using A(1) assms(3) unfolding partial_sum_def by (intro exI [of _ "insert i A"]) auto
qed

lemma loaded_fresh:
  assumes "threads_ok ev rules snoozes s" "i < length rules" "threads s ! i = Loaded v m x"
  shows "i \<notin> written s" "rule_score ev snoozes (rules ! i) = m" "i < length (ruleExecutions s)"
  using assms by (auto simp: threads_ok_def thread_ok_def written_def rule_score_def dest!: spec [of _ i])

lemma sums_ok_start: "sums_ok ev rules snoozes (rules_start rules)"
proof -
  have "partial_sum ev rules snoozes (rules_start rules) 0"
    unfolding partial_sum_def by (rule exI [of _ "{}"]) (simp add: int64_defs)
  then show ?thesis by (simp add: sums_ok_def rules_start_def)
qed

text \<open>A step reads the sum, stores a result, or leaves the sum and the results as they are.\<close>

lemma rules_step_frame:
  assumes "rules_step ev limit rules snoozes s s'" "length (threads s) = length rules"
  obtains (store) i v m x where "i < length rules" "threads s ! i = Loaded v m x"
      "s' = (set_thread i Finished s)\<lparr>runningSumOfScores := wrap64 (v + m),
         ruleExecutions := (ruleExecutions s)[i := Some x]\<rparr>"
    | (load) i m x where "i < length rules" "threads s ! i = Evaluated m x"
      "s' = set_thread i (Loaded (runningSumOfScores s) m x) s"
    | (other) "runningSumOfScores s' = runningSumOfScores s" "written s' = written s"
      "\<forall>i v m x. i < length rules \<longrightarrow> threads s' ! i = Loaded v m x \<longrightarrow> threads s ! i = Loaded v m x"
  using assms(1)
proof cases
  case (store i v m x)
  then show thesis using that(1) by blast
next
  case (load i m x)
  then show thesis using that(2) by blast
qed (rule that(3); use assms(2) in \<open>simp add: nth_list_update split: if_splits\<close>)+

lemma sums_ok_step:
  assumes step: "rules_step ev limit rules snoozes s s'"
    and ok: "threads_ok ev rules snoozes s" and sums: "sums_ok ev rules snoozes s"
  shows "sums_ok ev rules snoozes s'"
proof -
  have len: "length (threads s) = length rules" using ok by (simp add: threads_ok_def)
  from step len show ?thesis
  proof (cases rule: rules_step_frame)
    case (store i v m x)
    note fresh = loaded_fresh [OF ok store(1,2)]
    have w: "written s' = insert i (written s)"
      unfolding store(3) by (rule written_store [OF fresh(3)])
    from sums store(1,2) have "partial_sum ev rules snoozes s v" by (auto simp: sums_ok_def)
    then have "partial_sum ev rules snoozes s' (wrap64 (v + m))"
      by (rule partial_sum_insert [OF _ fresh(1) w fresh(2)])
    moreover have "partial_sum ev rules snoozes s' u"
      if "threads s' ! j = Loaded u n y" "j < length rules" for j u n y
    proof -
      from that store(1,3) len have "threads s ! j = Loaded u n y" by (cases "j = i") auto
      with sums that(2) have "partial_sum ev rules snoozes s u" by (auto simp: sums_ok_def)
      then show ?thesis by (rule partial_sum_mono) (auto simp: w)
    qed
    moreover have "runningSumOfScores s' = wrap64 (v + m)" using store(3) by simp
    ultimately show ?thesis unfolding sums_ok_def by (metis (no_types, lifting))
  next
    case (load i m x)
    have "partial_sum ev rules snoozes s' = partial_sum ev rules snoozes s"
      by (rule partial_sum_cong) (simp add: load(3))
    then show ?thesis using sums len load
      by (auto simp: sums_ok_def nth_list_update split: if_splits)
  next
    case other
    have "partial_sum ev rules snoozes s' = partial_sum ev rules snoozes s"
      by (rule partial_sum_cong) (rule other(2))
    with other(1,3) sums show ?thesis by (auto simp: sums_ok_def)
  qed
qed

section \<open>One goroutine at a time\<close>

definition busy :: "'f rule_thread \<Rightarrow> bool" where
  "busy t \<longleftrightarrow> t \<noteq> Waiting \<and> t \<noteq> Finished"

lemma active_card: "active s = card {i. i < length (threads s) \<and> busy (threads s ! i)}"
  by (simp add: active_def busy_def length_filter_conv_card)

lemma active_one:
  assumes "active s \<le> 1" "i < length (threads s)" "j < length (threads s)" "busy (threads s ! i)" "busy (threads s ! j)"
  shows "i = j"
proof -
  have "finite {i. i < length (threads s) \<and> busy (threads s ! i)}" by simp
  from card_le_Suc0_iff_eq [OF this] assms show ?thesis by (simp add: active_card)
qed

lemma filter_update:
  "i < length xs \<Longrightarrow> length (filter P (xs[i := t])) + (if P (xs ! i) then 1 else 0)
     = length (filter P xs) + (if P t then 1 else 0)"
proof (induction xs arbitrary: i)
  case (Cons a xs)
  show ?case
  proof (cases i)
    case (Suc k)
    with Cons.prems Cons.IH [of k] show ?thesis by auto
  qed simp
qed simp

lemma active_busy: "active s = length (filter busy (threads s))"
  by (simp add: active_def busy_def [abs_def])

lemma active_update:
  assumes "i < length (threads s)"
  shows "active (set_thread i t s) + (if busy (threads s ! i) then 1 else 0)
     = active s + (if busy t then 1 else 0)"
  using filter_update [OF assms, of busy t] by (simp add: active_busy)

definition serial_ok :: "'f expression_evaluator \<Rightarrow> 'f Rule list \<Rightarrow> RuleSnooze list \<Rightarrow> 'f rules_state \<Rightarrow> bool" where
  "serial_ok ev rules snoozes s \<longleftrightarrow> active s \<le> 1
   \<and> runningSumOfScores s = wrap64 (\<Sum>i\<in>written s. rule_score ev snoozes (rules ! i))
   \<and> (\<forall>i v m x. i < length rules \<longrightarrow> threads s ! i = Loaded v m x \<longrightarrow> v = runningSumOfScores s)"

lemma serial_ok_start: "serial_ok ev rules snoozes (rules_start rules)"
proof -
  have "written (rules_start rules) = {}" by (auto simp: written_def rules_start_def)
  then show ?thesis
    by (simp add: serial_ok_def rules_start_def active_busy busy_def int64_defs comp_def)
qed

lemma active_busy_step:
  assumes "i < length (threads s)" "busy (threads s ! i)"
  shows "active (set_thread i t s) \<le> active s"
  using active_update [OF assms(1), of t] assms(2) by (simp split: if_splits)

lemma active_launch:
  assumes "i < length (threads s)" "\<not> busy (threads s ! i)"
  shows "active (set_thread i t s) \<le> Suc (active s)"
  using active_update [OF assms(1), of t] assms(2) by auto

lemma active_simps [simp]:
  "active (s\<lparr>crashed := c\<rparr>) = active s"
  "active (s\<lparr>group_err := g\<rparr>) = active s"
  "active (s\<lparr>runningSumOfScores := v, ruleExecutions := xs\<rparr>) = active s"
  by (simp_all add: active_def)

lemma active_fail: "active (fail_thread i e s) = active (set_thread i Finished s)"
  by (simp add: fail_thread_def)

lemma busy_simps [simp]:
  "busy Launched" "busy Evaluating" "busy (Evaluated m x)" "busy (Loaded v m x)" "\<not> busy Waiting" "\<not> busy Finished"
  by (simp_all add: busy_def)

text \<open>No step exceeds the limit.\<close>

lemma active_busy_le:
  "busy (threads s ! i) \<Longrightarrow> i < length (threads s) \<Longrightarrow> active s \<le> limit \<Longrightarrow>
     active (set_thread i t s) \<le> limit"
  using active_busy_step [of i s t] by simp

lemma active_store:
  "active ((set_thread i t s)\<lparr>runningSumOfScores := v, ruleExecutions := xs\<rparr>) = active (set_thread i t s)"
  by simp

lemma active_step:
  "rules_step ev limit rules snoozes s s' \<Longrightarrow> length (threads s) = length rules \<Longrightarrow> active s \<le> limit
     \<Longrightarrow> active s' \<le> limit"
proof (induction rule: rules_step.induct)
  case (launch s i)
  then show ?case using active_launch [of i s Launched] by simp
next
  case (eval_panic s i)
  then show ?case by simp
qed (simp_all add: active_fail active_store active_busy_le)

lemma serial_ok_step:
  assumes step: "rules_step ev 1 rules snoozes s s'"
    and ok: "threads_ok ev rules snoozes s" and serial: "serial_ok ev rules snoozes s"
  shows "serial_ok ev rules snoozes s'"
proof -
  have len: "length (threads s) = length rules" using ok by (simp add: threads_ok_def)
  have one: "active s \<le> 1" using serial by (simp add: serial_ok_def)
  have one': "active s' \<le> 1" by (rule active_step [OF step len one])
  have only: "j = i" if "threads s ! j = Loaded u n y" "j < length rules" "i < length rules" "busy (threads s ! i)"
    for i j u n y
    using active_one [OF one, of j i] that len by simp
  from step len show ?thesis
  proof (cases rule: rules_step_frame)
    case (store i v m x)
    note fresh = loaded_fresh [OF ok store(1,2)]
    have w: "written s' = insert i (written s)"
      unfolding store(3) by (rule written_store [OF fresh(3)])
    have "v = wrap64 (\<Sum>i\<in>written s. rule_score ev snoozes (rules ! i))"
      using serial store(1,2) by (auto simp: serial_ok_def)
    then have "runningSumOfScores s' = wrap64 (\<Sum>i\<in>written s'. rule_score ev snoozes (rules ! i))"
      unfolding w using fresh(1,2) by (simp add: store(3) wrap64_add_left wrap64_add_right add.commute)
    moreover have False if "threads s' ! j = Loaded u n y" "j < length rules" for j u n y
      using that only [of j u n y i] store len by (cases "j = i") auto
    ultimately show ?thesis using one' by (auto simp: serial_ok_def)
  next
    case (load i m x)
    have "u = runningSumOfScores s'" if "threads s' ! j = Loaded u n y" "j < length rules" for j u n y
      using that only [of j u n y i] load len by (cases "j = i") auto
    moreover have "written s' = written s" "runningSumOfScores s' = runningSumOfScores s" using load(3) by simp_all
    ultimately show ?thesis using one' serial by (simp add: serial_ok_def)
  next
    case other
    then show ?thesis using one' serial by (auto simp: serial_ok_def)
  qed
qed

section \<open>Errors, termination and results\<close>

definition errors_ok :: "'f expression_evaluator \<Rightarrow> 'f Rule list \<Rightarrow> RuleSnooze list \<Rightarrow> 'f rules_state \<Rightarrow> bool" where
  "errors_ok ev rules snoozes s \<longleftrightarrow>
     (\<forall>e. group_err s = Some e \<longrightarrow> (\<exists>rule\<in>set rules. evalScenarioRule ev False rule snoozes = Some (Inl e)))
   \<and> (crashed s \<longrightarrow> (\<exists>rule\<in>set rules. evalScenarioRule ev False rule snoozes = None))"

lemma errors_ok_start: "errors_ok ev rules snoozes (rules_start rules)"
  by (simp add: errors_ok_def rules_start_def)

lemma errors_ok_step:
  "rules_step ev limit rules snoozes s s' \<Longrightarrow> errors_ok ev rules snoozes s \<Longrightarrow> errors_ok ev rules snoozes s'"
  by (induction rule: rules_step.induct)
     (auto simp: errors_ok_def cancelled_def split: option.splits)

definition rules_inv :: "'f expression_evaluator \<Rightarrow> 'f Rule list \<Rightarrow> RuleSnooze list \<Rightarrow> 'f rules_state \<Rightarrow> bool" where
  "rules_inv ev rules snoozes s \<longleftrightarrow> threads_ok ev rules snoozes s \<and> sums_ok ev rules snoozes s
     \<and> errors_ok ev rules snoozes s"

lemma rules_inv_reachable:
  "(rules_step ev limit rules snoozes)\<^sup>*\<^sup>* (rules_start rules) s \<Longrightarrow> rules_inv ev rules snoozes s"
proof (induction rule: rtranclp_induct)
  case base
  show ?case by (simp add: rules_inv_def threads_ok_start sums_ok_start errors_ok_start)
next
  case (step s s')
  then show ?case
    using threads_ok_step [OF step(2)] sums_ok_step [OF step(2)] errors_ok_step [OF step(2)]
    by (simp add: rules_inv_def)
qed

lemma serial_reachable:
  "(rules_step ev 1 rules snoozes)\<^sup>*\<^sup>* (rules_start rules) s \<Longrightarrow>
     threads_ok ev rules snoozes s \<and> serial_ok ev rules snoozes s"
proof (induction rule: rtranclp_induct)
  case base
  show ?case by (simp add: threads_ok_start serial_ok_start)
next
  case (step s s')
  then show ?case
    using threads_ok_step [OF step(2)] serial_ok_step [OF step(2)] by blast
qed

text \<open>The remaining work: every goroutine makes at most five steps.\<close>

fun thread_rank :: "'f rule_thread \<Rightarrow> nat" where
  "thread_rank Waiting = 5"
| "thread_rank Launched = 4"
| "thread_rank Evaluating = 3"
| "thread_rank (Evaluated m x) = 2"
| "thread_rank (Loaded v m x) = 1"
| "thread_rank Finished = 0"

definition work :: "'f rules_state \<Rightarrow> nat" where
  "work s = sum_list (map thread_rank (threads s)) + (if crashed s then 0 else 1)"

lemma rank_update:
  "i < length ts \<Longrightarrow> sum_list (map thread_rank (ts[i := t])) + thread_rank (ts ! i)
     = sum_list (map thread_rank ts) + thread_rank t"
proof (induction ts arbitrary: i)
  case (Cons a ts)
  show ?case
  proof (cases i)
    case (Suc k)
    with Cons.prems Cons.IH [of k] show ?thesis by auto
  qed simp
qed simp

lemma rank_less:
  "i < length ts \<Longrightarrow> thread_rank t < thread_rank (ts ! i) \<Longrightarrow>
     sum_list (map thread_rank (ts[i := t])) < sum_list (map thread_rank ts)"
  using rank_update [of i ts t] by simp

lemma work_step:
  "rules_step ev limit rules snoozes s s' \<Longrightarrow> length (threads s) = length rules \<Longrightarrow> work s' < work s"
  by (induction rule: rules_step.induct) (simp_all add: work_def rank_less)

lemma rules_limit_pos: "0 < rules_limit concurrency"
  by (simp add: rules_limit_def MAX_CONCURRENT_RULE_EXECUTIONS_def)

lemma busy_progress:
  assumes "\<not> crashed s" "i < length rules" "length (threads s) = length rules" "busy (threads s ! i)"
  shows "\<exists>s'. rules_step ev limit rules snoozes s s'"
proof (cases "threads s ! i")
  case Launched
  then show ?thesis using assms rules_step.check rules_step.check_cancelled by blast
next
  case Evaluating
  show ?thesis
  proof (cases "evalScenarioRule ev False (rules ! i) snoozes")
    case None
    then show ?thesis using assms Evaluating rules_step.eval_panic by blast
  next
    case (Some r)
    show ?thesis
    proof (cases r)
      case (Inl err)
      with Some show ?thesis using assms Evaluating rules_step.eval_error by blast
    next
      case (Inr v)
      with Some show ?thesis using assms Evaluating rules_step.eval_ok by (cases v) blast
    qed
  qed
next
  case (Evaluated m x)
  then show ?thesis using assms rules_step.load by blast
next
  case (Loaded v m x)
  then show ?thesis using assms rules_step.store by blast
qed (use assms in \<open>simp_all add: busy_def\<close>)

text \<open>No deadlock: a state that is not final has a step.\<close>

lemma progress:
  assumes len: "length (threads s) = length rules" and "\<not> crashed s" "\<not> all_finished s" "0 < limit"
  shows "\<exists>s'. rules_step ev limit rules snoozes s s'"
proof (cases "\<exists>i<length rules. busy (threads s ! i)")
  case True
  then show ?thesis using busy_progress assms by blast
next
  case False
  then have none: "active s = 0" using len by (simp add: active_card)
  from assms(3) len obtain i where "i < length rules" "threads s ! i \<noteq> Finished"
    by (auto simp: all_finished_def list_all_length)
  with False have "i < length rules \<and> threads s ! i = Waiting" by (auto simp: busy_def)
  then have "\<exists>i. (i < length rules \<and> threads s ! i = Waiting) \<and>
      (\<forall>j<i. \<not> (j < length rules \<and> threads s ! j = Waiting))"
    by (rule exists_least_iff [THEN iffD1, OF exI])
  then obtain i where "i < length rules" "threads s ! i = Waiting" "\<forall>j<i. threads s ! j \<noteq> Waiting"
    by (meson order_less_trans)
  then show ?thesis using rules_step.launch assms(2,4) none by metis
qed

lemma steps_bound:
  assumes "(rules_step ev limit rules snoozes ^^ n) s s'" "length (threads s) = length rules"
  shows "n + work s' \<le> work s \<and> length (threads s') = length rules"
  using assms(1)
proof (induction n arbitrary: s')
  case 0
  then show ?case using assms(2) by simp
next
  case (Suc n)
  then obtain u where u: "(rules_step ev limit rules snoozes ^^ n) s u" "rules_step ev limit rules snoozes u s'" by auto
  from Suc.IH [OF u(1)] work_step [OF u(2)] u(2) show ?case
    by (auto elim!: rules_step.cases)
qed

lemma run_to_end:
  assumes "length (threads s) = length rules" "0 < limit"
  shows "\<exists>s'. (rules_step ev limit rules snoozes)\<^sup>*\<^sup>* s s' \<and> (crashed s' \<or> all_finished s')"
  using assms(1)
proof (induction "work s" arbitrary: s rule: less_induct)
  case less
  show ?case
  proof (cases "crashed s \<or> all_finished s")
    case False
    with progress [OF less.prems _ _ assms(2)] obtain s' where s': "rules_step ev limit rules snoozes s s'" by blast
    have "length (threads s') = length rules" using s' less.prems by (auto elim!: rules_step.cases)
    with less.hyps [OF work_step [OF s' less.prems]] s' show ?thesis
      by (meson converse_rtranclp_into_rtranclp)
  qed auto
qed

end
