(* ===== verification/Screening_Eval.thy ===== *)
theory Screening_Eval
  imports Screening_Config Rule_Execution
begin

text \<open>
  The screenings of an iteration (\<^verbatim>\<open>src/usecases/evaluate_scenario/evaluate_screening.go\<close>): one goroutine
  per configuration, each with its own recovery from panics; the results are kept by position and
  the errors in the order in which the goroutines end.

  Parameters: the evaluation of formulas on the trigger object (\<open>Eval\<close>) and on an empty object
  (\<open>EvalEmpty\<close>), the screening provider (\<open>Execute\<close>), the whitelist (\<open>SearchWhitelist\<close>) and the
  generator of identifiers (\<open>NewId\<close>). \<open>None\<close> is a panic.
\<close>

record 'f OpenSanctionsQuery =
  OSQ_Config :: "'f ScreeningConfig"
  OSQ_Queries :: queries
  OSQ_InitialQuery :: queries
  OSQ_WhitelistedEntityIds :: "string list"

record 'f screening_env =
  Eval :: "'f expression_evaluator"
  EvalEmpty :: "'f expression_evaluator"
  Texts :: screening_text
  Execute :: "'f OpenSanctionsQuery \<Rightarrow> (go_error + ScreeningWithMatches) option"
  SearchWhitelist :: "string \<Rightarrow> (go_error + string list) option"
  NewId :: "nat \<Rightarrow> string"

datatype config_result = Cfg_Result ScreeningWithMatches | Cfg_Error go_error | Cfg_Panic

section \<open>One configuration\<close>

text \<open>The trigger rule: \<open>None\<close> when the screening goes on.\<close>

definition screening_trigger :: "'f screening_env \<Rightarrow> 'f ScreeningConfig \<Rightarrow> config_result option" where
  "screening_trigger E scc =
     (case TriggerRule scc of
        None \<Rightarrow> None
      | Some rule \<Rightarrow> (case Eval E rule of
          None \<Rightarrow> Some Cfg_Panic
        | Some (triggerEvaluation, Some err) \<Rightarrow>
            Some (Cfg_Error (ErrNew ''could not parse screening trigger condition AST expression''))
        | Some (triggerEvaluation, None) \<Rightarrow> (case NE_ReturnValue triggerEvaluation of
            VNil \<Rightarrow> Some (Cfg_Result (outcomeError scc ''trigger_rule_null''))
          | VBool passed \<Rightarrow> if passed then None else Some (Cfg_Result (outcomeNoHit scc []))
          | _ \<Rightarrow> Some (Cfg_Result (outcomeError scc ''trigger_rule_not_boolean'')))))"

definition time_zero :: int where
  "time_zero = - 62135596800000000000"

text \<open>
  The fields of the query, in the order of the iteration over the map: the filters collected so far
  and the number of empty fields.
\<close>

datatype query_fields_result = Fields_Done "(string \<times> string list) list" nat | Fields_Return config_result

fun collect_fields ::
    "'f screening_env \<Rightarrow> 'f ScreeningConfig \<Rightarrow> (string \<times> 'f Node) list \<Rightarrow> (string \<times> string list) list
     \<Rightarrow> nat \<Rightarrow> query_fields_result" where
  "collect_fields E scc [] filters numEmptyFields = Fields_Done filters numEmptyFields"
| "collect_fields E scc ((fieldName, fieldAst) # rest) filters numEmptyFields =
     (case Eval E fieldAst of
        None \<Rightarrow> Fields_Return Cfg_Panic
      | Some (inputAst, Some err) \<Rightarrow>
          Fields_Return (Cfg_Error (ErrNew ''could not parse screening counterparty name AST expression''))
      | Some (inputAst, None) \<Rightarrow> (case NE_ReturnValue inputAst of
          VNil \<Rightarrow> collect_fields E scc rest filters (Suc numEmptyFields)
        | VString input \<Rightarrow>
            if input = [] then collect_fields E scc rest filters (Suc numEmptyFields)
            else collect_fields E scc rest (map_set fieldName [input] filters) numEmptyFields
        | VTime input \<Rightarrow>
            if input = time_zero then collect_fields E scc rest filters (Suc numEmptyFields)
            else collect_fields E scc rest
              (map_set fieldName [Time_FormatDate (Texts E) input] filters) numEmptyFields
        | _ \<Rightarrow> Fields_Return (Cfg_Result (outcomeError scc ''fields_not_string''))))"

text \<open>The queries after and before the preprocessing, unless the screening returns first.\<close>

definition screening_queries ::
    "'f screening_env \<Rightarrow> 'f ScreeningConfig \<Rightarrow> config_result + queries \<times> queries" where
  "screening_queries E scc =
     (case Config_Query scc of
        None \<Rightarrow> Inr ([], [])
      | Some asts \<Rightarrow> (case collect_fields E scc asts [] 0 of
          Fields_Return r \<Rightarrow> Inl r
        | Fields_Done filters numEmptyFields \<Rightarrow>
           (let before = [\<lparr>Query_Type = EntityType scc, Query_Filters = filters\<rparr>] in
            if numEmptyFields = length asts
            then Inl (Cfg_Result (outcomeError scc ''all_fields_null_or_empty''))
            else (case preprocess (Texts E) (EvalEmpty E) (Preprocessing scc) before of
                None \<Rightarrow> Inl Cfg_Panic
              | Some (Inl err) \<Rightarrow> Inl (Cfg_Error (ErrWrap err ''could not perform screening''))
              | Some (Inr queries) \<Rightarrow> Inr (queries, before)))))"

text \<open>The counterparty: its trimmed identifier, if any, and its whitelisted entities.\<close>

definition screening_counterparty ::
    "'f screening_env \<Rightarrow> 'f ScreeningConfig \<Rightarrow> config_result + (string option \<times> string list)" where
  "screening_counterparty E scc =
     (case CounterpartyIdExpression scc of
        None \<Rightarrow> Inr (None, [])
      | Some expression \<Rightarrow> (case Eval E expression of
          None \<Rightarrow> Inl Cfg_Panic
        | Some (counterpartyIdResult, Some err) \<Rightarrow>
            Inl (Cfg_Error (ErrNew ''could not parse screening counterparty ID AST expression''))
        | Some (counterpartyIdResult, None) \<Rightarrow> (case NE_ReturnValue counterpartyIdResult of
            VString counterpartyId \<Rightarrow>
             (let trimmed = Str_TrimSpace (Texts E) counterpartyId in
              if trimmed = [] then Inr (None, [])
              else (case SearchWhitelist E trimmed of
                  None \<Rightarrow> Inl Cfg_Panic
                | Some (Inl err) \<Rightarrow> Inl (Cfg_Error (ErrWrap err ''could not retrieve whitelist records''))
                | Some (Inr whitelistIds) \<Rightarrow> Inr (Some trimmed, whitelistIds)))
          | _ \<Rightarrow> Inl (Cfg_Result (outcomeError scc ''counterparty_id_not_string'')))))"

definition run_screening ::
    "'f screening_env \<Rightarrow> nat \<Rightarrow> 'f ScreeningConfig \<Rightarrow> queries \<Rightarrow> queries \<Rightarrow> config_result" where
  "run_screening E idx scc queries before =
     (case screening_counterparty E scc of
        Inl r \<Rightarrow> r
      | Inr (uniqueCounterpartyIdentifier, whitelistIds) \<Rightarrow>
         (case Execute E \<lparr>OSQ_Config = scc, OSQ_Queries = queries,
                 OSQ_InitialQuery = (if queries \<noteq> before then before else []),
                 OSQ_WhitelistedEntityIds = whitelistIds\<rparr> of
            None \<Rightarrow> Cfg_Panic
          | Some (Inl err) \<Rightarrow> Cfg_Error (ErrWrap err ''could not perform screening'')
          | Some (Inr result) \<Rightarrow> Cfg_Result (result\<lparr>
               SW_UniqueCounterpartyIdentifier := (case uniqueCounterpartyIdentifier of
                  None \<Rightarrow> SW_UniqueCounterpartyIdentifier result | Some cid \<Rightarrow> Some cid),
               SW_Id := NewId E idx, SW_ScreeningConfigId := SC_Id scc\<rparr>)))"

definition screen_config :: "'f screening_env \<Rightarrow> nat \<Rightarrow> 'f ScreeningConfig \<Rightarrow> config_result" where
  "screen_config E idx scc =
     (case screening_trigger E scc of
        Some r \<Rightarrow> r
      | None \<Rightarrow> (case screening_queries E scc of
          Inl r \<Rightarrow> r
        | Inr (queries, before) \<Rightarrow>
            if queries = [] then Cfg_Result (outcomeNoHit scc before)
            else run_screening E idx scc queries before))"

section \<open>All configurations\<close>

definition ErrPanicInScenarioEvalution :: go_error where
  "ErrPanicInScenarioEvalution = ErrSentinel ''panic during scenario evaluation''"

definition cfg_error :: "config_result \<Rightarrow> go_error option" where
  "cfg_error r = (case r of Cfg_Error err \<Rightarrow> Some err | _ \<Rightarrow> None)"

definition cfg_result :: "config_result \<Rightarrow> ScreeningWithMatches option" where
  "cfg_result r = (case r of Cfg_Result sw \<Rightarrow> Some sw | _ \<Rightarrow> None)"

text \<open>\<open>completed\<close> is the order, by position, in which the goroutines end.\<close>

definition evaluateScreening ::
    "'f screening_env \<Rightarrow> 'f ScreeningConfig list \<Rightarrow> nat list \<Rightarrow> go_error + ScreeningWithMatches list" where
  "evaluateScreening E configs completed =
     (let results = map (\<lambda>(idx, scc). screen_config E idx scc) (enumerate 0 configs);
          screeningErrors = map (\<lambda>idx. cfg_error (results ! idx)) completed
      in if List.member results Cfg_Panic then Inl ErrPanicInScenarioEvalution
         else case errors_Join screeningErrors of
           Some err \<Rightarrow> Inl err
         | None \<Rightarrow> Inr (map (\<lambda>r. the (cfg_result r)) results))"

section \<open>Lemmas\<close>

lemma SkipIfUnder_bound:
  "cfg_SkipIfUnder cfg \<noteq> 0 \<Longrightarrow> q \<in> set (SkipIfUnder cfg qs) \<Longrightarrow> cfg_SkipIfUnder cfg \<le> int (length (GetName q))"
  by (auto simp: SkipIfUnder_def)

lemma run_steps_last:
  "run_steps (steps @ [\<lambda>qs. Some (Inr (f qs))]) queries out = Some (Inr result) \<Longrightarrow> queries \<noteq> [] \<Longrightarrow>
     \<exists>qs. result = f qs"
  by (induction steps arbitrary: out) (auto split: option.splits sum.splits)

lemma preprocess_last:
  assumes "preprocess T ev cfg queries = Some (Inr result)" "queries \<noteq> []"
  shows "\<exists>qs. result = SkipIfUnder cfg qs"
  using run_steps_last [of "[\<lambda>qs. Some (Inr (SkipIfUnder cfg qs)), \<lambda>qs. Some (NameEntityRecognition T cfg qs),
       \<lambda>qs. Some (Inr (RemoveNumbers T cfg qs)), IgnoreList T ev cfg]" "SkipIfUnder cfg"] assms
  unfolding preprocess_def append.simps by blast

lemma screening_results:
  assumes "evaluateScreening E configs completed = Inr sexecs" "set completed = {..<length configs}"
  shows "length sexecs = length configs"
    and "\<forall>idx<length configs. screen_config E idx (configs ! idx) = Cfg_Result (sexecs ! idx)"
proof -
  define results where "results = map (\<lambda>(idx, scc). screen_config E idx scc) (enumerate 0 configs)"
  have len: "length results = length configs" by (simp add: results_def)
  have nth: "results ! i = screen_config E i (configs ! i)" if "i < length configs" for i
    using that by (simp add: results_def nth_enumerate_eq)
  from assms(1) have no_panic: "Cfg_Panic \<notin> set results"
    and no_error: "errors_Join (map (\<lambda>idx. cfg_error (results ! idx)) completed) = None"
    and sexecs: "sexecs = map (\<lambda>r. the (cfg_result r)) results"
    by (auto simp: evaluateScreening_def results_def [symmetric] Let_def
        split: if_splits option.splits)
  show "length sexecs = length configs" by (simp add: sexecs len)
  show "\<forall>idx<length configs. screen_config E idx (configs ! idx) = Cfg_Result (sexecs ! idx)"
  proof (intro allI impI)
    fix i assume i: "i < length configs"
    with no_error assms(2) have "cfg_error (results ! i) = None"
      by (auto simp: errors_Join_None_iff)
    moreover have "results ! i \<noteq> Cfg_Panic" using no_panic i len by (metis nth_mem)
    ultimately have "results ! i = Cfg_Result (the (cfg_result (results ! i)))"
      by (cases "results ! i") (auto simp: cfg_error_def cfg_result_def)
    then show "screen_config E i (configs ! i) = Cfg_Result (sexecs ! i)"
      using i len nth by (simp add: sexecs)
  qed
qed

text \<open>The provider is only queried with names that are long enough, when a minimum is set.\<close>

lemma screening_queries_bound:
  assumes "screening_queries E scc = Inr (queries, before)" "cfg_SkipIfUnder (Preprocessing scc) \<noteq> 0" "q \<in> set queries"
  shows "cfg_SkipIfUnder (Preprocessing scc) \<le> int (length (GetName q))"
proof -
  from assms(1,3) obtain b where "preprocess (Texts E) (EvalEmpty E) (Preprocessing scc) [b] = Some (Inr queries)"
    by (auto simp: screening_queries_def Let_def split: option.splits query_fields_result.splits if_splits sum.splits)
  from preprocess_last [OF this] SkipIfUnder_bound assms(2,3) show ?thesis by blast
qed

end
