(* ===== verification/Rule_Laws.thy ===== *)
theory Rule_Laws
  imports Rule_Execution
begin

text \<open>
  What the execution of rules guarantees: the classification of one execution, and for the
  concurrent execution of all rules of an iteration, the results that do not depend on the
  schedule, the errors, the termination and the score.
\<close>

section \<open>A scheduler\<close>

text \<open>The next step of the goroutine \<open>i\<close>, if it has one; a schedule is a list of goroutines.\<close>

definition step_thread ::
    "'f expression_evaluator \<Rightarrow> nat \<Rightarrow> 'f Rule list \<Rightarrow> RuleSnooze list \<Rightarrow> nat
     \<Rightarrow> 'f rules_state \<Rightarrow> 'f rules_state option" where
  "step_thread ev limit rules snoozes i s =
     (if crashed s \<or> length rules \<le> i then None
      else (case threads s ! i of
        Waiting \<Rightarrow> if list_all (\<lambda>j. threads s ! j \<noteq> Waiting) [0..<i] \<and> active s < limit
          then Some (set_thread i Launched s) else None
      | Launched \<Rightarrow> Some (if cancelled s
          then fail_thread i (ErrWrap context_Canceled ''context cancelled before evaluating rule'') s
          else set_thread i Evaluating s)
      | Evaluating \<Rightarrow> Some (case evalScenarioRule ev False (rules ! i) snoozes of
            None \<Rightarrow> s\<lparr>crashed := True\<rparr>
          | Some (Inl err) \<Rightarrow> fail_thread i err s
          | Some (Inr (m, x)) \<Rightarrow> set_thread i (Evaluated m x) s)
      | Evaluated m x \<Rightarrow> Some (set_thread i (Loaded (runningSumOfScores s) m x) s)
      | Loaded v m x \<Rightarrow> Some ((set_thread i Finished s)\<lparr>runningSumOfScores := wrap64 (v + m),
           ruleExecutions := (ruleExecutions s)[i := Some x]\<rparr>)
      | Finished \<Rightarrow> None))"

fun run_schedule ::
    "'f expression_evaluator \<Rightarrow> nat \<Rightarrow> 'f Rule list \<Rightarrow> RuleSnooze list \<Rightarrow> nat list
     \<Rightarrow> 'f rules_state \<Rightarrow> 'f rules_state option" where
  "run_schedule ev limit rules snoozes [] s = Some s"
| "run_schedule ev limit rules snoozes (i # schedule) s =
     (case step_thread ev limit rules snoozes i s of
        None \<Rightarrow> None | Some s' \<Rightarrow> run_schedule ev limit rules snoozes schedule s')"

lemma step_thread_sound:
  assumes "step_thread ev limit rules snoozes i s = Some s'"
  shows "rules_step ev limit rules snoozes s s'"
proof -
  have i: "\<not> crashed s" "i < length rules" using assms by (auto simp: step_thread_def split: if_splits)
  show ?thesis
  proof (cases "threads s ! i")
    case Waiting
    with assms i show ?thesis
      by (auto simp: step_thread_def list_all_iff split: if_splits intro!: rules_step.launch)
  next
    case Launched
    with assms i show ?thesis
      by (auto simp: step_thread_def split: if_splits intro: rules_step.check rules_step.check_cancelled)
  next
    case Evaluating
    with assms i show ?thesis
      by (auto simp: step_thread_def split: option.splits sum.splits prod.splits
          intro: rules_step.eval_ok rules_step.eval_error rules_step.eval_panic)
  next
    case (Evaluated m x)
    with assms i show ?thesis by (auto simp: step_thread_def intro: rules_step.load)
  next
    case (Loaded v m x)
    with assms i show ?thesis by (auto simp: step_thread_def intro: rules_step.store)
  qed (use assms i in \<open>simp add: step_thread_def\<close>)
qed

lemma run_schedule_sound:
  "run_schedule ev limit rules snoozes schedule s = Some s' \<Longrightarrow> (rules_step ev limit rules snoozes)\<^sup>*\<^sup>* s s'"
  by (induction schedule arbitrary: s)
     (auto split: option.splits intro: converse_rtranclp_into_rtranclp step_thread_sound)

lemma schedule_result:
  assumes "run_schedule ev (rules_limit concurrency) rules snoozes schedule (rules_start rules) = Some s"
    and "crashed s \<or> all_finished s"
  shows "evalAllScenarioRules ev rules snoozes concurrency (rules_result s)"
  using evalAllScenarioRules.intros [OF run_schedule_sound [OF assms(1)] assms(2)] .

section \<open>One rule\<close>

definition snoozed :: "RuleSnooze list \<Rightarrow> 'f Rule \<Rightarrow> bool" where
  "snoozed snoozes rule \<longleftrightarrow> (\<exists>snooze\<in>set snoozes. Rule_SnoozeGroupId rule = Some (SnoozeGroupId snooze))"

context expression_evaluation
begin

lemma division_in_tree:
  assumes "ev n = Some (e, err)" "IsAuthorizedError err"
  shows "\<exists>x\<in>set (FlattenErrors e). errors_is x ErrDivisionByZero"
proof -
  from assms(2) obtain j where j: "err = Some j" "errors_is j ErrDivisionByZero"
    by (cases err) (auto simp: IsAuthorizedError_def ExecutionAuthorizedErrors_def)
  with failure [of n e j] assms(1) have "j = ErrJoin (FlattenErrors e)" by simp
  with j(2) show ?thesis by (auto simp: ErrDivisionByZero_def)
qed

lemma rule_classification:
  assumes "evalScenarioRule ev False rule snoozes = Some (Inr (m, x))" "\<not> snoozed snoozes rule"
  shows "\<exists>f e err. FormulaAstExpression rule = Some f \<and> ev f = Some (e, err)
     \<and> RE_Evaluation x = Some (AdaptNodeEvaluationDto e)
     \<and> (RE_Outcome x = ''hit'' \<and> NE_ReturnValue e = VBool True \<and> FlattenErrors e = [] \<and> m = ScoreModifier rule
      \<or> RE_Outcome x = ''no_hit'' \<and> NE_ReturnValue e = VBool False \<and> FlattenErrors e = [] \<and> m = 0
      \<or> RE_Outcome x = ''error'' \<and> RE_ExecutionError x = NullFieldRead
          \<and> NE_ReturnValue e = VNil \<and> FlattenErrors e = [] \<and> m = 0
      \<or> RE_Outcome x = ''error'' \<and> RE_ExecutionError x = DivisionByZero
          \<and> (\<exists>y\<in>set (FlattenErrors e). errors_is y ErrDivisionByZero) \<and> m = 0)"
proof -
  from assms(2) have ns: "\<not> list_ex (\<lambda>snooze. Rule_SnoozeGroupId rule = Some (SnoozeGroupId snooze)) snoozes"
    by (simp add: snoozed_def list_ex_iff)
  from assms(1) ns obtain f where f: "FormulaAstExpression rule = Some f"
    by (auto simp: evalScenarioRule_def split: option.splits)
  from assms(1) ns f obtain e err where e: "ev f = Some (e, err)"
    by (auto simp: evalScenarioRule_def split: option.splits)
  show ?thesis
  proof (cases "IsAuthorizedError err")
    case True
    then obtain j where j: "err = Some j" by (cases err) (auto simp: IsAuthorizedError_def)
    from assms(1) ns f e True have "x = rule_execution rule e False (Some (AdaptExecutionError err))"
      "m = RE_ResultScoreModifier x"
      by (auto simp: evalScenarioRule_def Let_def)
    with f e division_in_tree [OF e True] True j show ?thesis
      by (auto simp: rule_execution_def IsAuthorizedError_iff)
  next
    case False
    with assms(1) ns f e have err: "err = None"
      by (auto simp: evalScenarioRule_def Let_def split: option.splits)
    with e success [of f e] have "FlattenErrors e = []" by simp
    note known = assms(1) ns f e err this
    show ?thesis
    proof (cases "NE_ReturnValue e")
      case VNil
      with known have "x = rule_execution rule e False (Some NullFieldRead)" "m = RE_ResultScoreModifier x"
        by (auto simp: evalScenarioRule_def Let_def IsAuthorizedError_def)
      with known VNil show ?thesis by (auto simp: rule_execution_def)
    next
      case (VBool b)
      with known have "x = rule_execution rule e b None" "m = RE_ResultScoreModifier x"
        by (auto simp: evalScenarioRule_def Let_def IsAuthorizedError_def)
      with known VBool show ?thesis by (cases b) (auto simp: rule_execution_def)
    qed (use known in \<open>simp_all add: evalScenarioRule_def Let_def IsAuthorizedError_def\<close>)
  qed
qed

end

text \<open>C3: A rule that is not snoozed is classified by the evaluation of its formula, whose tree is kept
  with it: it hits exactly on a true value and then scores its modifier, it misses on a false one,
  and it is in error on a null value or on a division by zero in the tree, never scoring. In the
  first three cases the tree carries no error at all.\<close>

theorem rule_execution_classified:
  assumes "cost_order S" "cache_errors cache" "\<not> snoozed snoozes rule"
    and "evalScenarioRule (ast_evaluator H S env cache) False rule snoozes = Some (Inr (m, x))"
  shows "\<exists>f e err. FormulaAstExpression rule = Some f \<and> ast_evaluator H S env cache f = Some (e, err)
     \<and> RE_Evaluation x = Some (AdaptNodeEvaluationDto e)
     \<and> (RE_Outcome x = ''hit'' \<and> NE_ReturnValue e = VBool True \<and> FlattenErrors e = [] \<and> m = ScoreModifier rule
      \<or> RE_Outcome x = ''no_hit'' \<and> NE_ReturnValue e = VBool False \<and> FlattenErrors e = [] \<and> m = 0
      \<or> RE_Outcome x = ''error'' \<and> RE_ExecutionError x = NullFieldRead
          \<and> NE_ReturnValue e = VNil \<and> FlattenErrors e = [] \<and> m = 0
      \<or> RE_Outcome x = ''error'' \<and> RE_ExecutionError x = DivisionByZero
          \<and> (\<exists>y\<in>set (FlattenErrors e). errors_is y ErrDivisionByZero) \<and> m = 0)"
  by (rule expression_evaluation.rule_classification [OF ast_evaluator_laws [OF assms(1,2)] assms(4,3)])

text \<open>A rule on rationals, and a formula that divides by zero.\<close>

abbreviation example_evaluator :: "rat expression_evaluator" where
  "example_evaluator \<equiv> ast_evaluator (\<lambda>_. 0) sort_positions example_env None"

definition example_rule :: "rat Node \<Rightarrow> int \<Rightarrow> rat Rule" where
  "example_rule formula score = \<lparr>Rule_Id = ''rule'', FormulaAstExpression = Some formula,
     ScoreModifier = score, Rule_SnoozeGroupId = Some ''group'', StableRuleId = ''stable''\<rparr>"

definition zero_division :: "rat Node" where
  "zero_division = Node 0 FUNC_DIVIDE VNil [const (VInt Kint 1), const (VInt Kint 0)] []"

theorem rule_execution_classified_witness:
  "\<exists>x. evalScenarioRule example_evaluator False (example_rule zero_division 10)
         [\<lparr>Snooze_PivotValue = ''p'', SnoozeGroupId = ''other''\<rparr>] = Some (Inr (0, x))
     \<and> RE_Outcome x = ''error'' \<and> RE_ExecutionError x = DivisionByZero"
proof -
  let ?snoozes = "[\<lparr>Snooze_PivotValue = ''p'', SnoozeGroupId = ''other''\<rparr>]"
  have ns: "\<not> snoozed ?snoozes (example_rule zero_division 10)"
    by (simp add: snoozed_def example_rule_def)
  obtain m x where x: "evalScenarioRule example_evaluator False (example_rule zero_division 10) ?snoozes
      = Some (Inr (m, x))" "RE_Outcome x = ''error''" "RE_ExecutionError x = DivisionByZero"
    by (simp add: evalScenarioRule_def example_rule_def zero_division_def ast_evaluator_def evaluate_example
        ArithmeticDivide_Evaluate_def binary_two adapter_defs evaluate_result_simps errors_Join_def
        some_errors_def IsAuthorizedError_def ExecutionAuthorizedErrors_def Let_def rule_execution_def
        AdaptExecutionError_def)
  from rule_execution_classified [OF stable.cost_order_axioms cache_errors_None ns x(1)] x(2,3)
  have "m = 0" by auto
  with x show ?thesis by blast
qed

section \<open>All rules\<close>

text \<open>The results of a run that ended without an error.\<close>

lemma finished_results:
  assumes "rules_inv ev rules snoozes s" "all_finished s" "group_err s = None"
  shows "length (ruleExecutions s) = length rules"
    and "\<forall>i<length rules. \<exists>m x. ruleExecutions s ! i = Some x
           \<and> evalScenarioRule ev False (rules ! i) snoozes = Some (Inr (m, x))"
    and "written s = {..<length rules}"
proof -
  note ok = assms(1)[unfolded rules_inv_def threads_ok_def]
  show len: "length (ruleExecutions s) = length rules" using ok by blast
  have fin: "threads s ! i = Finished" if "i < length rules" for i
    using assms(2) ok that by (simp add: all_finished_def list_all_length)
  show slots: "\<forall>i<length rules. \<exists>m x. ruleExecutions s ! i = Some x
           \<and> evalScenarioRule ev False (rules ! i) snoozes = Some (Inr (m, x))"
  proof (intro allI impI)
    fix i assume i: "i < length rules"
    with ok fin assms(3) obtain x where x: "ruleExecutions s ! i = Some x" by fastforce
    have "thread_ok ev snoozes (rules ! i) Finished (ruleExecutions s ! i)" using ok fin i by metis
    with x show "\<exists>m x. ruleExecutions s ! i = Some x
           \<and> evalScenarioRule ev False (rules ! i) snoozes = Some (Inr (m, x))"
      by (auto simp: thread_ok_def rule_value_Some)
  qed
  show "written s = {..<length rules}" using slots len by (auto simp: written_def)
qed

lemma successful_run:
  assumes "evalAllScenarioRules ev rules snoozes concurrency (Some (Inr (score, executions)))"
  obtains s where "(rules_step ev (rules_limit concurrency) rules snoozes)\<^sup>*\<^sup>* (rules_start rules) s"
    "rules_inv ev rules snoozes s" "all_finished s" "group_err s = None"
    "score = runningSumOfScores s" "executions = ruleExecutions s"
proof -
  from assms obtain s where s: "(rules_step ev (rules_limit concurrency) rules snoozes)\<^sup>*\<^sup>* (rules_start rules) s"
    and "crashed s \<or> all_finished s" "rules_result s = Some (Inr (score, executions))"
    by (auto elim!: evalAllScenarioRules.cases)
  moreover from s have "rules_inv ev rules snoozes s" by (rule rules_inv_reachable)
  ultimately show thesis
    by (intro that [of s]) (auto simp: rules_result_def split: if_splits option.splits)
qed

lemma rule_score_slot:
  "evalScenarioRule ev False rule snoozes = Some (Inr (m, x)) \<Longrightarrow> rule_score ev snoozes rule = m"
  by (simp add: rule_score_def rule_value_def)

section \<open>Two rules that hit\<close>

definition hit_rule :: "int \<Rightarrow> rat Rule" where
  "hit_rule score = example_rule (const (VBool True)) score"

definition hit_execution :: "int \<Rightarrow> rat RuleExecution" where
  "hit_execution score = rule_execution (hit_rule score)
     (NodeEvaluation 0 no_plan FUNC_CONSTANT (VBool True) (Some []) [] []) True None"

lemma hit_rule_value:
  "evalScenarioRule example_evaluator False (hit_rule score) [] = Some (Inr (score, hit_execution score))"
  by (simp add: evalScenarioRule_def hit_rule_def example_rule_def ast_evaluator_def evaluate_example
      IsAuthorizedError_def Let_def hit_execution_def rule_execution_def no_plan_def)

abbreviation two_hits :: "rat Rule list" where
  "two_hits \<equiv> [hit_rule 10, hit_rule 20]"

lemmas schedule_example = step_thread_def rules_start_def rules_limit_def MAX_CONCURRENT_RULE_EXECUTIONS_def
  hit_rule_value active_def cancelled_def set_thread_def wrap64_def all_finished_def rules_result_def upt_rec

text \<open>One rule after the other: both scores are counted.\<close>

lemma serial_run:
  "evalAllScenarioRules example_evaluator two_hits [] 1
     (Some (Inr (30, [Some (hit_execution 10), Some (hit_execution 20)])))"
proof -
  obtain s where "run_schedule example_evaluator (rules_limit 1) two_hits []
      [0, 0, 0, 0, 0, 1, 1, 1, 1, 1] (rules_start two_hits) = Some s"
    "all_finished s" "rules_result s = Some (Inr (30, [Some (hit_execution 10), Some (hit_execution 20)]))"
    by (simp add: schedule_example)
  then show ?thesis using schedule_result by metis
qed

text \<open>Both goroutines read the running sum before either writes it: the first score is lost.\<close>

lemma lost_update:
  "evalAllScenarioRules example_evaluator two_hits [] 0
     (Some (Inr (20, [Some (hit_execution 10), Some (hit_execution 20)])))"
proof -
  obtain s where "run_schedule example_evaluator (rules_limit 0) two_hits []
      [0, 0, 0, 1, 1, 1, 0, 1, 0, 1] (rules_start two_hits) = Some s"
    "all_finished s" "rules_result s = Some (Inr (20, [Some (hit_execution 10), Some (hit_execution 20)]))"
    by (simp add: schedule_example)
  then show ?thesis using schedule_result by metis
qed



text \<open>C36: Every run of the rules ends, after at most five steps per rule and one more for a crash, and
  never deadlocks, whatever the concurrency setting: each state that can be reached is final or has a
  next step.\<close>

theorem rules_evaluation_terminates:
  "(\<exists>r. evalAllScenarioRules ev rules snoozes concurrency r)
   \<and> (\<forall>n s. (rules_step ev (rules_limit concurrency) rules snoozes ^^ n) (rules_start rules) s \<longrightarrow>
        n \<le> 5 * length rules + 1
      \<and> (crashed s \<or> all_finished s
         \<or> (\<exists>s'. rules_step ev (rules_limit concurrency) rules snoozes s s')))"
proof (intro conjI allI impI)
  have len: "length (threads (rules_start rules :: 'a rules_state)) = length rules"
    by (simp add: rules_start_def)
  show "\<exists>r. evalAllScenarioRules ev rules snoozes concurrency r"
    using run_to_end [OF len rules_limit_pos] evalAllScenarioRules.intros by metis
  fix n s
  assume "(rules_step ev (rules_limit concurrency) rules snoozes ^^ n) (rules_start rules) s"
  note bound = steps_bound [OF this len]
  have "work (rules_start rules :: 'a rules_state) = 5 * length rules + 1"
    by (simp add: work_def rules_start_def comp_def sum_list_triv)
  with bound show "n \<le> 5 * length rules + 1" by simp
  show "crashed s \<or> all_finished s \<or> (\<exists>s'. rules_step ev (rules_limit concurrency) rules snoozes s s')"
    using progress [OF _ _ _ rules_limit_pos] bound by metis
qed

theorem rules_evaluation_terminates_witness:
  "\<not> (rules_step example_evaluator (rules_limit 0) two_hits [] ^^ 12) (rules_start two_hits) (rules_start two_hits)"
  using rules_evaluation_terminates [of example_evaluator two_hits "[]" 0] by fastforce

text \<open>C37: A failed run reports the error of one of its rules, never a mere cancellation by another
  rule, and the process crashes only if the evaluation of a rule panics: if every rule evaluates,
  every schedule succeeds, and if one rule fails or panics, no schedule succeeds.\<close>

theorem rules_errors_genuine:
  assumes "evalAllScenarioRules ev rules snoozes concurrency r"
  shows "case r of
      None \<Rightarrow> \<exists>rule\<in>set rules. evalScenarioRule ev False rule snoozes = None
    | Some (Inl err) \<Rightarrow> \<exists>rule\<in>set rules. \<exists>e. evalScenarioRule ev False rule snoozes = Some (Inl e) \<and> errors_is err e
    | Some (Inr _) \<Rightarrow> \<forall>rule\<in>set rules. \<exists>v. evalScenarioRule ev False rule snoozes = Some (Inr v)"
proof -
  from assms obtain s where s: "(rules_step ev (rules_limit concurrency) rules snoozes)\<^sup>*\<^sup>* (rules_start rules) s"
    and fin: "crashed s \<or> all_finished s" and r: "r = rules_result s"
    by (auto elim: evalAllScenarioRules.cases)
  note inv = rules_inv_reachable [OF s]
  then have err: "errors_ok ev rules snoozes s" by (simp add: rules_inv_def)
  show ?thesis
  proof (cases "\<not> crashed s \<and> group_err s = None")
    case True
    with fin inv have "\<forall>i<length rules. \<exists>v. evalScenarioRule ev False (rules ! i) snoozes = Some (Inr v)"
      using finished_results(2) by blast
    with True show ?thesis by (auto simp: r rules_result_def in_set_conv_nth)
  next
    case False
    show ?thesis
    proof (cases "crashed s")
      case True
      with err show ?thesis by (simp add: r rules_result_def errors_ok_def)
    next
      case not_crashed: False
      with False obtain e where e: "group_err s = Some e" by auto
      with err obtain rule where "rule \<in> set rules" "evalScenarioRule ev False rule snoozes = Some (Inl e)"
        by (auto simp: errors_ok_def)
      with e not_crashed show ?thesis by (auto simp: r rules_result_def intro!: bexI [of _ rule])
    qed
  qed
qed

theorem rules_errors_genuine_witness:
  "(\<exists>v. evalScenarioRule example_evaluator False (hit_rule 10) [] = Some (Inr v))
   \<and> (\<exists>v. evalScenarioRule example_evaluator False (hit_rule 20) [] = Some (Inr v))"
  using rules_errors_genuine [OF serial_run] by simp

text \<open>C4: The score of an iteration is the wrapped sum of the modifiers of some of the rules that hit,
  and of all of them when the rules run one at a time (a concurrency of 1). The subset is what is
  guaranteed in general, because the running sum is updated without a lock.\<close>

theorem rules_score:
  assumes "evalAllScenarioRules ev rules snoozes concurrency (Some (Inr (score, executions)))"
  shows "\<exists>counted \<subseteq> {..<length rules}.
      score = wrap64 (\<Sum>i\<in>counted. rule_score ev snoozes (rules ! i))
    \<and> (concurrency = 1 \<longrightarrow> counted = {..<length rules})"
proof -
  from assms obtain s where
    s: "(rules_step ev (rules_limit concurrency) rules snoozes)\<^sup>*\<^sup>* (rules_start rules) s"
      "rules_inv ev rules snoozes s" "all_finished s" "group_err s = None"
    and score: "score = runningSumOfScores s" by (rule successful_run)
  note all = finished_results(3) [OF s(2-4)]
  show ?thesis
  proof (cases "concurrency = 1")
    case True
    with s(1) have "(rules_step ev 1 rules snoozes)\<^sup>*\<^sup>* (rules_start rules) s" by (simp add: rules_limit_def)
    then have "score = wrap64 (\<Sum>i\<in>{..<length rules}. rule_score ev snoozes (rules ! i))"
      using serial_reachable score all by (metis serial_ok_def)
    then show ?thesis by blast
  next
    case False
    with s(2) all score show ?thesis by (auto simp: rules_inv_def sums_ok_def partial_sum_def)
  qed
qed

theorem rules_score_witness:
  "(\<exists>counted \<subseteq> {..<2}. (20::int) = wrap64 (\<Sum>i\<in>counted. rule_score example_evaluator [] (two_hits ! i)))
   \<and> 30 = wrap64 (\<Sum>i\<in>{..<2}. rule_score example_evaluator [] (two_hits ! i))"
  using rules_score [OF lost_update] rules_score [OF serial_run] by (auto simp: numeral_2_eq_2)

end
