(* ===== verification/Scenario_Eval.thy ===== *)
theory Scenario_Eval
  imports Data_Model Screening_Eval Rule_Laws
begin

text \<open>
  Evaluation of a scenario on an object (\<^verbatim>\<open>src/usecases/evaluate_scenario/evaluate_scenario.go\<close>):
  the choice of the pivot, \<open>processScenarioIteration\<close>, \<open>EvalScenario\<close>, \<open>EvalTestRunScenario\<close> and
  \<open>EvalCaseName\<close>.

  The repositories are parameters. The execution of the rules is a parameter too, so that each
  schedule of the goroutines is covered: a theorem about the whole assumes that it is one of the
  results of \<open>evalAllScenarioRules\<close>. Durations, metrics and logs are left out.
\<close>

section \<open>Data\<close>

record 'f ClientObject =
  TableName :: string
  Data :: "string \<rightharpoonup> 'f val"

record Scenario =
  Scenario_Id :: string
  Scenario_Name :: string
  LiveVersionID :: "string option"
  Scenario_OrganizationId :: uuid
  TriggerObjectType :: string

record 'f ScenarioIteration =
  Iteration_Id :: string
  Version :: "int option"
  TriggerConditionAstExpression :: "'f Node option"
  Rules :: "'f Rule list"
  ScreeningConfigs :: "'f ScreeningConfig list"
  ScoreReviewThreshold :: "int option"
  ScoreBlockAndReviewThreshold :: "int option"
  ScoreDeclineThreshold :: "int option"

record 'f ScenarioExecution =
  SE_ScenarioId :: uuid
  SE_ScenarioIterationId :: uuid
  SE_ScenarioName :: string
  SE_ScenarioVersion :: int
  SE_PivotId :: "uuid option"
  SE_PivotValue :: "string option"
  SE_RuleExecutions :: "'f RuleExecution option list"
  SE_ScreeningExecutions :: "ScreeningWithMatches list"
  SE_Score :: int
  SE_Outcome :: Outcome
  SE_OrganizationId :: uuid
  SE_TestRunId :: string

definition zero_ScenarioExecution :: "'f ScenarioExecution" where
  "zero_ScenarioExecution = \<lparr>SE_ScenarioId = uuid_Nil, SE_ScenarioIterationId = uuid_Nil, SE_ScenarioName = [],
     SE_ScenarioVersion = 0, SE_PivotId = None, SE_PivotValue = None, SE_RuleExecutions = [],
     SE_ScreeningExecutions = [], SE_Score = 0, SE_Outcome = zero_Outcome,
     SE_OrganizationId = uuid_Nil, SE_TestRunId = []\<rparr>"

record 'f ScenarioEvaluationParameters =
  P_Scenario :: Scenario
  TargetIterationId :: "string option"
  P_ClientObject :: "'f ClientObject"
  P_DataModel :: DataModel
  Pivots :: "Pivot list"
  CachedScreenings :: "string \<rightharpoonup> ScreeningWithMatches"
  ConcurrentRules :: int

record TestRun =
  TR_Id :: string
  TR_Up :: bool
  TR_ScenarioIterationId :: string
  TR_ScenarioLiveIterationId :: string

text \<open>
  \<open>GetDbField\<close> reads a field through links in the ingested data; \<open>uuid_Parse\<close> is the parser of the
  uuid package; \<open>ListActiveRuleSnoozes\<close> takes the snooze groups and the pivot value.
\<close>

record 'f scenario_env = "'f screening_env" +
  GetDbField :: "string \<Rightarrow> string list \<Rightarrow> string \<Rightarrow> go_error + 'f val"
  uuid_Parse :: "string \<Rightarrow> go_error + uuid"
  ListActiveRuleSnoozes :: "string list \<Rightarrow> string \<Rightarrow> go_error + RuleSnooze list"
  GetScenarioIteration :: "string \<Rightarrow> go_error + 'f ScenarioIteration"
  ListScreeningConfigs :: "string \<Rightarrow> go_error + 'f ScreeningConfig list"
  ScreeningFeatureAccess :: "uuid \<Rightarrow> go_error + FeatureAccess"
  ListTestRuns :: "string \<Rightarrow> go_error + TestRun list"
  RunRules :: "'f Rule list \<Rightarrow> RuleSnooze list \<Rightarrow> int \<Rightarrow> 'f rules_result"
  Completed :: "nat list"

abbreviation screening_part :: "'f scenario_env \<Rightarrow> 'f screening_env" where
  "screening_part E \<equiv> screening_env.truncate E"

text \<open>
  What a call yields: a value, a panic of the calling goroutine, or the crash of the process by a
  panic in a goroutine that does not recover.
\<close>

datatype 'a outcome = Returned 'a | Panicked | Crashed

section \<open>Pivots\<close>

definition getPivotValue ::
    "'f scenario_env \<Rightarrow> DataModel \<Rightarrow> 'f ClientObject \<Rightarrow> Pivot \<Rightarrow> (go_error + string option) option" where
  "getPivotValue E dm obj pivot =
     (let val = (if PathLinks pivot = [] then Some (Inr (get_or VNil (Data obj (Pivot_Field pivot))))
          else if length (PathLinks pivot) = 1 then
            (case PathLinkIds pivot of
               [] \<Rightarrow> None
             | linkId # _ \<Rightarrow> Some (Inr (get_or VNil (Data obj (ChildFieldName (link_of dm linkId))))))
          else if PathLinkIds pivot = [] then None
          else Some (case GetDbField E (BaseTable pivot) (butlast (PathLinks pivot))
                   (ChildFieldName (link_of dm (last (PathLinkIds pivot)))) of
               Inl err \<Rightarrow> Inl (ErrWrap err ''error getting pivot value'')
             | Inr v \<Rightarrow> Inr v))
      in case val of
           None \<Rightarrow> None
         | Some (Inl err) \<Rightarrow> Some (Inl err)
         | Some (Inr VNil) \<Rightarrow> Some (Inr None)
         | Some (Inr (VString s)) \<Rightarrow> Some (Inr (Some s))
         | Some (Inr v) \<Rightarrow> Some (Inl (ErrNew ''pivot value is not a string'')))"

definition pivotStartField :: "DataModel \<Rightarrow> Pivot \<Rightarrow> string" where
  "pivotStartField dm p =
     (case PathLinkIds p of [] \<Rightarrow> Pivot_Field p | linkId # _ \<Rightarrow> ChildFieldName (link_of dm linkId))"

record eligiblePivot =
  EP_pivot :: Pivot
  EP_value :: string
  EP_startField :: string

fun eligible_pivots ::
    "'f scenario_env \<Rightarrow> DataModel \<Rightarrow> 'f ClientObject \<Rightarrow> Pivot list \<Rightarrow> (go_error + eligiblePivot list) option" where
  "eligible_pivots E dm obj [] = Some (Inr [])"
| "eligible_pivots E dm obj (p # ps) =
     (case getPivotValue E dm obj p of
        None \<Rightarrow> None
      | Some (Inl errPv) \<Rightarrow> Some (Inl (ErrWrap errPv ''error getting pivot value in EvalScenario''))
      | Some (Inr value) \<Rightarrow>
         (case eligible_pivots E dm obj ps of
            Some (Inr es) \<Rightarrow> Some (Inr
              (case value of
                 Some v \<Rightarrow> if Str_TrimSpace (Texts E) v \<noteq> []
                   then \<lparr>EP_pivot = p, EP_value = v, EP_startField = pivotStartField dm p\<rparr> # es else es
               | None \<Rightarrow> es))
          | r \<Rightarrow> r))"

definition pivot_order :: "eligiblePivot \<Rightarrow> string \<times> uuid" where
  "pivot_order e = (EP_startField e, Pivot_Id (EP_pivot e))"

definition select_pivot :: "eligiblePivot list \<Rightarrow> eligiblePivot option" where
  "select_pivot eligible = (case sort_key pivot_order eligible of [] \<Rightarrow> None | e # _ \<Rightarrow> Some e)"

section \<open>Outcome\<close>

definition forced_outcome :: "ScreeningWithMatches list \<Rightarrow> 'f ScreeningConfig list \<Rightarrow> Outcome" where
  "forced_outcome screeningExecutions configs =
     fold (\<lambda>(idx, sce) outcome.
        if SW_NumberOfMatches sce > 0 \<and> Priority (ForcedOutcome (configs ! idx)) > Priority outcome
        then ForcedOutcome (configs ! idx) else outcome)
       (enumerate 0 screeningExecutions) zero_Outcome"

definition screening_conclusive :: "ScreeningWithMatches \<Rightarrow> bool" where
  "screening_conclusive e \<longleftrightarrow> SW_Status e \<noteq> ScreeningStatusNoHit \<and> SW_Status e \<noteq> ScreeningStatusError"

text \<open>A threshold that is nil is dereferenced only when it is reached, and then panics.\<close>

definition score_outcome :: "'f ScenarioIteration \<Rightarrow> int \<Rightarrow> Outcome option" where
  "score_outcome iteration score =
     (case ScoreDeclineThreshold iteration of
        None \<Rightarrow> None
      | Some declineT \<Rightarrow> if score \<ge> declineT then Some Decline
        else (case ScoreBlockAndReviewThreshold iteration of
          None \<Rightarrow> None
        | Some blockT \<Rightarrow> if score \<ge> blockT then Some BlockAndReview
          else (case ScoreReviewThreshold iteration of
            None \<Rightarrow> None
          | Some reviewT \<Rightarrow> Some (if score \<ge> reviewT then Review else Approve))))"

definition scenario_outcome ::
    "'f ScenarioIteration \<Rightarrow> int \<Rightarrow> ScreeningWithMatches list \<Rightarrow> Outcome option" where
  "scenario_outcome iteration score screeningExecutions =
     (if \<not> list_ex screening_conclusive screeningExecutions then score_outcome iteration score
      else Some (forced_outcome screeningExecutions (ScreeningConfigs iteration)))"

section \<open>One iteration\<close>

type_synonym 'f execution_result = "bool \<times> 'f ScenarioExecution \<times> go_error option"

definition failed :: "go_error \<Rightarrow> 'f execution_result outcome" where
  "failed err = Returned (False, zero_ScenarioExecution, Some err)"

definition ErrScenarioTriggerTypeMismatch :: go_error where
  "ErrScenarioTriggerTypeMismatch = ErrWrap BadParameterError
     ''scenario's trigger_type and provided trigger_object type are different''"

definition snooze_groups :: "'f ScenarioIteration \<Rightarrow> string list" where
  "snooze_groups iteration = List.map_filter Rule_SnoozeGroupId (Rules iteration)"

text \<open>The execution built from the results of the rules and of the screenings.\<close>

definition build_execution ::
    "'f scenario_env \<Rightarrow> 'f ScenarioEvaluationParameters \<Rightarrow> 'f ScenarioIteration \<Rightarrow> eligiblePivot option
     \<Rightarrow> int \<Rightarrow> 'f RuleExecution option list \<Rightarrow> ScreeningWithMatches list
     \<Rightarrow> 'f execution_result outcome" where
  "build_execution E params iteration selected score ruleExecs screeningExecs =
     (case scenario_outcome iteration score screeningExecs of
        None \<Rightarrow> Panicked
      | Some outcome \<Rightarrow> (case uuid_Parse E (Scenario_Id (P_Scenario params)) of
          Inl err \<Rightarrow> failed (ErrWrap err ''error parsing scenario id in EvalScenario'')
        | Inr scenarioID \<Rightarrow> (case uuid_Parse E (Iteration_Id iteration) of
            Inl err \<Rightarrow> failed (ErrWrap err ''error parsing scenario iteration id in EvalScenario'')
          | Inr scenarioIterationID \<Rightarrow> (case Version iteration of
              None \<Rightarrow> Panicked
            | Some version \<Rightarrow> Returned (True,
                \<lparr>SE_ScenarioId = scenarioID, SE_ScenarioIterationId = scenarioIterationID,
                 SE_ScenarioName = Scenario_Name (P_Scenario params), SE_ScenarioVersion = version,
                 SE_PivotId = map_option (\<lambda>e. Pivot_Id (EP_pivot e)) selected,
                 SE_PivotValue = map_option EP_value selected,
                 SE_RuleExecutions = ruleExecs, SE_ScreeningExecutions = screeningExecs,
                 SE_Score = score, SE_Outcome = outcome,
                 SE_OrganizationId = Scenario_OrganizationId (P_Scenario params), SE_TestRunId = []\<rparr>, None)))))"

text \<open>The rules and the screenings, each in its goroutine, once the pivot is known.\<close>

definition run_rules_and_screenings ::
    "'f scenario_env \<Rightarrow> 'f ScenarioEvaluationParameters \<Rightarrow> 'f ScenarioIteration \<Rightarrow> eligiblePivot option
     \<Rightarrow> RuleSnooze list \<Rightarrow> 'f execution_result outcome" where
  "run_rules_and_screenings E params iteration selected snoozes =
     (case RunRules E (Rules iteration) snoozes (ConcurrentRules params) of
        None \<Rightarrow> Crashed
      | Some (Inl ruleErr) \<Rightarrow> failed (ErrWrap ruleErr ''error during concurrent rule evaluation'')
      | Some (Inr (score, ruleExecs)) \<Rightarrow>
         (case evaluateScreening (screening_part E) (ScreeningConfigs iteration) (Completed E) of
            Inl screeningErr \<Rightarrow> failed (ErrWrap screeningErr ''could not perform screening'')
          | Inr screeningExecs \<Rightarrow>
              build_execution E params iteration selected score ruleExecs screeningExecs))"

definition evaluate_object ::
    "'f scenario_env \<Rightarrow> 'f ScenarioEvaluationParameters \<Rightarrow> 'f ScenarioIteration \<Rightarrow> 'f execution_result outcome" where
  "evaluate_object E params iteration =
     (case eligible_pivots E (P_DataModel params) (P_ClientObject params) (Pivots params) of
        None \<Rightarrow> Panicked
      | Some (Inl err) \<Rightarrow> failed err
      | Some (Inr eligible) \<Rightarrow>
         (let selected = select_pivot eligible in
          case (case selected of
                  None \<Rightarrow> Inr []
                | Some e \<Rightarrow> ListActiveRuleSnoozes E (snooze_groups iteration) (EP_value e)) of
            Inl errSnooze \<Rightarrow> failed (ErrWrap errSnooze ''error when listing active rule snozze'')
          | Inr snoozes \<Rightarrow> run_rules_and_screenings E params iteration selected snoozes))"

definition processScenarioIteration ::
    "'f scenario_env \<Rightarrow> 'f ScenarioEvaluationParameters \<Rightarrow> 'f ScenarioIteration \<Rightarrow> 'f execution_result outcome" where
  "processScenarioIteration E params iteration =
     (if TriggerObjectType (P_Scenario params) \<noteq> TableName (P_ClientObject params)
      then failed ErrScenarioTriggerTypeMismatch
      else (case TriggerConditionAstExpression iteration of
        None \<Rightarrow> evaluate_object E params iteration
      | Some trigger \<Rightarrow> (case evalScenarioTrigger (Eval E) trigger of
          None \<Rightarrow> Panicked
        | Some (Inl err) \<Rightarrow> failed (ErrWrap err ''error evaluating trigger condition in EvalScenario'')
        | Some (Inr ok) \<Rightarrow> if \<not> ok then Returned (False, zero_ScenarioExecution, None)
            else evaluate_object E params iteration)))"

section \<open>EvalScenario\<close>

definition ErrScenarioHasNoLiveVersion :: go_error where
  "ErrScenarioHasNoLiveVersion = ErrWrap BadParameterError ''scenario has no live version''"

text \<open>The deferred recovery: a panic becomes the sentinel error.\<close>

definition recovered :: "'f execution_result outcome \<Rightarrow> 'f execution_result outcome" where
  "recovered r = (case r of Panicked \<Rightarrow> failed ErrPanicInScenarioEvalution | _ \<Rightarrow> r)"

definition target_version :: "'f ScenarioEvaluationParameters \<Rightarrow> string option" where
  "target_version params = (case TargetIterationId params of
     Some v \<Rightarrow> Some v | None \<Rightarrow> LiveVersionID (P_Scenario params))"

definition has_object_id :: "'f ScenarioEvaluationParameters \<Rightarrow> bool" where
  "has_object_id params = (case Data (P_ClientObject params) ''object_id'' of Some (VString s) \<Rightarrow> True | _ \<Rightarrow> False)"

definition screening_allowed :: "'f scenario_env \<Rightarrow> uuid \<Rightarrow> 'f ScreeningConfig list \<Rightarrow> go_error option" where
  "screening_allowed E orgId scc =
     (if scc = [] then None
      else (case ScreeningFeatureAccess E orgId of
        Inl err \<Rightarrow> Some err
      | Inr access \<Rightarrow> if \<not> IsAllowed access
          then Some (ErrWrap ForbiddenError ''screening feature access is missing'') else None))"

definition EvalScenario_body ::
    "'f scenario_env \<Rightarrow> 'f ScenarioEvaluationParameters \<Rightarrow> 'f execution_result outcome" where
  "EvalScenario_body E params =
     (case target_version params of
        None \<Rightarrow> failed (ErrWrap ErrScenarioHasNoLiveVersion ''scenario has no live version in EvalScenario'')
      | Some targetVersionId \<Rightarrow>
        if \<not> has_object_id params then Panicked
        else (case GetScenarioIteration E targetVersionId of
          Inl err \<Rightarrow> failed (ErrWrap err ''error getting scenario iteration in EvalScenario'')
        | Inr versionToRun \<Rightarrow> (case ListScreeningConfigs E (Iteration_Id versionToRun) of
            Inl err \<Rightarrow> failed (ErrWrap err ''error getting screening config from scenario iteration'')
          | Inr scc \<Rightarrow> (case screening_allowed E (Scenario_OrganizationId (P_Scenario params)) scc of
              Some err \<Rightarrow> failed err
            | None \<Rightarrow>
               (case processScenarioIteration E params (versionToRun\<lparr>ScreeningConfigs := scc\<rparr>) of
                  Returned (triggerPassed, se, Some errSe) \<Rightarrow>
                    failed (ErrWrap errSe ''error processing scenario iteration in EvalScenario'')
                | r \<Rightarrow> r)))))"

definition EvalScenario ::
    "'f scenario_env \<Rightarrow> 'f ScenarioEvaluationParameters \<Rightarrow> 'f execution_result outcome" where
  "EvalScenario E params = recovered (EvalScenario_body E params)"

section \<open>EvalTestRunScenario\<close>

text \<open>
  The cached screening that stands for a configuration of the test version: the first configuration
  of the live version that has the same query and whose iteration has a cached screening.
\<close>

definition copy_of ::
    "('f Node \<Rightarrow> nat) \<Rightarrow> (string \<rightharpoonup> ScreeningWithMatches) \<Rightarrow> 'f ScreeningConfig list \<Rightarrow> 'f ScreeningConfig
     \<Rightarrow> ScreeningWithMatches option" where
  "copy_of H cachedScreenings liveVersionSccs testVersionScc =
     (case find (\<lambda>live. SC_StableId testVersionScc = SC_StableId live
             \<and> cachedScreenings (SC_ScenarioIterationId live) \<noteq> None \<and> HasSameQuery H live testVersionScc)
         liveVersionSccs of
        None \<Rightarrow> None
      | Some live \<Rightarrow> cachedScreenings (SC_ScenarioIterationId live))"

text \<open>Each copy removes the first of the configurations that remain to be run.\<close>

fun copy_screenings ::
    "('f Node \<Rightarrow> nat) \<Rightarrow> (string \<rightharpoonup> ScreeningWithMatches) \<Rightarrow> 'f ScreeningConfig list \<Rightarrow> 'f ScreeningConfig list
     \<Rightarrow> ScreeningWithMatches list \<Rightarrow> 'f ScreeningConfig list
     \<Rightarrow> ScreeningWithMatches list \<times> 'f ScreeningConfig list" where
  "copy_screenings H cached live [] copiedScreening sccsToRun = (copiedScreening, sccsToRun)"
| "copy_screenings H cached live (test # sccs) copiedScreening sccsToRun =
     (case copy_of H cached live test of
        None \<Rightarrow> copy_screenings H cached live sccs copiedScreening sccsToRun
      | Some c \<Rightarrow> copy_screenings H cached live sccs (copiedScreening @ [c]) (drop 1 sccsToRun))"

definition EvalTestRunScenario_body ::
    "('f Node \<Rightarrow> nat) \<Rightarrow> 'f scenario_env \<Rightarrow> 'f ScenarioEvaluationParameters \<Rightarrow> 'f execution_result outcome" where
  "EvalTestRunScenario_body H E params =
     (if \<not> has_object_id params then Panicked
      else (case ListTestRuns E (Scenario_Id (P_Scenario params)) of
        Inl err \<Rightarrow> failed err
      | Inr [] \<Rightarrow> Returned (False, zero_ScenarioExecution, None)
      | Inr (testrun # testruns) \<Rightarrow>
        if \<not> TR_Up testrun
          \<or> LiveVersionID (P_Scenario params) \<noteq> Some (TR_ScenarioLiveIterationId testrun)
        then Returned (False, zero_ScenarioExecution, None)
        else (case GetScenarioIteration E (TR_ScenarioIterationId testrun) of
          Inl err \<Rightarrow> failed err
        | Inr testRunIteration \<Rightarrow> (case ListScreeningConfigs E (Iteration_Id testRunIteration) of
            Inl err \<Rightarrow> failed (ErrWrap err ''error getting screening config from scenario iteration'')
          | Inr sccs \<Rightarrow>
            (case (if sccs = [] then Inr []
                   else ListScreeningConfigs E (TR_ScenarioLiveIterationId testrun)) of
              Inl err \<Rightarrow> failed err
            | Inr liveVersionSccs \<Rightarrow>
               (case copy_screenings H (CachedScreenings params) liveVersionSccs sccs [] sccs of
                 (copiedScreening, sccsToRun) \<Rightarrow>
                   (case processScenarioIteration E params (testRunIteration\<lparr>ScreeningConfigs := sccsToRun\<rparr>) of
                      Returned (triggerPassed, se, Some err) \<Rightarrow> Returned (False, se, Some err)
                    | Returned (triggerPassed, se, None) \<Rightarrow> Returned (triggerPassed,
                        se\<lparr>SE_ScreeningExecutions := SE_ScreeningExecutions se @ copiedScreening,
                           SE_TestRunId := TR_Id testrun\<rparr>, None)
                    | r \<Rightarrow> r)))))))"

definition EvalTestRunScenario ::
    "('f Node \<Rightarrow> nat) \<Rightarrow> 'f scenario_env \<Rightarrow> 'f ScenarioEvaluationParameters \<Rightarrow> 'f execution_result outcome" where
  "EvalTestRunScenario H E params = recovered (EvalTestRunScenario_body H E params)"

section \<open>EvalCaseName\<close>

text \<open>
  The name of a case: \<open>default_name\<close> is the default name. Every early return yields it together with the
  current value of the named result \<open>err\<close>. \<open>None\<close> is a panic.
\<close>

definition EvalCaseName ::
    "'f expression_evaluator \<Rightarrow> string \<Rightarrow> 'f Node option \<Rightarrow> (string \<times> go_error option) option" where
  "EvalCaseName ev default_name titleTemplate =
     (case titleTemplate of
        None \<Rightarrow> Some (default_name, None)
      | Some template \<Rightarrow> (case ev template of
          None \<Rightarrow> None
        | Some (caseNameEvaluation, err) \<Rightarrow> Some
           (if err \<noteq> None then (default_name, err)
            else (case NE_ReturnValue caseNameEvaluation of
              VString returnValue \<Rightarrow> if returnValue = [] then (default_name, None) else (returnValue, None)
            | _ \<Rightarrow> (default_name, None)))))"

end
