(* ===== verification/Scenario_Laws.thy ===== *)
theory Scenario_Laws
  imports Scenario_Eval
begin

text \<open>
  What the evaluation of a scenario guarantees: the outcome of a decision, the choice of its pivot,
  the treatment of errors and panics, and the screenings of a test run.
\<close>

section \<open>Inversion\<close>

lemma failed_inv [simp]:
  "failed err = Returned r \<longleftrightarrow> r = (False, zero_ScenarioExecution, Some err)"
  "failed err \<noteq> Panicked" "failed err \<noteq> Crashed"
  by (auto simp: failed_def)

lemma build_execution_Returned:
  assumes "build_execution E params iteration selected score ruleExecs screeningExecs = Returned (True, se, err)"
  shows "scenario_outcome iteration score screeningExecs = Some (SE_Outcome se)"
    "SE_Score se = score" "SE_RuleExecutions se = ruleExecs" "SE_ScreeningExecutions se = screeningExecs" "err = None"
  using assms by (auto simp: build_execution_def split: option.splits sum.splits)

lemma evaluate_object_Returned:
  assumes "evaluate_object E params iteration = Returned (True, se, err)"
  obtains snoozes where
    "RunRules E (Rules iteration) snoozes (ConcurrentRules params) = Some (Inr (SE_Score se, SE_RuleExecutions se))"
    "evaluateScreening (screening_part E) (ScreeningConfigs iteration) (Completed E) = Inr (SE_ScreeningExecutions se)"
    "scenario_outcome iteration (SE_Score se) (SE_ScreeningExecutions se) = Some (SE_Outcome se)" "err = None"
proof -
  from assms obtain selected snoozes
    where "run_rules_and_screenings E params iteration selected snoozes = Returned (True, se, err)"
    by (auto simp: evaluate_object_def Let_def split: option.splits sum.splits)
  then obtain score ruleExecs screeningExecs where run:
    "RunRules E (Rules iteration) snoozes (ConcurrentRules params) = Some (Inr (score, ruleExecs))"
    "evaluateScreening (screening_part E) (ScreeningConfigs iteration) (Completed E) = Inr screeningExecs"
    and build: "build_execution E params iteration selected score ruleExecs screeningExecs = Returned (True, se, err)"
    by (auto simp: run_rules_and_screenings_def split: option.splits sum.splits)
  note built = build_execution_Returned [OF build]
  show thesis by (rule that [of snoozes]) (use run built in simp_all)
qed

lemma process_Returned:
  "processScenarioIteration E params iteration = Returned (True, se, err) \<Longrightarrow>
     evaluate_object E params iteration = Returned (True, se, err)"
  by (auto simp: processScenarioIteration_def split: if_splits option.splits sum.splits)

lemma process_failed:
  assumes "processScenarioIteration E params iteration = Returned (t, se, Some err)"
  shows "\<not> t \<and> se = zero_ScenarioExecution"
proof -
  have build: "build_execution E params iteration selected score rs ss = Returned (t, se, Some err) \<Longrightarrow>
      \<not> t \<and> se = zero_ScenarioExecution" for selected score rs ss
    by (auto simp: build_execution_def split: option.splits sum.splits)
  have run: "run_rules_and_screenings E params iteration selected snoozes = Returned (t, se, Some err) \<Longrightarrow>
      \<not> t \<and> se = zero_ScenarioExecution" for selected snoozes
    using build by (auto simp: run_rules_and_screenings_def split: option.splits sum.splits)
  have object: "evaluate_object E params iteration = Returned (t, se, Some err) \<Longrightarrow>
      \<not> t \<and> se = zero_ScenarioExecution"
    using run by (auto simp: evaluate_object_def Let_def split: option.splits sum.splits)
  show ?thesis
    using assms object by (auto simp: processScenarioIteration_def split: if_splits option.splits sum.splits)
qed

lemma process_Crashed:
  assumes "processScenarioIteration E params iteration = Crashed"
  shows "\<exists>snoozes. RunRules E (Rules iteration) snoozes (ConcurrentRules params) = None"
proof -
  have build: "build_execution E params iteration selected score rs ss \<noteq> Crashed" for selected score rs ss
    by (auto simp: build_execution_def split: option.splits sum.splits)
  then have run: "run_rules_and_screenings E params iteration selected snoozes = Crashed \<Longrightarrow>
      RunRules E (Rules iteration) snoozes (ConcurrentRules params) = None" for selected snoozes
    by (auto simp: run_rules_and_screenings_def split: option.splits sum.splits)
  have "evaluate_object E params iteration = Crashed"
    using assms by (auto simp: processScenarioIteration_def split: if_splits option.splits sum.splits)
  with run show ?thesis
    by (auto simp: evaluate_object_def Let_def split: option.splits sum.splits)
qed

section \<open>The outcome of a decision\<close>

definition forced :: "'f ScreeningConfig list \<Rightarrow> ScreeningWithMatches list \<Rightarrow> nat \<Rightarrow> bool" where
  "forced configs screenings i \<longleftrightarrow> i < length screenings \<and> SW_NumberOfMatches (screenings ! i) > 0"

lemma forced_fold:
  fixes configs :: "'f ScreeningConfig list"
  defines "step \<equiv> \<lambda>(idx, sce) outcome.
        if SW_NumberOfMatches sce > 0 \<and> Priority (ForcedOutcome (configs ! idx)) > Priority outcome
        then ForcedOutcome (configs ! idx) else outcome"
  shows "a \<le> fold step xs a
    \<and> (\<forall>(idx, sce)\<in>set xs. SW_NumberOfMatches sce > 0 \<longrightarrow> ForcedOutcome (configs ! idx) \<le> fold step xs a)
    \<and> (fold step xs a = a \<or> (\<exists>(idx, sce)\<in>set xs. SW_NumberOfMatches sce > 0 \<and> ForcedOutcome (configs ! idx) = fold step xs a))"
proof (induction xs arbitrary: a)
  case (Cons x xs)
  obtain idx sce where x: "x = (idx, sce)" by force
  have "a \<le> step x a" "SW_NumberOfMatches sce > 0 \<Longrightarrow> ForcedOutcome (configs ! idx) \<le> step x a"
    "step x a = a \<or> (SW_NumberOfMatches sce > 0 \<and> step x a = ForcedOutcome (configs ! idx))"
    by (auto simp: x step_def less_eq_Outcome_def)
  with Cons.IH [of "step x a"] show ?case
    by (simp add: x) (metis (no_types, lifting) case_prodI order_trans)
qed simp

lemma forced_outcome_max:
  "(\<forall>i. forced configs screenings i \<longrightarrow> ForcedOutcome (configs ! i) \<le> forced_outcome screenings configs)
   \<and> (forced_outcome screenings configs = Approve
      \<or> (\<exists>i. forced configs screenings i \<and> ForcedOutcome (configs ! i) = forced_outcome screenings configs))"
proof -
  have mem: "(i, s) \<in> set (enumerate 0 screenings) \<longleftrightarrow> i < length screenings \<and> s = screenings ! i" for i s
    by (auto simp: in_set_enumerate_eq)
  show ?thesis
    using forced_fold [where configs = configs and xs = "enumerate 0 screenings" and a = zero_Outcome]
    unfolding forced_outcome_def forced_def zero_Outcome_def by (auto simp: mem)
qed

text \<open>C1: The outcome of a decision: when no screening is conclusive (all without a hit or in error), it
  reaches a severity exactly when the score reaches the threshold of that severity, for thresholds
  in increasing order; otherwise the score is ignored, and the outcome is the most severe of the
  outcomes forced by the configurations with matches, or approval when there is none.\<close>

theorem decision_outcome:
  assumes "processScenarioIteration E params iteration = Returned (True, se, None)"
    and "ScoreReviewThreshold iteration = Some r" "ScoreBlockAndReviewThreshold iteration = Some b"
      "ScoreDeclineThreshold iteration = Some d" "r \<le> b" "b \<le> d"
  shows "if \<not> list_ex screening_conclusive (SE_ScreeningExecutions se)
     then (Review \<le> SE_Outcome se \<longleftrightarrow> r \<le> SE_Score se)
        \<and> (BlockAndReview \<le> SE_Outcome se \<longleftrightarrow> b \<le> SE_Score se)
        \<and> (Decline \<le> SE_Outcome se \<longleftrightarrow> d \<le> SE_Score se)
     else (\<forall>i. forced (ScreeningConfigs iteration) (SE_ScreeningExecutions se) i \<longrightarrow>
             ForcedOutcome (ScreeningConfigs iteration ! i) \<le> SE_Outcome se)
        \<and> (SE_Outcome se = Approve
         \<or> (\<exists>i. forced (ScreeningConfigs iteration) (SE_ScreeningExecutions se) i
              \<and> ForcedOutcome (ScreeningConfigs iteration ! i) = SE_Outcome se))"
proof -
  from process_Returned [OF assms(1)]
  have outcome: "scenario_outcome iteration (SE_Score se) (SE_ScreeningExecutions se) = Some (SE_Outcome se)"
    by (rule evaluate_object_Returned)
  show ?thesis
  proof (cases "list_ex screening_conclusive (SE_ScreeningExecutions se)")
    case True
    with outcome have "SE_Outcome se = forced_outcome (SE_ScreeningExecutions se) (ScreeningConfigs iteration)"
      by (simp add: scenario_outcome_def)
    with True forced_outcome_max show ?thesis by simp
  next
    case False
    with outcome assms(2-) have "SE_Outcome se = (if d \<le> SE_Score se then Decline
        else if b \<le> SE_Score se then BlockAndReview else if r \<le> SE_Score se then Review else Approve)"
      by (simp add: scenario_outcome_def score_outcome_def split: if_splits)
    with False assms(5,6) show ?thesis by (simp add: less_eq_Outcome_def)
  qed
qed

text \<open>A scenario on transactions, whose evaluation scores 30 and runs one screening without a query.\<close>

definition example_texts :: screening_text where
  "example_texts = \<lparr>Str_Runes = map (\<lambda>c. [c]), Rune_IsDigit = (\<lambda>r. r = ''7''), Str_Fields = (\<lambda>s. [s]),
     Str_ToLower = id, Str_TrimSpace = id, Time_FormatDate = (\<lambda>_. ''date''), NameRecognizer = None\<rparr>"

definition no_filters :: ScreeningConfigFilters where
  "no_filters = \<lparr>Global = None, Sanctions = None, Peps = None, AdverseMedia = None, Other = None, Custom = None\<rparr>"

definition example_config :: "rat ScreeningConfig" where
  "example_config = \<lparr>SC_Id = ''c1'', SC_StableId = ''stable'', SC_ScenarioIterationId = ''i1'', SC_Name = ''config'',
     Provider = ''opensanctions'', Datasets = [], Config_Filters = no_filters, TriggerRule = None,
     EntityType = ''Person'', Config_Query = None, Threshold = None, ForcedOutcome = Decline,
     CounterpartyIdExpression = None, Preprocessing = \<lparr>UseNer = False, NerIgnoreClassification = False,
       cfg_SkipIfUnder = 0, cfg_RemoveNumbers = False, IgnoreListId = []\<rparr>\<rparr>"

definition example_iteration :: "rat ScenarioIteration" where
  "example_iteration = \<lparr>Iteration_Id = ''i1'', Version = Some 1, TriggerConditionAstExpression = None,
     Rules = two_hits, ScreeningConfigs = [example_config], ScoreReviewThreshold = Some 10,
     ScoreBlockAndReviewThreshold = Some 20, ScoreDeclineThreshold = Some 100\<rparr>"

definition example_params :: "rat ScenarioEvaluationParameters" where
  "example_params = \<lparr>P_Scenario = \<lparr>Scenario_Id = ''s1'', Scenario_Name = ''scenario'',
       LiveVersionID = Some ''i1'', Scenario_OrganizationId = 1, TriggerObjectType = ''transactions''\<rparr>,
     TargetIterationId = None,
     P_ClientObject = \<lparr>TableName = ''transactions'',
       Data = [''object_id'' \<mapsto> VString ''t1'', ''account'' \<mapsto> VString ''a1'']\<rparr>,
     P_DataModel = \<lparr>Tables = []\<rparr>, Pivots = [], CachedScreenings = Map.empty, ConcurrentRules = 1\<rparr>"

definition example_scenario_env :: "rat scenario_env" where
  "example_scenario_env = \<lparr>Eval = example_evaluator, EvalEmpty = example_evaluator, Texts = example_texts,
     Execute = (\<lambda>q. None), SearchWhitelist = (\<lambda>s. Some (Inr [])), NewId = (\<lambda>i. ''id''),
     GetDbField = (\<lambda>t p f. Inr VNil), uuid_Parse = (\<lambda>s. Inr 7),
     ListActiveRuleSnoozes = (\<lambda>gs v. Inr []), GetScenarioIteration = (\<lambda>i. Inr example_iteration),
     ListScreeningConfigs = (\<lambda>i. Inr [example_config]), ScreeningFeatureAccess = (\<lambda>o'. Inr Allowed),
     ListTestRuns = (\<lambda>s. Inr [\<lparr>TR_Id = ''tr'', TR_Up = True, TR_ScenarioIterationId = ''i2'',
       TR_ScenarioLiveIterationId = ''i1''\<rparr>]),
     RunRules = (\<lambda>rules snoozes c. Some (Inr (30, [Some (hit_execution 10), Some (hit_execution 20)]))),
     Completed = [0]\<rparr>"

lemmas scenario_example = example_scenario_env_def example_params_def example_iteration_def example_config_def
  processScenarioIteration_def evaluate_object_def run_rules_and_screenings_def build_execution_def
  evaluateScreening_def screen_config_def screening_trigger_def screening_queries_def outcomeNoHit_def
  cfg_error_def cfg_result_def errors_Join_def scenario_outcome_def score_outcome_def screening_conclusive_def
  select_pivot_def screening_env.truncate_def

theorem decision_outcome_witness:
  "\<exists>se. processScenarioIteration example_scenario_env example_params example_iteration = Returned (True, se, None)
     \<and> BlockAndReview \<le> SE_Outcome se \<and> \<not> Decline \<le> SE_Outcome se"
proof -
  obtain se where se: "processScenarioIteration example_scenario_env example_params example_iteration = Returned (True, se, None)"
    and none: "\<not> list_ex screening_conclusive (SE_ScreeningExecutions se)" and score: "SE_Score se = 30"
    by (simp add: scenario_example)
  have "ScoreReviewThreshold example_iteration = Some 10" "ScoreBlockAndReviewThreshold example_iteration = Some 20"
    "ScoreDeclineThreshold example_iteration = Some 100" by (simp_all add: example_iteration_def)
  from decision_outcome [OF se this] none score se show ?thesis by auto
qed

section \<open>The pivot of a decision\<close>

definition eligible_of :: "'f scenario_env \<Rightarrow> DataModel \<Rightarrow> 'f ClientObject \<Rightarrow> Pivot \<Rightarrow> eligiblePivot option" where
  "eligible_of E dm obj p = (case getPivotValue E dm obj p of
     Some (Inr (Some v)) \<Rightarrow> if Str_TrimSpace (Texts E) v \<noteq> []
       then Some \<lparr>EP_pivot = p, EP_value = v, EP_startField = pivotStartField dm p\<rparr> else None
   | _ \<Rightarrow> None)"

lemma eligible_pivots_Inr:
  "eligible_pivots E dm obj ps = Some (Inr es) \<longleftrightarrow>
     (\<forall>p\<in>set ps. \<exists>v. getPivotValue E dm obj p = Some (Inr v)) \<and> es = List.map_filter (eligible_of E dm obj) ps"
proof (induction ps arbitrary: es)
  case (Cons p ps)
  show ?case
  proof (cases "eligible_pivots E dm obj ps")
    case None
    then show ?thesis using Cons.IH
      by (cases "getPivotValue E dm obj p") (auto simp: List.map_filter_simps split: sum.splits)
  next
    case (Some r)
    show ?thesis
    proof (cases r)
      case (Inl e)
      with Some Cons.IH show ?thesis
        by (cases "getPivotValue E dm obj p") (auto simp: List.map_filter_simps split: sum.splits)
    next
      case (Inr fs)
      with Some Cons.IH [of fs] show ?thesis
        by (cases "getPivotValue E dm obj p")
           (auto simp: List.map_filter_simps eligible_of_def split: sum.splits option.splits)
    qed
  qed
qed (auto simp: List.map_filter_simps)

lemma eligible_of_Some:
  "eligible_of E dm obj p = Some e \<Longrightarrow> EP_pivot e = p \<and> EP_startField e = pivotStartField dm p"
  by (auto simp: eligible_of_def split: option.splits sum.splits if_splits)

lemma set_map_filter: "set (List.map_filter f xs) = {y. \<exists>x\<in>set xs. f x = Some y}"
  by (force simp: List.map_filter_def)

lemma mset_map_filter: "mset xs = mset ys \<Longrightarrow> mset (List.map_filter f xs) = mset (List.map_filter f ys)"
  by (simp add: List.map_filter_def mset_filter)

lemma select_pivot_first:
  "select_pivot es = Some e \<Longrightarrow> e \<in> set es \<and> (\<forall>f\<in>set es. pivot_order e \<le> pivot_order f)"
proof -
  assume "select_pivot es = Some e"
  then obtain rest where s: "sort_key pivot_order es = e # rest" by (auto simp: select_pivot_def split: list.splits)
  have "sorted (map pivot_order (e # rest))" by (metis s sorted_sort_key)
  moreover have "set (e # rest) = set es" by (metis s set_sort)
  ultimately show ?thesis by auto
qed

text \<open>The pivot of a decision does not depend on the order in which the candidate pivots are
  listed: any reordering of the candidates selects the same pivot and value. There is one as soon
  as a candidate has a value, and it starts from the first field in alphabetical order.\<close>

theorem pivot_selection_deterministic:
  assumes "mset ps = mset qs" "distinct (map Pivot_Id ps)"
    and "eligible_pivots E dm obj ps = Some (Inr es)"
  shows "\<exists>fs. eligible_pivots E dm obj qs = Some (Inr fs) \<and> select_pivot fs = select_pivot es
     \<and> (case select_pivot es of
          None \<Rightarrow> es = []
        | Some e \<Rightarrow> EP_pivot e \<in> set ps \<and> (\<forall>f\<in>set es. EP_startField e \<le> EP_startField f))"
proof -
  from assms(3) have ps: "\<forall>p\<in>set ps. \<exists>v. getPivotValue E dm obj p = Some (Inr v)"
    and es: "es = List.map_filter (eligible_of E dm obj) ps" by (auto simp: eligible_pivots_Inr)
  define fs where "fs = List.map_filter (eligible_of E dm obj) qs"
  have "eligible_pivots E dm obj qs = Some (Inr fs)"
    using ps mset_eq_setD [OF assms(1)] by (simp add: eligible_pivots_Inr fs_def)
  moreover have "inj_on pivot_order (set es)"
  proof (rule inj_onI)
    fix e f assume "e \<in> set es" "f \<in> set es" and eq: "pivot_order e = pivot_order f"
    then have e: "eligible_of E dm obj (EP_pivot e) = Some e" "EP_pivot e \<in> set ps"
      and f: "eligible_of E dm obj (EP_pivot f) = Some f" "EP_pivot f \<in> set ps"
      by (auto simp: es set_map_filter dest: eligible_of_Some)
    from eq have same: "Pivot_Id (EP_pivot e) = Pivot_Id (EP_pivot f)" by (simp add: pivot_order_def)
    have "inj_on Pivot_Id (set ps)" using assms(2) by (simp add: distinct_map)
    from inj_onD [OF this same e(2) f(2)] have "Some e = Some f" using e(1) f(1) by metis
    then show "e = f" by (rule option.inject [THEN iffD1])
  qed
  then have "sort_key pivot_order es = sort_key pivot_order fs"
    by (intro sort_key_mset) (simp_all add: es fs_def mset_map_filter [OF assms(1)])
  then have "select_pivot fs = select_pivot es" by (simp add: select_pivot_def)
  moreover have "es = []" if "select_pivot es = None"
  proof -
    from that have "sort_key pivot_order es = []" by (simp add: select_pivot_def split: list.splits)
    then show ?thesis using length_sort [of pivot_order es] by simp
  qed
  moreover have "EP_pivot e \<in> set ps \<and> (\<forall>f\<in>set es. EP_startField e \<le> EP_startField f)" if "select_pivot es = Some e" for e
    using select_pivot_first [OF that]
    by (auto simp: es set_map_filter pivot_order_def less_eq_prod_def dest: eligible_of_Some)
  ultimately show ?thesis by (auto split: option.splits)
qed

definition field_pivot :: "uuid \<Rightarrow> string \<Rightarrow> Pivot" where
  "field_pivot i field = \<lparr>Pivot_Id = i, Pivot_CreatedAt = 0, BaseTable = ''transactions'', BaseTableId = ''t'',
     PivotTable = ''transactions'', PivotTableId = ''t'', Pivot_Field = field, Pivot_FieldId = field,
     PathLinks = [], PathLinkIds = []\<rparr>"

theorem pivot_selection_deterministic_witness:
  "\<exists>es fs e. eligible_pivots example_scenario_env \<lparr>Tables = []\<rparr> (P_ClientObject example_params)
        [field_pivot 1 ''object_id'', field_pivot 2 ''account''] = Some (Inr es)
     \<and> eligible_pivots example_scenario_env \<lparr>Tables = []\<rparr> (P_ClientObject example_params)
        [field_pivot 2 ''account'', field_pivot 1 ''object_id''] = Some (Inr fs)
     \<and> select_pivot es = Some e \<and> select_pivot fs = Some e \<and> EP_value e = ''a1''"
proof -
  let ?obj = "P_ClientObject example_params"
  have "getPivotValue example_scenario_env \<lparr>Tables = []\<rparr> ?obj (field_pivot 1 ''object_id'') = Some (Inr (Some ''t1''))"
    "getPivotValue example_scenario_env \<lparr>Tables = []\<rparr> ?obj (field_pivot 2 ''account'') = Some (Inr (Some ''a1''))"
    by (simp_all add: getPivotValue_def field_pivot_def example_params_def)
  then obtain es where es: "eligible_pivots example_scenario_env \<lparr>Tables = []\<rparr> ?obj
        [field_pivot 1 ''object_id'', field_pivot 2 ''account''] = Some (Inr es)"
    and a1: "\<forall>e. select_pivot es = Some e \<longrightarrow> EP_value e = ''a1''" and "es \<noteq> []"
    by (simp add: example_scenario_env_def example_texts_def select_pivot_def pivot_order_def pivotStartField_def
        field_pivot_def less_eq_prod_def)
  moreover have "mset [field_pivot 1 ''object_id'', field_pivot 2 ''account''] =
      mset [field_pivot 2 ''account'', field_pivot 1 ''object_id'']" by simp
  moreover have "distinct (map Pivot_Id [field_pivot 1 ''object_id'', field_pivot 2 ''account''])"
    by (simp add: field_pivot_def)
  ultimately show ?thesis
    using pivot_selection_deterministic [OF _ _ es, of "[field_pivot 2 ''account'', field_pivot 1 ''object_id'']"]
    by (cases "select_pivot es") auto
qed

section \<open>Errors and panics\<close>

lemma crash_genuine:
  assumes "evalAllScenarioRules ev rules snoozes concurrency None"
  shows "\<exists>rule\<in>set rules. evalScenarioRule ev False rule snoozes = None"
proof -
  from assms obtain s where s: "(rules_step ev (rules_limit concurrency) rules snoozes)\<^sup>*\<^sup>* (rules_start rules) s"
    and "rules_result s = None" by (auto elim!: evalAllScenarioRules.cases)
  then have "crashed s" by (auto simp: rules_result_def split: if_splits option.splits)
  with rules_inv_reachable [OF s] show ?thesis by (simp add: rules_inv_def errors_ok_def)
qed

definition schedules :: "'f scenario_env \<Rightarrow> bool" where
  "schedules E \<longleftrightarrow> (\<forall>rules snoozes c. evalAllScenarioRules (Eval E) rules snoozes c (RunRules E rules snoozes c))"

lemma body_failed:
  "EvalScenario_body E params = Returned (t, se, Some err) \<Longrightarrow> \<not> t \<and> se = zero_ScenarioExecution"
  by (auto simp: EvalScenario_body_def dest: process_failed
      split: option.splits if_splits sum.splits outcome.splits)

lemma body_Crashed:
  assumes "EvalScenario_body E params = Crashed"
  shows "\<exists>v iteration snoozes. target_version params = Some v \<and> GetScenarioIteration E v = Inr iteration
     \<and> RunRules E (Rules iteration) snoozes (ConcurrentRules params) = None"
  using assms
  by (auto simp: EvalScenario_body_def split: option.splits if_splits sum.splits outcome.splits
      dest!: process_Crashed)

text \<open>C2: The evaluation of a scenario never panics: a panic is returned as an error. An error is
  returned alone, without a partial decision and without the mark that the trigger passed. The
  process can only crash by a panic in the evaluation of a rule of the evaluated iteration, because
  the goroutines of the rules do not recover.\<close>

theorem scenario_errors_contained:
  assumes "schedules E"
  shows "case EvalScenario E params of
      Panicked \<Rightarrow> False
    | Crashed \<Rightarrow> \<exists>v iteration rule snoozes. target_version params = Some v \<and> GetScenarioIteration E v = Inr iteration
        \<and> rule \<in> set (Rules iteration) \<and> evalScenarioRule (Eval E) False rule snoozes = None
    | Returned (t, se, err) \<Rightarrow> err \<noteq> None \<longrightarrow> \<not> t \<and> se = zero_ScenarioExecution"
proof (cases "EvalScenario_body E params")
  case (Returned r)
  obtain t se err where r: "r = (t, se, err)" by (cases r)
  show ?thesis
  proof (cases err)
    case (Some e)
    with Returned r body_failed [of E params t se e] show ?thesis by (simp add: EvalScenario_def recovered_def)
  qed (simp add: EvalScenario_def recovered_def Returned r)
next
  case Panicked
  then show ?thesis by (simp add: EvalScenario_def recovered_def failed_def)
next
  case Crashed
  from body_Crashed [OF this] obtain v iteration snoozes where
    v: "target_version params = Some v" "GetScenarioIteration E v = Inr iteration"
    and none: "RunRules E (Rules iteration) snoozes (ConcurrentRules params) = None" by blast
  from assms have "evalAllScenarioRules (Eval E) (Rules iteration) snoozes (ConcurrentRules params)
      (RunRules E (Rules iteration) snoozes (ConcurrentRules params))" by (simp add: schedules_def)
  then have "evalAllScenarioRules (Eval E) (Rules iteration) snoozes (ConcurrentRules params) None"
    by (simp only: none)
  from crash_genuine [OF this] v Crashed show ?thesis
    by (auto simp: EvalScenario_def recovered_def)
qed

lemma some_schedule:
  fixes ev :: "'f expression_evaluator"
  shows "\<exists>run. \<forall>rules snoozes c. evalAllScenarioRules ev rules snoozes c (run rules snoozes c)"
proof -
  have "\<exists>r. evalAllScenarioRules ev rules snoozes c r" for rules :: "'f Rule list" and snoozes c
  proof -
    have "length (threads (rules_start rules :: 'f rules_state)) = length rules" by (simp add: rules_start_def)
    from run_to_end [OF this rules_limit_pos] show ?thesis using evalAllScenarioRules.intros by metis
  qed
  then show ?thesis by metis
qed

text \<open>An object without an identifier: the type assertion panics.\<close>

theorem scenario_errors_contained_witness:
  "\<exists>E. EvalScenario E (example_params\<lparr>P_ClientObject := \<lparr>TableName = ''transactions'', Data = Map.empty\<rparr>\<rparr>)
      = Returned (False, zero_ScenarioExecution :: rat ScenarioExecution, Some ErrPanicInScenarioEvalution)"
proof -
  let ?params = "example_params\<lparr>P_ClientObject := \<lparr>TableName = ''transactions'', Data = Map.empty\<rparr>\<rparr>"
  obtain run where run: "\<forall>rules snoozes c. evalAllScenarioRules example_evaluator rules snoozes c (run rules snoozes c)"
    using some_schedule by blast
  let ?E = "example_scenario_env\<lparr>RunRules := run\<rparr>"
  have "schedules ?E" using run by (simp add: schedules_def example_scenario_env_def)
  moreover obtain t se where "EvalScenario ?E ?params = Returned (t, se, Some ErrPanicInScenarioEvalution)"
    by (simp add: EvalScenario_def EvalScenario_body_def recovered_def failed_def target_version_def has_object_id_def
        example_params_def) blast
  ultimately show ?thesis using scenario_errors_contained [of ?E ?params] by auto
qed

section \<open>Test runs\<close>

lemma copy_screenings_shape:
  "copy_screenings H cached live sccs copied toRun = (copied', toRun') \<Longrightarrow>
     \<exists>k\<le>length sccs. toRun' = drop k toRun \<and> length copied' = length copied + k
       \<and> set copied' \<subseteq> set copied \<union> ran cached"
proof (induction sccs arbitrary: copied toRun)
  case (Cons test sccs)
  show ?case
  proof (cases "copy_of H cached live test")
    case None
    with Cons.prems Cons.IH [of copied toRun] show ?thesis by (auto intro: le_SucI)
  next
    case (Some c)
    then have "c \<in> ran cached" by (auto simp: copy_of_def ran_def split: option.splits)
    moreover from Some Cons.prems Cons.IH [of "copied @ [c]" "drop 1 toRun"] obtain k where
      "k \<le> length sccs" "toRun' = drop k (drop 1 toRun)" "length copied' = length copied + 1 + k"
      "set copied' \<subseteq> set (copied @ [c]) \<union> ran cached" by auto
    ultimately show ?thesis by (intro exI [of _ "Suc k"]) auto
  qed
qed auto

lemma length_evaluateScreening:
  "evaluateScreening E configs completed = Inr sexecs \<Longrightarrow> length sexecs = length configs"
  by (auto simp: evaluateScreening_def Let_def split: if_splits option.splits)

text \<open>A test run that passes its trigger is recorded under its test run and carries one screening per
  screening configuration of the tested version: the last ones of the configurations are screened,
  and as many cached screenings as there are remaining configurations follow them.\<close>

theorem test_run_screenings:
  assumes "EvalTestRunScenario H E params = Returned (True, se, None)"
  shows "\<exists>testrun testruns iteration sccs k.
      ListTestRuns E (Scenario_Id (P_Scenario params)) = Inr (testrun # testruns)
    \<and> GetScenarioIteration E (TR_ScenarioIterationId testrun) = Inr iteration
    \<and> ListScreeningConfigs E (Iteration_Id iteration) = Inr sccs
    \<and> SE_TestRunId se = TR_Id testrun
    \<and> length (SE_ScreeningExecutions se) = length sccs \<and> k \<le> length sccs
    \<and> evaluateScreening (screening_part E) (drop k sccs) (Completed E)
        = Inr (take (length sccs - k) (SE_ScreeningExecutions se))
    \<and> set (drop (length sccs - k) (SE_ScreeningExecutions se)) \<subseteq> ran (CachedScreenings params)"
proof -
  from assms have "EvalTestRunScenario_body H E params = Returned (True, se, None)"
    by (auto simp: EvalTestRunScenario_def recovered_def failed_def split: outcome.splits)
  then obtain testrun testruns iteration sccs live copied toRun se0 where
    found: "ListTestRuns E (Scenario_Id (P_Scenario params)) = Inr (testrun # testruns)"
      "GetScenarioIteration E (TR_ScenarioIterationId testrun) = Inr iteration"
      "ListScreeningConfigs E (Iteration_Id iteration) = Inr sccs"
    and copied: "copy_screenings H (CachedScreenings params) live sccs [] sccs = (copied, toRun)"
    and process: "processScenarioIteration E params (iteration\<lparr>ScreeningConfigs := toRun\<rparr>) = Returned (True, se0, None)"
    and se: "se = se0\<lparr>SE_ScreeningExecutions := SE_ScreeningExecutions se0 @ copied, SE_TestRunId := TR_Id testrun\<rparr>"
    by (auto simp: EvalTestRunScenario_body_def split: if_splits sum.splits list.splits prod.splits
        outcome.splits option.splits)
  from copy_screenings_shape [OF copied] obtain k where k: "k \<le> length sccs" "toRun = drop k sccs"
    "length copied = k" "set copied \<subseteq> ran (CachedScreenings params)" by auto
  have run: "evaluateScreening (screening_part E) toRun (Completed E) = Inr (SE_ScreeningExecutions se0)"
    using evaluate_object_Returned [OF process_Returned [OF process]] by auto
  from length_evaluateScreening [OF run] k have "length (SE_ScreeningExecutions se0) = length sccs - k" by simp
  with found k run se show ?thesis by (intro exI [of _ testrun] exI [of _ testruns] exI [of _ iteration]
        exI [of _ sccs] exI [of _ k]) auto
qed

definition cached_screening :: ScreeningWithMatches where
  "cached_screening = outcomeNoHit example_config []"

definition test_run_params :: "rat ScenarioEvaluationParameters" where
  "test_run_params = example_params\<lparr>CachedScreenings := [''i1'' \<mapsto> cached_screening]\<rparr>"

theorem test_run_screenings_witness:
  "\<exists>se. EvalTestRunScenario (\<lambda>_. 0) (example_scenario_env\<lparr>Completed := []\<rparr>) test_run_params = Returned (True, se, None)
     \<and> length (SE_ScreeningExecutions se) = 1"
proof -
  have same: "HasSameQuery (\<lambda>_. 0) example_config example_config"
    by (simp add: HasSameQuery_def example_config_def ContainsSameElements_def filters_Equal_def same_filter_def
        WithRootTopics_def no_filters_def filter_value_def zero_filter_def same_node_def preprocessing_equal_def
        query_fields_def)
  have "SC_StableId example_config = ''stable''" "SC_ScenarioIterationId example_config = ''i1''"
    by (simp_all add: example_config_def)
  with same obtain se where se: "EvalTestRunScenario (\<lambda>_. 0) (example_scenario_env\<lparr>Completed := []\<rparr>) test_run_params = Returned (True, se, None)"
    by (simp add: EvalTestRunScenario_def EvalTestRunScenario_body_def recovered_def has_object_id_def copy_of_def
        test_run_params_def scenario_example(1-3,5-))
  have configs: "ListScreeningConfigs example_scenario_env i = Inr [example_config]" for i
    by (simp add: example_scenario_env_def)
  from test_run_screenings [OF se] se show ?thesis by (auto simp: configs)
qed

text \<open>
  The removed configuration is the first one, not the copied one: when only the second of two
  configurations has a cached screening, the second is screened again and the first never is.
\<close>

lemma wrong_configuration_skipped:
  assumes "copy_of H cached live a = None" "copy_of H cached live b = Some c"
  shows "copy_screenings H cached live [a, b] [] [a, b] = ([c], [b])"
  using assms by simp

text \<open>Thresholds at different addresses are different, whatever their values.\<close>

lemma equal_thresholds_differ:
  "a \<noteq> b \<Longrightarrow> \<not> HasSameQuery H (scc\<lparr>Threshold := Some (a, t)\<rparr>) (scc\<lparr>Threshold := Some (b, t)\<rparr>)"
  by (simp add: HasSameQuery_def)

text \<open>An evaluation error of the title template is returned with the default name.\<close>

lemma case_name_error:
  "ev template = Some (e, Some err) \<Longrightarrow> EvalCaseName ev default_name (Some template) = Some (default_name, Some err)"
  by (simp add: EvalCaseName_def)

end
