(* ===== verification/Index_Families.thy ===== *)
theory Index_Families
  imports Data_Model Ast_Node
begin

text \<open>
  The indexes that the aggregations of scenarios need (\<^verbatim>\<open>src/models/aggregate_query.go\<close>,
  \<open>index_family.go\<close>, \<open>concrete_index.go\<close>; \<^verbatim>\<open>src/usecases/indexes\<close>): the query family of an aggregation,
  the index families that serve it, their reduction to a minimal set, and the concrete indexes that
  are missing.

  A set of column names is a HOL set; \<open>slice\<close> is the parameter that lists the elements of a set, in
  an order Go does not specify. A set of families is a list without two families of the same hash,
  as the code's hash sets keep the first element of each hash. \<open>up\<close> is \<open>strings.ToUpper\<close>.
\<close>

section \<open>Families\<close>

record IndexFamily =
  IF_TableName :: string
  Fixed :: "string list"
  Flex :: "string set"
  Last :: string
  Included :: "string set"

definition NewIndexFamily :: IndexFamily where
  "NewIndexFamily = \<lparr>IF_TableName = [], Fixed = [], Flex = {}, Last = [], Included = {}\<rparr>"

text \<open>\<open>fmt.Sprintf("%v", s)\<close> of a slice of strings.\<close>

fun join_space :: "string list \<Rightarrow> string" where
  "join_space [] = []"
| "join_space [x] = x"
| "join_space (x # xs) = x @ '' '' @ join_space xs"

definition format_slice :: "string list \<Rightarrow> string" where
  "format_slice s = ''['' @ join_space s @ '']''"

definition Hash :: "IndexFamily \<Rightarrow> string" where
  "Hash f = IF_TableName f @ '' - '' @ format_slice (Fixed f)
     @ '' - '' @ format_slice (sorted_list_of_set (Flex f)) @ '' - '' @ Last f
     @ '' - '' @ format_slice (sorted_list_of_set (Included f))"

definition AllIndexedValues :: "IndexFamily \<Rightarrow> string set" where
  "AllIndexedValues f = Flex f \<union> set (Fixed f) \<union> (if Last f \<noteq> [] then {Last f} else {})"

definition Size :: "IndexFamily \<Rightarrow> nat" where
  "Size f = length (Fixed f) + card (Flex f) + (if Last f \<noteq> [] then 1 else 0)"

text \<open>Both lose the name of the table.\<close>

definition RemoveFixedPrefix :: "string list \<Rightarrow> IndexFamily \<Rightarrow> IndexFamily" where
  "RemoveFixedPrefix fixed f =
     (if length fixed > length (Fixed f) \<or> take (length fixed) (Fixed f) \<noteq> fixed then NewIndexFamily
      else \<lparr>IF_TableName = [], Fixed = drop (length fixed) (Fixed f), Flex = Flex f, Last = Last f,
            Included = Included f\<rparr>)"

definition PrependPrefix :: "string list \<Rightarrow> IndexFamily \<Rightarrow> IndexFamily" where
  "PrependPrefix fixed f = \<lparr>IF_TableName = [], Fixed = fixed @ Fixed f, Flex = Flex f, Last = Last f,
     Included = Included f\<rparr>"

definition SetLast :: "string \<Rightarrow> IndexFamily \<Rightarrow> IndexFamily" where
  "SetLast lst f =
     (if lst = [] then f\<lparr>Last := []\<rparr>
      else if Flex f = {} then f\<lparr>Last := [], Fixed := Fixed f @ [lst]\<rparr>
      else f\<lparr>Last := lst\<rparr>)"

definition MergeIncluded :: "IndexFamily \<Rightarrow> IndexFamily \<Rightarrow> IndexFamily" where
  "MergeIncluded f B = (let out = f\<lparr>Included := Included f \<union> Included B\<rparr>
     in out\<lparr>Included := Included out - AllIndexedValues out\<rparr>)"

section \<open>Concrete indexes\<close>

record ConcreteIndex =
  CI_TableName :: string
  Indexed :: "string list"
  CI_Included :: "string list"

definition Covers :: "(string \<Rightarrow> string) \<Rightarrow> ConcreteIndex \<Rightarrow> IndexFamily \<Rightarrow> bool" where
  "Covers up i f =
     (let fixed = map up (Fixed f); flex = up ` Flex f; lst = up (Last f); included = up ` Included f;
          indexed = map up (Indexed i); idx_included = map up (CI_Included i);
          sz = length fixed + card flex + (if lst \<noteq> [] then 1 else 0)
      in up (CI_TableName i) = up (IF_TableName f)
       \<and> length fixed \<le> length indexed
       \<and> take (length fixed) indexed = fixed
       \<and> (card flex > 0 \<longrightarrow>
            length fixed + card flex \<le> length indexed
          \<and> flex - set (take (card flex) (drop (length fixed) indexed)) = {})
       \<and> (if lst \<noteq> [] then
            sz \<le> length indexed \<and> indexed ! (sz - 1) = lst \<and> included \<subseteq> set idx_included
          else
            length fixed + card flex \<le> length indexed
          \<and> set (take (card flex) (drop (length fixed) indexed)) = flex
          \<and> included \<subseteq> set idx_included \<union> set (drop (length fixed + card flex) indexed)))"

section \<open>Query families\<close>

record AggregateQueryFamily =
  AQF_TableName :: string
  EqConditions :: "string set"
  IneqConditions :: "string set"
  SelectOrOtherConditions :: "string set"

definition NewAggregateQueryFamily :: "string \<Rightarrow> AggregateQueryFamily" where
  "NewAggregateQueryFamily tableName = \<lparr>AQF_TableName = tableName, EqConditions = {}, IneqConditions = {},
     SelectOrOtherConditions = {}\<rparr>"

definition ErrInvalidAST :: go_error where
  "ErrInvalidAST = ErrWrap BadParameterError ''invalid AST''"

definition family_filter :: "'f Node \<Rightarrow> string \<Rightarrow> AggregateQueryFamily \<Rightarrow> go_error + AggregateQueryFamily" where
  "family_filter flt queryTableName family =
     (case ReadConstantNamedChildString flt ''tableName'' of
        Inl err \<Rightarrow> Inl (ErrWrap ErrInvalidAST ''Error reading tableName in filter node'')
      | Inr tableNameStr \<Rightarrow>
        if tableNameStr = [] \<or> tableNameStr \<noteq> queryTableName
        then Inl (ErrWrap ErrInvalidAST ''Filter tableName empty or is different from parent aggregator node's tableName'')
        else (case ReadConstantNamedChildString flt ''fieldName'' of
          Inl err \<Rightarrow> Inl (ErrWrap ErrInvalidAST ''Error reading fieldName in filter node'')
        | Inr fieldName \<Rightarrow>
          if fieldName = [] then Inl (ErrNew ''Filter fieldName is empty'')
          else (case ReadConstantNamedChildString flt ''operator'' of
            Inl err \<Rightarrow> Inl (ErrWrap ErrInvalidAST ''Error reading operator in filter node'')
          | Inr op \<Rightarrow>
            if op = ''='' then Inr (family\<lparr>EqConditions := insert fieldName (EqConditions family)\<rparr>)
            else if List.member [''>'', ''>='', ''<'', ''<=''] op then
              Inr (if fieldName \<notin> EqConditions family
                   then family\<lparr>IneqConditions := insert fieldName (IneqConditions family)\<rparr> else family)
            else if List.member [''IsInList'', ''IsNotInList'', ''!='', ''IsEmpty'', ''IsNotEmpty'',
                ''StringEndsWith'', ''StringStartsWith'', ''FuzzyMatch''] op then
              Inr (if fieldName \<notin> EqConditions family \<and> fieldName \<notin> IneqConditions family
                   then family\<lparr>SelectOrOtherConditions := insert fieldName (SelectOrOtherConditions family)\<rparr>
                   else family)
            else Inl (ErrWrap ErrInvalidAST ''Filter operator is not valid''))))"

fun family_filters :: "'f Node list \<Rightarrow> string \<Rightarrow> AggregateQueryFamily \<Rightarrow> go_error + AggregateQueryFamily" where
  "family_filters [] queryTableName family = Inr family"
| "family_filters (flt # filters) queryTableName family =
     (case family_filter flt queryTableName family of
        Inl err \<Rightarrow> Inl err
      | Inr family' \<Rightarrow> family_filters filters queryTableName family')"

definition aggregationNodeToQueryFamily :: "'f Node \<Rightarrow> go_error + AggregateQueryFamily" where
  "aggregationNodeToQueryFamily node =
     (if Node_Function node \<noteq> FUNC_AGGREGATOR then Inl (ErrWrap ErrInvalidAST ''Node is not an aggregator'')
      else (case ReadConstantNamedChildString node ''tableName'' of
        Inl err \<Rightarrow> Inl (ErrWrap ErrInvalidAST ''Error reading tableName in aggregation node'')
      | Inr queryTableName \<Rightarrow> (case ReadConstantNamedChildString node ''fieldName'' of
          Inl err \<Rightarrow> Inl (ErrWrap ErrInvalidAST ''Error reading fieldName in aggregation node'')
        | Inr aggregatedFieldName \<Rightarrow>
           (case map_of (Node_NamedChildren node) ''filters'' of
              None \<Rightarrow> Inr (NewAggregateQueryFamily queryTableName)
            | Some filters \<Rightarrow>
               (case family_filters (Node_Children filters) queryTableName (NewAggregateQueryFamily queryTableName) of
                  Inl err \<Rightarrow> Inl err
                | Inr family \<Rightarrow> Inr
                   (if aggregatedFieldName \<notin> EqConditions family \<and> aggregatedFieldName \<notin> IneqConditions family
                    then family\<lparr>SelectOrOtherConditions :=
                      insert aggregatedFieldName (SelectOrOtherConditions family)\<rparr>
                    else family))))))"

text \<open>The families of all the aggregations of a formula; an invalid aggregation is skipped.\<close>

fun extractQueryFamiliesFromAst :: "'f Node \<Rightarrow> go_error + AggregateQueryFamily list" where
  "extractQueryFamiliesFromAst (Node i f c children named) =
     (case (if f = FUNC_AGGREGATOR then
              (case aggregationNodeToQueryFamily (Node i f c children named) of
                 Inl err \<Rightarrow> if errors_is err ErrInvalidAST then Inr []
                   else Inl (ErrWrap err ''Error converting aggregation node to query family'')
               | Inr family \<Rightarrow> Inr [family])
            else Inr []) of
        Inl err \<Rightarrow> Inl err
      | Inr own \<Rightarrow>
         (case MapErr children (\<lambda>child. extractQueryFamiliesFromAst child) of
            Inl err \<Rightarrow> Inl (ErrWrap err ''Error getting query families from child'')
          | Inr cs \<Rightarrow>
             (case MapErr named (\<lambda>kn. extractQueryFamiliesFromAst (snd kn)) of
                Inl err \<Rightarrow> Inl (ErrWrap err ''Error getting query families from named child'')
              | Inr ns \<Rightarrow> Inr (own @ concat cs @ concat ns))))"

section \<open>From query families to index families\<close>

text \<open>A hash set: an element is added unless one of the same hash is present.\<close>

fun hs_insert :: "IndexFamily \<Rightarrow> IndexFamily list \<Rightarrow> IndexFamily list" where
  "hs_insert f fs = (if list_ex (\<lambda>g. Hash g = Hash f) fs then fs else fs @ [f])"

definition hs_from :: "IndexFamily list \<Rightarrow> IndexFamily list" where
  "hs_from fs = fold hs_insert fs []"

definition ToIndexFamilies :: "(string set \<Rightarrow> string list) \<Rightarrow> AggregateQueryFamily \<Rightarrow> IndexFamily list" where
  "ToIndexFamilies slice family =
     (if EqConditions family = {} \<and> IneqConditions family = {} then []
      else (let base = NewIndexFamily\<lparr>IF_TableName := AQF_TableName family, Flex := EqConditions family,
              Included := SelectOrOtherConditions family\<rparr>
        in if IneqConditions family = {} then hs_from [base]
           else hs_from (map (\<lambda>f. base\<lparr>Last := f, Included := Included base \<union> (IneqConditions family - {f})\<rparr>)
                  (slice (IneqConditions family)))))"

section \<open>Combining two families\<close>

text \<open>The merge of two families of which the first has no fixed column; \<open>None\<close> is the answer false.\<close>

definition refineIdxFamiliesFirstHasNoFixed :: "IndexFamily \<Rightarrow> IndexFamily \<Rightarrow> IndexFamily option" where
  "refineIdxFamiliesFirstHasNoFixed A B =
     (if Size A > Size B then
        (if \<not> AllIndexedValues B \<subseteq> AllIndexedValues A then None
         else if Last B \<noteq> [] \<and> Last B = Last A then None
         else
          (let fixed = (if Last B \<noteq> [] then Fixed B @ sorted_list_of_set (Flex B) @ [Last B] else Fixed B);
               out = B\<lparr>Fixed := fixed, Flex := Flex A - set fixed\<rparr>
           in Some (MergeIncluded (SetLast (Last A) out) A)))
      else if Size A = Size B then
        (if AllIndexedValues A \<noteq> AllIndexedValues B then None
         else if Last B \<noteq> [] then
           (if Last A \<noteq> [] \<and> Last A \<noteq> Last B then None else Some (MergeIncluded B A))
         else if Last A = [] then Some (MergeIncluded B A)
         else if Flex B = {} then
           (if Last A \<noteq> last (Fixed B) then None else Some (MergeIncluded B A))
         else if Last A \<notin> Flex B then None
         else Some (MergeIncluded (SetLast (Last A) (B\<lparr>Flex := Flex B - {Last A}\<rparr>)) A))
      else if \<not> AllIndexedValues A \<subseteq> AllIndexedValues B then None
      else if Size A \<le> length (Fixed B) then
        (if Last A = [] then
           (if Flex A = set (take (Size A) (Fixed B))
            then Some (MergeIncluded (B\<lparr>Flex := Flex B - set (take (Size A) (Fixed B))\<rparr>) A)
            else None)
         else if Fixed B ! (Size A - 1) \<noteq> Last A then None
         else Some (MergeIncluded B A))
      else if \<not> set (Fixed B) \<subseteq> Flex A then None
      else if Last A = [] then Some (MergeIncluded B A)
      else if Last A \<notin> Flex B then None
      else
       (let fixed = Fixed B @ sorted_list_of_set (Flex B \<inter> Flex A) @ [Last A];
            out = B\<lparr>Fixed := fixed, Flex := Flex B - set fixed\<rparr>;
            out' = (if Flex out = {} then SetLast (Last B) out else out)
        in Some (MergeIncluded out' A)))"

definition common_prefix_length :: "IndexFamily \<Rightarrow> IndexFamily \<Rightarrow> nat" where
  "common_prefix_length left right = min (length (Fixed left)) (length (Fixed right))"

lemma length_RemoveFixedPrefix:
  "0 < common_prefix_length left right \<Longrightarrow>
     length (Fixed (RemoveFixedPrefix (take (common_prefix_length left right) (Fixed left)) left)) < length (Fixed left)"
  by (auto simp: RemoveFixedPrefix_def common_prefix_length_def NewIndexFamily_def)

function refineIdxFamilies :: "IndexFamily \<Rightarrow> IndexFamily \<Rightarrow> IndexFamily option" where
  "refineIdxFamilies left right =
     (let prefixLen = common_prefix_length left right; fixedPrefix = take prefixLen (Fixed left) in
      if prefixLen > 0 then
        (if take prefixLen (Fixed right) \<noteq> fixedPrefix then None
         else map_option (PrependPrefix fixedPrefix)
           (refineIdxFamilies (RemoveFixedPrefix fixedPrefix left) (RemoveFixedPrefix fixedPrefix right)))
      else if Fixed right = [] then refineIdxFamiliesFirstHasNoFixed right left
      else refineIdxFamiliesFirstHasNoFixed left right)"
  by pat_completeness auto

termination refineIdxFamilies
  by (relation "measure (\<lambda>(left, right). length (Fixed left))") (auto dest: length_RemoveFixedPrefix)

declare refineIdxFamilies.simps [simp del]

section \<open>The minimal set\<close>

text \<open>The first family of the output that combines with \<open>idxIn\<close> is replaced, at the end, by the combination.\<close>

fun combine_into :: "IndexFamily \<Rightarrow> IndexFamily list \<Rightarrow> (IndexFamily \<times> IndexFamily list) option" where
  "combine_into idxIn [] = None"
| "combine_into idxIn (idxOut # output) =
     (case refineIdxFamilies idxOut idxIn of
        Some combined \<Rightarrow> Some (combined, output)
      | None \<Rightarrow> map_option (\<lambda>(combined, rest). (combined, idxOut # rest)) (combine_into idxIn output))"

definition reduce_step :: "IndexFamily \<Rightarrow> IndexFamily list \<Rightarrow> IndexFamily list" where
  "reduce_step idxIn output = (case combine_into idxIn output of
     None \<Rightarrow> output @ [idxIn] | Some (combined, rest) \<Rightarrow> rest @ [combined])"

definition extractMinimalSetOfIdxFamiliesOneTable :: "IndexFamily list \<Rightarrow> IndexFamily list" where
  "extractMinimalSetOfIdxFamiliesOneTable idxFamiliesIn =
     hs_from (fold reduce_step (sort_key Hash idxFamiliesIn) [])"

definition extractMinimalSetOfIdxFamilies :: "IndexFamily list \<Rightarrow> IndexFamily list" where
  "extractMinimalSetOfIdxFamilies idxFamiliesIn =
     hs_from (concat (map (\<lambda>table. extractMinimalSetOfIdxFamiliesOneTable
         (filter (\<lambda>f. IF_TableName f = table) idxFamiliesIn))
       (remdups (map IF_TableName idxFamiliesIn))))"

section \<open>Indexes to create\<close>

definition selectIdxFamiliesToCreate ::
    "(string \<Rightarrow> string) \<Rightarrow> IndexFamily list \<Rightarrow> ConcreteIndex list \<Rightarrow> IndexFamily list" where
  "selectIdxFamiliesToCreate up idxFamilies existing =
     hs_from (filter (\<lambda>family. \<not> list_ex (\<lambda>i. Covers up i family) existing) idxFamilies)"

definition concrete_index :: "(string set \<Rightarrow> string list) \<Rightarrow> IndexFamily \<Rightarrow> ConcreteIndex" where
  "concrete_index slice family =
     \<lparr>CI_TableName = IF_TableName family,
      Indexed = Fixed family @ slice (Flex family) @ (if Last family \<noteq> [] then [Last family] else []),
      CI_Included = slice (Included family)\<rparr>"

definition selectConcreteIndexesToCreate ::
    "(string \<Rightarrow> string) \<Rightarrow> (string set \<Rightarrow> string list) \<Rightarrow> IndexFamily list \<Rightarrow> ConcreteIndex list \<Rightarrow> ConcreteIndex list" where
  "selectConcreteIndexesToCreate up slice idxFamilies existing =
     map (concrete_index slice) (selectIdxFamiliesToCreate up idxFamilies existing)"

definition indexesToCreateFromQueryFamilies ::
    "(string \<Rightarrow> string) \<Rightarrow> (string set \<Rightarrow> string list) \<Rightarrow> AggregateQueryFamily list \<Rightarrow> ConcreteIndex list \<Rightarrow> ConcreteIndex list" where
  "indexesToCreateFromQueryFamilies up slice queryFamilies existing =
     (let familiesToCreate = hs_from (concat (map
            (\<lambda>q. selectIdxFamiliesToCreate up (ToIndexFamilies slice q) existing) queryFamilies))
      in selectConcreteIndexesToCreate up slice (extractMinimalSetOfIdxFamilies familiesToCreate) existing)"

end
