(* ===== verification/Index_Laws.thy ===== *)
theory Index_Laws
  imports Index_Families
begin

text \<open>
  What the choice of indexes guarantees: hashes separate families, combining two families loses no
  column, and every aggregation finds its columns in an index that exists or is to be created.
\<close>

section \<open>Hashes\<close>

text \<open>Names of tables and columns, as the data model accepts them, have no space and no bracket.\<close>

definition name_ok :: "string \<Rightarrow> bool" where
  "name_ok s \<longleftrightarrow> s \<noteq> [] \<and> CHR '' '' \<notin> set s \<and> CHR '']'' \<notin> set s"

definition family_ok :: "IndexFamily \<Rightarrow> bool" where
  "family_ok f \<longleftrightarrow> name_ok (IF_TableName f) \<and> finite (Flex f) \<and> finite (Included f)
     \<and> (\<forall>c\<in>set (Fixed f) \<union> Flex f \<union> Included f. name_ok c) \<and> (Last f = [] \<or> name_ok (Last f))"

lemma split_at:
  "c \<notin> set x \<Longrightarrow> c \<notin> set y \<Longrightarrow> x @ c # xs = y @ c # ys \<longleftrightarrow> x = y \<and> xs = ys"
proof (induction x arbitrary: y)
  case Nil
  then show ?case by (cases y) auto
next
  case (Cons a x)
  then show ?case by (cases y) auto
qed

lemma join_space_Cons: "join_space (x # xs) = (if xs = [] then x else x @ CHR '' '' # join_space xs)"
  by (cases xs) auto

lemma name_not_prefix: "CHR '' '' \<notin> set x \<Longrightarrow> x \<noteq> y @ CHR '' '' # ys"
  by auto

lemma join_space_inj:
  "\<forall>w\<in>set xs \<union> set ys. name_ok w \<Longrightarrow> join_space xs = join_space ys \<Longrightarrow> xs = ys"
proof (induction xs arbitrary: ys)
  case Nil
  then show ?case by (cases ys) (auto simp: join_space_Cons name_ok_def split: if_splits)
next
  case (Cons x xs)
  then obtain y zs where ys: "ys = y # zs" by (cases ys) (auto simp: join_space_Cons name_ok_def split: if_splits)
  have ok: "CHR '' '' \<notin> set x" "CHR '' '' \<notin> set y" using Cons.prems(1) by (auto simp: ys name_ok_def)
  show ?case
  proof (cases "xs = [] \<or> zs = []")
    case True
    with Cons.prems(2) ok show ?thesis
      using name_not_prefix [OF ok(1)] name_not_prefix [OF ok(2)]
      by (auto simp: ys join_space_Cons split: if_splits)
  next
    case False
    with Cons.prems(2) have "x @ CHR '' '' # join_space xs = y @ CHR '' '' # join_space zs"
      by (simp add: ys join_space_Cons)
    with ok have "x = y" "join_space xs = join_space zs" by (auto simp: split_at)
    moreover from this Cons.prems(1) have "xs = zs" by (intro Cons.IH) (auto simp: ys)
    ultimately show ?thesis by (simp add: ys)
  qed
qed

lemma set_join_space: "set (join_space xs) \<subseteq> \<Union>(set ` set xs) \<union> {CHR '' ''}"
  by (induction xs rule: join_space.induct) auto

lemma format_slice_inj:
  assumes "\<forall>w\<in>set xs \<union> set ys. name_ok w" "format_slice xs @ as = format_slice ys @ bs"
  shows "xs = ys \<and> as = bs"
proof -
  have "CHR '']'' \<notin> set (join_space xs)" "CHR '']'' \<notin> set (join_space ys)"
    using assms(1) set_join_space [of xs] set_join_space [of ys] by (auto simp: name_ok_def)
  with assms(2) have "join_space xs = join_space ys" "as = bs" by (auto simp: format_slice_def split_at)
  with join_space_inj [OF assms(1)] show ?thesis by simp
qed

lemma last_no_space: "family_ok f \<Longrightarrow> CHR '' '' \<notin> set (Last f)"
  unfolding family_ok_def name_ok_def by (cases "Last f = []") simp_all

lemma Hash_inj:
  assumes f: "family_ok f" and g: "family_ok g" and hash: "Hash f = Hash g"
  shows "f = g"
proof -
  have table: "CHR '' '' \<notin> set (IF_TableName f)" "CHR '' '' \<notin> set (IF_TableName g)"
    using f g by (auto simp: family_ok_def name_ok_def)
  from hash have "IF_TableName f = IF_TableName g \<and>
      format_slice (Fixed f) @ '' - '' @ format_slice (sorted_list_of_set (Flex f)) @ '' - '' @ Last f
        @ '' - '' @ format_slice (sorted_list_of_set (Included f))
    = format_slice (Fixed g) @ '' - '' @ format_slice (sorted_list_of_set (Flex g)) @ '' - '' @ Last g
        @ '' - '' @ format_slice (sorted_list_of_set (Included g))"
    using split_at [OF table] by (simp add: Hash_def)
  then have t: "IF_TableName f = IF_TableName g" and fixed: "Fixed f = Fixed g"
    and rest: "format_slice (sorted_list_of_set (Flex f)) @ '' - '' @ Last f
        @ '' - '' @ format_slice (sorted_list_of_set (Included f))
    = format_slice (sorted_list_of_set (Flex g)) @ '' - '' @ Last g
        @ '' - '' @ format_slice (sorted_list_of_set (Included g))"
    using format_slice_inj [of "Fixed f" "Fixed g"] f g by (auto simp: family_ok_def)
  from rest have "sorted_list_of_set (Flex f) = sorted_list_of_set (Flex g)"
    and last: "Last f @ CHR '' '' # (''- '' @ format_slice (sorted_list_of_set (Included f)))
      = Last g @ CHR '' '' # (''- '' @ format_slice (sorted_list_of_set (Included g)))"
    using format_slice_inj [of "sorted_list_of_set (Flex f)" "sorted_list_of_set (Flex g)"] f g
    by (auto simp: family_ok_def)
  then have "Flex f = Flex g" using f g by (metis family_ok_def set_sorted_list_of_set)
  moreover have "CHR '' '' \<notin> set (Last f)" "CHR '' '' \<notin> set (Last g)"
    using f g by (simp_all add: last_no_space)
  from split_at [OF this] last have "Last f = Last g"
    and "format_slice (sorted_list_of_set (Included f)) = format_slice (sorted_list_of_set (Included g))" by auto
  moreover from this(2) have "sorted_list_of_set (Included f) = sorted_list_of_set (Included g)"
    using format_slice_inj [of "sorted_list_of_set (Included f)" "sorted_list_of_set (Included g)" "[]" "[]"] f g
    by (auto simp: family_ok_def)
  then have "Included f = Included g" using f g by (metis family_ok_def set_sorted_list_of_set)
  ultimately show ?thesis using t fixed by (auto intro: IndexFamily.equality)
qed

lemma set_hs_insert: "set (hs_insert f fs) \<subseteq> insert f (set fs)" "set fs \<subseteq> set (hs_insert f fs)"
  by auto

lemma hs_fold_subset: "set (fold hs_insert fs gs) \<subseteq> set fs \<union> set gs"
  by (induction fs arbitrary: gs) (auto split: if_splits simp del: hs_insert.simps dest!: set_mp [OF set_hs_insert(1)])

lemma hs_fold_superset:
  "\<forall>f\<in>set fs \<union> set gs. family_ok f \<Longrightarrow> set fs \<union> set gs \<subseteq> set (fold hs_insert fs gs)"
proof (induction fs arbitrary: gs)
  case (Cons f fs)
  have "f \<in> set (hs_insert f gs)"
    using Cons.prems by (auto simp: list_ex_iff dest: Hash_inj)
  moreover have "\<forall>g\<in>set fs \<union> set (hs_insert f gs). family_ok g" using Cons.prems by auto
  from Cons.IH [OF this] have "set fs \<union> set (hs_insert f gs) \<subseteq> set (fold hs_insert fs (hs_insert f gs))" .
  ultimately show ?case using set_hs_insert(2) [of gs f] by (simp del: hs_insert.simps) blast
qed simp

lemma set_hs_from: "\<forall>f\<in>set fs. family_ok f \<Longrightarrow> set (hs_from fs) = set fs"
  using hs_fold_subset [of fs "[]"] hs_fold_superset [of fs "[]"] by (auto simp: hs_from_def)

section \<open>Combining families loses no column\<close>

definition columns :: "IndexFamily \<Rightarrow> string set" where
  "columns f = AllIndexedValues f \<union> Included f"

definition keeps :: "IndexFamily \<Rightarrow> IndexFamily \<Rightarrow> bool" where
  "keeps C A \<longleftrightarrow> AllIndexedValues A \<subseteq> AllIndexedValues C \<and> Included A \<subseteq> Included C \<union> AllIndexedValues C"

lemma keeps_refl [simp]: "keeps A A"
  by (auto simp: keeps_def)

lemma keeps_trans: "keeps C B \<Longrightarrow> keeps B A \<Longrightarrow> keeps C A"
  by (auto simp: keeps_def)

lemma SetLast_simps [simp]:
  "IF_TableName (SetLast l f) = IF_TableName f" "Included (SetLast l f) = Included f" "Flex (SetLast l f) = Flex f"
  by (simp_all add: SetLast_def)

lemma indexed_SetLast:
  "AllIndexedValues (SetLast l f) = Flex f \<union> set (Fixed f) \<union> (if l \<noteq> [] then {l} else {})"
  by (auto simp: SetLast_def AllIndexedValues_def)

lemma MergeIncluded_simps [simp]:
  "IF_TableName (MergeIncluded f B) = IF_TableName f" "Flex (MergeIncluded f B) = Flex f"
  "Fixed (MergeIncluded f B) = Fixed f" "Last (MergeIncluded f B) = Last f"
  by (simp_all add: MergeIncluded_def)

lemma indexed_MergeIncluded [simp]: "AllIndexedValues (MergeIncluded f B) = AllIndexedValues f"
  by (simp add: AllIndexedValues_def)

lemma Included_MergeIncluded:
  "Included (MergeIncluded f B) = Included f \<union> Included B - AllIndexedValues f"
  by (simp add: MergeIncluded_def AllIndexedValues_def)

text \<open>A combination built on a copy of \<open>B\<close> keeps both as soon as it indexes the columns of both.\<close>

lemma keeps_MergeIncluded:
  assumes "AllIndexedValues A \<union> AllIndexedValues B \<subseteq> AllIndexedValues out" "Included out = Included B"
  shows "keeps (MergeIncluded out A) A \<and> keeps (MergeIncluded out A) B"
  using assms by (auto simp: keeps_def Included_MergeIncluded)

text \<open>The three cases of the code, by the number of indexed columns.\<close>

lemma refine_more:
  assumes "refineIdxFamiliesFirstHasNoFixed A B = Some C" "Size A > Size B" "Fixed A = []" "finite (Flex B)"
  shows "\<exists>out. C = MergeIncluded out A \<and> Included out = Included B \<and> IF_TableName out = IF_TableName B
     \<and> AllIndexedValues out = AllIndexedValues A \<union> AllIndexedValues B \<and> Flex out \<subseteq> Flex A \<union> Flex B"
proof -
  define fixed where "fixed = (if Last B \<noteq> [] then Fixed B @ sorted_list_of_set (Flex B) @ [Last B] else Fixed B)"
  let ?out = "SetLast (Last A) (B\<lparr>Fixed := fixed, Flex := Flex A - set fixed\<rparr>)"
  from assms have C: "C = MergeIncluded ?out A" and sub: "AllIndexedValues B \<subseteq> AllIndexedValues A"
    by (auto simp: refineIdxFamiliesFirstHasNoFixed_def Let_def fixed_def split: if_splits)
  have fixed: "set fixed \<subseteq> AllIndexedValues B" using assms(4) by (auto simp: fixed_def AllIndexedValues_def)
  have all: "AllIndexedValues A = Flex A \<union> (if Last A \<noteq> [] then {Last A} else {})"
    using assms(3) by (simp add: AllIndexedValues_def)
  have out: "AllIndexedValues ?out = Flex A \<union> set fixed \<union> (if Last A \<noteq> [] then {Last A} else {})"
    by (simp add: indexed_SetLast)
  have "AllIndexedValues ?out = AllIndexedValues A"
    using fixed sub unfolding out all by blast
  with C sub show ?thesis by (intro exI [of _ ?out]) auto
qed

lemma refine_same:
  assumes "refineIdxFamiliesFirstHasNoFixed A B = Some C" "Size A = Size B"
  shows "\<exists>out. C = MergeIncluded out A \<and> Included out = Included B \<and> IF_TableName out = IF_TableName B
     \<and> AllIndexedValues out = AllIndexedValues A \<union> AllIndexedValues B \<and> Flex out \<subseteq> Flex A \<union> Flex B"
proof -
  have eq: "AllIndexedValues A = AllIndexedValues B"
    using assms by (auto simp: refineIdxFamiliesFirstHasNoFixed_def split: if_splits)
  from assms consider "C = MergeIncluded B A"
    | "Last B = []" "Last A \<in> Flex B" "C = MergeIncluded (SetLast (Last A) (B\<lparr>Flex := Flex B - {Last A}\<rparr>)) A"
      "Last A \<noteq> []"
    by (auto simp: refineIdxFamiliesFirstHasNoFixed_def split: if_splits)
  then show ?thesis
  proof cases
    case 1
    with eq show ?thesis by (intro exI [of _ B]) auto
  next
    case 2
    then have "AllIndexedValues (SetLast (Last A) (B\<lparr>Flex := Flex B - {Last A}\<rparr>)) = AllIndexedValues B"
      by (auto simp: indexed_SetLast) (auto simp: AllIndexedValues_def)
    with 2 eq show ?thesis by (intro exI [of _ "SetLast (Last A) (B\<lparr>Flex := Flex B - {Last A}\<rparr>)"]) auto
  qed
qed

lemma refine_less:
  assumes "refineIdxFamiliesFirstHasNoFixed A B = Some C" "Size A < Size B" "finite (Flex B)"
  shows "\<exists>out. C = MergeIncluded out A \<and> Included out = Included B \<and> IF_TableName out = IF_TableName B
     \<and> AllIndexedValues out = AllIndexedValues A \<union> AllIndexedValues B \<and> Flex out \<subseteq> Flex A \<union> Flex B"
proof -
  have sub: "AllIndexedValues A \<subseteq> AllIndexedValues B"
    using assms by (auto simp: refineIdxFamiliesFirstHasNoFixed_def split: if_splits)
  define fixed where "fixed = Fixed B @ sorted_list_of_set (Flex B \<inter> Flex A) @ [Last A]"
  let ?taken = "B\<lparr>Flex := Flex B - set (take (Size A) (Fixed B))\<rparr>"
  let ?out = "B\<lparr>Fixed := fixed, Flex := Flex B - set fixed\<rparr>"
  let ?out' = "if Flex ?out = {} then SetLast (Last B) ?out else ?out"
  from assms consider "C = MergeIncluded B A" | "C = MergeIncluded ?taken A"
    | "C = MergeIncluded ?out' A" "Last A \<noteq> []"
    by (auto simp: refineIdxFamiliesFirstHasNoFixed_def Let_def fixed_def split: if_splits)
  then show ?thesis
  proof cases
    case 1
    with sub show ?thesis by (intro exI [of _ B]) auto
  next
    case 2
    have "AllIndexedValues ?taken = AllIndexedValues B"
      by (auto simp: AllIndexedValues_def dest: in_set_takeD)
    with 2 sub show ?thesis by (intro exI [of _ ?taken]) auto
  next
    case 3
    have "Last A \<noteq> [] \<Longrightarrow> set fixed \<subseteq> AllIndexedValues B"
      using sub assms(3) by (auto simp: fixed_def AllIndexedValues_def)
    with 3 have "AllIndexedValues ?out' = AllIndexedValues B"
      by (auto simp: indexed_SetLast) (auto simp: AllIndexedValues_def fixed_def)
    moreover have "Flex ?out' \<subseteq> Flex B" by auto
    moreover have "Included ?out' = Included B" "IF_TableName ?out' = IF_TableName B" by simp_all
    ultimately show ?thesis using 3 sub by (intro exI [of _ ?out'] conjI) (blast | simp only:)+
  qed
qed

lemma refine_first:
  assumes "refineIdxFamiliesFirstHasNoFixed A B = Some C" "Fixed A = []" "finite (Flex B)"
  obtains out where "C = MergeIncluded out A" "Included out = Included B" "IF_TableName out = IF_TableName B"
    "AllIndexedValues out = AllIndexedValues A \<union> AllIndexedValues B" "Flex out \<subseteq> Flex A \<union> Flex B"
  using refine_more [OF assms(1)] refine_same [OF assms(1)] refine_less [OF assms(1)] assms(2,3)
  by (metis linorder_neqE_nat)

text \<open>In the reduction, the family that comes in has no fixed column, so there is no common prefix.\<close>

lemma refine_keeps:
  assumes "refineIdxFamilies left right = Some C" "Fixed right = []" "finite (Flex left)"
  shows "keeps C left \<and> keeps C right \<and> IF_TableName C = IF_TableName left
     \<and> columns C \<subseteq> columns left \<union> columns right \<and> Flex C \<subseteq> Flex left \<union> Flex right
     \<and> Included C \<subseteq> Included left \<union> Included right"
proof -
  from assms(1,2) have "refineIdxFamiliesFirstHasNoFixed right left = Some C"
    by (simp add: refineIdxFamilies.simps common_prefix_length_def)
  from refine_first [OF this assms(2,3)] obtain out where out: "C = MergeIncluded out right"
    "Included out = Included left" "IF_TableName out = IF_TableName left"
    "AllIndexedValues out = AllIndexedValues right \<union> AllIndexedValues left" "Flex out \<subseteq> Flex right \<union> Flex left"
    by blast
  with keeps_MergeIncluded [of right left out] show ?thesis
    by (auto simp: columns_def Included_MergeIncluded)
qed

lemma family_ok_iff:
  "family_ok f \<longleftrightarrow> name_ok (IF_TableName f) \<and> finite (Flex f) \<and> finite (Included f) \<and> (\<forall>c\<in>columns f. name_ok c)"
proof -
  have "name_ok [] = False" by (simp add: name_ok_def)
  then show ?thesis by (auto simp: family_ok_def columns_def AllIndexedValues_def split: if_splits)
qed

lemma refine_ok:
  assumes "refineIdxFamilies left right = Some C" "Fixed right = []" "family_ok left" "family_ok right"
  shows "family_ok C \<and> keeps C left \<and> keeps C right \<and> IF_TableName C = IF_TableName left"
  using refine_keeps [OF assms(1,2)] assms(3,4)
  by (auto simp: family_ok_iff intro: finite_subset)

section \<open>The minimal set keeps every family\<close>

text \<open>\<open>served out f\<close>: a family of \<open>out\<close>, on the same table, has the columns of \<open>f\<close>.\<close>

definition served :: "IndexFamily list \<Rightarrow> IndexFamily \<Rightarrow> bool" where
  "served out f \<longleftrightarrow> (\<exists>C\<in>set out. keeps C f \<and> IF_TableName C = IF_TableName f)"

lemma served_mono: "served out f \<Longrightarrow> set out \<subseteq> set out' \<Longrightarrow> served out' f"
  by (auto simp: served_def)

lemma combine_into_Some:
  "combine_into idxIn outs = Some (combined, rest) \<Longrightarrow>
     \<exists>idxOut. refineIdxFamilies idxOut idxIn = Some combined \<and> set outs = insert idxOut (set rest)"
proof (induction outs arbitrary: rest)
  case (Cons idxOut outs)
  then show ?case by (auto split: option.splits) blast
qed simp

lemma reduce_step_ok:
  assumes "family_ok idxIn" "Fixed idxIn = []" "IF_TableName idxIn = table"
    and "\<forall>g\<in>set outs. family_ok g \<and> IF_TableName g = table"
  shows "(\<forall>g\<in>set (reduce_step idxIn outs). family_ok g \<and> IF_TableName g = table)
     \<and> served (reduce_step idxIn outs) idxIn
     \<and> (\<forall>f. served outs f \<longrightarrow> served (reduce_step idxIn outs) f)"
proof (cases "combine_into idxIn outs")
  case None
  with assms show ?thesis by (auto simp: reduce_step_def served_def)
next
  case (Some p)
  then obtain combined rest where c: "combine_into idxIn outs = Some (combined, rest)" by (cases p) auto
  from combine_into_Some [OF c] obtain idxOut where r: "refineIdxFamilies idxOut idxIn = Some combined"
    and out: "set outs = insert idxOut (set rest)" by blast
  from refine_ok [OF r assms(2)] assms out
  have ok: "family_ok combined" "keeps combined idxOut" "keeps combined idxIn" "IF_TableName combined = table"
    and table: "IF_TableName idxOut = table" by auto
  have "served (reduce_step idxIn outs) f" if "served outs f" for f
    using that ok table keeps_trans [of combined idxOut f] out by (auto simp: served_def reduce_step_def c)
  with ok assms out show ?thesis by (auto simp: served_def reduce_step_def c)
qed

lemma reduce_fold_ok:
  assumes "\<forall>f\<in>set fs. family_ok f \<and> Fixed f = [] \<and> IF_TableName f = table"
    and "\<forall>g\<in>set outs. family_ok g \<and> IF_TableName g = table"
  shows "(\<forall>g\<in>set (fold reduce_step fs outs). family_ok g \<and> IF_TableName g = table)
     \<and> (\<forall>f. f \<in> set fs \<or> served outs f \<longrightarrow> served (fold reduce_step fs outs) f)"
  using assms
proof (induction fs arbitrary: outs)
  case (Cons idxIn fs)
  let ?outs = "reduce_step idxIn outs"
  have "family_ok idxIn" "Fixed idxIn = []" "IF_TableName idxIn = table" using Cons.prems(1) by simp_all
  note step = reduce_step_ok [OF this Cons.prems(2)]
  have "\<forall>f\<in>set fs. family_ok f \<and> Fixed f = [] \<and> IF_TableName f = table" using Cons.prems(1) by simp
  from Cons.IH [OF this] step
  have ok: "\<forall>g\<in>set (fold reduce_step fs ?outs). family_ok g \<and> IF_TableName g = table"
    and served: "\<And>f. f \<in> set fs \<or> served ?outs f \<Longrightarrow> served (fold reduce_step fs ?outs) f" by blast+
  have "served (fold reduce_step fs ?outs) f" if "f \<in> set (idxIn # fs) \<or> served outs f" for f
    using that step by (intro served) auto
  with ok show ?case by simp
qed auto

lemma minimal_one_table:
  assumes "\<forall>f\<in>set fs. family_ok f \<and> Fixed f = [] \<and> IF_TableName f = table"
  shows "(\<forall>g\<in>set (extractMinimalSetOfIdxFamiliesOneTable fs). family_ok g)
     \<and> (\<forall>f\<in>set fs. served (extractMinimalSetOfIdxFamiliesOneTable fs) f)"
proof -
  note fold = reduce_fold_ok [of "sort_key Hash fs" table "[]"]
  have ok: "\<forall>g\<in>set (fold reduce_step (sort_key Hash fs) []). family_ok g"
    and served: "\<forall>f\<in>set fs. served (fold reduce_step (sort_key Hash fs) []) f"
    using fold assms by simp_all
  from set_hs_from [OF ok] ok served show ?thesis
    by (simp add: extractMinimalSetOfIdxFamiliesOneTable_def served_def)
qed

lemma minimal_set_serves:
  assumes "\<forall>f\<in>set fs. family_ok f \<and> Fixed f = []"
  shows "(\<forall>g\<in>set (extractMinimalSetOfIdxFamilies fs). family_ok g)
     \<and> (\<forall>f\<in>set fs. served (extractMinimalSetOfIdxFamilies fs) f)"
proof -
  let ?of = "\<lambda>table. filter (\<lambda>f. IF_TableName f = table) fs"
  let ?all = "concat (map (\<lambda>table. extractMinimalSetOfIdxFamiliesOneTable (?of table)) (remdups (map IF_TableName fs)))"
  have one: "(\<forall>g\<in>set (extractMinimalSetOfIdxFamiliesOneTable (?of table)). family_ok g)
     \<and> (\<forall>f\<in>set (?of table). served (extractMinimalSetOfIdxFamiliesOneTable (?of table)) f)" for table
    using assms(1) by (intro minimal_one_table [of _ table]) auto
  then have ok: "\<forall>g\<in>set ?all. family_ok g" by auto
  then have eq: "set (extractMinimalSetOfIdxFamilies fs) = set ?all"
    by (simp add: extractMinimalSetOfIdxFamilies_def set_hs_from)
  have "served (extractMinimalSetOfIdxFamilies fs) f" if "f \<in> set fs" for f
  proof (rule served_mono)
    show "served (extractMinimalSetOfIdxFamiliesOneTable (?of (IF_TableName f))) f"
      using one [of "IF_TableName f"] that by simp
    show "set (extractMinimalSetOfIdxFamiliesOneTable (?of (IF_TableName f))) \<subseteq> set (extractMinimalSetOfIdxFamilies fs)"
      using that by (auto simp: eq)
  qed
  with ok eq show ?thesis by simp
qed

section \<open>What an index offers\<close>

text \<open>An index has the columns of a family: the ones to search among its keys, the others anywhere.\<close>

definition has_columns :: "(string \<Rightarrow> string) \<Rightarrow> ConcreteIndex \<Rightarrow> IndexFamily \<Rightarrow> bool" where
  "has_columns up i f \<longleftrightarrow> up (CI_TableName i) = up (IF_TableName f)
     \<and> up ` AllIndexedValues f \<subseteq> up ` set (Indexed i)
     \<and> up ` Included f \<subseteq> up ` (set (Indexed i) \<union> set (CI_Included i))"

lemma has_columns_keeps: "has_columns up i C \<Longrightarrow> keeps C f \<Longrightarrow> IF_TableName C = IF_TableName f \<Longrightarrow> has_columns up i f"
  unfolding has_columns_def keeps_def image_Un by (auto 0 4)

lemma concrete_index_has_columns:
  assumes "\<And>S. finite S \<Longrightarrow> set (slice S) = S" "family_ok f"
  shows "has_columns up (concrete_index slice f) f"
  using assms by (auto simp: has_columns_def concrete_index_def AllIndexedValues_def family_ok_def)

lemma Covers_flex:
  assumes "Covers up i f" "finite (Flex f)"
  shows "up ` Flex f \<subseteq> set (take (card (up ` Flex f)) (drop (length (Fixed f)) (map up (Indexed i))))"
proof (cases "Flex f = {}")
  case False
  with assms(2) have "card (up ` Flex f) > 0" by (simp add: card_gt_0_iff)
  with assms(1) show ?thesis by (auto simp: Covers_def Let_def)
qed simp

lemma Covers_fixed: "Covers up i f \<Longrightarrow> set (map up (Fixed f)) \<subseteq> set (map up (Indexed i))"
  unfolding Covers_def Let_def by (metis set_take_subset)

lemma Covers_last:
  assumes "Covers up i f" "up (Last f) \<noteq> []"
  shows "up (Last f) \<in> set (map up (Indexed i))"
proof -
  let ?sz = "length (Fixed f) + card (up ` Flex f) + 1"
  from assms have "?sz \<le> length (map up (Indexed i))" "map up (Indexed i) ! (?sz - 1) = up (Last f)"
    by (simp_all add: Covers_def Let_def)
  then show ?thesis by (metis nth_mem add_gr_0 diff_less less_le_trans zero_less_one)
qed

lemma Covers_included:
  assumes "Covers up i f"
  shows "up ` Included f \<subseteq> up ` (set (Indexed i) \<union> set (CI_Included i))"
proof -
  let ?rest = "set (drop (length (Fixed f) + card (up ` Flex f)) (map up (Indexed i)))"
  from assms have "up ` Included f \<subseteq> set (map up (CI_Included i)) \<or>
      up ` Included f \<subseteq> set (map up (CI_Included i)) \<union> ?rest"
    by (cases "up (Last f) = []") (simp_all add: Covers_def Let_def)
  moreover have "?rest \<subseteq> set (map up (Indexed i))" by (rule set_drop_subset)
  ultimately show ?thesis by (simp only: set_map image_Un) blast
qed

lemma Covers_has_columns:
  assumes "Covers up i f" "finite (Flex f)" "\<And>s. up s = [] \<longleftrightarrow> s = []"
  shows "has_columns up i f"
proof -
  have "up ` Flex f \<subseteq> up ` set (Indexed i)"
    using Covers_flex [OF assms(1,2)] set_take_subset set_drop_subset by (metis (no_types) set_map subset_trans)
  moreover have "up ` set (Fixed f) \<subseteq> up ` set (Indexed i)" using Covers_fixed [OF assms(1)] by simp
  moreover have "Last f \<noteq> [] \<Longrightarrow> up (Last f) \<in> up ` set (Indexed i)" using Covers_last [OF assms(1)] assms(3) by simp
  moreover have "up (CI_TableName i) = up (IF_TableName f)" using assms(1) by (simp add: Covers_def Let_def)
  ultimately show ?thesis using Covers_included [OF assms(1)]
    by (simp add: has_columns_def AllIndexedValues_def image_Un)
qed

end
