(* ===== verification/Index_Properties.thy ===== *)
theory Index_Properties
  imports Index_Laws
begin

text \<open>
  What the creation of indexes promises: when an index covers a family, that every aggregation has
  its columns in some index, and that a second run creates nothing.
\<close>

section \<open>When an index covers a family\<close>

lemma length_3E:
  assumes "length as + n + k \<le> length xs" "take (length as) xs = as"
  obtains p l rest where "xs = as @ p @ l @ rest" "length p = n" "length l = k"
    "p = take n (drop (length as) xs)"
proof
  let ?p = "take n (drop (length as) xs)" and ?l = "take k (drop (length as + n) xs)"
    and ?rest = "drop (length as + n + k) xs"
  have "xs = as @ drop (length as) xs" using assms(2) by (metis append_take_drop_id)
  also have "drop (length as) xs = ?p @ drop (length as + n) xs"
    by (metis append_take_drop_id drop_drop add.commute)
  also have "drop (length as + n) xs = ?l @ ?rest" by (metis append_take_drop_id drop_drop add.commute)
  finally show "xs = as @ ?p @ ?l @ ?rest" .
  show "length ?p = n" "length ?l = k" using assms(1) by simp_all
qed simp

definition serves_order :: "(string \<Rightarrow> string) \<Rightarrow> ConcreteIndex \<Rightarrow> IndexFamily \<Rightarrow> bool" where
  "serves_order up i f \<longleftrightarrow> up (CI_TableName i) = up (IF_TableName f) \<and>
     (\<exists>p rest. map up (Indexed i) = map up (Fixed f) @ p @ (if up (Last f) = [] then [] else [up (Last f)]) @ rest
        \<and> length p = card (up ` Flex f) \<and> set p = up ` Flex f
        \<and> up ` Included f \<subseteq> up ` set (CI_Included i) \<union> (if up (Last f) = [] then set rest else {}))"

lemma set_full:
  assumes "finite S" "S \<subseteq> set p" "length p = card S"
  shows "set p = S"
proof -
  have "card (set p) \<le> card S" using assms(3) card_length [of p] by simp
  with assms(1,2) show ?thesis by (metis card_seteq List.finite_set)
qed

lemma Covers_serves_order:
  assumes "Covers up i f" "finite (Flex f)"
  shows "serves_order up i f"
proof (cases "up (Last f) = []")
  case True
  from assms(1) True have
    len: "length (map up (Fixed f)) + card (up ` Flex f) + 0 \<le> length (map up (Indexed i))" and
    pre: "take (length (map up (Fixed f))) (map up (Indexed i)) = map up (Fixed f)" and
    flex: "set (take (card (up ` Flex f)) (drop (length (map up (Fixed f))) (map up (Indexed i)))) = up ` Flex f" and
    inc: "up ` Included f \<subseteq> set (map up (CI_Included i)) \<union>
       set (drop (length (map up (Fixed f)) + card (up ` Flex f)) (map up (Indexed i)))" and
    table: "up (CI_TableName i) = up (IF_TableName f)"
    by (simp_all add: Covers_def Let_def)
  from length_3E [OF len pre] obtain p l rest where
    e: "map up (Indexed i) = map up (Fixed f) @ p @ l @ rest" "length p = card (up ` Flex f)" "length l = 0"
      "p = take (card (up ` Flex f)) (drop (length (map up (Fixed f))) (map up (Indexed i)))" .
  have "drop (length (map up (Fixed f)) + card (up ` Flex f)) (map up (Indexed i)) = rest"
    using e(1,2,3) by simp
  with inc have inc': "up ` Included f \<subseteq> up ` set (CI_Included i) \<union> set rest" by simp
  have "set p = up ` Flex f" using flex e(4) by simp
  moreover have "map up (Indexed i) = map up (Fixed f) @ p @ rest" using e(1,3) by simp
  ultimately show ?thesis using e(2) inc' table True unfolding serves_order_def
    by (intro conjI exI [of _ p] exI [of _ rest]) simp_all
next
  case False
  from assms(1) False have
    len: "length (map up (Fixed f)) + card (up ` Flex f) + 1 \<le> length (map up (Indexed i))" and
    pre: "take (length (map up (Fixed f))) (map up (Indexed i)) = map up (Fixed f)" and
    lst: "map up (Indexed i) ! (length (map up (Fixed f)) + card (up ` Flex f)) = up (Last f)" and
    inc: "up ` Included f \<subseteq> set (map up (CI_Included i))" and
    table: "up (CI_TableName i) = up (IF_TableName f)"
    by (simp_all add: Covers_def Let_def)
  from length_3E [OF len pre] obtain p l rest where
    e: "map up (Indexed i) = map up (Fixed f) @ p @ l @ rest" "length p = card (up ` Flex f)" "length l = 1"
      "p = take (card (up ` Flex f)) (drop (length (map up (Fixed f))) (map up (Indexed i)))" .
  obtain x where l: "l = [x]" using e(3) by (cases l) auto
  have "map up (Indexed i) ! (length (map up (Fixed f)) + card (up ` Flex f)) = x"
    unfolding e(1) l e(2) [symmetric] by (simp add: nth_append)
  with lst have x: "x = up (Last f)" by simp
  have "up ` Flex f \<subseteq> set p" using Covers_flex [OF assms] e(4) by simp
  with e(2) assms(2) have "set p = up ` Flex f" by (intro set_full) simp_all
  moreover have "map up (Indexed i) = map up (Fixed f) @ p @ [up (Last f)] @ rest" using e(1) l x by simp
  ultimately show ?thesis using e(2) inc table False unfolding serves_order_def
    by (intro conjI exI [of _ p] exI [of _ rest]) simp_all
qed

lemma serves_order_Covers:
  assumes "serves_order up i f"
  shows "Covers up i f"
proof -
  from assms obtain p rest where
    e: "map up (Indexed i) = map up (Fixed f) @ p @ (if up (Last f) = [] then [] else [up (Last f)]) @ rest" and
    p: "length p = card (up ` Flex f)" "set p = up ` Flex f" and
    inc: "up ` Included f \<subseteq> up ` set (CI_Included i) \<union> (if up (Last f) = [] then set rest else {})" and
    table: "up (CI_TableName i) = up (IF_TableName f)"
    unfolding serves_order_def by blast
  show ?thesis
    using p inc table unfolding Covers_def Let_def e
    by (cases "up (Last f) = []") (simp_all add: p(1) [symmetric] nth_append)
qed

text \<open>C34: \<open>Covers\<close> holds exactly when the index has the table of the family and starts with its fixed
  columns, then its flexible columns in some order, then its last column when it has one, the
  columns to include being stored with the index or, without a last column, following as keys.\<close>

theorem covers_iff_serves_order:
  assumes "finite (Flex f)"
  shows "Covers up i f \<longleftrightarrow> serves_order up i f"
  using assms Covers_serves_order serves_order_Covers by blast

theorem covers_iff_serves_order_witness:
  "Covers (\<lambda>s. s) \<lparr>CI_TableName = ''t'', Indexed = [''b'', ''a'', ''c''], CI_Included = [''d'']\<rparr>
      \<lparr>IF_TableName = ''t'', Fixed = [], Flex = {''a'', ''b''}, Last = ''c'', Included = {''d''}\<rparr>"
  unfolding covers_iff_serves_order [of "\<lparr>IF_TableName = ''t'', Fixed = [], Flex = {''a'', ''b''},
      Last = ''c'', Included = {''d''}\<rparr>", simplified]
  unfolding serves_order_def
  by (intro conjI exI [of _ "[''b'', ''a'']"] exI [of _ "[]"]) auto

section \<open>Every aggregation finds its columns\<close>

definition query_ok :: "AggregateQueryFamily \<Rightarrow> bool" where
  "query_ok q \<longleftrightarrow> name_ok (AQF_TableName q)
     \<and> finite (EqConditions q) \<and> finite (IneqConditions q) \<and> finite (SelectOrOtherConditions q)
     \<and> (\<forall>c\<in>EqConditions q \<union> IneqConditions q \<union> SelectOrOtherConditions q. name_ok c)"

text \<open>The family that has \<open>lst\<close> as last column; the query has no inequality when \<open>lst\<close> is empty.\<close>

definition family_for :: "AggregateQueryFamily \<Rightarrow> string \<Rightarrow> IndexFamily" where
  "family_for q lst = \<lparr>IF_TableName = AQF_TableName q, Fixed = [], Flex = EqConditions q, Last = lst,
     Included = SelectOrOtherConditions q \<union> (IneqConditions q - {lst})\<rparr>"

lemma family_for_ok:
  assumes "query_ok q" "lst \<in> IneqConditions q \<or> lst = []"
  shows "family_ok (family_for q lst)" "Fixed (family_for q lst) = []"
  using assms by (auto simp: family_for_def family_ok_def query_ok_def name_ok_def)

lemma set_ToIndexFamilies:
  assumes "query_ok q" "\<And>S. finite S \<Longrightarrow> set (slice S) = S"
  shows "set (ToIndexFamilies slice q) =
    (if EqConditions q = {} \<and> IneqConditions q = {} then {}
     else if IneqConditions q = {} then {family_for q []} else family_for q ` IneqConditions q)"
proof -
  let ?fs = "map (family_for q) (slice (IneqConditions q))"
  have fin: "set (slice (IneqConditions q)) = IneqConditions q" using assms by (simp add: query_ok_def)
  have "\<forall>f\<in>set ?fs. family_ok f" using family_for_ok(1) [OF assms(1)] fin by auto
  from set_hs_from [OF this] fin have "set (hs_from ?fs) = family_for q ` IneqConditions q" by simp
  moreover have "ToIndexFamilies slice q = hs_from ?fs"
    if "IneqConditions q \<noteq> {}"
    using that by (simp add: ToIndexFamilies_def NewIndexFamily_def family_for_def Let_def cong: map_cong)
  moreover have "ToIndexFamilies slice q = [family_for q []]"
    if "IneqConditions q = {}" "EqConditions q \<noteq> {}"
    using that by (simp add: ToIndexFamilies_def NewIndexFamily_def family_for_def Let_def hs_from_def)
  moreover have "ToIndexFamilies slice q = []" if "EqConditions q = {} \<and> IneqConditions q = {}"
    using that by (simp add: ToIndexFamilies_def)
  ultimately show ?thesis by auto
qed

lemma set_selectIdxFamiliesToCreate:
  assumes "\<forall>f\<in>set fs. family_ok f"
  shows "set (selectIdxFamiliesToCreate up fs existing) = {f\<in>set fs. \<not> (\<exists>i\<in>set existing. Covers up i f)}"
  using assms by (subst selectIdxFamiliesToCreate_def, subst set_hs_from) (auto simp: list_ex_iff)

lemma index_for_family:
  assumes slice: "\<And>S. finite S \<Longrightarrow> set (slice S) = S" and up: "\<And>s. up s = [] \<longleftrightarrow> s = []"
    and ok: "\<forall>f\<in>set fs. family_ok f" and f: "f \<in> set fs"
  shows "\<exists>i\<in>set (existing @ selectConcreteIndexesToCreate up slice fs existing). has_columns up i f"
proof (cases "\<exists>i\<in>set existing. Covers up i f")
  case True
  then obtain i where "i \<in> set existing" "Covers up i f" by blast
  moreover have "finite (Flex f)" using ok f by (simp add: family_ok_def)
  ultimately show ?thesis using Covers_has_columns [OF _ _ up] by auto
next
  case False
  with f have "concrete_index slice f \<in> set (selectConcreteIndexesToCreate up slice fs existing)"
    by (simp add: selectConcreteIndexesToCreate_def set_selectIdxFamiliesToCreate [OF ok])
  moreover have "has_columns up (concrete_index slice f) f"
    using ok f by (intro concrete_index_has_columns slice) simp_all
  ultimately show ?thesis by auto
qed

lemma pipeline_index:
  assumes slice: "\<And>S. finite S \<Longrightarrow> set (slice S) = S" and up: "\<And>s. up s = [] \<longleftrightarrow> s = []"
    and ok: "\<forall>q\<in>set qs. query_ok q" and q: "q \<in> set qs" and f: "f \<in> set (ToIndexFamilies slice q)"
  shows "\<exists>i\<in>set (existing @ indexesToCreateFromQueryFamilies up slice qs existing). has_columns up i f"
proof -
  let ?needed = "concat (map (\<lambda>q. selectIdxFamiliesToCreate up (ToIndexFamilies slice q) existing) qs)"
  have fam: "family_ok g \<and> Fixed g = []" if "q' \<in> set qs" "g \<in> set (ToIndexFamilies slice q')" for q' g
    using that ok family_for_ok set_ToIndexFamilies [of q' slice, OF _ slice] by (auto split: if_splits)
  have sel: "set (selectIdxFamiliesToCreate up (ToIndexFamilies slice q') existing)
      = {g\<in>set (ToIndexFamilies slice q'). \<not> (\<exists>i\<in>set existing. Covers up i g)}" if "q' \<in> set qs" for q'
    using fam [OF that] by (intro set_selectIdxFamiliesToCreate) simp
  have needed: "\<forall>g\<in>set ?needed. family_ok g \<and> Fixed g = []" using sel fam by auto
  then have hs: "set (hs_from ?needed) = set ?needed" by (intro set_hs_from) blast
  have minimal: "(\<forall>g\<in>set (extractMinimalSetOfIdxFamilies (hs_from ?needed)). family_ok g)
     \<and> (\<forall>g\<in>set ?needed. served (extractMinimalSetOfIdxFamilies (hs_from ?needed)) g)"
    using minimal_set_serves [of "hs_from ?needed", unfolded hs, OF needed] .
  show ?thesis
  proof (cases "\<exists>i\<in>set existing. Covers up i f")
    case True
    moreover have "finite (Flex f)" using fam [OF q f] by (simp add: family_ok_def)
    ultimately show ?thesis using Covers_has_columns [OF _ _ up] by auto
  next
    case False
    with sel [OF q] f q have "f \<in> set ?needed" by auto
    from bspec [OF conjunct2 [OF minimal] this]
    obtain C where C: "C \<in> set (extractMinimalSetOfIdxFamilies (hs_from ?needed))"
      "keeps C f" "IF_TableName C = IF_TableName f" unfolding served_def by blast
    have "indexesToCreateFromQueryFamilies up slice qs existing
        = selectConcreteIndexesToCreate up slice (extractMinimalSetOfIdxFamilies (hs_from ?needed)) existing"
      by (simp only: indexesToCreateFromQueryFamilies_def Let_def)
    with index_for_family [OF slice up conjunct1 [OF minimal] C(1)] obtain i where
      "i \<in> set (existing @ indexesToCreateFromQueryFamilies up slice qs existing)" "has_columns up i C" by metis
    with has_columns_keeps [OF _ C(2,3)] show ?thesis by blast
  qed
qed

text \<open>C33: once the missing indexes are created, every aggregation has an index of its table with the
  columns of its equality conditions and of any one of its inequality conditions among the keys, and
  every other column of the aggregation among the keys or the included columns.\<close>

theorem aggregations_find_their_columns:
  assumes slice: "\<And>S. finite S \<Longrightarrow> set (slice S) = S" and up: "\<And>s. up s = [] \<longleftrightarrow> s = []"
    and ok: "\<forall>q\<in>set qs. query_ok q" and q: "q \<in> set qs"
    and keys: "IneqConditions q = {} \<and> EqConditions q \<noteq> {} \<and> keys = EqConditions q
      \<or> (\<exists>c\<in>IneqConditions q. keys = insert c (EqConditions q))"
  shows "\<exists>i\<in>set (existing @ indexesToCreateFromQueryFamilies up slice qs existing).
     up (CI_TableName i) = up (AQF_TableName q) \<and> up ` keys \<subseteq> up ` set (Indexed i)
   \<and> up ` (EqConditions q \<union> IneqConditions q \<union> SelectOrOtherConditions q)
       \<subseteq> up ` (set (Indexed i) \<union> set (CI_Included i))"
proof -
  have q_ok: "query_ok q" using ok q by simp
  from keys obtain lst where f: "family_for q lst \<in> set (ToIndexFamilies slice q)"
    and lst: "(lst = [] \<and> IneqConditions q = {} \<and> keys = EqConditions q)
      \<or> (lst \<noteq> [] \<and> lst \<in> IneqConditions q \<and> keys = insert lst (EqConditions q))"
  proof (elim disjE bexE conjE)
    fix c assume "c \<in> IneqConditions q" "keys = insert c (EqConditions q)"
    moreover from this q_ok have "c \<noteq> []" by (auto simp: query_ok_def name_ok_def)
    ultimately show thesis
      by (intro that [of c]) (auto simp: set_ToIndexFamilies [OF q_ok slice])
  qed (auto simp: set_ToIndexFamilies [OF q_ok slice] intro: that [of "[]"])
  from pipeline_index [OF slice up ok q f] obtain i where
    i: "i \<in> set (existing @ indexesToCreateFromQueryFamilies up slice qs existing)"
    and has: "has_columns up i (family_for q lst)" by blast
  have keys_eq: "keys = AllIndexedValues (family_for q lst)"
    and cols: "EqConditions q \<union> IneqConditions q \<union> SelectOrOtherConditions q
      \<subseteq> AllIndexedValues (family_for q lst) \<union> Included (family_for q lst)"
    using lst by (auto simp: family_for_def AllIndexedValues_def)
  have "up ` (EqConditions q \<union> IneqConditions q \<union> SelectOrOtherConditions q)
      \<subseteq> up ` AllIndexedValues (family_for q lst) \<union> up ` Included (family_for q lst)"
    using image_mono [OF cols, of up] by (simp only: image_Un)
  also have "\<dots> \<subseteq> up ` (set (Indexed i) \<union> set (CI_Included i))"
    using has unfolding has_columns_def image_Un by blast
  finally show ?thesis
    using i has keys_eq by (intro bexI [OF _ i]) (simp add: has_columns_def family_for_def)
qed

theorem aggregations_find_their_columns_witness:
  "\<exists>i\<in>set ([] @ indexesToCreateFromQueryFamilies (\<lambda>s. s) sorted_list_of_set
       [\<lparr>AQF_TableName = ''t'', EqConditions = {''a''}, IneqConditions = {''b''}, SelectOrOtherConditions = {''c''}\<rparr>] []).
     CI_TableName i = ''t'' \<and> {''a'', ''b''} \<subseteq> set (Indexed i)
   \<and> {''a'', ''b'', ''c''} \<subseteq> set (Indexed i) \<union> set (CI_Included i)"
  using aggregations_find_their_columns [where slice = sorted_list_of_set and up = "\<lambda>s. s"
      and q = "\<lparr>AQF_TableName = ''t'', EqConditions = {''a''}, IneqConditions = {''b''}, SelectOrOtherConditions = {''c''}\<rparr>"
      and qs = "[\<lparr>AQF_TableName = ''t'', EqConditions = {''a''}, IneqConditions = {''b''}, SelectOrOtherConditions = {''c''}\<rparr>]"
      and keys = "{''a'', ''b''}" and existing = "[]"]
  by (simp add: query_ok_def name_ok_def insert_commute)

section \<open>A second run creates nothing\<close>

lemma concrete_index_covers:
  assumes slice: "\<And>S. finite S \<Longrightarrow> set (slice S) = S \<and> length (slice S) = card S"
    and ok: "family_ok f" and inj: "inj_on up (Flex f)" and up: "\<And>s. up s = [] \<longleftrightarrow> s = []"
  shows "Covers up (concrete_index slice f) f"
proof -
  have fin: "finite (Flex f)" "finite (Included f)" using ok by (simp_all add: family_ok_def)
  have "serves_order up (concrete_index slice f) f"
    unfolding serves_order_def
    by (intro conjI exI [of _ "map up (slice (Flex f))"] exI [of _ "[]"])
      (simp_all add: concrete_index_def slice fin card_image [OF inj] up)
  then show ?thesis by (rule serves_order_Covers)
qed

text \<open>The indexes created for families cover them, so that the same families need no other
  index the next time.\<close>

theorem index_creation_idempotent:
  assumes "\<And>S. finite S \<Longrightarrow> set (slice S) = S \<and> length (slice S) = card S" "\<And>s. up s = [] \<longleftrightarrow> s = []"
    and ok: "\<forall>f\<in>set fs. family_ok f \<and> inj_on up (Flex f)"
  shows "selectConcreteIndexesToCreate up slice fs
     (existing @ selectConcreteIndexesToCreate up slice fs existing) = []"
proof -
  let ?created = "selectConcreteIndexesToCreate up slice fs existing"
  have fam: "\<forall>f\<in>set fs. family_ok f" using ok by simp
  have "\<exists>i\<in>set (existing @ ?created). Covers up i f" if f: "f \<in> set fs" for f
  proof (cases "\<exists>i\<in>set existing. Covers up i f")
    case False
    with f have "concrete_index slice f \<in> set ?created"
      by (simp add: selectConcreteIndexesToCreate_def set_selectIdxFamiliesToCreate [OF fam])
    moreover have "Covers up (concrete_index slice f) f"
      using ok f assms(1,2) by (intro concrete_index_covers) simp_all
    ultimately show ?thesis by auto
  qed auto
  then have "set (selectIdxFamiliesToCreate up fs (existing @ ?created)) = {}"
    by (simp only: set_selectIdxFamiliesToCreate [OF fam]) blast
  then show ?thesis by (simp add: selectConcreteIndexesToCreate_def)
qed

theorem index_creation_idempotent_witness:
  "selectConcreteIndexesToCreate (\<lambda>s. s) sorted_list_of_set [NewIndexFamily\<lparr>IF_TableName := ''t'', Flex := {''a''}\<rparr>]
     ([] @ selectConcreteIndexesToCreate (\<lambda>s. s) sorted_list_of_set
       [NewIndexFamily\<lparr>IF_TableName := ''t'', Flex := {''a''}\<rparr>] []) = []"
  by (rule index_creation_idempotent) (simp_all add: NewIndexFamily_def family_ok_def name_ok_def)

section \<open>What combining families does not keep\<close>

text \<open>The family of an equality on \<open>c\<close> is merged into the one that has \<open>c\<close> last: the result serves
  no search on \<open>c\<close> alone.\<close>

lemma refine_loses_order:
  "refineIdxFamilies
      \<lparr>IF_TableName = ''t'', Fixed = [], Flex = {''c''}, Last = [], Included = {}\<rparr>
      \<lparr>IF_TableName = ''t'', Fixed = [], Flex = {''a'', ''b''}, Last = ''c'', Included = {}\<rparr>
   = Some \<lparr>IF_TableName = ''t'', Fixed = [], Flex = {''a'', ''b''}, Last = ''c'', Included = {}\<rparr>"
  "\<not> Covers (\<lambda>s. s) (concrete_index sorted_list_of_set
      \<lparr>IF_TableName = ''t'', Fixed = [], Flex = {''a'', ''b''}, Last = ''c'', Included = {}\<rparr>)
    \<lparr>IF_TableName = ''t'', Fixed = [], Flex = {''c''}, Last = [], Included = {}\<rparr>"
  by (simp_all add: refineIdxFamilies.simps common_prefix_length_def refineIdxFamiliesFirstHasNoFixed_def
      Size_def AllIndexedValues_def SetLast_def MergeIncluded_def Let_def concrete_index_def Covers_def)

end
