(* ===== verification/Scenario_Validation.thy ===== *)
theory Scenario_Validation
  imports Scenario_Eval "HOL-Library.AList"
begin

text \<open>
  Validation of a scenario iteration before it is published
  (\<^verbatim>\<open>src/usecases/scenarios/scenario_validation.go\<close>, \<^verbatim>\<open>src/models/scenario_validation.go\<close>,
  \<^verbatim>\<open>src/usecases/ast_eval/evaluate/dry_run_fake_value.go\<close>): each formula is evaluated on fake data, and
  its result must have the expected type.

  Parameters: \<open>GetDataModel\<close> reads the data model of an organization, \<open>factory\<close> makes the evaluation
  environment, \<open>dry\<close> evaluates a formula in it without a cache; \<open>None\<close> is a panic. A Go map that is
  written is an association list whose keys are updated in place.
\<close>

section \<open>Results of a validation\<close>

datatype ScenarioValidationErrorCode = DataModelNotFound | TriggerObjectNotFound | TriggerConditionRequired
  | RuleFormulaRequired | FormulaMustReturnBoolean | FormulaMustReturnString | FormulaIncorrectReturnType
  | ScoreThresholdMissing | ScoreThresholdsMismatch

fun ScenarioValidationErrorCode_String :: "ScenarioValidationErrorCode \<Rightarrow> string" where
  "ScenarioValidationErrorCode_String DataModelNotFound = ''DATA_MODEL_NOT_FOUND''"
| "ScenarioValidationErrorCode_String TriggerObjectNotFound = ''TRIGGER_OBJECT_NOT_FOUND''"
| "ScenarioValidationErrorCode_String TriggerConditionRequired = ''TRIGGER_CONDITION_REQUIRED''"
| "ScenarioValidationErrorCode_String RuleFormulaRequired = ''RULE_FORMULA_REQUIRED''"
| "ScenarioValidationErrorCode_String FormulaMustReturnBoolean = ''FORMULA_MUST_RETURN_BOOLEAN''"
| "ScenarioValidationErrorCode_String FormulaMustReturnString = ''FORMULA_MUST_RETURN_STRING''"
| "ScenarioValidationErrorCode_String FormulaIncorrectReturnType = ''FORMULA_INCORRECT_RETURN_TYPE''"
| "ScenarioValidationErrorCode_String ScoreThresholdMissing = ''SCORE_THRESHOLD_MISSING''"
| "ScenarioValidationErrorCode_String ScoreThresholdsMismatch = ''SCORE_THRESHOLDS_MISMATCH''"

record ScenarioValidationError =
  Validation_Error :: go_error
  Validation_Code :: ScenarioValidationErrorCode

text \<open>Of an evaluation that was not run, only the empty list of errors is read: it is \<open>None\<close>.\<close>

record 'f RuleValidation =
  Rule_Errors :: "ScenarioValidationError list"
  RuleEvaluation :: "'f NodeEvaluation option"

record 'f triggerValidation =
  Trigger_Errors :: "ScenarioValidationError list"
  TriggerEvaluation :: "'f NodeEvaluation option"

record 'f ScreeningConfigValidation =
  SV_TriggerRule :: "'f triggerValidation"
  SV_Query :: "'f RuleValidation"
  SV_QueryFields :: "(string \<times> 'f RuleValidation) list"
  SV_CounterpartyIdExpression :: "'f RuleValidation"

record 'f ScenarioValidation =
  V_Errors :: "ScenarioValidationError list"
  V_Trigger :: "'f triggerValidation"
  V_Rules_Errors :: "ScenarioValidationError list"
  V_Rules :: "(string \<times> 'f RuleValidation) list"
  V_Screenings :: "'f ScreeningConfigValidation list"
  V_Decision_Errors :: "ScenarioValidationError list"

definition NewRuleValidation :: "'f RuleValidation" where
  "NewRuleValidation = \<lparr>Rule_Errors = [], RuleEvaluation = None\<rparr>"

definition new_triggerValidation :: "'f triggerValidation" where
  "new_triggerValidation = \<lparr>Trigger_Errors = [], TriggerEvaluation = None\<rparr>"

definition NewScenarioValidation :: "'f ScenarioValidation" where
  "NewScenarioValidation = \<lparr>V_Errors = [], V_Trigger = new_triggerValidation, V_Rules_Errors = [], V_Rules = [],
     V_Screenings = [], V_Decision_Errors = []\<rparr>"

definition NewScreeningValidation :: "'f ScreeningConfigValidation" where
  "NewScreeningValidation = \<lparr>SV_TriggerRule = new_triggerValidation, SV_Query = NewRuleValidation,
     SV_QueryFields = [], SV_CounterpartyIdExpression = NewRuleValidation\<rparr>"

definition flat :: "'f NodeEvaluation option \<Rightarrow> go_error list" where
  "flat e = (case e of None \<Rightarrow> [] | Some evaluation \<Rightarrow> FlattenErrors evaluation)"

text \<open>The evaluations of the query fields are not searched for errors.\<close>

definition screening_errors :: "'f ScreeningConfigValidation \<Rightarrow> go_error list" where
  "screening_errors sc =
     map Validation_Error (Trigger_Errors (SV_TriggerRule sc)) @ flat (TriggerEvaluation (SV_TriggerRule sc))
     @ map Validation_Error (Rule_Errors (SV_Query sc)) @ flat (RuleEvaluation (SV_Query sc))
     @ concat (map (\<lambda>fv. map Validation_Error (Rule_Errors (snd fv))) (SV_QueryFields sc))
     @ flat (RuleEvaluation (SV_CounterpartyIdExpression sc))"

definition ScenarioValidationToError :: "'f ScenarioValidation \<Rightarrow> go_error option" where
  "ScenarioValidationToError v = errors_Join (map Some
     (map Validation_Error (V_Errors v)
      @ map Validation_Error (Trigger_Errors (V_Trigger v)) @ flat (TriggerEvaluation (V_Trigger v))
      @ map Validation_Error (V_Rules_Errors v)
      @ concat (map (\<lambda>kv. map Validation_Error (Rule_Errors (snd kv)) @ flat (RuleEvaluation (snd kv))) (V_Rules v))
      @ map Validation_Error (V_Decision_Errors v)
      @ concat (map screening_errors (V_Screenings v))))"

section \<open>The dry run\<close>

definition DryRunValue :: "'f \<Rightarrow> int \<Rightarrow> string \<Rightarrow> string \<Rightarrow> Field \<Rightarrow> 'f val" where
  "DryRunValue one now prfx fieldName field = (case Field_DataType field of
     DT_Bool \<Rightarrow> VBool True
   | DT_String \<Rightarrow> VString (''fake value for '' @ prfx @ '':'' @ fieldName)
   | DT_Int \<Rightarrow> VInt Kint 1
   | DT_Float \<Rightarrow> VFloat Kfloat64 one
   | DT_Timestamp \<Rightarrow> VTime now
   | DT_IpAddress \<Rightarrow> VNetIP [0, 0, 0, 0, 0, 0, 0, 0, 0, 0, 255, 255, 1, 2, 3, 4]
   | _ \<Rightarrow> VNil)"

definition DryRunPayload :: "'f \<Rightarrow> int \<Rightarrow> Table \<Rightarrow> string \<rightharpoonup> 'f val" where
  "DryRunPayload one now table = map_of (map (\<lambda>(fieldName, field).
     (fieldName, DryRunValue one now ''Payload'' (Table_Name table @ ''.'' @ fieldName) field)) (Fields table))"

definition MakeDryRunEnvironment ::
    "(uuid \<Rightarrow> go_error + DataModel) \<Rightarrow> (uuid \<Rightarrow> 'f ClientObject \<Rightarrow> DataModel \<Rightarrow> 'f AstEvaluationEnvironment)
     \<Rightarrow> 'f \<Rightarrow> int \<Rightarrow> Scenario \<Rightarrow> ScenarioValidationError + 'f AstEvaluationEnvironment" where
  "MakeDryRunEnvironment GetDataModel factory one now scenario =
     (case GetDataModel (Scenario_OrganizationId scenario) of
        Inl err \<Rightarrow> Inl \<lparr>Validation_Error = ErrWrap err ''could not get data model for dry run'',
          Validation_Code = DataModelNotFound\<rparr>
      | Inr dataModel \<Rightarrow> (case map_of (Tables dataModel) (TriggerObjectType scenario) of
          None \<Rightarrow> Inl \<lparr>Validation_Error = ErrWrap NotFoundError ''table not found in data model for dry run'',
            Validation_Code = TriggerObjectNotFound\<rparr>
        | Some table \<Rightarrow> Inr (WithoutOptimizations (factory (Scenario_OrganizationId scenario)
            \<lparr>TableName = Table_Name table, Data = DryRunPayload one now table\<rparr> dataModel))))"

section \<open>Validation of an iteration\<close>

definition hasScoreThresholds :: "'f ScenarioIteration \<Rightarrow> bool" where
  "hasScoreThresholds iteration \<longleftrightarrow> ScoreReviewThreshold iteration \<noteq> None
     \<and> ScoreBlockAndReviewThreshold iteration \<noteq> None \<and> ScoreDeclineThreshold iteration \<noteq> None"

definition bad_formula :: "string \<Rightarrow> ScenarioValidationErrorCode \<Rightarrow> ScenarioValidationError" where
  "bad_formula msg code = \<lparr>Validation_Error = ErrWrap BadParameterError msg, Validation_Code = code\<rparr>"

text \<open>A decision error replaces the list: it is appended to the errors of the trigger, empty so far.\<close>

definition decision_validation :: "'f ScenarioIteration \<Rightarrow> ScenarioValidationError list" where
  "decision_validation iteration =
     (case (ScoreReviewThreshold iteration, ScoreBlockAndReviewThreshold iteration, ScoreDeclineThreshold iteration) of
        (Some review, Some blockAndReview, Some decline) \<Rightarrow>
          (if blockAndReview < review \<or> decline < blockAndReview
           then [bad_formula ''scenario iteration thresholds are incorrectly ordered'' ScoreThresholdsMismatch] else [])
      | _ \<Rightarrow> [bad_formula ''At least one of the 3 score thresholds is missing on the iteration'' ScoreThresholdMissing])"

type_synonym 'f dry_run = "'f Node \<Rightarrow> 'f NodeEvaluation option"

definition is_bool :: "'f val \<Rightarrow> bool" where
  "is_bool v \<longleftrightarrow> (case v of VBool _ \<Rightarrow> True | _ \<Rightarrow> False)"

definition is_string :: "'f val \<Rightarrow> bool" where
  "is_string v \<longleftrightarrow> (case v of VString _ \<Rightarrow> True | _ \<Rightarrow> False)"

definition is_string_or_time :: "'f val \<Rightarrow> bool" where
  "is_string_or_time v \<longleftrightarrow> (case v of VString _ \<Rightarrow> True | VTime _ \<Rightarrow> True | _ \<Rightarrow> False)"

definition validate_trigger :: "'f dry_run \<Rightarrow> 'f Node option \<Rightarrow> 'f triggerValidation option" where
  "validate_trigger dry trigger = (case trigger of
     None \<Rightarrow> Some new_triggerValidation
   | Some n \<Rightarrow> map_option (\<lambda>evaluation.
       \<lparr>Trigger_Errors = (if is_bool (NE_ReturnValue evaluation) then []
          else [bad_formula ''scenario iteration trigger condition does not return a boolean'' FormulaMustReturnBoolean]),
        TriggerEvaluation = Some evaluation\<rparr>) (dry n))"

definition validate_rule :: "'f dry_run \<Rightarrow> 'f Rule \<Rightarrow> 'f RuleValidation option" where
  "validate_rule dry rule = (case FormulaAstExpression rule of
     None \<Rightarrow> Some (NewRuleValidation\<lparr>Rule_Errors :=
       [bad_formula ''rule has no formula ast expression'' RuleFormulaRequired]\<rparr>)
   | Some formula \<Rightarrow> map_option (\<lambda>evaluation.
       \<lparr>Rule_Errors = (if is_bool (NE_ReturnValue evaluation) then []
          else [bad_formula ''rule formula does not return a boolean'' FormulaMustReturnBoolean]),
        RuleEvaluation = Some evaluation\<rparr>) (dry formula))"

fun validate_rules ::
    "'f dry_run \<Rightarrow> 'f Rule list \<Rightarrow> (string \<times> 'f RuleValidation) list \<Rightarrow> (string \<times> 'f RuleValidation) list option" where
  "validate_rules dry [] result = Some result"
| "validate_rules dry (rule # rules) result =
     (case validate_rule dry rule of
        None \<Rightarrow> None
      | Some ruleValidation \<Rightarrow> validate_rules dry rules (AList.update (Rule_Id rule) ruleValidation result))"

text \<open>A query that is not empty provides a field, so the second check of the code never fails.\<close>

definition validate_field :: "'f dry_run \<Rightarrow> string \<times> 'f Node \<Rightarrow> (string \<times> 'f RuleValidation) option" where
  "validate_field dry fieldAst = map_option (\<lambda>evaluation. (fst fieldAst,
       \<lparr>Rule_Errors = (if is_string_or_time (NE_ReturnValue evaluation) then []
          else [bad_formula ''screening field filter does not return a string or a timestamp'' FormulaMustReturnString]),
        RuleEvaluation = Some evaluation\<rparr>)) (dry (snd fieldAst))"

definition validate_counterparty :: "'f dry_run \<Rightarrow> 'f Node option \<Rightarrow> 'f RuleValidation option" where
  "validate_counterparty dry expression = (case expression of
     None \<Rightarrow> Some NewRuleValidation
   | Some n \<Rightarrow> map_option (\<lambda>evaluation.
       \<lparr>Rule_Errors = (if is_string (NE_ReturnValue evaluation) then []
          else [bad_formula ''screening counterparty ID expression does not return a string'' FormulaMustReturnString]),
        RuleEvaluation = Some evaluation\<rparr>) (dry n))"

text \<open>Only the errors of the trigger rule of a screening are kept, not its evaluation.\<close>

definition validate_screening_trigger :: "'f dry_run \<Rightarrow> 'f Node option \<Rightarrow> 'f triggerValidation option" where
  "validate_screening_trigger dry triggerRule = (case triggerRule of
     None \<Rightarrow> Some new_triggerValidation
   | Some n \<Rightarrow> map_option (\<lambda>evaluation.
       \<lparr>Trigger_Errors = (if is_bool (NE_ReturnValue evaluation) then []
          else [bad_formula ''screening trigger formula does not return a boolean'' FormulaMustReturnBoolean]),
        TriggerEvaluation = None\<rparr>) (dry n))"

definition validate_screening :: "'f dry_run \<Rightarrow> 'f ScreeningConfig \<Rightarrow> 'f ScreeningConfigValidation option" where
  "validate_screening dry scc =
     (case validate_screening_trigger dry (TriggerRule scc) of None \<Rightarrow> None | Some trigger \<Rightarrow>
     (case those (map (validate_field dry) (query_fields scc)) of None \<Rightarrow> None | Some queryFields \<Rightarrow>
     (case validate_counterparty dry (CounterpartyIdExpression scc) of None \<Rightarrow> None | Some counterparty \<Rightarrow>
        Some \<lparr>SV_TriggerRule = trigger,
          SV_Query = NewRuleValidation\<lparr>Rule_Errors := (if query_fields scc = []
            then [bad_formula ''screening does not have a query formula'' RuleFormulaRequired] else [])\<rparr>,
          SV_QueryFields = queryFields, SV_CounterpartyIdExpression = counterparty\<rparr>)))"

definition ValidateScenarioIteration ::
    "('f AstEvaluationEnvironment \<Rightarrow> 'f dry_run) \<Rightarrow> (Scenario \<Rightarrow> ScenarioValidationError + 'f AstEvaluationEnvironment)
     \<Rightarrow> Scenario \<Rightarrow> 'f ScenarioIteration \<Rightarrow> 'f ScenarioValidation option" where
  "ValidateScenarioIteration evaluate make_env scenario iteration =
     (let result = NewScenarioValidation\<lparr>V_Decision_Errors := decision_validation iteration\<rparr>
      in case make_env scenario of
           Inl err \<Rightarrow> Some (result\<lparr>V_Errors := [err]\<rparr>)
         | Inr env \<Rightarrow>
            (let dry = evaluate env in
             case validate_trigger dry (TriggerConditionAstExpression iteration) of None \<Rightarrow> None | Some trigger \<Rightarrow>
            (case validate_rules dry (Rules iteration) [] of None \<Rightarrow> None | Some rules \<Rightarrow>
            (case those (map (validate_screening dry) (ScreeningConfigs iteration)) of None \<Rightarrow> None | Some screenings \<Rightarrow>
               Some (result\<lparr>V_Trigger := trigger, V_Rules := rules, V_Screenings := screenings\<rparr>)))))"

section \<open>Validation of one formula\<close>

datatype go_type = T_string | T_int64 | T_float64 | T_bool | T_time | T_score

definition getTypeFromString :: "string \<Rightarrow> go_type option" where
  "getTypeFromString typeStr =
     (if typeStr = ''string'' then Some T_string
      else if typeStr = ''int'' then Some T_int64
      else if typeStr = ''float'' then Some T_float64
      else if typeStr = ''bool'' then Some T_bool
      else if typeStr = ''datetime'' then Some T_time
      else if typeStr = ''score_computation_result'' then Some T_score
      else None)"

text \<open>The type of a value, when it is one of those.\<close>

definition reflect_TypeOf :: "'f val \<Rightarrow> go_type option" where
  "reflect_TypeOf v = (case v of VString _ \<Rightarrow> Some T_string | VInt Kint64 _ \<Rightarrow> Some T_int64
     | VFloat Kfloat64 _ \<Rightarrow> Some T_float64 | VBool _ \<Rightarrow> Some T_bool | VTime _ \<Rightarrow> Some T_time
     | VScore _ \<Rightarrow> Some T_score | _ \<Rightarrow> None)"

record 'f AstValidation =
  AV_Errors :: "ScenarioValidationError list"
  AV_Evaluation :: "'f NodeEvaluation option"

text \<open>The expected type is a variadic argument: it is read when there is exactly one.\<close>

definition ValidateScenarioAst ::
    "('f AstEvaluationEnvironment \<Rightarrow> 'f dry_run) \<Rightarrow> (Scenario \<Rightarrow> ScenarioValidationError + 'f AstEvaluationEnvironment)
     \<Rightarrow> Scenario \<Rightarrow> 'f Node \<Rightarrow> string list \<Rightarrow> 'f AstValidation option" where
  "ValidateScenarioAst evaluate make_env scenario astNode expectedReturnTypeStr =
     (case make_env scenario of
        Inl err \<Rightarrow> Some \<lparr>AV_Errors = [err], AV_Evaluation = None\<rparr>
      | Inr env \<Rightarrow> map_option (\<lambda>evaluation.
          \<lparr>AV_Errors = (case expectedReturnTypeStr of
             [typeStr] \<Rightarrow> (case getTypeFromString typeStr of
                None \<Rightarrow> [\<lparr>Validation_Error = ErrWrap BadParameterError ''unknown specified type'', Validation_Code = DataModelNotFound\<rparr>]
              | Some expectedReturnType \<Rightarrow>
                  if reflect_TypeOf (NE_ReturnValue evaluation) \<noteq> Some expectedReturnType
                  then [bad_formula ''ast node does not return the expected type'' FormulaIncorrectReturnType] else [])
           | _ \<Rightarrow> []),
           AV_Evaluation = Some evaluation\<rparr>) (evaluate env astNode))"

end
