(* ===== verification/Publication.thy ===== *)
theory Publication
  imports Scenario_Validation Index_Families Security
begin

text \<open>
  Publication of scenario iterations (\<^verbatim>\<open>src/usecases/scenario_publications_usecase.go\<close>,
  \<^verbatim>\<open>src/usecases/scenarios/scenario_publisher.go\<close>, \<open>scenario_and_iteration.go\<close>,
  \<^verbatim>\<open>src/usecases/indexes/index_editor.go\<close>, \<^verbatim>\<open>src/models/scenario_publications.go\<close>, \<open>scenario_testrun.go\<close>).

  The publisher works on a repository: a record of operations on a state of type \<open>'s\<close>, each of which
  may fail. A transaction is a function of that state whose effect is dropped when it fails. New
  identifiers are parameters, dates are left out.
\<close>

section \<open>Data\<close>

datatype PublicationAction = Publish | Unpublish | Prepare | UnknownPublicationAction

fun PublicationAction_String :: "PublicationAction \<Rightarrow> string" where
  "PublicationAction_String Publish = ''publish''"
| "PublicationAction_String Unpublish = ''unpublish''"
| "PublicationAction_String Prepare = ''prepare''"
| "PublicationAction_String UnknownPublicationAction = ''unknown''"

definition PublicationActionFrom :: "string \<Rightarrow> PublicationAction" where
  "PublicationActionFrom s =
     (if s = ''publish'' then Publish
      else if s = ''unpublish'' then Unpublish
      else if s = ''prepare'' then Prepare
      else UnknownPublicationAction)"

record ScenarioPublication =
  SP_Id :: string
  SP_OrganizationId :: uuid
  SP_ScenarioId :: string
  SP_ScenarioIterationId :: string
  SP_PublicationAction :: PublicationAction

datatype TestrunStatus = Up | Pending | Down | UnknownTestrunStatus

fun TestrunStatus_String :: "TestrunStatus \<Rightarrow> string" where
  "TestrunStatus_String Up = ''up''"
| "TestrunStatus_String Pending = ''pending''"
| "TestrunStatus_String Down = ''down''"
| "TestrunStatus_String UnknownTestrunStatus = ''unknown''"

definition ScenarioTestStatusFrom :: "string \<Rightarrow> TestrunStatus" where
  "ScenarioTestStatusFrom s =
     (if s = ''up'' then Up
      else if s = ''down'' then Down
      else if s = ''unknown'' then UnknownTestrunStatus
      else if s = ''pending'' then Pending
      else UnknownTestrunStatus)"

record ScenarioTestRun =
  STR_Id :: string
  STR_ScenarioIterationId :: string
  STR_ScenarioLiveIterationId :: string
  STR_Status :: TestrunStatus

record 'f ScenarioAndIteration =
  SI_Scenario :: Scenario
  SI_Iteration :: "'f ScenarioIteration"

definition ErrScenarioIterationIsDraft :: go_error where
  "ErrScenarioIterationIsDraft = ErrWrap BadParameterError ''scenario iteration version a draft and cannot published''"

definition ErrScenarioIterationRequiresPreparation :: go_error where
  "ErrScenarioIterationRequiresPreparation = ErrWrap BadParameterError ''scenario iteration requires preparation''"

definition ErrScenarioIterationNotValid :: go_error where
  "ErrScenarioIterationNotValid = ErrWrap BadParameterError ''scenario iteration is not valid for publication''"

definition ErrDataPreparationServiceUnavailable :: go_error where
  "ErrDataPreparationServiceUnavailable = ErrWrap ConflictError ''data preparation service is unavailable: an index is being created in the client db schema''"

section \<open>The repository\<close>

record ('s, 'f) publication_repo =
  Fetch :: "string \<Rightarrow> 's \<Rightarrow> go_error + 'f ScenarioAndIteration"
  CreateScenarioPublication :: "ScenarioPublication \<Rightarrow> 's \<Rightarrow> go_error + 's"
  GetScenarioPublicationById :: "string \<Rightarrow> 's \<Rightarrow> go_error + ScenarioPublication"
  UpdateScenarioLiveIterationId :: "string \<Rightarrow> string option \<Rightarrow> 's \<Rightarrow> go_error + 's"
  GetTestRunByLiveVersionID :: "string \<Rightarrow> 's \<Rightarrow> go_error + ScenarioTestRun option"
  UpdateTestRunStatus :: "string \<Rightarrow> TestrunStatus \<Rightarrow> 's \<Rightarrow> go_error + 's"

section \<open>The publisher\<close>

definition shutDownTestRunIfNeeded ::
    "('s, 'f) publication_repo \<Rightarrow> string \<Rightarrow> 's \<Rightarrow> go_error + 's" where
  "shutDownTestRunIfNeeded R liveVersionId tx =
     (case GetTestRunByLiveVersionID R liveVersionId tx of
        Inl err \<Rightarrow> Inl err
      | Inr None \<Rightarrow> Inr tx
      | Inr (Some testrun) \<Rightarrow>
          if STR_Status testrun = Up \<or> STR_Status testrun = Pending
          then UpdateTestRunStatus R (STR_Id testrun) Down tx else Inr tx)"

definition unpublishOldIteration ::
    "('s, 'f) publication_repo \<Rightarrow> string \<Rightarrow> uuid \<Rightarrow> string \<Rightarrow> string option \<Rightarrow> 's
     \<Rightarrow> go_error + ScenarioPublication list \<times> 's" where
  "unpublishOldIteration R newScenarioPublicationId organizationId scenarioId liveVersionId tx =
     (case liveVersionId of
        None \<Rightarrow> Inr ([], tx)
      | Some live \<Rightarrow>
         (case CreateScenarioPublication R \<lparr>SP_Id = newScenarioPublicationId, SP_OrganizationId = organizationId,
                 SP_ScenarioId = scenarioId, SP_ScenarioIterationId = live, SP_PublicationAction = Unpublish\<rparr> tx of
            Inl err \<Rightarrow> Inl err
          | Inr tx1 \<Rightarrow> (case UpdateScenarioLiveIterationId R scenarioId None tx1 of
              Inl err \<Rightarrow> Inl err
            | Inr tx2 \<Rightarrow> (case shutDownTestRunIfNeeded R live tx2 of
                Inl err \<Rightarrow> Inl err
              | Inr tx3 \<Rightarrow> (case GetScenarioPublicationById R newScenarioPublicationId tx3 of
                  Inl err \<Rightarrow> Inl err
                | Inr scenarioPublication \<Rightarrow> Inr ([scenarioPublication], tx3))))))"

definition publishNewIteration ::
    "('s, 'f) publication_repo \<Rightarrow> string \<Rightarrow> uuid \<Rightarrow> string \<Rightarrow> string \<Rightarrow> 's
     \<Rightarrow> go_error + ScenarioPublication \<times> 's" where
  "publishNewIteration R newScenarioPublicationId organizationId scenarioId scenarioIterationId tx =
     (case CreateScenarioPublication R \<lparr>SP_Id = newScenarioPublicationId, SP_OrganizationId = organizationId,
             SP_ScenarioId = scenarioId, SP_ScenarioIterationId = scenarioIterationId,
             SP_PublicationAction = Publish\<rparr> tx of
        Inl err \<Rightarrow> Inl err
      | Inr tx1 \<Rightarrow> (case GetScenarioPublicationById R newScenarioPublicationId tx1 of
          Inl err \<Rightarrow> Inl err
        | Inr scenarioPublication \<Rightarrow>
           (case UpdateScenarioLiveIterationId R scenarioId (Some scenarioIterationId) tx1 of
              Inl err \<Rightarrow> Inl err
            | Inr tx2 \<Rightarrow> (case shutDownTestRunIfNeeded R scenarioIterationId tx2 of
                Inl err \<Rightarrow> Inl err
              | Inr tx3 \<Rightarrow> Inr (scenarioPublication, tx3)))))"

text \<open>\<open>validate\<close> is \<open>ScenarioValidationToError\<close> of the validation; \<open>newIds\<close> are two fresh identifiers.\<close>

definition PublishOrUnpublishIteration ::
    "('s, 'f) publication_repo \<Rightarrow> ('f ScenarioAndIteration \<Rightarrow> go_error option) \<Rightarrow> string \<times> string
     \<Rightarrow> 'f ScenarioAndIteration \<Rightarrow> PublicationAction \<Rightarrow> 's \<Rightarrow> go_error + ScenarioPublication list \<times> 's" where
  "PublishOrUnpublishIteration R validate newIds si publicationAction tx =
     (let organizationId = Scenario_OrganizationId (SI_Scenario si);
          scenarioId = Scenario_Id (SI_Scenario si);
          iterationId = Iteration_Id (SI_Iteration si);
          liveVersionId = LiveVersionID (SI_Scenario si)
      in case publicationAction of
           Unpublish \<Rightarrow>
             (if liveVersionId \<noteq> Some iterationId
              then Inl (ErrWrap BadParameterError ''unable to unpublish: scenario iteration is not currently live'')
              else unpublishOldIteration R (fst newIds) organizationId scenarioId (Some iterationId) tx)
         | Publish \<Rightarrow>
             (if Version (SI_Iteration si) = None
              then Inl (ErrWrap ErrScenarioIterationIsDraft ''input scenario iteration is a draft'')
              else if liveVersionId = Some iterationId then Inr ([], tx)
              else (case validate si of
                Some err \<Rightarrow> Inl (ErrWrap ErrScenarioIterationNotValid ''Error validating scenario iteration'')
              | None \<Rightarrow>
                 (case unpublishOldIteration R (fst newIds) organizationId scenarioId liveVersionId tx of
                    Inl err \<Rightarrow> Inl err
                  | Inr (sps, tx1) \<Rightarrow>
                     (case publishNewIteration R (snd newIds) organizationId scenarioId iterationId tx1 of
                        Inl err \<Rightarrow> Inl err
                      | Inr (sp, tx2) \<Rightarrow> Inr (sps @ [sp], tx2)))))
         | _ \<Rightarrow> Inl (ErrWrap BadParameterError ''unknown publication action''))"

definition SaveScenarioPreparationAction ::
    "('s, 'f) publication_repo \<Rightarrow> string \<Rightarrow> uuid \<Rightarrow> string \<Rightarrow> string \<Rightarrow> 's \<Rightarrow> go_error + 's" where
  "SaveScenarioPreparationAction R newId orgId scenarioId iterationId exec =
     CreateScenarioPublication R \<lparr>SP_Id = newId, SP_OrganizationId = orgId, SP_ScenarioId = scenarioId,
       SP_ScenarioIterationId = iterationId, SP_PublicationAction = Prepare\<rparr> exec"

section \<open>The indexes of an iteration\<close>

text \<open>The trigger and the rules of each iteration; the formulas of its screenings are not searched.\<close>

definition iteration_asts :: "'f ScenarioIteration \<Rightarrow> 'f Node list" where
  "iteration_asts i = (case TriggerConditionAstExpression i of None \<Rightarrow> [] | Some n \<Rightarrow> [n])
     @ List.map_filter FormulaAstExpression (Rules i)"

fun extractQueryFamiliesFromAstSlice :: "'f Node list \<Rightarrow> go_error + AggregateQueryFamily list" where
  "extractQueryFamiliesFromAstSlice [] = Inr []"
| "extractQueryFamiliesFromAstSlice (node # nodes) =
     (case extractQueryFamiliesFromAst node of
        Inl err \<Rightarrow> Inl (ErrWrap err ''Error getting query families from node'')
      | Inr nodeFamilies \<Rightarrow> (case extractQueryFamiliesFromAstSlice nodes of
          Inl err \<Rightarrow> Inl err
        | Inr families \<Rightarrow> Inr (nodeFamilies @ families)))"

definition indexesToCreateFromScenarioIterations ::
    "(string \<Rightarrow> string) \<Rightarrow> (string set \<Rightarrow> string list) \<Rightarrow> 'f ScenarioIteration list \<Rightarrow> ConcreteIndex list
     \<Rightarrow> go_error + ConcreteIndex list" where
  "indexesToCreateFromScenarioIterations up slice scenarioIterations existingIndexes =
     (case extractQueryFamiliesFromAstSlice (concat (map iteration_asts scenarioIterations)) of
        Inl err \<Rightarrow> Inl (ErrWrap err ''Error extracting query families from scenario iterations'')
      | Inr queryFamilies \<Rightarrow> Inr (indexesToCreateFromQueryFamilies up slice queryFamilies existingIndexes))"

text \<open>What the use case reads outside of the transaction.\<close>

record 'f publication_env =
  ToUpper :: "string \<Rightarrow> string"
  Slice :: "string set \<Rightarrow> string list"
  ListAllValidIndexes :: "uuid \<Rightarrow> go_error + ConcreteIndex list"
  CountPendingIndexes :: "uuid \<Rightarrow> go_error + nat"
  GetOrganizationById :: "uuid \<Rightarrow> go_error + unit"
  SanctionsAccess :: "uuid \<Rightarrow> go_error + FeatureAccess"
  IsConfigured :: "uuid \<Rightarrow> go_error + bool"
  ValidateIteration :: "'f ScenarioAndIteration \<Rightarrow> go_error option"
  EnqueueCreateIndexTask :: "uuid \<Rightarrow> ConcreteIndex list \<Rightarrow> go_error option"

abbreviation scenario_owned :: "Scenario \<Rightarrow> org_owned" where
  "scenario_owned scenario \<equiv> \<lparr>OrganizationId = Scenario_OrganizationId scenario\<rparr>"

definition GetIndexesToCreate ::
    "'f publication_env \<Rightarrow> Credentials \<Rightarrow> ('s, 'f) publication_repo \<Rightarrow> uuid \<Rightarrow> string \<Rightarrow> 's
     \<Rightarrow> go_error + ConcreteIndex list \<times> nat" where
  "GetIndexesToCreate E creds R organizationId scenarioIterationId st =
     (case Fetch R scenarioIterationId st of
        Inl err \<Rightarrow> Inl err
      | Inr iterationToActivate \<Rightarrow>
         (case PublishScenario creds (scenario_owned (SI_Scenario iterationToActivate)) of
            Some err \<Rightarrow> Inl err
          | None \<Rightarrow> (case ListAllValidIndexes E organizationId of
              Inl err \<Rightarrow> Inl (ErrWrap err ''Error while fetching existing indexes'')
            | Inr existingIndexes \<Rightarrow>
               (case indexesToCreateFromScenarioIterations (ToUpper E) (Slice E)
                       [SI_Iteration iterationToActivate] existingIndexes of
                  Inl err \<Rightarrow> Inl (ErrWrap err ''Error while finding indexes to create from scenario iterations'')
                | Inr toCreate \<Rightarrow> (case CountPendingIndexes E organizationId of
                    Inl err \<Rightarrow> Inl (ErrWrap err ''Error while counting pending indexes'')
                  | Inr numPending \<Rightarrow> Inr (toCreate, numPending))))))"

section \<open>The use case\<close>

definition screening_requirement ::
    "'f publication_env \<Rightarrow> uuid \<Rightarrow> 'f ScenarioIteration \<Rightarrow> go_error option" where
  "screening_requirement E organizationId iteration =
     (if ScreeningConfigs iteration = [] then None
      else (case SanctionsAccess E organizationId of
        Inl err \<Rightarrow> Some err
      | Inr access \<Rightarrow>
          if \<not> IsAllowed access then Some (ErrWrap ForbiddenError ''screening feature access is missing'')
          else (case IsConfigured E organizationId of
            Inl err \<Rightarrow> Some (ErrWrap err ''could not check whether screening was provided configured'')
          | Inr isConfigured \<Rightarrow> if isConfigured then None
              else Some (ErrNew ''screening is not configured, cannot publish scenario''))))"

definition publication_transaction ::
    "'f publication_env \<Rightarrow> Credentials \<Rightarrow> ('s, 'f) publication_repo \<Rightarrow> string \<times> string \<Rightarrow> uuid
     \<Rightarrow> string \<Rightarrow> PublicationAction \<Rightarrow> 's \<Rightarrow> go_error + ScenarioPublication list \<times> 's" where
  "publication_transaction E creds R newIds organizationId scenarioIterationId action tx =
     (case GetOrganizationById E organizationId of
        Inl err \<Rightarrow> Inl err
      | Inr _ \<Rightarrow> (case Fetch R scenarioIterationId tx of
          Inl err \<Rightarrow> Inl err
        | Inr scenarioAndIteration \<Rightarrow>
           (case screening_requirement E organizationId (SI_Iteration scenarioAndIteration) of
              Some err \<Rightarrow> Inl err
            | None \<Rightarrow> (case PublishScenario creds (scenario_owned (SI_Scenario scenarioAndIteration)) of
                Some err \<Rightarrow> Inl err
              | None \<Rightarrow> PublishOrUnpublishIteration R (ValidateIteration E) newIds scenarioAndIteration action tx))))"

definition ExecuteScenarioPublicationAction ::
    "'f publication_env \<Rightarrow> Credentials \<Rightarrow> ('s, 'f) publication_repo \<Rightarrow> string \<times> string \<Rightarrow> uuid
     \<Rightarrow> string \<Rightarrow> PublicationAction \<Rightarrow> 's \<Rightarrow> (go_error + ScenarioPublication list) \<times> 's" where
  "ExecuteScenarioPublicationAction E creds R newIds organizationId scenarioIterationId action st =
     (case GetIndexesToCreate E creds R organizationId scenarioIterationId st of
        Inl err \<Rightarrow> (Inl (ErrWrap err ''Error while fetching indexes to create''), st)
      | Inr (indexesToCreate, _) \<Rightarrow>
          if indexesToCreate \<noteq> [] \<and> action = Publish
          then (Inl (ErrWrap ErrScenarioIterationRequiresPreparation ''Cannot publish the scenario iteration''), st)
          else Transaction (publication_transaction E creds R newIds organizationId scenarioIterationId action) st)"

datatype PreparationStatus = PreparationStatusRequired | PreparationStatusReadyToActivate

datatype PreparationServiceStatus = PreparationServiceStatusAvailable | PreparationServiceStatusOccupied

definition GetPublicationPreparationStatus ::
    "'f publication_env \<Rightarrow> Credentials \<Rightarrow> ('s, 'f) publication_repo \<Rightarrow> uuid \<Rightarrow> string \<Rightarrow> 's
     \<Rightarrow> go_error + PreparationStatus \<times> PreparationServiceStatus" where
  "GetPublicationPreparationStatus E creds R organizationId scenarioIterationId st =
     (case GetIndexesToCreate E creds R organizationId scenarioIterationId st of
        Inl err \<Rightarrow> Inl (ErrWrap err ''Error while fetching indexes to create'')
      | Inr (indexesToCreate, numPending) \<Rightarrow> Inr
          (if indexesToCreate = [] then PreparationStatusReadyToActivate else PreparationStatusRequired,
           if numPending = 0 then PreparationServiceStatusAvailable else PreparationServiceStatusOccupied))"

definition StartPublicationPreparation ::
    "'f publication_env \<Rightarrow> Credentials \<Rightarrow> ('s, 'f) publication_repo \<Rightarrow> string \<Rightarrow> uuid \<Rightarrow> string \<Rightarrow> 's
     \<Rightarrow> (go_error + unit) \<times> 's" where
  "StartPublicationPreparation E creds R newId organizationId scenarioIterationId st =
     (case Fetch R scenarioIterationId st of
        Inl err \<Rightarrow> (Inl err, st)
      | Inr scenarioAndIteration \<Rightarrow>
         (case GetIndexesToCreate E creds R organizationId scenarioIterationId st of
            Inl err \<Rightarrow> (Inl (ErrWrap err ''Error while fetching indexes to create''), st)
          | Inr (indexesToCreate, numPending) \<Rightarrow>
              if indexesToCreate = [] then (Inr (), st)
              else if numPending > 0 then (Inl ErrDataPreparationServiceUnavailable, st)
              else Transaction (\<lambda>tx.
                case SaveScenarioPreparationAction R newId organizationId
                       (Scenario_Id (SI_Scenario scenarioAndIteration)) scenarioIterationId tx of
                  Inl err \<Rightarrow> Inl err
                | Inr tx' \<Rightarrow> (case EnqueueCreateIndexTask E organizationId indexesToCreate of
                    Some err \<Rightarrow> Inl err
                  | None \<Rightarrow> Inr ((), tx'))) st))"

section \<open>The tables\<close>

text \<open>
  The tables of the Marble database that the publisher reads and writes
  (\<^verbatim>\<open>src/repositories/scenario_publications.go\<close>, \<open>scenarios_write.go\<close>, \<open>scenarios_read.go\<close>,
  \<open>scenario_testrun.go\<close>, \<open>scenario_iterations_read.go\<close>). The test runs are kept from the last created to
  the first. An identifier is a primary key. Whether the scenario fits the screening provider of the
  organization is left out.
\<close>

record 'f stored_iteration = "'f ScenarioIteration" +
  Stored_ScenarioId :: string
  Stored_OrganizationId :: uuid

record 'f marble_db =
  db_organizations :: "uuid list"
  db_scenarios :: "Scenario list"
  db_iterations :: "'f stored_iteration list"
  db_screening_configs :: "'f ScreeningConfig list"
  db_publications :: "ScenarioPublication list"
  db_testruns :: "ScenarioTestRun list"

text \<open>\<open>SqlToModel\<close> fails when there is no row.\<close>

definition SqlToModel :: "('a \<Rightarrow> bool) \<Rightarrow> 'a list \<Rightarrow> go_error + 'a" where
  "SqlToModel P rows = (case List.find P rows of None \<Rightarrow> Inl NotFoundError | Some row \<Rightarrow> Inr row)"

definition db_GetScenarioById :: "string \<Rightarrow> 'f marble_db \<Rightarrow> go_error + Scenario" where
  "db_GetScenarioById scenarioId db = SqlToModel (\<lambda>s. Scenario_Id s = scenarioId) (db_scenarios db)"

definition db_GetScenarioIteration :: "string \<Rightarrow> 'f marble_db \<Rightarrow> go_error + 'f stored_iteration" where
  "db_GetScenarioIteration iterationId db = SqlToModel (\<lambda>i. Iteration_Id i = iterationId) (db_iterations db)"

definition db_FetchScenarioAndIteration :: "string \<Rightarrow> 'f marble_db \<Rightarrow> go_error + 'f ScenarioAndIteration" where
  "db_FetchScenarioAndIteration iterationId db =
     (case db_GetScenarioIteration iterationId db of
        Inl err \<Rightarrow> Inl err
      | Inr iteration \<Rightarrow>
         (let screeningConfig = filter (\<lambda>scc. SC_ScenarioIterationId scc = iterationId) (db_screening_configs db)
          in if \<not> List.member (db_organizations db) (Stored_OrganizationId iteration) then Inl NotFoundError
             else (case db_GetScenarioById (Stored_ScenarioId iteration) db of
               Inl err \<Rightarrow> Inl err
             | Inr scenario \<Rightarrow> Inr \<lparr>SI_Scenario = scenario, SI_Iteration =
                 (ScenarioIteration.truncate iteration)\<lparr>ScreeningConfigs := screeningConfig\<rparr>\<rparr>)))"

definition db_CreateScenarioPublication :: "ScenarioPublication \<Rightarrow> 'f marble_db \<Rightarrow> go_error + 'f marble_db" where
  "db_CreateScenarioPublication input db =
     (if list_ex (\<lambda>p. SP_Id p = SP_Id input) (db_publications db) then Inl ConflictError
      else Inr (db\<lparr>db_publications := db_publications db @ [input]\<rparr>))"

definition db_GetScenarioPublicationById :: "string \<Rightarrow> 'f marble_db \<Rightarrow> go_error + ScenarioPublication" where
  "db_GetScenarioPublicationById publicationId db = SqlToModel (\<lambda>p. SP_Id p = publicationId) (db_publications db)"

definition db_UpdateScenarioLiveIterationId ::
    "string \<Rightarrow> string option \<Rightarrow> 'f marble_db \<Rightarrow> go_error + 'f marble_db" where
  "db_UpdateScenarioLiveIterationId scenarioId scenarioIterationId db =
     Inr (db\<lparr>db_scenarios := map (\<lambda>s. if Scenario_Id s = scenarioId
        then s\<lparr>LiveVersionID := scenarioIterationId\<rparr> else s) (db_scenarios db)\<rparr>)"

definition db_GetTestRunByLiveVersionID :: "string \<Rightarrow> 'f marble_db \<Rightarrow> go_error + ScenarioTestRun option" where
  "db_GetTestRunByLiveVersionID liveVersionID db =
     Inr (List.find (\<lambda>t. STR_ScenarioLiveIterationId t = liveVersionID) (db_testruns db))"

definition db_UpdateTestRunStatus :: "string \<Rightarrow> TestrunStatus \<Rightarrow> 'f marble_db \<Rightarrow> go_error + 'f marble_db" where
  "db_UpdateTestRunStatus testRunId status db =
     Inr (db\<lparr>db_testruns := map (\<lambda>t. if STR_Id t = testRunId then t\<lparr>STR_Status := status\<rparr> else t) (db_testruns db)\<rparr>)"

definition marble_repo :: "('f marble_db, 'f) publication_repo" where
  "marble_repo = \<lparr>Fetch = db_FetchScenarioAndIteration,
     CreateScenarioPublication = db_CreateScenarioPublication,
     GetScenarioPublicationById = db_GetScenarioPublicationById,
     UpdateScenarioLiveIterationId = db_UpdateScenarioLiveIterationId,
     GetTestRunByLiveVersionID = db_GetTestRunByLiveVersionID,
     UpdateTestRunStatus = db_UpdateTestRunStatus\<rparr>"

end
