(* ===== verification/Validation_Laws.thy ===== *)
theory Validation_Laws
  imports Scenario_Validation
begin

text \<open>
  What the validation of an iteration guarantees: an iteration without a validation error has
  ordered thresholds and formulas whose dry run has the type that the execution expects.
\<close>

section \<open>The interface to the dry run\<close>

text \<open>What the validation uses of the evaluation: a value comes without an error in its tree.\<close>

locale dry_run_evaluation =
  fixes dry :: "'f dry_run"
  assumes value_no_errors: "dry n = Some e \<Longrightarrow> NE_ReturnValue e \<noteq> VNil \<Longrightarrow> FlattenErrors e = []"

definition dry_evaluator ::
    "('f Node \<Rightarrow> nat) \<Rightarrow> (int list \<Rightarrow> nat list) \<Rightarrow> 'f AstEvaluationEnvironment \<Rightarrow> 'f dry_run" where
  "dry_evaluator H S env n = map_option (fst \<circ> fst) (EvaluateAst H S env n None)"

lemma eval_node_failed:
  "eval_node S env h i f wn runs named_runs st = Some ((e, False), st') \<Longrightarrow> NE_ReturnValue e = VNil"
  by (auto simp: eval_node_def apply_evaluator_def Let_def split: option.splits if_splits sum.splits prod.splits)

lemma EvaluateAst_failed: "EvaluateAst H S env n None = Some ((e, False), c) \<Longrightarrow> NE_ReturnValue e = VNil"
  by (cases n) (auto simp: EvaluateAst.simps cached_response_def Let_def split: if_splits dest: eval_node_failed)

lemma dry_evaluator_laws:
  assumes "cost_order S"
  shows "dry_run_evaluation (dry_evaluator H S env)"
proof
  fix n and e :: "'a NodeEvaluation"
  assume "dry_evaluator H S env n = Some e" "NE_ReturnValue e \<noteq> VNil"
  then obtain ok c where "EvaluateAst H S env n None = Some ((e, ok), c)" "NE_ReturnValue e \<noteq> VNil"
    by (auto simp: dry_evaluator_def)
  with EvaluateAst_failed [of H S env n e c] cost_order.EvaluateAst_errors [OF assms, of H env n None e ok c]
  show "FlattenErrors e = []" by (cases ok) auto
qed

interpretation dry: dry_run_evaluation "dry_evaluator H sort_positions env"
  by (rule dry_evaluator_laws) (rule stable.cost_order_axioms)

section \<open>The specification\<close>

definition returns :: "('f val \<Rightarrow> bool) \<Rightarrow> 'f dry_run \<Rightarrow> 'f Node \<Rightarrow> bool" where
  "returns P dry n \<longleftrightarrow> (case dry n of None \<Rightarrow> False | Some e \<Rightarrow> P (NE_ReturnValue e))"

text \<open>
  The counterparty expression of a screening only has to evaluate: that it returns a string is
  checked, but the error is not among those that prevent the publication.
\<close>

definition evaluates :: "'f dry_run \<Rightarrow> 'f Node \<Rightarrow> bool" where
  "evaluates dry n \<longleftrightarrow> (case dry n of None \<Rightarrow> False | Some e \<Rightarrow> FlattenErrors e = [])"

definition publishable_screening :: "'f dry_run \<Rightarrow> 'f ScreeningConfig \<Rightarrow> bool" where
  "publishable_screening dry scc \<longleftrightarrow>
     pred_option (returns is_bool dry) (TriggerRule scc)
   \<and> query_fields scc \<noteq> [] \<and> list_all (\<lambda>fieldAst. returns is_string_or_time dry (snd fieldAst)) (query_fields scc)
   \<and> pred_option (evaluates dry) (CounterpartyIdExpression scc)"

definition publishable :: "'f dry_run \<Rightarrow> 'f ScenarioIteration \<Rightarrow> bool" where
  "publishable dry iteration \<longleftrightarrow>
     (\<exists>review blockAndReview decline. ScoreReviewThreshold iteration = Some review
        \<and> ScoreBlockAndReviewThreshold iteration = Some blockAndReview
        \<and> ScoreDeclineThreshold iteration = Some decline \<and> review \<le> blockAndReview \<and> blockAndReview \<le> decline)
   \<and> pred_option (returns is_bool dry) (TriggerConditionAstExpression iteration)
   \<and> list_all (\<lambda>rule. case FormulaAstExpression rule of None \<Rightarrow> False | Some n \<Rightarrow> returns is_bool dry n) (Rules iteration)
   \<and> list_all (publishable_screening dry) (ScreeningConfigs iteration)"

section \<open>Each part of the validation\<close>

lemma is_bool_not_nil: "is_bool v \<Longrightarrow> v \<noteq> VNil"
  by (auto simp: is_bool_def)

lemma decision_validation_ok:
  "decision_validation iteration = [] \<longleftrightarrow>
     (\<exists>review blockAndReview decline. ScoreReviewThreshold iteration = Some review
        \<and> ScoreBlockAndReviewThreshold iteration = Some blockAndReview
        \<and> ScoreDeclineThreshold iteration = Some decline \<and> review \<le> blockAndReview \<and> blockAndReview \<le> decline)"
  by (auto simp: decision_validation_def split: option.splits)

definition rule_ok :: "'f RuleValidation \<Rightarrow> bool" where
  "rule_ok v \<longleftrightarrow> Rule_Errors v = [] \<and> flat (RuleEvaluation v) = []"

definition trigger_ok :: "'f triggerValidation \<Rightarrow> bool" where
  "trigger_ok v \<longleftrightarrow> Trigger_Errors v = [] \<and> flat (TriggerEvaluation v) = []"

lemma ScenarioValidationToError_None:
  "ScenarioValidationToError v = None \<longleftrightarrow> V_Errors v = [] \<and> trigger_ok (V_Trigger v) \<and> V_Rules_Errors v = []
     \<and> (\<forall>kv\<in>set (V_Rules v). rule_ok (snd kv)) \<and> V_Decision_Errors v = []
     \<and> (\<forall>sc\<in>set (V_Screenings v). screening_errors sc = [])"
proof -
  have "errors_Join (map Some es) = None \<longleftrightarrow> es = []" for es
    by (cases es) (simp_all add: errors_Join_def)
  moreover have "concat (map (\<lambda>kv. map Validation_Error (Rule_Errors (snd kv)) @ flat (RuleEvaluation (snd kv))) rs) = []
      \<longleftrightarrow> (\<forall>kv\<in>set rs. rule_ok (snd kv))" for rs :: "(string \<times> 'a RuleValidation) list"
    by (simp add: rule_ok_def)
  moreover have "concat (map screening_errors scs) = [] \<longleftrightarrow> (\<forall>sc\<in>set scs. screening_errors sc = [])"
    for scs :: "'a ScreeningConfigValidation list" by simp
  ultimately show ?thesis
    by (simp only: ScenarioValidationToError_def trigger_ok_def append_is_Nil_conv map_is_Nil_conv conj_assoc)
qed

lemma update_new: "k \<notin> fst ` set al \<Longrightarrow> AList.update k v al = al @ [(k, v)]"
  by (induction al) auto

lemma those_map: "those (map f xs) = Some ys \<longleftrightarrow> list_all2 (\<lambda>x y. f x = Some y) xs ys"
proof (induction xs arbitrary: ys)
  case (Cons x xs)
  then show ?case by (cases "f x") (auto simp: list_all2_Cons1)
qed auto

lemma list_all2_transfer:
  assumes "list_all2 R xs ys" "\<And>x y. x \<in> set xs \<Longrightarrow> R x y \<Longrightarrow> P x \<longleftrightarrow> Q y"
  shows "list_all P xs \<longleftrightarrow> (\<forall>y\<in>set ys. Q y)"
  using assms by (induction rule: list_all2_induct) auto

context dry_run_evaluation
begin

lemma flat_value: "dry n = Some e \<Longrightarrow> P (NE_ReturnValue e) \<Longrightarrow> \<not> P VNil \<Longrightarrow> flat (Some e) = []"
  using value_no_errors [of n e] unfolding flat_def by (cases "NE_ReturnValue e = VNil") simp_all

lemma flat_bool: "dry n = Some e \<Longrightarrow> is_bool (NE_ReturnValue e) \<Longrightarrow> flat (Some e) = []"
  by (rule flat_value [where P = is_bool]) (simp_all add: is_bool_def)

lemma validate_trigger_ok:
  assumes "validate_trigger dry trigger = Some v"
  shows "trigger_ok v \<longleftrightarrow> pred_option (returns is_bool dry) trigger"
  using assms flat_bool
  by (cases trigger) (auto simp: validate_trigger_def new_triggerValidation_def flat_def trigger_ok_def returns_def split: if_splits)

lemma validate_rule_ok:
  assumes "validate_rule dry rule = Some v"
  shows "rule_ok v \<longleftrightarrow> (case FormulaAstExpression rule of None \<Rightarrow> False | Some n \<Rightarrow> returns is_bool dry n)"
  using assms flat_bool
  by (cases "FormulaAstExpression rule")
    (auto simp: validate_rule_def NewRuleValidation_def rule_ok_def returns_def split: if_splits)

lemma validate_rules_ok:
  assumes "validate_rules dry rules result = Some vs" "distinct (map Rule_Id rules)"
    and "fst ` set result \<inter> Rule_Id ` set rules = {}"
  shows "(\<forall>kv\<in>set vs. rule_ok (snd kv)) \<longleftrightarrow> (\<forall>kv\<in>set result. rule_ok (snd kv))
     \<and> list_all (\<lambda>rule. case FormulaAstExpression rule of None \<Rightarrow> False | Some n \<Rightarrow> returns is_bool dry n) rules"
  using assms
proof (induction rules arbitrary: result)
  case (Cons rule rules)
  from Cons.prems(1) obtain v where v: "validate_rule dry rule = Some v"
    and vs: "validate_rules dry rules (AList.update (Rule_Id rule) v result) = Some vs"
    by (auto split: option.splits)
  have "Rule_Id rule \<notin> fst ` set result" using Cons.prems(3) by auto
  then have upd: "AList.update (Rule_Id rule) v result = result @ [(Rule_Id rule, v)]"
    by (rule update_new)
  have "fst ` set (result @ [(Rule_Id rule, v)]) \<inter> Rule_Id ` set rules = {}"
    using Cons.prems(2,3) by auto
  with Cons.IH [OF vs] Cons.prems(2) upd validate_rule_ok [OF v] show ?case by auto
qed simp

lemma validate_screening_trigger_ok:
  assumes "validate_screening_trigger dry trigger = Some v"
  shows "trigger_ok v \<longleftrightarrow> pred_option (returns is_bool dry) trigger"
  using assms
  by (cases trigger) (auto simp: validate_screening_trigger_def new_triggerValidation_def flat_def trigger_ok_def
      returns_def split: if_splits)

lemma validate_field_ok:
  assumes "validate_field dry fieldAst = Some fv"
  shows "Rule_Errors (snd fv) = [] \<longleftrightarrow> returns is_string_or_time dry (snd fieldAst)"
  using assms by (auto simp: validate_field_def returns_def split: if_splits)

lemma validate_counterparty_ok:
  assumes "validate_counterparty dry expression = Some v"
  shows "flat (RuleEvaluation v) = [] \<longleftrightarrow> pred_option (evaluates dry) expression"
  using assms by (cases expression)
    (auto simp: validate_counterparty_def NewRuleValidation_def flat_def evaluates_def)

lemma validate_screening_ok:
  assumes "validate_screening dry scc = Some sc"
  shows "screening_errors sc = [] \<longleftrightarrow> publishable_screening dry scc"
proof -
  from assms obtain trigger fields counterparty where
    t: "validate_screening_trigger dry (TriggerRule scc) = Some trigger" and
    f: "those (map (validate_field dry) (query_fields scc)) = Some fields" and
    c: "validate_counterparty dry (CounterpartyIdExpression scc) = Some counterparty" and
    sc: "sc = \<lparr>SV_TriggerRule = trigger,
          SV_Query = NewRuleValidation\<lparr>Rule_Errors := (if query_fields scc = []
            then [bad_formula ''screening does not have a query formula'' RuleFormulaRequired] else [])\<rparr>,
          SV_QueryFields = fields, SV_CounterpartyIdExpression = counterparty\<rparr>"
    unfolding validate_screening_def by (auto split: option.splits)
  have fields: "list_all (\<lambda>fieldAst. returns is_string_or_time dry (snd fieldAst)) (query_fields scc)
      \<longleftrightarrow> (\<forall>fv\<in>set fields. Rule_Errors (snd fv) = [])"
    using f unfolding those_map by (rule list_all2_transfer) (simp add: validate_field_ok)
  have "screening_errors sc = [] \<longleftrightarrow> trigger_ok trigger \<and> query_fields scc \<noteq> []
      \<and> (\<forall>fv\<in>set fields. Rule_Errors (snd fv) = []) \<and> flat (RuleEvaluation counterparty) = []"
    by (auto simp: sc screening_errors_def trigger_ok_def NewRuleValidation_def flat_def split: option.splits)
  then show ?thesis
    unfolding publishable_screening_def fields validate_screening_trigger_ok [OF t] validate_counterparty_ok [OF c] .
qed

lemma validation_accepts:
  assumes env: "make_env scenario = Inr env" and dry: "evaluate env = dry"
    and v: "ValidateScenarioIteration evaluate make_env scenario iteration = Some v"
    and ids: "distinct (map Rule_Id (Rules iteration))"
  shows "ScenarioValidationToError v = None \<longleftrightarrow> publishable dry iteration"
proof -
  from v env dry obtain trigger rules screenings where
    t: "validate_trigger dry (TriggerConditionAstExpression iteration) = Some trigger" and
    r: "validate_rules dry (Rules iteration) [] = Some rules" and
    s: "those (map (validate_screening dry) (ScreeningConfigs iteration)) = Some screenings" and
    v': "v = NewScenarioValidation\<lparr>V_Decision_Errors := decision_validation iteration, V_Trigger := trigger,
        V_Rules := rules, V_Screenings := screenings\<rparr>"
    unfolding ValidateScenarioIteration_def Let_def by (auto split: option.splits)
  have screenings: "list_all (publishable_screening dry) (ScreeningConfigs iteration)
      \<longleftrightarrow> (\<forall>sc\<in>set screenings. screening_errors sc = [])"
    using s unfolding those_map by (rule list_all2_transfer) (simp add: validate_screening_ok)
  from validate_rules_ok [OF r ids] have rules: "(\<forall>kv\<in>set rules. rule_ok (snd kv))
      \<longleftrightarrow> list_all (\<lambda>rule. case FormulaAstExpression rule of None \<Rightarrow> False | Some n \<Rightarrow> returns is_bool dry n) (Rules iteration)"
    by simp
  show ?thesis
    unfolding ScenarioValidationToError_None publishable_def screenings rules [symmetric]
      validate_trigger_ok [OF t, symmetric] decision_validation_ok [symmetric]
    by (auto simp: v' NewScenarioValidation_def)
qed

end

end
