(* ===== verification/Publication_Laws.thy ===== *)
theory Publication_Laws
  imports Publication Validation_Laws
begin

text \<open>
  What publishing guarantees: the log of publications determines the live version of each scenario,
  and a version goes live only when it is allowed, valid and served by indexes.
\<close>

section \<open>The contract of a repository\<close>

text \<open>
  \<open>live\<close> is the live version of a scenario, \<open>log\<close> the publications in the order of their creation and
  \<open>known\<close> the scenarios that exist. An operation that fails promises nothing.
\<close>

locale publication_repository =
  fixes R :: "('s, 'f) publication_repo"
    and live :: "'s \<Rightarrow> string \<Rightarrow> string option"
    and log :: "'s \<Rightarrow> ScenarioPublication list"
    and known :: "'s \<Rightarrow> string \<Rightarrow> bool"
  assumes fetched: "Fetch R it s = Inr si \<Longrightarrow> known s (Scenario_Id (SI_Scenario si))
      \<and> LiveVersionID (SI_Scenario si) = live s (Scenario_Id (SI_Scenario si)) \<and> Iteration_Id (SI_Iteration si) = it"
    and created: "CreateScenarioPublication R p s = Inr s' \<Longrightarrow> log s' = log s @ [p] \<and> live s' = live s \<and> known s' = known s"
    and got: "GetScenarioPublicationById R i s = Inr p \<Longrightarrow> p \<in> set (log s) \<and> SP_Id p = i"
    and ids: "distinct (map SP_Id (log s)) \<Longrightarrow> CreateScenarioPublication R p s = Inr s' \<Longrightarrow> distinct (map SP_Id (log s'))"
    and updated: "known s scen \<Longrightarrow> UpdateScenarioLiveIterationId R scen v s = Inr s' \<Longrightarrow>
        log s' = log s \<and> live s' = (live s)(scen := v) \<and> known s' = known s"
    and testrun: "UpdateTestRunStatus R t st s = Inr s' \<Longrightarrow> log s' = log s \<and> live s' = live s \<and> known s' = known s"

text \<open>The live version of each scenario after a log of publications.\<close>

fun replay :: "ScenarioPublication list \<Rightarrow> (string \<Rightarrow> string option) \<Rightarrow> string \<Rightarrow> string option" where
  "replay [] m = m"
| "replay (p # ps) m = replay ps (case SP_PublicationAction p of
     Publish \<Rightarrow> m(SP_ScenarioId p := Some (SP_ScenarioIterationId p))
   | Unpublish \<Rightarrow> m(SP_ScenarioId p := None)
   | _ \<Rightarrow> m)"

lemma unique_key: "distinct (map f xs) \<Longrightarrow> x \<in> set xs \<Longrightarrow> y \<in> set xs \<Longrightarrow> f x = f y \<Longrightarrow> x = y"
  by (meson distinct_map inj_onD)

lemma replay_append: "replay (ps @ qs) m = replay qs (replay ps m)"
  by (induction ps m rule: replay.induct) auto

definition unpublication :: "string \<Rightarrow> uuid \<Rightarrow> string \<Rightarrow> string option \<Rightarrow> ScenarioPublication list" where
  "unpublication i org scen old = (case old of None \<Rightarrow> [] | Some it \<Rightarrow>
     [\<lparr>SP_Id = i, SP_OrganizationId = org, SP_ScenarioId = scen, SP_ScenarioIterationId = it,
       SP_PublicationAction = Unpublish\<rparr>])"

definition publication :: "string \<Rightarrow> uuid \<Rightarrow> string \<Rightarrow> string \<Rightarrow> ScenarioPublication" where
  "publication i org scen it = \<lparr>SP_Id = i, SP_OrganizationId = org, SP_ScenarioId = scen,
     SP_ScenarioIterationId = it, SP_PublicationAction = Publish\<rparr>"

lemma replay_unpublication: "m scen = old \<Longrightarrow> replay (unpublication i org scen old) m = m(scen := None)"
  by (auto simp: unpublication_def fun_upd_idem split: option.splits)

lemma replay_publication [simp]: "replay [publication i org scen it] m = m(scen := Some it)"
  by (simp add: publication_def)

context publication_repository
begin

lemma shutdown:
  assumes "shutDownTestRunIfNeeded R it s = Inr s'"
  shows "log s' = log s \<and> live s' = live s \<and> known s' = known s"
  using assms testrun
  by (auto simp: shutDownTestRunIfNeeded_def split: sum.splits option.splits if_splits)

lemma unpublished:
  assumes "unpublishOldIteration R i org scen old s = Inr (sps, s')" "known s scen"
    and "distinct (map SP_Id (log s))" "live s scen = old"
  shows "sps = unpublication i org scen old \<and> log s' = log s @ sps \<and> live s' = (live s)(scen := None)
     \<and> known s' = known s \<and> distinct (map SP_Id (log s'))"
proof (cases old)
  case None
  with assms show ?thesis by (auto simp: unpublishOldIteration_def unpublication_def)
next
  case (Some it)
  define p where "p = \<lparr>SP_Id = i, SP_OrganizationId = org, SP_ScenarioId = scen, SP_ScenarioIterationId = it,
    SP_PublicationAction = Unpublish\<rparr>"
  from assms(1) Some obtain s1 s2 sp where
    1: "CreateScenarioPublication R p s = Inr s1" and 2: "UpdateScenarioLiveIterationId R scen None s1 = Inr s2" and
    3: "shutDownTestRunIfNeeded R it s2 = Inr s'" and 4: "GetScenarioPublicationById R i s' = Inr sp" and
    sps: "sps = [sp]"
    by (auto simp: unpublishOldIteration_def p_def split: sum.splits)
  from created [OF 1] have s1: "log s1 = log s @ [p]" "live s1 = live s" "known s1 = known s" by auto
  from updated [OF _ 2] assms(2) s1 have s2: "log s2 = log s @ [p]" "live s2 = (live s)(scen := None)" "known s2 = known s"
    by auto
  from shutdown [OF 3] s2 have s3: "log s' = log s @ [p]" "live s' = (live s)(scen := None)" "known s' = known s" by auto
  have dist: "distinct (map SP_Id (log s'))" using ids [OF assms(3) 1] s1 s3 by simp
  from got [OF 4] have "sp \<in> set (log s')" "SP_Id sp = SP_Id p" by (auto simp: p_def)
  with dist s3(1) have "sp = p" by (intro unique_key [of SP_Id "log s'"]) simp_all
  with s3 dist sps Some show ?thesis by (simp add: unpublication_def p_def)
qed

lemma published:
  assumes "publishNewIteration R i org scen it s = Inr (sp, s')" "known s scen" "distinct (map SP_Id (log s))"
  shows "sp = publication i org scen it \<and> log s' = log s @ [sp] \<and> live s' = (live s)(scen := Some it)
     \<and> known s' = known s \<and> distinct (map SP_Id (log s'))"
proof -
  let ?p = "publication i org scen it"
  from assms(1) obtain s1 s2 where
    1: "CreateScenarioPublication R ?p s = Inr s1" and 2: "GetScenarioPublicationById R i s1 = Inr sp" and
    3: "UpdateScenarioLiveIterationId R scen (Some it) s1 = Inr s2" and 4: "shutDownTestRunIfNeeded R it s2 = Inr s'"
    by (auto simp: publishNewIteration_def publication_def split: sum.splits)
  from created [OF 1] have s1: "log s1 = log s @ [?p]" "live s1 = live s" "known s1 = known s" by auto
  from updated [OF _ 3] assms(2) s1 have s2: "log s2 = log s @ [?p]" "live s2 = (live s)(scen := Some it)" "known s2 = known s"
    by auto
  have dist: "distinct (map SP_Id (log s1))" by (rule ids [OF assms(3) 1])
  from got [OF 2] have "sp \<in> set (log s1)" "SP_Id sp = SP_Id ?p" by (auto simp: publication_def)
  with dist s1(1) have "sp = ?p" by (intro unique_key [of SP_Id "log s1"]) simp_all
  with shutdown [OF 4] s2 dist s1 show ?thesis by simp
qed

lemma publish_effect:
  assumes run: "PublishOrUnpublishIteration R validate newIds si Publish s = Inr (sps, s')"
    and fetch: "Fetch R it s = Inr si" and dist: "distinct (map SP_Id (log s))"
  defines "scen \<equiv> Scenario_Id (SI_Scenario si)" and "org \<equiv> Scenario_OrganizationId (SI_Scenario si)"
  shows "Version (SI_Iteration si) \<noteq> None \<and> distinct (map SP_Id (log s')) \<and> log s' = log s @ sps
     \<and> live s' = (live s)(scen := Some it)
     \<and> (if live s scen = Some it then s' = s \<and> sps = []
        else validate si = None
          \<and> sps = unpublication (fst newIds) org scen (live s scen) @ [publication (snd newIds) org scen it])"
proof -
  from fetched [OF fetch] have f: "known s scen" "LiveVersionID (SI_Scenario si) = live s scen"
    "Iteration_Id (SI_Iteration si) = it" by (auto simp: scen_def)
  have version: "Version (SI_Iteration si) \<noteq> None"
    using run by (auto simp: PublishOrUnpublishIteration_def Let_def split: if_splits)
  show ?thesis
  proof (cases "live s scen = Some it")
    case True
    with run version f dist show ?thesis
      by (auto simp: PublishOrUnpublishIteration_def Let_def fun_upd_idem split: if_splits)
  next
    case False
    with run version f obtain sps1 s1 sp where valid: "validate si = None" and
      1: "unpublishOldIteration R (fst newIds) org scen (live s scen) s = Inr (sps1, s1)" and
      2: "publishNewIteration R (snd newIds) org scen it s1 = Inr (sp, s')" and sps: "sps = sps1 @ [sp]"
      by (auto simp: PublishOrUnpublishIteration_def Let_def scen_def org_def split: if_splits option.splits sum.splits)
    note u' = unpublished [OF 1 f(1) dist refl]
    have u: "sps1 = unpublication (fst newIds) org scen (live s scen)" "log s1 = log s @ sps1"
      "live s1 = (live s)(scen := None)" "known s1 scen" "distinct (map SP_Id (log s1))"
      using u' f(1) by metis+
    note p = published [OF 2 u(4,5)]
    have "log s' = log s @ sps" using p u(2) sps by simp
    moreover have "sps = unpublication (fst newIds) org scen (live s scen) @ [publication (snd newIds) org scen it]"
      using p u(1) sps by simp
    moreover have "live s' = (live s)(scen := Some it)" using p u(3) by simp
    ultimately show ?thesis unfolding if_not_P [OF False] using p valid version by blast
  qed
qed

lemma unpublish_effect:
  assumes run: "PublishOrUnpublishIteration R validate newIds si Unpublish s = Inr (sps, s')"
    and fetch: "Fetch R it s = Inr si" and dist: "distinct (map SP_Id (log s))"
  defines "scen \<equiv> Scenario_Id (SI_Scenario si)" and "org \<equiv> Scenario_OrganizationId (SI_Scenario si)"
  shows "live s scen = Some it \<and> sps = unpublication (fst newIds) org scen (Some it) \<and> log s' = log s @ sps
     \<and> live s' = (live s)(scen := None) \<and> distinct (map SP_Id (log s'))"
proof -
  from fetched [OF fetch] have f: "known s scen" "LiveVersionID (SI_Scenario si) = live s scen"
    "Iteration_Id (SI_Iteration si) = it" by (auto simp: scen_def)
  from run f have l: "live s scen = Some it"
    and 1: "unpublishOldIteration R (fst newIds) org scen (Some it) s = Inr (sps, s')"
    by (auto simp: PublishOrUnpublishIteration_def Let_def scen_def org_def split: if_splits)
  from unpublished [OF 1 f(1) dist l] l show ?thesis by blast
qed

lemma action_replays:
  assumes run: "PublishOrUnpublishIteration R validate newIds si action s = Inr (sps, s')"
    and fetch: "Fetch R it s = Inr si" and dist: "distinct (map SP_Id (log s))"
    and replay: "replay (log s) m = live s"
  shows "replay (log s') m = live s' \<and> distinct (map SP_Id (log s'))"
proof (cases action)
  case Publish
  note e = publish_effect [OF run [unfolded Publish] fetch dist]
  then have "replay (log s') m = live s'" using replay
    by (auto simp: replay_append replay_unpublication fun_upd_idem publication_def split: if_splits)
  with e show ?thesis by blast
next
  case Unpublish
  note e = unpublish_effect [OF run [unfolded Unpublish] fetch dist]
  then have "replay (log s') m = live s'" using replay by (auto simp: replay_append replay_unpublication)
  with e show ?thesis by blast
qed (use run in \<open>simp_all add: PublishOrUnpublishIteration_def\<close>)

end

section \<open>The tables keep the contract\<close>

definition db_live :: "'f marble_db \<Rightarrow> string \<Rightarrow> string option" where
  "db_live db scenarioId = (case List.find (\<lambda>s. Scenario_Id s = scenarioId) (db_scenarios db) of
     None \<Rightarrow> None | Some s \<Rightarrow> LiveVersionID s)"

definition db_known :: "'f marble_db \<Rightarrow> string \<Rightarrow> bool" where
  "db_known db scenarioId \<longleftrightarrow> scenarioId \<in> set (map Scenario_Id (db_scenarios db))"

lemma SqlToModel_Inr: "SqlToModel P rows = Inr x \<longleftrightarrow> List.find P rows = Some x"
  by (simp add: SqlToModel_def split: option.splits)

lemma find_D: "List.find P xs = Some x \<Longrightarrow> x \<in> set xs \<and> P x"
  by (auto simp: find_Some_iff)

lemma find_update_live:
  "List.find (\<lambda>s. Scenario_Id s = i) (map (\<lambda>s. if Scenario_Id s = j then s\<lparr>LiveVersionID := v\<rparr> else s) xs)
   = map_option (\<lambda>s. if Scenario_Id s = j then s\<lparr>LiveVersionID := v\<rparr> else s) (List.find (\<lambda>s. Scenario_Id s = i) xs)"
  by (induction xs) auto

lemma ids_update_live [simp]:
  "map Scenario_Id (map (\<lambda>s. if Scenario_Id s = j then s\<lparr>LiveVersionID := v\<rparr> else s) xs) = map Scenario_Id xs"
  by simp

lemma db_known_update:
  "db_UpdateScenarioLiveIterationId scen v db = Inr db' \<Longrightarrow>
     db_known db' = db_known db \<and> db_publications db' = db_publications db"
proof -
  assume "db_UpdateScenarioLiveIterationId scen v db = Inr db'"
  then have "map Scenario_Id (db_scenarios db') = map Scenario_Id (db_scenarios db)"
    and "db_publications db' = db_publications db"
    by (auto simp: db_UpdateScenarioLiveIterationId_def)
  then show ?thesis by (simp only: db_known_def fun_eq_iff simp_thms)
qed

lemma find_Scenario_Id: "List.find (\<lambda>s. Scenario_Id s = i) xs = Some s \<Longrightarrow> Scenario_Id s = i"
  by (auto dest: find_D)

lemma db_live_update:
  assumes "db_known db scen" "db_UpdateScenarioLiveIterationId scen v db = Inr db'"
  shows "db_live db' = (db_live db)(scen := v)"
proof
  fix i
  obtain s where s: "List.find (\<lambda>s. Scenario_Id s = scen) (db_scenarios db) = Some s"
    using assms(1) by (cases "List.find (\<lambda>s. Scenario_Id s = scen) (db_scenarios db)")
      (auto simp: db_known_def find_None_iff)
  from assms(2) have db': "db_scenarios db' = map (\<lambda>s. if Scenario_Id s = scen then s\<lparr>LiveVersionID := v\<rparr> else s) (db_scenarios db)"
    by (auto simp: db_UpdateScenarioLiveIterationId_def)
  show "db_live db' i = ((db_live db)(scen := v)) i"
  proof (cases "i = scen")
    case True
    with find_Scenario_Id [OF s] s show ?thesis by (simp add: db_live_def db' find_update_live)
  next
    case False
    then have "map_option (\<lambda>s. if Scenario_Id s = scen then s\<lparr>LiveVersionID := v\<rparr> else s)
        (List.find (\<lambda>s. Scenario_Id s = i) (db_scenarios db)) = List.find (\<lambda>s. Scenario_Id s = i) (db_scenarios db)"
      by (cases "List.find (\<lambda>s. Scenario_Id s = i) (db_scenarios db)") (auto dest: find_Scenario_Id)
    with False show ?thesis by (simp add: db_live_def db' find_update_live)
  qed
qed

interpretation marble: publication_repository marble_repo db_live db_publications db_known
proof
  fix it and db :: "'f marble_db" and si
  assume "Fetch marble_repo it db = Inr si"
  then obtain i s where i: "List.find (\<lambda>i. Iteration_Id i = it) (db_iterations db) = Some i"
    and s: "List.find (\<lambda>s. Scenario_Id s = Stored_ScenarioId i) (db_scenarios db) = Some s"
    and si: "SI_Scenario si = s" "Iteration_Id (SI_Iteration si) = Iteration_Id i"
    by (auto simp: marble_repo_def db_FetchScenarioAndIteration_def db_GetScenarioIteration_def db_GetScenarioById_def
        SqlToModel_Inr Let_def ScenarioIteration.truncate_def split: sum.splits if_splits)
  have "Scenario_Id s = Stored_ScenarioId i" "s \<in> set (db_scenarios db)" "Iteration_Id i = it"
    using find_D [OF i] find_D [OF s] by simp_all
  with s si show "db_known db (Scenario_Id (SI_Scenario si))
      \<and> LiveVersionID (SI_Scenario si) = db_live db (Scenario_Id (SI_Scenario si)) \<and> Iteration_Id (SI_Iteration si) = it"
    by (auto simp: db_known_def db_live_def intro: rev_image_eqI)
next
  fix scen v and db db' :: "'f marble_db"
  assume k: "db_known db scen" and u: "UpdateScenarioLiveIterationId marble_repo scen v db = Inr db'"
  then have "db_UpdateScenarioLiveIterationId scen v db = Inr db'" by (simp add: marble_repo_def)
  with db_live_update [OF k this] db_known_update [OF this]
  show "db_publications db' = db_publications db \<and> db_live db' = (db_live db)(scen := v) \<and> db_known db' = db_known db"
    by blast
next
  fix p and db db' :: "'f marble_db"
  assume "distinct (map SP_Id (db_publications db))" "CreateScenarioPublication marble_repo p db = Inr db'"
  then show "distinct (map SP_Id (db_publications db'))"
    by (auto simp: marble_repo_def db_CreateScenarioPublication_def list_ex_iff split: if_splits) metis
qed (auto simp: marble_repo_def db_CreateScenarioPublication_def db_GetScenarioPublicationById_def SqlToModel_Inr
    db_UpdateTestRunStatus_def db_live_def db_known_def fun_eq_iff split: if_splits dest: find_D)

section \<open>The use case\<close>

lemma publication_transaction_Inr:
  assumes "publication_transaction E creds R newIds org it action s = Inr (sps, s')"
  obtains si where "Fetch R it s = Inr si" "screening_requirement E org (SI_Iteration si) = None"
    "PublishScenario creds (scenario_owned (SI_Scenario si)) = None"
    "PublishOrUnpublishIteration R (ValidateIteration E) newIds si action s = Inr (sps, s')"
  using assms by (auto simp: publication_transaction_def split: sum.splits option.splits)

lemma Execute_Inr:
  assumes "ExecuteScenarioPublicationAction E creds R newIds org it action s = (Inr sps, s')"
  obtains toCreate numPending where "GetIndexesToCreate E creds R org it s = Inr (toCreate, numPending)"
    "action = Publish \<Longrightarrow> toCreate = []"
    "publication_transaction E creds R newIds org it action s = Inr (sps, s')"
  using assms by (auto simp: ExecuteScenarioPublicationAction_def split: sum.splits if_splits)

lemma Execute_Inl:
  "ExecuteScenarioPublicationAction E creds R newIds org it action s = (Inl err, s') \<Longrightarrow> s' = s"
  by (auto simp: ExecuteScenarioPublicationAction_def split: sum.splits if_splits)

lemma GetIndexesToCreate_Inr:
  assumes "GetIndexesToCreate E creds R org it s = Inr (toCreate, numPending)" "Fetch R it s = Inr si"
  obtains existing where "ListAllValidIndexes E org = Inr existing"
    "indexesToCreateFromScenarioIterations (ToUpper E) (Slice E) [SI_Iteration si] existing = Inr toCreate"
  using assms by (auto simp: GetIndexesToCreate_def split: sum.splits option.splits)

text \<open>Preparations do not count in the live versions.\<close>

context publication_repository
begin

lemma preparation_replays:
  assumes run: "StartPublicationPreparation E creds R newId org it s = (res, s')"
    and dist: "distinct (map SP_Id (log s))" and replay: "replay (log s) m = live s"
  shows "replay (log s') m = live s' \<and> distinct (map SP_Id (log s'))"
proof (cases "s' = s")
  case False
  with run obtain scen where "SaveScenarioPreparationAction R newId org scen it s = Inr s'"
    by (auto simp: StartPublicationPreparation_def split: sum.splits if_splits option.splits
        dest!: Transaction_changed intro: that)
  then have c: "CreateScenarioPublication R \<lparr>SP_Id = newId, SP_OrganizationId = org,
      SP_ScenarioId = scen, SP_ScenarioIterationId = it, SP_PublicationAction = Prepare\<rparr> s = Inr s'"
    by (simp add: SaveScenarioPreparationAction_def)
  from created [OF c] replay have "replay (log s') m = live s'" by (auto simp: replay_append)
  with ids [OF dist c] show ?thesis by blast
qed (use dist replay in simp)

lemma execution_replays:
  assumes run: "ExecuteScenarioPublicationAction E creds R newIds org it action s = (res, s')"
    and dist: "distinct (map SP_Id (log s))" and replay: "replay (log s) m = live s"
  shows "replay (log s') m = live s' \<and> distinct (map SP_Id (log s'))"
proof (cases res)
  case (Inl err)
  with Execute_Inl run dist replay show ?thesis by fastforce
next
  case (Inr sps)
  with run obtain si where "Fetch R it s = Inr si"
    "PublishOrUnpublishIteration R (ValidateIteration E) newIds si action s = Inr (sps, s')"
    by (metis Execute_Inr publication_transaction_Inr)
  with action_replays [OF this(2,1) dist replay] show ?thesis by blast
qed

lemma execution_publishes:
  assumes run: "ExecuteScenarioPublicationAction E creds R newIds org it Publish s = (Inr sps, s')"
    and dist: "distinct (map SP_Id (log s))"
  obtains si existing where "Fetch R it s = Inr si" "live s' = (live s)(Scenario_Id (SI_Scenario si) := Some it)"
    "log s' = log s @ sps" "PublishScenario creds (scenario_owned (SI_Scenario si)) = None"
    "Version (SI_Iteration si) \<noteq> None" "screening_requirement E org (SI_Iteration si) = None"
    "live s (Scenario_Id (SI_Scenario si)) = Some it \<or> ValidateIteration E si = None"
    "ListAllValidIndexes E org = Inr existing"
    "indexesToCreateFromScenarioIterations (ToUpper E) (Slice E) [SI_Iteration si] existing = Inr []"
proof -
  from run obtain toCreate numPending where g: "GetIndexesToCreate E creds R org it s = Inr (toCreate, numPending)"
    "toCreate = []" and t: "publication_transaction E creds R newIds org it Publish s = Inr (sps, s')"
    by (metis Execute_Inr)
  from t obtain si where si: "Fetch R it s = Inr si" "screening_requirement E org (SI_Iteration si) = None"
    "PublishScenario creds (scenario_owned (SI_Scenario si)) = None"
    and p: "PublishOrUnpublishIteration R (ValidateIteration E) newIds si Publish s = Inr (sps, s')"
    by (metis publication_transaction_Inr)
  from GetIndexesToCreate_Inr [OF g(1) si(1)] g(2) obtain existing where
    e: "ListAllValidIndexes E org = Inr existing"
    "indexesToCreateFromScenarioIterations (ToUpper E) (Slice E) [SI_Iteration si] existing = Inr []" by blast
  from publish_effect [OF p si(1) dist] have
    "Version (SI_Iteration si) \<noteq> None" "live s' = (live s)(Scenario_Id (SI_Scenario si) := Some it)" "log s' = log s @ sps"
    "live s (Scenario_Id (SI_Scenario si)) = Some it \<or> ValidateIteration E si = None" by (auto split: if_splits)
  with that si e show thesis by blast
qed

end

end
