(* ===== verification/Publication_Properties.thy ===== *)
theory Publication_Properties
  imports Publication_Laws Index_Properties
begin

text \<open>The properties of the validation and of the publication of scenario iterations.\<close>

section \<open>Validation\<close>


definition example_scenario :: Scenario where
  "example_scenario = \<lparr>Scenario_Id = ''s'', Scenario_Name = ''n'', LiveVersionID = None,
     Scenario_OrganizationId = 7, TriggerObjectType = ''t''\<rparr>"

definition example_iteration :: "unit ScenarioIteration" where
  "example_iteration = \<lparr>Iteration_Id = ''i'', Version = Some 1,
     TriggerConditionAstExpression = Some (Node 0 FUNC_CONSTANT (VBool True) [] []), Rules = [], ScreeningConfigs = [],
     ScoreReviewThreshold = Some 1, ScoreBlockAndReviewThreshold = Some 2, ScoreDeclineThreshold = Some 3\<rparr>"



section \<open>The log of publications\<close>

text \<open>The databases reached from one without a publication or a live version, by any requests.\<close>

inductive publication_reachable :: "'f marble_db \<Rightarrow> bool" where
  start: "db_publications db = [] \<Longrightarrow> db_live db = (\<lambda>_. None) \<Longrightarrow> publication_reachable db"
| execute: "publication_reachable db \<Longrightarrow>
    ExecuteScenarioPublicationAction E creds marble_repo newIds org it action db = (res, db') \<Longrightarrow>
    publication_reachable db'"
| prepare: "publication_reachable db \<Longrightarrow>
    StartPublicationPreparation E creds marble_repo newId org it db = (res', db') \<Longrightarrow> publication_reachable db'"

lemma reachable_log:
  "publication_reachable db \<Longrightarrow>
     replay (db_publications db) (\<lambda>_. None) = db_live db \<and> distinct (map SP_Id (db_publications db))"
proof (induction rule: publication_reachable.induct)
  case (execute db E creds newIds org it action res db')
  then show ?case using marble.execution_replays by blast
next
  case (prepare db E creds newId org it res' db')
  then show ?case using marble.preparation_replays by blast
qed simp

text \<open>C11: the log of publications determines the live version of every scenario: after any sequence of
  requests, the live version is that of the last publication, and none after an unpublication.\<close>

theorem log_determines_live_versions:
  "publication_reachable db \<Longrightarrow> db_live db = replay (db_publications db) (\<lambda>_. None)"
  by (simp add: reachable_log)

definition example_db :: "unit marble_db" where
  "example_db = \<lparr>db_organizations = [7], db_scenarios = [example_scenario],
     db_iterations = [ScenarioIteration.extend example_iteration \<lparr>Stored_ScenarioId = ''s'', Stored_OrganizationId = 7\<rparr>],
     db_screening_configs = [], db_publications = [], db_testruns = []\<rparr>"

definition example_publication_env :: "unit publication_env" where
  "example_publication_env = \<lparr>ToUpper = (\<lambda>s. s), Slice = sorted_list_of_set, ListAllValidIndexes = (\<lambda>_. Inr []),
     CountPendingIndexes = (\<lambda>_. Inr 0), GetOrganizationById = (\<lambda>_. Inr ()), SanctionsAccess = (\<lambda>_. Inr Allowed),
     IsConfigured = (\<lambda>_. Inr True), ValidateIteration = (\<lambda>_. None), EnqueueCreateIndexTask = (\<lambda>_ _. None)\<rparr>"

definition example_admin :: Credentials where
  "example_admin = \<lparr>ActorIdentity = \<lparr>Identity_UserId = [], Identity_Email = [], Identity_FirstName = [],
     Identity_LastName = [], Identity_ApiKeyId = [], Identity_ApiKeyName = []\<rparr>,
     Cred_OrganizationId = 7, Cred_Role = ADMIN\<rparr>"

lemmas example_defs = example_db_def example_scenario_def example_iteration_def example_publication_env_def
  marble_repo_def

lemma example_fetch: "Fetch marble_repo ''i'' example_db
    = Inr \<lparr>SI_Scenario = example_scenario, SI_Iteration = example_iteration\<rparr>"
  by (simp add: example_defs db_FetchScenarioAndIteration_def db_GetScenarioIteration_def db_GetScenarioById_def
      SqlToModel_def ScenarioIteration.truncate_def ScenarioIteration.extend_def stored_iteration.defs)

lemma example_admin_publishes: "PublishScenario example_admin (scenario_owned example_scenario) = None"
  by code_simp

lemma example_no_indexes:
  "GetIndexesToCreate example_publication_env example_admin marble_repo 7 ''i'' example_db = Inr ([], 0)"
  unfolding GetIndexesToCreate_def example_fetch
  by (simp add: example_admin_publishes) (simp add: example_publication_env_def example_iteration_def
      indexesToCreateFromScenarioIterations_def iteration_asts_def List.map_filter_simps
      indexesToCreateFromQueryFamilies_def Let_def hs_from_def extractMinimalSetOfIdxFamilies_def
      selectConcreteIndexesToCreate_def selectIdxFamiliesToCreate_def)

definition example_published :: "unit marble_db" where
  "example_published = example_db\<lparr>db_scenarios := [example_scenario\<lparr>LiveVersionID := Some ''i''\<rparr>],
     db_publications := [publication ''p1'' 7 ''s'' ''i'']\<rparr>"

lemma example_execution:
  "ExecuteScenarioPublicationAction example_publication_env example_admin marble_repo (''p0'', ''p1'') 7 ''i'' Publish
     example_db = (Inr [publication ''p1'' 7 ''s'' ''i''], example_published)"
proof -
  have "publishNewIteration marble_repo ''p1'' 7 ''s'' ''i'' example_db
      = Inr (publication ''p1'' 7 ''s'' ''i'', example_published)"
    by (simp add: publishNewIteration_def example_published_def publication_def shutDownTestRunIfNeeded_def
        db_CreateScenarioPublication_def db_GetScenarioPublicationById_def SqlToModel_def example_defs
        db_UpdateScenarioLiveIterationId_def db_GetTestRunByLiveVersionID_def)
  then have "PublishOrUnpublishIteration marble_repo (ValidateIteration example_publication_env) (''p0'', ''p1'')
      \<lparr>SI_Scenario = example_scenario, SI_Iteration = example_iteration\<rparr> Publish example_db
      = Inr ([publication ''p1'' 7 ''s'' ''i''], example_published)"
    by (simp add: PublishOrUnpublishIteration_def example_scenario_def example_iteration_def
        example_publication_env_def unpublishOldIteration_def)
  moreover have "GetOrganizationById example_publication_env 7 = Inr ()"
    by (simp add: example_publication_env_def)
  moreover have "screening_requirement example_publication_env 7 example_iteration = None"
    by (simp add: screening_requirement_def example_iteration_def)
  ultimately show ?thesis
    by (simp add: ExecuteScenarioPublicationAction_def example_no_indexes publication_transaction_def example_fetch
        example_admin_publishes)
qed

theorem log_determines_live_versions_witness:
  "db_live example_published ''s'' = replay (db_publications example_published) (\<lambda>_. None) ''s''"
proof -
  have "publication_reachable example_db"
    by (rule publication_reachable.start) (simp_all add: example_db_def example_scenario_def db_live_def fun_eq_iff)
  from publication_reachable.execute [OF this example_execution] show ?thesis
    by (simp add: log_determines_live_versions)
qed

section \<open>Going live\<close>

text \<open>C10: a successful request to publish makes the iteration live, and only with the permission to
  publish in the organization of its scenario, when the iteration is a committed version, when
  screenings are allowed if it has some, when it is valid (or was already live), and when each
  aggregation of its trigger and rules has the columns it searches in a valid index.\<close>

theorem publish_goes_live_safely:
  assumes run: "ExecuteScenarioPublicationAction E creds marble_repo newIds org it Publish db = (Inr sps, db')"
    and reach: "publication_reachable db"
    and slice: "\<And>S. finite S \<Longrightarrow> set (Slice E S) = S" and up: "\<And>s. ToUpper E s = [] \<longleftrightarrow> s = []"
  shows "\<exists>scenario iteration. db_FetchScenarioAndIteration it db = Inr \<lparr>SI_Scenario = scenario, SI_Iteration = iteration\<rparr>
     \<and> db_live db' = (db_live db)(Scenario_Id scenario := Some it)
     \<and> PublishScenario creds (scenario_owned scenario) = None
     \<and> Version iteration \<noteq> None \<and> screening_requirement E org iteration = None
     \<and> (db_live db (Scenario_Id scenario) = Some it
        \<or> ValidateIteration E \<lparr>SI_Scenario = scenario, SI_Iteration = iteration\<rparr> = None)
     \<and> (\<exists>qs existing. extractQueryFamiliesFromAstSlice (iteration_asts iteration) = Inr qs
          \<and> ListAllValidIndexes E org = Inr existing
          \<and> ((\<forall>q\<in>set qs. query_ok q) \<longrightarrow> (\<forall>q\<in>set qs. \<forall>f\<in>set (ToIndexFamilies (Slice E) q).
               \<exists>i\<in>set existing. has_columns (ToUpper E) i f)))"
proof -
  from reachable_log [OF reach] have dist: "distinct (map SP_Id (db_publications db))" by blast
  from marble.execution_publishes [OF run dist] obtain si existing where
    si: "Fetch marble_repo it db = Inr si" and l: "db_live db' = (db_live db)(Scenario_Id (SI_Scenario si) := Some it)"
    and g: "PublishScenario creds (scenario_owned (SI_Scenario si)) = None" "Version (SI_Iteration si) \<noteq> None"
      "screening_requirement E org (SI_Iteration si) = None"
      "db_live db (Scenario_Id (SI_Scenario si)) = Some it \<or> ValidateIteration E si = None"
    and e: "ListAllValidIndexes E org = Inr existing"
    and i: "indexesToCreateFromScenarioIterations (ToUpper E) (Slice E) [SI_Iteration si] existing = Inr []"
    by metis
  from i obtain qs where qs: "extractQueryFamiliesFromAstSlice (iteration_asts (SI_Iteration si)) = Inr qs"
    "indexesToCreateFromQueryFamilies (ToUpper E) (Slice E) qs existing = []"
    by (auto simp: indexesToCreateFromScenarioIterations_def split: sum.splits)
  have "\<exists>i\<in>set existing. has_columns (ToUpper E) i f"
    if "\<forall>q\<in>set qs. query_ok q" "q \<in> set qs" "f \<in> set (ToIndexFamilies (Slice E) q)" for q f
    using pipeline_index [OF slice up that, of existing] qs(2) by simp
  with si l g e qs(1) show ?thesis
    by (intro exI [of _ "SI_Scenario si"] exI [of _ "SI_Iteration si"])
      (cases si, auto simp: marble_repo_def)
qed

theorem publish_goes_live_safely_witness:
  "\<exists>scenario iteration. db_FetchScenarioAndIteration ''i'' example_db
       = Inr \<lparr>SI_Scenario = scenario, SI_Iteration = iteration\<rparr>
     \<and> db_live example_published = (db_live example_db)(Scenario_Id scenario := Some ''i'')
     \<and> PublishScenario example_admin (scenario_owned scenario) = None \<and> Version iteration \<noteq> None"
proof -
  have "publication_reachable example_db"
    by (rule publication_reachable.start) (simp_all add: example_db_def example_scenario_def db_live_def fun_eq_iff)
  from publish_goes_live_safely [OF example_execution this] show ?thesis
    by (simp add: example_publication_env_def) blast
qed

end
