(* ===== verification/Scoring_Models.thy ===== *)
theory Scoring_Models
  imports Publication
begin

text \<open>
  User scoring: the data (\<^verbatim>\<open>src/models/scoring.go\<close>), the tables of scores, rulesets, dry runs and
  settings (\<^verbatim>\<open>src/repositories/scoring_*.go\<close>) and the score of a record
  (\<^verbatim>\<open>src/usecases/scoring/scoring_scores_usecase.go\<close>: \<open>executeRules\<close>, \<open>scoreToRiskLevel\<close>).

  Times and durations are nanoseconds. The clock is a parameter \<open>now\<close>, the same for one request; so
  are the identifiers of new rows. A row is added at the end of its table.
\<close>

section \<open>Data\<close>

datatype ScoreSource = ScoreSourceInitial | ScoreSourceRuleset | ScoreSourceOverride | ScoreSourceUnknown

definition ScoreSourceFrom :: "string \<Rightarrow> ScoreSource" where
  "ScoreSourceFrom s =
     (if s = ''initial'' then ScoreSourceInitial
      else if s = ''ruleset'' then ScoreSourceRuleset
      else if s = ''override'' then ScoreSourceOverride
      else ScoreSourceUnknown)"

datatype ScoreRulesetStatus = ScoreRulesetDraft | ScoreRulesetCommitted | ScoreRulesetUnknown

definition ScoreRulesetStatusFrom :: "string \<Rightarrow> ScoreRulesetStatus" where
  "ScoreRulesetStatusFrom s =
     (if s = ''draft'' then ScoreRulesetDraft
      else if s = ''committed'' then ScoreRulesetCommitted
      else ScoreRulesetUnknown)"

datatype ScoringRiskType = ScoringRiskCustomerFeatures | ScoringRiskServiceProvided
  | ScoringRiskDistributionChannels | ScoringRiskTransactionExecution | ScoringRiskGeoRisks
  | ScoringRiskOther | ScoringRiskUnknown

definition ScoringRuleRiskTypeFrom :: "string \<Rightarrow> ScoringRiskType" where
  "ScoringRuleRiskTypeFrom s =
     (if s = ''customer_features'' then ScoringRiskCustomerFeatures
      else if s = ''service_provided'' then ScoringRiskServiceProvided
      else if s = ''distribution_channels'' then ScoringRiskDistributionChannels
      else if s = ''transaction_execution'' then ScoringRiskTransactionExecution
      else if s = ''geo_risks'' then ScoringRiskGeoRisks
      else if s = ''other'' then ScoringRiskOther
      else ScoringRiskUnknown)"

record ScoringRecordRef =
  Ref_OrgId :: uuid
  Ref_RecordType :: string
  Ref_RecordId :: string

record ScoringScore =
  Score_Id :: uuid
  Score_Record :: ScoringRecordRef
  RiskLevel :: int
  Source :: ScoreSource
  Score_RulesetId :: "uuid option"
  OverriddenBy :: "uuid option"
  Score_CreatedAt :: int
  StaleAt :: "int option"
  DeletedAt :: "int option"

text \<open>The methods accept a nil pointer.\<close>

definition IsOverridden :: "int \<Rightarrow> ScoringScore option \<Rightarrow> bool" where
  "IsOverridden now s = (case s of
     None \<Rightarrow> False
   | Some score \<Rightarrow> Source score = ScoreSourceOverride
       \<and> (case StaleAt score of None \<Rightarrow> True | Some staleAt \<Rightarrow> staleAt > now))"

definition IsStale :: "int \<Rightarrow> ScoringScore option \<Rightarrow> int \<Rightarrow> bool" where
  "IsStale now s maxAge = (case s of
     None \<Rightarrow> True
   | Some score \<Rightarrow>
       if Source score = ScoreSourceInitial then True
       else if IsOverridden now s then False
       else if Score_CreatedAt score + maxAge > now then False
       else True)"

record RefreshScoreOptions =
  RefreshOlderThan :: int
  RefreshInBackground :: bool

record InsertScoreRequest =
  Req_Record :: ScoringRecordRef
  Req_RiskLevel :: int
  Req_Source :: ScoreSource
  Req_OverriddenBy :: "uuid option"
  Req_RulesetId :: "uuid option"
  Req_StaleAt :: "int option"
  IgnoredByCooldown :: bool

record 'f ScoringRule =
  SRule_Id :: uuid
  SRule_StableId :: uuid
  RiskType :: ScoringRiskType
  SRule_Ast :: "'f Node"

record 'f ScoringRuleset =
  RS_Id :: uuid
  RS_OrgId :: uuid
  RS_Version :: int
  RS_Status :: ScoreRulesetStatus
  RS_Name :: string
  RS_RecordType :: string
  Thresholds :: "int list"
  Cooldown :: int
  ScoringInterval :: int
  RS_Rules :: "'f ScoringRule list"

record 'f ScoringEvaluation =
  Eval_Modifier :: int
  Eval_Floor :: int
  Eval_RiskLevel :: int
  Eval_Evaluation :: "'f NodeEvaluation list"

datatype DryRunStatus = DryRunPending | DryRunRunning | DryRunCompleted | DryRunCancelled

record ScoringDryRun =
  DR_Id :: uuid
  DR_RulesetId :: uuid
  DR_Status :: DryRunStatus
  RecordCount :: nat

section \<open>The score of a record\<close>

text \<open>\<open>ev\<close> is \<open>EvaluateAst\<close> in the environment of the record; \<open>None\<close> is a panic.\<close>

fun execute_rules ::
    "('f Node \<Rightarrow> ('f NodeEvaluation \<times> bool) option) \<Rightarrow> 'f ScoringRule list \<Rightarrow> 'f ScoringEvaluation
     \<Rightarrow> (go_error + 'f ScoringEvaluation) option" where
  "execute_rules ev [] score = Some (Inr score)"
| "execute_rules ev (rule # rules) score =
     (case ev (SRule_Ast rule) of
        None \<Rightarrow> None
      | Some (eval, ok) \<Rightarrow>
          if \<not> ok then Some (Inl (case errors_Join (map Some (ne_errors eval)) of
             None \<Rightarrow> ErrNew ''could not execute AST''
           | Some err \<Rightarrow> ErrWrap err ''could not execute AST''))
          else (case NE_ReturnValue eval of
            VScore r \<Rightarrow>
              (let score' = score\<lparr>Eval_Evaluation := Eval_Evaluation score @ [eval]\<rparr>
               in execute_rules ev rules
                 (if \<not> Triggered r then score'
                  else score'\<lparr>Eval_Modifier := wrap64 (Eval_Modifier score + Modifier r),
                              Eval_Floor := max (Eval_Floor score) (Floor r)\<rparr>))
          | _ \<Rightarrow> Some (Inl (ErrNew ''AST was not a score computation result''))))"

definition executeRules ::
    "('f Node \<Rightarrow> ('f NodeEvaluation \<times> bool) option) \<Rightarrow> 'f ScoringRuleset \<Rightarrow> (go_error + 'f ScoringEvaluation) option" where
  "executeRules ev ruleset = execute_rules ev (RS_Rules ruleset)
     \<lparr>Eval_Modifier = 0, Eval_Floor = 0, Eval_RiskLevel = 0, Eval_Evaluation = []\<rparr>"

text \<open>The thresholds are read until the first one above the modifier.\<close>

fun levels :: "int \<Rightarrow> int list \<Rightarrow> int" where
  "levels modifier [] = 0"
| "levels modifier (threshold # thresholds) = (if modifier < threshold then 0 else 1 + levels modifier thresholds)"

definition scoreToRiskLevel :: "'f ScoringRuleset \<Rightarrow> 'f ScoringEvaluation \<Rightarrow> int" where
  "scoreToRiskLevel ruleset eval = max (1 + levels (Eval_Modifier eval) (Thresholds ruleset)) (Eval_Floor eval)"

section \<open>The tables\<close>

text \<open>\<open>cache\<close> holds, for an organization and a record type, a value and the time when it expires.\<close>

record 'f scoring_db =
  scores :: "ScoringScore list"
  rulesets :: "'f ScoringRuleset list"
  dry_runs :: "ScoringDryRun list"
  settings :: "(uuid \<times> int) list"
  cache :: "(uuid \<times> string) \<rightharpoonup> (bool \<times> int)"
  score_tasks :: "ScoringRecordRef list"
  dry_run_tasks :: "uuid list"
  index_tasks :: "ConcreteIndex list list"
  webhook_events :: "ScoringScore list"
  insertion_done :: "(uuid \<times> string) list"

definition active_score :: "ScoringRecordRef \<Rightarrow> ScoringScore \<Rightarrow> bool" where
  "active_score record s \<longleftrightarrow> Score_Record s = record \<and> DeletedAt s = None"

definition sdb_GetActiveScore :: "ScoringRecordRef \<Rightarrow> 'f scoring_db \<Rightarrow> ScoringScore option" where
  "sdb_GetActiveScore record db = List.find (active_score record) (scores db)"

definition sdb_GetScoreHistory :: "ScoringRecordRef \<Rightarrow> 'f scoring_db \<Rightarrow> ScoringScore list" where
  "sdb_GetScoreHistory record db = filter (\<lambda>s. Score_Record s = record) (scores db)"

definition InsertScore :: "uuid \<Rightarrow> int \<Rightarrow> InsertScoreRequest \<Rightarrow> 'f scoring_db \<Rightarrow> ScoringScore \<times> 'f scoring_db" where
  "InsertScore newId now req db =
     (let kept = (if \<not> IgnoredByCooldown req
            then map (\<lambda>s. if active_score (Req_Record req) s then s\<lparr>DeletedAt := Some now\<rparr> else s) (scores db)
            else scores db);
          score = \<lparr>Score_Id = newId, Score_Record = Req_Record req, RiskLevel = Req_RiskLevel req,
            Source = Req_Source req, Score_RulesetId = Req_RulesetId req, OverriddenBy = Req_OverriddenBy req,
            Score_CreatedAt = now, StaleAt = Req_StaleAt req,
            DeletedAt = (if IgnoredByCooldown req then Some now else None)\<rparr>
      in (score, db\<lparr>scores := kept @ [score]\<rparr>))"

text \<open>The conflict is with the unique index of the active scores.\<close>

definition InsertEmptyScore :: "uuid \<Rightarrow> int \<Rightarrow> InsertScoreRequest \<Rightarrow> 'f scoring_db \<Rightarrow> 'f scoring_db" where
  "InsertEmptyScore newId now req db =
     (if list_ex (active_score (Req_Record req)) (scores db) then db
      else db\<lparr>scores := scores db @ [\<lparr>Score_Id = newId, Score_Record = Req_Record req, RiskLevel = 0,
        Source = ScoreSourceInitial, Score_RulesetId = Req_RulesetId req, OverriddenBy = None,
        Score_CreatedAt = now, StaleAt = None, DeletedAt = None\<rparr>]\<rparr>)"

definition GetScoringSettings :: "uuid \<Rightarrow> 'f scoring_db \<Rightarrow> int option" where
  "GetScoringSettings orgId db = map_of (settings db) orgId"

definition UpdateScoringSettings :: "uuid \<Rightarrow> int \<Rightarrow> 'f scoring_db \<Rightarrow> 'f scoring_db" where
  "UpdateScoringSettings orgId maxRiskLevel db = db\<lparr>settings := AList.update orgId maxRiskLevel (settings db)\<rparr>"

text \<open>The matching ruleset of the highest version.\<close>

definition GetScoringRuleset ::
    "uuid \<Rightarrow> string \<Rightarrow> ScoreRulesetStatus \<Rightarrow> int \<Rightarrow> 'f scoring_db \<Rightarrow> go_error + 'f ScoringRuleset" where
  "GetScoringRuleset orgId recordType status version db =
     (case sort_key (\<lambda>r. - RS_Version r) (filter (\<lambda>r. RS_OrgId r = orgId \<and> RS_RecordType r = recordType
             \<and> (if version > 0 then RS_Version r = version else RS_Status r = status)) (rulesets db)) of
        [] \<Rightarrow> Inl NotFoundError
      | r # _ \<Rightarrow> Inr r)"

definition GetScoringRulesetById :: "uuid \<Rightarrow> uuid \<Rightarrow> 'f scoring_db \<Rightarrow> go_error + 'f ScoringRuleset" where
  "GetScoringRulesetById orgId rulesetId db =
     SqlToModel (\<lambda>r. RS_OrgId r = orgId \<and> RS_Id r = rulesetId) (rulesets db)"

definition ListScoringRulesets :: "uuid \<Rightarrow> 'f scoring_db \<Rightarrow> 'f ScoringRuleset list" where
  "ListScoringRulesets orgId db = filter (\<lambda>r. RS_OrgId r = orgId
     \<and> list_all (\<lambda>r'. RS_OrgId r' = orgId \<and> RS_RecordType r' = RS_RecordType r \<longrightarrow> RS_Version r' \<le> RS_Version r) (rulesets db))
     (rulesets db)"

definition ListScoringRulesetVersions :: "uuid \<Rightarrow> string \<Rightarrow> 'f scoring_db \<Rightarrow> 'f ScoringRuleset list" where
  "ListScoringRulesetVersions orgId recordType db =
     sort_key (\<lambda>r. - RS_Version r) (filter (\<lambda>r. RS_OrgId r = orgId \<and> RS_RecordType r = recordType) (rulesets db))"

record 'f CreateScoringRulesetRequest =
  CR_Version :: int
  CR_Name :: string
  CR_RecordType :: string
  CR_Thresholds :: "int list"
  CR_CooldownSeconds :: int
  CR_ScoringIntervalSeconds :: int

definition is_draft_of :: "uuid \<Rightarrow> string \<Rightarrow> 'f ScoringRuleset \<Rightarrow> bool" where
  "is_draft_of orgId recordType r \<longleftrightarrow> RS_OrgId r = orgId \<and> RS_RecordType r = recordType \<and> RS_Status r = ScoreRulesetDraft"

text \<open>A draft of the record type is updated, except for its version; its rules are those it had.\<close>

definition InsertScoringRulesetVersion ::
    "uuid \<Rightarrow> uuid \<Rightarrow> 'f CreateScoringRulesetRequest \<Rightarrow> 'f scoring_db \<Rightarrow> 'f ScoringRuleset \<times> 'f scoring_db" where
  "InsertScoringRulesetVersion newId orgId rs db =
     (let updated = (\<lambda>r. r\<lparr>RS_Name := CR_Name rs, Thresholds := CR_Thresholds rs,
            Cooldown := CR_CooldownSeconds rs * 1000000000, ScoringInterval := CR_ScoringIntervalSeconds rs * 1000000000\<rparr>)
      in case List.find (is_draft_of orgId (CR_RecordType rs)) (rulesets db) of
           Some draft \<Rightarrow> (updated draft, db\<lparr>rulesets := map (\<lambda>r. if is_draft_of orgId (CR_RecordType rs) r
              then updated r else r) (rulesets db)\<rparr>)
         | None \<Rightarrow>
            (let new = \<lparr>RS_Id = newId, RS_OrgId = orgId, RS_Version = CR_Version rs, RS_Status = ScoreRulesetDraft,
               RS_Name = CR_Name rs, RS_RecordType = CR_RecordType rs, Thresholds = CR_Thresholds rs,
               Cooldown = CR_CooldownSeconds rs * 1000000000,
               ScoringInterval = CR_ScoringIntervalSeconds rs * 1000000000, RS_Rules = []\<rparr>
             in (new, db\<lparr>rulesets := rulesets db @ [new]\<rparr>)))"

definition InsertScoringRulesetVersionRule ::
    "uuid \<Rightarrow> 'f ScoringRule list \<Rightarrow> 'f scoring_db \<Rightarrow> go_error + 'f ScoringRule list \<times> 'f scoring_db" where
  "InsertScoringRulesetVersionRule rulesetId rules db =
     (if \<not> distinct (map SRule_StableId rules) then Inl (ErrWrap BadParameterError ''duplicate rule IDs'')
      else Inr (rules, db\<lparr>rulesets := map (\<lambda>r. if RS_Id r = rulesetId then r\<lparr>RS_Rules := rules\<rparr> else r) (rulesets db)\<rparr>))"

definition sdb_CommitRuleset :: "'f ScoringRuleset \<Rightarrow> 'f scoring_db \<Rightarrow> 'f ScoringRuleset \<times> 'f scoring_db" where
  "sdb_CommitRuleset ruleset db = (ruleset\<lparr>RS_Status := ScoreRulesetCommitted\<rparr>,
     db\<lparr>rulesets := map (\<lambda>r. if RS_OrgId r = RS_OrgId ruleset \<and> RS_Id r = RS_Id ruleset
        then r\<lparr>RS_Status := ScoreRulesetCommitted\<rparr> else r) (rulesets db)\<rparr>)"

definition CancelRulesetDryRun :: "uuid \<Rightarrow> 'f scoring_db \<Rightarrow> 'f scoring_db" where
  "CancelRulesetDryRun rulesetId db = db\<lparr>dry_runs := map (\<lambda>d. if DR_RulesetId d = rulesetId
     \<and> (DR_Status d = DryRunPending \<or> DR_Status d = DryRunRunning) then d\<lparr>DR_Status := DryRunCancelled\<rparr> else d)
     (dry_runs db)\<rparr>"

definition InsertRulesetDryRun :: "uuid \<Rightarrow> uuid \<Rightarrow> nat \<Rightarrow> 'f scoring_db \<Rightarrow> ScoringDryRun \<times> 'f scoring_db" where
  "InsertRulesetDryRun newId rulesetId objectCount db =
     (let dryRun = \<lparr>DR_Id = newId, DR_RulesetId = rulesetId, DR_Status = DryRunPending, RecordCount = objectCount\<rparr>;
          cancelled_db = CancelRulesetDryRun rulesetId db
      in (dryRun, cancelled_db\<lparr>dry_runs := dry_runs cancelled_db @ [dryRun]\<rparr>))"

text \<open>A cancelled dry run keeps its status, and the answer is then nil.\<close>

definition SetRulesetDryRunStatus ::
    "uuid \<Rightarrow> DryRunStatus \<Rightarrow> 'f scoring_db \<Rightarrow> ScoringDryRun option \<times> 'f scoring_db" where
  "SetRulesetDryRunStatus dryRunId status db =
     (let hit = (\<lambda>d. DR_Id d = dryRunId \<and> DR_Status d \<noteq> DryRunCancelled)
      in (map_option (\<lambda>d. d\<lparr>DR_Status := status\<rparr>) (List.find hit (dry_runs db)),
          db\<lparr>dry_runs := map (\<lambda>d. if hit d then d\<lparr>DR_Status := status\<rparr> else d) (dry_runs db)\<rparr>))"

definition GetScoringLatestDryRun :: "uuid \<Rightarrow> 'f scoring_db \<Rightarrow> go_error + ScoringDryRun" where
  "GetScoringLatestDryRun rulesetId db = SqlToModel (\<lambda>d. DR_RulesetId d = rulesetId) (rev (dry_runs db))"

end
