(* ===== verification/Scoring.thy ===== *)
theory Scoring
  imports Scoring_Models
begin

text \<open>
  The use cases of user scoring (\<^verbatim>\<open>src/usecases/scoring\<close>: \<open>scoring_scores_usecase.go\<close>,
  \<open>scoring_rulesets_usecase.go\<close>, \<open>scoring_settings_usecase.go\<close>, and the jobs
  \<open>triggered_score_computation.go\<close>, \<open>scoring_initial_insertion_job.go\<close>).

  A request takes the credentials, the clock, an identifier for its new row and the tables; its
  result is \<open>None\<close> when an evaluation panics. What the use cases read elsewhere is in \<open>scoring_env\<close>,
  where an operation that may fail on its own answers with its error.
\<close>

record 'f scoring_env =
  UserScoringAccess :: "uuid \<Rightarrow> go_error + FeatureAccess"
  ReadDataModel :: "uuid \<Rightarrow> go_error + DataModel"
  QueryIngestedObject :: "uuid \<Rightarrow> Table \<Rightarrow> string \<Rightarrow> go_error + (string \<rightharpoonup> 'f val) list"
  EvaluateIn :: "uuid \<Rightarrow> DataModel \<Rightarrow> 'f ClientObject \<Rightarrow> 'f Node \<Rightarrow> ('f NodeEvaluation \<times> bool) option"
  InsertFails :: "InsertScoreRequest \<Rightarrow> go_error option"
  EnqueueFails :: "ScoringRecordRef \<Rightarrow> go_error option"
  CreateWebhookEvent :: "ScoringScore \<Rightarrow> go_error option"
  OffloadScoreComputation :: "ScoringScore \<Rightarrow> go_error option"
  RedisUp :: bool
  ValidateScoringAst :: "uuid \<Rightarrow> string \<Rightarrow> 'f Node \<Rightarrow> 'f AstValidation option"
  GetPivot :: "uuid \<Rightarrow> go_error + PivotMetadata"
  IndexEnv :: "'f publication_env"

abbreviation owned :: "uuid \<Rightarrow> org_owned" where
  "owned orgId \<equiv> \<lparr>OrganizationId = orgId\<rparr>"

definition isScoringEnabled :: "'f scoring_env \<Rightarrow> uuid \<Rightarrow> go_error option" where
  "isScoringEnabled E orgId = (case UserScoringAccess E orgId of
     Inl err \<Rightarrow> Some err
   | Inr access \<Rightarrow> if IsAllowed access then None
       else Some (ErrWrap ForbiddenError ''cannot access user scoring feature''))"

section \<open>Computing a score\<close>

definition getPayloadObject ::
    "'f scoring_env \<Rightarrow> uuid \<Rightarrow> DataModel \<Rightarrow> string \<Rightarrow> string \<Rightarrow> go_error + 'f ClientObject" where
  "getPayloadObject E orgId dataModel recordType recordId =
     (case map_of (Tables dataModel) recordType of
        None \<Rightarrow> Inl (ErrNew ''unknown record type'')
      | Some table \<Rightarrow> (case QueryIngestedObject E orgId table recordId of
          Inl err \<Rightarrow> Inl err
        | Inr [] \<Rightarrow> Inl (ErrWrap NotFoundError ''unknown entity'')
        | Inr (obj # _) \<Rightarrow> Inr \<lparr>TableName = Table_Name table, Data = obj\<rparr>))"

definition InternalComputeScore ::
    "'f scoring_env \<Rightarrow> uuid \<Rightarrow> 'f ScoringRuleset \<Rightarrow> string \<Rightarrow> string \<Rightarrow> (go_error + 'f ScoringEvaluation) option" where
  "InternalComputeScore E orgId ruleset recordType recordId =
     (case ReadDataModel E orgId of
        Inl err \<Rightarrow> Some (Inl err)
      | Inr dataModel \<Rightarrow> (case getPayloadObject E orgId dataModel recordType recordId of
          Inl err \<Rightarrow> Some (Inl err)
        | Inr object \<Rightarrow> (case executeRules (EvaluateIn E orgId dataModel object) ruleset of
            None \<Rightarrow> None
          | Some (Inl err) \<Rightarrow> Some (Inl err)
          | Some (Inr eval) \<Rightarrow> Some (Inr (eval\<lparr>Eval_RiskLevel := scoreToRiskLevel ruleset eval\<rparr>)))))"

definition ComputeScore ::
    "'f scoring_env \<Rightarrow> Credentials \<Rightarrow> ScoringRecordRef \<Rightarrow> 'f scoring_db
     \<Rightarrow> (go_error + 'f ScoringRuleset \<times> 'f ScoringEvaluation) option" where
  "ComputeScore E creds record db =
     (case isScoringEnabled E (Ref_OrgId record) of
        Some err \<Rightarrow> Some (Inl err)
      | None \<Rightarrow> (case GetScoringRuleset (Ref_OrgId record) (Ref_RecordType record) ScoreRulesetCommitted 0 db of
          Inl err \<Rightarrow> Some (Inl (if errors_is err NotFoundError
            then ErrWrap err ''no committed version of this ruleset'' else err))
        | Inr ruleset \<Rightarrow> (case ReadOrganization creds (RS_OrgId ruleset) of
            Some err \<Rightarrow> Some (Inl err)
          | None \<Rightarrow> (case InternalComputeScore E (Ref_OrgId record) ruleset (Ref_RecordType record) (Ref_RecordId record) of
              None \<Rightarrow> None
            | Some (Inl err) \<Rightarrow> Some (Inl err)
            | Some (Inr eval) \<Rightarrow> Some (Inr (ruleset, eval))))))"

text \<open>The request to insert a computed score; a lower risk level waits for the end of the cooldown.\<close>

definition ruleset_request ::
    "int \<Rightarrow> ScoringRecordRef \<Rightarrow> 'f ScoringRuleset \<Rightarrow> 'f ScoringEvaluation \<Rightarrow> ScoringScore option \<Rightarrow> InsertScoreRequest" where
  "ruleset_request now record ruleset newScore activeScore =
     \<lparr>Req_Record = record, Req_RiskLevel = Eval_RiskLevel newScore, Req_Source = ScoreSourceRuleset,
      Req_OverriddenBy = None, Req_RulesetId = Some (RS_Id ruleset), Req_StaleAt = None,
      IgnoredByCooldown = (case activeScore of None \<Rightarrow> False
        | Some current \<Rightarrow> Eval_RiskLevel newScore < RiskLevel current \<and> Score_CreatedAt current + Cooldown ruleset > now)\<rparr>"

section \<open>Refreshing a score\<close>

definition enqueue_score :: "'f scoring_env \<Rightarrow> ScoringRecordRef \<Rightarrow> 'f scoring_db \<Rightarrow> go_error + 'f scoring_db" where
  "enqueue_score E record db = (case EnqueueFails E record of
     Some err \<Rightarrow> Inl err
   | None \<Rightarrow> Inr (db\<lparr>score_tasks := score_tasks db @ [record]\<rparr>))"

definition send_webhook :: "'f scoring_env \<Rightarrow> ScoringScore \<Rightarrow> 'f scoring_db \<Rightarrow> go_error + 'f scoring_db" where
  "send_webhook E score db = (case CreateWebhookEvent E score of
     Some err \<Rightarrow> Inl (ErrWrap err ''could not send score change webhook'')
   | None \<Rightarrow> Inr (db\<lparr>webhook_events := webhook_events db @ [score]\<rparr>))"

text \<open>The steps after the insertion: the webhook, for the scores ignored by the cooldown, then the offloading.\<close>

definition finish_refresh ::
    "'f scoring_env \<Rightarrow> InsertScoreRequest \<Rightarrow> ScoringScore \<Rightarrow> 'f scoring_db \<Rightarrow> go_error + ScoringScore option \<times> 'f scoring_db" where
  "finish_refresh E req score db =
     (case (if IgnoredByCooldown req then send_webhook E score db else Inr db) of
        Inl err \<Rightarrow> Inl err
      | Inr db' \<Rightarrow> (case OffloadScoreComputation E score of
          Some err \<Rightarrow> Inl (ErrWrap err ''could not offload score computation'')
        | None \<Rightarrow> Inr (Some score, db')))"

definition refresh_transaction ::
    "'f scoring_env \<Rightarrow> Credentials \<Rightarrow> uuid \<Rightarrow> int \<Rightarrow> ScoringScore option \<Rightarrow> ScoringRecordRef \<Rightarrow> RefreshScoreOptions
     \<Rightarrow> 'f scoring_db \<Rightarrow> (go_error + ScoringScore option \<times> 'f scoring_db) option" where
  "refresh_transaction E creds newId now activeScore record opts tx =
     (if activeScore \<noteq> None \<and> RefreshInBackground opts then
        Some (if Score_CreatedAt (the activeScore) + RefreshOlderThan opts < now
          then (case enqueue_score E record tx of Inl err \<Rightarrow> Inl err | Inr tx' \<Rightarrow> Inr (activeScore, tx'))
          else Inr (activeScore, tx))
      else if \<not> IsStale now activeScore (RefreshOlderThan opts) then Some (Inr (activeScore, tx))
      else (case ComputeScore E creds record tx of
        None \<Rightarrow> None
      | Some (Inl err) \<Rightarrow> Some (if activeScore = None then Inl err else Inr (activeScore, tx))
      | Some (Inr (scoreRuleset, newScore)) \<Rightarrow>
          (let req = ruleset_request now record scoreRuleset newScore activeScore in
           Some (case InsertFails E req of
             Some err \<Rightarrow> if activeScore = None then Inl err else Inr (activeScore, tx)
           | None \<Rightarrow> (let (score, tx') = InsertScore newId now req tx in finish_refresh E req score tx')))))"

definition tryRefreshScore ::
    "'f scoring_env \<Rightarrow> Credentials \<Rightarrow> uuid \<Rightarrow> int \<Rightarrow> ScoringScore option \<Rightarrow> ScoringRecordRef \<Rightarrow> RefreshScoreOptions
     \<Rightarrow> 'f scoring_db \<Rightarrow> ((go_error + ScoringScore option) \<times> 'f scoring_db) option" where
  "tryRefreshScore E creds newId now activeScore record opts db =
     (case refresh_transaction E creds newId now activeScore record opts db of
        None \<Rightarrow> None
      | Some result \<Rightarrow> Some (Transaction (\<lambda>_. result) db))"

text \<open>The evaluations of the rules, read from the offloaded storage, are left out of the answer.\<close>

definition GetActiveScore ::
    "'f scoring_env \<Rightarrow> Credentials \<Rightarrow> uuid \<Rightarrow> int \<Rightarrow> ScoringRecordRef \<Rightarrow> RefreshScoreOptions
     \<Rightarrow> 'f scoring_db \<Rightarrow> ((go_error + ScoringScore) \<times> 'f scoring_db) option" where
  "GetActiveScore E creds newId now record opts db =
     (case isScoringEnabled E (Ref_OrgId record) of
        Some err \<Rightarrow> Some (Inl err, db)
      | None \<Rightarrow> (case tryRefreshScore E creds newId now (sdb_GetActiveScore record db) record opts db of
          None \<Rightarrow> None
        | Some (Inl err, db') \<Rightarrow> Some (Inl err, db')
        | Some (Inr None, db') \<Rightarrow> Some (Inl (ErrWrap NotFoundError ''no score was found for this record''), db')
        | Some (Inr (Some score), db') \<Rightarrow>
           (case ReadRecordScore creds (owned (Ref_OrgId (Score_Record score))) of
              Some err \<Rightarrow> Some (Inl err, db')
            | None \<Rightarrow> Some (Inr score, db'))))"

definition GetScoreHistory ::
    "'f scoring_env \<Rightarrow> Credentials \<Rightarrow> ScoringRecordRef \<Rightarrow> 'f scoring_db \<Rightarrow> go_error + ScoringScore list" where
  "GetScoreHistory E creds record db =
     (let orgId = Cred_OrganizationId creds;
          found = sdb_GetScoreHistory (record\<lparr>Ref_OrgId := orgId\<rparr>) db
      in case isScoringEnabled E orgId of
           Some err \<Rightarrow> Inl err
         | None \<Rightarrow> (case some_errors (map (\<lambda>s. ReadRecordScore creds (owned (Ref_OrgId (Score_Record s)))) found) of
             err # _ \<Rightarrow> Inl err
           | [] \<Rightarrow> Inr found))"

text \<open>A user identifier that is not a uuid would panic; it is one when it comes from the credentials.\<close>

definition overrider :: "(string \<Rightarrow> uuid) \<Rightarrow> Credentials \<Rightarrow> uuid option" where
  "overrider parse creds =
     (if Identity_UserId (ActorIdentity creds) \<noteq> [] then Some (parse (Identity_UserId (ActorIdentity creds)))
      else if Identity_ApiKeyId (ActorIdentity creds) \<noteq> [] then Some (parse (Identity_ApiKeyId (ActorIdentity creds)))
      else None)"

definition override_object_error :: "'f scoring_env \<Rightarrow> InsertScoreRequest \<Rightarrow> go_error option" where
  "override_object_error E req =
     (if Req_Source req \<noteq> ScoreSourceOverride then None
      else (case ReadDataModel E (Ref_OrgId (Req_Record req)) of
        Inl err \<Rightarrow> Some err
      | Inr dataModel \<Rightarrow> (case getPayloadObject E (Ref_OrgId (Req_Record req)) dataModel
              (Ref_RecordType (Req_Record req)) (Ref_RecordId (Req_Record req)) of
          Inl err \<Rightarrow> Some err
        | Inr _ \<Rightarrow> None)))"

definition OverrideScore ::
    "'f scoring_env \<Rightarrow> (string \<Rightarrow> uuid) \<Rightarrow> Credentials \<Rightarrow> uuid \<Rightarrow> int \<Rightarrow> InsertScoreRequest \<Rightarrow> 'f scoring_db
     \<Rightarrow> (go_error + ScoringScore) \<times> 'f scoring_db" where
  "OverrideScore E parse creds newId now req0 db =
     (let orgId = Cred_OrganizationId creds;
          req = req0\<lparr>Req_Record := (Req_Record req0)\<lparr>Ref_OrgId := orgId\<rparr>\<rparr>
      in case isScoringEnabled E orgId of
           Some err \<Rightarrow> (Inl err, db)
         | None \<Rightarrow> (case sec_OverrideScore creds (owned orgId) of
             Some err \<Rightarrow> (Inl err, db)
           | None \<Rightarrow> (case GetScoringSettings orgId db of
               None \<Rightarrow> (Inl (ErrWrap BadParameterError ''no global scoring settings for this organization''), db)
             | Some maxRiskLevel \<Rightarrow>
                 if Req_RiskLevel req < 1 \<or> Req_RiskLevel req > maxRiskLevel
                 then (Inl (ErrWrap BadParameterError ''expected risk level in range''), db)
                 else (case override_object_error E req of
                   Some err \<Rightarrow> (Inl err, db)
                 | None \<Rightarrow>
                    (let req' = (if Req_Source req = ScoreSourceOverride \<and> overrider parse creds \<noteq> None
                           then req\<lparr>Req_OverriddenBy := overrider parse creds\<rparr> else req)
                     in Transaction (\<lambda>tx. case InsertFails E req' of
                          Some err \<Rightarrow> Inl err
                        | None \<Rightarrow> (let (score, tx') = InsertScore newId now req' tx in
                            case send_webhook E score tx' of Inl err \<Rightarrow> Inl err | Inr tx'' \<Rightarrow> Inr (score, tx''))) db)))))"

section \<open>Scores computed by the jobs\<close>

definition triggered_transaction ::
    "'f scoring_env \<Rightarrow> uuid \<Rightarrow> int \<Rightarrow> ScoringRecordRef \<Rightarrow> 'f scoring_db \<Rightarrow> (go_error + unit \<times> 'f scoring_db) option" where
  "triggered_transaction E newId now record tx =
     (case GetScoringRuleset (Ref_OrgId record) (Ref_RecordType record) ScoreRulesetCommitted 0 tx of
        Inl err \<Rightarrow> Some (if errors_is err NotFoundError then Inr ((), tx) else Inl err)
      | Inr ruleset \<Rightarrow>
         (let activeScore = sdb_GetActiveScore record tx in
          if IsOverridden now activeScore then Some (Inr ((), tx))
          else (case InternalComputeScore E (Ref_OrgId record) ruleset (Ref_RecordType record) (Ref_RecordId record) of
            None \<Rightarrow> None
          | Some (Inl err) \<Rightarrow> Some (Inl err)
          | Some (Inr eval) \<Rightarrow>
             (let req = ruleset_request now record ruleset eval activeScore in
              Some (case InsertFails E req of
                Some err \<Rightarrow> Inl err
              | None \<Rightarrow> (let (score, tx') = InsertScore newId now req tx in
                  case OffloadScoreComputation E score of
                    Some err \<Rightarrow> Inl (ErrWrap err ''could not offload score computation'')
                  | None \<Rightarrow> Inr ((), tx')))))))"

definition TriggeredScoreComputation ::
    "'f scoring_env \<Rightarrow> uuid \<Rightarrow> int \<Rightarrow> ScoringRecordRef \<Rightarrow> 'f scoring_db \<Rightarrow> ((go_error + unit) \<times> 'f scoring_db) option" where
  "TriggeredScoreComputation E newId now record db =
     (case UserScoringAccess E (Ref_OrgId record) of
        Inl err \<Rightarrow> Some (Inl err, db)
      | Inr access \<Rightarrow>
          if \<not> IsAllowed access then Some (Inr (), db)
          else (case triggered_transaction E newId now record db of
            None \<Rightarrow> None
          | Some result \<Rightarrow> Some (Transaction (\<lambda>_. result) db)))"

section \<open>Whether a record type is scored\<close>

text \<open>A value of the cache, kept for an hour; without Redis the reads fail and the writes are lost.\<close>

definition cache_get :: "'f scoring_env \<Rightarrow> int \<Rightarrow> uuid \<Rightarrow> string \<Rightarrow> 'f scoring_db \<Rightarrow> bool option" where
  "cache_get E now orgId recordType db = (if \<not> RedisUp E then None else case cache db (orgId, recordType) of
     None \<Rightarrow> None | Some (v, expires) \<Rightarrow> if expires > now then Some v else None)"

definition cache_set :: "'f scoring_env \<Rightarrow> int \<Rightarrow> uuid \<Rightarrow> string \<Rightarrow> bool \<Rightarrow> 'f scoring_db \<Rightarrow> 'f scoring_db" where
  "cache_set E now orgId recordType v db =
     (if \<not> RedisUp E then db else db\<lparr>cache := (cache db)((orgId, recordType) \<mapsto> (v, now + 3600000000000))\<rparr>)"

definition CommittedRulesetExists :: "'f scoring_env \<Rightarrow> int \<Rightarrow> uuid \<Rightarrow> string \<Rightarrow> 'f scoring_db \<Rightarrow> bool \<times> 'f scoring_db" where
  "CommittedRulesetExists E now orgId recordType db =
     (case cache_get E now orgId recordType db of
        Some exists \<Rightarrow> (exists, db)
      | None \<Rightarrow> (let exists = (case GetScoringRuleset orgId recordType ScoreRulesetCommitted 0 db of
              Inl _ \<Rightarrow> False | Inr _ \<Rightarrow> True)
          in (exists, cache_set E now orgId recordType exists db)))"

text \<open>A ruleset that is not found marks the record type as not scored, whatever its status.\<close>

definition GetRuleset ::
    "'f scoring_env \<Rightarrow> Credentials \<Rightarrow> int \<Rightarrow> string \<Rightarrow> ScoreRulesetStatus \<Rightarrow> int \<Rightarrow> 'f scoring_db
     \<Rightarrow> (go_error + 'f ScoringRuleset) \<times> 'f scoring_db" where
  "GetRuleset E creds now recordType status version db =
     (let orgId = Cred_OrganizationId creds in
      case GetScoringRuleset orgId recordType status version db of
        Inl err \<Rightarrow> (Inl err, if errors_is err NotFoundError then cache_set E now orgId recordType False db else db)
      | Inr ruleset \<Rightarrow> (case ReadOrganization creds (RS_OrgId ruleset) of
          Some err \<Rightarrow> (Inl err, db)
        | None \<Rightarrow> (Inr ruleset, if RS_Status ruleset = ScoreRulesetCommitted
            then cache_set E now orgId (RS_RecordType ruleset) True db else db)))"

end
