(* ===== verification/Ast_Dto.thy ===== *)
theory Ast_Dto
  imports Ast_Node
begin

text \<open>
  Formulas as the API exchanges them (\<^verbatim>\<open>src/dto/dto_ast_node.go\<close>): a function is its name, and a node
  has no index.
\<close>

datatype 'f NodeDto = NodeDto
  (NodeDto_Name: string)
  (NodeDto_Constant: "'f val")
  (NodeDto_Children: "'f NodeDto list")
  (NodeDto_NamedChildren: "(string \<times> 'f NodeDto) list")

definition MapValuesErr :: "('k \<times> 'a) list \<Rightarrow> ('a \<Rightarrow> go_error + 'b) \<Rightarrow> go_error + ('k \<times> 'b) list" where
  "MapValuesErr src f = MapErr src (\<lambda>kv. case f (snd kv) of Inl err \<Rightarrow> Inl err | Inr v \<Rightarrow> Inr (fst kv, v))"

lemma MapValuesErr_cong [fundef_cong]:
  "xs = ys \<Longrightarrow> (\<And>kv. kv \<in> set ys \<Longrightarrow> f (snd kv) = g (snd kv)) \<Longrightarrow> MapValuesErr xs f = MapValuesErr ys g"
  unfolding MapValuesErr_def by (intro MapErr_cong) simp_all

definition adaptDtoFunctionName :: "Function \<Rightarrow> go_error + string" where
  "adaptDtoFunctionName f = (case (Attributes f :: unit FuncAttributes \<times> go_error option) of
     (attributes, None) \<Rightarrow> Inr (AstName attributes) | (_, Some err) \<Rightarrow> Inl err)"

fun AdaptNodeDto :: "'f Node \<Rightarrow> go_error + 'f NodeDto" where
  "AdaptNodeDto (Node i f c children named) =
     (case adaptDtoFunctionName f of
        Inl err \<Rightarrow> Inl err
      | Inr funcName \<Rightarrow> (case MapErr children AdaptNodeDto of
          Inl err \<Rightarrow> Inl err
        | Inr childrenDto \<Rightarrow> (case MapValuesErr named AdaptNodeDto of
            Inl err \<Rightarrow> Inl err
          | Inr namedChildrenDto \<Rightarrow> Inr (NodeDto funcName c childrenDto namedChildrenDto))))"

text \<open>The entries of \<open>FuncAttributesMap\<close>.\<close>

definition known_functions :: "Function list" where
  "known_functions =
     [FUNC_CONSTANT, FUNC_ADD, FUNC_SUBTRACT, FUNC_MULTIPLY, FUNC_DIVIDE, FUNC_GREATER, FUNC_GREATER_OR_EQUAL,
      FUNC_LESS, FUNC_LESS_OR_EQUAL, FUNC_EQUAL, FUNC_NOT_EQUAL, FUNC_NOT, FUNC_AND, FUNC_OR, FUNC_TIME_ADD,
      FUNC_TIME_NOW, FUNC_PARSE_TIME, FUNC_PAYLOAD, FUNC_DB_ACCESS, FUNC_CUSTOM_LIST_ACCESS, FUNC_IS_IN_LIST,
      FUNC_IS_NOT_IN_LIST, FUNC_STRING_CONTAINS, FUNC_STRING_NOT_CONTAIN, FUNC_CONTAINS_ANY, FUNC_CONTAINS_NONE,
      FUNC_AGGREGATOR, FUNC_LIST, FUNC_FILTER, FUNC_FUZZY_MATCH, FUNC_FUZZY_MATCH_ANY_OF, FUNC_IS_EMPTY,
      FUNC_IS_NOT_EMPTY, FUNC_TIMESTAMP_EXTRACT, FUNC_HAS_IP_FLAG, FUNC_STRING_STARTS_WITH, FUNC_STRING_ENDS_WITH,
      FUNC_IS_MULTIPLE_OF, FUNC_STRING_TEMPLATE, FUNC_STRING_CONCAT, FUNC_FUZZY_MATCH_FILTER_OPTIONS,
      FUNC_MONITORING_LIST_CHECK, FUNC_RECORD_HAS_TAGS, FUNC_RECORD_HAS_PAST_ALERTS, FUNC_RECORD_RISK_LEVEL,
      FUNC_SCORE_COMPUTATION, FUNC_SWITCH, FUNC_UNDEFINED]"

definition ast_name :: "Function \<Rightarrow> string" where
  "ast_name f = AstName (fst (Attributes f :: unit FuncAttributes \<times> go_error option))"

definition astNameFuncMap :: "string \<rightharpoonup> Function" where
  "astNameFuncMap = map_of (map (\<lambda>f. (ast_name f, f)) known_functions)"

definition adaptFunctionName :: "string \<Rightarrow> go_error + Function" where
  "adaptFunctionName f = (case astNameFuncMap f of
     Some func \<Rightarrow> Inr func | None \<Rightarrow> Inl (ErrNew ''unknown function''))"

fun AdaptASTNode :: "'f NodeDto \<Rightarrow> go_error + 'f Node" where
  "AdaptASTNode (NodeDto nm c children named) =
     (case adaptFunctionName (if nm = ''Unknown'' then ''Undefined'' else nm) of
        Inl err \<Rightarrow> Inl err
      | Inr func \<Rightarrow> (case MapErr children AdaptASTNode of
          Inl err \<Rightarrow> Inl err
        | Inr children' \<Rightarrow> (case MapValuesErr named AdaptASTNode of
            Inl err \<Rightarrow> Inl err
          | Inr namedChildren \<Rightarrow> Inr (Node 0 func c children' namedChildren))))"

section \<open>The round trip\<close>

lemma known_functions_complete: "f \<in> set known_functions \<longleftrightarrow> f \<noteq> FUNC_UNKNOWN"
  by (cases f) (simp_all add: known_functions_def)

lemma distinct_names: "distinct (map ast_name known_functions)"
  by code_simp

lemma names_not_unknown: "list_all (\<lambda>f. ast_name f \<noteq> ''Unknown'') known_functions"
  by code_simp

lemma adaptFunctionName_inverse:
  assumes "adaptDtoFunctionName f = Inr nm"
  shows "adaptFunctionName (if nm = ''Unknown'' then ''Undefined'' else nm) = Inr f"
proof -
  have "f \<noteq> FUNC_UNKNOWN" using assms by (auto simp: adaptDtoFunctionName_def Attributes_def)
  then have f: "f \<in> set known_functions" by (simp add: known_functions_complete)
  have nm: "nm = ast_name f"
    using assms by (simp add: adaptDtoFunctionName_def ast_name_def split: prod.splits option.splits)
  with names_not_unknown f have "nm \<noteq> ''Unknown''" by (auto simp: list_all_iff)
  moreover have "astNameFuncMap (ast_name f) = Some f"
    unfolding astNameFuncMap_def using distinct_names f by (intro map_of_is_SomeI) (auto simp: comp_def)
  ultimately show ?thesis by (simp add: adaptFunctionName_def nm)
qed

text \<open>A formula without its indexes.\<close>

fun unindexed :: "'f Node \<Rightarrow> 'f Node" where
  "unindexed (Node i f c children named) =
     Node 0 f c (map unindexed children) (map (\<lambda>kn. (fst kn, unindexed (snd kn))) named)"

lemma MapErr_roundtrip:
  "MapErr xs f = Inr ys \<Longrightarrow> (\<And>x y. x \<in> set xs \<Longrightarrow> f x = Inr y \<Longrightarrow> g y = Inr (h x)) \<Longrightarrow> MapErr ys g = Inr (map h xs)"
proof (induction xs arbitrary: ys)
  case (Cons x xs)
  then obtain y zs where "f x = Inr y" "MapErr xs f = Inr zs" "ys = y # zs" by (auto split: sum.splits)
  moreover from this have "g y = Inr (h x)" using Cons.prems(2) [of x y] by simp
  moreover have "MapErr zs g = Inr (map h xs)" by (rule Cons.IH) (use calculation Cons.prems(2) in auto)
  ultimately show ?case by simp
qed simp

lemma AdaptASTNode_inverse: "AdaptNodeDto n = Inr d \<Longrightarrow> AdaptASTNode d = Inr (unindexed n)"
proof (induction n arbitrary: d rule: AdaptNodeDto.induct)
  case (1 i f c children named)
  from "1.prems" obtain nm cs ns where nm: "adaptDtoFunctionName f = Inr nm" and
    cs: "MapErr children AdaptNodeDto = Inr cs" and ns: "MapValuesErr named AdaptNodeDto = Inr ns" and
    d: "d = NodeDto nm c cs ns"
    by (auto split: sum.splits)
  have "MapErr cs AdaptASTNode = Inr (map unindexed children)"
    using cs by (rule MapErr_roundtrip) (use "1.IH"(1) nm in blast)
  moreover have "MapValuesErr ns AdaptASTNode = Inr (map (\<lambda>kn. (fst kn, unindexed (snd kn))) named)"
    using ns unfolding MapValuesErr_def
    by (rule MapErr_roundtrip) (use "1.IH"(2) nm cs in \<open>auto split: sum.splits\<close>)
  ultimately show ?case using adaptFunctionName_inverse [OF nm] by (simp add: d)
qed

end
