(* ===== verification/Scoring_Rulesets.thy ===== *)
theory Scoring_Rulesets
  imports Scoring Ast_Dto
begin

text \<open>
  The rulesets and the settings of user scoring (\<^verbatim>\<open>src/usecases/scoring/scoring_rulesets_usecase.go\<close>,
  \<open>scoring_settings_usecase.go\<close>), the computations asked for by decisions and ingestion
  (\<open>scoring_scores_usecase.go\<close>), and the first insertion of scores
  (\<^verbatim>\<open>src/usecases/scoring/scoring_jobs/scoring_initial_insertion_job.go\<close>).
\<close>

definition RULESET_DRY_RUN_SAMPLE_SIZE :: nat where
  "RULESET_DRY_RUN_SAMPLE_SIZE = 5000"

definition MAX_RISK_LEVEL_SCALE :: int where
  "MAX_RISK_LEVEL_SCALE = 6"

section \<open>Creating a version\<close>

record 'f CreateRuleRequest =
  CRR_StableId :: uuid
  CRR_RiskType :: string
  CRR_Ast :: "'f NodeDto"

record 'f CreateRulesetRequest =
  CRQ_Name :: string
  CRQ_Thresholds :: "int list"
  CRQ_CooldownSeconds :: int
  CRQ_ScoringIntervalSeconds :: int
  CRQ_Rules :: "'f CreateRuleRequest list"

definition validateScoringRuleAst :: "'f NodeDto \<Rightarrow> go_error option" where
  "validateScoringRuleAst tree =
     (if NodeDto_Name tree = ast_name FUNC_SWITCH
         \<and> \<not> list_all (\<lambda>child. NodeDto_Name child = ast_name FUNC_SCORE_COMPUTATION) (NodeDto_Children tree)
      then Some (ErrNew ''invalid root AST node for user scoring: all `Switch` children must be `ScoreComputation`'')
      else None)"

text \<open>The rules are validated in turn; the answer is the formulas.\<close>

fun validate_rule_requests ::
    "'f scoring_env \<Rightarrow> uuid \<Rightarrow> string \<Rightarrow> 'f CreateRuleRequest list \<Rightarrow> (go_error + 'f Node list) option" where
  "validate_rule_requests E orgId recordType [] = Some (Inr [])"
| "validate_rule_requests E orgId recordType (rule # rules) =
     (case validateScoringRuleAst (CRR_Ast rule) of
        Some err \<Rightarrow> Some (Inl (ErrWrap BadParameterError ''invalid root AST node''))
      | None \<Rightarrow> (case AdaptASTNode (CRR_Ast rule) of
          Inl err \<Rightarrow> Some (Inl err)
        | Inr astNode \<Rightarrow> (case ValidateScoringAst E orgId recordType astNode of
            None \<Rightarrow> None
          | Some astValidation \<Rightarrow>
              if AV_Errors astValidation \<noteq> [] then Some (Inl (ErrWrap BadParameterError ''invalid formula''))
              else (case validate_rule_requests E orgId recordType rules of
                None \<Rightarrow> None
              | Some (Inl err) \<Rightarrow> Some (Inl err)
              | Some (Inr nodes) \<Rightarrow> Some (Inr (astNode # nodes))))))"

fun scoring_rules :: "(nat \<Rightarrow> uuid) \<Rightarrow> 'f CreateRuleRequest list \<Rightarrow> 'f Node list \<Rightarrow> nat \<Rightarrow> go_error + 'f ScoringRule list" where
  "scoring_rules newRuleId (r # rs) (n # ns) idx =
     (let riskType = ScoringRuleRiskTypeFrom (CRR_RiskType r) in
      if riskType = ScoringRiskUnknown then Inl (ErrWrap BadParameterError ''invalid risk type'')
      else (case scoring_rules newRuleId rs ns (Suc idx) of
        Inl err \<Rightarrow> Inl err
      | Inr rules \<Rightarrow> Inr (\<lparr>SRule_Id = newRuleId idx, SRule_StableId = CRR_StableId r, RiskType = riskType,
          SRule_Ast = n\<rparr> # rules)))"
| "scoring_rules newRuleId _ _ idx = Inr []"

text \<open>The dry runs that are cancelled are those of the committed version, not of the draft.\<close>

definition create_transaction ::
    "uuid \<Rightarrow> (nat \<Rightarrow> uuid) \<Rightarrow> uuid \<Rightarrow> string \<Rightarrow> 'f CreateRulesetRequest \<Rightarrow> 'f Node list \<Rightarrow> 'f ScoringRuleset option
     \<Rightarrow> 'f scoring_db \<Rightarrow> go_error + 'f ScoringRuleset \<times> 'f scoring_db" where
  "create_transaction newId newRuleId orgId recordType req nodes existingRuleset tx =
     (let rs = \<lparr>CR_Version = (case existingRuleset of None \<Rightarrow> 0 | Some r \<Rightarrow> RS_Version r) + 1,
            CR_Name = CRQ_Name req, CR_RecordType = recordType, CR_Thresholds = CRQ_Thresholds req,
            CR_CooldownSeconds = CRQ_CooldownSeconds req, CR_ScoringIntervalSeconds = CRQ_ScoringIntervalSeconds req\<rparr>;
          (ruleset, tx1) = InsertScoringRulesetVersion newId orgId rs tx
      in case scoring_rules newRuleId (CRQ_Rules req) nodes 0 of
           Inl err \<Rightarrow> Inl err
         | Inr rulesReq \<Rightarrow>
            (let tx2 = (case existingRuleset of None \<Rightarrow> tx1
               | Some r \<Rightarrow> if RS_Id r \<noteq> uuid_Nil then CancelRulesetDryRun (RS_Id r) tx1 else tx1)
             in case InsertScoringRulesetVersionRule (RS_Id ruleset) rulesReq tx2 of
                  Inl err \<Rightarrow> Inl err
                | Inr (rules, tx3) \<Rightarrow> Inr (ruleset\<lparr>RS_Rules := rules\<rparr>, tx3)))"

definition CreateRulesetVersion ::
    "'f scoring_env \<Rightarrow> Credentials \<Rightarrow> uuid \<Rightarrow> (nat \<Rightarrow> uuid) \<Rightarrow> string \<Rightarrow> 'f CreateRulesetRequest \<Rightarrow> 'f scoring_db
     \<Rightarrow> ((go_error + 'f ScoringRuleset) \<times> 'f scoring_db) option" where
  "CreateRulesetVersion E creds newId newRuleId recordType req db =
     (let orgId = Cred_OrganizationId creds in
      case isScoringEnabled E orgId of
        Some err \<Rightarrow> Some (Inl err, db)
      | None \<Rightarrow> (case sec_UpdateRuleset creds orgId of
          Some err \<Rightarrow> Some (Inl err, db)
        | None \<Rightarrow> (case GetScoringSettings orgId db of
            None \<Rightarrow> Some (Inl (ErrWrap BadParameterError ''no global scoring settings for this organization''), db)
          | Some maxRiskLevel \<Rightarrow>
              if int (length (CRQ_Thresholds req)) \<noteq> maxRiskLevel - 1
              then Some (Inl (ErrWrap BadParameterError ''invalid thresholds''), db)
              else (case validate_rule_requests E orgId recordType (CRQ_Rules req) of
                None \<Rightarrow> None
              | Some (Inl err) \<Rightarrow> Some (Inl err, db)
              | Some (Inr nodes) \<Rightarrow>
                 (let existingRuleset = (case GetScoringRuleset orgId recordType ScoreRulesetCommitted 0 db of
                        Inl _ \<Rightarrow> None | Inr r \<Rightarrow> Some r)
                  in Some (Transaction (create_transaction newId newRuleId orgId recordType req nodes existingRuleset) db))))))"

section \<open>Preparation, dry runs and commit\<close>

definition GetIndexesToCreateForScoringRuleset ::
    "'f scoring_env \<Rightarrow> uuid \<Rightarrow> 'f ScoringRuleset \<Rightarrow> go_error + ConcreteIndex list \<times> nat" where
  "GetIndexesToCreateForScoringRuleset E organizationId ruleset =
     (case ListAllValidIndexes (IndexEnv E) organizationId of
        Inl err \<Rightarrow> Inl (ErrWrap err ''Error while fetching existing indexes'')
      | Inr existingIndexes \<Rightarrow> (case extractQueryFamiliesFromAstSlice (map SRule_Ast (RS_Rules ruleset)) of
          Inl err \<Rightarrow> Inl (ErrWrap err ''Error extracting query families from scenario iterations'')
        | Inr families \<Rightarrow> (case CountPendingIndexes (IndexEnv E) organizationId of
            Inl err \<Rightarrow> Inl (ErrWrap err ''Error while counting pending indexes'')
          | Inr numPending \<Rightarrow> Inr (indexesToCreateFromQueryFamilies (ToUpper (IndexEnv E)) (Slice (IndexEnv E))
              families existingIndexes, numPending))))"

definition get_draft :: "uuid \<Rightarrow> string \<Rightarrow> 'f scoring_db \<Rightarrow> go_error + 'f ScoringRuleset" where
  "get_draft orgId recordType db = (case GetScoringRuleset orgId recordType ScoreRulesetDraft 0 db of
     Inl err \<Rightarrow> Inl (if errors_is err NotFoundError then ErrWrap err ''no draft version found'' else err)
   | Inr draft \<Rightarrow> Inr draft)"

definition Scoring_PreparationStatus ::
    "'f scoring_env \<Rightarrow> Credentials \<Rightarrow> string \<Rightarrow> 'f scoring_db \<Rightarrow> go_error + PreparationStatus \<times> PreparationServiceStatus" where
  "Scoring_PreparationStatus E creds recordType db =
     (let orgId = Cred_OrganizationId creds in
      case sec_UpdateRuleset creds orgId of
        Some err \<Rightarrow> Inl err
      | None \<Rightarrow> (case get_draft orgId recordType db of
          Inl err \<Rightarrow> Inl err
        | Inr draft \<Rightarrow> (case GetIndexesToCreateForScoringRuleset E orgId draft of
            Inl err \<Rightarrow> Inl err
          | Inr (indexes, pending) \<Rightarrow> Inr
              (if indexes \<noteq> [] then PreparationStatusRequired else PreparationStatusReadyToActivate,
               if pending > 0 then PreparationServiceStatusOccupied else PreparationServiceStatusAvailable))))"

definition PrepareRuleset ::
    "'f scoring_env \<Rightarrow> Credentials \<Rightarrow> string \<Rightarrow> 'f scoring_db \<Rightarrow> (go_error + unit) \<times> 'f scoring_db" where
  "PrepareRuleset E creds recordType db =
     (let orgId = Cred_OrganizationId creds in
      case sec_UpdateRuleset creds orgId of
        Some err \<Rightarrow> (Inl err, db)
      | None \<Rightarrow> (case get_draft orgId recordType db of
          Inl err \<Rightarrow> (Inl err, db)
        | Inr draft \<Rightarrow> (case GetIndexesToCreateForScoringRuleset E orgId draft of
            Inl err \<Rightarrow> (Inl err, db)
          | Inr (indexes, pending) \<Rightarrow>
              if pending > 0 then (Inl (ErrWrap UnprocessableEntityError ''ruleset is still being prepared''), db)
              else if indexes = [] then (Inr (), db)
              else Transaction (\<lambda>tx. case EnqueueCreateIndexTask (IndexEnv E) orgId indexes of
                Some err \<Rightarrow> Inl err
              | None \<Rightarrow> Inr ((), tx\<lparr>index_tasks := index_tasks tx @ [indexes]\<rparr>)) db)))"

definition ruleset_prepared :: "'f scoring_env \<Rightarrow> uuid \<Rightarrow> 'f ScoringRuleset \<Rightarrow> go_error option" where
  "ruleset_prepared E orgId draft =
     (case GetIndexesToCreateForScoringRuleset E orgId draft of
        Inl err \<Rightarrow> Some err
      | Inr (indexes, pending) \<Rightarrow>
          if pending > 0 then Some (ErrWrap UnprocessableEntityError ''ruleset is still being prepared'')
          else if indexes \<noteq> [] then Some (ErrWrap UnprocessableEntityError ''ruleset is not prepared'')
          else None)"

definition StartDryRun ::
    "'f scoring_env \<Rightarrow> Credentials \<Rightarrow> uuid \<Rightarrow> string \<Rightarrow> 'f scoring_db \<Rightarrow> (go_error + ScoringDryRun) \<times> 'f scoring_db" where
  "StartDryRun E creds newId recordType db =
     (let orgId = Cred_OrganizationId creds in Transaction (\<lambda>tx.
      case get_draft orgId recordType tx of
        Inl err \<Rightarrow> Inl err
      | Inr draft \<Rightarrow> (case sec_UpdateRuleset creds orgId of
          Some err \<Rightarrow> Inl err
        | None \<Rightarrow> (case ruleset_prepared E orgId draft of
            Some err \<Rightarrow> Inl err
          | None \<Rightarrow>
             (let (dryRun, tx') = InsertRulesetDryRun newId (RS_Id draft) RULESET_DRY_RUN_SAMPLE_SIZE tx
              in Inr (dryRun, tx'\<lparr>dry_run_tasks := dry_run_tasks tx' @ [DR_Id dryRun]\<rparr>))))) db)"

definition GetDryRun :: "Credentials \<Rightarrow> string \<Rightarrow> 'f scoring_db \<Rightarrow> go_error + ScoringDryRun" where
  "GetDryRun creds recordType db =
     (let orgId = Cred_OrganizationId creds in
      case get_draft orgId recordType db of
        Inl err \<Rightarrow> Inl err
      | Inr draft \<Rightarrow> (case sec_UpdateRuleset creds orgId of
          Some err \<Rightarrow> Inl err
        | None \<Rightarrow> GetScoringLatestDryRun (RS_Id draft) db))"

definition CommitRuleset ::
    "'f scoring_env \<Rightarrow> Credentials \<Rightarrow> int \<Rightarrow> string \<Rightarrow> 'f scoring_db \<Rightarrow> (go_error + 'f ScoringRuleset) \<times> 'f scoring_db" where
  "CommitRuleset E creds now recordType db =
     (let orgId = Cred_OrganizationId creds in
      case isScoringEnabled E orgId of
        Some err \<Rightarrow> (Inl err, db)
      | None \<Rightarrow> (case sec_UpdateRuleset creds orgId of
          Some err \<Rightarrow> (Inl err, db)
        | None \<Rightarrow>
           (let (result, db') = Transaction (\<lambda>tx.
              case get_draft orgId recordType tx of
                Inl err \<Rightarrow> Inl err
              | Inr draft \<Rightarrow> (case ruleset_prepared E orgId draft of
                  Some err \<Rightarrow> Inl err
                | None \<Rightarrow> Inr (sdb_CommitRuleset draft (CancelRulesetDryRun (RS_Id draft) tx)))) db
            in (result, case result of Inl _ \<Rightarrow> db' | Inr _ \<Rightarrow> cache_set E now orgId recordType True db'))))"

definition ListRulesets :: "Credentials \<Rightarrow> 'f scoring_db \<Rightarrow> go_error + 'f ScoringRuleset list" where
  "ListRulesets creds db =
     (let found = ListScoringRulesets (Cred_OrganizationId creds) db
      in case some_errors (map (\<lambda>r. ReadOrganization creds (RS_OrgId r)) found) of
           err # _ \<Rightarrow> Inl err
         | [] \<Rightarrow> Inr found)"

definition ListRulesetVersions :: "Credentials \<Rightarrow> string \<Rightarrow> 'f scoring_db \<Rightarrow> 'f ScoringRuleset list" where
  "ListRulesetVersions creds recordType db = ListScoringRulesetVersions (Cred_OrganizationId creds) recordType db"

section \<open>Settings\<close>

definition GetSettings :: "Credentials \<Rightarrow> 'f scoring_db \<Rightarrow> go_error + int" where
  "GetSettings creds db = (case GetScoringSettings (Cred_OrganizationId creds) db of
     None \<Rightarrow> Inl (ErrWrap NotFoundError ''no scoring settings found'')
   | Some maxRiskLevel \<Rightarrow> Inr maxRiskLevel)"

definition UpdateSettings :: "Credentials \<Rightarrow> int \<Rightarrow> 'f scoring_db \<Rightarrow> (go_error + int) \<times> 'f scoring_db" where
  "UpdateSettings creds maxRiskLevel db =
     (let orgId = Cred_OrganizationId creds in
      case sec_UpdateSettings creds orgId of
        Some err \<Rightarrow> (Inl err, db)
      | None \<Rightarrow>
          if maxRiskLevel < 1 \<or> maxRiskLevel > MAX_RISK_LEVEL_SCALE
          then (Inl (ErrWrap BadParameterError ''maximum risk level outside of allowed bounds''), db)
          else if (case GetScoringSettings orgId db of None \<Rightarrow> False
              | Some existing \<Rightarrow> ListScoringRulesets orgId db \<noteq> [] \<and> existing \<noteq> maxRiskLevel)
          then (Inl (ErrWrap BadParameterError ''cannot change maximum risk level after having created rulesets''), db)
          else (Inr maxRiskLevel, UpdateScoringSettings orgId maxRiskLevel db))"

section \<open>Computations asked for by decisions and ingestion\<close>

record 'f scored_decision =
  SD_ClientObject :: "'f ClientObject"
  SD_PivotId :: "uuid option"
  SD_PivotValue :: "string option"

text \<open>\<open>None\<close> is a panic: an object without an identifier, or a pivot that cannot be enriched.\<close>

definition enqueue_pivot ::
    "'f scoring_env \<Rightarrow> int \<Rightarrow> uuid \<Rightarrow> DataModel \<Rightarrow> 'f scored_decision \<Rightarrow> 'f scoring_db
     \<Rightarrow> (go_error + 'f scoring_db) option" where
  "enqueue_pivot E now orgId dataModel d db =
     (case (SD_PivotId d, SD_PivotValue d) of
        (Some pivotId, Some pivotValue) \<Rightarrow>
          (case GetPivot E pivotId of
             Inl err \<Rightarrow> Some (Inl err)
           | Inr pivotMeta \<Rightarrow> (case Enrich pivotMeta dataModel of
               None \<Rightarrow> None
             | Some pivot \<Rightarrow>
                (let (exists, db') = CommittedRulesetExists E now orgId (PivotTable pivot) db
                 in Some (if exists then enqueue_score E \<lparr>Ref_OrgId = orgId, Ref_RecordType = PivotTable pivot,
                      Ref_RecordId = pivotValue\<rparr> db' else Inr db'))))
      | _ \<Rightarrow> Some (Inr db))"

fun enqueue_decisions ::
    "'f scoring_env \<Rightarrow> int \<Rightarrow> uuid \<Rightarrow> DataModel \<Rightarrow> 'f scored_decision list \<Rightarrow> 'f scoring_db
     \<Rightarrow> (go_error + 'f scoring_db) option" where
  "enqueue_decisions E now orgId dataModel [] db = Some (Inr db)"
| "enqueue_decisions E now orgId dataModel (d # ds) db =
     (let table = TableName (SD_ClientObject d);
          (exists, db1) = CommittedRulesetExists E now orgId table db;
          enqueued = (if \<not> exists then Some (Inr db1)
            else (case get_or VNil (Data (SD_ClientObject d) ''object_id'') of
              VString recordId \<Rightarrow> Some (enqueue_score E \<lparr>Ref_OrgId = orgId, Ref_RecordType = table,
                Ref_RecordId = recordId\<rparr> db1)
            | _ \<Rightarrow> None))
      in case enqueued of
           None \<Rightarrow> None
         | Some (Inl err) \<Rightarrow> Some (Inl err)
         | Some (Inr db2) \<Rightarrow> (case enqueue_pivot E now orgId dataModel d db2 of
             None \<Rightarrow> None
           | Some (Inl err) \<Rightarrow> Some (Inl err)
           | Some (Inr db3) \<Rightarrow> enqueue_decisions E now orgId dataModel ds db3))"

definition EnqueueComputationForDecisions ::
    "'f scoring_env \<Rightarrow> int \<Rightarrow> uuid \<Rightarrow> 'f scored_decision list \<Rightarrow> 'f scoring_db \<Rightarrow> (go_error + 'f scoring_db) option" where
  "EnqueueComputationForDecisions E now orgId decisions db =
     (case ReadDataModel E orgId of
        Inl err \<Rightarrow> Some (Inl err)
      | Inr dataModel \<Rightarrow> enqueue_decisions E now orgId dataModel decisions db)"

fun enqueue_all :: "'f scoring_env \<Rightarrow> ScoringRecordRef list \<Rightarrow> 'f scoring_db \<Rightarrow> go_error + 'f scoring_db" where
  "enqueue_all E [] db = Inr db"
| "enqueue_all E (record # records) db = (case enqueue_score E record db of
     Inl err \<Rightarrow> Inl err | Inr db' \<Rightarrow> enqueue_all E records db')"

definition EnqueueComputationForIngestion ::
    "'f scoring_env \<Rightarrow> int \<Rightarrow> uuid \<Rightarrow> string \<Rightarrow> string list \<Rightarrow> 'f scoring_db \<Rightarrow> (go_error + unit) \<times> 'f scoring_db" where
  "EnqueueComputationForIngestion E now orgId recordType objectIds db =
     (if objectIds = [] then (Inr (), db)
      else (let (exists, db') = CommittedRulesetExists E now orgId recordType db
        in if \<not> exists then (Inr (), db')
           else Transaction (\<lambda>tx. case enqueue_all E (map (\<lambda>objectId. \<lparr>Ref_OrgId = orgId, Ref_RecordType = recordType,
               Ref_RecordId = objectId\<rparr>) objectIds) tx of Inl err \<Rightarrow> Inl err | Inr tx' \<Rightarrow> Inr ((), tx')) db'))"

section \<open>The first insertion of scores\<close>

text \<open>
  The ingested objects of a record type, by increasing internal identifier, are read in pages; \<open>size\<close>
  is 1000. The identifier of a new score is a function of the object.
\<close>

definition GetObjectsFromInternalId :: "(uuid \<times> string) list \<Rightarrow> uuid \<Rightarrow> nat \<Rightarrow> (uuid \<times> string) list" where
  "GetObjectsFromInternalId objects wm sz = take sz (filter (\<lambda>obj. wm < fst obj) objects)"

definition insert_page ::
    "(string \<Rightarrow> uuid) \<Rightarrow> int \<Rightarrow> uuid \<Rightarrow> 'f ScoringRuleset \<Rightarrow> (uuid \<times> string) list \<Rightarrow> 'f scoring_db \<Rightarrow> 'f scoring_db" where
  "insert_page newId now orgId ruleset page db = fold (\<lambda>obj db. InsertEmptyScore (newId (snd obj)) now
     \<lparr>Req_Record = \<lparr>Ref_OrgId = orgId, Ref_RecordType = RS_RecordType ruleset, Ref_RecordId = snd obj\<rparr>,
      Req_RiskLevel = 0, Req_Source = ScoreSourceUnknown, Req_OverriddenBy = None, Req_RulesetId = Some (RS_Id ruleset),
      Req_StaleAt = None, IgnoredByCooldown = False\<rparr> db) page db"

lemma page_progress:
  assumes "GetObjectsFromInternalId objects wm sz \<noteq> []"
  shows "length (filter (\<lambda>obj. fst (last (GetObjectsFromInternalId objects wm sz)) < fst obj) objects)
    < length (filter (\<lambda>obj. wm < fst obj) objects)"
proof -
  let ?l = "last (GetObjectsFromInternalId objects wm sz)"
  have "?l \<in> set (filter (\<lambda>obj. wm < fst obj) objects)"
    using last_in_set [OF assms] unfolding GetObjectsFromInternalId_def by (meson in_set_takeD)
  then have l: "?l \<in> set objects" "wm < fst ?l" by auto
  have "filter (\<lambda>obj. fst ?l < fst obj) objects = filter (\<lambda>obj. fst ?l < fst obj) (filter (\<lambda>obj. wm < fst obj) objects)"
    using l(2) by (auto simp: filter_filter intro!: filter_cong)
  moreover have "length (filter (\<lambda>obj. fst ?l < fst obj) (filter (\<lambda>obj. wm < fst obj) objects))
      < length (filter (\<lambda>obj. wm < fst obj) objects)"
    by (rule length_filter_less [of ?l]) (use l in auto)
  ultimately show ?thesis by simp
qed

function insert_pages ::
    "(string \<Rightarrow> uuid) \<Rightarrow> int \<Rightarrow> uuid \<Rightarrow> 'f ScoringRuleset \<Rightarrow> (uuid \<times> string) list \<Rightarrow> uuid \<Rightarrow> 'f scoring_db \<Rightarrow> 'f scoring_db" where
  "insert_pages newId now orgId ruleset objects wm db =
     (let page = GetObjectsFromInternalId objects wm 1000 in
      if page = [] then db
      else insert_pages newId now orgId ruleset objects (fst (last page)) (insert_page newId now orgId ruleset page db))"
  by pat_completeness auto

termination insert_pages
  by (relation "measure (\<lambda>(_, _, _, _, objects, wm, _). length (filter (\<lambda>obj. wm < fst obj) objects))")
    (auto intro: page_progress)

declare insert_pages.simps [simp del]

fun insert_rulesets ::
    "(string \<Rightarrow> uuid) \<Rightarrow> int \<Rightarrow> uuid \<Rightarrow> (string \<Rightarrow> (uuid \<times> string) list) \<Rightarrow> 'f ScoringRuleset list \<Rightarrow> 'f scoring_db
     \<Rightarrow> 'f scoring_db" where
  "insert_rulesets newId now orgId objects [] db = db"
| "insert_rulesets newId now orgId objects (ruleset # rest) db =
     (let key = (orgId, RS_RecordType ruleset) in
      insert_rulesets newId now orgId objects rest
        (if List.member (insertion_done db) key then db
         else (let db' = insert_pages newId now orgId ruleset (objects (RS_RecordType ruleset)) uuid_Nil db
               in db'\<lparr>insertion_done := insertion_done db' @ [key]\<rparr>)))"

definition InitialInsertion ::
    "'f scoring_env \<Rightarrow> (string \<Rightarrow> uuid) \<Rightarrow> int \<Rightarrow> uuid \<Rightarrow> (string \<Rightarrow> (uuid \<times> string) list) \<Rightarrow> 'f scoring_db
     \<Rightarrow> (go_error + unit) \<times> 'f scoring_db" where
  "InitialInsertion E newId now orgId objects db =
     (case UserScoringAccess E orgId of
        Inl err \<Rightarrow> (Inl err, db)
      | Inr access \<Rightarrow> if \<not> IsAllowed access then (Inr (), db)
          else (Inr (), insert_rulesets newId now orgId objects (ListScoringRulesets orgId db) db))"

end
