(* ===== verification/Scoring_Laws.thy ===== *)
theory Scoring_Laws
  imports Scoring_Rulesets
begin

text \<open>
  What user scoring guarantees: the risk level of a record, one active score for each record, versions
  of rulesets that fit the settings, and active scores that overrides and cooldowns protect.
\<close>

section \<open>The risk level\<close>

lemma levels_bounds: "0 \<le> levels m ts" "levels m ts \<le> int (length ts)"
  by (induction ts) auto

lemma levels_sorted: "sorted ts \<Longrightarrow> levels m ts = int (length (filter (\<lambda>t. t \<le> m) ts))"
proof (induction ts)
  case (Cons t ts)
  show ?case
  proof (cases "m < t")
    case True
    with Cons.prems have "filter (\<lambda>t. t \<le> m) ts = []" by (auto simp: filter_empty_conv)
    with True show ?thesis by simp
  next
    case False
    with Cons show ?thesis by simp
  qed
qed simp

text \<open>The results of the rules that were triggered.\<close>

fun triggered_results :: "'f NodeEvaluation list \<Rightarrow> ScoreComputationResult list" where
  "triggered_results [] = []"
| "triggered_results (e # es) = (case NE_ReturnValue e of
     VScore r \<Rightarrow> (if Triggered r then r # triggered_results es else triggered_results es)
   | _ \<Rightarrow> triggered_results es)"

lemma triggered_results_append [simp]:
  "triggered_results (xs @ ys) = triggered_results xs @ triggered_results ys"
  by (induction xs rule: triggered_results.induct) (auto split: val.splits)

definition sum_modifiers :: "ScoreComputationResult list \<Rightarrow> int" where
  "sum_modifiers rs = fold (\<lambda>r total. wrap64 (total + Modifier r)) rs 0"

definition max_floor :: "ScoreComputationResult list \<Rightarrow> int" where
  "max_floor rs = fold (\<lambda>r floor. max floor (Floor r)) rs 0"

definition eval_sums :: "'f ScoringEvaluation \<Rightarrow> bool" where
  "eval_sums s \<longleftrightarrow> Eval_Modifier s = sum_modifiers (triggered_results (Eval_Evaluation s))
     \<and> Eval_Floor s = max_floor (triggered_results (Eval_Evaluation s))"

lemma execute_rules_sums:
  "execute_rules ev rules score = Some (Inr score') \<Longrightarrow> eval_sums score \<Longrightarrow>
     eval_sums score' \<and> length (Eval_Evaluation score') = length (Eval_Evaluation score) + length rules"
proof (induction rules arbitrary: score)
  case (Cons rule rules)
  from Cons.prems(1) obtain eval r where ev: "ev (SRule_Ast rule) = Some (eval, True)" "NE_ReturnValue eval = VScore r"
    by (auto split: option.splits if_splits val.splits)
  let ?score = "if \<not> Triggered r then score\<lparr>Eval_Evaluation := Eval_Evaluation score @ [eval]\<rparr>
    else score\<lparr>Eval_Evaluation := Eval_Evaluation score @ [eval], Eval_Modifier := wrap64 (Eval_Modifier score + Modifier r),
      Eval_Floor := max (Eval_Floor score) (Floor r)\<rparr>"
  from Cons.prems(1) ev have run: "execute_rules ev rules ?score = Some (Inr score')"
    by (simp add: Let_def split: if_splits)
  have "eval_sums ?score"
    using Cons.prems(2) ev(2) by (simp add: eval_sums_def sum_modifiers_def max_floor_def)
  from Cons.IH [OF run this] show ?case by (auto split: if_splits)
qed simp

lemma executeRules_sums:
  assumes "executeRules ev ruleset = Some (Inr eval)"
  shows "eval_sums eval \<and> length (Eval_Evaluation eval) = length (RS_Rules ruleset)"
proof -
  have "eval_sums \<lparr>Eval_Modifier = 0, Eval_Floor = 0, Eval_RiskLevel = 0, Eval_Evaluation = []\<rparr>"
    by (simp add: eval_sums_def sum_modifiers_def max_floor_def)
  from execute_rules_sums [OF assms [unfolded executeRules_def] this] show ?thesis by simp
qed

lemma InternalComputeScore_Inr:
  assumes "InternalComputeScore E org ruleset rt rid = Some (Inr eval)"
  shows "eval_sums eval \<and> length (Eval_Evaluation eval) = length (RS_Rules ruleset)
    \<and> Eval_RiskLevel eval = scoreToRiskLevel ruleset eval"
proof -
  from assms obtain ev eval' where "executeRules ev ruleset = Some (Inr eval')"
    "eval = eval'\<lparr>Eval_RiskLevel := scoreToRiskLevel ruleset eval'\<rparr>"
    by (auto simp: InternalComputeScore_def split: sum.splits option.splits)
  with executeRules_sums show ?thesis by (fastforce simp: eval_sums_def scoreToRiskLevel_def)
qed

lemma max_floor_nonneg: "0 \<le> max_floor rs"
proof -
  have "x \<le> fold (\<lambda>r floor. max floor (Floor r)) rs x" for x :: int
  proof (induction rs arbitrary: x)
    case (Cons r rs)
    have "max x (Floor r) \<le> fold (\<lambda>r floor. max floor (Floor r)) rs (max x (Floor r))" by (rule Cons.IH)
    then show ?case by simp
  qed simp
  then show ?thesis by (simp add: max_floor_def)
qed

section \<open>One active score\<close>

definition one_active :: "'f scoring_db \<Rightarrow> bool" where
  "one_active db \<longleftrightarrow> (\<forall>record. length (filter (active_score record) (scores db)) \<le> 1)"

lemma active_deleted [simp]: "\<not> active_score record (s\<lparr>DeletedAt := Some now\<rparr>)"
  by (simp add: active_score_def)

lemma active_same: "active_score record s \<Longrightarrow> active_score record' s \<Longrightarrow> record = record'"
  by (simp add: active_score_def)

lemma filter_deleted:
  "filter (active_score record) (map (\<lambda>s. if active_score record' s then s\<lparr>DeletedAt := Some now\<rparr> else s) xs)
   = (if record = record' then [] else filter (active_score record) xs)"
  by (induction xs) (auto dest: active_same)

lemma InsertScore_active:
  "filter (active_score record) (scores (snd (InsertScore i now req db))) =
     (if record = Req_Record req \<and> \<not> IgnoredByCooldown req then [fst (InsertScore i now req db)]
      else filter (active_score record) (scores db))"
  by (auto simp: InsertScore_def Let_def filter_deleted) (simp_all add: active_score_def)

lemma one_active_InsertScore: "one_active db \<Longrightarrow> one_active (snd (InsertScore i now req db))"
  by (simp add: one_active_def InsertScore_active)

lemma one_active_InsertEmptyScore: "one_active db \<Longrightarrow> one_active (InsertEmptyScore i now req db)"
proof (cases "list_ex (active_score (Req_Record req)) (scores db)")
  case False
  then have none: "filter (active_score (Req_Record req)) (scores db) = []"
    by (simp add: list_ex_iff filter_empty_conv)
  assume "one_active db"
  moreover have "active_score rec s \<longleftrightarrow> rec = Req_Record req"
    if "Score_Record s = Req_Record req" "DeletedAt s = None" for rec s
    using that by (auto simp: active_score_def)
  ultimately show ?thesis using False none by (auto simp: one_active_def InsertEmptyScore_def)
qed (simp add: InsertEmptyScore_def)

section \<open>What each request changes\<close>

text \<open>A request on scores leaves the rulesets and the settings.\<close>

definition frame :: "'f scoring_db \<Rightarrow> 'f scoring_db \<Rightarrow> bool" where
  "frame db db' \<longleftrightarrow> rulesets db' = rulesets db \<and> settings db' = settings db"

definition no_scores :: "'f scoring_db \<Rightarrow> 'f scoring_db \<Rightarrow> bool" where
  "no_scores db db' \<longleftrightarrow> frame db db' \<and> scores db' = scores db"

text \<open>Whether the insertion of a computed score respects the active one.\<close>

definition refreshed :: "int \<Rightarrow> ScoringRecordRef \<Rightarrow> 'f scoring_db \<Rightarrow> 'f scoring_db \<Rightarrow> bool" where
  "refreshed now record db db' \<longleftrightarrow> frame db db' \<and> (\<exists>i ruleset newScore.
     GetScoringRuleset (Ref_OrgId record) (Ref_RecordType record) ScoreRulesetCommitted 0 db = Inr ruleset
   \<and> \<not> IsOverridden now (sdb_GetActiveScore record db)
   \<and> scores db' = scores (snd (InsertScore i now (ruleset_request now record ruleset newScore (sdb_GetActiveScore record db)) db)))"

lemma frame_refl [simp]: "frame db db"
  by (simp add: frame_def)

lemma no_scores_refl [simp]: "no_scores db db"
  by (simp add: no_scores_def)

lemma no_scores_trans: "no_scores a b \<Longrightarrow> no_scores b c \<Longrightarrow> no_scores a c"
  by (simp add: no_scores_def frame_def)

lemma frame_InsertScore [simp]: "frame db (snd (InsertScore i now req db))"
  by (simp add: InsertScore_def Let_def frame_def)

lemma enqueue_score_frame: "enqueue_score E record db = Inr db' \<Longrightarrow> no_scores db db'"
  by (auto simp: enqueue_score_def no_scores_def frame_def split: option.splits)

lemma send_webhook_frame: "send_webhook E score db = Inr db' \<Longrightarrow> no_scores db db'"
  by (auto simp: send_webhook_def no_scores_def frame_def split: option.splits)

lemma finish_refresh_frame: "finish_refresh E req score db = Inr (r, db') \<Longrightarrow> no_scores db db'"
  by (auto simp: finish_refresh_def split: sum.splits option.splits if_splits dest: send_webhook_frame)

lemma not_overridden_stale: "IsStale now s maxAge \<Longrightarrow> \<not> IsOverridden now s"
  by (auto simp: IsStale_def IsOverridden_def split: option.splits if_splits)

lemma ComputeScore_Inr:
  assumes "ComputeScore E creds record db = Some (Inr (ruleset, eval))"
  shows "GetScoringRuleset (Ref_OrgId record) (Ref_RecordType record) ScoreRulesetCommitted 0 db = Inr ruleset
    \<and> InternalComputeScore E (Ref_OrgId record) ruleset (Ref_RecordType record) (Ref_RecordId record) = Some (Inr eval)"
  using assms by (auto simp: ComputeScore_def split: sum.splits option.splits)

lemma refresh_transaction_effect:
  assumes "refresh_transaction E creds i now (sdb_GetActiveScore record db) record opts db = Some (Inr (answer, db'))"
  shows "no_scores db db' \<or> refreshed now record db db'"
proof (cases "sdb_GetActiveScore record db \<noteq> None \<and> RefreshInBackground opts
    \<or> \<not> IsStale now (sdb_GetActiveScore record db) (RefreshOlderThan opts)")
  case True
  with assms show ?thesis
    by (auto simp: refresh_transaction_def split: if_splits sum.splits dest: enqueue_score_frame)
next
  case False
  then have stale: "\<not> IsOverridden now (sdb_GetActiveScore record db)" using not_overridden_stale by blast
  from False assms consider "db' = db" | ruleset eval where
    "ComputeScore E creds record db = Some (Inr (ruleset, eval))"
    "finish_refresh E (ruleset_request now record ruleset eval (sdb_GetActiveScore record db))
       (fst (InsertScore i now (ruleset_request now record ruleset eval (sdb_GetActiveScore record db)) db))
       (snd (InsertScore i now (ruleset_request now record ruleset eval (sdb_GetActiveScore record db)) db))
     = Inr (answer, db')"
    by (auto simp: refresh_transaction_def Let_def case_prod_beta split: if_splits sum.splits option.splits)
  then show ?thesis
  proof cases
    case 2
    let ?ins = "InsertScore i now (ruleset_request now record ruleset eval (sdb_GetActiveScore record db)) db"
    from finish_refresh_frame [OF 2(2)] frame_InsertScore [of db i now]
    have "frame db db'" "scores db' = scores (snd ?ins)" by (simp_all add: no_scores_def frame_def)
    with ComputeScore_Inr [OF 2(1)] stale show ?thesis unfolding refreshed_def by blast
  qed simp
qed

lemma GetActiveScore_effect:
  assumes "GetActiveScore E creds i now record opts db = Some (answer, db')"
  shows "no_scores db db' \<or> refreshed now record db db'"
proof (cases "db' = db")
  case False
  with assms obtain v where "refresh_transaction E creds i now (sdb_GetActiveScore record db) record opts db = Some (Inr (v, db'))"
    by (auto simp: GetActiveScore_def tryRefreshScore_def Transaction_def split: sum.splits option.splits)
  then show ?thesis by (rule refresh_transaction_effect)
qed simp

lemma Triggered_effect:
  assumes "TriggeredScoreComputation E i now record db = Some (answer, db')"
  shows "no_scores db db' \<or> refreshed now record db db'"
proof (cases "db' = db")
  case False
  let ?old = "sdb_GetActiveScore record db"
  from assms False have "triggered_transaction E i now record db = Some (Inr ((), db'))"
    by (auto simp: TriggeredScoreComputation_def Transaction_def split: sum.splits option.splits if_splits)
  with False obtain ruleset eval where
    "GetScoringRuleset (Ref_OrgId record) (Ref_RecordType record) ScoreRulesetCommitted 0 db = Inr ruleset"
    "\<not> IsOverridden now ?old" "db' = snd (InsertScore i now (ruleset_request now record ruleset eval ?old) db)"
    by (auto simp: triggered_transaction_def Let_def case_prod_beta split: sum.splits option.splits if_splits)
  then show ?thesis using frame_InsertScore unfolding refreshed_def by blast
qed simp

lemma OverrideScore_effect:
  assumes "OverrideScore E parse creds i now req db = (answer, db')"
  shows "no_scores db db' \<or> frame db db' \<and> (\<exists>req'. scores db' = scores (snd (InsertScore i now req' db)))"
proof (cases "db' = db")
  case False
  with assms obtain req' where "send_webhook E (fst (InsertScore i now req' db)) (snd (InsertScore i now req' db)) = Inr db'"
    by (auto simp: OverrideScore_def Transaction_def Let_def case_prod_beta split: sum.splits option.splits if_splits)
  from send_webhook_frame [OF this] frame_InsertScore [of db i now req'] show ?thesis
    by (auto simp: no_scores_def frame_def)
qed simp

end
