(* ===== verification/Scoring_State.thy ===== *)
theory Scoring_State
  imports Scoring_Laws
begin

text \<open>
  The state of user scoring after any sequence of requests, and the properties of user scoring.
\<close>

section \<open>The rulesets\<close>

text \<open>
  Identifiers are distinct; a record type has at most one draft; versions of the same record type are
  distinct, and a draft comes after the committed versions; the thresholds fit the settings.
\<close>

abbreviation same_type :: "'f ScoringRuleset \<Rightarrow> 'f ScoringRuleset \<Rightarrow> bool" where
  "same_type r r' \<equiv> RS_OrgId r = RS_OrgId r' \<and> RS_RecordType r = RS_RecordType r'"

definition compatible :: "'f ScoringRuleset \<Rightarrow> 'f ScoringRuleset \<Rightarrow> bool" where
  "compatible r r' \<longleftrightarrow> (same_type r r' \<longrightarrow>
     (RS_Status r' = ScoreRulesetDraft \<longrightarrow>
        RS_Id r = RS_Id r' \<or> RS_Status r = ScoreRulesetCommitted \<and> RS_Version r < RS_Version r')
   \<and> (RS_Version r = RS_Version r' \<longrightarrow> RS_Id r = RS_Id r'))"

definition statuses_ok :: "'f ScoringRuleset list \<Rightarrow> bool" where
  "statuses_ok rs \<longleftrightarrow> distinct (map RS_Id rs)
     \<and> (\<forall>r\<in>set rs. RS_Status r = ScoreRulesetDraft \<or> RS_Status r = ScoreRulesetCommitted)
     \<and> (\<forall>r\<in>set rs. \<forall>r'\<in>set rs. compatible r r')"

definition thresholds_ok :: "'f scoring_db \<Rightarrow> bool" where
  "thresholds_ok db \<longleftrightarrow> (\<forall>r\<in>set (rulesets db). \<exists>m. GetScoringSettings (RS_OrgId r) db = Some m
     \<and> int (length (Thresholds r)) = m - 1)"

definition scoring_ok :: "'f scoring_db \<Rightarrow> bool" where
  "scoring_ok db \<longleftrightarrow> one_active db \<and> statuses_ok (rulesets db) \<and> thresholds_ok db"

lemma scoring_ok_frame: "scoring_ok db \<Longrightarrow> frame db db' \<Longrightarrow> one_active db' \<Longrightarrow> scoring_ok db'"
  by (simp add: scoring_ok_def frame_def thresholds_ok_def GetScoringSettings_def)

lemma one_active_scores: "scores db' = scores db \<Longrightarrow> one_active db' = one_active db"
  by (simp add: one_active_def)

lemma scoring_ok_no_scores: "scoring_ok db \<Longrightarrow> no_scores db db' \<Longrightarrow> scoring_ok db'"
  using scoring_ok_frame one_active_scores by (metis no_scores_def scoring_ok_def)

lemma scoring_ok_insert:
  "scoring_ok db \<Longrightarrow> frame db db' \<Longrightarrow> scores db' = scores (snd (InsertScore i now req db)) \<Longrightarrow> scoring_ok db'"
  using scoring_ok_frame one_active_scores one_active_InsertScore by (metis scoring_ok_def)

lemma scoring_ok_refreshed: "scoring_ok db \<Longrightarrow> refreshed now record db db' \<Longrightarrow> scoring_ok db'"
  unfolding refreshed_def using scoring_ok_insert by blast

text \<open>An update of rulesets that keeps what identifies them.\<close>

lemma statuses_ok_map:
  assumes "statuses_ok rs" "\<And>r. RS_Id (f r) = RS_Id r \<and> RS_OrgId (f r) = RS_OrgId r \<and> RS_RecordType (f r) = RS_RecordType r
     \<and> RS_Version (f r) = RS_Version r \<and> (RS_Status (f r) = RS_Status r \<or> RS_Status (f r) = ScoreRulesetCommitted)"
  shows "statuses_ok (map f rs)"
proof -
  have "map RS_Id (map f rs) = map RS_Id rs" using assms(2) by simp
  moreover have "compatible (f r) (f r')" if "compatible r r'" for r r'
    using that assms(2) [of r] assms(2) [of r'] by (auto simp: compatible_def)
  moreover have "RS_Status (f r) = ScoreRulesetDraft \<or> RS_Status (f r) = ScoreRulesetCommitted"
    if "RS_Status r = ScoreRulesetDraft \<or> RS_Status r = ScoreRulesetCommitted" for r
    using that assms(2) [of r] by auto
  ultimately show ?thesis using assms(1) unfolding statuses_ok_def by (simp del: map_map)
qed

lemma GetScoringRuleset_committed:
  assumes "GetScoringRuleset org rt ScoreRulesetCommitted 0 db = Inr r"
  shows "r \<in> set (rulesets db)" "RS_OrgId r = org" "RS_RecordType r = rt" "RS_Status r = ScoreRulesetCommitted"
    "\<forall>r'\<in>set (rulesets db). RS_OrgId r' = org \<and> RS_RecordType r' = rt \<and> RS_Status r' = ScoreRulesetCommitted
       \<longrightarrow> RS_Version r' \<le> RS_Version r"
proof -
  let ?match = "filter (\<lambda>r. RS_OrgId r = org \<and> RS_RecordType r = rt \<and> RS_Status r = ScoreRulesetCommitted) (rulesets db)"
  let ?sorted = "sort_key (\<lambda>r. - RS_Version r) ?match"
  from assms obtain rest where s: "?sorted = r # rest" by (auto simp: GetScoringRuleset_def split: list.splits)
  then have "r \<in> set ?sorted" by simp
  then show "r \<in> set (rulesets db)" "RS_OrgId r = org" "RS_RecordType r = rt" "RS_Status r = ScoreRulesetCommitted"
    by auto
  have "sorted (map (\<lambda>r. - RS_Version r) ?sorted)" by simp
  then have "\<forall>r'\<in>set ?sorted. - RS_Version r \<le> - RS_Version r'" unfolding s by auto
  then show "\<forall>r'\<in>set (rulesets db). RS_OrgId r' = org \<and> RS_RecordType r' = rt \<and> RS_Status r' = ScoreRulesetCommitted
       \<longrightarrow> RS_Version r' \<le> RS_Version r" by auto
qed

lemma GetScoringRuleset_none:
  assumes "GetScoringRuleset org rt ScoreRulesetCommitted 0 db = Inl err" "r \<in> set (rulesets db)"
    "RS_OrgId r = org" "RS_RecordType r = rt"
  shows "RS_Status r \<noteq> ScoreRulesetCommitted"
proof -
  let ?match = "filter (\<lambda>r. RS_OrgId r = org \<and> RS_RecordType r = rt \<and> RS_Status r = ScoreRulesetCommitted) (rulesets db)"
  have "sort_key (\<lambda>r. - RS_Version r) ?match = []"
    using assms(1) by (simp add: GetScoringRuleset_def split: list.splits)
  then have "set (sort_key (\<lambda>r. - RS_Version r) ?match) = {}" by (simp only: list.set)
  then have "set ?match = {}" by (simp only: set_sort)
  with assms(2,3,4) show ?thesis by auto
qed

lemma statuses_ok_append:
  assumes "statuses_ok rs" "RS_Id new \<notin> RS_Id ` set rs" "RS_Status new = ScoreRulesetDraft"
    and later: "\<forall>r\<in>set rs. same_type r new \<longrightarrow> RS_Status r = ScoreRulesetCommitted \<and> RS_Version r < RS_Version new"
  shows "statuses_ok (rs @ [new])"
proof -
  have "compatible r new \<and> compatible new r" if "r \<in> set rs" for r
    using later that assms(3) by (auto simp: compatible_def)
  moreover have "compatible new new" by (simp add: compatible_def)
  ultimately show ?thesis using assms(1-3) unfolding statuses_ok_def by auto
qed

section \<open>Each request keeps the state\<close>

lemma CancelRulesetDryRun_frame: "no_scores db (CancelRulesetDryRun i db)"
  by (simp add: CancelRulesetDryRun_def no_scores_def frame_def)

lemma settings_simps:
  "settings (snd (InsertScoringRulesetVersion i org rs db)) = settings db"
  "scores (snd (InsertScoringRulesetVersion i org rs db)) = scores db"
  by (simp_all add: InsertScoringRulesetVersion_def Let_def split: option.splits)

lemma InsertVersion_ok:
  assumes ok: "scoring_ok db" and fresh: "i \<notin> RS_Id ` set (rulesets db)"
    and m: "GetScoringSettings org db = Some m" "int (length (CR_Thresholds rs)) = m - 1"
    and v: "\<forall>r\<in>set (rulesets db). RS_OrgId r = org \<and> RS_RecordType r = CR_RecordType rs
       \<and> RS_Status r = ScoreRulesetCommitted \<longrightarrow> RS_Version r < CR_Version rs"
  shows "scoring_ok (snd (InsertScoringRulesetVersion i org rs db))"
proof (cases "List.find (is_draft_of org (CR_RecordType rs)) (rulesets db)")
  case None
  then have nodraft: "\<not> is_draft_of org (CR_RecordType rs) r" if "r \<in> set (rulesets db)" for r
    using that by (auto simp: find_None_iff)
  have st: "\<forall>r\<in>set (rulesets db). RS_Status r = ScoreRulesetDraft \<or> RS_Status r = ScoreRulesetCommitted"
    using ok by (simp add: scoring_ok_def statuses_ok_def)
  let ?new = "\<lparr>RS_Id = i, RS_OrgId = org, RS_Version = CR_Version rs, RS_Status = ScoreRulesetDraft,
     RS_Name = CR_Name rs, RS_RecordType = CR_RecordType rs, Thresholds = CR_Thresholds rs,
     Cooldown = CR_CooldownSeconds rs * 1000000000, ScoringInterval = CR_ScoringIntervalSeconds rs * 1000000000, RS_Rules = []\<rparr>"
  have db': "snd (InsertScoringRulesetVersion i org rs db) = db\<lparr>rulesets := rulesets db @ [?new]\<rparr>"
    using None by (simp add: InsertScoringRulesetVersion_def Let_def)
  have "statuses_ok (rulesets db @ [?new])"
    using ok fresh st nodraft v by (intro statuses_ok_append) (auto simp: scoring_ok_def is_draft_of_def)
  with ok m show ?thesis unfolding db'
    by (auto simp: scoring_ok_def one_active_def thresholds_ok_def GetScoringSettings_def)
next
  case (Some draft)
  let ?f = "\<lambda>r. if is_draft_of org (CR_RecordType rs) r then r\<lparr>RS_Name := CR_Name rs, Thresholds := CR_Thresholds rs,
     Cooldown := CR_CooldownSeconds rs * 1000000000, ScoringInterval := CR_ScoringIntervalSeconds rs * 1000000000\<rparr> else r"
  have db': "snd (InsertScoringRulesetVersion i org rs db) = db\<lparr>rulesets := map ?f (rulesets db)\<rparr>"
    using Some by (simp add: InsertScoringRulesetVersion_def Let_def)
  have "statuses_ok (map ?f (rulesets db))"
    using ok by (intro statuses_ok_map) (simp_all add: scoring_ok_def)
  with ok m show ?thesis unfolding db'
    by (auto simp: scoring_ok_def one_active_def thresholds_ok_def GetScoringSettings_def is_draft_of_def)
qed

lemma InsertRules_ok:
  assumes "scoring_ok db" "InsertScoringRulesetVersionRule i rules db = Inr (rules', db')"
  shows "scoring_ok db'"
proof -
  let ?f = "\<lambda>r. if RS_Id r = i then r\<lparr>RS_Rules := rules\<rparr> else r"
  have db': "db' = db\<lparr>rulesets := map ?f (rulesets db)\<rparr>"
    using assms(2) by (auto simp: InsertScoringRulesetVersionRule_def split: if_splits)
  have "statuses_ok (map ?f (rulesets db))" using assms(1) by (intro statuses_ok_map) (simp_all add: scoring_ok_def)
  with assms(1) show ?thesis unfolding db'
    by (auto simp: scoring_ok_def one_active_def thresholds_ok_def GetScoringSettings_def)
qed

lemma Commit_ok:
  assumes "scoring_ok db"
  shows "scoring_ok (snd (sdb_CommitRuleset r db))"
proof -
  let ?f = "\<lambda>x. if RS_OrgId x = RS_OrgId r \<and> RS_Id x = RS_Id r then x\<lparr>RS_Status := ScoreRulesetCommitted\<rparr> else x"
  have "statuses_ok (map ?f (rulesets db))" using assms by (intro statuses_ok_map) (simp_all add: scoring_ok_def)
  with assms show ?thesis
    by (auto simp: sdb_CommitRuleset_def scoring_ok_def one_active_def thresholds_ok_def GetScoringSettings_def)
qed

lemma CreateRulesetVersion_ok:
  assumes "CreateRulesetVersion E creds i ids rt req db = Some (answer, db')" "scoring_ok db"
    and fresh: "i \<notin> RS_Id ` set (rulesets db)"
  shows "scoring_ok db'"
proof (cases "db' = db")
  case False
  let ?org = "Cred_OrganizationId creds"
  let ?old = "case GetScoringRuleset ?org rt ScoreRulesetCommitted 0 db of Inl _ \<Rightarrow> None | Inr r \<Rightarrow> Some r"
  let ?rs = "\<lparr>CR_Version = (case ?old of None \<Rightarrow> 0 | Some r \<Rightarrow> RS_Version r) + 1,
      CR_Name = CRQ_Name req, CR_RecordType = rt, CR_Thresholds = CRQ_Thresholds req,
      CR_CooldownSeconds = CRQ_CooldownSeconds req, CR_ScoringIntervalSeconds = CRQ_ScoringIntervalSeconds req\<rparr>"
  from assms(1) False obtain m nodes v where m: "GetScoringSettings ?org db = Some m"
    "int (length (CRQ_Thresholds req)) = m - 1"
    and t: "create_transaction i ids ?org rt req nodes ?old db = Inr (v, db')"
    by (auto simp: CreateRulesetVersion_def Transaction_def Let_def split: sum.splits option.splits if_splits)
  define tx1 where "tx1 = snd (InsertScoringRulesetVersion i ?org ?rs db)"
  have "scoring_ok tx1" unfolding tx1_def
  proof (rule InsertVersion_ok [OF assms(2) fresh m(1)])
    show "\<forall>r\<in>set (rulesets db). RS_OrgId r = ?org \<and> RS_RecordType r = CR_RecordType ?rs
       \<and> RS_Status r = ScoreRulesetCommitted \<longrightarrow> RS_Version r < CR_Version ?rs"
      by (auto split: sum.splits dest: GetScoringRuleset_none GetScoringRuleset_committed(5))
  qed (use m in simp)
  moreover from t obtain rules tx2 j rules' where
    "tx2 = tx1 \<or> (\<exists>k. tx2 = CancelRulesetDryRun k tx1)" "InsertScoringRulesetVersionRule j rules tx2 = Inr (rules', db')"
    by (auto simp: create_transaction_def Let_def tx1_def case_prod_beta split: sum.splits option.splits if_splits; blast)
  ultimately show ?thesis using InsertRules_ok scoring_ok_no_scores CancelRulesetDryRun_frame by blast
qed (use assms(2) in simp)

lemma StartDryRun_frame: "StartDryRun E creds i rt db = (answer, db') \<Longrightarrow> no_scores db db'"
  by (auto simp: StartDryRun_def Transaction_def Let_def InsertRulesetDryRun_def CancelRulesetDryRun_def
      no_scores_def frame_def split: sum.splits option.splits)

lemma PrepareRuleset_frame: "PrepareRuleset E creds rt db = (answer, db') \<Longrightarrow> no_scores db db'"
  by (auto simp: PrepareRuleset_def Transaction_def Let_def no_scores_def frame_def
      split: sum.splits option.splits if_splits)

lemma cache_set_frame [simp]: "no_scores db (cache_set E now org rt v db)"
  by (simp add: cache_set_def no_scores_def frame_def)

lemma GetRuleset_frame: "GetRuleset E creds now rt st v db = (answer, db') \<Longrightarrow> no_scores db db'"
  by (auto simp: GetRuleset_def Let_def split: sum.splits option.splits if_splits)

lemma Exists_frame: "no_scores db (snd (CommittedRulesetExists E now org rt db))"
  by (simp add: CommittedRulesetExists_def Let_def split: option.splits)

lemma enqueue_pivot_frame: "enqueue_pivot E now org dm d db = Some (Inr db') \<Longrightarrow> no_scores db db'"
  using no_scores_trans [OF Exists_frame enqueue_score_frame] Exists_frame
  by (fastforce simp: enqueue_pivot_def case_prod_beta split: option.splits sum.splits if_splits)

lemma enqueue_decisions_frame: "enqueue_decisions E now org dm ds db = Some (Inr db') \<Longrightarrow> no_scores db db'"
proof (induction ds arbitrary: db)
  case (Cons d ds)
  let ?ex = "CommittedRulesetExists E now org (TableName (SD_ClientObject d)) db"
  from Cons.prems obtain db2 db3 where
    1: "db2 = snd ?ex \<or> (\<exists>record. enqueue_score E record (snd ?ex) = Inr db2)" and
    2: "enqueue_pivot E now org dm d db2 = Some (Inr db3)" and
    3: "enqueue_decisions E now org dm ds db3 = Some (Inr db')"
    by (auto simp: Let_def case_prod_beta split: option.splits sum.splits if_splits val.splits)
  from 1 have "no_scores db db2" using no_scores_trans [OF Exists_frame enqueue_score_frame] Exists_frame by blast
  with enqueue_pivot_frame [OF 2] Cons.IH [OF 3] show ?case using no_scores_trans by blast
qed simp

lemma enqueue_all_frame: "enqueue_all E records db = Inr db' \<Longrightarrow> no_scores db db'"
proof (induction records arbitrary: db)
  case (Cons r rs)
  then obtain db1 where "enqueue_score E r db = Inr db1" "enqueue_all E rs db1 = Inr db'" by (auto split: sum.splits)
  with Cons.IH enqueue_score_frame no_scores_trans show ?case by blast
qed simp

lemma Ingestion_frame: "EnqueueComputationForIngestion E now org rt ids db = (answer, db') \<Longrightarrow> no_scores db db'"
  using no_scores_trans [OF Exists_frame enqueue_all_frame] Exists_frame
  by (fastforce simp: EnqueueComputationForIngestion_def Transaction_def Let_def case_prod_beta
      split: if_splits sum.splits)

lemma CommitRuleset_ok:
  assumes "CommitRuleset E creds now rt db = (answer, db')" "scoring_ok db"
  shows "scoring_ok db'"
proof -
  have commit: "scoring_ok (snd (sdb_CommitRuleset draft (CancelRulesetDryRun (RS_Id draft) db)))" for draft
    using Commit_ok scoring_ok_no_scores [OF assms(2) CancelRulesetDryRun_frame] by blast
  have cached: "scoring_ok x \<Longrightarrow> scoring_ok (cache_set E now org rt True x)" for x org
    using scoring_ok_no_scores [OF _ cache_set_frame] by blast
  show ?thesis
  proof (cases "db' = db")
    case False
    with assms(1) obtain draft where
      "db' = cache_set E now (Cred_OrganizationId creds) rt True (snd (sdb_CommitRuleset draft (CancelRulesetDryRun (RS_Id draft) db)))"
      by (auto simp: CommitRuleset_def Transaction_def Let_def split: sum.splits option.splits prod.splits)
        (metis snd_conv)
    with cached [OF commit] show ?thesis by simp
  qed (use assms(2) in simp)
qed

lemma UpdateSettings_ok:
  assumes "UpdateSettings creds m db = (answer, db')" "scoring_ok db"
  shows "scoring_ok db'"
proof (cases "db' = db")
  case False
  let ?org = "Cred_OrganizationId creds"
  from assms(1) False have db': "db' = UpdateScoringSettings ?org m db"
    and ok: "\<not> (case GetScoringSettings ?org db of None \<Rightarrow> False
       | Some existing \<Rightarrow> ListScoringRulesets ?org db \<noteq> [] \<and> existing \<noteq> m)"
    by (auto simp: UpdateSettings_def Let_def split: option.splits if_splits)
  have latest: "ListScoringRulesets ?org db \<noteq> []" if r: "r \<in> set (rulesets db)" "RS_OrgId r = ?org" for r
  proof -
    let ?same = "{x \<in> set (rulesets db). same_type x r}"
    have "Max (RS_Version ` ?same) \<in> RS_Version ` ?same" using r by (intro Max_in) auto
    then obtain x where x: "x \<in> ?same" "RS_Version x = Max (RS_Version ` ?same)" by auto
    then have "\<forall>y\<in>?same. RS_Version y \<le> RS_Version x" by simp
    with r(2) x(1) have "x \<in> set (ListScoringRulesets ?org db)" by (auto simp: ListScoringRulesets_def list_all_iff)
    then show ?thesis by auto
  qed
  have "thresholds_ok db'" unfolding thresholds_ok_def
  proof
    fix r assume r: "r \<in> set (rulesets db')"
    then have r': "r \<in> set (rulesets db)" by (simp add: db' UpdateScoringSettings_def)
    with assms(2) obtain k where k: "GetScoringSettings (RS_OrgId r) db = Some k" "int (length (Thresholds r)) = k - 1"
      by (auto simp: scoring_ok_def thresholds_ok_def)
    show "\<exists>k. GetScoringSettings (RS_OrgId r) db' = Some k \<and> int (length (Thresholds r)) = k - 1"
    proof (cases "RS_OrgId r = ?org")
      case True
      with ok k latest [OF r' True] have "k = m" by auto
      with True k show ?thesis by (simp add: db' UpdateScoringSettings_def GetScoringSettings_def update_conv)
    next
      case False
      with k show ?thesis by (simp add: db' UpdateScoringSettings_def GetScoringSettings_def update_conv)
    qed
  qed
  with assms(2) show ?thesis by (simp add: scoring_ok_def db' UpdateScoringSettings_def one_active_def)
qed (use assms(2) in simp)

lemma InsertEmptyScore_ok: "scoring_ok db \<Longrightarrow> scoring_ok (InsertEmptyScore i now req db)"
  by (rule scoring_ok_frame [of db], assumption, simp add: frame_def InsertEmptyScore_def)
    (rule one_active_InsertEmptyScore, simp add: scoring_ok_def)

lemma insert_page_ok: "scoring_ok db \<Longrightarrow> scoring_ok (insert_page ids now org ruleset page db)"
  unfolding insert_page_def by (induction page arbitrary: db) (simp_all add: InsertEmptyScore_ok)

lemma insert_pages_ok: "scoring_ok db \<Longrightarrow> scoring_ok (insert_pages ids now org ruleset objects wm db)"
proof (induction ids now org ruleset objects wm db rule: insert_pages.induct)
  case (1 ids now org ruleset objects wm db)
  then show ?case by (subst insert_pages.simps) (auto simp: Let_def insert_page_ok)
qed

lemma insert_rulesets_ok: "scoring_ok db \<Longrightarrow> scoring_ok (insert_rulesets ids now org objects rs db)"
proof (induction rs arbitrary: db)
  case (Cons r rs)
  have d: "scoring_ok x \<Longrightarrow> scoring_ok (x\<lparr>insertion_done := d\<rparr>)" for x d
    by (erule scoring_ok_no_scores) (simp add: no_scores_def frame_def)
  show ?case using Cons.prems by (auto simp: Let_def intro!: Cons.IH d insert_pages_ok)
qed simp

lemma InitialInsertion_ok:
  "InitialInsertion E ids now org objects db = (answer, db') \<Longrightarrow> scoring_ok db \<Longrightarrow> scoring_ok db'"
  by (auto simp: InitialInsertion_def insert_rulesets_ok split: sum.splits if_splits)

section \<open>All the requests\<close>

inductive scoring_step :: "'f scoring_db \<Rightarrow> 'f scoring_db \<Rightarrow> bool" where
  get_score: "GetActiveScore E creds i now record opts db = Some (r1, db') \<Longrightarrow> scoring_step db db'"
| override: "OverrideScore E parse creds i now req db = (r2, db') \<Longrightarrow> scoring_step db db'"
| triggered: "TriggeredScoreComputation E i now record db = Some (r3, db') \<Longrightarrow> scoring_step db db'"
| create: "CreateRulesetVersion E creds i ids rt creq db = Some (r4, db') \<Longrightarrow> i \<notin> RS_Id ` set (rulesets db) \<Longrightarrow>
    scoring_step db db'"
| prepare_ruleset: "PrepareRuleset E creds rt db = (r5, db') \<Longrightarrow> scoring_step db db'"
| dry_run: "StartDryRun E creds i rt db = (r6, db') \<Longrightarrow> scoring_step db db'"
| commit: "CommitRuleset E creds now rt db = (r7, db') \<Longrightarrow> scoring_step db db'"
| read_ruleset: "GetRuleset E creds now rt st v db = (r8, db') \<Longrightarrow> scoring_step db db'"
| update_settings: "UpdateSettings creds m db = (r9, db') \<Longrightarrow> scoring_step db db'"
| decisions: "EnqueueComputationForDecisions E now org ds db = Some (Inr db') \<Longrightarrow> scoring_step db db'"
| ingestion: "EnqueueComputationForIngestion E now org rt objectIds db = (r10, db') \<Longrightarrow> scoring_step db db'"
| insertion: "InitialInsertion E newId now org objects db = (r11, db') \<Longrightarrow> scoring_step db db'"

lemma scoring_step_ok: "scoring_step db db' \<Longrightarrow> scoring_ok db \<Longrightarrow> scoring_ok db'"
proof (induction rule: scoring_step.induct)
  case get_score
  then show ?case using GetActiveScore_effect scoring_ok_no_scores scoring_ok_refreshed by blast
next
  case override
  then show ?case using OverrideScore_effect scoring_ok_no_scores scoring_ok_insert by blast
next
  case triggered
  then show ?case using Triggered_effect scoring_ok_no_scores scoring_ok_refreshed by blast
next
  case decisions
  then show ?case
    by (auto simp: EnqueueComputationForDecisions_def split: sum.splits
        dest: enqueue_decisions_frame intro: scoring_ok_no_scores)
qed (auto intro: CreateRulesetVersion_ok CommitRuleset_ok UpdateSettings_ok InitialInsertion_ok
    dest: PrepareRuleset_frame StartDryRun_frame GetRuleset_frame Ingestion_frame scoring_ok_no_scores)

text \<open>The states reached from empty tables.\<close>

definition empty_scoring_db :: "'f scoring_db" where
  "empty_scoring_db = \<lparr>scores = [], rulesets = [], dry_runs = [], settings = [], cache = Map.empty, score_tasks = [],
     dry_run_tasks = [], index_tasks = [], webhook_events = [], insertion_done = []\<rparr>"

abbreviation scoring_reachable :: "'f scoring_db \<Rightarrow> bool" where
  "scoring_reachable \<equiv> scoring_step\<^sup>*\<^sup>* empty_scoring_db"

lemma scoring_reachable_ok: "scoring_reachable db \<Longrightarrow> scoring_ok db"
proof (induction rule: rtranclp_induct)
  case base
  show ?case by (simp add: empty_scoring_db_def scoring_ok_def one_active_def statuses_ok_def thresholds_ok_def)
next
  case (step db db')
  then show ?case using scoring_step_ok by blast
qed

end
