(* ===== verification/Scoring_Properties.thy ===== *)
theory Scoring_Properties
  imports Scoring_State
begin

text \<open>
  The properties of user scoring and of the formulas that its API exchanges, and what the refresh of a
  score and the cache of record types do not keep.
\<close>

section \<open>An example\<close>

definition score_table :: Table where
  "score_table = \<lparr>Table_ID = ''t1'', Table_Name = ''client'', Fields = [], LinksToSingle = []\<rparr>"

definition score_env :: "unit scoring_env" where
  "score_env = \<lparr>UserScoringAccess = (\<lambda>_. Inr Allowed),
     ReadDataModel = (\<lambda>_. Inr \<lparr>Tables = [(''client'', score_table)]\<rparr>),
     QueryIngestedObject = (\<lambda>_ _ _. Inr [Map.empty]), EvaluateIn = (\<lambda>_ _ _ _. None), InsertFails = (\<lambda>_. None),
     EnqueueFails = (\<lambda>_. None), CreateWebhookEvent = (\<lambda>_. None), OffloadScoreComputation = (\<lambda>_. None), RedisUp = True,
     ValidateScoringAst = (\<lambda>_ _ _. None), GetPivot = (\<lambda>_. Inl NotFoundError),
     IndexEnv = \<lparr>ToUpper = (\<lambda>s. s), Slice = sorted_list_of_set, ListAllValidIndexes = (\<lambda>_. Inr []),
       CountPendingIndexes = (\<lambda>_. Inr 0), GetOrganizationById = (\<lambda>_. Inr ()), SanctionsAccess = (\<lambda>_. Inr Allowed),
       IsConfigured = (\<lambda>_. Inr True), ValidateIteration = (\<lambda>_. None), EnqueueCreateIndexTask = (\<lambda>_ _. None)\<rparr>\<rparr>"

definition score_admin :: Credentials where
  "score_admin = \<lparr>ActorIdentity = \<lparr>Identity_UserId = [], Identity_Email = [], Identity_FirstName = [],
     Identity_LastName = [], Identity_ApiKeyId = [], Identity_ApiKeyName = []\<rparr>,
     Cred_OrganizationId = 7, Cred_Role = ADMIN\<rparr>"


definition score_draft :: "unit ScoringRuleset" where
  "score_draft = \<lparr>RS_Id = 3, RS_OrgId = 7, RS_Version = 1, RS_Status = ScoreRulesetDraft, RS_Name = ''n'',
     RS_RecordType = ''client'', Thresholds = [10, 20], Cooldown = 60000000000, ScoringInterval = 0, RS_Rules = []\<rparr>"

definition settings_db :: "unit scoring_db" where
  "settings_db = empty_scoring_db\<lparr>settings := [(7, 3)]\<rparr>"


definition committed_db :: "unit scoring_db" where
  "committed_db = settings_db\<lparr>rulesets := [score_draft\<lparr>RS_Status := ScoreRulesetCommitted\<rparr>],
     cache := [(7, ''client'') \<mapsto> (True, 3600000000000)]\<rparr>"


lemma score_admin_org [simp]: "Cred_OrganizationId score_admin = 7"
  by (simp add: score_admin_def)






section \<open>The state\<close>



section \<open>The risk level\<close>




section \<open>The active score\<close>







section \<open>What a refresh does not keep\<close>

text \<open>The webhook of a changed score is sent for the scores that the cooldown ignores, and only for them.\<close>

lemma refresh_webhook_inverted:
  "finish_refresh E req score db = Inr (answer, db') \<Longrightarrow>
     webhook_events db' = webhook_events db @ (if IgnoredByCooldown req then [score] else [])"
  by (auto simp: finish_refresh_def send_webhook_def split: sum.splits option.splits if_splits)

text \<open>The answer of a refresh that the cooldown ignores is the deleted score, not the active one.\<close>

lemma refresh_answers_ignored_score:
  assumes "IgnoredByCooldown req" "finish_refresh E req (fst (InsertScore i now req db)) db'' = Inr (answer, db')"
  shows "\<exists>s. answer = Some s \<and> DeletedAt s = Some now"
  using assms by (auto simp: finish_refresh_def InsertScore_def Let_def split: sum.splits option.splits)

text \<open>Looking for a draft that does not exist stops the scoring of the record type for an hour.\<close>

lemma draft_lookup_hides_ruleset:
  "let db = snd (GetRuleset score_env score_admin 1 ''client'' ScoreRulesetDraft 0 committed_db)
   in (\<exists>r. GetScoringRuleset 7 ''client'' ScoreRulesetCommitted 0 db = Inr r)
    \<and> fst (CommittedRulesetExists score_env 2 7 ''client'' db) = False"
  by (simp add: GetRuleset_def GetScoringRuleset_def committed_db_def score_draft_def cache_set_def
      score_env_def CommittedRulesetExists_def cache_get_def)

section \<open>Formulas in the API\<close>

text \<open>A formula that the API sends comes back as the same formula, without the indexes of its nodes.\<close>

theorem formula_dto_roundtrip:
  "AdaptNodeDto n = Inr d \<Longrightarrow> AdaptASTNode d = Inr (unindexed n)"
  by (rule AdaptASTNode_inverse)

theorem formula_dto_roundtrip_witness:
  "AdaptASTNode (NodeDto ''+'' VNil [NodeDto '''' (VBool True) [] []] [])
   = Inr (unindexed (Node 4 FUNC_ADD VNil [Node 5 FUNC_CONSTANT (VBool True) [] []] []) :: unit Node)"
  by (rule formula_dto_roundtrip) (simp add: adaptDtoFunctionName_def Attributes_def MapValuesErr_def)

end
