(* ===== verification/Case_Models.thy ===== *)
theory Case_Models
  imports Publication
begin

text \<open>
  Cases: the data (\<^verbatim>\<open>src/models/case.go\<close>, \<open>case_event.go\<close>), the tables that the requests on cases read and
  write, and their repositories (\<^verbatim>\<open>src/repositories/case_repository.go\<close>, \<open>case_event_repository.go\<close>,
  \<open>case_contributor_repository.go\<close>, \<open>case_mass_update_repository.go\<close>, \<open>case_and_decisions.go\<close>,
  \<open>decisions_repository.go\<close>, \<open>inboxes_repository.go\<close>), with the reader of inboxes
  (\<^verbatim>\<open>src/usecases/inboxes/inboxes.go\<close>).

  A status is a string, as in the code: an update may carry any string, and the table checks it. A
  time is a number of nanoseconds; \<open>now\<close> is the current one.
\<close>

section \<open>Data\<close>

type_synonym CaseStatus = string

definition CasePending :: CaseStatus where "CasePending = ''pending''"
definition CaseInvestigating :: CaseStatus where "CaseInvestigating = ''investigating''"
definition CaseClosed :: CaseStatus where "CaseClosed = ''closed''"

lemma case_statuses_differ [simp]:
  "CasePending \<noteq> CaseInvestigating" "CaseInvestigating \<noteq> CasePending" "CasePending \<noteq> CaseClosed"
  "CaseClosed \<noteq> CasePending" "CaseInvestigating \<noteq> CaseClosed" "CaseClosed \<noteq> CaseInvestigating"
  "CasePending \<noteq> []" "CaseInvestigating \<noteq> []" "CaseClosed \<noteq> []"
  by (simp_all add: CasePending_def CaseInvestigating_def CaseClosed_def)

definition CanTransition :: "CaseStatus \<Rightarrow> CaseStatus \<Rightarrow> bool" where
  "CanTransition s newStatus =
     (if s = newStatus then True
      else if s = CasePending then True
      else if s = CaseInvestigating then List.member [CaseClosed] newStatus
      else if s = CaseClosed then List.member [CaseInvestigating] newStatus
      else False)"

definition IsFinalized :: "CaseStatus \<Rightarrow> bool" where
  "IsFinalized s = (s = CaseClosed)"

datatype BoostReason = BoostUnboost | BoostUnsnoozed | BoostReassigned | BoostEscalated | BoostNewDecision

definition EnrichedStatus :: "int \<Rightarrow> CaseStatus \<Rightarrow> int option \<Rightarrow> BoostReason option \<Rightarrow> string" where
  "EnrichedStatus now s snoozedUntil bst =
     (if (s = CaseInvestigating \<or> s = CasePending) \<and> (case snoozedUntil of None \<Rightarrow> False | Some t \<Rightarrow> t > now)
      then ''snoozed''
      else if s = CaseInvestigating \<and> bst \<noteq> None then ''waiting_for_action''
      else s)"

definition CaseOutcomeUnset :: string where "CaseOutcomeUnset = ''unset''"

definition ValidCaseOutcomes :: "string list" where
  "ValidCaseOutcomes = [CaseOutcomeUnset, ''confirmed_risk'', ''valuable_alert'', ''false_positive'']"

datatype CaseType = CaseTypeUnknown | CaseTypeDecision | CaseTypeContinuousScreening

definition CaseType_String :: "CaseType \<Rightarrow> string" where
  "CaseType_String t = (case t of
     CaseTypeDecision \<Rightarrow> ''decision''
   | CaseTypeContinuousScreening \<Rightarrow> ''continuous_screening''
   | CaseTypeUnknown \<Rightarrow> ''unknown'')"

definition CaseTypeFromString :: "string \<Rightarrow> CaseType" where
  "CaseTypeFromString s =
     (if s = ''decision'' then CaseTypeDecision
      else if s = ''continuous_screening'' then CaseTypeContinuousScreening
      else CaseTypeUnknown)"

text \<open>\<open>CaseDecisions\<close> holds the identifiers of the decisions, when they were read with the case.\<close>

record Case = CaseMetadata +
  Case_Id :: string
  Case_CreatedAt :: int
  AssignedTo :: "string option"
  Case_Name :: string
  Case_Status :: CaseStatus
  Case_Outcome :: string
  SnoozedUntil :: "int option"
  Boost :: "BoostReason option"
  Case_Type :: CaseType
  ReviewLevel :: "string option"
  CaseDecisions :: "string list"

definition IsSnoozed :: "int \<Rightarrow> Case \<Rightarrow> bool" where
  "IsSnoozed now c = (case SnoozedUntil c of None \<Rightarrow> False | Some t \<Rightarrow> t > now)"

record CreateCaseAttributes = CaseMetadata +
  CC_DecisionIds :: "string list"
  CC_ContinuousScreeningIds :: "uuid list"
  CC_Name :: string
  CC_AssigneeId :: "string option"
  CC_Type :: CaseType

record UpdateCaseAttributes =
  UC_Id :: string
  UC_InboxId :: "uuid option"
  UC_Name :: string
  UC_Status :: CaseStatus
  UC_Outcome :: string
  UC_Boost :: BoostReason
  UC_ReviewLevel :: "string option"

text \<open>The update of nothing but the identifier.\<close>

definition no_update :: "string \<Rightarrow> UpdateCaseAttributes" where
  "no_update cid = \<lparr>UC_Id = cid, UC_InboxId = None, UC_Name = [], UC_Status = [], UC_Outcome = [], UC_Boost = BoostUnboost,
     UC_ReviewLevel = None\<rparr>"

datatype CaseEventType =
    CaseCommentAdded | CaseCreated | CaseFileAdded | CaseInboxChanged | CaseNameUpdated | CaseRuleSnoozeCreated
  | CaseStatusUpdated | CaseOutcomeUpdated | CaseTagsUpdated | CaseAssigned | SarCreated | SarDeleted | SarStatusChanged
  | SarFileUploaded | ScreeningReviewed | ScreeningMatchReviewed | DecisionAdded | DecisionReviewed | CaseSnoozed
  | CaseUnsnoozed | CaseEscalated | CaseEntityAnnotated | ContinuousScreeningAdded

datatype CaseEventResourceType =
    DecisionResourceType | ContinuousScreeningResourceType | ContinuousScreeningMatchResourceType | CaseTagResourceType
  | CaseFileResourceType | RuleSnoozeResourceType | SarResourceType | AnnotationResourceType

record CaseEvent =
  Ev_OrgId :: uuid
  Ev_CaseId :: string
  Ev_UserId :: "string option"
  Ev_Type :: CaseEventType
  Ev_Note :: "string option"
  Ev_ResourceId :: "string option"
  Ev_ResourceType :: "CaseEventResourceType option"
  Ev_NewValue :: "string option"
  Ev_PreviousValue :: "string option"

definition case_event :: "uuid \<Rightarrow> string \<Rightarrow> string option \<Rightarrow> CaseEventType \<Rightarrow> CaseEvent" where
  "case_event orgId caseId userId ty = \<lparr>Ev_OrgId = orgId, Ev_CaseId = caseId, Ev_UserId = userId, Ev_Type = ty,
     Ev_Note = None, Ev_ResourceId = None, Ev_ResourceType = None, Ev_NewValue = None, Ev_PreviousValue = None\<rparr>"

record CaseTag =
  CT_Id :: nat
  CT_CaseId :: string
  CT_TagId :: string
  CT_Deleted :: bool

record Tag = org_owned +
  Tag_Id :: string
  Tag_TargetsCases :: bool
  Tag_Deleted :: bool

record CaseInbox = Inbox +
  InboxActive :: bool
  EscalationInboxId :: "uuid option"
  AutoAssignEnabled :: bool
  CaseReviewOnCaseCreated :: bool
  CaseReviewOnEscalate :: bool

record case_decision = org_owned +
  D_Id :: string
  D_PivotValue :: "string option"
  D_CaseId :: "string option"
  D_ReviewStatus :: "string option"

definition ReviewStatusPending :: string where "ReviewStatusPending = ''pending''"

definition ValidReviewStatuses :: "string list" where
  "ValidReviewStatuses = [ReviewStatusPending, ''decline'', ''approve'']"

datatype ContinuousScreeningTriggerType = ContinuousScreeningTriggerTypeUnknown | ContinuousScreeningTriggerTypeObjectAdded
  | ContinuousScreeningTriggerTypeObjectUpdated | ContinuousScreeningTriggerTypeDatasetUpdated

text \<open>The payload is the JSON of the entity, empty when it is kept elsewhere.\<close>

record ContinuousScreening = org_owned +
  CS_Id :: uuid
  CS_CaseId :: "string option"
  CS_ObjectType :: "string option"
  CS_ObjectId :: "string option"
  CS_EntityId :: "string option"
  CS_EntityPayload :: string
  CS_Status :: ScreeningStatus
  CS_TriggerType :: ContinuousScreeningTriggerType
  CS_IsPartial :: bool
  CS_NumberOfMatches :: int

section \<open>The tables\<close>

text \<open>
  The last four hold what was sent: webhooks (type of the event, case), tasks of automatic assignment,
  tasks of review, and the decisions whose scores were asked for.
\<close>

record case_db =
  cases :: "Case list"
  decisions :: "case_decision list"
  screenings :: "ContinuousScreening list"
  case_tags :: "CaseTag list"
  tags :: "Tag list"
  contributors :: "(string \<times> string) list"
  case_events :: "CaseEvent list"
  inboxes :: "CaseInbox list"
  case_webhooks :: "(string \<times> string) list"
  assign_tasks :: "(uuid \<times> uuid) list"
  review_tasks :: "string list"
  score_requests :: "string list list"

definition find_case :: "string \<Rightarrow> case_db \<Rightarrow> Case option" where
  "find_case caseId db = List.find (\<lambda>c. Case_Id c = caseId) (cases db)"

definition on_case :: "string \<Rightarrow> (Case \<Rightarrow> Case) \<Rightarrow> case_db \<Rightarrow> case_db" where
  "on_case caseId f db = db\<lparr>cases := map (\<lambda>c. if Case_Id c = caseId then f c else c) (cases db)\<rparr>"

text \<open>The decisions of the case are not read.\<close>

definition GetCaseById :: "string \<Rightarrow> case_db \<Rightarrow> go_error + Case" where
  "GetCaseById caseId db = (case find_case caseId db of
     None \<Rightarrow> Inl NotFoundError | Some c \<Rightarrow> Inr (c\<lparr>CaseDecisions := []\<rparr>))"

definition cdb_CreateCase :: "string \<Rightarrow> int \<Rightarrow> CreateCaseAttributes \<Rightarrow> case_db \<Rightarrow> case_db" where
  "cdb_CreateCase newCaseId now a db = db\<lparr>cases := cases db @
     [\<lparr>OrganizationId = OrganizationId a, Case_InboxId = Case_InboxId a, Case_Id = newCaseId, Case_CreatedAt = now,
       AssignedTo = CC_AssigneeId a, Case_Name = CC_Name a, Case_Status = CasePending, Case_Outcome = CaseOutcomeUnset,
       SnoozedUntil = None, Boost = None, Case_Type = CaseTypeFromString (CaseType_String (CC_Type a)), ReviewLevel = None,
       CaseDecisions = []\<rparr>]\<rparr>"

text \<open>The checks of the table on statuses and outcomes.\<close>

definition case_checks :: "Case \<Rightarrow> bool" where
  "case_checks c \<longleftrightarrow> List.member [CasePending, CaseInvestigating, CaseClosed] (Case_Status c)
     \<and> List.member ValidCaseOutcomes (Case_Outcome c)"

definition apply_update :: "UpdateCaseAttributes \<Rightarrow> Case \<Rightarrow> Case" where
  "apply_update a c = c\<lparr>Case_InboxId := (case UC_InboxId a of None \<Rightarrow> Case_InboxId c | Some i \<Rightarrow> i),
     Case_Name := (if UC_Name a \<noteq> [] then UC_Name a else Case_Name c),
     Case_Status := (if UC_Status a \<noteq> [] then UC_Status a else Case_Status c),
     Case_Outcome := (if UC_Outcome a \<noteq> [] then UC_Outcome a else Case_Outcome c),
     Boost := (if UC_Boost a \<noteq> BoostUnboost then Some (UC_Boost a) else None),
     ReviewLevel := (case UC_ReviewLevel a of None \<Rightarrow> ReviewLevel c | Some l \<Rightarrow> Some l)\<rparr>"

definition cdb_UpdateCase :: "UpdateCaseAttributes \<Rightarrow> case_db \<Rightarrow> go_error + case_db" where
  "cdb_UpdateCase a db =
     (if list_all (\<lambda>c. case_checks (apply_update a c)) (filter (\<lambda>c. Case_Id c = UC_Id a) (cases db))
      then Inr (on_case (UC_Id a) (apply_update a) db)
      else Inl (ErrNew ''check constraint of the table cases''))"

definition BoostCase :: "string \<Rightarrow> BoostReason \<Rightarrow> case_db \<Rightarrow> go_error + case_db" where
  "BoostCase caseId reason db = cdb_UpdateCase ((no_update caseId)\<lparr>UC_Boost := reason\<rparr>) db"

definition UnboostCase :: "string \<Rightarrow> case_db \<Rightarrow> go_error + case_db" where
  "UnboostCase caseId db = cdb_UpdateCase ((no_update caseId)\<lparr>UC_Boost := BoostUnboost\<rparr>) db"

definition SnoozeCase :: "string \<Rightarrow> int \<Rightarrow> case_db \<Rightarrow> case_db" where
  "SnoozeCase caseId until db = on_case caseId (\<lambda>c. c\<lparr>SnoozedUntil := Some until\<rparr>) db"

definition UnsnoozeCase :: "string \<Rightarrow> case_db \<Rightarrow> case_db" where
  "UnsnoozeCase caseId db = on_case caseId (\<lambda>c. c\<lparr>SnoozedUntil := None, Boost := None\<rparr>) db"

definition cdb_AssignCase :: "string \<Rightarrow> string option \<Rightarrow> case_db \<Rightarrow> case_db" where
  "cdb_AssignCase caseId userId db = on_case caseId (\<lambda>c. c\<lparr>AssignedTo := userId\<rparr>) db"

definition cdb_UnassignCase :: "string \<Rightarrow> case_db \<Rightarrow> case_db" where
  "cdb_UnassignCase caseId db = cdb_AssignCase caseId None db"

definition cdb_EscalateCase :: "string \<Rightarrow> uuid \<Rightarrow> case_db \<Rightarrow> case_db" where
  "cdb_EscalateCase caseId inboxId db = on_case caseId (\<lambda>c. c\<lparr>Case_InboxId := inboxId, SnoozedUntil := None,
     AssignedTo := None, Boost := Some BoostEscalated\<rparr>) db"

section \<open>Tags, events, contributors\<close>

text \<open>A unique index refuses a second tag that is not deleted; the insertion then does nothing.\<close>

definition CreateCaseTag :: "string \<Rightarrow> string \<Rightarrow> case_db \<Rightarrow> case_db" where
  "CreateCaseTag caseId tagId db =
     (if list_ex (\<lambda>t. CT_CaseId t = caseId \<and> CT_TagId t = tagId \<and> \<not> CT_Deleted t) (case_tags db) then db
      else db\<lparr>case_tags := case_tags db @
        [\<lparr>CT_Id = length (case_tags db), CT_CaseId = caseId, CT_TagId = tagId, CT_Deleted = False\<rparr>]\<rparr>)"

definition ListCaseTagsByCaseId :: "string \<Rightarrow> case_db \<Rightarrow> CaseTag list" where
  "ListCaseTagsByCaseId caseId db = filter (\<lambda>t. CT_CaseId t = caseId \<and> \<not> CT_Deleted t) (case_tags db)"

definition SoftDeleteCaseTag :: "nat \<Rightarrow> case_db \<Rightarrow> case_db" where
  "SoftDeleteCaseTag i db = db\<lparr>case_tags := map (\<lambda>t. if CT_Id t = i then t\<lparr>CT_Deleted := True\<rparr> else t) (case_tags db)\<rparr>"

definition GetTagById :: "string \<Rightarrow> case_db \<Rightarrow> go_error + Tag" where
  "GetTagById tagId db = (case List.find (\<lambda>t. Tag_Id t = tagId) (tags db) of
     None \<Rightarrow> Inl NotFoundError | Some t \<Rightarrow> Inr t)"

text \<open>An empty user identifier is stored as no user.\<close>

definition BatchCreateCaseEvents :: "CaseEvent list \<Rightarrow> case_db \<Rightarrow> case_db" where
  "BatchCreateCaseEvents evs db = db\<lparr>case_events := case_events db @
     map (\<lambda>ev. ev\<lparr>Ev_UserId := (if Ev_UserId ev = Some [] then None else Ev_UserId ev)\<rparr>) evs\<rparr>"

definition CreateCaseEvent :: "CaseEvent \<Rightarrow> case_db \<Rightarrow> case_db" where
  "CreateCaseEvent ev db = BatchCreateCaseEvents [ev] db"

definition createCaseContributorIfNotExist :: "string \<Rightarrow> string \<Rightarrow> case_db \<Rightarrow> case_db" where
  "createCaseContributorIfNotExist caseId userId db =
     (if List.member (contributors db) (caseId, userId) then db
      else db\<lparr>contributors := contributors db @ [(caseId, userId)]\<rparr>)"

section \<open>Decisions and continuous screenings\<close>

definition DecisionsById :: "string list \<Rightarrow> case_db \<Rightarrow> case_decision list" where
  "DecisionsById decisionIds db = filter (\<lambda>d. List.member decisionIds (D_Id d)) (decisions db)"

definition DecisionsByCaseId :: "uuid \<Rightarrow> string \<Rightarrow> case_db \<Rightarrow> case_decision list" where
  "DecisionsByCaseId orgId caseId db =
     filter (\<lambda>d. OrganizationId d = orgId \<and> D_CaseId d = Some caseId) (decisions db)"

definition UpdateDecisionCaseId :: "string list \<Rightarrow> string \<Rightarrow> case_db \<Rightarrow> case_db" where
  "UpdateDecisionCaseId decisionIds caseId db = db\<lparr>decisions := map (\<lambda>d.
     if List.member decisionIds (D_Id d) then d\<lparr>D_CaseId := Some caseId\<rparr> else d) (decisions db)\<rparr>"

definition ReviewDecision :: "string \<Rightarrow> string \<Rightarrow> case_db \<Rightarrow> case_db" where
  "ReviewDecision decisionId reviewStatus db = db\<lparr>decisions := map (\<lambda>d.
     if D_Id d = decisionId then d\<lparr>D_ReviewStatus := Some reviewStatus\<rparr> else d) (decisions db)\<rparr>"

definition ListContinuousScreeningsByIds :: "uuid list \<Rightarrow> case_db \<Rightarrow> ContinuousScreening list" where
  "ListContinuousScreeningsByIds ids db = filter (\<lambda>s. List.member ids (CS_Id s)) (screenings db)"

definition UpdateContinuousScreeningsCaseId :: "uuid list \<Rightarrow> string \<Rightarrow> case_db \<Rightarrow> case_db" where
  "UpdateContinuousScreeningsCaseId ids caseId db = db\<lparr>screenings := map (\<lambda>s.
     if List.member ids (CS_Id s) then s\<lparr>CS_CaseId := Some caseId\<rparr> else s) (screenings db)\<rparr>"

text \<open>The cases that a decision on the pivot can join; the order of their list is not specified.\<close>

definition SelectCasesWithPivot :: "uuid \<Rightarrow> string \<Rightarrow> uuid option \<Rightarrow> case_db \<Rightarrow> Case list" where
  "SelectCasesWithPivot orgId pivotValue inboxId db = filter (\<lambda>c. OrganizationId c = orgId
     \<and> (Case_Status c = CasePending \<or> Case_Status c = CaseInvestigating)
     \<and> (case inboxId of None \<Rightarrow> True | Some i \<Rightarrow> Case_InboxId c = i)
     \<and> list_ex (\<lambda>d. OrganizationId d = orgId \<and> D_PivotValue d = Some pivotValue \<and> D_CaseId d = Some (Case_Id c))
         (decisions db)) (cases db)"

text \<open>The number of distinct pivot values of the decisions of a case.\<close>

definition CountDecisionsByCaseId :: "uuid \<Rightarrow> string \<Rightarrow> case_db \<Rightarrow> nat" where
  "CountDecisionsByCaseId orgId caseId db =
     length (remdups (List.map_filter D_PivotValue (DecisionsByCaseId orgId caseId db)))"

section \<open>Mass updates\<close>

text \<open>The rows that the update changes, and their identifiers.\<close>

definition mass_update :: "(Case \<Rightarrow> bool) \<Rightarrow> (Case \<Rightarrow> Case) \<Rightarrow> case_db \<Rightarrow> string list \<times> case_db" where
  "mass_update hit f db = (map Case_Id (filter hit (cases db)),
     db\<lparr>cases := map (\<lambda>c. if hit c then f c else c) (cases db)\<rparr>)"

definition GetMassCasesByIds :: "string list \<Rightarrow> case_db \<Rightarrow> Case list" where
  "GetMassCasesByIds caseIds db = filter (\<lambda>c. List.member caseIds (Case_Id c)) (cases db)"

definition CaseMassChangeStatus :: "string list \<Rightarrow> CaseStatus \<Rightarrow> case_db \<Rightarrow> string list \<times> case_db" where
  "CaseMassChangeStatus caseIds status db = mass_update
     (\<lambda>c. List.member caseIds (Case_Id c) \<and> Case_Status c \<noteq> status) (\<lambda>c. c\<lparr>Case_Status := status, Boost := None\<rparr>) db"

definition CaseMassAssign :: "string list \<Rightarrow> string \<Rightarrow> case_db \<Rightarrow> string list \<times> case_db" where
  "CaseMassAssign caseIds assigneeId db = mass_update
     (\<lambda>c. List.member caseIds (Case_Id c) \<and> AssignedTo c \<noteq> Some assigneeId)
     (\<lambda>c. c\<lparr>AssignedTo := Some assigneeId, Boost := None\<rparr>) db"

definition CaseMassMoveToInbox :: "string list \<Rightarrow> uuid \<Rightarrow> case_db \<Rightarrow> string list \<times> case_db" where
  "CaseMassMoveToInbox caseIds inboxId db = mass_update
     (\<lambda>c. List.member caseIds (Case_Id c) \<and> Case_InboxId c \<noteq> inboxId)
     (\<lambda>c. c\<lparr>Case_InboxId := inboxId, Boost := None\<rparr>) db"

section \<open>Inboxes\<close>

definition db_GetInboxById :: "uuid \<Rightarrow> case_db \<Rightarrow> go_error + CaseInbox" where
  "db_GetInboxById inboxId db = (case List.find (\<lambda>i. Inbox_Id i = inboxId) (inboxes db) of
     None \<Rightarrow> Inl NotFoundError | Some i \<Rightarrow> Inr i)"

definition db_ListInboxes :: "uuid \<Rightarrow> uuid list \<Rightarrow> case_db \<Rightarrow> CaseInbox list" where
  "db_ListInboxes organizationId inboxIds db = filter (\<lambda>i. InboxActive i \<and> OrganizationId i = organizationId
     \<and> (inboxIds = [] \<or> List.member inboxIds (Inbox_Id i))) (inboxes db)"

text \<open>The reader of inboxes checks each inbox that it answers.\<close>

definition GetInboxById :: "(uuid \<Rightarrow> string) \<Rightarrow> Credentials \<Rightarrow> uuid \<Rightarrow> case_db \<Rightarrow> go_error + CaseInbox" where
  "GetInboxById uuid_str creds inboxId db = (case db_GetInboxById inboxId db of
     Inl err \<Rightarrow> Inl err
   | Inr inbox \<Rightarrow> (case ReadInbox uuid_str creds (Inbox.truncate inbox) of
       Some err \<Rightarrow> Inl err | None \<Rightarrow> Inr inbox))"

definition GetAutoAssignmentEnabled :: "uuid \<Rightarrow> case_db \<Rightarrow> go_error + bool" where
  "GetAutoAssignmentEnabled inboxId db = (case db_GetInboxById inboxId db of
     Inl err \<Rightarrow> Inl err | Inr inbox \<Rightarrow> Inr (AutoAssignEnabled inbox))"

definition GetEscalationInboxMetadata :: "Credentials \<Rightarrow> uuid \<Rightarrow> case_db \<Rightarrow> go_error + CaseInbox" where
  "GetEscalationInboxMetadata creds inboxId db = (case db_GetInboxById inboxId db of
     Inl err \<Rightarrow> Inl err
   | Inr inbox \<Rightarrow> (case ReadInboxMetadata creds (Inbox.truncate inbox) of
       Some err \<Rightarrow> Inl err | None \<Rightarrow> Inr inbox))"

definition isAdminHasAccessToAllInboxes :: "Credentials \<Rightarrow> bool" where
  "isAdminHasAccessToAllInboxes creds \<longleftrightarrow>
     Cred_Role creds = ADMIN \<or> Cred_Role creds = MARBLE_ADMIN \<or> Cred_Role creds = API_CLIENT"

definition getAvailableInboxes :: "(uuid \<Rightarrow> string) \<Rightarrow> Credentials \<Rightarrow> case_db \<Rightarrow> uuid list" where
  "getAvailableInboxes uuid_str creds db = map InboxUser_InboxId
     (filter (\<lambda>u. uuid_str (InboxUser_UserId u) = Identity_UserId (ActorIdentity creds))
       (concat (map Inbox_InboxUsers (inboxes db))))"

definition ListInboxes :: "(uuid \<Rightarrow> string) \<Rightarrow> Credentials \<Rightarrow> uuid \<Rightarrow> case_db \<Rightarrow> go_error + CaseInbox list" where
  "ListInboxes uuid_str creds organizationId db =
     (let checked = (\<lambda>found. case some_errors (map (\<lambda>i. ReadInbox uuid_str creds (Inbox.truncate i)) found) of
            err # _ \<Rightarrow> Inl err | [] \<Rightarrow> Inr found)
      in if isAdminHasAccessToAllInboxes creds then checked (db_ListInboxes organizationId [] db)
         else (let availableInboxIds = getAvailableInboxes uuid_str creds db
           in if availableInboxIds = [] then Inr []
              else checked (db_ListInboxes organizationId availableInboxIds db)))"

definition getAvailableInboxIds :: "(uuid \<Rightarrow> string) \<Rightarrow> Credentials \<Rightarrow> uuid \<Rightarrow> case_db \<Rightarrow> go_error + uuid list" where
  "getAvailableInboxIds uuid_str creds organizationId db = (case ListInboxes uuid_str creds organizationId db of
     Inl err \<Rightarrow> Inl (ErrWrap err ''failed to list available inboxes in usecase'')
   | Inr found \<Rightarrow> Inr (map Inbox_Id found))"

end
