(* ===== verification/Case_Editing.thy ===== *)
theory Case_Editing
  imports Case_Models
begin

text \<open>
  The requests on cases (\<^verbatim>\<open>src/usecases/case_usecase.go\<close>): creation, update, snooze, assignment, decisions,
  comments, tags, review, escalation and mass updates, each in its transaction over the tables.

  Credentials, feature access, users, and the failures of webhooks and of the task queue are the
  environment. The files, the events and the due date of the case that is answered are left out, as is
  the hydration of continuous screenings from the offloaded storage.
\<close>

record case_env =
  CaseCreds :: Credentials
  UuidStr :: "uuid \<Rightarrow> string"
  AutoAssignAccess :: "uuid \<Rightarrow> go_error + FeatureAccess"
  AiAssistAccess :: "uuid \<Rightarrow> go_error + FeatureAccess"
  ScoringAccess :: "uuid \<Rightarrow> go_error + FeatureAccess"
  ReadUserById :: "string \<Rightarrow> go_error + User"
  WebhookFails :: "string \<Rightarrow> string \<Rightarrow> go_error option"
  AssignTaskFails :: "uuid \<Rightarrow> uuid \<Rightarrow> go_error option"
  ReviewTaskFails :: "string \<Rightarrow> go_error option"

abbreviation available :: "case_env \<Rightarrow> uuid \<Rightarrow> case_db \<Rightarrow> go_error + uuid list" where
  "available E \<equiv> getAvailableInboxIds (UuidStr E) (CaseCreds E)"

definition getCaseWithDetails :: "case_env \<Rightarrow> string \<Rightarrow> case_db \<Rightarrow> go_error + Case" where
  "getCaseWithDetails E caseId db = attempt (GetCaseById caseId db) (\<lambda>c.
     if Case_Type c = CaseTypeUnknown then Inl (ErrNew ''case type is not supported'')
     else attempt (wrapped (GetInboxById (UuidStr E) (CaseCreds E) (Case_InboxId c) db) ''could not fetch inbox for SLA calculation'')
       (\<lambda>inbox. Inr (c\<lparr>CaseDecisions := (if Case_Type c = CaseTypeDecision
          then map D_Id (DecisionsByCaseId (OrganizationId c) caseId db) else [])\<rparr>)))"

definition send_case_webhook :: "case_env \<Rightarrow> string \<Rightarrow> string \<Rightarrow> case_db \<Rightarrow> go_error + case_db" where
  "send_case_webhook E ty caseId db = (case WebhookFails E ty caseId of
     Some err \<Rightarrow> Inl err
   | None \<Rightarrow> Inr (db\<lparr>case_webhooks := case_webhooks db @ [(ty, caseId)]\<rparr>))"

section \<open>Side effects of an action\<close>

definition SelfAssignOnAction :: "uuid \<Rightarrow> string \<Rightarrow> string \<Rightarrow> case_db \<Rightarrow> case_db" where
  "SelfAssignOnAction orgId caseId userId db =
     CreateCaseEvent ((case_event orgId caseId (Some userId) CaseAssigned)\<lparr>Ev_NewValue := Some userId\<rparr>)
       (cdb_AssignCase caseId (Some userId) db)"

definition performCaseActionSideEffectsWithoutStatusChange :: "case_env \<Rightarrow> Case \<Rightarrow> case_db \<Rightarrow> go_error + case_db" where
  "performCaseActionSideEffectsWithoutStatusChange E c db =
     (let userId = sec_UserId (CaseCreds E);
          assigned = (case userId of
            Some u \<Rightarrow> if AssignedTo c = None then SelfAssignOnAction (OrganizationId c) (Case_Id c) u db else db
          | None \<Rightarrow> db)
      in attempt (UnboostCase (Case_Id c) assigned) (\<lambda>unboosted. Inr (case userId of
           Some u \<Rightarrow> createCaseContributorIfNotExist (Case_Id c) u unboosted
         | None \<Rightarrow> unboosted)))"

definition PerformCaseActionSideEffects :: "case_env \<Rightarrow> Case \<Rightarrow> case_db \<Rightarrow> go_error + case_db" where
  "PerformCaseActionSideEffects E c db =
     attempt (if Case_Status c = CasePending then cdb_UpdateCase ((no_update (Case_Id c))\<lparr>UC_Status := CaseInvestigating\<rparr>) db
              else Inr db)
       (performCaseActionSideEffectsWithoutStatusChange E c)"

definition triggerAutoAssignment :: "case_env \<Rightarrow> uuid \<Rightarrow> uuid \<Rightarrow> case_db \<Rightarrow> go_error + case_db" where
  "triggerAutoAssignment E orgId inboxId db =
     attempt (wrapped (AutoAssignAccess E orgId) ''could not check feature access'') (\<lambda>features.
       if IsAllowed features then
         attempt (wrapped (GetAutoAssignmentEnabled inboxId db) ''could not read inbox'') (\<lambda>enabled.
           if enabled then (case AssignTaskFails E orgId inboxId of
               Some err \<Rightarrow> Inl (ErrWrap err ''could not enqueue auto-assignment job'')
             | None \<Rightarrow> Inr (db\<lparr>assign_tasks := assign_tasks db @ [(orgId, inboxId)]\<rparr>))
           else Inr db)
       else Inr db)"

section \<open>Decisions and continuous screenings of a case\<close>

definition first_error :: "go_error option list \<Rightarrow> go_error option" where
  "first_error es = (case some_errors es of [] \<Rightarrow> None | err # _ \<Rightarrow> Some err)"

definition validateDecisions :: "uuid \<Rightarrow> string list \<Rightarrow> case_db \<Rightarrow> go_error option" where
  "validateDecisions orgId decisionIds db =
     (if decisionIds = [] then None
      else (let found = DecisionsById decisionIds db in
        case first_error (map (\<lambda>d.
               if OrganizationId d \<noteq> orgId
                 then Some (ErrWrap ForbiddenError ''provided decision does not belong to the organization'')
               else if D_CaseId d \<noteq> None \<and> D_CaseId d \<noteq> Some []
                 then Some (ErrWrap BadParameterError ''decision already belongs to a case'')
               else None) found) of
          Some err \<Rightarrow> Some err
        | None \<Rightarrow> if length decisionIds \<noteq> length found then Some (ErrWrap NotFoundError ''unknown decision'') else None))"

definition validateContinuousScreenings :: "uuid \<Rightarrow> uuid list \<Rightarrow> case_db \<Rightarrow> go_error option" where
  "validateContinuousScreenings orgId ids db =
     (if ids = [] then None
      else first_error (map (\<lambda>s.
          if OrganizationId s \<noteq> orgId then Some (ErrWrap NotFoundError ''provided continuous screening not found'')
          else if CS_CaseId s \<noteq> None then Some (ErrWrap BadParameterError ''continuous screening already belongs to a case'')
          else None) (ListContinuousScreeningsByIds ids db)))"

definition UpdateDecisionsWithEvents :: "uuid \<Rightarrow> string \<Rightarrow> string \<Rightarrow> string list \<Rightarrow> case_db \<Rightarrow> case_db" where
  "UpdateDecisionsWithEvents orgId caseId userId decisionIdsToAdd db =
     (if decisionIdsToAdd = [] then db
      else BatchCreateCaseEvents (map (\<lambda>d. (case_event orgId caseId (Some userId) DecisionAdded)
               \<lparr>Ev_ResourceId := Some d, Ev_ResourceType := Some DecisionResourceType\<rparr>) decisionIdsToAdd)
             (UnsnoozeCase caseId (UpdateDecisionCaseId decisionIdsToAdd caseId db)))"

definition updateContinuousScreeningsWithEvents ::
    "(uuid \<Rightarrow> string) \<Rightarrow> uuid \<Rightarrow> string \<Rightarrow> string \<Rightarrow> uuid list \<Rightarrow> case_db \<Rightarrow> case_db" where
  "updateContinuousScreeningsWithEvents uuid_str orgId caseId userId idsToAdd db =
     (if idsToAdd = [] then db
      else BatchCreateCaseEvents (map (\<lambda>i. (case_event orgId caseId (Some userId) ContinuousScreeningAdded)
               \<lparr>Ev_ResourceId := Some (uuid_str i), Ev_ResourceType := Some ContinuousScreeningResourceType\<rparr>) idsToAdd)
             (UnsnoozeCase caseId (UpdateContinuousScreeningsCaseId idsToAdd caseId db)))"

section \<open>Creation\<close>

definition creation_events :: "bool \<Rightarrow> uuid \<Rightarrow> string \<Rightarrow> string \<Rightarrow> case_db \<Rightarrow> case_db" where
  "creation_events fromEndUser orgId caseId userId db =
     (if fromEndUser then createCaseContributorIfNotExist caseId userId
        (CreateCaseEvent ((case_event orgId caseId (Some userId) CaseAssigned)\<lparr>Ev_NewValue := Some userId\<rparr>)
          (CreateCaseEvent (case_event orgId caseId (Some userId) CaseCreated) db))
      else CreateCaseEvent (case_event orgId caseId None CaseCreated) db)"

definition CreateCase ::
    "case_env \<Rightarrow> string \<Rightarrow> int \<Rightarrow> string \<Rightarrow> CreateCaseAttributes \<Rightarrow> bool \<Rightarrow> case_db \<Rightarrow> go_error + Case \<times> case_db" where
  "CreateCase E newCaseId now userId a fromEndUser tx =
     (let orgId = OrganizationId a in
      check (validateDecisions orgId (CC_DecisionIds a) tx) (
      check (validateContinuousScreenings orgId (CC_ContinuousScreeningIds a) tx) (
      attempt (wrapped (triggerAutoAssignment E orgId (Case_InboxId a) (cdb_CreateCase newCaseId now a tx))
          ''could not trigger auto-assignment'') (\<lambda>tx1.
        let tx2 = updateContinuousScreeningsWithEvents (UuidStr E) orgId newCaseId userId (CC_ContinuousScreeningIds a)
              (UpdateDecisionsWithEvents orgId newCaseId userId (CC_DecisionIds a)
                (creation_events fromEndUser orgId newCaseId userId tx1))
        in attempt (getCaseWithDetails E newCaseId tx2) (\<lambda>c. Inr (c, tx2))))))"

definition creation_transaction ::
    "case_env \<Rightarrow> string \<Rightarrow> int \<Rightarrow> uuid \<Rightarrow> string \<Rightarrow> CreateCaseAttributes \<Rightarrow> bool \<Rightarrow> case_db \<Rightarrow> go_error + Case \<times> case_db" where
  "creation_transaction E newCaseId now organizationId userId a fromEndUser tx =
     attempt (available E organizationId tx) (\<lambda>availableInboxIds.
     check (sec_CreateCase (CaseCreds E) a availableInboxIds) (
     attempt (CreateCase E newCaseId now userId a fromEndUser tx) (\<lambda>(newCase, tx1).
     attempt (send_case_webhook E ''case.created_manually'' (Case_Id newCase) tx1) (\<lambda>tx2. Inr (newCase, tx2)))))"

definition CreateCaseAsUser ::
    "case_env \<Rightarrow> string \<Rightarrow> int \<Rightarrow> uuid \<Rightarrow> string \<Rightarrow> CreateCaseAttributes \<Rightarrow> case_db \<Rightarrow> (go_error + Case) \<times> case_db" where
  "CreateCaseAsUser E newCaseId now organizationId userId a db =
     Transaction (creation_transaction E newCaseId now organizationId userId a True) db"

definition CreateCaseAsApiClient ::
    "case_env \<Rightarrow> string \<Rightarrow> int \<Rightarrow> uuid \<Rightarrow> CreateCaseAttributes \<Rightarrow> case_db \<Rightarrow> (go_error + Case) \<times> case_db" where
  "CreateCaseAsApiClient E newCaseId now orgId a db =
     Transaction (creation_transaction E newCaseId now orgId [] a False) db"

section \<open>Update\<close>

definition isIdenticalCaseUpdate :: "UpdateCaseAttributes \<Rightarrow> Case \<Rightarrow> bool" where
  "isIdenticalCaseUpdate a c \<longleftrightarrow>
     (UC_Name a = [] \<or> UC_Name a = Case_Name c)
   \<and> (UC_Status a = [] \<or> UC_Status a = Case_Status c)
   \<and> (UC_InboxId a = None \<or> UC_InboxId a = Some (Case_InboxId c))
   \<and> (UC_Outcome a = [] \<or> UC_Outcome a = Case_Outcome c)"

text \<open>The events of the fields that change, in the order of the code.\<close>

definition update_events :: "(uuid \<Rightarrow> string) \<Rightarrow> UpdateCaseAttributes \<Rightarrow> Case \<Rightarrow> string \<Rightarrow> CaseEvent list" where
  "update_events uuid_str a oldCase userId =
     (let ev = (\<lambda>ty new old. (case_event (OrganizationId oldCase) (UC_Id a) (Some userId) ty)
            \<lparr>Ev_NewValue := Some new, Ev_PreviousValue := Some old\<rparr>)
      in (if UC_Name a \<noteq> [] \<and> UC_Name a \<noteq> Case_Name oldCase
            then [ev CaseNameUpdated (UC_Name a) (Case_Name oldCase)] else [])
       @ (if UC_Status a \<noteq> [] \<and> UC_Status a \<noteq> Case_Status oldCase
            then [ev CaseStatusUpdated (UC_Status a) (Case_Status oldCase)] else [])
       @ (if UC_Outcome a \<noteq> [] \<and> UC_Outcome a \<noteq> Case_Outcome oldCase
            then [ev CaseOutcomeUpdated (UC_Outcome a) (Case_Outcome oldCase)] else [])
       @ (case UC_InboxId a of None \<Rightarrow> [] | Some i \<Rightarrow> if i \<noteq> Case_InboxId oldCase
            then [ev CaseInboxChanged (uuid_str i) (uuid_str (Case_InboxId oldCase))] else []))"

definition updateCaseCreateEvents ::
    "(uuid \<Rightarrow> string) \<Rightarrow> UpdateCaseAttributes \<Rightarrow> Case \<Rightarrow> string \<Rightarrow> case_db \<Rightarrow> case_db" where
  "updateCaseCreateEvents uuid_str a oldCase userId db =
     fold CreateCaseEvent (update_events uuid_str a oldCase userId) db"

text \<open>A pending case that is updated becomes a case under investigation.\<close>

definition started :: "UpdateCaseAttributes \<Rightarrow> Case \<Rightarrow> UpdateCaseAttributes" where
  "started a c = (if Case_Status c = CasePending \<and> (UC_Status a = [] \<or> UC_Status a = CasePending)
     then a\<lparr>UC_Status := CaseInvestigating\<rparr> else a)"

text \<open>A new outcome triggers the computation of scores; its own failure is only logged.\<close>

definition outcome_scores :: "case_env \<Rightarrow> UpdateCaseAttributes \<Rightarrow> Case \<Rightarrow> case_db \<Rightarrow> go_error + case_db" where
  "outcome_scores E a c db =
     (if UC_Outcome a = [] then Inr db
      else if \<not> List.member ValidCaseOutcomes (UC_Outcome a)
        then Inl (ErrWrap BadParameterError ''invalid case outcome'')
      else attempt (ScoringAccess E (OrganizationId c)) (\<lambda>access. Inr
        (if IsAllowed access then db\<lparr>score_requests := score_requests db
             @ [map D_Id (DecisionsByCaseId (OrganizationId c) (Case_Id c) db)]\<rparr>
         else db)))"

definition target_inbox_check :: "case_env \<Rightarrow> uuid option \<Rightarrow> case_db \<Rightarrow> go_error option" where
  "target_inbox_check E inboxId db = (case inboxId of
     None \<Rightarrow> None
   | Some i \<Rightarrow> (case GetInboxById (UuidStr E) (CaseCreds E) i db of
       Inl err \<Rightarrow> Some (ErrWrap err ''User does not have access the new inbox'')
     | Inr _ \<Rightarrow> None))"

definition update_effects :: "case_env \<Rightarrow> UpdateCaseAttributes \<Rightarrow> Case \<Rightarrow> case_db \<Rightarrow> go_error + case_db" where
  "update_effects E a c db =
     (if UC_Status a = [] then PerformCaseActionSideEffects E c db
      else attempt (performCaseActionSideEffectsWithoutStatusChange E c db) (\<lambda>db1.
        if UC_Status a = CaseClosed
        then wrapped (triggerAutoAssignment E (OrganizationId c) (Case_InboxId c) db1) ''could not trigger auto-assignment''
        else Inr db1))"

definition update_transaction ::
    "case_env \<Rightarrow> string \<Rightarrow> UpdateCaseAttributes \<Rightarrow> case_db \<Rightarrow> go_error + Case \<times> case_db" where
  "update_transaction E userId attrs tx =
     attempt (GetCaseById (UC_Id attrs) tx) (\<lambda>c.
       if isIdenticalCaseUpdate attrs c then attempt (getCaseWithDetails E (UC_Id attrs) tx) (\<lambda>r. Inr (r, tx))
       else attempt (available E (OrganizationId c) tx) (\<lambda>availableInboxIds.
         check (target_inbox_check E (UC_InboxId attrs) tx) (
         check (ReadOrUpdateCase (CaseCreds E) c availableInboxIds) (
           let a = started attrs c in
           if UC_Status a \<noteq> [] \<and> \<not> CanTransition (Case_Status c) (UC_Status a)
           then Inl (ErrWrap BadParameterError ''invalid case status transition'')
           else attempt (outcome_scores E a c tx) (\<lambda>tx1.
             attempt (cdb_UpdateCase a tx1) (\<lambda>tx2.
             attempt (update_effects E a c tx2) (\<lambda>tx3.
               let tx4 = updateCaseCreateEvents (UuidStr E) a c userId tx3 in
               attempt (getCaseWithDetails E (UC_Id a) tx4) (\<lambda>updatedCase.
               attempt (send_case_webhook E ''case.updated'' (Case_Id updatedCase) tx4) (\<lambda>tx5.
                 Inr (updatedCase, tx5))))))))))"

definition UpdateCase :: "case_env \<Rightarrow> string \<Rightarrow> UpdateCaseAttributes \<Rightarrow> case_db \<Rightarrow> (go_error + Case) \<times> case_db" where
  "UpdateCase E userId attrs db = Transaction (update_transaction E userId attrs) db"

section \<open>Snooze\<close>

text \<open>The case is read before the transaction; its own inbox counts as available.\<close>

definition Snooze :: "case_env \<Rightarrow> (int \<Rightarrow> string) \<Rightarrow> int \<Rightarrow> string \<Rightarrow> string \<Rightarrow> int \<Rightarrow> case_db \<Rightarrow> (go_error + unit) \<times> case_db" where
  "Snooze E rfc3339 now userId caseId until db = Transaction (\<lambda>tx.
     attempt (GetCaseById caseId db) (\<lambda>c.
     check (ReadOrUpdateCase (CaseCreds E) c [Case_InboxId c]) (
     attempt (PerformCaseActionSideEffects E c (SnoozeCase caseId until tx)) (\<lambda>tx1.
     attempt (BoostCase caseId BoostUnsnoozed tx1) (\<lambda>tx2.
       Inr ((), CreateCaseEvent ((case_event (OrganizationId c) caseId (Some userId) CaseSnoozed)
         \<lparr>Ev_NewValue := Some (rfc3339 until),
          Ev_PreviousValue := (if IsSnoozed now c then map_option rfc3339 (SnoozedUntil c) else None)\<rparr>) tx2)))))) db"

definition Unsnooze :: "case_env \<Rightarrow> (int \<Rightarrow> string) \<Rightarrow> int \<Rightarrow> string \<Rightarrow> string \<Rightarrow> case_db \<Rightarrow> (go_error + unit) \<times> case_db" where
  "Unsnooze E rfc3339 now userId caseId db = Transaction (\<lambda>tx.
     attempt (GetCaseById caseId db) (\<lambda>c.
     if \<not> IsSnoozed now c then Inr ((), tx)
     else check (ReadOrUpdateCase (CaseCreds E) c [Case_InboxId c]) (
       attempt (PerformCaseActionSideEffects E c tx) (\<lambda>tx1.
         Inr ((), CreateCaseEvent ((case_event (OrganizationId c) caseId (Some userId) CaseUnsnoozed)
           \<lparr>Ev_PreviousValue := map_option rfc3339 (SnoozedUntil c)\<rparr>) (UnsnoozeCase caseId tx1)))))) db"

section \<open>Assignment\<close>

text \<open>The inboxes that the assignee must reach are those of the user who assigns.\<close>

definition AssignCase :: "case_env \<Rightarrow> string \<Rightarrow> string \<Rightarrow> string option \<Rightarrow> case_db \<Rightarrow> (go_error + unit) \<times> case_db" where
  "AssignCase E userId caseId assigneeId db = Transaction (\<lambda>tx.
     attempt (GetCaseById caseId db) (\<lambda>c.
     if IsFinalized (Case_Status c) then Inl (ErrWrap BadParameterError ''cannot reassign a closed case'')
     else (case assigneeId of
       None \<Rightarrow> Inl (ErrWrap BadParameterError ''cannot assign to a null user'')
     | Some a \<Rightarrow>
         if AssignedTo c = Some a then Inr ((), tx)
         else attempt (available E (OrganizationId c) db) (\<lambda>availableInboxIds.
           check (ReadOrUpdateCase (CaseCreds E) c availableInboxIds) (
           attempt (wrapped (ReadUserById E a) ''target user for assignment not found'') (\<lambda>assignee.
           check (map_option (\<lambda>err. ErrWrap err ''target user lacks case permissions for assignment'')
               (ReadOrUpdateCase (user_IntoCredentials assignee) c availableInboxIds)) (
             let tx1 = cdb_AssignCase caseId (Some a) tx in
             attempt (getCaseWithDetails E caseId tx1) (\<lambda>updatedCase.
             attempt (PerformCaseActionSideEffects E updatedCase tx1) (\<lambda>tx2.
               Inr ((), CreateCaseEvent ((case_event (OrganizationId c) (Case_Id c)
                   (if userId \<noteq> [] then Some userId else None) CaseAssigned)
                 \<lparr>Ev_NewValue := Some a, Ev_PreviousValue := AssignedTo c\<rparr>) tx2)))))))))) db"

definition UnassignCase :: "case_env \<Rightarrow> string \<Rightarrow> string \<Rightarrow> case_db \<Rightarrow> (go_error + unit) \<times> case_db" where
  "UnassignCase E userId caseId db = Transaction (\<lambda>tx.
     attempt (GetCaseById caseId db) (\<lambda>c.
     if IsFinalized (Case_Status c) then Inl (ErrWrap BadParameterError ''cannot reassign a closed case'')
     else if AssignedTo c = None then Inr ((), tx)
     else attempt (available E (OrganizationId c) db) (\<lambda>availableInboxIds.
       check (ReadOrUpdateCase (CaseCreds E) c availableInboxIds)
         (Inr ((), CreateCaseEvent ((case_event (OrganizationId c) (Case_Id c)
             (if userId \<noteq> [] then Some userId else None) CaseAssigned)
           \<lparr>Ev_PreviousValue := AssignedTo c\<rparr>) (cdb_UnassignCase caseId tx)))))) db"

section \<open>Decisions and comments\<close>

text \<open>The case is read without its decisions, so the last step but two never boosts it.\<close>

definition AddDecisionsToCase ::
    "case_env \<Rightarrow> string \<Rightarrow> string \<Rightarrow> string list \<Rightarrow> case_db \<Rightarrow> (go_error + Case) \<times> case_db" where
  "AddDecisionsToCase E userId caseId decisionIds db = Transaction (\<lambda>tx.
     attempt (GetCaseById caseId tx) (\<lambda>c.
     attempt (available E (OrganizationId c) tx) (\<lambda>availableInboxIds.
     check (ReadOrUpdateCase (CaseCreds E) c availableInboxIds) (
     if Case_Type c \<noteq> CaseTypeDecision then Inl (ErrWrap BadParameterError ''can not add decisions to this case type'')
     else check (validateDecisions (OrganizationId c) decisionIds tx) (
     attempt (PerformCaseActionSideEffects E c (UpdateDecisionsWithEvents (OrganizationId c) caseId userId decisionIds tx)) (\<lambda>tx1.
     attempt (if CaseDecisions c \<noteq> [] then BoostCase caseId BoostNewDecision tx1 else Inr tx1) (\<lambda>tx2.
     attempt (getCaseWithDetails E caseId tx2) (\<lambda>updatedCase.
     attempt (send_case_webhook E ''case.decisions_updated'' (Case_Id updatedCase) tx2) (\<lambda>tx3.
       Inr (updatedCase, tx3)))))))))) db"

definition CreateCaseComment :: "case_env \<Rightarrow> string \<Rightarrow> string \<Rightarrow> string \<Rightarrow> case_db \<Rightarrow> (go_error + Case) \<times> case_db" where
  "CreateCaseComment E userId caseId comment db = Transaction (\<lambda>tx.
     attempt (GetCaseById caseId tx) (\<lambda>c.
     attempt (available E (OrganizationId c) tx) (\<lambda>availableInboxIds.
     check (ReadOrUpdateCase (CaseCreds E) c availableInboxIds) (
     attempt (PerformCaseActionSideEffects E c (CreateCaseEvent
         ((case_event (OrganizationId c) caseId (Some userId) CaseCommentAdded)\<lparr>Ev_Note := Some comment\<rparr>) tx)) (\<lambda>tx1.
     attempt (getCaseWithDetails E caseId tx1) (\<lambda>updatedCase.
     attempt (send_case_webhook E ''case.comment_created'' (Case_Id updatedCase) tx1) (\<lambda>tx2.
       Inr (updatedCase, tx2)))))))) db"

section \<open>Tags\<close>

definition createCaseTag :: "case_env \<Rightarrow> string \<Rightarrow> string \<Rightarrow> case_db \<Rightarrow> go_error + case_db" where
  "createCaseTag E caseId tagId db = attempt (GetTagById tagId db) (\<lambda>tag.
     if ReadTag (CaseCreds E) tag \<noteq> None then Inl NotFoundError
     else if \<not> Tag_TargetsCases tag then Inl BadParameterError
     else if Tag_Deleted tag then Inl BadParameterError
     else Inr (CreateCaseTag caseId tagId db))"

fun createCaseTags :: "case_env \<Rightarrow> string \<Rightarrow> string list \<Rightarrow> case_db \<Rightarrow> go_error + case_db" where
  "createCaseTags E caseId [] db = Inr db"
| "createCaseTags E caseId (tagId # tagIds) db =
     attempt (createCaseTag E caseId tagId db) (createCaseTags E caseId tagIds)"

definition tags_event :: "uuid \<Rightarrow> string \<Rightarrow> string option \<Rightarrow> string list \<Rightarrow> string list \<Rightarrow> CaseEvent" where
  "tags_event orgId caseId userId newIds previousIds = (case_event orgId caseId userId CaseTagsUpdated)
     \<lparr>Ev_NewValue := Some (strings_Join newIds '',''), Ev_PreviousValue := Some (strings_Join previousIds '','')\<rparr>"

definition UpdateCaseTags ::
    "case_env \<Rightarrow> string \<Rightarrow> string \<Rightarrow> string list \<Rightarrow> case_db \<Rightarrow> (go_error + Case) \<times> case_db" where
  "UpdateCaseTags E userId caseId tagIds db = Transaction (\<lambda>tx.
     attempt (GetCaseById caseId tx) (\<lambda>c.
     attempt (available E (OrganizationId c) db) (\<lambda>availableInboxIds.
     check (ReadOrUpdateCase (CaseCreds E) c availableInboxIds) (
       let previousCaseTags = ListCaseTagsByCaseId caseId tx; previousTagIds = map CT_TagId previousCaseTags in
       attempt (createCaseTags E caseId (filter (\<lambda>t. \<not> List.member previousTagIds t) tagIds) tx) (\<lambda>tx1.
         let tx2 = fold (\<lambda>ct. SoftDeleteCaseTag (CT_Id ct))
               (filter (\<lambda>ct. \<not> List.member tagIds (CT_TagId ct)) previousCaseTags) tx1;
             tx3 = CreateCaseEvent (tags_event (OrganizationId c) caseId (Some userId) tagIds previousTagIds) tx2
         in attempt (getCaseWithDetails E caseId tx3) (\<lambda>updatedCase.
            attempt (PerformCaseActionSideEffects E c tx3) (\<lambda>tx4.
            attempt (send_case_webhook E ''case.tags_updated'' (Case_Id updatedCase) tx4) (\<lambda>tx5.
              Inr (updatedCase, tx5))))))))) db"

text \<open>The end of a change of tags: the side effects, the case again, and the webhook.\<close>

definition tags_changed :: "case_env \<Rightarrow> string \<Rightarrow> case_db \<Rightarrow> go_error + Case \<times> case_db" where
  "tags_changed E caseId tx =
     attempt (GetCaseById caseId tx) (\<lambda>c.
     attempt (PerformCaseActionSideEffects E c tx) (\<lambda>tx1.
     attempt (getCaseWithDetails E caseId tx1) (\<lambda>updatedCase.
     attempt (send_case_webhook E ''case.tags_updated'' (Case_Id updatedCase) tx1) (\<lambda>tx2. Inr (updatedCase, tx2)))))"

definition AddCaseTags :: "case_env \<Rightarrow> string \<Rightarrow> string list \<Rightarrow> case_db \<Rightarrow> (go_error + Case) \<times> case_db" where
  "AddCaseTags E caseId tagIds db = Transaction (\<lambda>tx.
     attempt (GetCaseById caseId tx) (\<lambda>caseMeta.
     attempt (available E (OrganizationId caseMeta) db) (\<lambda>availableInboxIds.
     check (ReadOrUpdateCase (CaseCreds E) caseMeta availableInboxIds) (
       let previousTagIds = map CT_TagId (ListCaseTagsByCaseId caseId tx);
           newlyAdded = filter (\<lambda>t. \<not> List.member previousTagIds t) tagIds in
       attempt (createCaseTags E caseId newlyAdded tx) (\<lambda>tx1.
         if newlyAdded = [] then attempt (GetCaseById caseId tx1) (\<lambda>c. Inr (c, tx1))
         else tags_changed E caseId (CreateCaseEvent
           (tags_event (OrganizationId caseMeta) caseId None (previousTagIds @ newlyAdded) previousTagIds) tx1))))))  db"

text \<open>
  \<open>slices.DeleteFunc\<close> moves the kept elements to the front of the same array and clears the rest, so
  the array it was given is changed: the second component.
\<close>

definition DeleteFunc :: "(string \<Rightarrow> bool) \<Rightarrow> string list \<Rightarrow> string list \<times> string list" where
  "DeleteFunc del xs = (let kept = filter (\<lambda>x. \<not> del x) xs
     in (kept, kept @ replicate (length xs - length kept) []))"

definition RemoveCaseTag :: "case_env \<Rightarrow> string \<Rightarrow> string \<Rightarrow> case_db \<Rightarrow> (go_error + unit) \<times> case_db" where
  "RemoveCaseTag E caseId tagId db = Transaction (\<lambda>tx.
     attempt (GetCaseById caseId tx) (\<lambda>caseMeta.
     attempt (available E (OrganizationId caseMeta) db) (\<lambda>availableInboxIds.
     check (ReadOrUpdateCase (CaseCreds E) caseMeta availableInboxIds) (
       let previousCaseTags = ListCaseTagsByCaseId caseId tx in
       case List.find (\<lambda>ct. CT_TagId ct = tagId) previousCaseTags of
         None \<Rightarrow> Inr ((), tx)
       | Some caseTagToDelete \<Rightarrow>
          (let tx1 = SoftDeleteCaseTag (CT_Id caseTagToDelete) tx;
               (newTagIds, previousTagIds) = DeleteFunc (\<lambda>i. i = tagId) (map CT_TagId previousCaseTags)
           in attempt (tags_changed E caseId (CreateCaseEvent
                (tags_event (OrganizationId caseMeta) caseId None newTagIds previousTagIds) tx1)) (\<lambda>(_, tx2). Inr ((), tx2)))))))
     db"

section \<open>Review and escalation\<close>

definition validateDecisionReview :: "case_decision \<Rightarrow> go_error option" where
  "validateDecisionReview d =
     (if D_CaseId d = None then Some (ErrWrap BadParameterError ''decision does not belong to a case'')
      else if D_ReviewStatus d \<noteq> Some ReviewStatusPending then Some (ErrWrap BadParameterError ''decision is not in pending review'')
      else None)"

definition ReviewCaseDecisions ::
    "case_env \<Rightarrow> string \<Rightarrow> string \<Rightarrow> string \<Rightarrow> string \<Rightarrow> case_db \<Rightarrow> (go_error + Case) \<times> case_db" where
  "ReviewCaseDecisions E userId decisionId reviewStatus comment db = Transaction (\<lambda>tx.
     if \<not> List.member ValidReviewStatuses reviewStatus then Inl (ErrWrap BadParameterError ''invalid review status'')
     else (case DecisionsById [decisionId] db of
       [] \<Rightarrow> Inl (ErrWrap NotFoundError ''decision not found'')
     | decision # _ \<Rightarrow>
        check (map_option (\<lambda>_. ErrWrap ForbiddenError ''not allowed to access decision'')
          (ReadDecision (CaseCreds E) decision)) (
        check (validateDecisionReview decision) (
          let caseId = the (D_CaseId decision) in
          attempt (GetCaseById caseId db) (\<lambda>c.
          attempt (available E (OrganizationId c) db) (\<lambda>availableInboxIds.
          check (ReadOrUpdateCase (CaseCreds E) c availableInboxIds) (
          if Case_Type c \<noteq> CaseTypeDecision then Inl (ErrWrap BadParameterError ''can not review decisions on this case type'')
          else (let tx1 = CreateCaseEvent ((case_event (OrganizationId c) caseId (Some userId) DecisionReviewed)
                    \<lparr>Ev_ResourceId := Some decisionId, Ev_ResourceType := Some DecisionResourceType, Ev_Note := Some comment,
                     Ev_NewValue := Some reviewStatus, Ev_PreviousValue := D_ReviewStatus decision\<rparr>)
                    (ReviewDecision decisionId reviewStatus tx)
            in attempt (getCaseWithDetails E caseId tx1) (\<lambda>c1.
               attempt (PerformCaseActionSideEffects E c1 tx1) (\<lambda>tx2.
               attempt (send_case_webhook E ''case.decision_reviewed'' (Case_Id c1) tx2) (\<lambda>tx3.
                 Inr (c1, tx3)))))))))))) db"

text \<open>The review task is one of the inbox that the case joins.\<close>

definition escalation_review :: "case_env \<Rightarrow> Case \<Rightarrow> uuid \<Rightarrow> case_db \<Rightarrow> go_error + case_db" where
  "escalation_review E c targetInboxId db =
     attempt (wrapped (AiAssistAccess E (OrganizationId c)) ''error checking organization feature access'') (\<lambda>access.
       if \<not> IsAllowed access then Inr db
       else attempt (wrapped (db_GetInboxById targetInboxId db) ''error getting inbox'') (\<lambda>inbox.
         if \<not> CaseReviewOnEscalate inbox then Inr db
         else (case ReviewTaskFails E (Case_Id c) of
             Some err \<Rightarrow> Inl (ErrWrap err ''error enqueuing case review task'')
           | None \<Rightarrow> Inr (db\<lparr>review_tasks := review_tasks db @ [Case_Id c]\<rparr>))))"

definition EscalateCase :: "case_env \<Rightarrow> string \<Rightarrow> case_db \<Rightarrow> (go_error + unit) \<times> case_db" where
  "EscalateCase E caseId db = Transaction (\<lambda>tx.
     attempt (GetCaseById caseId db) (\<lambda>c.
     if Case_Status c = CaseClosed then Inl (ErrWrap UnprocessableEntityError ''case is already closed, cannot escalate'')
     else attempt (available E (OrganizationId c) db) (\<lambda>availableInboxIds.
       check (ReadOrUpdateCase (CaseCreds E) c availableInboxIds) (
       attempt (wrapped (GetInboxById (UuidStr E) (CaseCreds E) (Case_InboxId c) db) ''could not read source inbox'') (\<lambda>sourceInbox.
         case EscalationInboxId sourceInbox of
           None \<Rightarrow> Inl (ErrWrap UnprocessableEntityError ''the source inbox does not have escalation configured'')
         | Some target \<Rightarrow>
             attempt (wrapped (GetEscalationInboxMetadata (CaseCreds E) target db) ''could not read target inbox'') (\<lambda>targetInbox.
               if \<not> InboxActive targetInbox then Inl (ErrWrap UnprocessableEntityError ''target inbox is inactive'')
               else attempt (escalation_review E c (Inbox_Id targetInbox) (CreateCaseEvent
                   ((case_event (OrganizationId c) caseId (Some (Identity_UserId (ActorIdentity (CaseCreds E)))) CaseEscalated)
                     \<lparr>Ev_NewValue := Some (UuidStr E (Inbox_Id targetInbox)),
                      Ev_PreviousValue := Some (UuidStr E (Inbox_Id sourceInbox))\<rparr>)
                   (cdb_EscalateCase caseId (Inbox_Id targetInbox) tx)))
                 (\<lambda>tx1. Inr ((), tx1)))))))) db"

section \<open>Mass updates\<close>

datatype CaseMassUpdateAction =
  CaseMassUpdateClose | CaseMassUpdateReopen | CaseMassUpdateAssign | CaseMassUpdateMoveToInbox | CaseMassUpdateUnknown

definition CaseMassUpdateActionFromString :: "string \<Rightarrow> CaseMassUpdateAction" where
  "CaseMassUpdateActionFromString s =
     (if s = ''close'' then CaseMassUpdateClose
      else if s = ''reopen'' then CaseMassUpdateReopen
      else if s = ''assign'' then CaseMassUpdateAssign
      else if s = ''move_to_inbox'' then CaseMassUpdateMoveToInbox
      else CaseMassUpdateUnknown)"

record CaseMassUpdateDto =
  MU_Action :: string
  MU_CaseIds :: "string list"
  MU_AssigneeId :: string
  MU_InboxId :: uuid

text \<open>Every case must be accessible, to the user and to a new assignee.\<close>

definition mass_update_allowed :: "case_env \<Rightarrow> CaseMassUpdateDto \<Rightarrow> case_db \<Rightarrow> go_error + unit" where
  "mass_update_allowed E req db =
     (let found = GetMassCasesByIds (MU_CaseIds req) db; assign = (MU_Action req = ''assign'') in
      if length found \<noteq> length (MU_CaseIds req) then Inl (ErrNew ''some requested cases for mass update do not exist'')
      else attempt (wrapped (available E (Cred_OrganizationId (CaseCreds E)) db) ''could not retrieve available inboxes'')
       (\<lambda>availableInboxIds.
        attempt (if assign then attempt (wrapped (ReadUserById E (MU_AssigneeId req)) ''target user for assignment not found'')
                   (\<lambda>u. Inr (Some u)) else Inr None) (\<lambda>newAssignee.
        check (first_error (map (\<lambda>caseId. case List.find (\<lambda>c. Case_Id c = caseId) found of
              None \<Rightarrow> Some (ErrNew ''requested case for mass update does not exist'')
            | Some c \<Rightarrow> (case ReadOrUpdateCase (CaseCreds E) c availableInboxIds of
                Some err \<Rightarrow> Some err
              | None \<Rightarrow> (case newAssignee of
                  None \<Rightarrow> None
                | Some u \<Rightarrow> map_option (\<lambda>err. ErrWrap err ''target user lacks case permissions for assignment'')
                    (ReadOrUpdateCase (user_IntoCredentials u) c availableInboxIds)))) (MU_CaseIds req))) (
        check (if MU_Action req = ''move_to_inbox'' then (case GetInboxById (UuidStr E) (CaseCreds E) (MU_InboxId req) db of
              Inl err \<Rightarrow> Some (ErrWrap err ''user does not have access the new inbox'') | Inr _ \<Rightarrow> None) else None)
          (Inr ())))))"

text \<open>The order of the events is not specified.\<close>

definition mass_events ::
    "case_env \<Rightarrow> CaseEventType \<Rightarrow> (Case \<Rightarrow> string option) \<Rightarrow> string \<Rightarrow> case_db \<Rightarrow> string list \<times> case_db \<Rightarrow> case_db" where
  "mass_events E ty previous new db = (\<lambda>(updatedIds, tx). BatchCreateCaseEvents (map (\<lambda>caseId.
     (case_event (Cred_OrganizationId (CaseCreds E)) caseId (sec_UserId (CaseCreds E)) ty)
       \<lparr>Ev_NewValue := Some new, Ev_PreviousValue := Option.bind (find_case caseId db) previous\<rparr>) updatedIds) tx)"

definition MassUpdate :: "case_env \<Rightarrow> CaseMassUpdateDto \<Rightarrow> case_db \<Rightarrow> (go_error + unit) \<times> case_db" where
  "MassUpdate E req db = Transaction (\<lambda>tx.
     attempt (mass_update_allowed E req db) (\<lambda>_.
       case CaseMassUpdateActionFromString (MU_Action req) of
         CaseMassUpdateClose \<Rightarrow> Inr ((), mass_events E CaseStatusUpdated (\<lambda>c. Some (Case_Status c)) CaseClosed db
           (CaseMassChangeStatus (MU_CaseIds req) CaseClosed tx))
       | CaseMassUpdateReopen \<Rightarrow> Inr ((), mass_events E CaseStatusUpdated (\<lambda>c. Some (Case_Status c)) CasePending db
           (CaseMassChangeStatus (MU_CaseIds req) CasePending tx))
       | CaseMassUpdateAssign \<Rightarrow> Inr ((), mass_events E CaseAssigned AssignedTo (MU_AssigneeId req) db
           (CaseMassAssign (MU_CaseIds req) (MU_AssigneeId req) tx))
       | CaseMassUpdateMoveToInbox \<Rightarrow> Inr ((), mass_events E CaseInboxChanged (\<lambda>c. Some (UuidStr E (Case_InboxId c)))
           (UuidStr E (MU_InboxId req)) db (CaseMassMoveToInbox (MU_CaseIds req) (MU_InboxId req) tx))
       | CaseMassUpdateUnknown \<Rightarrow> Inl (ErrNew ''unknown case mass update action''))) db"

end
