(* ===== verification/Case_Laws.thy ===== *)
theory Case_Laws
  imports Case_Editing
begin

text \<open>
  What the requests on cases keep: \<open>touches\<close> follows the row of a case through the steps of a request,
  \<open>case_ok\<close> is the consistency of the tables. The rules of each are collected, so that a request is
  handled by unfolding its steps.
\<close>

section \<open>The row of a case\<close>

lemma find_case_Some: "find_case i db = Some c \<Longrightarrow> c \<in> set (cases db) \<and> Case_Id c = i"
  unfolding find_case_def by (auto simp: find_Some_iff)

lemma find_case_map:
  assumes "\<And>c. Case_Id (f c) = Case_Id c"
  shows "List.find (\<lambda>c. Case_Id c = i) (map (\<lambda>c. if Case_Id c = j then f c else c) cs)
    = (if i = j then map_option f (List.find (\<lambda>c. Case_Id c = i) cs) else List.find (\<lambda>c. Case_Id c = i) cs)"
  by (induction cs) (auto simp: assms)

lemma find_on_case:
  assumes "\<And>c. Case_Id (f c) = Case_Id c"
  shows "find_case i (on_case j f db) = (if i = j then map_option f (find_case i db) else find_case i db)"
  unfolding find_case_def on_case_def using find_case_map [OF assms] by simp

lemma find_case_cong: "cases db' = cases db \<Longrightarrow> find_case i db' = find_case i db"
  by (simp add: find_case_def)

text \<open>How a request changes the row \<open>j\<close>, in terms of a preorder, and no other row.\<close>

definition touches :: "(Case \<Rightarrow> Case \<Rightarrow> bool) \<Rightarrow> string \<Rightarrow> case_db \<Rightarrow> case_db \<Rightarrow> bool" where
  "touches R j db db' \<longleftrightarrow> (\<forall>i. rel_option (if i = j then R else (=)) (find_case i db) (find_case i db'))"

definition row_ok :: "Case \<Rightarrow> Case \<Rightarrow> bool" where
  "row_ok c c' \<longleftrightarrow> Case_Id c' = Case_Id c \<and> OrganizationId c' = OrganizationId c \<and> Case_Type c' = Case_Type c
     \<and> (Case_Status c' = Case_Status c \<or> Case_Status c = CasePending \<and> Case_Status c' = CaseInvestigating)"

text \<open>What an update can do to a row.\<close>

definition row_moves :: "Case \<Rightarrow> Case \<Rightarrow> bool" where
  "row_moves c c' \<longleftrightarrow> Case_Id c' = Case_Id c \<and> OrganizationId c' = OrganizationId c \<and> Case_Type c' = Case_Type c
     \<and> CanTransition (Case_Status c) (Case_Status c')"

lemma row_ok_refl [simp]: "row_ok c c"
  by (simp add: row_ok_def)

lemma row_ok_trans: "row_ok a b \<Longrightarrow> row_ok b c \<Longrightarrow> row_ok a c"
  by (auto simp: row_ok_def)

lemma row_ok_moves: "row_ok c c' \<Longrightarrow> row_moves c c'"
  by (auto simp: row_ok_def row_moves_def CanTransition_def)

lemma row_moves_then_ok: "row_moves a b \<Longrightarrow> row_ok b c \<Longrightarrow> row_moves a c"
  by (auto simp: row_ok_def row_moves_def CanTransition_def split: if_splits)

abbreviation touched :: "string \<Rightarrow> case_db \<Rightarrow> case_db \<Rightarrow> bool" where
  "touched \<equiv> touches row_ok"

lemma touches_same:
  assumes "cases db' = cases db"
  shows "touched j db db'"
  unfolding touches_def find_case_cong [OF assms] by (auto simp: option.rel_eq intro: option.rel_refl)

lemma touched_refl [simp]: "touched j db db"
  by (rule touches_same) simp

lemma touched_trans:
  assumes "touched j a b" "touched j b c"
  shows "touched j a c"
proof -
  have "rel_option (if i = j then row_ok else (=)) (find_case i a) (find_case i c)" for i
    using assms unfolding touches_def
    by (cases "i = j") (auto simp: option.rel_eq dest!: spec [of _ i] intro: row_ok_trans elim!: option.rel_cases)
  then show ?thesis by (simp add: touches_def)
qed

lemma touches_mono:
  assumes "touches R j a b" "\<And>c c'. R c c' \<Longrightarrow> S c c'"
  shows "touches S j a b"
proof -
  have "rel_option (if i = j then S else (=)) (find_case i a) (find_case i b)" for i
  proof -
    have "rel_option (if i = j then R else (=)) (find_case i a) (find_case i b)"
      using assms(1) by (simp add: touches_def)
    then show ?thesis using assms(2) by (auto elim!: option.rel_mono_strong split: if_splits)
  qed
  then show ?thesis by (simp add: touches_def)
qed

lemma touches_moves_trans:
  assumes "touches row_moves j a b" "touched j b c"
  shows "touches row_moves j a c"
proof -
  have "rel_option (if i = j then row_moves else (=)) (find_case i a) (find_case i c)" for i
    using assms unfolding touches_def
    by (cases "i = j") (auto simp: option.rel_eq dest!: spec [of _ i] intro: row_moves_then_ok elim!: option.rel_cases)
  then show ?thesis by (simp add: touches_def)
qed

lemma touches_on_case:
  assumes "\<And>c. find_case j db = Some c \<Longrightarrow> R c (f c)" "\<And>c. Case_Id (f c) = Case_Id c"
  shows "touches R j db (on_case j f db)"
  unfolding touches_def find_on_case [OF assms(2)]
  using assms(1) by (auto simp: option.rel_eq option.rel_map intro: option.rel_refl_strong)

lemma touched_after:
  assumes "touched j a b" "cases c = cases b"
  shows "touched j a c"
  using touched_trans [OF assms(1) touches_same [OF assms(2)]] .

lemma touched_row:
  assumes "touched j db db'" "find_case j db = Some c"
  shows "\<exists>c'. find_case j db' = Some c' \<and> row_ok c c'"
  using assms unfolding touches_def by (auto dest!: spec [of _ j] simp: option_rel_Some1)

section \<open>The primitives\<close>

text \<open>The steps that leave the cases.\<close>

lemma cases_frame [simp]:
  "cases (BatchCreateCaseEvents evs db) = cases db" "cases (CreateCaseEvent ev db) = cases db"
  "cases (CreateCaseTag a b db) = cases db" "cases (SoftDeleteCaseTag i db) = cases db"
  "cases (createCaseContributorIfNotExist a b db) = cases db" "cases (UpdateDecisionCaseId ids a db) = cases db"
  "cases (ReviewDecision a b db) = cases db" "cases (UpdateContinuousScreeningsCaseId is a db) = cases db"
  by (simp_all add: BatchCreateCaseEvents_def CreateCaseEvent_def CreateCaseTag_def SoftDeleteCaseTag_def
      createCaseContributorIfNotExist_def UpdateDecisionCaseId_def ReviewDecision_def UpdateContinuousScreeningsCaseId_def)

lemma decisions_frame [simp]:
  "decisions (BatchCreateCaseEvents evs db) = decisions db" "decisions (CreateCaseEvent ev db) = decisions db"
  "decisions (CreateCaseTag a b db) = decisions db" "decisions (SoftDeleteCaseTag i db) = decisions db"
  "decisions (createCaseContributorIfNotExist a b db) = decisions db" "decisions (on_case a f db) = decisions db"
  "decisions (UpdateContinuousScreeningsCaseId is a db) = decisions db"
  by (simp_all add: BatchCreateCaseEvents_def CreateCaseEvent_def CreateCaseTag_def SoftDeleteCaseTag_def
      createCaseContributorIfNotExist_def on_case_def UpdateContinuousScreeningsCaseId_def)

lemma tables_frame [simp]:
  "case_tags (BatchCreateCaseEvents evs db) = case_tags db" "contributors (BatchCreateCaseEvents evs db) = contributors db"
  "case_tags (CreateCaseEvent ev db) = case_tags db" "contributors (CreateCaseEvent ev db) = contributors db"
  "case_tags (on_case a f db) = case_tags db" "contributors (on_case a f db) = contributors db"
  "case_tags (UpdateDecisionCaseId ids a db) = case_tags db" "contributors (UpdateDecisionCaseId ids a db) = contributors db"
  "case_tags (ReviewDecision a b db) = case_tags db" "contributors (ReviewDecision a b db) = contributors db"
  "case_tags (UpdateContinuousScreeningsCaseId is a db) = case_tags db"
  "contributors (UpdateContinuousScreeningsCaseId is a db) = contributors db"
  "contributors (CreateCaseTag a b db) = contributors db" "contributors (SoftDeleteCaseTag i db) = contributors db"
  "case_tags (createCaseContributorIfNotExist a b db) = case_tags db"
  by (simp_all add: BatchCreateCaseEvents_def CreateCaseEvent_def on_case_def UpdateDecisionCaseId_def ReviewDecision_def
      UpdateContinuousScreeningsCaseId_def CreateCaseTag_def SoftDeleteCaseTag_def createCaseContributorIfNotExist_def)

lemma apply_update_fields [simp]:
  "Case_Id (apply_update a c) = Case_Id c" "OrganizationId (apply_update a c) = OrganizationId c"
  "Case_Type (apply_update a c) = Case_Type c"
  "Case_Status (apply_update a c) = (if UC_Status a \<noteq> [] then UC_Status a else Case_Status c)"
  "Case_Outcome (apply_update a c) = (if UC_Outcome a \<noteq> [] then UC_Outcome a else Case_Outcome c)"
  by (simp_all add: apply_update_def)

lemma no_update_fields [simp]:
  "UC_Id (no_update i) = i" "UC_Status (no_update i) = []" "UC_Outcome (no_update i) = []"
  by (simp_all add: no_update_def)

lemma cdb_UpdateCase_Inr:
  "cdb_UpdateCase a db = Inr db' \<longleftrightarrow> db' = on_case (UC_Id a) (apply_update a) db
     \<and> (\<forall>c\<in>set (cases db). Case_Id c = UC_Id a \<longrightarrow> case_checks (apply_update a c))"
  by (auto simp: cdb_UpdateCase_def list_all_iff)

lemma update_same: "\<exists>ts. db = db\<lparr>assign_tasks := ts\<rparr>" "\<exists>ss. db = db\<lparr>score_requests := ss\<rparr>"
  "\<exists>rs. db = db\<lparr>review_tasks := rs\<rparr>"
proof -
  show "\<exists>ts. db = db\<lparr>assign_tasks := ts\<rparr>" by (rule exI [of _ "assign_tasks db"]) simp
  show "\<exists>ss. db = db\<lparr>score_requests := ss\<rparr>" by (rule exI [of _ "score_requests db"]) simp
  show "\<exists>rs. db = db\<lparr>review_tasks := rs\<rparr>" by (rule exI [of _ "review_tasks db"]) simp
qed

lemma send_case_webhook_Inr: "send_case_webhook E ty i db = Inr db' \<Longrightarrow> \<exists>ws. db' = db\<lparr>case_webhooks := ws\<rparr>"
  by (auto simp: send_case_webhook_def split: option.splits)

lemma triggerAutoAssignment_Inr:
  assumes "triggerAutoAssignment E o' i db = Inr db'"
  shows "\<exists>ts. db' = db\<lparr>assign_tasks := ts\<rparr>"
proof -
  from assms have "db' = db \<or> db' = db\<lparr>assign_tasks := assign_tasks db @ [(o', i)]\<rparr>"
    unfolding triggerAutoAssignment_def attempt_Inr by (elim exE conjE) (auto simp: attempt_Inr split: if_splits option.splits)
  with update_same(1) [of db] show ?thesis by blast
qed

lemma outcome_scores_Inr:
  assumes "outcome_scores E a c db = Inr db'"
  shows "\<exists>ss. db' = db\<lparr>score_requests := ss\<rparr>"
proof -
  from assms have "db' = db \<or> (\<exists>ss. db' = db\<lparr>score_requests := ss\<rparr>)"
    by (auto simp: outcome_scores_def attempt_Inr split: if_splits)
  with update_same(2) [of db] show ?thesis by blast
qed

lemma escalation_review_Inr:
  assumes "escalation_review E c i db = Inr db'"
  shows "\<exists>ts. db' = db\<lparr>review_tasks := ts\<rparr>"
proof -
  from assms have "db' = db \<or> db' = db\<lparr>review_tasks := review_tasks db @ [Case_Id c]\<rparr>"
    unfolding escalation_review_def attempt_Inr by (elim exE conjE) (auto simp: attempt_Inr split: if_splits option.splits)
  with update_same(3) [of db] show ?thesis by blast
qed

lemmas outside_D = send_case_webhook_Inr triggerAutoAssignment_Inr outcome_scores_Inr escalation_review_Inr

lemma GetCaseById_Inr: "GetCaseById i db = Inr c \<longleftrightarrow> (\<exists>r. find_case i db = Some r \<and> c = r\<lparr>CaseDecisions := []\<rparr>)"
  by (auto simp: GetCaseById_def split: option.splits)

lemma getCaseWithDetails_Inr:
  "getCaseWithDetails E i db = Inr c \<Longrightarrow> \<exists>r ds. find_case i db = Some r \<and> c = r\<lparr>CaseDecisions := ds\<rparr>"
  by (auto simp: getCaseWithDetails_def attempt_Inr GetCaseById_Inr split: if_splits)

section \<open>Consistent tables\<close>

definition rows_ok :: "case_db \<Rightarrow> bool" where
  "rows_ok db \<longleftrightarrow> distinct (map Case_Id (cases db)) \<and> (\<forall>c\<in>set (cases db). case_checks c)
     \<and> distinct (contributors db)
     \<and> distinct (map (\<lambda>t. (CT_CaseId t, CT_TagId t)) (filter (\<lambda>t. \<not> CT_Deleted t) (case_tags db)))"

text \<open>A decision that is in a case is in one of its organization.\<close>

definition decisions_ok :: "case_db \<Rightarrow> bool" where
  "decisions_ok db \<longleftrightarrow> (\<forall>d\<in>set (decisions db). \<forall>j. D_CaseId d = Some j \<and> j \<noteq> [] \<longrightarrow>
     (\<exists>c. find_case j db = Some c \<and> OrganizationId c = OrganizationId d))"

definition case_ok :: "case_db \<Rightarrow> bool" where
  "case_ok db \<longleftrightarrow> rows_ok db \<and> decisions_ok db"

text \<open>A decision stays where it is, or joins the case \<open>j\<close>, of its organization.\<close>

definition may_join :: "string \<Rightarrow> case_db \<Rightarrow> case_decision \<Rightarrow> case_decision \<Rightarrow> bool" where
  "may_join j db d d' \<longleftrightarrow> D_Id d' = D_Id d \<and> OrganizationId d' = OrganizationId d
     \<and> (D_CaseId d' = D_CaseId d
        \<or> D_CaseId d' = Some j \<and> (\<exists>c. find_case j db = Some c \<and> OrganizationId c = OrganizationId d))"

text \<open>What an action on the case \<open>j\<close> does.\<close>

definition acts :: "string \<Rightarrow> case_db \<Rightarrow> case_db \<Rightarrow> bool" where
  "acts j db db' \<longleftrightarrow> touched j db db' \<and> (rows_ok db \<longrightarrow> rows_ok db')
     \<and> list_all2 (may_join j db) (decisions db) (decisions db')"

lemma may_join_refl [simp]: "may_join j db d d"
  by (simp add: may_join_def)

lemma may_join_trans:
  assumes "touched j a b" "may_join j a d d'" "may_join j b d' d''"
  shows "may_join j a d d''"
proof -
  have "\<exists>c. find_case j a = Some c \<and> OrganizationId c = orgId"
    if "\<exists>c. find_case j b = Some c \<and> OrganizationId c = orgId" for orgId
    using assms(1) that unfolding touches_def by (auto dest!: spec [of _ j] simp: option_rel_Some2 row_ok_def)
  then show ?thesis using assms(2,3) unfolding may_join_def by metis
qed

lemma acts_trans:
  assumes "acts j a b" "acts j b c"
  shows "acts j a c"
proof -
  have "list_all2 (may_join j a) (decisions a) (decisions c)"
    by (rule list_all2_trans [OF may_join_trans])
      (use assms in \<open>auto simp: acts_def\<close>)
  then show ?thesis using assms touched_trans [of j a b c] by (auto simp: acts_def)
qed

lemma acts_same:
  assumes "cases db' = cases db" "decisions db' = decisions db" "case_tags db' = case_tags db" "contributors db' = contributors db"
  shows "acts j db db'"
  using assms touches_same [OF assms(1)] by (simp add: acts_def rows_ok_def list.rel_refl)

lemma acts_refl [simp]: "acts j db db"
  by (rule acts_same) simp_all

lemma acts_after:
  "acts j a b \<Longrightarrow> cases c = cases b \<Longrightarrow> decisions c = decisions b \<Longrightarrow> case_tags c = case_tags b
   \<Longrightarrow> contributors c = contributors b \<Longrightarrow> acts j a c"
  by (meson acts_same acts_trans)

lemma rows_ok_on_case:
  assumes "rows_ok db" "\<And>c. Case_Id (f c) = Case_Id c"
    "\<And>c. c \<in> set (cases db) \<Longrightarrow> Case_Id c = j \<Longrightarrow> case_checks c \<Longrightarrow> case_checks (f c)"
  shows "rows_ok (on_case j f db)"
proof -
  have "map Case_Id (cases (on_case j f db)) = map Case_Id (cases db)" by (simp add: on_case_def assms(2))
  moreover have "\<forall>c\<in>set (cases (on_case j f db)). case_checks c"
    using assms(1,3) by (auto simp: on_case_def rows_ok_def)
  ultimately show ?thesis using assms(1) by (simp add: rows_ok_def)
qed

lemma acts_on_case:
  assumes "\<And>c. find_case j db = Some c \<Longrightarrow> row_ok c (f c)" "\<And>c. Case_Id (f c) = Case_Id c"
    "\<And>c. c \<in> set (cases db) \<Longrightarrow> Case_Id c = j \<Longrightarrow> case_checks c \<Longrightarrow> case_checks (f c)"
  shows "acts j db (on_case j f db)"
  using touches_on_case [of j db row_ok, OF assms(1,2)] rows_ok_on_case [OF _ assms(2,3)] by (simp add: acts_def list.rel_refl)

lemma acts_contributor: "acts j db (createCaseContributorIfNotExist i u db)"
  by (auto simp: acts_def rows_ok_def createCaseContributorIfNotExist_def list.rel_refl intro: touches_same)

lemma acts_CreateCaseTag: "acts j db (CreateCaseTag i t db)"
  by (auto simp: acts_def rows_ok_def CreateCaseTag_def list_ex_iff list.rel_refl intro: touches_same)

lemma distinct_filter_weaken:
  assumes "distinct (map g (filter P xs))" "\<And>x. g (f x) = g x" "\<And>x. P (f x) \<Longrightarrow> P x"
  shows "distinct (map g (filter P (map f xs)))"
  using assms(1)
proof (induction xs)
  case (Cons x xs)
  then show ?case using assms(2,3) by (auto split: if_splits)
qed simp

lemma acts_SoftDelete: "acts j db (SoftDeleteCaseTag i db)"
proof -
  have "rows_ok (SoftDeleteCaseTag i db)" if "rows_ok db"
    using that by (auto simp: rows_ok_def SoftDeleteCaseTag_def intro!: distinct_filter_weaken split: if_splits)
  then show ?thesis by (simp add: acts_def touches_same list.rel_refl)
qed

text \<open>An action keeps the tables consistent.\<close>

lemma decisions_ok_acts:
  assumes "decisions_ok db" "touches row_moves j db db'" "list_all2 (may_join j db) (decisions db) (decisions db')"
  shows "decisions_ok db'"
  unfolding decisions_ok_def
proof (intro ballI allI impI)
  fix d' i
  assume d': "d' \<in> set (decisions db')" and i: "D_CaseId d' = Some i \<and> i \<noteq> []"
  from d' assms(3) obtain d where d: "d \<in> set (decisions db)" "may_join j db d d'"
    by (metis list_all2_conv_all_nth in_set_conv_nth)
  then have "\<exists>c. find_case i db = Some c \<and> OrganizationId c = OrganizationId d'"
    using i assms(1) unfolding decisions_ok_def may_join_def by (cases "D_CaseId d' = D_CaseId d") auto
  then obtain c where c: "find_case i db = Some c" "OrganizationId c = OrganizationId d'" by blast
  from assms(2) c(1) have "\<exists>c'. find_case i db' = Some c' \<and> OrganizationId c' = OrganizationId c"
    unfolding touches_def by (auto dest!: spec [of _ i] simp: option_rel_Some1 row_moves_def split: if_splits)
  with c(2) show "\<exists>c. find_case i db' = Some c \<and> OrganizationId c = OrganizationId d'" by auto
qed

lemma case_ok_acts: "case_ok db \<Longrightarrow> acts j db db' \<Longrightarrow> case_ok db'"
  unfolding case_ok_def acts_def using decisions_ok_acts touches_mono row_ok_moves by blast

section \<open>The steps of an action\<close>

text \<open>Each rule extends a run of steps by one step.\<close>

named_theorems act_steps

lemma acts_outside [act_steps]:
  "send_case_webhook E ty i b = Inr c \<Longrightarrow> acts j a b \<Longrightarrow> acts j a c"
  "triggerAutoAssignment E o' inb b = Inr c \<Longrightarrow> acts j a b \<Longrightarrow> acts j a c"
  "outcome_scores E upd cs b = Inr c \<Longrightarrow> acts j a b \<Longrightarrow> acts j a c"
  "escalation_review E cs inb b = Inr c \<Longrightarrow> acts j a b \<Longrightarrow> acts j a c"
  by (auto dest!: outside_D elim: acts_after)

lemma acts_events [act_steps]:
  "acts j a b \<Longrightarrow> acts j a (CreateCaseEvent ev b)" "acts j a b \<Longrightarrow> acts j a (BatchCreateCaseEvents evs b)"
  by (auto elim: acts_after)

lemma acts_event_list [act_steps]: "acts j a b \<Longrightarrow> acts j a (fold CreateCaseEvent evs b)"
  by (induction evs arbitrary: b) (simp_all add: acts_events)

lemma acts_tables [act_steps]:
  "acts j a b \<Longrightarrow> acts j a (createCaseContributorIfNotExist i u b)"
  "acts j a b \<Longrightarrow> acts j a (CreateCaseTag i t b)" "acts j a b \<Longrightarrow> acts j a (SoftDeleteCaseTag k b)"
  by (blast intro: acts_trans acts_contributor acts_CreateCaseTag acts_SoftDelete)+

lemma acts_tag_folds [act_steps]:
  "acts j a b \<Longrightarrow> acts j a (fold (CreateCaseTag i) ts b)"
  "acts j a b \<Longrightarrow> acts j a (fold (\<lambda>ct. SoftDeleteCaseTag (CT_Id ct)) cts b)"
  by (induction ts arbitrary: b) (simp_all add: acts_tables, induction cts arbitrary: b, simp_all add: acts_tables)

lemma acts_fields [act_steps]:
  "acts j a b \<Longrightarrow> acts j a (SnoozeCase j t b)" "acts j a b \<Longrightarrow> acts j a (UnsnoozeCase j b)"
  "acts j a b \<Longrightarrow> acts j a (cdb_AssignCase j u b)" "acts j a b \<Longrightarrow> acts j a (cdb_UnassignCase j b)"
  "acts j a b \<Longrightarrow> acts j a (cdb_EscalateCase j inb b)"
  by (auto simp: SnoozeCase_def UnsnoozeCase_def cdb_AssignCase_def cdb_UnassignCase_def cdb_EscalateCase_def
      row_ok_def case_checks_def elim!: acts_trans intro!: acts_on_case)

definition ongoing :: "string \<Rightarrow> case_db \<Rightarrow> bool" where
  "ongoing j db \<longleftrightarrow> (\<forall>c. find_case j db = Some c \<longrightarrow> Case_Status c = CasePending \<or> Case_Status c = CaseInvestigating)"

lemma ongoing_acts: "ongoing j a \<Longrightarrow> acts j a b \<Longrightarrow> ongoing j b"
  unfolding ongoing_def acts_def touches_def by (auto dest!: spec [of _ j] simp: option_rel_Some2 row_ok_def)

lemma acts_update:
  assumes "cdb_UpdateCase u b = Inr c" "UC_Id u = j" "acts j a b"
    "UC_Status u = [] \<or> UC_Status u = CaseInvestigating \<and> ongoing j b"
  shows "acts j a c"
proof -
  have c: "c = on_case j (apply_update u) b" "\<forall>r\<in>set (cases b). Case_Id r = j \<longrightarrow> case_checks (apply_update u r)"
    using assms(1,2) by (simp_all add: cdb_UpdateCase_Inr)
  have "acts j b (on_case j (apply_update u) b)"
    by (rule acts_on_case) (use assms(4) c(2) in \<open>auto simp: row_ok_def ongoing_def\<close>)
  with assms(3) c(1) show ?thesis by (blast intro: acts_trans)
qed

lemma acts_boost [act_steps]:
  "BoostCase j reason b = Inr c \<Longrightarrow> acts j a b \<Longrightarrow> acts j a c" "UnboostCase j b = Inr c \<Longrightarrow> acts j a b \<Longrightarrow> acts j a c"
  by (auto simp: BoostCase_def UnboostCase_def elim!: acts_update)

lemma acts_SelfAssign [act_steps]: "acts j a b \<Longrightarrow> acts j a (SelfAssignOnAction orgId j u b)"
  by (simp add: SelfAssignOnAction_def act_steps)

lemma acts_effects [act_steps]:
  assumes "performCaseActionSideEffectsWithoutStatusChange E c b = Inr d" "Case_Id c = j" "acts j a b"
  shows "acts j a d"
  using assms unfolding performCaseActionSideEffectsWithoutStatusChange_def Let_def attempt_Inr
  by (cases "sec_UserId (CaseCreds E)") (auto intro: act_steps split: if_splits)

lemma acts_action:
  assumes action: "PerformCaseActionSideEffects E c b = Inr d" and c: "Case_Id c = j" and ab: "acts j a b"
    and status: "Case_Status c = CasePending \<longrightarrow> ongoing j a \<or> ongoing j b"
  shows "acts j a d"
proof -
  from action obtain m where m: "(if Case_Status c = CasePending
      then cdb_UpdateCase ((no_update (Case_Id c))\<lparr>UC_Status := CaseInvestigating\<rparr>) b else Inr b) = Inr m"
    "performCaseActionSideEffectsWithoutStatusChange E c m = Inr d"
    by (auto simp: PerformCaseActionSideEffects_def attempt_Inr)
  have "acts j a m"
  proof (cases "Case_Status c = CasePending")
    case True
    then have "ongoing j b" using status ongoing_acts [OF _ ab] by blast
    with True m(1) c show ?thesis by (intro acts_update [OF _ _ ab]) auto
  qed (use m(1) ab in simp)
  with m(2) c show ?thesis by (blast intro: acts_effects)
qed

lemma GetCaseById_ongoing:
  "GetCaseById j db = Inr c \<Longrightarrow> Case_Id c = j \<and> (Case_Status c = CasePending \<longrightarrow> ongoing j db)"
  "getCaseWithDetails E j db = Inr c \<Longrightarrow> Case_Id c = j \<and> (Case_Status c = CasePending \<longrightarrow> ongoing j db)"
  by (auto simp: GetCaseById_Inr ongoing_def dest!: getCaseWithDetails_Inr dest: find_case_Some)

lemma acts_read [act_steps]:
  "PerformCaseActionSideEffects E c b = Inr d \<Longrightarrow> GetCaseById j a = Inr c \<Longrightarrow> acts j a b \<Longrightarrow> acts j a d"
  "PerformCaseActionSideEffects E c b = Inr d \<Longrightarrow> GetCaseById j b = Inr c \<Longrightarrow> acts j a b \<Longrightarrow> acts j a d"
  "PerformCaseActionSideEffects E c b = Inr d \<Longrightarrow> getCaseWithDetails E' j b = Inr c \<Longrightarrow> acts j a b \<Longrightarrow> acts j a d"
  by (auto elim!: acts_action dest!: GetCaseById_ongoing)

text \<open>Decisions of the organization of the case join it.\<close>

lemma acts_decisions:
  assumes "find_case j b = Some c" "acts j a b"
    "\<And>d. d \<in> set (decisions b) \<Longrightarrow> D_Id d \<in> set ids \<Longrightarrow> OrganizationId d = OrganizationId c"
  shows "acts j a (UpdateDecisionsWithEvents orgId j u ids b)"
proof -
  have "may_join j b d (if List.member ids (D_Id d) then d\<lparr>D_CaseId := Some j\<rparr> else d)" if "d \<in> set (decisions b)" for d
    using assms(1) assms(3) [OF that] by (auto simp: may_join_def)
  then have "list_all2 (may_join j b) (decisions b) (decisions (UpdateDecisionCaseId ids j b))"
    by (simp add: UpdateDecisionCaseId_def list_all2_map2 list.rel_refl_strong)
  then have "acts j b (UpdateDecisionCaseId ids j b)"
    by (simp add: acts_def touches_same) (simp add: rows_ok_def UpdateDecisionCaseId_def)
  then have "acts j a (UpdateDecisionCaseId ids j b)" by (rule acts_trans [OF assms(2)])
  then show ?thesis using assms(2) by (simp add: UpdateDecisionsWithEvents_def act_steps)
qed

lemma first_error_None: "first_error es = None \<longleftrightarrow> (\<forall>e\<in>set es. e = None)"
  by (auto simp: first_error_def some_errors_Nil_iff [symmetric] split: list.splits)

definition joinable :: "uuid \<Rightarrow> case_decision \<Rightarrow> bool" where
  "joinable orgId d \<longleftrightarrow> OrganizationId d = orgId \<and> (D_CaseId d = None \<or> D_CaseId d = Some [])"

lemma validateDecisions_None:
  "validateDecisions orgId ids db = None \<longleftrightarrow> ids = [] \<or>
     (\<forall>d\<in>set (DecisionsById ids db). joinable orgId d) \<and> length ids = length (DecisionsById ids db)"
proof -
  define refusal where "refusal d = (if OrganizationId d \<noteq> orgId
                 then Some (ErrWrap ForbiddenError ''provided decision does not belong to the organization'')
               else if D_CaseId d \<noteq> None \<and> D_CaseId d \<noteq> Some []
                 then Some (ErrWrap BadParameterError ''decision already belongs to a case'')
               else None)" for d :: case_decision
  have "refusal d = None \<longleftrightarrow> joinable orgId d" for d
    unfolding refusal_def joinable_def by (simp split: if_split)
  then have first: "first_error (map refusal (DecisionsById ids db)) = None
      \<longleftrightarrow> (\<forall>d\<in>set (DecisionsById ids db). joinable orgId d)"
    unfolding first_error_None by simp
  have "validateDecisions orgId ids db = (if ids = [] then None
      else (case first_error (map refusal (DecisionsById ids db)) of Some err \<Rightarrow> Some err
        | None \<Rightarrow> if length ids \<noteq> length (DecisionsById ids db) then Some (ErrWrap NotFoundError ''unknown decision'') else None))"
    unfolding validateDecisions_def Let_def refusal_def by (rule refl)
  then show ?thesis
    unfolding first [symmetric] by (simp split: option.split)
qed

lemma joinable_decision:
  "validateDecisions orgId ids db = None \<Longrightarrow> d \<in> set (decisions db) \<Longrightarrow> D_Id d \<in> set ids \<Longrightarrow> joinable orgId d"
  by (auto simp: validateDecisions_None DecisionsById_def)

end
