(* ===== verification/Decision_Workflows.thy ===== *)
theory Decision_Workflows
  imports Case_Editing Ast_Dto Scenario_Eval
begin

text \<open>
  Decision workflows (\<^verbatim>\<open>src/usecases/decision_workflows\<close>, \<^verbatim>\<open>src/models/workflows.go\<close>): the conditions of a
  rule, the rules that match a decision, and the actions that put it in a case, over the tables of
  cases.

  Parameters are raw JSON in the code; the functions that decode them are the environment. \<open>ev\<close> is the
  evaluation of a formula on the object of the decision, \<open>None\<close> a panic. The advisory lock on the pivot,
  which changes no table, is left out.
\<close>

section \<open>Data\<close>

datatype WorkflowConditionType = WorkflowConditionUnknown | WorkflowConditionAlways | WorkflowConditionNever
  | WorkflowConditionOutcomeIn | WorkflowConditionRuleHit | WorkflowPayloadEvaluates

fun WorkflowConditionType_String :: "WorkflowConditionType \<Rightarrow> string" where
  "WorkflowConditionType_String WorkflowConditionUnknown = ''unknown''"
| "WorkflowConditionType_String WorkflowConditionAlways = ''always''"
| "WorkflowConditionType_String WorkflowConditionNever = ''never''"
| "WorkflowConditionType_String WorkflowConditionOutcomeIn = ''outcome_in''"
| "WorkflowConditionType_String WorkflowConditionRuleHit = ''rule_hit''"
| "WorkflowConditionType_String WorkflowPayloadEvaluates = ''payload_evaluates''"

definition WorkflowConditionFromString :: "string \<Rightarrow> WorkflowConditionType" where
  "WorkflowConditionFromString s =
     (if s = ''always'' then WorkflowConditionAlways
      else if s = ''never'' then WorkflowConditionNever
      else if s = ''outcome_in'' then WorkflowConditionOutcomeIn
      else if s = ''rule_hit'' then WorkflowConditionRuleHit
      else if s = ''payload_evaluates'' then WorkflowPayloadEvaluates
      else WorkflowConditionUnknown)"

datatype WorkflowType = WorkflowDisabled | WorkflowCreateCase | WorkflowAddToCaseIfPossible

definition WorkflowTypeFromString :: "string \<Rightarrow> WorkflowType" where
  "WorkflowTypeFromString s =
     (if s = ''ADD_TO_CASE_IF_POSSIBLE'' then WorkflowAddToCaseIfPossible
      else if s = ''CREATE_CASE'' then WorkflowCreateCase
      else WorkflowDisabled)"

record 'j WorkflowCondition =
  WC_Function :: WorkflowConditionType
  WC_Params :: 'j

record 'j WorkflowAction =
  WA_Action :: WorkflowType
  WA_Params :: 'j

record 'j Workflow =
  WF_Conditions :: "'j WorkflowCondition list"
  WF_Actions :: "'j WorkflowAction list"
  Fallthrough :: bool

record 'f WorkflowActionCaseParams =
  WP_InboxId :: uuid
  WP_AnyInbox :: bool
  WP_TitleTemplate :: "'f NodeDto option"
  WP_TagsToAdd :: "uuid list"

record 'f workflow_decision = org_owned +
  WD_DecisionId :: string
  WD_Outcome :: Outcome
  WD_RuleExecutions :: "'f RuleExecution list"
  WD_ScreeningExecutions :: "ScreeningWithMatches list"
  WD_PivotValue :: "string option"

record ('j, 'f) workflow_env =
  Unmarshal_strings :: "'j \<Rightarrow> go_error + string list"
  Unmarshal_rules :: "'j \<Rightarrow> go_error + uuid list"
  Unmarshal_expression :: "'j \<Rightarrow> go_error + 'f NodeDto"
  Unmarshal_case :: "'j \<Rightarrow> go_error + 'f WorkflowActionCaseParams"
  HasAiCaseReviewEnabled :: "uuid \<Rightarrow> go_error + bool"

section \<open>Conditions\<close>

type_synonym 'f workflow_condition = "'f expression_evaluator \<Rightarrow> 'f workflow_decision \<Rightarrow> (go_error + bool) option"

definition always :: "'f workflow_condition" where
  "always ev decision = Some (Inr True)"

definition never :: "'f workflow_condition" where
  "never ev decision = Some (Inr False)"

definition outcomeIn :: "string list \<Rightarrow> 'f workflow_condition" where
  "outcomeIn outcomes ev decision = Some (Inr (List.member outcomes (Outcome_String (WD_Outcome decision))))"

definition ruleHit :: "(uuid \<Rightarrow> string) \<Rightarrow> uuid list \<Rightarrow> 'f workflow_condition" where
  "ruleHit uuid_str ruleIds ev decision = Some (Inr
     (list_ex (\<lambda>ruleExec. list_ex (\<lambda>ruleId. StableRuleId (RE_Rule ruleExec) = uuid_str ruleId \<and> RE_Outcome ruleExec = ''hit'') ruleIds)
        (WD_RuleExecutions decision)
    \<or> list_ex (\<lambda>s. list_ex (\<lambda>ruleId. fst (snd (SW_Config s)) = uuid_str ruleId
          \<and> (SW_Status s = ScreeningStatusInReview \<or> SW_Status s = ScreeningStatusConfirmedHit)) ruleIds)
        (WD_ScreeningExecutions decision)))"

definition payloadEvaluates :: "'f Node \<Rightarrow> 'f workflow_condition" where
  "payloadEvaluates astNode ev decision = (case ev astNode of
     None \<Rightarrow> None
   | Some (eval, Some err) \<Rightarrow> Some (Inl err)
   | Some (eval, None) \<Rightarrow>
       if ne_errors eval \<noteq> [] then Some (Inr False)
       else (case NE_ReturnValue eval of
         VBool ret \<Rightarrow> Some (Inr ret)
       | _ \<Rightarrow> Some (Inl ErrArgumentMustBeBool)))"

definition CreateFunction ::
    "('j, 'f) workflow_env \<Rightarrow> (uuid \<Rightarrow> string) \<Rightarrow> 'j WorkflowCondition \<Rightarrow> go_error + 'f workflow_condition" where
  "CreateFunction W uuid_str condition = (case WC_Function condition of
     WorkflowConditionAlways \<Rightarrow> Inr always
   | WorkflowConditionNever \<Rightarrow> Inr never
   | WorkflowConditionOutcomeIn \<Rightarrow> attempt (Unmarshal_strings W (WC_Params condition)) (\<lambda>params. Inr (outcomeIn params))
   | WorkflowConditionRuleHit \<Rightarrow> attempt (Unmarshal_rules W (WC_Params condition)) (\<lambda>params. Inr (ruleHit uuid_str params))
   | WorkflowPayloadEvaluates \<Rightarrow> attempt (Unmarshal_expression W (WC_Params condition)) (\<lambda>expression.
       attempt (AdaptASTNode expression) (\<lambda>astNode. Inr (payloadEvaluates astNode)))
   | WorkflowConditionUnknown \<Rightarrow> Inr never)"

section \<open>The rules that match\<close>

fun conditions_hold ::
    "('j, 'f) workflow_env \<Rightarrow> (uuid \<Rightarrow> string) \<Rightarrow> 'f expression_evaluator \<Rightarrow> 'f workflow_decision
     \<Rightarrow> 'j WorkflowCondition list \<Rightarrow> (go_error + bool) option" where
  "conditions_hold W uuid_str ev decision [] = Some (Inr True)"
| "conditions_hold W uuid_str ev decision (cond # conds) = (case CreateFunction W uuid_str cond of
     Inl err \<Rightarrow> Some (Inl (ErrWrap err ''could not evaluate workflow condition''))
   | Inr fn \<Rightarrow> (case fn ev decision of
       None \<Rightarrow> None
     | Some (Inl err) \<Rightarrow> Some (Inl err)
     | Some (Inr result) \<Rightarrow> if \<not> result then Some (Inr False)
         else conditions_hold W uuid_str ev decision conds))"

fun matchingRules ::
    "('j, 'f) workflow_env \<Rightarrow> (uuid \<Rightarrow> string) \<Rightarrow> 'f expression_evaluator \<Rightarrow> 'f workflow_decision
     \<Rightarrow> 'j Workflow list \<Rightarrow> (go_error + 'j Workflow list) option" where
  "matchingRules W uuid_str ev decision [] = Some (Inr [])"
| "matchingRules W uuid_str ev decision (rule # rules) =
     (if WF_Conditions rule = [] then matchingRules W uuid_str ev decision rules
      else (case conditions_hold W uuid_str ev decision (WF_Conditions rule) of
        None \<Rightarrow> None
      | Some (Inl err) \<Rightarrow> Some (Inl err)
      | Some (Inr holds) \<Rightarrow>
          if \<not> holds then matchingRules W uuid_str ev decision rules
          else if \<not> Fallthrough rule then Some (Inr [rule])
          else (case matchingRules W uuid_str ev decision rules of
            None \<Rightarrow> None
          | Some (Inl err) \<Rightarrow> Some (Inl err)
          | Some (Inr others) \<Rightarrow> Some (Inr (rule # others)))))"

section \<open>Adding the decision to an open case\<close>

definition caseIsBetterMatch :: "Case \<times> nat \<Rightarrow> Case \<times> nat \<Rightarrow> bool" where
  "caseIsBetterMatch a b =
     (if snd a \<noteq> snd b then snd a < snd b
      else if Case_Status (fst a) \<noteq> Case_Status (fst b) then Case_Status (fst a) = CasePending
      else Case_CreatedAt (fst b) < Case_CreatedAt (fst a))"

text \<open>Of a list that is not empty.\<close>

definition findBestMatchCase :: "(Case \<times> nat) list \<Rightarrow> Case" where
  "findBestMatchCase candidates = fst (foldl (\<lambda>bestMatch c. if caseIsBetterMatch c bestMatch then c else bestMatch)
     (hd candidates) candidates)"

definition best_open_case :: "uuid \<Rightarrow> string \<Rightarrow> uuid option \<Rightarrow> case_db \<Rightarrow> Case option" where
  "best_open_case orgId pivotValue inboxId tx = (case SelectCasesWithPivot orgId pivotValue inboxId tx of
     [] \<Rightarrow> None
   | [c] \<Rightarrow> Some c
   | eligibleCases \<Rightarrow> Some (findBestMatchCase
       (map (\<lambda>c. (c, CountDecisionsByCaseId orgId (Case_Id c) tx)) eligibleCases)))"

text \<open>The event lists the previous tags, a comma, and the new tags, also when there was none.\<close>

definition add_workflow_tags :: "(uuid \<Rightarrow> string) \<Rightarrow> uuid \<Rightarrow> string \<Rightarrow> uuid list \<Rightarrow> case_db \<Rightarrow> case_db" where
  "add_workflow_tags uuid_str orgId caseId tagsToAdd tx =
     (let previousTagIds = map CT_TagId (ListCaseTagsByCaseId caseId tx);
          newIds = filter (\<lambda>t. \<not> List.member previousTagIds t) (map uuid_str tagsToAdd);
          tx1 = fold (CreateCaseTag caseId) newIds tx;
          previousValue = strings_Join previousTagIds '',''
      in if newIds = [] then tx1
         else CreateCaseEvent ((case_event orgId caseId None CaseTagsUpdated)
           \<lparr>Ev_PreviousValue := Some previousValue,
            Ev_NewValue := Some (previousValue @ '','' @ strings_Join newIds '','')\<rparr>) tx1)"

definition addToOpenCase ::
    "case_env \<Rightarrow> uuid \<Rightarrow> 'f workflow_decision \<Rightarrow> 'f WorkflowActionCaseParams \<Rightarrow> case_db \<Rightarrow> Case option \<times> case_db" where
  "addToOpenCase E scenarioOrgId decision params tx = (case WD_PivotValue decision of
     None \<Rightarrow> (None, tx)
   | Some pivotValue \<Rightarrow>
      (case best_open_case scenarioOrgId pivotValue (if WP_AnyInbox params then None else Some (WP_InboxId params)) tx of
         None \<Rightarrow> (None, tx)
       | Some bestMatchCase \<Rightarrow> (Some bestMatchCase,
           UpdateDecisionsWithEvents (OrganizationId decision) (Case_Id bestMatchCase) [] [WD_DecisionId decision]
             (add_workflow_tags (UuidStr E) scenarioOrgId (Case_Id bestMatchCase) (WP_TagsToAdd params) tx))))"

section \<open>Creating a case for the decision\<close>

definition automaticCreateCaseAttributes ::
    "uuid \<Rightarrow> 'f workflow_decision \<Rightarrow> 'f WorkflowActionCaseParams \<Rightarrow> string \<Rightarrow> CaseType \<Rightarrow> CreateCaseAttributes" where
  "automaticCreateCaseAttributes scenarioOrgId decision params name caseType =
     \<lparr>OrganizationId = scenarioOrgId, Case_InboxId = WP_InboxId params, CC_DecisionIds = [WD_DecisionId decision],
      CC_ContinuousScreeningIds = [], CC_Name = name, CC_AssigneeId = None, CC_Type = caseType\<rparr>"

definition new_case_tags :: "(uuid \<Rightarrow> string) \<Rightarrow> uuid \<Rightarrow> string \<Rightarrow> uuid list \<Rightarrow> case_db \<Rightarrow> case_db" where
  "new_case_tags uuid_str orgId caseId tagsToAdd tx =
     (if tagsToAdd = [] then tx
      else CreateCaseEvent ((case_event orgId caseId None CaseTagsUpdated)
          \<lparr>Ev_PreviousValue := Some [], Ev_NewValue := Some (strings_Join (map uuid_str tagsToAdd) '','')\<rparr>)
        (fold (CreateCaseTag caseId) (map uuid_str tagsToAdd) tx))"

definition creation_review :: "('j, 'f) workflow_env \<Rightarrow> case_env \<Rightarrow> Case \<Rightarrow> case_db \<Rightarrow> go_error + case_db" where
  "creation_review W E newCase tx =
     attempt (wrapped (HasAiCaseReviewEnabled W (OrganizationId newCase)) ''error checking if AI case review is enabled'') (\<lambda>enabled.
       if \<not> enabled then Inr tx
       else attempt (wrapped (db_GetInboxById (Case_InboxId newCase) tx) ''error getting inbox'') (\<lambda>inbox.
         if \<not> CaseReviewOnCaseCreated inbox then Inr tx
         else (case ReviewTaskFails E (Case_Id newCase) of
             Some err \<Rightarrow> Inl (ErrWrap err ''error enqueuing case review task'')
           | None \<Rightarrow> Inr (tx\<lparr>review_tasks := review_tasks tx @ [Case_Id newCase]\<rparr>))))"

text \<open>A template that cannot be read is ignored; the name of the case may panic.\<close>

definition createNewCaseForDecision ::
    "('j, 'f) workflow_env \<Rightarrow> case_env \<Rightarrow> string \<Rightarrow> int \<Rightarrow> 'f expression_evaluator \<Rightarrow> string \<Rightarrow> uuid
     \<Rightarrow> 'f workflow_decision \<Rightarrow> 'f WorkflowActionCaseParams \<Rightarrow> case_db \<Rightarrow> (go_error + case_db) option" where
  "createNewCaseForDecision W E newCaseId now ev defaultName scenarioOrgId decision params tx =
     (let titleTemplateAst = (case WP_TitleTemplate params of
            None \<Rightarrow> None
          | Some t \<Rightarrow> (case AdaptASTNode t of Inl _ \<Rightarrow> None | Inr n \<Rightarrow> Some n))
      in case EvalCaseName ev defaultName titleTemplateAst of
           None \<Rightarrow> None
         | Some (_, Some err) \<Rightarrow> Some (Inl (ErrWrap err ''error creating case for decision''))
         | Some (caseName, None) \<Rightarrow> Some (
             attempt (wrapped (CreateCase E newCaseId now []
                 (automaticCreateCaseAttributes scenarioOrgId decision params caseName CaseTypeDecision) False tx)
                 ''error creating case for decision'') (\<lambda>(newCase, tx1).
             attempt (wrapped (send_case_webhook E ''case.created_from_workflow'' (Case_Id newCase)
                 (new_case_tags (UuidStr E) scenarioOrgId (Case_Id newCase) (WP_TagsToAdd params) tx1))
                 ''error creating webhook event'')
               (creation_review W E newCase))))"

section \<open>The actions\<close>

text \<open>An action that succeeds has put the decision in a case.\<close>

definition AutomaticDecisionToCase ::
    "('j, 'f) workflow_env \<Rightarrow> case_env \<Rightarrow> string \<Rightarrow> int \<Rightarrow> 'f expression_evaluator \<Rightarrow> string \<Rightarrow> uuid
     \<Rightarrow> 'f workflow_decision \<Rightarrow> WorkflowType \<Rightarrow> 'f WorkflowActionCaseParams \<Rightarrow> case_db \<Rightarrow> (go_error + case_db) option" where
  "AutomaticDecisionToCase W E newCaseId now ev defaultName scenarioOrgId decision action params tx =
     (let create = createNewCaseForDecision W E newCaseId now ev defaultName scenarioOrgId decision params
      in case action of
           WorkflowCreateCase \<Rightarrow> create tx
         | WorkflowAddToCaseIfPossible \<Rightarrow>
            (case addToOpenCase E scenarioOrgId decision params tx of
               (None, tx1) \<Rightarrow> create tx1
             | (Some matchedCase, tx1) \<Rightarrow> Some (
                 attempt (wrapped (GetCaseById (Case_Id matchedCase) tx1) ''error retrieving case'') (\<lambda>c.
                   send_case_webhook E ''case.decisions_updated'' (Case_Id c) tx1)))
         | WorkflowDisabled \<Rightarrow> Some (Inl (ErrNew ''unknown workflow type'')))"

text \<open>The flag tells whether an action has added the decision to a case; later actions are then skipped.\<close>

fun perform_actions ::
    "('j, 'f) workflow_env \<Rightarrow> case_env \<Rightarrow> string \<Rightarrow> int \<Rightarrow> 'f expression_evaluator \<Rightarrow> string \<Rightarrow> uuid
     \<Rightarrow> 'f workflow_decision \<Rightarrow> 'j WorkflowAction list \<Rightarrow> bool \<Rightarrow> case_db \<Rightarrow> (go_error + bool \<times> case_db) option" where
  "perform_actions W E newCaseId now ev defaultName scenarioOrgId decision [] addedToCase tx = Some (Inr (addedToCase, tx))"
| "perform_actions W E newCaseId now ev defaultName scenarioOrgId decision (action # actions) addedToCase tx =
     (if WA_Action action = WorkflowDisabled \<or> addedToCase
      then perform_actions W E newCaseId now ev defaultName scenarioOrgId decision actions addedToCase tx
      else (case Unmarshal_case W (WA_Params action) of
        Inl err \<Rightarrow> Some (Inl (ErrWrap err ''could not unmarshal workflow action parameters''))
      | Inr params \<Rightarrow>
         (case AutomaticDecisionToCase W E newCaseId now ev defaultName scenarioOrgId decision (WA_Action action) params tx of
            None \<Rightarrow> None
          | Some (Inl err) \<Rightarrow> Some (Inl (ErrWrap err ''error while executing workflow action''))
          | Some (Inr tx1) \<Rightarrow>
              perform_actions W E newCaseId now ev defaultName scenarioOrgId decision actions True tx1)))"

definition ProcessDecisionWorkflows ::
    "('j, 'f) workflow_env \<Rightarrow> case_env \<Rightarrow> string \<Rightarrow> int \<Rightarrow> 'f expression_evaluator \<Rightarrow> string \<Rightarrow> uuid
     \<Rightarrow> 'f workflow_decision \<Rightarrow> 'j Workflow list \<Rightarrow> case_db \<Rightarrow> (go_error + bool \<times> case_db) option" where
  "ProcessDecisionWorkflows W E newCaseId now ev defaultName scenarioOrgId decision rules tx =
     (case matchingRules W (UuidStr E) ev decision rules of
        None \<Rightarrow> None
      | Some (Inl err) \<Rightarrow> Some (Inl err)
      | Some (Inr matching) \<Rightarrow> perform_actions W E newCaseId now ev defaultName scenarioOrgId decision
          (concat (map WF_Actions matching)) False tx)"

text \<open>The job of one decision, in its transaction.\<close>

definition workflow_job ::
    "('j, 'f) workflow_env \<Rightarrow> case_env \<Rightarrow> string \<Rightarrow> int \<Rightarrow> 'f expression_evaluator \<Rightarrow> string \<Rightarrow> uuid
     \<Rightarrow> 'f workflow_decision \<Rightarrow> 'j Workflow list \<Rightarrow> case_db \<Rightarrow> ((go_error + bool) \<times> case_db) option" where
  "workflow_job W E newCaseId now ev defaultName scenarioOrgId decision rules db =
     map_option (\<lambda>result. Transaction (\<lambda>_. result) db)
       (ProcessDecisionWorkflows W E newCaseId now ev defaultName scenarioOrgId decision rules db)"

end
