(* ===== verification/Case_State.thy ===== *)
theory Case_State
  imports Case_Laws Decision_Workflows
begin

text \<open>
  The tables of cases over time: the requests on a case, creation, mass updates, the workflow jobs and the
  writes of other components are steps. What every request keeps follows from the laws of its steps.
\<close>

section \<open>Requests on a case\<close>

inductive case_action :: "case_env \<Rightarrow> string \<Rightarrow> case_db \<Rightarrow> case_db \<Rightarrow> bool" for E where
  assign: "AssignCase E u j a db = (res, db') \<Longrightarrow> case_action E j db db'"
| unassign: "UnassignCase E u j db = (res, db') \<Longrightarrow> case_action E j db db'"
| add_decisions: "AddDecisionsToCase E u j ids db = (res, db') \<Longrightarrow> case_action E j db db'"
| comment: "CreateCaseComment E u j msg db = (res, db') \<Longrightarrow> case_action E j db db'"
| update_tags: "UpdateCaseTags E u j ts db = (res, db') \<Longrightarrow> case_action E j db db'"
| add_tags: "AddCaseTags E j ts db = (res, db') \<Longrightarrow> case_action E j db db'"
| remove_tag: "RemoveCaseTag E j t db = (res, db') \<Longrightarrow> case_action E j db db'"
| review: "ReviewCaseDecisions E u d s msg db = (res, db') \<Longrightarrow> j = the (D_CaseId (hd (DecisionsById [d] db)))
    \<Longrightarrow> case_action E j db db'"
| escalate: "EscalateCase E j db = (res, db') \<Longrightarrow> case_action E j db db'"

inductive snooze_action :: "case_env \<Rightarrow> string \<Rightarrow> case_db \<Rightarrow> case_db \<Rightarrow> bool" for E where
  snooze: "Snooze E fmt now u j until db = (res, db') \<Longrightarrow> snooze_action E j db db'"
| unsnooze: "Unsnooze E fmt now u j db = (res, db') \<Longrightarrow> snooze_action E j db db'"

text \<open>The checks that a request made when it changed something.\<close>

definition case_access :: "case_env \<Rightarrow> case_db \<Rightarrow> Case \<Rightarrow> bool" where
  "case_access E db c \<longleftrightarrow> (\<exists>ids. available E (OrganizationId c) db = Inr ids \<and> ReadOrUpdateCase (CaseCreds E) c ids = None)"

definition granted :: "case_env \<Rightarrow> string \<Rightarrow> case_db \<Rightarrow> bool" where
  "granted E j db \<longleftrightarrow> (\<exists>c. find_case j db = Some c \<and> case_access E db c)"

lemma ReadOrUpdateCase_decisions [simp]: "ReadOrUpdateCase e (c\<lparr>CaseDecisions := ds\<rparr>) ids = ReadOrUpdateCase e c ids"
  by (simp add: ReadOrUpdateCase_def)

declare wrapped_Inr [simp]

lemma grantedI:
  "GetCaseById j db = Inr c \<Longrightarrow> available E (OrganizationId c) db = Inr ids \<Longrightarrow> ReadOrUpdateCase (CaseCreds E) c ids = None
   \<Longrightarrow> granted E j db"
  by (auto simp: GetCaseById_Inr granted_def case_access_def)

section \<open>Running a request\<close>

text \<open>
  \<open>runs\<close> and \<open>ends\<close> say of a part of a request that it acts on the case \<open>j\<close> when it succeeds; \<open>a\<close> are the tables
  before the request. Their rules follow the code, so that they prove what a handler does by themselves.
\<close>

definition runs :: "string \<Rightarrow> case_db \<Rightarrow> go_error + case_db \<Rightarrow> bool" where
  "runs j a m \<longleftrightarrow> (\<forall>b. m = Inr b \<longrightarrow> acts j a b)"

definition results :: "(case_db \<Rightarrow> bool) \<Rightarrow> go_error + 'r \<times> case_db \<Rightarrow> bool" where
  "results P m \<longleftrightarrow> (\<forall>r b. m = Inr (r, b) \<longrightarrow> P b)"

abbreviation ends :: "string \<Rightarrow> case_db \<Rightarrow> go_error + 'r \<times> case_db \<Rightarrow> bool" where
  "ends j a \<equiv> results (acts j a)"

definition read_case :: "string \<Rightarrow> case_db \<Rightarrow> case_db \<Rightarrow> Case \<Rightarrow> bool" where
  "read_case j a b c \<longleftrightarrow> Case_Id c = j \<and> (Case_Status c = CasePending \<longrightarrow> ongoing j a \<or> ongoing j b)"

lemma read_caseI [intro]:
  "GetCaseById j a = Inr c \<Longrightarrow> read_case j a b c" "GetCaseById j b = Inr c \<Longrightarrow> read_case j a b c"
  "getCaseWithDetails E j b = Inr c \<Longrightarrow> read_case j a b c"
  by (auto simp: read_case_def dest!: GetCaseById_ongoing)

lemma results_intros:
  "results P (Inl err)" "P b \<Longrightarrow> results P (Inr (r, b))"
  "(e = None \<Longrightarrow> results P k) \<Longrightarrow> results P (check e k)"
  "(B \<Longrightarrow> results P k) \<Longrightarrow> (\<not> B \<Longrightarrow> results P l) \<Longrightarrow> results P (if B then k else l)"
  "(z = None \<Longrightarrow> results P k) \<Longrightarrow> (\<And>x. z = Some x \<Longrightarrow> results P (h x)) \<Longrightarrow> results P (case z of None \<Rightarrow> k | Some x \<Rightarrow> h x)"
  "(ys = [] \<Longrightarrow> results P k) \<Longrightarrow> (\<And>x xs. ys = x # xs \<Longrightarrow> results P (g x xs))
   \<Longrightarrow> results P (case ys of [] \<Rightarrow> k | x # xs \<Rightarrow> g x xs)"
  "(\<And>x y. p = (x, y) \<Longrightarrow> results P (f x y)) \<Longrightarrow> results P (case p of (x, y) \<Rightarrow> f x y)"
  by (auto simp: results_def check_Inr split: option.splits prod.splits list.splits)

lemma results_attempt: "(\<And>x. m = Inr x \<Longrightarrow> results P (k x)) \<Longrightarrow> results P (attempt m k)"
  by (auto simp: results_def attempt_Inr)

lemma ends_run:
  "runs j a m \<Longrightarrow> (\<And>b. acts j a b \<Longrightarrow> m = Inr b \<Longrightarrow> ends j a (k b)) \<Longrightarrow> ends j a (attempt m k)"
  by (auto simp: results_def runs_def attempt_Inr)

lemma ends_end:
  "ends j a m \<Longrightarrow> (\<And>r b. acts j a b \<Longrightarrow> m = Inr (r, b) \<Longrightarrow> ends j a (k (r, b))) \<Longrightarrow> ends j a (attempt m k)"
  by (auto simp: results_def attempt_Inr)

lemma runs_intros:
  "acts j a b \<Longrightarrow> runs j a (Inr b)" "runs j a (Inl err)"
  "(P \<Longrightarrow> runs j a k) \<Longrightarrow> (\<not> P \<Longrightarrow> runs j a l) \<Longrightarrow> runs j a (if P then k else l)"
  "acts j a b \<Longrightarrow> runs j a (send_case_webhook E ty i b)" "acts j a b \<Longrightarrow> runs j a (triggerAutoAssignment E org inb b)"
  "acts j a b \<Longrightarrow> runs j a (outcome_scores E upd c b)" "acts j a b \<Longrightarrow> runs j a (escalation_review E c inb b)"
  "acts j a b \<Longrightarrow> runs j a (BoostCase j reason b)" "acts j a b \<Longrightarrow> runs j a (UnboostCase j b)"
  by (auto simp: runs_def intro: act_steps)

lemma runs_compose:
  "runs j a m \<Longrightarrow> (\<And>b. acts j a b \<Longrightarrow> runs j a (k b)) \<Longrightarrow> runs j a (attempt m k)"
  "runs j a m \<Longrightarrow> runs j a (wrapped m msg)"
  by (auto simp: runs_def attempt_Inr split: sum.splits)

lemma runs_action:
  "acts j a b \<Longrightarrow> read_case j a b c \<Longrightarrow> runs j a (PerformCaseActionSideEffects E c b)"
  "acts j a b \<Longrightarrow> Case_Id c = j \<Longrightarrow> runs j a (performCaseActionSideEffectsWithoutStatusChange E c b)"
  by (auto simp: runs_def read_case_def elim: acts_action acts_effects)

lemma runs_createCaseTags: "acts j a b \<Longrightarrow> runs j a (createCaseTags E j ts b)"
proof -
  have "createCaseTags E j ts b = Inr c \<Longrightarrow> acts j a b \<Longrightarrow> acts j a c" for c
    by (induction E j ts b rule: createCaseTags.induct)
      (auto simp: attempt_Inr createCaseTag_def intro: act_steps split: if_splits)
  then show "acts j a b \<Longrightarrow> runs j a (createCaseTags E j ts b)" by (simp add: runs_def)
qed

lemma acts_join:
  assumes "acts j a b" "validateDecisions (OrganizationId c) ids b = None" "GetCaseById j b = Inr c"
  shows "acts j a (UpdateDecisionsWithEvents orgId j u ids b)"
proof -
  from assms(3) obtain r where r: "find_case j b = Some r" "OrganizationId r = OrganizationId c"
    by (auto simp: GetCaseById_Inr)
  show ?thesis
    by (rule acts_decisions [OF r(1) assms(1)])
      (use joinable_decision [OF assms(2)] r(2) in \<open>auto simp: joinable_def\<close>)
qed

lemma acts_review: "acts j a b \<Longrightarrow> acts j a (ReviewDecision d s b)"
  by (erule acts_trans)
    (auto simp: acts_def rows_ok_def ReviewDecision_def list_all2_map2 may_join_def intro!: touches_same list.rel_refl_strong)

lemmas act_intros = acts_refl acts_events acts_event_list acts_tables acts_tag_folds acts_fields acts_review

lemmas run_intros = results_intros ends_run ends_end results_attempt runs_intros runs_action runs_createCaseTags

lemma ends_tags_changed: "acts j a b \<Longrightarrow> ends j a (tags_changed E j b)"
  unfolding tags_changed_def by (intro run_intros) (auto intro: act_intros)

lemmas request_intros = act_intros acts_join ends_tags_changed

section \<open>What a request does\<close>

text \<open>It acts on its case, and it changes something only after its checks.\<close>

definition served :: "case_env \<Rightarrow> string \<Rightarrow> case_db \<Rightarrow> case_db \<Rightarrow> bool" where
  "served E j db db' \<longleftrightarrow> acts j db db' \<and> (db' \<noteq> db \<longrightarrow> granted E j db)"

lemma request_acts:
  "Transaction fn db = (res, db') \<Longrightarrow> results (acts j db) (fn db) \<Longrightarrow> acts j db db'"
  by (auto simp: Transaction_def results_def split: sum.splits)

lemma request_served:
  assumes "Transaction fn db = (res, db')" "results (acts j db) (fn db)" "results (\<lambda>b. b \<noteq> db \<longrightarrow> granted E j db) (fn db)"
  shows "served E j db db'"
  using assms by (auto simp: Transaction_def results_def served_def split: sum.splits)

lemma results_granted: "granted E j db \<Longrightarrow> results (\<lambda>b. b \<noteq> db \<longrightarrow> granted E j db) m"
  by (simp add: results_def)

lemma assign_served: "AssignCase E u j assignee db = (res, db') \<Longrightarrow> served E j db db'"
  unfolding AssignCase_def Let_def by (erule request_served; intro run_intros) (auto intro: request_intros grantedI results_granted)

lemma unassign_served: "UnassignCase E u j db = (res, db') \<Longrightarrow> served E j db db'"
  unfolding UnassignCase_def Let_def by (erule request_served; intro run_intros) (auto intro: request_intros grantedI results_granted)

lemma comment_served: "CreateCaseComment E u j msg db = (res, db') \<Longrightarrow> served E j db db'"
  unfolding CreateCaseComment_def Let_def by (erule request_served; intro run_intros) (auto intro: request_intros grantedI results_granted)

lemma add_decisions_served: "AddDecisionsToCase E u j ids db = (res, db') \<Longrightarrow> served E j db db'"
  unfolding AddDecisionsToCase_def Let_def by (erule request_served; intro run_intros) (auto intro: request_intros grantedI results_granted)

lemma update_tags_served: "UpdateCaseTags E u j ts db = (res, db') \<Longrightarrow> served E j db db'"
  unfolding UpdateCaseTags_def Let_def by (erule request_served; intro run_intros) (auto intro: request_intros grantedI results_granted)

lemma add_tags_served: "AddCaseTags E j ts db = (res, db') \<Longrightarrow> served E j db db'"
  unfolding AddCaseTags_def Let_def by (erule request_served; intro run_intros) (auto intro: request_intros grantedI results_granted)

lemma remove_tag_served: "RemoveCaseTag E j t db = (res, db') \<Longrightarrow> served E j db db'"
  unfolding RemoveCaseTag_def Let_def by (erule request_served; intro run_intros) (auto intro: request_intros grantedI results_granted)

lemma escalate_served: "EscalateCase E j db = (res, db') \<Longrightarrow> served E j db db'"
  unfolding EscalateCase_def Let_def by (erule request_served; intro run_intros) (auto intro: request_intros grantedI results_granted)

lemma review_served:
  "ReviewCaseDecisions E u d s msg db = (res, db') \<Longrightarrow> served E (the (D_CaseId (hd (DecisionsById [d] db)))) db db'"
  unfolding ReviewCaseDecisions_def Let_def by (erule request_served; intro run_intros) (auto intro: request_intros grantedI results_granted)

lemma action_served: "case_action E j db db' \<Longrightarrow> served E j db db'"
  by (elim case_action.cases)
    (auto intro: assign_served unassign_served comment_served add_decisions_served update_tags_served add_tags_served
      remove_tag_served escalate_served review_served)

lemma snooze_acts: "Snooze E fmt now u j until db = (res, db') \<Longrightarrow> acts j db db'"
  unfolding Snooze_def Let_def by (erule request_acts, intro run_intros) (auto intro: request_intros)

lemma unsnooze_acts: "Unsnooze E fmt now u j db = (res, db') \<Longrightarrow> acts j db db'"
  unfolding Unsnooze_def Let_def by (erule request_acts, intro run_intros) (auto intro: request_intros)

lemma snooze_action_acts: "snooze_action E j db db' \<Longrightarrow> acts j db db'"
  by (elim snooze_action.cases) (auto intro: snooze_acts unsnooze_acts)

section \<open>The update\<close>

text \<open>An update moves the status of its case; the rest is an action.\<close>

definition moved :: "string \<Rightarrow> case_db \<Rightarrow> case_db \<Rightarrow> bool" where
  "moved j db db' \<longleftrightarrow> touches row_moves j db db' \<and> (rows_ok db \<longrightarrow> rows_ok db')
     \<and> list_all2 (may_join j db) (decisions db) (decisions db')"

lemma acts_moved: "acts j a b \<Longrightarrow> moved j a b"
  by (auto simp: acts_def moved_def intro: touches_mono row_ok_moves)

lemma moved_acts:
  assumes "moved j a b" "acts j b c"
  shows "moved j a c"
proof -
  have join: "may_join j a d d''" if "may_join j a d d'" "may_join j b d' d''" for d d' d''
  proof -
    have "\<exists>c. find_case j a = Some c \<and> OrganizationId c = orgId"
      if "\<exists>c. find_case j b = Some c \<and> OrganizationId c = orgId" for orgId
      using assms(1) that unfolding moved_def touches_def
      by (auto dest!: spec [of _ j] simp: option_rel_Some2 row_moves_def)
    then show ?thesis using that unfolding may_join_def by metis
  qed
  have "list_all2 (may_join j a) (decisions a) (decisions c)"
    by (rule list_all2_trans [OF join]) (use assms in \<open>auto simp: acts_def moved_def\<close>)
  then show ?thesis using assms touches_moves_trans [of j a b c] by (auto simp: acts_def moved_def)
qed

lemma CanTransition_refl [simp]: "CanTransition s s"
  by (simp add: CanTransition_def)

lemma moved_update:
  assumes "cdb_UpdateCase u b = Inr c" "UC_Id u = j"
    "\<And>r. find_case j b = Some r \<Longrightarrow> UC_Status u \<noteq> [] \<Longrightarrow> CanTransition (Case_Status r) (UC_Status u)"
  shows "moved j b c"
proof -
  have c: "c = on_case j (apply_update u) b" "\<forall>r\<in>set (cases b). Case_Id r = j \<longrightarrow> case_checks (apply_update u r)"
    using assms(1,2) by (simp_all add: cdb_UpdateCase_Inr)
  have "touches row_moves j b (on_case j (apply_update u) b)"
    by (rule touches_on_case) (use assms(3) in \<open>auto simp: row_moves_def\<close>)
  moreover have "rows_ok b \<Longrightarrow> rows_ok (on_case j (apply_update u) b)"
    by (rule rows_ok_on_case) (use c(2) in auto)
  ultimately show ?thesis by (simp add: moved_def c(1) list.rel_refl)
qed

lemma results_from: "moved j a b \<Longrightarrow> results (acts j b) m \<Longrightarrow> results (moved j a) m"
  by (auto simp: results_def intro: moved_acts)

lemma started_fields [simp]: "UC_Id (started a c) = UC_Id a"
  by (simp add: started_def)

lemma runs_effects:
  "acts j a b \<Longrightarrow> Case_Id c = j \<Longrightarrow> (UC_Status u = [] \<Longrightarrow> Case_Status c \<noteq> CasePending) \<Longrightarrow> runs j a (update_effects E u c b)"
  unfolding update_effects_def by (intro runs_intros runs_compose runs_action) (auto simp: read_case_def)

lemma moved_start:
  assumes "outcome_scores E u c db = Inr db1" "moved j db1 db2"
  shows "moved j db db2"
proof -
  obtain ss where db1: "db1 = db\<lparr>score_requests := ss\<rparr>" using outcome_scores_Inr [OF assms(1)] by blast
  have "find_case i db1 = find_case i db" for i by (simp add: db1 find_case_def)
  moreover from this have "may_join j db1 = may_join j db" by (intro ext) (simp add: may_join_def)
  moreover have "rows_ok db1 = rows_ok db" by (simp add: rows_ok_def db1)
  ultimately show ?thesis using assms(2) by (simp add: moved_def touches_def) (simp add: db1)
qed

lemma update_moved:
  assumes "update_transaction E userId u db = Inr (r, db')"
  shows "moved (UC_Id u) db db' \<and> (db' \<noteq> db \<longrightarrow> granted E (UC_Id u) db)"
proof -
  obtain c where c: "GetCaseById (UC_Id u) db = Inr c"
    using assms by (auto simp: update_transaction_def attempt_Inr)
  show ?thesis
  proof (cases "isIdenticalCaseUpdate u c")
    case True
    then have "db' = db" using assms c by (auto simp: update_transaction_def attempt_Inr)
    then show ?thesis by (simp add: acts_moved)
  next
    case False
    with assms c obtain ids db1 db2 where
      checked: "available E (OrganizationId c) db = Inr ids" "ReadOrUpdateCase (CaseCreds E) c ids = None"
      "UC_Status (started u c) = [] \<or> CanTransition (Case_Status c) (UC_Status (started u c))"
      and s1: "outcome_scores E (started u c) c db = Inr db1" and s2: "cdb_UpdateCase (started u c) db1 = Inr db2"
      and rest: "attempt (update_effects E (started u c) c db2) (\<lambda>tx3.
               let tx4 = updateCaseCreateEvents (UuidStr E) (started u c) c userId tx3 in
               attempt (getCaseWithDetails E (UC_Id (started u c)) tx4) (\<lambda>updatedCase.
               attempt (send_case_webhook E ''case.updated'' (Case_Id updatedCase) tx4) (\<lambda>tx5.
                 Inr (updatedCase, tx5)))) = Inr (r, db')"
      unfolding update_transaction_def
      by (auto simp: attempt_Inr check_Inr Let_def simp del: started_fields split: if_splits)
    have "cases db1 = cases db" using outcome_scores_Inr [OF s1] by auto
    note same = find_case_cong [OF this]
    have "moved (UC_Id u) db1 db2"
      by (rule moved_update [OF s2]) (use checked(3) c same in \<open>auto simp: GetCaseById_Inr\<close>)
    from moved_start [OF s1 this] have "moved (UC_Id u) db db2" .
    moreover have "Case_Id c = UC_Id u" using c by (auto simp: GetCaseById_Inr dest: find_case_Some)
    moreover have "UC_Status (started u c) = [] \<Longrightarrow> Case_Status c \<noteq> CasePending" by (auto simp: started_def split: if_splits)
    ultimately have "results (moved (UC_Id u) db) (attempt (update_effects E (started u c) c db2) (\<lambda>tx3.
               let tx4 = updateCaseCreateEvents (UuidStr E) (started u c) c userId tx3 in
               attempt (getCaseWithDetails E (UC_Id (started u c)) tx4) (\<lambda>updatedCase.
               attempt (send_case_webhook E ''case.updated'' (Case_Id updatedCase) tx4) (\<lambda>tx5.
                 Inr (updatedCase, tx5)))))"
      unfolding Let_def updateCaseCreateEvents_def
      by (intro results_from [of "UC_Id u" db db2] run_intros runs_effects) (auto intro: act_intros)
    then show ?thesis using rest grantedI [OF c checked(1,2)] by (simp add: results_def)
  qed
qed

section \<open>Creation\<close>

lemma acts_screenings: "acts j a b \<Longrightarrow> acts j a (updateContinuousScreeningsWithEvents str orgId j u ids b)"
  unfolding updateContinuousScreeningsWithEvents_def
  by (cases "ids = []", simp) (simp, intro acts_events acts_fields, erule acts_after, simp_all)

lemma acts_creation_events: "acts j a b \<Longrightarrow> acts j a (creation_events user orgId j u b)"
  by (auto simp: creation_events_def intro!: act_steps)

lemma find_append: "List.find P (xs @ ys) = (case List.find P xs of None \<Rightarrow> List.find P ys | Some x \<Rightarrow> Some x)"
  by (induction xs) simp_all

lemma find_map: "List.find P (map f xs) = map_option f (List.find (\<lambda>x. P (f x)) xs)"
  by (induction xs) simp_all

lemma find_distinct: "distinct (map k xs) \<Longrightarrow> x \<in> set xs \<Longrightarrow> List.find (\<lambda>y. k y = k x) xs = Some x"
  by (induction xs) auto

lemma CreateCase_acts:
  assumes "CreateCase E j now u a user db = Inr (c, db')" "find_case j db = None"
  shows "acts j (cdb_CreateCase j now a db) db'"
proof -
  from assms(1) obtain db1 where v: "validateDecisions (OrganizationId a) (CC_DecisionIds a) db = None"
    and t: "triggerAutoAssignment E (OrganizationId a) (Case_InboxId a) (cdb_CreateCase j now a db) = Inr db1"
    and db': "db' = updateContinuousScreeningsWithEvents (UuidStr E) (OrganizationId a) j u (CC_ContinuousScreeningIds a)
              (UpdateDecisionsWithEvents (OrganizationId a) j u (CC_DecisionIds a)
                (creation_events user (OrganizationId a) j u db1))"
    by (auto simp: CreateCase_def check_Inr attempt_Inr Let_def split: sum.splits)
  obtain ts where db1: "db1 = (cdb_CreateCase j now a db)\<lparr>assign_tasks := ts\<rparr>"
    using triggerAutoAssignment_Inr [OF t] by blast
  let ?b = "creation_events user (OrganizationId a) j u db1"
  have same: "cases ?b = cases (cdb_CreateCase j now a db)" "decisions ?b = decisions db"
    by (simp_all add: creation_events_def db1) (simp_all add: cdb_CreateCase_def)
  have "\<exists>c. find_case j (cdb_CreateCase j now a db) = Some c \<and> OrganizationId c = OrganizationId a"
    using assms(2) by (auto simp: find_case_def cdb_CreateCase_def find_append split: option.splits)
  then obtain c where c: "find_case j ?b = Some c" "OrganizationId c = OrganizationId a"
    by (auto simp: find_case_cong [OF same(1)])
  have "acts j (cdb_CreateCase j now a db) ?b"
    by (intro acts_creation_events acts_outside(2) [OF t]) simp
  then have "acts j (cdb_CreateCase j now a db)
      (UpdateDecisionsWithEvents (OrganizationId a) j u (CC_DecisionIds a) ?b)"
    by (rule acts_decisions [OF c(1)])
      (use joinable_decision [OF v] c(2) same(2) in \<open>auto simp: joinable_def\<close>)
  then show ?thesis unfolding db' by (rule acts_screenings)
qed

lemma case_ok_create:
  assumes "case_ok db" "find_case j db = None"
  shows "case_ok (cdb_CreateCase j now a db)"
proof -
  have new: "Case_Id c \<noteq> j" if "c \<in> set (cases db)" for c
    using assms(2) that by (auto simp: find_case_def find_None_iff)
  have "List.member ValidCaseOutcomes CaseOutcomeUnset" by (simp add: ValidCaseOutcomes_def)
  then have "rows_ok (cdb_CreateCase j now a db)"
    using assms(1) new by (auto simp: case_ok_def rows_ok_def case_checks_def cdb_CreateCase_def)
  moreover have found: "find_case i (cdb_CreateCase j now a db) = Some c" if "find_case i db = Some c" for i c
    using that by (simp add: find_case_def cdb_CreateCase_def find_append)
  have "decisions (cdb_CreateCase j now a db) = decisions db" by (simp add: cdb_CreateCase_def)
  then have "decisions_ok (cdb_CreateCase j now a db)"
    using assms(1) found unfolding case_ok_def decisions_ok_def by metis
  ultimately show ?thesis by (simp add: case_ok_def)
qed

lemma creation_acts:
  assumes "creation_transaction E j now org u a user db = Inr (c, db')" "find_case j db = None"
  shows "acts j (cdb_CreateCase j now a db) db'"
  using assms by (auto simp: creation_transaction_def attempt_Inr check_Inr dest!: CreateCase_acts intro: act_steps)

section \<open>Mass updates\<close>

lemma mass_update_ok:
  assumes "case_ok db" "\<And>c. Case_Id (f c) = Case_Id c" "\<And>c. OrganizationId (f c) = OrganizationId c"
    "\<And>c. case_checks c \<Longrightarrow> case_checks (f c)" "mass_update hit f db = (ids, db')"
  shows "case_ok db'"
proof -
  have cs: "cases db' = map (\<lambda>c. if hit c then f c else c) (cases db)" "decisions db' = decisions db"
    "case_tags db' = case_tags db" "contributors db' = contributors db"
    using assms(5) by (auto simp: mass_update_def)
  have "map Case_Id (cases db') = map Case_Id (cases db)" by (simp add: cs(1) assms(2))
  moreover have "\<forall>c\<in>set (cases db'). case_checks c" using assms(1,4) by (auto simp: case_ok_def rows_ok_def cs(1))
  ultimately have "rows_ok db'" using assms(1) by (simp add: case_ok_def rows_ok_def cs(3,4))
  have rows: "find_case i db' = map_option (\<lambda>c. if hit c then f c else c) (find_case i db)" for i
    unfolding find_case_def cs(1) find_map by (rule arg_cong [where f = "map_option _"]) (simp add: assms(2) cong: if_cong)
  then have "\<exists>c. find_case i db' = Some c \<and> OrganizationId c = orgId"
    if "\<exists>c. find_case i db = Some c \<and> OrganizationId c = orgId" for i orgId
  proof -
    from that obtain c where "find_case i db = Some c" "OrganizationId c = orgId" by blast
    then show ?thesis using rows assms(3) by simp
  qed
  then have "decisions_ok db'" using assms(1) unfolding case_ok_def decisions_ok_def cs(2) by blast
  with \<open>rows_ok db'\<close> show ?thesis by (simp add: case_ok_def)
qed

lemma case_ok_same:
  assumes "case_ok db" "cases db' = cases db" "decisions db' = decisions db" "case_tags db' = case_tags db"
    "contributors db' = contributors db"
  shows "case_ok db'"
  using case_ok_acts [OF assms(1) acts_same [OF assms(2-5)]] .

lemma mass_events_ok: "case_ok (snd p) \<Longrightarrow> case_ok (mass_events E ty old new db p)"
  by (cases p) (auto simp: mass_events_def elim: case_ok_same)

lemma MassUpdate_ok:
  assumes "MassUpdate E req db = (res, db')" "case_ok db"
  shows "case_ok db'"
proof (cases "db' = db")
  case False
  have ok: "case_ok (snd (CaseMassChangeStatus ids st db))" if "st = CaseClosed \<or> st = CasePending" for ids st
    using that unfolding CaseMassChangeStatus_def
    by (intro mass_update_ok [OF assms(2) _ _ _ prod.collapse [symmetric]]) (auto simp: case_checks_def)
  have "case_ok (snd (CaseMassAssign ids u db))" "case_ok (snd (CaseMassMoveToInbox ids i db))" for ids u i
    unfolding CaseMassAssign_def CaseMassMoveToInbox_def
    by (intro mass_update_ok [OF assms(2) _ _ _ prod.collapse [symmetric]]; simp add: case_checks_def)+
  note ok = this ok
  show ?thesis
    using Transaction_changed [OF assms(1) [unfolded MassUpdate_def] False] ok
    by (auto simp: attempt_Inr intro!: mass_events_ok split: CaseMassUpdateAction.splits)
qed (use assms in simp)

section \<open>Workflow jobs\<close>

text \<open>
  What a job does: nothing, or it acts on one case, which is an open case of the organization, or a new
  one. \<open>owned\<close> is what the caller of a job provides: the decision is one of the organization.
\<close>

definition owned :: "uuid \<Rightarrow> 'f workflow_decision \<Rightarrow> case_db \<Rightarrow> bool" where
  "owned orgId decision db \<longleftrightarrow> (\<forall>d\<in>set (decisions db). D_Id d = WD_DecisionId decision \<longrightarrow> OrganizationId d = orgId)"

definition filed :: "string \<Rightarrow> int \<Rightarrow> case_db \<Rightarrow> case_db \<Rightarrow> bool" where
  "filed newCaseId now db db' \<longleftrightarrow> (\<exists>j. acts j db db') \<or> (\<exists>a. acts newCaseId (cdb_CreateCase newCaseId now a db) db')"

lemma new_case_acts:
  assumes "createNewCaseForDecision W E j now ev name orgId decision params db = Some (Inr db')" "find_case j db = None"
  shows "\<exists>a. acts j (cdb_CreateCase j now a db) db'"
proof -
  obtain c db1 a db2 where c: "CreateCase E j now [] a False db = Inr (c, db1)"
    and w: "send_case_webhook E ''case.created_from_workflow'' (Case_Id c)
      (new_case_tags (UuidStr E) orgId (Case_Id c) (WP_TagsToAdd params) db1) = Inr db2"
    and r: "creation_review W E c db2 = Inr db'"
    using assms(1) unfolding createNewCaseForDecision_def Let_def
    by (auto simp: attempt_Inr split: option.splits sum.splits prod.splits)
  have "acts j (cdb_CreateCase j now a db) db1" by (rule CreateCase_acts [OF c assms(2)])
  then have "acts j (cdb_CreateCase j now a db) (new_case_tags (UuidStr E) orgId (Case_Id c) (WP_TagsToAdd params) db1)"
    by (simp add: new_case_tags_def act_steps)
  then have "acts j (cdb_CreateCase j now a db) db2" by (rule acts_outside(1) [OF w])
  moreover have "db' = db2 \<or> db' = db2\<lparr>review_tasks := review_tasks db2 @ [Case_Id c]\<rparr>"
    using r by (auto simp: creation_review_def attempt_Inr split: if_splits option.splits)
  ultimately have "acts j (cdb_CreateCase j now a db) db'" by (elim disjE) (simp, erule acts_after, simp_all)
  then show ?thesis by blast
qed

lemma best_match_candidate:
  assumes "best_open_case orgId pivot inbox db = Some c"
  shows "c \<in> set (SelectCasesWithPivot orgId pivot inbox db)"
proof -
  have fold: "foldl (\<lambda>best c. if caseIsBetterMatch c best then c else best) b xs \<in> insert b (set xs)" for b and xs :: "(Case \<times> nat) list"
    by (induction xs arbitrary: b) fastforce+
  let ?g = "\<lambda>c. (c, CountDecisionsByCaseId orgId (Case_Id c) db)"
  have "findBestMatchCase (map ?g cs) \<in> set cs" if "cs \<noteq> []" for cs
    using fold [of "hd (map ?g cs)" "map ?g cs"] that unfolding findBestMatchCase_def by (cases cs) auto
  from this [of "SelectCasesWithPivot orgId pivot inbox db"] show ?thesis
    using assms unfolding best_open_case_def by (cases "SelectCasesWithPivot orgId pivot inbox db" rule: remdups_adj.cases) auto
qed

lemma add_to_open_case_acts:
  assumes "addToOpenCase E orgId decision params db = (Some c, db')" "case_ok db" "owned orgId decision db"
  shows "acts (Case_Id c) db db'"
proof -
  obtain pivot inbox where b: "best_open_case orgId pivot inbox db = Some c"
    and db': "db' = UpdateDecisionsWithEvents (OrganizationId decision) (Case_Id c) [] [WD_DecisionId decision]
             (add_workflow_tags (UuidStr E) orgId (Case_Id c) (WP_TagsToAdd params) db)"
    using assms(1) by (auto simp: addToOpenCase_def split: option.splits)
  have c: "c \<in> set (cases db)" "OrganizationId c = orgId"
    using best_match_candidate [OF b] by (auto simp: SelectCasesWithPivot_def)
  have "find_case (Case_Id c) db = Some c"
    using assms(2) c(1) unfolding find_case_def by (intro find_distinct) (auto simp: case_ok_def rows_ok_def)
  let ?b = "add_workflow_tags (UuidStr E) orgId (Case_Id c) (WP_TagsToAdd params) db"
  have fold: "cases (fold (CreateCaseTag i) ts b) = cases b \<and> decisions (fold (CreateCaseTag i) ts b) = decisions b" for i ts b
    by (induction ts arbitrary: b) simp_all
  have "acts (Case_Id c) db ?b" by (auto simp: add_workflow_tags_def Let_def intro: act_steps acts_refl)
  moreover have "find_case (Case_Id c) ?b = Some c" "decisions ?b = decisions db"
    using \<open>find_case (Case_Id c) db = Some c\<close> fold by (simp_all add: add_workflow_tags_def Let_def find_case_def)
  ultimately show ?thesis
    unfolding db' using assms(3) c(2) by (intro acts_decisions) (auto simp: owned_def)
qed

lemma no_open_case: "addToOpenCase E orgId decision params db = (None, db') \<Longrightarrow> db' = db"
  by (auto simp: addToOpenCase_def split: option.splits)

lemma automatic_cases:
  assumes "AutomaticDecisionToCase W E j now ev name orgId decision action params db = Some (Inr db')"
  shows "createNewCaseForDecision W E j now ev name orgId decision params db = Some (Inr db')
    \<or> (\<exists>c db1 i. addToOpenCase E orgId decision params db = (Some c, db1)
         \<and> send_case_webhook E ''case.decisions_updated'' i db1 = Inr db')"
  using assms by (cases action) (auto simp: AutomaticDecisionToCase_def Let_def attempt_Inr dest: no_open_case
      split: prod.splits option.splits)

lemma actions_once:
  assumes "perform_actions W E j now ev name orgId decision actions added db = Some (Inr (added', db'))"
  shows "added' = added \<and> db' = db \<or> \<not> added \<and> added'
    \<and> (\<exists>action params. AutomaticDecisionToCase W E j now ev name orgId decision action params db = Some (Inr db'))"
  using assms
proof (induction actions arbitrary: added db)
  case (Cons action actions)
  show ?case
  proof (cases "WA_Action action = WorkflowDisabled \<or> added")
    case True
    then show ?thesis using Cons.prems Cons.IH [of added db] by auto
  next
    case False
    with Cons.prems(1) obtain params db1 where
      auto: "AutomaticDecisionToCase W E j now ev name orgId decision (WA_Action action) params db = Some (Inr db1)"
      and rest: "perform_actions W E j now ev name orgId decision actions True db1 = Some (Inr (added', db'))"
      by (auto split: sum.splits option.splits)
    have "added' \<and> db' = db1" using rest Cons.IH [of True db1] by blast
    with auto False show ?thesis by blast
  qed
qed simp

lemma actions_filed:
  assumes "perform_actions W E j now ev name orgId decision actions added db = Some (Inr (added', db'))"
    "case_ok db" "find_case j db = None" "owned orgId decision db"
  shows "added' = added \<and> db' = db \<or> \<not> added \<and> added' \<and> filed j now db db'"
proof -
  have joined: "filed j now db d" if "addToOpenCase E orgId decision params db = (Some c, b)" "send_case_webhook E ty i b = Inr d"
    for params c b ty i d
    using acts_outside(1) [OF that(2) add_to_open_case_acts [OF that(1) assms(2,4)]] unfolding filed_def by blast
  have created: "filed j now db d" if "createNewCaseForDecision W E j now ev name orgId decision params db = Some (Inr d)" for params d
    using new_case_acts [OF that assms(3)] unfolding filed_def by blast
  show ?thesis using actions_once [OF assms(1)] by (blast dest: automatic_cases intro: joined created)
qed

section \<open>The tables over time\<close>

text \<open>
  The identifier of a new case is fresh. \<open>outside\<close> are the writes of other components: decisions are
  stored outside of cases, inboxes, tags and screenings change.
\<close>

inductive case_step :: "('j, 'f) workflow_env \<Rightarrow> case_db \<Rightarrow> case_db \<Rightarrow> bool" for W where
  create_user: "CreateCaseAsUser E j now org u a db = (res, db') \<Longrightarrow> find_case j db = None \<Longrightarrow> case_step W db db'"
| create_client: "CreateCaseAsApiClient E j now org a db = (res, db') \<Longrightarrow> find_case j db = None \<Longrightarrow> case_step W db db'"
| update: "UpdateCase E u a db = (res, db') \<Longrightarrow> case_step W db db'"
| action: "case_action E j db db' \<Longrightarrow> case_step W db db'"
| snoozing: "snooze_action E j db db' \<Longrightarrow> case_step W db db'"
| mass: "MassUpdate E req db = (res, db') \<Longrightarrow> case_step W db db'"
| workflow: "workflow_job W E j now ev name org decision rules db = Some (res, db') \<Longrightarrow> find_case j db = None
    \<Longrightarrow> owned org decision db \<Longrightarrow> case_step W db db'"
| outside: "cases db' = cases db \<Longrightarrow> decisions db' = decisions db @ stored \<Longrightarrow> \<forall>d\<in>set stored. D_CaseId d = None
    \<Longrightarrow> case_tags db' = case_tags db \<Longrightarrow> contributors db' = contributors db \<Longrightarrow> case_step W db db'"

definition empty_case_db :: case_db where
  "empty_case_db = \<lparr>cases = [], decisions = [], screenings = [], case_tags = [], tags = [], contributors = [],
     case_events = [], inboxes = [], case_webhooks = [], assign_tasks = [], review_tasks = [], score_requests = []\<rparr>"

abbreviation case_reachable :: "('j, 'f) workflow_env \<Rightarrow> case_db \<Rightarrow> bool" where
  "case_reachable W \<equiv> (case_step W)\<^sup>*\<^sup>* empty_case_db"

lemma case_ok_moved: "case_ok db \<Longrightarrow> moved j db db' \<Longrightarrow> case_ok db'"
  unfolding case_ok_def moved_def using decisions_ok_acts by blast

lemma job_filed:
  assumes "ProcessDecisionWorkflows W E j now ev name org decision rules db = Some (Inr (added, db'))"
    "case_ok db" "find_case j db = None" "owned org decision db"
  shows "\<not> added \<and> db' = db \<or> added \<and> filed j now db db'"
proof -
  from assms(1) obtain actions where
    "perform_actions W E j now ev name org decision actions False db = Some (Inr (added, db'))"
    by (auto simp: ProcessDecisionWorkflows_def split: option.splits sum.splits)
  from actions_filed [OF this assms(2-4)] show ?thesis by blast
qed

lemma filed_ok: "filed j now db db' \<Longrightarrow> case_ok db \<Longrightarrow> find_case j db = None \<Longrightarrow> case_ok db'"
  by (auto simp: filed_def intro: case_ok_acts dest: case_ok_create)

lemma case_ok_step:
  assumes "case_step W db db'" "case_ok db"
  shows "case_ok db'"
  using assms
proof (induction rule: case_step.induct)
  case (create_user E j now org u a db res db')
  then show ?case using Transaction_changed [of _ db res db'] creation_acts case_ok_acts case_ok_create
    unfolding CreateCaseAsUser_def by metis
next
  case (create_client E j now org a db res db')
  then show ?case using Transaction_changed [of _ db res db'] creation_acts case_ok_acts case_ok_create
    unfolding CreateCaseAsApiClient_def by metis
next
  case (update E u a db res db')
  then show ?case using Transaction_changed [of _ db res db'] update_moved case_ok_moved
    unfolding UpdateCase_def by metis
next
  case (action E j db db')
  then show ?case using action_served case_ok_acts unfolding served_def by blast
next
  case (snoozing E j db db')
  then show ?case using snooze_action_acts case_ok_acts by blast
next
  case (mass E req db res db')
  then show ?case using MassUpdate_ok by blast
next
  case (workflow E j now ev name org decision rules db res db')
  show ?case
  proof (cases "db' = db")
    case False
    from workflow(1) obtain out where out: "ProcessDecisionWorkflows W E j now ev name org decision rules db = Some out"
      "Transaction (\<lambda>_. out) db = (res, db')"
      by (auto simp: workflow_job_def)
    from Transaction_changed [OF out(2) False] obtain added where "out = Inr (added, db')" by blast
    from job_filed [OF out(1) [unfolded this] workflow(4,2,3)] False have "filed j now db db'" by blast
    from filed_ok [OF this workflow(4,2)] show ?thesis .
  qed (use workflow(4) in simp)
next
  case (outside db' db stored)
  have "find_case i db' = find_case i db" for i by (rule find_case_cong) (rule outside)
  then show ?case using outside
    by (auto simp: case_ok_def rows_ok_def decisions_ok_def)
qed

lemma case_ok_reachable: "case_reachable W db \<Longrightarrow> case_ok db"
proof (induction rule: rtranclp_induct)
  case base
  show ?case by (simp add: case_ok_def rows_ok_def decisions_ok_def empty_case_db_def)
qed (rule case_ok_step)

end
