(* ===== verification/Case_Properties.thy ===== *)
theory Case_Properties
  imports Case_State
begin

text \<open>
  The properties of cases and of the workflows that file decisions in them, on the requests and over time,
  and what some requests do beside their intent.
\<close>

section \<open>An example\<close>

text \<open>An inbox and two decisions of the organization 7, a case that a user has created, and its administrator.\<close>

definition case_admin :: Credentials where
  "case_admin = \<lparr>ActorIdentity = \<lparr>Identity_UserId = ''u'', Identity_Email = [], Identity_FirstName = [],
     Identity_LastName = [], Identity_ApiKeyId = [], Identity_ApiKeyName = []\<rparr>,
     Cred_OrganizationId = 7, Cred_Role = ADMIN\<rparr>"

definition case_example :: case_env where
  "case_example = \<lparr>CaseCreds = case_admin, UuidStr = (\<lambda>n. replicate n CHR ''x''), AutoAssignAccess = (\<lambda>_. Inr Allowed),
     AiAssistAccess = (\<lambda>_. Inr Allowed), ScoringAccess = (\<lambda>_. Inr Allowed), ReadUserById = (\<lambda>_. Inl NotFoundError),
     WebhookFails = (\<lambda>_ _. None), AssignTaskFails = (\<lambda>_ _. None), ReviewTaskFails = (\<lambda>_. None)\<rparr>"

definition example_decision :: "string \<Rightarrow> case_decision" where
  "example_decision i = \<lparr>OrganizationId = 7, D_Id = i, D_PivotValue = Some ''p'', D_CaseId = None, D_ReviewStatus = None\<rparr>"

definition inbox_db :: case_db where
  "inbox_db = empty_case_db\<lparr>inboxes := [\<lparr>OrganizationId = 7, Inbox_Id = 3, Inbox_InboxUsers = [], InboxActive = True,
     EscalationInboxId = None, AutoAssignEnabled = False, CaseReviewOnCaseCreated = False, CaseReviewOnEscalate = False\<rparr>],
     decisions := [example_decision ''d'', example_decision ''e'']\<rparr>"

definition example_case :: CreateCaseAttributes where
  "example_case = \<lparr>OrganizationId = 7, Case_InboxId = 3, CC_DecisionIds = [''d''], CC_ContinuousScreeningIds = [],
     CC_Name = ''n'', CC_AssigneeId = None, CC_Type = CaseTypeDecision\<rparr>"

definition created_db :: case_db where
  "created_db = snd (CreateCaseAsUser case_example ''c'' 5 7 ''u'' example_case inbox_db)"

definition example_row :: Case where
  "example_row = \<lparr>OrganizationId = 7, Case_InboxId = 3, Case_Id = ''c'', Case_CreatedAt = 5, AssignedTo = None,
     Case_Name = ''n'', Case_Status = CasePending, Case_Outcome = CaseOutcomeUnset, SnoozedUntil = None, Boost = None,
     Case_Type = CaseTypeDecision, ReviewLevel = None, CaseDecisions = []\<rparr>"

lemma created_row: "find_case ''c'' created_db = Some example_row"
  by code_simp

lemma created_decisions:
  "decisions created_db = [(example_decision ''d'')\<lparr>D_CaseId := Some ''c''\<rparr>, example_decision ''e'']"
  by code_simp

lemma created_reachable: "case_reachable W created_db"
proof -
  have "case_step W empty_case_db inbox_db"
    by (rule outside [where stored = "decisions inbox_db"])
      (simp_all add: empty_case_db_def inbox_db_def example_decision_def)
  moreover obtain res where "CreateCaseAsUser case_example ''c'' 5 7 ''u'' example_case inbox_db = (res, created_db)"
    unfolding created_db_def by (metis prod.collapse)
  then have "case_step W inbox_db created_db"
    by (rule create_user) (simp add: find_case_def inbox_db_def empty_case_db_def)
  ultimately show ?thesis by (meson rtranclp.rtrancl_into_rtrancl rtranclp.rtrancl_refl)
qed

definition example_update :: UpdateCaseAttributes where
  "example_update = (no_update ''c'')\<lparr>UC_Status := CaseClosed, UC_Outcome := ''false_positive''\<rparr>"

definition closed_db :: case_db where
  "closed_db = snd (UpdateCase case_example ''u'' example_update created_db)"

lemma close_example: "\<exists>answer. UpdateCase case_example ''u'' example_update created_db = (Inr answer, closed_db)"
proof -
  have "case fst (UpdateCase case_example ''u'' example_update created_db) of Inl _ \<Rightarrow> False | Inr _ \<Rightarrow> True" by code_simp
  then show ?thesis unfolding closed_db_def
    by (cases "UpdateCase case_example ''u'' example_update created_db") (auto split: sum.splits)
qed



definition joined_db :: case_db where
  "joined_db = snd (AddDecisionsToCase case_example ''u'' ''c'' [''e''] created_db)"

lemma join_example: "\<exists>answer. AddDecisionsToCase case_example ''u'' ''c'' [''e''] created_db = (Inr answer, joined_db)"
proof -
  have "case fst (AddDecisionsToCase case_example ''u'' ''c'' [''e''] created_db) of Inl _ \<Rightarrow> False | Inr _ \<Rightarrow> True" by code_simp
  then show ?thesis unfolding joined_db_def
    by (cases "AddDecisionsToCase case_example ''u'' ''c'' [''e''] created_db") (auto split: sum.splits)
qed

lemma join_action: "case_action case_example ''c'' created_db joined_db"
  using join_example case_action.add_decisions by blast

text \<open>A workflow that files the decision \<open>e\<close> in the open case.\<close>

definition example_params :: "unit WorkflowActionCaseParams" where
  "example_params = \<lparr>WP_InboxId = 3, WP_AnyInbox = False, WP_TitleTemplate = None, WP_TagsToAdd = []\<rparr>"

definition example_workflow :: "(unit, unit) workflow_env" where
  "example_workflow = \<lparr>Unmarshal_strings = (\<lambda>_. Inr []), Unmarshal_rules = (\<lambda>_. Inr []),
     Unmarshal_expression = (\<lambda>_. Inl NotFoundError), Unmarshal_case = (\<lambda>_. Inr example_params),
     HasAiCaseReviewEnabled = (\<lambda>_. Inr False)\<rparr>"

definition example_evaluator :: "unit expression_evaluator" where
  "example_evaluator = (\<lambda>_. None)"

definition filed_decision :: "unit workflow_decision" where
  "filed_decision = \<lparr>OrganizationId = 7, WD_DecisionId = ''e'', WD_Outcome = Review, WD_RuleExecutions = [],
     WD_ScreeningExecutions = [], WD_PivotValue = Some ''p''\<rparr>"

definition example_rule :: "unit Workflow" where
  "example_rule = \<lparr>WF_Conditions = [\<lparr>WC_Function = WorkflowConditionAlways, WC_Params = ()\<rparr>],
     WF_Actions = [\<lparr>WA_Action = WorkflowAddToCaseIfPossible, WA_Params = ()\<rparr>], Fallthrough = False\<rparr>"

section \<open>Who changes a case\<close>






section \<open>The row of a case\<close>

lemma find_frame [simp]:
  "find_case i (CreateCaseEvent ev db) = find_case i db" "find_case i (createCaseContributorIfNotExist a b db) = find_case i db"
  "find_case i (fold CreateCaseEvent evs db) = find_case i db"
proof -
  show "find_case i (CreateCaseEvent ev db) = find_case i db" for ev db by (rule find_case_cong) simp
  then show "find_case i (fold CreateCaseEvent evs db) = find_case i db" by (induction evs arbitrary: db) simp_all
qed (rule find_case_cong, simp)

lemma outside_row:
  "send_case_webhook E ty k b = Inr d \<Longrightarrow> find_case i d = find_case i b"
  "triggerAutoAssignment E org inb b = Inr d \<Longrightarrow> find_case i d = find_case i b"
  "outcome_scores E a c b = Inr d \<Longrightarrow> find_case i d = find_case i b"
  by (auto dest!: outside_D simp: find_case_def)

lemma find_frame_decisions [simp]:
  "find_case i (BatchCreateCaseEvents evs db) = find_case i db" "find_case i (UpdateDecisionCaseId ids k db) = find_case i db"
  by (rule find_case_cong, simp)+

lemma join_row: "i \<noteq> k \<Longrightarrow> find_case i (UpdateDecisionsWithEvents orgId k u ids b) = find_case i b"
  by (simp add: UpdateDecisionsWithEvents_def UnsnoozeCase_def find_on_case)

lemma UpdateCase_row:
  assumes "cdb_UpdateCase a b = Inr d"
  shows "find_case i d = (if i = UC_Id a then map_option (apply_update a) (find_case i b) else find_case i b)"
  using assms by (simp add: cdb_UpdateCase_Inr find_on_case)

lemma apply_unboost: "apply_update ((no_update i)\<lparr>UC_Boost := BoostUnboost\<rparr>) = (\<lambda>r. r\<lparr>Boost := None\<rparr>)"
  by (rule ext) (simp add: apply_update_def no_update_def)

lemma effects_row:
  assumes "performCaseActionSideEffectsWithoutStatusChange E c b = Inr d"
  shows "find_case i d = (if i = Case_Id c then map_option (\<lambda>r. r\<lparr>AssignedTo := (if AssignedTo c = None \<and> sec_UserId (CaseCreds E) \<noteq> None
      then sec_UserId (CaseCreds E) else AssignedTo r), Boost := None\<rparr>) (find_case i b) else find_case i b)"
proof -
  have unboost: "find_case i m' = (if i = Case_Id c then map_option (\<lambda>r. r\<lparr>Boost := None\<rparr>) (find_case i m) else find_case i m)"
    if "UnboostCase (Case_Id c) m = Inr m'" for m m'
    using UpdateCase_row [OF that [unfolded UnboostCase_def], of i] by (simp add: apply_unboost)
  have assigned: "find_case k (SelfAssignOnAction org (Case_Id c) u m)
      = (if k = Case_Id c then map_option (\<lambda>r. r\<lparr>AssignedTo := Some u\<rparr>) (find_case k m) else find_case k m)" for k org u m
    by (simp add: SelfAssignOnAction_def cdb_AssignCase_def find_on_case)
  show ?thesis
  proof (cases "sec_UserId (CaseCreds E)")
    case None
    with assms have "UnboostCase (Case_Id c) b = Inr d"
      by (auto simp: performCaseActionSideEffectsWithoutStatusChange_def attempt_Inr)
    from unboost [OF this] None show ?thesis by (simp add: comp_def)
  next
    case (Some u)
    with assms obtain m where m: "UnboostCase (Case_Id c)
        (if AssignedTo c = None then SelfAssignOnAction (OrganizationId c) (Case_Id c) u b else b) = Inr m"
      "d = createCaseContributorIfNotExist (Case_Id c) u m"
      by (auto simp: performCaseActionSideEffectsWithoutStatusChange_def attempt_Inr)
    have "find_case i d = find_case i m" by (simp add: m(2))
    also note unboost [OF m(1)]
    also have "find_case i (if AssignedTo c = None then SelfAssignOnAction (OrganizationId c) (Case_Id c) u b else b)
      = (if i = Case_Id c \<and> AssignedTo c = None then map_option (\<lambda>r. r\<lparr>AssignedTo := Some u\<rparr>) (find_case i b) else find_case i b)"
      by (simp add: assigned)
    finally show ?thesis using Some by (auto simp: option.map_comp comp_def)
  qed
qed

lemma update_effects_row:
  assumes "update_effects E a c b = Inr d" "UC_Status a = [] \<Longrightarrow> Case_Status c \<noteq> CasePending"
  shows "\<exists>m. performCaseActionSideEffectsWithoutStatusChange E c b = Inr m \<and> (\<forall>i. find_case i d = find_case i m)"
  using assms by (auto simp: update_effects_def PerformCaseActionSideEffects_def attempt_Inr outside_row split: if_splits)

text \<open>The status that an update gives.\<close>

definition next_status :: "UpdateCaseAttributes \<Rightarrow> Case \<Rightarrow> CaseStatus" where
  "next_status a c = (if Case_Status c = CasePending \<and> (UC_Status a = [] \<or> UC_Status a = CasePending) then CaseInvestigating
     else if UC_Status a = [] then Case_Status c else UC_Status a)"

text \<open>C14: a successful update that changes something moves the status along the allowed transitions, a pending case to
  investigation at least, sets the fields that it gives and keeps the others, assigns a case without assignee to
  its user, removes the boost, and touches no other case.\<close>

theorem update_applied:
  assumes "UpdateCase E u a db = (Inr answer, db')" "find_case (UC_Id a) db = Some c" "\<not> isIdenticalCaseUpdate a c"
  shows "CanTransition (Case_Status c) (next_status a c)
    \<and> find_case (UC_Id a) db' = Some (c\<lparr>Case_Status := next_status a c,
        Case_Name := (if UC_Name a = [] then Case_Name c else UC_Name a),
        Case_Outcome := (if UC_Outcome a = [] then Case_Outcome c else UC_Outcome a),
        Case_InboxId := (case UC_InboxId a of None \<Rightarrow> Case_InboxId c | Some i \<Rightarrow> i),
        ReviewLevel := (case UC_ReviewLevel a of None \<Rightarrow> ReviewLevel c | Some l \<Rightarrow> Some l),
        AssignedTo := (if AssignedTo c = None then sec_UserId (CaseCreds E) else AssignedTo c), Boost := None\<rparr>)
    \<and> (\<forall>i. i \<noteq> UC_Id a \<longrightarrow> find_case i db' = find_case i db)"
proof -
  let ?c = "c\<lparr>CaseDecisions := []\<rparr>"
  have get: "GetCaseById (UC_Id a) db = Inr ?c" using assms(2) by (simp add: GetCaseById_Inr)
  have id: "Case_Id c = UC_Id a" using find_case_Some [OF assms(2)] by simp
  have "\<not> isIdenticalCaseUpdate a ?c" using assms(3) by (simp add: isIdenticalCaseUpdate_def)
  with assms(1) get obtain db1 db2 db3 where
      allowed: "UC_Status (started a ?c) = [] \<or> CanTransition (Case_Status ?c) (UC_Status (started a ?c))"
      and s1: "outcome_scores E (started a ?c) ?c db = Inr db1" and s2: "cdb_UpdateCase (started a ?c) db1 = Inr db2"
      and s3: "update_effects E (started a ?c) ?c db2 = Inr db3"
      and s4: "send_case_webhook E ''case.updated'' (Case_Id answer)
        (updateCaseCreateEvents (UuidStr E) (started a ?c) ?c u db3) = Inr db'"
    unfolding UpdateCase_def Transaction_simps update_transaction_def
    by (auto simp: attempt_Inr check_Inr Let_def simp del: started_fields split: if_splits)
  have pending: "UC_Status (started a ?c) = [] \<Longrightarrow> Case_Status ?c \<noteq> CasePending"
    by (auto simp: started_def split: if_splits)
  obtain m where m: "performCaseActionSideEffectsWithoutStatusChange E ?c db2 = Inr m" "\<forall>i. find_case i db3 = find_case i m"
    using update_effects_row [OF s3 pending] by blast
  have row: "find_case i db' = find_case i m" for i
    using m(2) outside_row(1) [OF s4] by (simp add: updateCaseCreateEvents_def)
  have "find_case i db2 = (if i = UC_Id a then map_option (apply_update (started a ?c)) (find_case i db) else find_case i db)" for i
    using UpdateCase_row [OF s2] outside_row(3) [OF s1] by simp
  then have others: "find_case i db' = find_case i db" if "i \<noteq> UC_Id a" for i
    using that effects_row [OF m(1), of i] id by (simp add: row)
  have "find_case (UC_Id a) db2 = Some (apply_update (started a ?c) c)"
    using UpdateCase_row [OF s2, of "UC_Id a"] outside_row(3) [OF s1] assms(2) by simp
  then have "find_case (UC_Id a) db' = Some ((apply_update (started a ?c) c)
      \<lparr>AssignedTo := (if AssignedTo c = None then sec_UserId (CaseCreds E) else AssignedTo c), Boost := None\<rparr>)"
    using effects_row [OF m(1), of "UC_Id a"] id by (auto simp: row apply_update_def)
  moreover have "(apply_update (started a ?c) c)\<lparr>AssignedTo := x, Boost := None\<rparr> = c\<lparr>Case_Status := next_status a c,
        Case_Name := (if UC_Name a = [] then Case_Name c else UC_Name a),
        Case_Outcome := (if UC_Outcome a = [] then Case_Outcome c else UC_Outcome a),
        Case_InboxId := (case UC_InboxId a of None \<Rightarrow> Case_InboxId c | Some i \<Rightarrow> i),
        ReviewLevel := (case UC_ReviewLevel a of None \<Rightarrow> ReviewLevel c | Some l \<Rightarrow> Some l),
        AssignedTo := x, Boost := None\<rparr>" for x
    by (simp add: apply_update_def started_def next_status_def)
  moreover have "CanTransition (Case_Status c) (next_status a c)"
    using allowed by (auto simp: started_def next_status_def split: if_splits)
  moreover have "\<forall>i. i \<noteq> UC_Id a \<longrightarrow> find_case i db' = find_case i db" using others by blast
  ultimately show ?thesis by (simp only: simp_thms)
qed

theorem update_applied_witness: "CanTransition CasePending CaseClosed \<and> find_case ''x'' closed_db = find_case ''x'' created_db"
proof -
  obtain answer where "UpdateCase case_example ''u'' example_update created_db = (Inr answer, closed_db)"
    using close_example by blast
  moreover have "find_case (UC_Id example_update) created_db = Some example_row"
    using created_row by (simp add: example_update_def)
  moreover have "\<not> isIdenticalCaseUpdate example_update example_row" by code_simp
  ultimately have "CanTransition (Case_Status example_row) (next_status example_update example_row)"
    "\<forall>i. i \<noteq> UC_Id example_update \<longrightarrow> find_case i closed_db = find_case i created_db"
    using update_applied by blast+
  then show ?thesis by (simp add: example_update_def example_row_def next_status_def)
qed

text \<open>Any other request on a case only starts the investigation of a pending case: it keeps the other statuses, the
  organization and the type, and it touches no other case.\<close>

theorem actions_only_start:
  assumes "case_action E j db db' \<or> snooze_action E j db db'" "find_case i db = Some c"
  shows "\<exists>c'. find_case i db' = Some c' \<and> (i \<noteq> j \<longrightarrow> c' = c)
    \<and> OrganizationId c' = OrganizationId c \<and> Case_Type c' = Case_Type c
    \<and> (Case_Status c' = Case_Status c \<or> Case_Status c = CasePending \<and> Case_Status c' = CaseInvestigating)"
proof -
  have "touched j db db'"
    using assms(1) action_served snooze_action_acts unfolding served_def acts_def by blast
  then have "rel_option (if i = j then row_ok else (=)) (Some c) (find_case i db')"
    using assms(2) unfolding touches_def by metis
  then show ?thesis by (auto simp: option_rel_Some1 row_ok_def split: if_splits)
qed

theorem actions_only_start_witness:
  "\<exists>c'. find_case ''c'' joined_db = Some c' \<and> Case_Type c' = CaseTypeDecision"
  using actions_only_start [OF disjI1 [OF join_action] created_row] by (auto simp: example_row_def)

section \<open>Decisions of a case\<close>

lemma UpdateCase_decisions: "cdb_UpdateCase a b = Inr d \<Longrightarrow> decisions d = decisions b"
  by (auto simp: cdb_UpdateCase_Inr)

lemma effects_decisions:
  assumes "PerformCaseActionSideEffects E c b = Inr d"
  shows "decisions d = decisions b"
proof -
  have "decisions d = decisions b" if "performCaseActionSideEffectsWithoutStatusChange E c b = Inr d" for b d
    using that by (cases "sec_UserId (CaseCreds E)")
      (auto simp: performCaseActionSideEffectsWithoutStatusChange_def attempt_Inr UnboostCase_def SelfAssignOnAction_def
        cdb_AssignCase_def dest!: UpdateCase_decisions split: if_splits)
  with assms show ?thesis
    by (auto simp: PerformCaseActionSideEffects_def attempt_Inr dest!: UpdateCase_decisions split: if_splits)
qed

lemma refused_Inr: "(if P then Inl err else m) = Inr x \<longleftrightarrow> \<not> P \<and> m = Inr x"
  by simp

definition file_decisions :: "string list \<Rightarrow> string \<Rightarrow> case_decision list \<Rightarrow> case_decision list" where
  "file_decisions ids k ds = map (\<lambda>d. if D_Id d \<in> set ids then d\<lparr>D_CaseId := Some k\<rparr> else d) ds"

lemma join_decisions: "decisions (UpdateDecisionsWithEvents orgId k u ids b) = file_decisions ids k (decisions b)"
proof (cases "ids = []")
  case False
  then have "decisions (UpdateDecisionsWithEvents orgId k u ids b) = decisions (UpdateDecisionCaseId ids k b)"
    by (simp add: UpdateDecisionsWithEvents_def UnsnoozeCase_def)
  then show ?thesis by (simp add: UpdateDecisionCaseId_def file_decisions_def)
qed (simp add: UpdateDecisionsWithEvents_def file_decisions_def)

lemma webhook_tables: "send_case_webhook E ty i b = Inr d \<Longrightarrow> decisions d = decisions b \<and> cases d = cases b"
  by (auto dest!: send_case_webhook_Inr)

text \<open>Decisions that are added to a case were in no case and are of its organization, each is found, and then exactly
  they have joined it.\<close>

theorem add_decisions_exact:
  assumes "AddDecisionsToCase E u j ids db = (Inr answer, db')" "ids \<noteq> []"
  shows "\<exists>c. find_case j db = Some c \<and> Case_Type c = CaseTypeDecision
    \<and> length ids = length (filter (\<lambda>d. D_Id d \<in> set ids) (decisions db))
    \<and> (\<forall>d\<in>set (decisions db). D_Id d \<in> set ids \<longrightarrow> OrganizationId d = OrganizationId c \<and> (D_CaseId d = None \<or> D_CaseId d = Some []))
    \<and> decisions db' = map (\<lambda>d. if D_Id d \<in> set ids then d\<lparr>D_CaseId := Some j\<rparr> else d) (decisions db)"
proof -
  from assms(1) obtain c db1 db2 where c: "GetCaseById j db = Inr c" and ty: "Case_Type c = CaseTypeDecision"
    and v: "validateDecisions (OrganizationId c) ids db = None"
    and s1: "PerformCaseActionSideEffects E c (UpdateDecisionsWithEvents (OrganizationId c) j u ids db) = Inr db1"
    and s2: "(if CaseDecisions c \<noteq> [] then BoostCase j BoostNewDecision db1 else Inr db1) = Inr db2"
    and s3: "send_case_webhook E ''case.decisions_updated'' (Case_Id answer) db2 = Inr db'"
    unfolding AddDecisionsToCase_def Transaction_simps
    by (auto simp: attempt_Inr check_Inr refused_Inr split del: if_split)
  obtain r where r: "find_case j db = Some r" "Case_Type r = Case_Type c" "OrganizationId r = OrganizationId c"
    using c by (auto simp: GetCaseById_Inr)
  have "decisions db2 = decisions db1"
    using s2 by (auto simp: BoostCase_def dest!: UpdateCase_decisions split: if_splits)
  then have "decisions db' = file_decisions ids j (decisions db)"
    using webhook_tables [OF s3] effects_decisions [OF s1] by (simp add: join_decisions)
  moreover have "length ids = length (filter (\<lambda>d. D_Id d \<in> set ids) (decisions db))"
    using v assms(2) by (simp add: validateDecisions_None DecisionsById_def)
  moreover have "\<forall>d\<in>set (decisions db). D_Id d \<in> set ids \<longrightarrow>
      OrganizationId d = OrganizationId r \<and> (D_CaseId d = None \<or> D_CaseId d = Some [])"
    using joinable_decision [OF v] r(3) by (auto simp: joinable_def)
  ultimately show ?thesis using r ty unfolding file_decisions_def by auto
qed

theorem add_decisions_exact_witness:
  "map D_CaseId (decisions joined_db) = [Some ''c'', Some ''c'']"
proof -
  obtain answer where "AddDecisionsToCase case_example ''u'' ''c'' [''e''] created_db = (Inr answer, joined_db)"
    using join_example by blast
  from add_decisions_exact [OF this] have "decisions joined_db
      = map (\<lambda>d. if D_Id d \<in> set [''e''] then d\<lparr>D_CaseId := Some ''c''\<rparr> else d) (decisions created_db)" by auto
  then show ?thesis by (simp add: created_decisions example_decision_def)
qed

section \<open>Workflows\<close>

lemma conditions_hold_True:
  "conditions_hold W str ev decision conds = Some (Inr True) \<longleftrightarrow>
     (\<forall>cond\<in>set conds. \<exists>fn. CreateFunction W str cond = Inr fn \<and> fn ev decision = Some (Inr True))"
  by (induction conds) (auto split: sum.splits option.splits)

text \<open>The rules that a decision matches are those with conditions that all hold, in their order, up to the first one
  without fallthrough; a rule without conditions never matches.\<close>

theorem workflow_rules_selected:
  assumes "matchingRules W str ev decision rules = Some (Inr selected)"
  shows "selected = (let matching = filter (\<lambda>rule. WF_Conditions rule \<noteq> [] \<and> (\<forall>cond\<in>set (WF_Conditions rule).
      \<exists>fn. CreateFunction W str cond = Inr fn \<and> fn ev decision = Some (Inr True))) rules
    in takeWhile Fallthrough matching @ take 1 (dropWhile Fallthrough matching))"
  using assms unfolding conditions_hold_True [symmetric] Let_def
  by (induction rules arbitrary: selected) (auto split: if_splits option.splits sum.splits)

theorem workflow_rules_selected_witness:
  "[example_rule] = take 1 (filter (\<lambda>r. WF_Conditions r \<noteq> []) [example_rule, example_rule])"
proof -
  have "matchingRules example_workflow (\<lambda>_. []) example_evaluator filed_decision [example_rule, example_rule]
      = Some (Inr [example_rule])"
    by (simp add: example_rule_def CreateFunction_def always_def)
  from workflow_rules_selected [OF this] show ?thesis
    by (simp add: example_rule_def)
qed

text \<open>The order of matches, on cases that are open.\<close>

definition no_worse :: "Case \<times> nat \<Rightarrow> Case \<times> nat \<Rightarrow> bool" where
  "no_worse a b \<longleftrightarrow> snd a < snd b \<or> snd a = snd b \<and>
     (Case_Status (fst a) = CasePending \<and> Case_Status (fst b) \<noteq> CasePending
      \<or> Case_Status (fst a) = Case_Status (fst b) \<and> Case_CreatedAt (fst b) \<le> Case_CreatedAt (fst a))"

abbreviation open_case :: "Case \<Rightarrow> bool" where
  "open_case c \<equiv> Case_Status c = CasePending \<or> Case_Status c = CaseInvestigating"

lemma no_worse_trans: "no_worse a b \<Longrightarrow> no_worse b c \<Longrightarrow> no_worse a c"
  by (auto simp: no_worse_def)

lemma better_match:
  "open_case (fst a) \<Longrightarrow> open_case (fst b) \<Longrightarrow> if caseIsBetterMatch a b then no_worse a b else no_worse b a"
  by (auto simp: caseIsBetterMatch_def no_worse_def)

lemma fold_best:
  assumes "open_case (fst b)" "\<forall>x\<in>set xs. open_case (fst x)"
  shows "let m = foldl (\<lambda>best c. if caseIsBetterMatch c best then c else best) b xs in
    m \<in> insert b (set xs) \<and> (\<forall>x\<in>insert b (set xs). no_worse m x)"
  using assms
proof (induction xs arbitrary: b)
  case Nil
  then show ?case by (simp add: no_worse_def)
next
  case (Cons x xs)
  let ?b = "if caseIsBetterMatch x b then x else b"
  have "no_worse ?b x" "no_worse ?b b" using better_match [of x b] Cons.prems by (auto simp: no_worse_def)
  moreover have "open_case (fst ?b)" using Cons.prems by simp
  moreover define m where "m = foldl (\<lambda>best c. if caseIsBetterMatch c best then c else best) ?b xs"
  ultimately have m: "m \<in> insert ?b (set xs)" "\<forall>y\<in>insert ?b (set xs). no_worse m y" "no_worse m ?b"
    using Cons.IH [of ?b] Cons.prems(2) unfolding m_def [symmetric] Let_def by simp_all
  have "no_worse m x" "no_worse m b"
    using no_worse_trans [OF m(3)] \<open>no_worse ?b x\<close> \<open>no_worse ?b b\<close> by blast+
  moreover have "m \<in> insert b (insert x (set xs))" using m(1) by (auto split: if_splits)
  ultimately show ?case using m(2) by (simp add: m_def [symmetric])
qed

text \<open>A decision joins the best of the open cases on its pivot: the one with the fewest pivot values, a pending one
  before one under investigation, then the latest.\<close>

theorem best_match_least:
  assumes "best_open_case orgId pivot inbox db = Some best" "c \<in> set (SelectCasesWithPivot orgId pivot inbox db)"
  shows "best \<in> set (SelectCasesWithPivot orgId pivot inbox db)
    \<and> (CountDecisionsByCaseId orgId (Case_Id best) db < CountDecisionsByCaseId orgId (Case_Id c) db
      \<or> CountDecisionsByCaseId orgId (Case_Id best) db = CountDecisionsByCaseId orgId (Case_Id c) db
        \<and> (Case_Status best = CasePending \<and> Case_Status c = CaseInvestigating
          \<or> Case_Status best = Case_Status c \<and> Case_CreatedAt c \<le> Case_CreatedAt best))"
proof -
  let ?cs = "SelectCasesWithPivot orgId pivot inbox db"
  let ?g = "\<lambda>c. (c, CountDecisionsByCaseId orgId (Case_Id c) db)"
  have statuses: "open_case x" if "x \<in> set ?cs" for x using that by (auto simp: SelectCasesWithPivot_def)
  have "best \<in> set ?cs \<and> no_worse (?g best) (?g c)"
  proof (cases ?cs rule: remdups_adj.cases)
    case (3 x y zs)
    let ?m = "foldl (\<lambda>best c. if caseIsBetterMatch c best then c else best) (?g x) (map ?g (x # y # zs))"
    have m: "?m \<in> ?g ` set ?cs \<and> (\<forall>p\<in>?g ` set ?cs. no_worse ?m p)"
      using fold_best [of "?g x" "map ?g (x # y # zs)"] statuses unfolding 3 Let_def by auto
    then obtain b where b: "b \<in> set ?cs" "?m = ?g b" by blast
    then have "best = b" using assms(1) by (simp add: best_open_case_def 3 findBestMatchCase_def)
    with b m assms(2) show ?thesis by auto
  qed (use assms in \<open>auto simp: best_open_case_def no_worse_def\<close>)
  then show ?thesis using statuses assms(2) by (auto simp: no_worse_def)
qed

theorem best_match_least_witness:
  "example_row \<in> set (SelectCasesWithPivot 7 ''p'' (Some 3) created_db)"
proof -
  have "best_open_case 7 ''p'' (Some 3) created_db = Some example_row"
    "example_row \<in> set (SelectCasesWithPivot 7 ''p'' (Some 3) created_db)" by code_simp+
  from best_match_least [OF this] show ?thesis by blast
qed

text \<open>What an action that files the decision has done.\<close>

definition filed_in :: "string \<Rightarrow> uuid \<Rightarrow> 'f workflow_decision \<Rightarrow> case_db \<Rightarrow> case_db \<Rightarrow> bool" where
  "filed_in j orgId decision db db' \<longleftrightarrow> (\<exists>k. decisions db' = file_decisions [WD_DecisionId decision] k (decisions db)
     \<and> (\<forall>i. i \<noteq> k \<longrightarrow> find_case i db' = find_case i db)
     \<and> (k = j \<or> (\<exists>c. find_case k db = Some c \<and> open_case c \<and> OrganizationId c = orgId)))"

lemma acts_others: "acts j a b \<Longrightarrow> i \<noteq> j \<Longrightarrow> find_case i b = find_case i a"
  unfolding acts_def touches_def by (auto dest!: spec [of _ i] simp: option.rel_eq)

lemma create_case_decisions:
  assumes "CreateCase E j now u a user db = Inr (c, db')"
  shows "decisions db' = file_decisions (CC_DecisionIds a) j (decisions db)"
proof -
  have frame: "decisions (updateContinuousScreeningsWithEvents str orgId k u ids b) = decisions b" for str orgId k u ids b
    by (simp add: updateContinuousScreeningsWithEvents_def UnsnoozeCase_def)
  from assms obtain db1 where t: "triggerAutoAssignment E (OrganizationId a) (Case_InboxId a) (cdb_CreateCase j now a db) = Inr db1"
    and db': "decisions db' = decisions (UpdateDecisionsWithEvents (OrganizationId a) j u (CC_DecisionIds a)
                (creation_events user (OrganizationId a) j u db1))"
    by (auto simp: CreateCase_def check_Inr attempt_Inr Let_def frame split: sum.splits)
  have "decisions db1 = decisions db" using triggerAutoAssignment_Inr [OF t] by (auto simp: cdb_CreateCase_def)
  then show ?thesis by (simp add: db' join_decisions creation_events_def)
qed

lemma new_case_filed:
  assumes "createNewCaseForDecision W E j now ev name orgId decision params db = Some (Inr db')" "find_case j db = None"
  shows "filed_in j orgId decision db db'"
proof -
  obtain c db1 db2 n where c: "CreateCase E j now [] (automaticCreateCaseAttributes orgId decision params n CaseTypeDecision)
        False db = Inr (c, db1)"
    and w: "send_case_webhook E ''case.created_from_workflow'' (Case_Id c)
      (new_case_tags (UuidStr E) orgId (Case_Id c) (WP_TagsToAdd params) db1) = Inr db2"
    and r: "creation_review W E c db2 = Inr db'"
    using assms(1) unfolding createNewCaseForDecision_def Let_def
    by (auto simp: attempt_Inr split: option.splits sum.splits prod.splits)
  have review: "decisions db' = decisions db2"
    using r by (auto simp: creation_review_def attempt_Inr split: if_splits option.splits)
  have tags: "decisions (new_case_tags str org k ts b) = decisions b" for str org k ts b
  proof -
    have "decisions (fold (CreateCaseTag k) xs b) = decisions b" for xs by (induction xs arbitrary: b) simp_all
    then show ?thesis by (simp add: new_case_tags_def)
  qed
  have "decisions db' = file_decisions [WD_DecisionId decision] j (decisions db)"
    using create_case_decisions [OF c] webhook_tables [OF w] review
    by (simp add: tags automaticCreateCaseAttributes_def)
  moreover obtain a where "acts j (cdb_CreateCase j now a db) db'" using new_case_acts [OF assms] by blast
  then have "find_case i db' = find_case i db" if "i \<noteq> j" for i
    using acts_others [OF _ that] that by (simp add: find_case_def cdb_CreateCase_def find_append split: option.splits)
  ultimately show ?thesis by (auto simp: filed_in_def)
qed

lemma open_case_filed:
  assumes "addToOpenCase E orgId decision params db = (Some c, db')" "case_ok db"
  shows "filed_in j orgId decision db db'"
proof -
  obtain pivot inbox where b: "best_open_case orgId pivot inbox db = Some c"
    and db': "db' = UpdateDecisionsWithEvents (OrganizationId decision) (Case_Id c) [] [WD_DecisionId decision]
             (add_workflow_tags (UuidStr E) orgId (Case_Id c) (WP_TagsToAdd params) db)"
    using assms(1) by (auto simp: addToOpenCase_def split: option.splits)
  have c: "c \<in> set (cases db)" "OrganizationId c = orgId" "open_case c"
    using best_match_candidate [OF b] by (auto simp: SelectCasesWithPivot_def)
  have "find_case (Case_Id c) db = Some c"
    using assms(2) c(1) unfolding find_case_def by (intro find_distinct) (auto simp: case_ok_def rows_ok_def)
  moreover have fold: "cases (fold (CreateCaseTag i) ts b) = cases b \<and> decisions (fold (CreateCaseTag i) ts b) = decisions b" for i ts b
    by (induction ts arbitrary: b) simp_all
  then have same: "decisions (add_workflow_tags str org k ts b) = decisions b" "cases (add_workflow_tags str org k ts b) = cases b"
    for str org k ts b by (simp_all add: add_workflow_tags_def Let_def)
  moreover have "find_case i db' = find_case i db" if "i \<noteq> Case_Id c" for i
    unfolding db' join_row [OF that] using find_case_cong [OF same(2)] .
  ultimately show ?thesis using c by (auto simp: filed_in_def db' join_decisions)
qed

lemma webhook_filed:
  "send_case_webhook E ty i b = Inr d \<Longrightarrow> filed_in j orgId decision db b \<Longrightarrow> filed_in j orgId decision db d"
  using webhook_tables [of E ty i b d] outside_row(1) [of E ty i b d] by (simp add: filed_in_def)

lemma actions_filed_in:
  assumes "perform_actions W E j now ev name orgId decision actions added db = Some (Inr (added', db'))"
    "case_ok db" "find_case j db = None"
  shows "added' = added \<and> db' = db \<or> \<not> added \<and> added' \<and> filed_in j orgId decision db db'"
  using actions_once [OF assms(1)] assms(2,3)
  by (auto dest!: automatic_cases dest: new_case_filed open_case_filed intro: webhook_filed)

text \<open>C16: the workflow of a decision that succeeds changes nothing, or files the decision in exactly one case, an open case of
  the organization or the new one: no other decision moves and no other case changes, whatever the number of actions.\<close>

theorem workflow_files_once:
  assumes "case_reachable W db" "find_case j db = None"
    "ProcessDecisionWorkflows W E j now ev name orgId decision rules db = Some (Inr (added, db'))"
  shows "if added then \<exists>k. decisions db' = map (\<lambda>d. if D_Id d = WD_DecisionId decision then d\<lparr>D_CaseId := Some k\<rparr> else d) (decisions db)
       \<and> (\<forall>i. i \<noteq> k \<longrightarrow> find_case i db' = find_case i db)
       \<and> (k = j \<or> (\<exists>c. find_case k db = Some c \<and> (Case_Status c = CasePending \<or> Case_Status c = CaseInvestigating)
            \<and> OrganizationId c = orgId))
     else db' = db"
proof -
  from assms(3) obtain actions where
    "perform_actions W E j now ev name orgId decision actions False db = Some (Inr (added, db'))"
    by (auto simp: ProcessDecisionWorkflows_def split: option.splits sum.splits)
  from actions_filed_in [OF this case_ok_reachable [OF assms(1)] assms(2)]
  show ?thesis by (auto simp: filed_in_def file_decisions_def)
qed

theorem workflow_files_once_witness:
  "\<exists>k (db' :: case_db). map D_CaseId (decisions db') = [Some ''c'', Some k] \<and> (k = ''f'' \<or> find_case k created_db \<noteq> None)"
proof -
  let ?run = "ProcessDecisionWorkflows example_workflow case_example ''f'' 9 example_evaluator [] 7 filed_decision
    [example_rule, example_rule] created_db"
  have "case ?run of Some (Inr (True, _)) \<Rightarrow> True | _ \<Rightarrow> False" by code_simp
  then obtain db' where run: "?run = Some (Inr (True, db'))" by (auto split: option.splits sum.splits bool.splits)
  have "find_case ''f'' created_db = None" by code_simp
  from workflow_files_once [OF created_reachable this run] obtain k where
    "decisions db' = map (\<lambda>d. if D_Id d = WD_DecisionId filed_decision then d\<lparr>D_CaseId := Some k\<rparr> else d) (decisions created_db)"
    "k = ''f'' \<or> find_case k created_db \<noteq> None" by auto
  moreover from this(1) have "map D_CaseId (decisions db') = [Some ''c'', Some k]"
    by (simp add: created_decisions example_decision_def filed_decision_def)
  ultimately show ?thesis
    by - (rule exI [where x = k], rule exI [where x = db'], rule conjI)
qed

section \<open>The tables\<close>

text \<open>C15: after any sequence of requests, mass updates and jobs, the cases have distinct identifiers, one of the three
  statuses and a valid outcome, a decision that is in a case is in one of its organization, and no tag is twice on a case.\<close>

theorem case_data_consistent:
  assumes "case_reachable W db"
  shows "distinct (map Case_Id (cases db))
    \<and> (\<forall>c\<in>set (cases db). Case_Status c \<in> {CasePending, CaseInvestigating, CaseClosed} \<and> Case_Outcome c \<in> set ValidCaseOutcomes)
    \<and> (\<forall>d\<in>set (decisions db). \<forall>j. D_CaseId d = Some j \<and> j \<noteq> [] \<longrightarrow>
         (\<exists>c. find_case j db = Some c \<and> OrganizationId c = OrganizationId d))
    \<and> distinct (map (\<lambda>t. (CT_CaseId t, CT_TagId t)) (filter (\<lambda>t. \<not> CT_Deleted t) (case_tags db)))"
  using case_ok_reachable [OF assms] by (auto simp: case_ok_def rows_ok_def decisions_ok_def case_checks_def)

theorem case_data_consistent_witness: "distinct (map Case_Id (cases created_db)) \<and> cases created_db \<noteq> []"
  using case_data_consistent [OF created_reachable] created_row by (auto simp: find_case_def)

section \<open>Beside the intent\<close>

text \<open>The case of an added decision is never boosted: it is read without its decisions.\<close>

lemma added_decision_no_boost: "map_option Boost (find_case ''c'' joined_db) = Some None"
  by code_simp

text \<open>A snooze is allowed to a member of the organization who is in no inbox.\<close>

definition outsider :: case_env where
  "outsider = case_example\<lparr>CaseCreds := case_admin\<lparr>Cred_Role := BUILDER\<rparr>\<rparr>"

lemma snooze_outside_inbox:
  "getAvailableInboxIds (UuidStr outsider) (CaseCreds outsider) 7 created_db = Inr []
   \<and> (case fst (Snooze outsider (\<lambda>_. []) 0 ''u'' ''c'' 9 created_db) of Inl _ \<Rightarrow> False | Inr _ \<Rightarrow> True)"
  by code_simp

text \<open>The removal of a tag records previous tags that the deletion has changed in place.\<close>

lemma removed_tag_event: "DeleteFunc (\<lambda>i. i = ''a'') [''a'', ''b''] = ([''b''], [''b'', []])"
  by code_simp

text \<open>A mass update reopens a closed case as pending, which no update can do.\<close>

lemma mass_reopen_pending:
  "case fst (MassUpdate case_example \<lparr>MU_Action = ''reopen'', MU_CaseIds = [''c''], MU_AssigneeId = [], MU_InboxId = 0\<rparr> closed_db) of
     Inl _ \<Rightarrow> False | Inr _ \<Rightarrow> map_option Case_Status (find_case ''c''
       (snd (MassUpdate case_example \<lparr>MU_Action = ''reopen'', MU_CaseIds = [''c''], MU_AssigneeId = [], MU_InboxId = 0\<rparr> closed_db)))
         = Some CasePending"
  "\<not> CanTransition CaseClosed CasePending"
  by code_simp+

end
