(* ===== verification/Screening_Reviews.thy ===== *)
theory Screening_Reviews
  imports Case_Editing
begin

text \<open>
  The review of the screenings of decisions (\<^verbatim>\<open>src/models/screening.go\<close>,
  \<^verbatim>\<open>src/repositories/screening_repository.go\<close>, \<open>screening_whitelist_repository.go\<close>,
  \<^verbatim>\<open>src/usecases/screening_usecase.go\<close>): the tables of screenings, of their matches and of the whitelist, beside
  those of cases; the review of a match, the refinement of a screening, the whitelist and the free-form
  searches that are saved.

  The search provider and the hash function are the environment. The payloads of matches, their files and
  their enrichment are left out.
\<close>

section \<open>Data\<close>

definition Screening_IsReviewable :: "ScreeningStatus \<Rightarrow> bool" where
  "Screening_IsReviewable s \<longleftrightarrow> s = ScreeningStatusInReview"

definition Screening_IsRefinable :: "ScreeningStatus \<Rightarrow> bool" where
  "Screening_IsRefinable s \<longleftrightarrow> s = ScreeningStatusInReview \<or> s = ScreeningStatusError"

datatype ScreeningMatchStatus = ScreeningMatchStatusConfirmedHit | ScreeningMatchStatusNoHit
  | ScreeningMatchStatusPending | ScreeningMatchStatusSkipped | ScreeningMatchStatusUnknown

fun ScreeningMatchStatus_String :: "ScreeningMatchStatus \<Rightarrow> string" where
  "ScreeningMatchStatus_String ScreeningMatchStatusConfirmedHit = ''confirmed_hit''"
| "ScreeningMatchStatus_String ScreeningMatchStatusNoHit = ''no_hit''"
| "ScreeningMatchStatus_String ScreeningMatchStatusPending = ''pending''"
| "ScreeningMatchStatus_String ScreeningMatchStatusSkipped = ''skipped''"
| "ScreeningMatchStatus_String ScreeningMatchStatusUnknown = ''unknown''"

definition ScreeningMatchStatusFrom :: "string \<Rightarrow> ScreeningMatchStatus" where
  "ScreeningMatchStatusFrom s =
     (if s = ''confirmed_hit'' then ScreeningMatchStatusConfirmedHit
      else if s = ''no_hit'' then ScreeningMatchStatusNoHit
      else if s = ''pending'' then ScreeningMatchStatusPending
      else if s = ''skipped'' then ScreeningMatchStatusSkipped
      else ScreeningMatchStatusUnknown)"

record Screening = org_owned +
  Sc_Id :: string
  Sc_DecisionId :: string
  Sc_ConfigId :: string
  Sc_Status :: ScreeningStatus
  Sc_CounterpartyIdentifier :: "string option"
  Sc_IsManual :: bool
  Sc_IsArchived :: bool
  Sc_RequestedBy :: "string option"
  Sc_Partial :: bool
  Sc_NumberOfMatches :: nat

record ScreeningMatch =
  SM_Id :: string
  SM_ScreeningId :: string
  SM_EntityId :: string
  SM_Status :: ScreeningMatchStatus
  SM_ReviewedBy :: "string option"

record ScreeningMatchComment =
  CM_MatchId :: string
  CM_CommenterId :: string
  CM_Comment :: string

record ScreeningMatchUpdate =
  UP_MatchId :: string
  UP_ReviewerId :: "string option"
  UP_Status :: ScreeningMatchStatus
  UP_Comment :: "ScreeningMatchComment option"
  UP_Whitelist :: bool

record ScreeningWhitelist = org_owned +
  WL_CounterpartyId :: string
  WL_EntityId :: string
  WL_WhitelistedBy :: "string option"

text \<open>The answer of a provider: the matched entities, and whether there are more of them.\<close>

record search_response =
  SR_EntityIds :: "string list"
  SR_Partial :: bool
  SR_Count :: nat

section \<open>The tables\<close>

record review_db =
  case_tables :: case_db
  screening_rows :: "Screening list"
  match_rows :: "ScreeningMatch list"
  match_comments :: "ScreeningMatchComment list"
  whitelists :: "ScreeningWhitelist list"
  enrichment_tasks :: "string list"

definition GetScreening :: "string \<Rightarrow> review_db \<Rightarrow> go_error + Screening" where
  "GetScreening i db = (case List.find (\<lambda>s. Sc_Id s = i) (screening_rows db) of
     None \<Rightarrow> Inl NotFoundError | Some s \<Rightarrow> Inr s)"

definition GetScreeningMatch :: "string \<Rightarrow> review_db \<Rightarrow> go_error + ScreeningMatch" where
  "GetScreeningMatch i db = (case List.find (\<lambda>m. SM_Id m = i) (match_rows db) of
     None \<Rightarrow> Inl NotFoundError | Some m \<Rightarrow> Inr m)"

definition ListScreeningMatches :: "string \<Rightarrow> review_db \<Rightarrow> ScreeningMatch list" where
  "ListScreeningMatches screeningId db = filter (\<lambda>m. SM_ScreeningId m = screeningId) (match_rows db)"

text \<open>The screening, or the active one of its decision and configuration; a query of one row fails on several.\<close>

definition GetActiveScreeningForDecision :: "string \<Rightarrow> review_db \<Rightarrow> go_error + Screening" where
  "GetActiveScreeningForDecision i db = attempt (GetScreening i db) (\<lambda>askedFor.
     if \<not> Sc_IsArchived askedFor then Inr askedFor
     else (case filter (\<lambda>s. Sc_DecisionId s = Sc_DecisionId askedFor \<and> Sc_ConfigId s = Sc_ConfigId askedFor
               \<and> \<not> Sc_IsArchived s) (screening_rows db) of
         [] \<Rightarrow> Inl NotFoundError
       | [s] \<Rightarrow> Inr s
       | _ \<Rightarrow> Inl (ErrNew ''expected 1 row, got more'')))"

definition ArchiveScreening :: "string \<Rightarrow> review_db \<Rightarrow> review_db" where
  "ArchiveScreening i db = db\<lparr>screening_rows := map (\<lambda>s. if Sc_Id s = i \<and> \<not> Sc_IsArchived s
     then s\<lparr>Sc_IsArchived := True\<rparr> else s) (screening_rows db)\<rparr>"

definition UpdateScreeningStatus :: "string \<Rightarrow> ScreeningStatus \<Rightarrow> review_db \<Rightarrow> review_db" where
  "UpdateScreeningStatus i status db = db\<lparr>screening_rows := map (\<lambda>s. if Sc_Id s = i
     then s\<lparr>Sc_Status := status\<rparr> else s) (screening_rows db)\<rparr>"

definition UpdateScreeningMatchStatus ::
    "ScreeningMatch \<Rightarrow> ScreeningMatchStatus \<Rightarrow> string option \<Rightarrow> review_db \<Rightarrow> go_error + ScreeningMatch \<times> review_db" where
  "UpdateScreeningMatchStatus m status reviewerId db =
     (let db1 = db\<lparr>match_rows := map (\<lambda>x. if SM_Id x = SM_Id m
            then x\<lparr>SM_Status := status, SM_ReviewedBy := reviewerId\<rparr> else x) (match_rows db)\<rparr>
      in attempt (GetScreeningMatch (SM_Id m) db1) (\<lambda>updated. Inr (updated, db1)))"

text \<open>The matches of a new screening are pending, which is the default of the column. An identifier is given to each.\<close>

definition InsertScreening :: "(nat \<Rightarrow> string) \<Rightarrow> Screening \<Rightarrow> string list \<Rightarrow> review_db \<Rightarrow> review_db" where
  "InsertScreening newId s entityIds db = db\<lparr>screening_rows := screening_rows db @ [s],
     match_rows := match_rows db @ map (\<lambda>(k, e). \<lparr>SM_Id = newId k, SM_ScreeningId = Sc_Id s, SM_EntityId = e,
       SM_Status = ScreeningMatchStatusPending, SM_ReviewedBy = None\<rparr>) (enumerate 0 entityIds)\<rparr>"

text \<open>The comment refers to a match, by a foreign key.\<close>

definition AddScreeningMatchComment :: "ScreeningMatchComment \<Rightarrow> review_db \<Rightarrow> go_error + review_db" where
  "AddScreeningMatchComment c db =
     (if list_ex (\<lambda>m. SM_Id m = CM_MatchId c) (match_rows db) then Inr (db\<lparr>match_comments := match_comments db @ [c]\<rparr>)
      else Inl (ErrNew ''foreign key of the comment''))"

definition whitelisted :: "uuid \<Rightarrow> string \<Rightarrow> string \<Rightarrow> ScreeningWhitelist list \<Rightarrow> bool" where
  "whitelisted orgId counterpartyId entityId ws \<longleftrightarrow> list_ex (\<lambda>w. OrganizationId w = orgId
     \<and> WL_CounterpartyId w = counterpartyId \<and> WL_EntityId w = entityId) ws"

definition AddScreeningMatchWhitelist :: "uuid \<Rightarrow> string \<Rightarrow> string \<Rightarrow> string option \<Rightarrow> review_db \<Rightarrow> review_db" where
  "AddScreeningMatchWhitelist orgId counterpartyId entityId reviewerId db =
     (if whitelisted orgId counterpartyId entityId (whitelists db) then db
      else db\<lparr>whitelists := whitelists db @ [\<lparr>OrganizationId = orgId, WL_CounterpartyId = counterpartyId,
        WL_EntityId = entityId, WL_WhitelistedBy = reviewerId\<rparr>]\<rparr>)"

definition DeleteScreeningMatchWhitelist :: "uuid \<Rightarrow> string option \<Rightarrow> string \<Rightarrow> review_db \<Rightarrow> review_db" where
  "DeleteScreeningMatchWhitelist orgId counterpartyId entityId db = db\<lparr>whitelists := filter (\<lambda>w.
     \<not> (OrganizationId w = orgId \<and> WL_EntityId w = entityId
        \<and> (case counterpartyId of None \<Rightarrow> True | Some c \<Rightarrow> WL_CounterpartyId w = c))) (whitelists db)\<rparr>"

definition SearchScreeningMatchWhitelist :: "uuid \<Rightarrow> string option \<Rightarrow> string option \<Rightarrow> review_db \<Rightarrow> ScreeningWhitelist list" where
  "SearchScreeningMatchWhitelist orgId counterpartyId entityId db = filter (\<lambda>w. OrganizationId w = orgId
     \<and> (case entityId of None \<Rightarrow> True | Some e \<Rightarrow> WL_EntityId w = e)
     \<and> (case counterpartyId of None \<Rightarrow> True | Some c \<Rightarrow> WL_CounterpartyId w = c)) (whitelists db)"

section \<open>Access\<close>

text \<open>A client of the API is not asked for the case, nor for the organization.\<close>

definition enforceCanReadOrUpdateCase :: "case_env \<Rightarrow> string \<Rightarrow> case_db \<Rightarrow> go_error + case_decision" where
  "enforceCanReadOrUpdateCase E decisionId db = (case DecisionsById [decisionId] db of
     [] \<Rightarrow> Inl (ErrWrap NotFoundError ''could not find the decision linked to the screening'')
   | d # _ \<Rightarrow>
      if Cred_Role (CaseCreds E) \<noteq> API_CLIENT then
        (case Option.bind (D_CaseId d) (\<lambda>i. find_case i db) of
           None \<Rightarrow> Inl (ErrWrap UnprocessableEntityError ''this screening is not linked to a case'')
         | Some c \<Rightarrow> attempt (wrapped (ListInboxes (UuidStr E) (CaseCreds E) (OrganizationId d) db)
               ''could not retrieve organization inboxes'') (\<lambda>found.
             check (ReadOrUpdateCase (CaseCreds E) c (map Inbox_Id found)) (Inr d)))
      else Inr d)"

definition enforceCanRefineScreening :: "case_env \<Rightarrow> string \<Rightarrow> review_db \<Rightarrow> go_error + case_decision \<times> Screening" where
  "enforceCanRefineScreening E screeningId db = attempt (GetScreening screeningId db) (\<lambda>sc.
     if \<not> Screening_IsRefinable (Sc_Status sc) then Inl NotFoundError
     else attempt (enforceCanReadOrUpdateCase E (Sc_DecisionId sc) (case_tables db)) (\<lambda>d. Inr (d, sc)))"

record screeningContextData =
  ctx_decision :: case_decision
  ctx_case :: "Case option"
  ctx_screening :: Screening
  ctx_match :: ScreeningMatch

definition enforceCanReadOrUpdateScreeningMatch :: "case_env \<Rightarrow> string \<Rightarrow> review_db \<Rightarrow> go_error + screeningContextData" where
  "enforceCanReadOrUpdateScreeningMatch E matchId db =
     attempt (GetScreeningMatch matchId db) (\<lambda>m.
     attempt (GetScreening (SM_ScreeningId m) db) (\<lambda>s.
       if Sc_IsArchived s then Inl UnprocessableEntityError
       else attempt (enforceCanReadOrUpdateCase E (Sc_DecisionId s) (case_tables db)) (\<lambda>d.
         Inr \<lparr>ctx_decision = d, ctx_case = Option.bind (D_CaseId d) (\<lambda>i. find_case i (case_tables db)),
              ctx_screening = s, ctx_match = m\<rparr>)))"

section \<open>The review of a match\<close>

text \<open>What the request checks, on what it read before its transaction.\<close>

definition review_guard :: "ScreeningMatchUpdate \<Rightarrow> screeningContextData \<Rightarrow> go_error option" where
  "review_guard update data =
     (if UP_Status update \<noteq> ScreeningMatchStatusConfirmedHit \<and> UP_Status update \<noteq> ScreeningMatchStatusNoHit
        then Some (ErrWrap BadParameterError ''invalid status received for screening match'')
      else if \<not> Screening_IsReviewable (Sc_Status (ctx_screening data)) then Some UnprocessableEntityError
      else if SM_Status (ctx_match data) \<noteq> ScreeningMatchStatusPending then Some UnprocessableEntityError
      else None)"

definition other_pending :: "screeningContextData \<Rightarrow> review_db \<Rightarrow> ScreeningMatch list" where
  "other_pending data tx = filter (\<lambda>m. SM_Id m \<noteq> SM_Id (ctx_match data) \<and> SM_Status m = ScreeningMatchStatusPending)
     (ListScreeningMatches (Sc_Id (ctx_screening data)) tx)"

definition on_cases :: "(case_db \<Rightarrow> go_error + case_db) \<Rightarrow> review_db \<Rightarrow> go_error + review_db" where
  "on_cases f db = attempt (f (case_tables db)) (\<lambda>c. Inr (db\<lparr>case_tables := c\<rparr>))"

definition screening_case_event ::
    "screeningContextData \<Rightarrow> string option \<Rightarrow> ScreeningMatchStatus \<Rightarrow> review_db \<Rightarrow> review_db" where
  "screening_case_event data reviewerId status db = (case ctx_case data of
     None \<Rightarrow> db
   | Some c \<Rightarrow> db\<lparr>case_tables := CreateCaseEvent
       ((case_event (OrganizationId (ctx_decision data)) (Case_Id c) (if reviewerId = Some [] then None else reviewerId) ScreeningReviewed)
         \<lparr>Ev_ResourceId := Some (D_Id (ctx_decision data)), Ev_ResourceType := Some DecisionResourceType,
          Ev_NewValue := Some (ScreeningMatchStatus_String status)\<rparr>) (case_tables db)\<rparr>)"

fun skip_matches :: "string option \<Rightarrow> ScreeningMatch list \<Rightarrow> review_db \<Rightarrow> go_error + review_db" where
  "skip_matches reviewerId [] db = Inr db"
| "skip_matches reviewerId (m # ms) db =
     attempt (UpdateScreeningMatchStatus m ScreeningMatchStatusSkipped reviewerId db) (\<lambda>(_, db1). skip_matches reviewerId ms db1)"

definition CreateWhitelist :: "case_env \<Rightarrow> uuid \<Rightarrow> string \<Rightarrow> string \<Rightarrow> string option \<Rightarrow> review_db \<Rightarrow> go_error + review_db" where
  "CreateWhitelist E orgId counterpartyId entityId reviewerId db =
     check (WriteWhitelist (CaseCreds E)) (Inr (AddScreeningMatchWhitelist orgId counterpartyId entityId reviewerId db))"

definition DeleteWhitelist :: "case_env \<Rightarrow> uuid \<Rightarrow> string option \<Rightarrow> string \<Rightarrow> review_db \<Rightarrow> go_error + review_db" where
  "DeleteWhitelist E orgId counterpartyId entityId db =
     check (WriteWhitelist (CaseCreds E)) (Inr (DeleteScreeningMatchWhitelist orgId counterpartyId entityId db))"

definition SearchWhitelist_uc ::
    "case_env \<Rightarrow> uuid \<Rightarrow> string option \<Rightarrow> string option \<Rightarrow> review_db \<Rightarrow> go_error + ScreeningWhitelist list" where
  "SearchWhitelist_uc E orgId counterpartyId entityId db =
     check (ReadWhitelist (CaseCreds E)) (Inr (SearchScreeningMatchWhitelist orgId counterpartyId entityId db))"

definition conclude_review ::
    "case_env \<Rightarrow> ScreeningMatchUpdate \<Rightarrow> screeningContextData \<Rightarrow> ScreeningMatch list \<Rightarrow> review_db \<Rightarrow> go_error + review_db" where
  "conclude_review E update data pending tx =
     (let s = ctx_screening data in
      attempt (case ctx_case data of None \<Rightarrow> Inr tx | Some c \<Rightarrow> on_cases (PerformCaseActionSideEffects E c) tx) (\<lambda>tx1.
      attempt (if UP_Status update = ScreeningMatchStatusConfirmedHit
        then attempt (skip_matches (UP_ReviewerId update) pending tx1) (\<lambda>tx2.
          Inr (screening_case_event data (UP_ReviewerId update) ScreeningMatchStatusConfirmedHit
            (UpdateScreeningStatus (Sc_Id s) ScreeningStatusConfirmedHit tx2)))
        else Inr tx1) (\<lambda>tx3.
      let tx4 = (if \<not> Sc_Partial s \<and> UP_Status update = ScreeningMatchStatusNoHit \<and> pending = []
            then screening_case_event data (UP_ReviewerId update) ScreeningMatchStatusNoHit
              (UpdateScreeningStatus (Sc_Id s) ScreeningStatusNoHit tx3)
            else tx3)
      in (case Sc_CounterpartyIdentifier s of
            Some counterparty \<Rightarrow> if UP_Status update = ScreeningMatchStatusNoHit \<and> UP_Whitelist update
              then wrapped (CreateWhitelist E (OrganizationId (ctx_decision data)) counterparty (SM_EntityId (ctx_match data))
                (UP_ReviewerId update) tx4) ''could not whitelist match''
              else Inr tx4
          | None \<Rightarrow> Inr tx4))))"

text \<open>
  The comment is written outside of the transaction, on the tables as they were: it stays when a later
  step fails.
\<close>

definition MatchAddComment :: "case_env \<Rightarrow> string \<Rightarrow> ScreeningMatchComment \<Rightarrow> review_db \<Rightarrow> (go_error + unit) \<times> review_db" where
  "MatchAddComment E matchId c db = (case enforceCanReadOrUpdateScreeningMatch E matchId db of
     Inl err \<Rightarrow> (Inl err, db)
   | Inr _ \<Rightarrow> (case AddScreeningMatchComment c db of Inl err \<Rightarrow> (Inl err, db) | Inr db1 \<Rightarrow> (Inr (), db1)))"

definition review_comment ::
    "case_env \<Rightarrow> ScreeningMatchUpdate \<Rightarrow> screeningContextData \<Rightarrow> review_db \<Rightarrow> (go_error + unit) \<times> review_db" where
  "review_comment E update data db = (case UP_Comment update of
     None \<Rightarrow> (Inr (), db)
   | Some c \<Rightarrow> (case MatchAddComment E (SM_Id (ctx_match data)) c db of
       (Inl err, db1) \<Rightarrow> (Inl (ErrWrap err ''could not add comment while updating match status''), db1)
     | (Inr _, db1) \<Rightarrow> (Inr (), db1)))"

definition review ::
    "case_env \<Rightarrow> ScreeningMatchUpdate \<Rightarrow> screeningContextData \<Rightarrow> review_db \<Rightarrow> (go_error + ScreeningMatch) \<times> review_db" where
  "review E update data db =
     (let pending = other_pending data db in
      case UpdateScreeningMatchStatus (ctx_match data) (UP_Status update) (UP_ReviewerId update) db of
        Inl err \<Rightarrow> (Inl err, db)
      | Inr (updatedMatch, tx1) \<Rightarrow>
         (case review_comment E update data db of
            (Inl err, db1) \<Rightarrow> (Inl err, db1)
          | (Inr _, db1) \<Rightarrow>
             (case conclude_review E update data pending (tx1\<lparr>match_comments := match_comments db1\<rparr>) of
                Inl err \<Rightarrow> (Inl err, db1)
              | Inr tx2 \<Rightarrow> (Inr updatedMatch, tx2))))"

definition UpdateMatchStatus ::
    "case_env \<Rightarrow> ScreeningMatchUpdate \<Rightarrow> review_db \<Rightarrow> (go_error + ScreeningMatch) \<times> review_db" where
  "UpdateMatchStatus E update db = (case enforceCanReadOrUpdateScreeningMatch E (UP_MatchId update) db of
     Inl err \<Rightarrow> (Inl err, db)
   | Inr data \<Rightarrow> (case review_guard update data of
       Some err \<Rightarrow> (Inl err, db)
     | None \<Rightarrow> review E update data db))"

section \<open>Refinement\<close>

record search_env =
  SearchProvider :: "Screening \<Rightarrow> string list \<Rightarrow> go_error + search_response"
  OffloadFails :: "string \<Rightarrow> go_error option"
  IsSelfHosted :: bool
  EnrichTaskFails :: "string \<Rightarrow> bool"

definition getWhitelistFromScreening :: "uuid \<Rightarrow> string option \<Rightarrow> review_db \<Rightarrow> string list" where
  "getWhitelistFromScreening orgId counterpartyIdentifier db = (case counterpartyIdentifier of
     None \<Rightarrow> [] | Some c \<Rightarrow> map WL_EntityId (SearchScreeningMatchWhitelist orgId (Some c) None db))"

definition InitialStatusFromMatches :: "string list \<Rightarrow> ScreeningStatus" where
  "InitialStatusFromMatches entityIds = (if entityIds = [] then ScreeningStatusNoHit else ScreeningStatusInReview)"

definition refined_screening ::
    "string \<Rightarrow> string option \<Rightarrow> case_decision \<Rightarrow> Screening \<Rightarrow> search_response \<Rightarrow> Screening" where
  "refined_screening newScreeningId requestedBy d sc found =
     \<lparr>OrganizationId = OrganizationId d, Sc_Id = newScreeningId, Sc_DecisionId = D_Id d, Sc_ConfigId = Sc_ConfigId sc,
      Sc_Status = InitialStatusFromMatches (SR_EntityIds found), Sc_CounterpartyIdentifier = Sc_CounterpartyIdentifier sc,
      Sc_IsManual = True, Sc_IsArchived = False, Sc_RequestedBy = requestedBy, Sc_Partial = SR_Partial found,
      Sc_NumberOfMatches = SR_Count found\<rparr>"

definition Refine ::
    "case_env \<Rightarrow> search_env \<Rightarrow> string \<Rightarrow> (nat \<Rightarrow> string) \<Rightarrow> string \<Rightarrow> string option \<Rightarrow> review_db \<Rightarrow> (go_error + Screening) \<times> review_db" where
  "Refine E S newScreeningId newMatchId screeningId requestedBy db =
     (case attempt (enforceCanRefineScreening E screeningId db) (\<lambda>(d, sc).
          attempt (SearchProvider S sc (getWhitelistFromScreening (OrganizationId d) (Sc_CounterpartyIdentifier sc) db))
            (\<lambda>found. Inr (d, sc, found))) of
        Inl err \<Rightarrow> (Inl err, db)
      | Inr (d, sc, found) \<Rightarrow> Transaction (\<lambda>tx.
          attempt (GetActiveScreeningForDecision (Sc_Id sc) tx) (\<lambda>oldScreening.
            let tx1 = ArchiveScreening (Sc_Id sc) tx; s = refined_screening newScreeningId requestedBy d sc found in
            check (map_option (\<lambda>err. ErrWrap err ''could not offload screening match payloads'') (OffloadFails S newScreeningId)) (
              let tx2 = InsertScreening newMatchId s (SR_EntityIds found) tx1;
                  tx3 = (if IsSelfHosted S \<and> \<not> EnrichTaskFails S newScreeningId
                    then tx2\<lparr>enrichment_tasks := enrichment_tasks tx2 @ [newScreeningId]\<rparr> else tx2)
              in Inr (s, tx3)))) db)"

end
