(* ===== verification/Continuous_Models.thy ===== *)
theory Continuous_Models
  imports Screening_Reviews
begin

text \<open>
  Continuous screenings: the data (\<^verbatim>\<open>src/models/continuous_screening.go\<close>, \<open>risk_tag.go\<close>), the tables and their
  repository (\<^verbatim>\<open>src/repositories/continuous_screening_repository.go\<close>), and the payloads that are kept in the blob store
  (\<^verbatim>\<open>src/repositories/offloaded_read_writer.go\<close>, \<^verbatim>\<open>src/usecases/continuous_screening/usecase.go\<close>).

  The screenings are rows of the tables of cases. A payload is the text of a JSON document, empty when it is kept
  in the blob store; the readers of its parts, the blob store, the search and the failures of
  webhooks and tasks are the environment. The order of the matches that a query aggregates is not specified.
\<close>

section \<open>Data\<close>

definition IsObjectTriggered :: "'a ContinuousScreening_scheme \<Rightarrow> bool" where
  "IsObjectTriggered s \<longleftrightarrow> CS_TriggerType s = ContinuousScreeningTriggerTypeObjectAdded
     \<or> CS_TriggerType s = ContinuousScreeningTriggerTypeObjectUpdated"

definition IsDatasetTriggered :: "'a ContinuousScreening_scheme \<Rightarrow> bool" where
  "IsDatasetTriggered s \<longleftrightarrow> CS_TriggerType s = ContinuousScreeningTriggerTypeDatasetUpdated"

text \<open>The object that a note of the payload names: its identifier and its type.\<close>

record ContinuousScreeningMatch =
  CSM_Id :: uuid
  CSM_ScreeningId :: uuid
  CSM_EntityId :: string
  CSM_Status :: ScreeningMatchStatus
  CSM_Payload :: string
  CSM_ReviewedBy :: "uuid option"
  CSM_Metadata :: "(string \<times> string) option"
  CSM_Comments :: "ScreeningMatchComment list"

type_synonym ContinuousScreeningWithMatches = "ContinuousScreening \<times> ContinuousScreeningMatch list"

datatype RiskTag = RiskTagUnknown | RiskTagSanctions | RiskTagPEPs | RiskTagAdverseMedia | RiskTagThirdParties

definition OpenSanctionsTopicMapping :: "(string \<times> RiskTag) list" where
  "OpenSanctionsTopicMapping =
     [(''regulatory'', RiskTagAdverseMedia), (''debarment'', RiskTagAdverseMedia), (''special_interest'', RiskTagAdverseMedia),
      (''enrichers'', RiskTagThirdParties), (''crime'', RiskTagAdverseMedia), (''peps'', RiskTagPEPs), (''pep'', RiskTagPEPs),
      (''sanctions'', RiskTagSanctions), (''sanction'', RiskTagSanctions), (''list.sanction'', RiskTagSanctions),
      (''list.sanction.counter'', RiskTagSanctions), (''list.sanction.eu'', RiskTagSanctions), (''list.pep'', RiskTagPEPs),
      (''list.regulatory'', RiskTagAdverseMedia), (''list.risk'', RiskTagAdverseMedia), (''list.wanted'', RiskTagAdverseMedia)]"

definition MapOpenSanctionsTopicToRiskTag :: "string \<Rightarrow> RiskTag" where
  "MapOpenSanctionsTopicToRiskTag t = (case map_of OpenSanctionsTopicMapping t of None \<Rightarrow> RiskTagUnknown | Some r \<Rightarrow> r)"

text \<open>The code keeps the tags as the keys of a map; their order is not specified.\<close>

definition MapOpenSanctionsTopicToRiskTags :: "string list \<Rightarrow> RiskTag list" where
  "MapOpenSanctionsTopicToRiskTags ts = remdups (filter (\<lambda>r. r \<noteq> RiskTagUnknown) (map MapOpenSanctionsTopicToRiskTag ts))"

record ObjectRiskTag = org_owned +
  RT_ObjectType :: string
  RT_ObjectId :: string
  RT_Tag :: RiskTag
  RT_ScreeningId :: uuid
  RT_EntityId :: string
  RT_AnnotatedBy :: "string option"

text \<open>What a search found; each match with the identifier that it has when it was written to the blob store.\<close>

record found_matches =
  FM_Matches :: "(uuid option \<times> string \<times> string) list"
  FM_Partial :: bool
  FM_Status :: ScreeningStatus
  FM_Count :: int

record CreateContinuousScreening =
  IN_Id :: uuid
  IN_OrgId :: uuid
  IN_InboxId :: uuid
  IN_Screening :: found_matches
  IN_ObjectType :: "string option"
  IN_ObjectId :: "string option"
  IN_ObjectInternalId :: "uuid option"
  IN_EntityId :: "string option"
  IN_EntityPayload :: string
  IN_TriggerType :: ContinuousScreeningTriggerType

text \<open>A change of a monitored object, which the next file of changes tells the provider.\<close>

datatype DeltaTrackOperation = DeltaTrackOperationUnknown | DeltaTrackOperationAdd | DeltaTrackOperationUpdate
  | DeltaTrackOperationDelete

record DeltaTrack = org_owned +
  DT_ObjectType :: string
  DT_ObjectId :: string
  DT_ObjectInternalId :: "uuid option"
  DT_EntityId :: string
  DT_Operation :: DeltaTrackOperation

definition AdaptScreeningFromSearchResponse :: "(string \<times> string) list \<Rightarrow> bool \<Rightarrow> int \<Rightarrow> found_matches" where
  "AdaptScreeningFromSearchResponse found partial number =
     \<lparr>FM_Matches = map (\<lambda>(e, p). (None, e, p)) found, FM_Partial = partial,
      FM_Status = InitialStatusFromMatches (map fst found), FM_Count = number\<rparr>"

definition MarbleEntityIdBuilder :: "string \<Rightarrow> string \<Rightarrow> string" where
  "MarbleEntityIdBuilder objectType objectId = ''marble_'' @ objectType @ ''_'' @ objectId"

section \<open>The environment\<close>

record continuous_env =
  CaseEnv :: case_env
  ParseUuid :: "string \<Rightarrow> uuid option"
  OffloadingEnabled :: bool
  ScreeningOffloadingEnabled :: bool
  ReadBlobEntity :: "uuid \<Rightarrow> uuid \<Rightarrow> go_error + string"
  ReadBlobMatch :: "uuid \<Rightarrow> uuid \<Rightarrow> uuid \<Rightarrow> go_error + string"
  WriteBlobMatch :: "uuid \<Rightarrow> uuid \<Rightarrow> uuid \<Rightarrow> string \<Rightarrow> go_error option"
  ReadTopics :: "string \<Rightarrow> go_error + string list"
  ReadNoteMetadata :: "string \<Rightarrow> (string \<times> string) option"
  ReadScore :: "string \<Rightarrow> rat option"
  ReadConfigOrg :: "ContinuousScreening \<Rightarrow> go_error + uuid"
  ReadEntity :: "string \<Rightarrow> go_error + string \<times> string list"
  SearchMore :: "ContinuousScreening \<Rightarrow> string list \<Rightarrow> go_error + found_matches"
  MatchWebhookFails :: "uuid \<Rightarrow> go_error option"
  EnrichmentTaskFails :: "uuid \<Rightarrow> go_error option"

section \<open>The tables\<close>

record continuous_db =
  reviews :: review_db
  cs_matches :: "ContinuousScreeningMatch list"
  cs_comments :: "ScreeningMatchComment list"
  risk_annotations :: "ObjectRiskTag list"
  match_webhooks :: "(ContinuousScreeningWithMatches \<times> ContinuousScreeningMatch) list"
  cs_enrichment_tasks :: "uuid list"
  cs_delta_tracks :: "DeltaTrack list"

abbreviation case_db_of :: "continuous_db \<Rightarrow> case_db" where
  "case_db_of db \<equiv> case_tables (reviews db)"

abbreviation with_case_db :: "case_db \<Rightarrow> continuous_db \<Rightarrow> continuous_db" where
  "with_case_db c db \<equiv> db\<lparr>reviews := (reviews db)\<lparr>case_tables := c\<rparr>\<rparr>"

text \<open>A payload that is empty is not a JSON document: no part of it is read.\<close>

definition adapt_match :: "continuous_env \<Rightarrow> ContinuousScreeningMatch \<Rightarrow> ContinuousScreeningMatch" where
  "adapt_match R m = m\<lparr>CSM_Metadata := (if CSM_Payload m = [] then None else ReadNoteMetadata R (CSM_Payload m)), CSM_Comments := []\<rparr>"

definition find_screening :: "uuid \<Rightarrow> continuous_db \<Rightarrow> ContinuousScreening option" where
  "find_screening i db = List.find (\<lambda>s. CS_Id s = i) (screenings (case_db_of db))"

definition GetContinuousScreeningWithMatchesById ::
    "continuous_env \<Rightarrow> uuid \<Rightarrow> continuous_db \<Rightarrow> go_error + ContinuousScreeningWithMatches" where
  "GetContinuousScreeningWithMatchesById R i db = (case find_screening i db of
     None \<Rightarrow> Inl NotFoundError
   | Some s \<Rightarrow> Inr (s, map (adapt_match R) (filter (\<lambda>m. CSM_ScreeningId m = i) (cs_matches db))))"

definition GetContinuousScreeningMatch :: "continuous_env \<Rightarrow> uuid \<Rightarrow> continuous_db \<Rightarrow> go_error + ContinuousScreeningMatch" where
  "GetContinuousScreeningMatch R i db = (case List.find (\<lambda>m. CSM_Id m = i) (cs_matches db) of
     None \<Rightarrow> Inl NotFoundError | Some m \<Rightarrow> Inr (adapt_match R m))"

definition UpdateContinuousScreeningMatchStatusByBatch ::
    "uuid list \<Rightarrow> ScreeningMatchStatus \<Rightarrow> uuid option \<Rightarrow> continuous_db \<Rightarrow> continuous_db" where
  "UpdateContinuousScreeningMatchStatusByBatch ids newStatus reviewedBy db = db\<lparr>cs_matches := map (\<lambda>m.
     if List.member ids (CSM_Id m) then m\<lparr>CSM_Status := newStatus, CSM_ReviewedBy := reviewedBy\<rparr> else m) (cs_matches db)\<rparr>"

definition UpdateContinuousScreeningMatchStatus :: "continuous_env \<Rightarrow> uuid \<Rightarrow> ScreeningMatchStatus \<Rightarrow> uuid option
    \<Rightarrow> continuous_db \<Rightarrow> go_error + ContinuousScreeningMatch \<times> continuous_db" where
  "UpdateContinuousScreeningMatchStatus R i newStatus reviewedBy db =
     (let db1 = UpdateContinuousScreeningMatchStatusByBatch [i] newStatus reviewedBy db
      in attempt (GetContinuousScreeningMatch R i db1) (\<lambda>m. Inr (m, db1)))"

definition UpdateContinuousScreeningStatus :: "uuid \<Rightarrow> ScreeningStatus \<Rightarrow> continuous_db \<Rightarrow> continuous_db" where
  "UpdateContinuousScreeningStatus i newStatus db = with_case_db ((case_db_of db)\<lparr>screenings := map (\<lambda>s.
     if CS_Id s = i then s\<lparr>CS_Status := newStatus\<rparr> else s) (screenings (case_db_of db))\<rparr>) db"

text \<open>The update of the fields that a request to load more matches gives.\<close>

definition UpdateContinuousScreening :: "uuid \<Rightarrow> int \<Rightarrow> bool \<Rightarrow> continuous_db \<Rightarrow> continuous_db" where
  "UpdateContinuousScreening i numberOfMatches isPartial db = with_case_db ((case_db_of db)\<lparr>screenings := map (\<lambda>s.
     if CS_Id s = i then s\<lparr>CS_NumberOfMatches := numberOfMatches, CS_IsPartial := isPartial\<rparr> else s)
       (screenings (case_db_of db))\<rparr>) db"

definition AddContinuousScreeningMatchComment :: "continuous_env \<Rightarrow> ScreeningMatchComment \<Rightarrow> continuous_db
    \<Rightarrow> go_error + ScreeningMatchComment \<times> continuous_db" where
  "AddContinuousScreeningMatchComment R c db =
     (if list_ex (\<lambda>m. ParseUuid R (CM_MatchId c) = Some (CSM_Id m)) (cs_matches db)
      then Inr (c, db\<lparr>cs_comments := cs_comments db @ [c]\<rparr>) else Inl (ErrNew ''foreign key of the comment''))"

text \<open>The matches of a new screening are pending, which is the default of the column.\<close>

definition new_matches :: "(nat \<Rightarrow> uuid) \<Rightarrow> uuid \<Rightarrow> (uuid option \<times> string \<times> string) list \<Rightarrow> ContinuousScreeningMatch list" where
  "new_matches newId screeningId found = map (\<lambda>(k, i, e, p).
     \<lparr>CSM_Id = (case i of None \<Rightarrow> newId k | Some j \<Rightarrow> j), CSM_ScreeningId = screeningId, CSM_EntityId = e,
      CSM_Status = ScreeningMatchStatusPending, CSM_Payload = p, CSM_ReviewedBy = None, CSM_Metadata = None, CSM_Comments = []\<rparr>)
     (enumerate 0 found)"

definition InsertContinuousScreeningMatches :: "continuous_env \<Rightarrow> (nat \<Rightarrow> uuid) \<Rightarrow> uuid \<Rightarrow> (uuid option \<times> string \<times> string) list
    \<Rightarrow> continuous_db \<Rightarrow> ContinuousScreeningMatch list \<times> continuous_db" where
  "InsertContinuousScreeningMatches R newId screeningId found db =
     (let ms = new_matches newId screeningId found in (map (adapt_match R) ms, db\<lparr>cs_matches := cs_matches db @ ms\<rparr>))"

definition inserted_screening :: "CreateContinuousScreening \<Rightarrow> ContinuousScreening" where
  "inserted_screening a = \<lparr>OrganizationId = IN_OrgId a, CS_Id = IN_Id a, CS_CaseId = None, CS_ObjectType = IN_ObjectType a,
     CS_ObjectId = IN_ObjectId a, CS_EntityId = IN_EntityId a, CS_EntityPayload = IN_EntityPayload a,
     CS_Status = ScreeningStatusFrom (ScreeningStatus_String (FM_Status (IN_Screening a))), CS_TriggerType = IN_TriggerType a,
     CS_IsPartial = FM_Partial (IN_Screening a), CS_NumberOfMatches = FM_Count (IN_Screening a)\<rparr>"

definition InsertContinuousScreening :: "continuous_env \<Rightarrow> (nat \<Rightarrow> uuid) \<Rightarrow> CreateContinuousScreening \<Rightarrow> continuous_db
    \<Rightarrow> ContinuousScreeningWithMatches \<times> continuous_db" where
  "InsertContinuousScreening R newId a db =
     (let s = inserted_screening a;
          db1 = with_case_db ((case_db_of db)\<lparr>screenings := screenings (case_db_of db) @ [s]\<rparr>) db;
          (ms, db2) = InsertContinuousScreeningMatches R newId (IN_Id a) (FM_Matches (IN_Screening a)) db1
      in ((s, ms), db2))"

text \<open>A row that is already there, for an addition or an update of the same version of the object, is not repeated.\<close>

definition same_delta_track :: "DeltaTrack \<Rightarrow> DeltaTrack \<Rightarrow> bool" where
  "same_delta_track t x \<longleftrightarrow> OrganizationId x = OrganizationId t \<and> DT_ObjectType x = DT_ObjectType t \<and> DT_ObjectId x = DT_ObjectId t
     \<and> DT_ObjectInternalId t \<noteq> None \<and> DT_ObjectInternalId x = DT_ObjectInternalId t
     \<and> List.member [DeltaTrackOperationAdd, DeltaTrackOperationUpdate] (DT_Operation t)
     \<and> List.member [DeltaTrackOperationAdd, DeltaTrackOperationUpdate] (DT_Operation x)"

definition CreateContinuousScreeningDeltaTrack :: "DeltaTrack \<Rightarrow> continuous_db \<Rightarrow> continuous_db" where
  "CreateContinuousScreeningDeltaTrack t db =
     (if list_ex (same_delta_track t) (cs_delta_tracks db) then db else db\<lparr>cs_delta_tracks := cs_delta_tracks db @ [t]\<rparr>)"

definition SearchScreeningMatchWhitelistByIds :: "uuid \<Rightarrow> string list \<Rightarrow> string list \<Rightarrow> review_db \<Rightarrow> ScreeningWhitelist list" where
  "SearchScreeningMatchWhitelistByIds orgId counterpartyIds entityIds db =
     (if counterpartyIds = [] \<and> entityIds = [] then []
      else filter (\<lambda>w. OrganizationId w = orgId
       \<and> (counterpartyIds = [] \<or> List.member counterpartyIds (WL_CounterpartyId w))
       \<and> (entityIds = [] \<or> List.member entityIds (WL_EntityId w))) (whitelists db))"

section \<open>Payloads in the blob store\<close>

definition HydrateContinuousScreeningEntity :: "continuous_env \<Rightarrow> ContinuousScreening \<Rightarrow> go_error + ContinuousScreening" where
  "HydrateContinuousScreeningEntity R s =
     (if \<not> OffloadingEnabled R \<or> CS_EntityId s = None \<or> CS_EntityPayload s \<noteq> [] then Inr s
      else attempt (wrapped (ReadBlobEntity R (OrganizationId s) (CS_Id s)) ''failed to read continuous screening entity payload'')
        (\<lambda>payload. Inr (s\<lparr>CS_EntityPayload := payload\<rparr>)))"

fun HydrateContinuousScreeningMatch ::
    "continuous_env \<Rightarrow> ContinuousScreening \<Rightarrow> ContinuousScreeningMatch list \<Rightarrow> go_error + ContinuousScreeningMatch list" where
  "HydrateContinuousScreeningMatch R s [] = Inr []"
| "HydrateContinuousScreeningMatch R s (m # ms) =
     (if \<not> OffloadingEnabled R \<or> CSM_Payload m \<noteq> [] then attempt (HydrateContinuousScreeningMatch R s ms) (\<lambda>ms'. Inr (m # ms'))
      else attempt (wrapped (ReadBlobMatch R (OrganizationId s) (CS_Id s) (CSM_Id m)) ''failed to read continuous screening match payload'')
        (\<lambda>payload. attempt (HydrateContinuousScreeningMatch R s ms) (\<lambda>ms'. Inr (m\<lparr>CSM_Payload := payload\<rparr> # ms'))))"

definition GetScoreFromPayload :: "continuous_env \<Rightarrow> ContinuousScreeningMatch \<Rightarrow> rat" where
  "GetScoreFromPayload R m = (if CSM_Payload m = [] then 0 else case ReadScore R (CSM_Payload m) of None \<Rightarrow> 0 | Some x \<Rightarrow> x)"

fun continuousScreeningMatchStatusRank :: "ScreeningMatchStatus \<Rightarrow> nat" where
  "continuousScreeningMatchStatusRank ScreeningMatchStatusConfirmedHit = 0"
| "continuousScreeningMatchStatusRank ScreeningMatchStatusPending = 1"
| "continuousScreeningMatchStatusRank ScreeningMatchStatusNoHit = 2"
| "continuousScreeningMatchStatusRank ScreeningMatchStatusSkipped = 3"
| "continuousScreeningMatchStatusRank ScreeningMatchStatusUnknown = 4"

text \<open>By status, then by descending score; the sort is stable, and so are sorts by one key after the other.\<close>

definition sort_matches :: "continuous_env \<Rightarrow> ContinuousScreeningMatch list \<Rightarrow> ContinuousScreeningMatch list" where
  "sort_matches R ms = sort_key (\<lambda>m. continuousScreeningMatchStatusRank (CSM_Status m)) (sort_key (\<lambda>m. - GetScoreFromPayload R m) ms)"

definition hydrateContinuousScreening ::
    "continuous_env \<Rightarrow> ContinuousScreeningWithMatches \<Rightarrow> go_error + ContinuousScreeningWithMatches" where
  "hydrateContinuousScreening R sm =
     attempt (wrapped (HydrateContinuousScreeningEntity R (fst sm)) ''failed to hydrate continuous screening entity'') (\<lambda>s.
     attempt (wrapped (HydrateContinuousScreeningMatch R s (snd sm)) ''failed to hydrate continuous screening match'') (\<lambda>ms.
       Inr (s, sort_matches R ms)))"

text \<open>The matches as they are inserted: with an identifier and without a payload when it is written to the blob store.\<close>

fun OffloadContinuousScreeningMatches :: "continuous_env \<Rightarrow> (nat \<Rightarrow> uuid) \<Rightarrow> nat \<Rightarrow> uuid \<Rightarrow> uuid
    \<Rightarrow> (uuid option \<times> string \<times> string) list \<Rightarrow> go_error + (uuid option \<times> string \<times> string) list" where
  "OffloadContinuousScreeningMatches R newId k orgId screeningId [] = Inr []"
| "OffloadContinuousScreeningMatches R newId k orgId screeningId ((i, e, p) # found) =
     (if \<not> (OffloadingEnabled R \<and> ScreeningOffloadingEnabled R) then Inr ((i, e, p) # found)
      else (let matchId = (case i of None \<Rightarrow> newId k | Some j \<Rightarrow> j) in
        check (map_option (\<lambda>err. ErrWrap err ''failed to offload continuous screening match payload'')
            (WriteBlobMatch R orgId screeningId matchId p)) (
          attempt (OffloadContinuousScreeningMatches R newId (Suc k) orgId screeningId found) (\<lambda>rest.
            Inr ((Some matchId, e, []) # rest)))))"

end
