(* ===== verification/Continuous_Reviews.thy ===== *)
theory Continuous_Reviews
  imports Continuous_Models
begin

text \<open>
  The requests on continuous screenings (\<^verbatim>\<open>src/usecases/continuous_screening/screening.go\<close>, \<open>monitored_object.go\<close>,
  \<open>worker_do_screening.go\<close>, \<open>worker_apply_delta_file.go\<close>, and the risk tags of
  \<^verbatim>\<open>src/usecases/entity_annotations_usecase.go\<close>): how a screening is stored and filed into a case, how its matches are
  reviewed, how it is dismissed, and how more matches are loaded.
\<close>

section \<open>A new screening\<close>

text \<open>The screening that the search found, in a case of its own.\<close>

definition HandleCaseCreation :: "continuous_env \<Rightarrow> string \<Rightarrow> int \<Rightarrow> uuid \<Rightarrow> uuid \<Rightarrow> string \<Rightarrow> ContinuousScreening
    \<Rightarrow> continuous_db \<Rightarrow> go_error + Case \<times> continuous_db" where
  "HandleCaseCreation R newCaseId now orgId inboxId caseName s tx =
     attempt (wrapped (CreateCase (CaseEnv R) newCaseId now (Identity_UserId (ActorIdentity (CaseCreds (CaseEnv R))))
         \<lparr>OrganizationId = orgId, Case_InboxId = inboxId, CC_DecisionIds = [], CC_ContinuousScreeningIds = [CS_Id s],
          CC_Name = caseName, CC_AssigneeId = None, CC_Type = CaseTypeContinuousScreening\<rparr> False (case_db_of tx)) ''create case'')
       (\<lambda>(newCase, c). attempt (wrapped (send_case_webhook (CaseEnv R) ''continuous_screening.created'' (Case_Id newCase) c)
           ''send webhook event for case'') (\<lambda>c1. Inr (newCase, with_case_db c1 tx)))"

definition enqueue_enrichment :: "continuous_env \<Rightarrow> uuid \<Rightarrow> continuous_db \<Rightarrow> go_error + continuous_db" where
  "enqueue_enrichment R i tx = check (EnrichmentTaskFails R i)
     (Inr (tx\<lparr>cs_enrichment_tasks := cs_enrichment_tasks tx @ [i]\<rparr>))"

text \<open>
  The transactions of the three sources of screenings: an object that becomes monitored, an object that changes, and an
  entity of a dataset. The case of the second is skipped when the last screening in review had the same matches.
\<close>

definition file_screening :: "continuous_env \<Rightarrow> bool \<Rightarrow> string \<Rightarrow> int \<Rightarrow> string \<Rightarrow> CreateContinuousScreening
    \<Rightarrow> ContinuousScreening \<Rightarrow> continuous_db \<Rightarrow> go_error + continuous_db" where
  "file_screening R wanted newCaseId now caseName a s tx =
     (if wanted then attempt (HandleCaseCreation R newCaseId now (IN_OrgId a) (IN_InboxId a) caseName s tx) (\<lambda>(_, tx1). Inr tx1)
      else Inr tx)"

definition create_object_transaction :: "continuous_env \<Rightarrow> (nat \<Rightarrow> uuid) \<Rightarrow> string \<Rightarrow> int \<Rightarrow> string \<Rightarrow> CreateContinuousScreening
    \<Rightarrow> continuous_db \<Rightarrow> go_error + ContinuousScreeningWithMatches \<times> continuous_db" where
  "create_object_transaction R newId newCaseId now caseName a tx =
     (let ((s, ms), tx1) = InsertContinuousScreening R newId a tx in
      attempt (enqueue_enrichment R (CS_Id s) tx1) (\<lambda>tx2.
      attempt (file_screening R (CS_Status s = ScreeningStatusInReview) newCaseId now caseName a s tx2) (\<lambda>tx3.
        Inr ((s, ms), tx3))))"

definition track_update :: "CreateContinuousScreening \<Rightarrow> continuous_db \<Rightarrow> continuous_db" where
  "track_update a tx = (case (IN_ObjectType a, IN_ObjectId a) of
     (Some ty, Some i) \<Rightarrow> CreateContinuousScreeningDeltaTrack \<lparr>OrganizationId = IN_OrgId a, DT_ObjectType = ty, DT_ObjectId = i,
       DT_ObjectInternalId = IN_ObjectInternalId a, DT_EntityId = MarbleEntityIdBuilder ty i,
       DT_Operation = DeltaTrackOperationUpdate\<rparr> tx
   | _ \<Rightarrow> tx)"

definition do_screening_transaction :: "continuous_env \<Rightarrow> (nat \<Rightarrow> uuid) \<Rightarrow> string \<Rightarrow> int \<Rightarrow> string \<Rightarrow> bool \<Rightarrow> CreateContinuousScreening
    \<Rightarrow> continuous_db \<Rightarrow> go_error + ContinuousScreeningWithMatches \<times> continuous_db" where
  "do_screening_transaction R newId newCaseId now caseName skipCaseCreation a tx =
     (let ((s, ms), tx1) = InsertContinuousScreening R newId a tx in
      attempt (file_screening R (\<not> skipCaseCreation \<and> FM_Status (IN_Screening a) = ScreeningStatusInReview) newCaseId now caseName a s
          (track_update a tx1))
        (\<lambda>tx2. attempt (enqueue_enrichment R (CS_Id s) tx2) (\<lambda>tx3. Inr ((s, ms), tx3))))"

definition delta_transaction :: "continuous_env \<Rightarrow> (nat \<Rightarrow> uuid) \<Rightarrow> string \<Rightarrow> int \<Rightarrow> string \<Rightarrow> CreateContinuousScreening
    \<Rightarrow> continuous_db \<Rightarrow> go_error + ContinuousScreeningWithMatches \<times> continuous_db" where
  "delta_transaction R newId newCaseId now caseName a tx =
     (let ((s, ms), tx1) = InsertContinuousScreening R newId a tx in
      if FM_Status (IN_Screening a) = ScreeningStatusNoHit then Inr ((s, ms), tx1)
      else attempt (file_screening R True newCaseId now caseName a s tx1) (\<lambda>tx2.
           attempt (enqueue_enrichment R (CS_Id s) tx2) (\<lambda>tx3. Inr ((s, ms), tx3))))"

definition areScreeningMatchesEqual :: "ContinuousScreeningMatch list \<Rightarrow> (uuid option \<times> string \<times> string) list \<Rightarrow> bool" where
  "areScreeningMatchesEqual existing found =
     (length existing = length found \<and> list_all (\<lambda>(_, e, _). List.member (map CSM_EntityId existing) e) found)"

section \<open>Risk tags\<close>

definition ExtractRiskTagsFromEntityPayload :: "continuous_env \<Rightarrow> string \<Rightarrow> go_error + RiskTag list" where
  "ExtractRiskTagsFromEntityPayload R payload =
     (if payload = [] then Inr []
      else attempt (ReadTopics R payload) (\<lambda>topics. Inr (if topics = [] then [] else MapOpenSanctionsTopicToRiskTags topics)))"

definition has_risk_tag :: "ObjectRiskTag \<Rightarrow> ObjectRiskTag list \<Rightarrow> bool" where
  "has_risk_tag t ts \<longleftrightarrow> list_ex (\<lambda>x. OrganizationId x = OrganizationId t \<and> RT_ObjectType x = RT_ObjectType t
     \<and> RT_ObjectId x = RT_ObjectId t \<and> RT_Tag x = RT_Tag t) ts"

text \<open>A tag that the object has is not added again.\<close>

definition AttachObjectRiskTags :: "ObjectRiskTag list \<Rightarrow> continuous_db \<Rightarrow> continuous_db" where
  "AttachObjectRiskTags new tx = tx\<lparr>risk_annotations :=
     fold (\<lambda>t ts. if has_risk_tag t ts then ts else ts @ [t]) new (risk_annotations tx)\<rparr>"

text \<open>The object, the entity, and the payload that names the topics: of the match, or of the screening.\<close>

definition risk_source :: "ContinuousScreening \<Rightarrow> ContinuousScreeningMatch \<Rightarrow> go_error + (string \<times> string) \<times> string \<times> string" where
  "risk_source s m =
     (if IsObjectTriggered s then (case (CS_ObjectType s, CS_ObjectId s) of
        (Some ty, Some i) \<Rightarrow> Inr ((ty, i), CSM_EntityId m, CSM_Payload m)
      | _ \<Rightarrow> Inl (ErrNew ''object type or id missing for object-triggered screening''))
      else if IsDatasetTriggered s then (case CSM_Metadata m of
        None \<Rightarrow> Inl (ErrNew ''match metadata missing for dataset-triggered screening'')
      | Some (i, ty) \<Rightarrow> Inr ((ty, i), (case CS_EntityId s of None \<Rightarrow> [] | Some e \<Rightarrow> e), CS_EntityPayload s))
      else Inl (ErrNew ''unsupported trigger type''))"

definition addRiskTagsFromConfirmedMatch :: "continuous_env \<Rightarrow> ContinuousScreening \<Rightarrow> ContinuousScreeningMatch \<Rightarrow> string option
    \<Rightarrow> continuous_db \<Rightarrow> go_error + continuous_db" where
  "addRiskTagsFromConfirmedMatch R s m reviewerId tx =
     attempt (risk_source s m) (\<lambda>((ty, i), entityId, payload).
     attempt (wrapped (ExtractRiskTagsFromEntityPayload R payload) ''failed to extract risk tags from entity payload'') (\<lambda>tags.
       Inr (if tags = [] then tx
         else AttachObjectRiskTags (map (\<lambda>t. \<lparr>OrganizationId = OrganizationId s, RT_ObjectType = ty, RT_ObjectId = i, RT_Tag = t,
           RT_ScreeningId = CS_Id s, RT_EntityId = entityId, RT_AnnotatedBy = reviewerId\<rparr>) tags) tx)))"

section \<open>The review of a match\<close>

text \<open>The case of the screening; the callers have checked that it has one.\<close>

definition case_of :: "ContinuousScreening \<Rightarrow> string" where
  "case_of s = (case CS_CaseId s of None \<Rightarrow> [] | Some c \<Rightarrow> c)"

definition match_event :: "continuous_env \<Rightarrow> ContinuousScreening \<Rightarrow> string option \<Rightarrow> ScreeningMatchStatus
    \<Rightarrow> ContinuousScreeningMatch \<Rightarrow> CaseEvent" where
  "match_event R s reviewerId newStatus m = (case_event (OrganizationId s) (case_of s) reviewerId ScreeningMatchReviewed)
     \<lparr>Ev_ResourceId := Some (UuidStr (CaseEnv R) (CSM_Id m)), Ev_ResourceType := Some ContinuousScreeningMatchResourceType,
      Ev_NewValue := Some (ScreeningMatchStatus_String newStatus), Ev_PreviousValue := Some (ScreeningMatchStatus_String (CSM_Status m))\<rparr>"

definition screening_event :: "continuous_env \<Rightarrow> ContinuousScreening \<Rightarrow> string option \<Rightarrow> ScreeningStatus \<Rightarrow> CaseEvent" where
  "screening_event R s reviewerId newStatus = (case_event (OrganizationId s) (case_of s) reviewerId ScreeningReviewed)
     \<lparr>Ev_ResourceId := Some (UuidStr (CaseEnv R) (CS_Id s)), Ev_ResourceType := Some ContinuousScreeningResourceType,
      Ev_NewValue := Some (ScreeningStatus_String newStatus), Ev_PreviousValue := Some (ScreeningStatus_String (CS_Status s))\<rparr>"

definition add_case_events :: "CaseEvent list \<Rightarrow> continuous_db \<Rightarrow> continuous_db" where
  "add_case_events evs tx = with_case_db (BatchCreateCaseEvents evs (case_db_of tx)) tx"

definition updateScreeningStatusWithEvent ::
    "continuous_env \<Rightarrow> ContinuousScreening \<Rightarrow> ScreeningStatus \<Rightarrow> string option \<Rightarrow> continuous_db \<Rightarrow> continuous_db" where
  "updateScreeningStatusWithEvent R s newStatus reviewerId tx =
     add_case_events [screening_event R s reviewerId newStatus] (UpdateContinuousScreeningStatus (CS_Id s) newStatus tx)"

definition skipPendingMatches :: "continuous_env \<Rightarrow> ContinuousScreening \<Rightarrow> ContinuousScreeningMatch list \<Rightarrow> string option
    \<Rightarrow> uuid option \<Rightarrow> continuous_db \<Rightarrow> continuous_db" where
  "skipPendingMatches R s pendingMatches reviewerId reviewerUuid tx =
     (if pendingMatches = [] then tx
      else add_case_events (map (match_event R s reviewerId ScreeningMatchStatusSkipped) pendingMatches)
        (UpdateContinuousScreeningMatchStatusByBatch (map CSM_Id pendingMatches) ScreeningMatchStatusSkipped reviewerUuid tx))"

definition handleConfirmedHit :: "continuous_env \<Rightarrow> ContinuousScreening \<Rightarrow> ContinuousScreeningMatch \<Rightarrow> ContinuousScreeningMatch list
    \<Rightarrow> string option \<Rightarrow> uuid option \<Rightarrow> continuous_db \<Rightarrow> go_error + continuous_db" where
  "handleConfirmedHit R s confirmedMatch pendingMatches reviewerId reviewerUuid tx =
     attempt (wrapped (addRiskTagsFromConfirmedMatch R s confirmedMatch reviewerId tx) ''failed to add risk tags from confirmed match'') (\<lambda>tx1.
       Inr (if IsObjectTriggered s
         then skipPendingMatches R s pendingMatches reviewerId reviewerUuid
           (updateScreeningStatusWithEvent R s ScreeningStatusConfirmedHit reviewerId tx1)
         else if \<not> CS_IsPartial s \<and> pendingMatches = []
         then updateScreeningStatusWithEvent R s ScreeningStatusConfirmedHit reviewerId tx1
         else tx1))"

text \<open>The matches are those that were read before the review.\<close>

definition handleNoHitLastMatch :: "continuous_env \<Rightarrow> ContinuousScreening \<Rightarrow> ContinuousScreeningMatch list \<Rightarrow> string option
    \<Rightarrow> continuous_db \<Rightarrow> continuous_db" where
  "handleNoHitLastMatch R s ms reviewerId tx =
     (if IsObjectTriggered s then updateScreeningStatusWithEvent R s ScreeningStatusNoHit reviewerId tx
      else updateScreeningStatusWithEvent R s
        (if list_ex (\<lambda>m. CSM_Status m = ScreeningMatchStatusConfirmedHit) ms then ScreeningStatusConfirmedHit else ScreeningStatusNoHit)
        reviewerId tx)"

text \<open>The two sides of the whitelist: the object of the client, and the entity.\<close>

definition whitelist_sides :: "ContinuousScreening \<Rightarrow> ContinuousScreeningMatch \<Rightarrow> go_error + string \<times> string" where
  "whitelist_sides s m =
     (if IsDatasetTriggered s then (case CS_EntityId s of
        None \<Rightarrow> Inl (ErrNew ''OpenSanctionEntityId is missing for DatasetUpdated screening type'')
      | Some e \<Rightarrow> Inr (CSM_EntityId m, e))
      else if IsObjectTriggered s then (case (CS_ObjectType s, CS_ObjectId s) of
        (Some ty, Some i) \<Rightarrow> Inr (MarbleEntityIdBuilder ty i, CSM_EntityId m)
      | _ \<Rightarrow> Inl (ErrNew ''object type or object id is missing for Marble initiated screening''))
      else Inl (ErrNew ''unable to determine screening type for whitelist creation''))"

definition handleWhitelistCreation :: "continuous_env \<Rightarrow> ContinuousScreening \<Rightarrow> ContinuousScreeningMatch \<Rightarrow> string option
    \<Rightarrow> continuous_db \<Rightarrow> go_error + continuous_db" where
  "handleWhitelistCreation R s m reviewerId tx =
     attempt (whitelist_sides s m) (\<lambda>(counterpartyId, entityId).
     attempt (wrapped (CreateWhitelist (CaseEnv R) (OrganizationId s) counterpartyId entityId reviewerId (reviews tx)) ''could not whitelist match'')
       (\<lambda>r. Inr (tx\<lparr>reviews := r\<rparr>)))"

definition checkPermissionOnCaseAndContinuousScreening ::
    "continuous_env \<Rightarrow> Case \<Rightarrow> ContinuousScreening \<Rightarrow> continuous_db \<Rightarrow> go_error option" where
  "checkPermissionOnCaseAndContinuousScreening R c s tx =
     (case WriteContinuousScreeningHit (CaseCreds (CaseEnv R)) (OrganizationId s) of
        Some err \<Rightarrow> Some err
      | None \<Rightarrow> (case ListInboxes (UuidStr (CaseEnv R)) (CaseCreds (CaseEnv R)) (OrganizationId s) (case_db_of tx) of
          Inl err \<Rightarrow> Some (ErrWrap err ''could not retrieve organization inboxes'')
        | Inr found \<Rightarrow> ReadOrUpdateCase (CaseCreds (CaseEnv R)) c (map Inbox_Id found)))"

definition save_comment :: "continuous_env \<Rightarrow> ScreeningMatchComment option \<Rightarrow> continuous_db
    \<Rightarrow> go_error + ScreeningMatchComment list \<times> continuous_db" where
  "save_comment R c tx = (case c of None \<Rightarrow> Inr ([], tx)
   | Some c \<Rightarrow> attempt (wrapped (AddContinuousScreeningMatchComment R c tx) ''could not add comment while updating match status'')
       (\<lambda>(saved, tx1). Inr ([saved], tx1)))"

definition conclude_continuous :: "continuous_env \<Rightarrow> ScreeningMatchUpdate \<Rightarrow> ContinuousScreening \<Rightarrow> ContinuousScreeningMatch list
    \<Rightarrow> ContinuousScreeningMatch \<Rightarrow> ContinuousScreeningMatch \<Rightarrow> uuid option \<Rightarrow> continuous_db \<Rightarrow> go_error + continuous_db" where
  "conclude_continuous R update s ms m updatedMatch reviewerUuid tx =
     (let pendingMatches = filter (\<lambda>x. CSM_Id x \<noteq> CSM_Id m \<and> CSM_Status x = ScreeningMatchStatusPending) ms in
      if UP_Status update = ScreeningMatchStatusConfirmedHit
      then handleConfirmedHit R s updatedMatch pendingMatches (UP_ReviewerId update) reviewerUuid tx
      else handleWhitelistCreation R s m (UP_ReviewerId update)
        (if \<not> CS_IsPartial s \<and> pendingMatches = [] then handleNoHitLastMatch R s ms (UP_ReviewerId update) tx else tx))"

text \<open>What is sent is the screening and the match as they are now, with their payloads.\<close>

definition announce_review :: "continuous_env \<Rightarrow> uuid \<Rightarrow> ContinuousScreeningMatch \<Rightarrow> ScreeningMatchComment list \<Rightarrow> continuous_db
    \<Rightarrow> go_error + ContinuousScreeningMatch \<times> continuous_db" where
  "announce_review R screeningId updatedMatch saved tx =
     attempt (wrapped (GetContinuousScreeningWithMatchesById R screeningId tx) ''fetching refreshed screening'') (\<lambda>refreshed.
     attempt (hydrateContinuousScreening R refreshed) (\<lambda>refreshed1.
     attempt (wrapped (HydrateContinuousScreeningMatch R (fst refreshed1) [updatedMatch]) ''failed to hydrate continuous screening match'') (\<lambda>holder.
       let m = (if saved = [] then hd holder else (hd holder)\<lparr>CSM_Comments := saved\<rparr>) in
       check (map_option (\<lambda>err. ErrWrap err ''creating webhook event'') (MatchWebhookFails R (CSM_Id m)))
         (Inr (m, tx\<lparr>match_webhooks := match_webhooks tx @ [(refreshed1, m)]\<rparr>)))))"

definition review_transaction :: "continuous_env \<Rightarrow> ScreeningMatchUpdate \<Rightarrow> uuid \<Rightarrow> uuid option \<Rightarrow> continuous_db
    \<Rightarrow> go_error + ContinuousScreeningMatch \<times> continuous_db" where
  "review_transaction R update requestedMatchId reviewerUuid tx =
     attempt (GetContinuousScreeningMatch R requestedMatchId tx) (\<lambda>m.
     attempt (GetContinuousScreeningWithMatchesById R (CSM_ScreeningId m) tx) (\<lambda>(s, ms).
       case CS_CaseId s of
         None \<Rightarrow> Inl (ErrWrap UnprocessableEntityError ''continuous screening is not in case'')
       | Some caseId \<Rightarrow>
          if CS_Status s \<noteq> ScreeningStatusInReview
          then Inl (ErrWrap UnprocessableEntityError ''continuous screening is not in review'')
          else attempt (GetCaseById caseId (case_db_of tx)) (\<lambda>c.
            check (checkPermissionOnCaseAndContinuousScreening R c s tx) (
            attempt (UpdateContinuousScreeningMatchStatus R requestedMatchId (UP_Status update) reviewerUuid tx) (\<lambda>(updatedMatch, tx1).
            attempt (save_comment R (UP_Comment update) tx1) (\<lambda>(saved, tx2).
            attempt (PerformCaseActionSideEffects (CaseEnv R) c
                (case_db_of (add_case_events [match_event R s (UP_ReviewerId update) (UP_Status update) m] tx2))) (\<lambda>cdb.
            attempt (conclude_continuous R update s ms m updatedMatch reviewerUuid (with_case_db cdb tx2)) (\<lambda>tx4.
              announce_review R (CSM_ScreeningId m) updatedMatch saved tx4))))))))"

definition parse_reviewer :: "continuous_env \<Rightarrow> string option \<Rightarrow> (go_error option \<Rightarrow> uuid option \<Rightarrow> 'a) \<Rightarrow> 'a" where
  "parse_reviewer R reviewerId k = (case reviewerId of
     None \<Rightarrow> k None None
   | Some r \<Rightarrow> (case ParseUuid R r of None \<Rightarrow> k (Some (ErrWrap BadParameterError ''invalid reviewer id'')) None
       | Some u \<Rightarrow> k None (Some u)))"

definition ReviewContinuousScreeningMatch :: "continuous_env \<Rightarrow> ScreeningMatchUpdate \<Rightarrow> continuous_db
    \<Rightarrow> (go_error + ContinuousScreeningMatch) \<times> continuous_db" where
  "ReviewContinuousScreeningMatch R update db = (case ParseUuid R (UP_MatchId update) of
     None \<Rightarrow> (Inl (ErrWrap BadParameterError ''invalid match id''), db)
   | Some requestedMatchId \<Rightarrow> parse_reviewer R (UP_ReviewerId update) (\<lambda>e reviewerUuid.
       case e of Some err \<Rightarrow> (Inl err, db)
       | None \<Rightarrow> if UP_Status update \<noteq> ScreeningMatchStatusConfirmedHit \<and> UP_Status update \<noteq> ScreeningMatchStatusNoHit
           then (Inl (ErrWrap BadParameterError ''invalid status received for screening match''), db)
           else Transaction (review_transaction R update requestedMatchId reviewerUuid) db))"

section \<open>Dismissal\<close>

definition dismiss_transaction :: "continuous_env \<Rightarrow> uuid \<Rightarrow> string option \<Rightarrow> uuid option \<Rightarrow> continuous_db
    \<Rightarrow> go_error + ContinuousScreeningWithMatches \<times> continuous_db" where
  "dismiss_transaction R i reviewerId reviewerUuid tx =
     attempt (GetContinuousScreeningWithMatchesById R i tx) (\<lambda>(s, ms).
     check (DismissContinuousScreeningHits (CaseCreds (CaseEnv R)) (OrganizationId s)) (
       if CS_CaseId s = None then Inl (ErrWrap UnprocessableEntityError ''continuous screening is not in case, cannot dismiss'')
       else if CS_Status s \<noteq> ScreeningStatusInReview
         then Inl (ErrWrap UnprocessableEntityError ''continuous screening is not in review, cannot dismiss'')
       else (let matchesToUpdate = filter (\<lambda>m. CSM_Status m = ScreeningMatchStatusPending) ms;
                 tx1 = updateScreeningStatusWithEvent R s ScreeningStatusNoHit reviewerId
                   (skipPendingMatches R s matchesToUpdate reviewerId reviewerUuid tx)
             in attempt (GetContinuousScreeningWithMatchesById R i tx1) (\<lambda>latest. Inr (latest, tx1)))))"

text \<open>The answer is completed after the transaction, whose writes stay when that fails.\<close>

definition hydrated_answer :: "continuous_env \<Rightarrow> (go_error + ContinuousScreeningWithMatches) \<times> continuous_db
    \<Rightarrow> (go_error + ContinuousScreeningWithMatches) \<times> continuous_db" where
  "hydrated_answer R r = (case fst r of Inl err \<Rightarrow> r | Inr sm \<Rightarrow> (hydrateContinuousScreening R sm, snd r))"

definition DismissContinuousScreening :: "continuous_env \<Rightarrow> uuid \<Rightarrow> string option \<Rightarrow> continuous_db
    \<Rightarrow> (go_error + ContinuousScreeningWithMatches) \<times> continuous_db" where
  "DismissContinuousScreening R i reviewerId db = parse_reviewer R reviewerId (\<lambda>e reviewerUuid.
     case e of Some err \<Rightarrow> (Inl err, db)
     | None \<Rightarrow> hydrated_answer R (Transaction (dismiss_transaction R i reviewerId reviewerUuid) db))"

section \<open>Loading more matches\<close>

text \<open>
  The identifiers that the search leaves out: the entities whitelisted for the object, or the objects whitelisted for the
  entity and for those it replaces.
\<close>

definition object_whitelist :: "uuid \<Rightarrow> string \<Rightarrow> string \<Rightarrow> review_db \<Rightarrow> string list" where
  "object_whitelist orgId ty i db = map WL_EntityId (SearchScreeningMatchWhitelist orgId (Some (MarbleEntityIdBuilder ty i)) None db)"

definition entity_whitelist :: "uuid \<Rightarrow> string \<Rightarrow> string list \<Rightarrow> review_db \<Rightarrow> string list" where
  "entity_whitelist orgId entityId referents db =
     map WL_CounterpartyId (SearchScreeningMatchWhitelistByIds orgId [] (referents @ [entityId]) db)"

text \<open>The search of a dataset reads the payload of the entity, which is not a JSON document when it is empty.\<close>

definition search_more :: "continuous_env \<Rightarrow> uuid \<Rightarrow> ContinuousScreening \<Rightarrow> continuous_db \<Rightarrow> go_error + found_matches" where
  "search_more R configOrgId s tx =
     (if IsDatasetTriggered s then
        (if CS_EntityId s = None
         then Inl (ErrWrap UnprocessableEntityError ''OpenSanctionEntityId is missing for DatasetUpdated screening type'')
         else attempt (wrapped (if CS_EntityPayload s = [] then Inl (ErrNew ''unexpected end of JSON input'')
             else ReadEntity R (CS_EntityPayload s)) ''failed to unmarshal OpenSanction entity payload'') (\<lambda>(entityId, referents).
           SearchMore R s (entity_whitelist (OrganizationId s) entityId referents (reviews tx))))
      else if IsObjectTriggered s then (case (CS_ObjectType s, CS_ObjectId s) of
        (Some ty, Some i) \<Rightarrow> SearchMore R s (object_whitelist configOrgId ty i (reviews tx))
      | _ \<Rightarrow> Inl (ErrWrap UnprocessableEntityError ''object type or object id is missing for Marble initiated screening''))
      else Inl (ErrWrap UnprocessableEntityError ''unsupported trigger type''))"

definition load_more_transaction :: "continuous_env \<Rightarrow> (nat \<Rightarrow> uuid) \<Rightarrow> uuid \<Rightarrow> continuous_db
    \<Rightarrow> go_error + ContinuousScreeningWithMatches \<times> continuous_db" where
  "load_more_transaction R newId i tx =
     attempt (GetContinuousScreeningWithMatchesById R i tx) (\<lambda>(s, ms).
     check (WriteContinuousScreeningHit (CaseCreds (CaseEnv R)) (OrganizationId s)) (
       if CS_Status s \<noteq> ScreeningStatusInReview
         then Inl (ErrWrap UnprocessableEntityError ''continuous screening is not in review, cannot load more results'')
       else if \<not> CS_IsPartial s
         then Inl (ErrWrap UnprocessableEntityError ''continuous screening is not partial, cannot load more results'')
       else attempt (ReadConfigOrg R s) (\<lambda>configOrgId.
         attempt (search_more R configOrgId s tx) (\<lambda>found.
         let newMatches = filter (\<lambda>(_, e, _). \<not> List.member (map CSM_EntityId ms) e) (FM_Matches found) in
         attempt (wrapped (OffloadContinuousScreeningMatches R newId 0 (OrganizationId s) i newMatches) ''failed to offload continuous screening matches'')
           (\<lambda>offloaded.
         let (inserted, tx1) = InsertContinuousScreeningMatches R newId i offloaded tx;
             number = CS_NumberOfMatches s + int (length inserted)
         in attempt (enqueue_enrichment R i (UpdateContinuousScreening i number (FM_Partial found) tx1)) (\<lambda>tx2.
              Inr ((s\<lparr>CS_NumberOfMatches := number, CS_IsPartial := FM_Partial found\<rparr>, ms @ inserted), tx2)))))))"

definition LoadMoreContinuousScreeningMatches :: "continuous_env \<Rightarrow> (nat \<Rightarrow> uuid) \<Rightarrow> uuid \<Rightarrow> continuous_db
    \<Rightarrow> (go_error + ContinuousScreeningWithMatches) \<times> continuous_db" where
  "LoadMoreContinuousScreeningMatches R newId i db = hydrated_answer R (Transaction (load_more_transaction R newId i) db)"

end
