(* ===== verification/Review_Laws.thy ===== *)
theory Review_Laws
  imports Screening_Reviews Case_State
begin

text \<open>
  The review of the screenings of decisions: what a review writes, the consistency of a screening with its
  matches, and the requests that keep it.
\<close>

section \<open>What a review writes\<close>

abbreviation pending :: "ScreeningMatch \<Rightarrow> bool" where
  "pending m \<equiv> SM_Status m = ScreeningMatchStatusPending"

definition reviewed_match :: "ScreeningMatchUpdate \<Rightarrow> string \<Rightarrow> ScreeningMatch \<Rightarrow> ScreeningMatch" where
  "reviewed_match u sid m =
     (if SM_Id m = UP_MatchId u then m\<lparr>SM_Status := UP_Status u, SM_ReviewedBy := UP_ReviewerId u\<rparr>
      else if UP_Status u = ScreeningMatchStatusConfirmedHit \<and> SM_ScreeningId m = sid \<and> pending m
      then m\<lparr>SM_Status := ScreeningMatchStatusSkipped, SM_ReviewedBy := UP_ReviewerId u\<rparr> else m)"

definition reviewed_status :: "ScreeningMatchUpdate \<Rightarrow> Screening \<Rightarrow> ScreeningMatch list \<Rightarrow> ScreeningStatus" where
  "reviewed_status u s ms =
     (if UP_Status u = ScreeningMatchStatusConfirmedHit then ScreeningStatusConfirmedHit
      else if \<not> Sc_Partial s \<and> (\<forall>m\<in>set ms. pending m \<longrightarrow> SM_Id m = UP_MatchId u) then ScreeningStatusNoHit
      else Sc_Status s)"

lemma on_cases_Inr: "on_cases f db = Inr db' \<longleftrightarrow> (\<exists>c. f (case_tables db) = Inr c \<and> db' = db\<lparr>case_tables := c\<rparr>)"
  by (auto simp: on_cases_def attempt_Inr)

lemma screening_case_event_rows [simp]:
  "match_rows (screening_case_event d r st db) = match_rows db"
  "screening_rows (screening_case_event d r st db) = screening_rows db"
  "whitelists (screening_case_event d r st db) = whitelists db"
  by (simp_all add: screening_case_event_def split: option.splits)

lemma UpdateScreeningStatus_rows [simp]:
  "match_rows (UpdateScreeningStatus i st db) = match_rows db"
  "whitelists (UpdateScreeningStatus i st db) = whitelists db"
  by (simp_all add: UpdateScreeningStatus_def)

lemma UpdateScreeningMatchStatus_Inr:
  assumes "UpdateScreeningMatchStatus m st r db = Inr (m', db')"
  shows "db' = db\<lparr>match_rows := map (\<lambda>x. if SM_Id x = SM_Id m then x\<lparr>SM_Status := st, SM_ReviewedBy := r\<rparr> else x) (match_rows db)\<rparr>"
  using assms by (auto simp: UpdateScreeningMatchStatus_def attempt_Inr Let_def)

lemma skip_matches_Inr:
  assumes "skip_matches r ms db = Inr db'"
  shows "db' = db\<lparr>match_rows := map (\<lambda>x. if SM_Id x \<in> SM_Id ` set ms
      then x\<lparr>SM_Status := ScreeningMatchStatusSkipped, SM_ReviewedBy := r\<rparr> else x) (match_rows db)\<rparr>"
  using assms
proof (induction r ms db rule: skip_matches.induct)
  case (2 r m ms db)
  then obtain y where y: "UpdateScreeningMatchStatus m ScreeningMatchStatusSkipped r db = Inr y" "skip_matches r ms (snd y) = Inr db'"
    by (auto simp: attempt_Inr split: prod.splits)
  then obtain m' db1 where up: "UpdateScreeningMatchStatus m ScreeningMatchStatusSkipped r db = Inr (m', db1)"
    and rest: "skip_matches r ms db1 = Inr db'" by (cases y) simp
  note db1 = UpdateScreeningMatchStatus_Inr [OF up]
  from 2(1) [OF rest] show ?case
    unfolding db1 by (auto simp: comp_def intro!: review_db.equality)
qed simp

text \<open>The screenings, the matches and the whitelist after the end of a review, from those before it.\<close>

definition concluded :: "ScreeningMatchUpdate \<Rightarrow> screeningContextData \<Rightarrow> ScreeningMatch list \<Rightarrow> review_db \<Rightarrow> review_db" where
  "concluded u d ps tx =
     (let tx1 = (if UP_Status u = ScreeningMatchStatusConfirmedHit
            then UpdateScreeningStatus (Sc_Id (ctx_screening d)) ScreeningStatusConfirmedHit
              (tx\<lparr>match_rows := map (\<lambda>x. if SM_Id x \<in> SM_Id ` set ps
                 then x\<lparr>SM_Status := ScreeningMatchStatusSkipped, SM_ReviewedBy := UP_ReviewerId u\<rparr> else x) (match_rows tx)\<rparr>)
            else if \<not> Sc_Partial (ctx_screening d) \<and> UP_Status u = ScreeningMatchStatusNoHit \<and> ps = []
            then UpdateScreeningStatus (Sc_Id (ctx_screening d)) ScreeningStatusNoHit tx else tx)
      in case Sc_CounterpartyIdentifier (ctx_screening d) of None \<Rightarrow> tx1
         | Some c \<Rightarrow> if UP_Status u = ScreeningMatchStatusNoHit \<and> UP_Whitelist u
             then AddScreeningMatchWhitelist (OrganizationId (ctx_decision d)) c (SM_EntityId (ctx_match d)) (UP_ReviewerId u) tx1
             else tx1)"

lemma concluded_rows:
  "match_rows (concluded u d ps tx) = (if UP_Status u = ScreeningMatchStatusConfirmedHit
     then map (\<lambda>x. if SM_Id x \<in> SM_Id ` set ps
       then x\<lparr>SM_Status := ScreeningMatchStatusSkipped, SM_ReviewedBy := UP_ReviewerId u\<rparr> else x) (match_rows tx)
     else match_rows tx)"
  "screening_rows (concluded u d ps tx) = (if UP_Status u = ScreeningMatchStatusConfirmedHit
     then map (\<lambda>x. if Sc_Id x = Sc_Id (ctx_screening d) then x\<lparr>Sc_Status := ScreeningStatusConfirmedHit\<rparr> else x) (screening_rows tx)
     else if \<not> Sc_Partial (ctx_screening d) \<and> UP_Status u = ScreeningMatchStatusNoHit \<and> ps = []
     then map (\<lambda>x. if Sc_Id x = Sc_Id (ctx_screening d) then x\<lparr>Sc_Status := ScreeningStatusNoHit\<rparr> else x) (screening_rows tx)
     else screening_rows tx)"
  "whitelists (concluded u d ps tx) = (case Sc_CounterpartyIdentifier (ctx_screening d) of None \<Rightarrow> whitelists tx
     | Some c \<Rightarrow> if UP_Status u = ScreeningMatchStatusNoHit \<and> UP_Whitelist u
         then whitelists (AddScreeningMatchWhitelist (OrganizationId (ctx_decision d)) c (SM_EntityId (ctx_match d)) (UP_ReviewerId u) tx)
         else whitelists tx)"
  by (auto simp: concluded_def Let_def UpdateScreeningStatus_def AddScreeningMatchWhitelist_def split: option.split)

text \<open>Two states that differ by their cases.\<close>

definition same_reviews :: "review_db \<Rightarrow> review_db \<Rightarrow> bool" where
  "same_reviews a b \<longleftrightarrow> match_rows b = match_rows a \<and> screening_rows b = screening_rows a
     \<and> whitelists b = whitelists a \<and> match_comments b = match_comments a"

lemma same_reviewsI [intro]: "same_reviews a (a\<lparr>case_tables := c\<rparr>)"
  by (auto simp: same_reviews_def)

lemma same_reviews_refl [simp]: "same_reviews a a"
  by (simp add: same_reviews_def)

lemma same_reviews_trans: "same_reviews a b \<Longrightarrow> same_reviews b c \<Longrightarrow> same_reviews a c"
  by (auto simp: same_reviews_def)

lemma same_reviews_rows:
  assumes "same_reviews a b"
  shows "match_rows b = match_rows a" "screening_rows b = screening_rows a" "whitelists b = whitelists a"
    "match_comments b = match_comments a"
  using assms by (auto simp: same_reviews_def)

lemma same_reviews_steps:
  "same_reviews a b \<Longrightarrow> same_reviews (UpdateScreeningStatus i st a) (UpdateScreeningStatus i st b)"
  "same_reviews a b \<Longrightarrow> same_reviews (a\<lparr>match_rows := ms\<rparr>) (b\<lparr>match_rows := ms\<rparr>)"
  "same_reviews a b \<Longrightarrow> same_reviews (AddScreeningMatchWhitelist org c e r a) (AddScreeningMatchWhitelist org c e r b)"
  "same_reviews a b \<Longrightarrow> same_reviews a (screening_case_event d r2 st2 b)"
  by (auto simp: same_reviews_def UpdateScreeningStatus_def AddScreeningMatchWhitelist_def screening_case_event_def
      split: option.splits)

lemma conclude_review_Inr:
  assumes "conclude_review E u d ps tx = Inr tx'"
  shows "same_reviews (concluded u d ps tx) tx'"
proof -
  let ?s = "ctx_screening d"
  from assms obtain tx1 tx3
    where tx1: "(case ctx_case d of None \<Rightarrow> Inr tx | Some c \<Rightarrow> on_cases (PerformCaseActionSideEffects E c) tx) = Inr tx1"
      and tx3: "(if UP_Status u = ScreeningMatchStatusConfirmedHit
          then attempt (skip_matches (UP_ReviewerId u) ps tx1) (\<lambda>tx2. Inr (screening_case_event d (UP_ReviewerId u)
            ScreeningMatchStatusConfirmedHit (UpdateScreeningStatus (Sc_Id ?s) ScreeningStatusConfirmedHit tx2)))
          else Inr tx1) = Inr tx3"
      and rest: "(let tx4 = (if \<not> Sc_Partial ?s \<and> UP_Status u = ScreeningMatchStatusNoHit \<and> ps = []
            then screening_case_event d (UP_ReviewerId u) ScreeningMatchStatusNoHit
              (UpdateScreeningStatus (Sc_Id ?s) ScreeningStatusNoHit tx3) else tx3)
        in (case Sc_CounterpartyIdentifier ?s of
            Some counterparty \<Rightarrow> if UP_Status u = ScreeningMatchStatusNoHit \<and> UP_Whitelist u
              then wrapped (CreateWhitelist E (OrganizationId (ctx_decision d)) counterparty (SM_EntityId (ctx_match d))
                (UP_ReviewerId u) tx4) ''could not whitelist match''
              else Inr tx4
          | None \<Rightarrow> Inr tx4)) = Inr tx'"
    unfolding conclude_review_def Let_def attempt_Inr by blast
  have s1: "same_reviews tx tx1"
    using tx1 by (auto simp: on_cases_Inr split: option.splits)
  show ?thesis
  proof (cases "UP_Status u = ScreeningMatchStatusConfirmedHit")
    case True
    with tx3 obtain tx2 where tx2: "skip_matches (UP_ReviewerId u) ps tx1 = Inr tx2"
      and tx3': "tx3 = screening_case_event d (UP_ReviewerId u) ScreeningMatchStatusConfirmedHit
        (UpdateScreeningStatus (Sc_Id ?s) ScreeningStatusConfirmedHit tx2)"
      by (auto simp: attempt_Inr)
    have "tx' = tx3" using True rest by (auto split: option.splits)
    then show ?thesis
      using True s1 unfolding concluded_def tx3' skip_matches_Inr [OF tx2]
      by (auto simp: same_reviews_rows [OF s1] Let_def split: option.splits intro!: same_reviews_steps)
  next
    case False
    then have "tx3 = tx1" using tx3 by simp
    with False rest s1 show ?thesis
      unfolding concluded_def
      by (auto simp: CreateWhitelist_def check_Inr Let_def split: option.splits if_splits intro!: same_reviews_steps)
  qed
qed

section \<open>The effect of a review\<close>

definition keyed :: "review_db \<Rightarrow> bool" where
  "keyed db \<longleftrightarrow> distinct (map Sc_Id (screening_rows db)) \<and> distinct (map SM_Id (match_rows db))
     \<and> set (map SM_ScreeningId (match_rows db)) \<subseteq> set (map Sc_Id (screening_rows db))"

lemma same_key: "distinct (map f xs) \<Longrightarrow> x \<in> set xs \<Longrightarrow> y \<in> set xs \<Longrightarrow> f x = f y \<Longrightarrow> x = y"
  by (auto simp: distinct_map dest: inj_onD)

lemma GetScreeningMatch_Inr: "GetScreeningMatch i db = Inr m \<Longrightarrow> m \<in> set (match_rows db) \<and> SM_Id m = i"
  by (auto simp: GetScreeningMatch_def find_Some_iff split: option.splits)

lemma GetScreening_Inr: "GetScreening i db = Inr s \<Longrightarrow> s \<in> set (screening_rows db) \<and> Sc_Id s = i"
  by (auto simp: GetScreening_def find_Some_iff split: option.splits)

definition reviewable :: "case_env \<Rightarrow> ScreeningMatchUpdate \<Rightarrow> ScreeningMatch \<Rightarrow> Screening \<Rightarrow> case_decision \<Rightarrow> review_db \<Rightarrow> bool" where
  "reviewable E u m s d db \<longleftrightarrow> GetScreeningMatch (UP_MatchId u) db = Inr m \<and> GetScreening (SM_ScreeningId m) db = Inr s
     \<and> \<not> Sc_IsArchived s \<and> enforceCanReadOrUpdateCase E (Sc_DecisionId s) (case_tables db) = Inr d
     \<and> UP_Status u \<in> {ScreeningMatchStatusConfirmedHit, ScreeningMatchStatusNoHit}
     \<and> Sc_Status s = ScreeningStatusInReview \<and> pending m"

lemma enforce_match_Inr:
  "enforceCanReadOrUpdateScreeningMatch E i db = Inr data \<longleftrightarrow>
     (\<exists>m s d. GetScreeningMatch i db = Inr m \<and> GetScreening (SM_ScreeningId m) db = Inr s \<and> \<not> Sc_IsArchived s
       \<and> enforceCanReadOrUpdateCase E (Sc_DecisionId s) (case_tables db) = Inr d
       \<and> data = \<lparr>ctx_decision = d, ctx_case = Option.bind (D_CaseId d) (\<lambda>j. find_case j (case_tables db)),
            ctx_screening = s, ctx_match = m\<rparr>)"
  by (auto simp: enforceCanReadOrUpdateScreeningMatch_def attempt_Inr split: if_splits)

lemma review_guard_None:
  "review_guard u data = None \<longleftrightarrow> UP_Status u \<in> {ScreeningMatchStatusConfirmedHit, ScreeningMatchStatusNoHit}
     \<and> Sc_Status (ctx_screening data) = ScreeningStatusInReview \<and> pending (ctx_match data)"
  by (auto simp: review_guard_def Screening_IsReviewable_def)

lemma review_comment_rows:
  assumes "review_comment E u data db = (r, db1)"
  shows "\<exists>cs. db1 = db\<lparr>match_comments := cs\<rparr>"
proof -
  have keep: "\<exists>cs. db = db\<lparr>match_comments := cs\<rparr>" by (rule exI [of _ "match_comments db"]) simp
  show ?thesis
    using assms keep unfolding review_comment_def MatchAddComment_def AddScreeningMatchComment_def
    by (auto split: option.splits sum.splits prod.splits if_splits)
qed

text \<open>A review that fails has changed at most the comments.\<close>

lemma UpdateMatchStatus_cases:
  assumes "UpdateMatchStatus E u db = (res, db')"
  obtains (failed) err cs where "res = Inl err" "db' = db\<lparr>match_comments := cs\<rparr>"
  | (written) m' m s d cs where "res = Inr m'" "reviewable E u m s d db"
      "same_reviews (concluded u \<lparr>ctx_decision = d, ctx_case = Option.bind (D_CaseId d) (\<lambda>j. find_case j (case_tables db)),
          ctx_screening = s, ctx_match = m\<rparr> (filter (\<lambda>x. SM_Id x \<noteq> SM_Id m \<and> pending x) (ListScreeningMatches (Sc_Id s) db))
         (db\<lparr>match_rows := map (\<lambda>x. if SM_Id x = SM_Id m then x\<lparr>SM_Status := UP_Status u, SM_ReviewedBy := UP_ReviewerId u\<rparr> else x)
            (match_rows db), match_comments := cs\<rparr>)) db'"
proof -
  have keep: "db = db\<lparr>match_comments := match_comments db\<rparr>" by simp
  show thesis
  proof (cases "enforceCanReadOrUpdateScreeningMatch E (UP_MatchId u) db")
    case (Inl err)
    with assms failed [of err "match_comments db"] show thesis by (simp add: UpdateMatchStatus_def)
  next
    case (Inr data)
    then obtain m s d where found: "GetScreeningMatch (UP_MatchId u) db = Inr m" "GetScreening (SM_ScreeningId m) db = Inr s"
      "\<not> Sc_IsArchived s" "enforceCanReadOrUpdateCase E (Sc_DecisionId s) (case_tables db) = Inr d"
      and data: "data = \<lparr>ctx_decision = d, ctx_case = Option.bind (D_CaseId d) (\<lambda>j. find_case j (case_tables db)),
            ctx_screening = s, ctx_match = m\<rparr>"
      by (auto simp: enforce_match_Inr)
    show thesis
    proof (cases "review_guard u data")
      case (Some err)
      with assms Inr failed [of err "match_comments db"] show thesis by (simp add: UpdateMatchStatus_def)
    next
      case None
      then have ok: "reviewable E u m s d db" using found by (simp add: reviewable_def review_guard_None data)
      from assms Inr None have r: "review E u data db = (res, db')" by (simp add: UpdateMatchStatus_def)
      show thesis
      proof (cases "UpdateScreeningMatchStatus m (UP_Status u) (UP_ReviewerId u) db")
        case (Inl err)
        with r failed [of err "match_comments db"] show thesis by (simp add: review_def data)
      next
        case (Inr y)
        then obtain m' tx1 where up: "UpdateScreeningMatchStatus m (UP_Status u) (UP_ReviewerId u) db = Inr (m', tx1)"
          by (cases y) simp
        obtain rc db1 where rc: "review_comment E u data db = (rc, db1)" by fastforce
        obtain cs where cs: "db1 = db\<lparr>match_comments := cs\<rparr>" using review_comment_rows [OF rc] by blast
        show thesis
        proof (cases rc)
          case (Inl err)
          with r up rc cs failed [of err cs] show thesis by (auto simp: review_def data)
        next
          case (Inr z)
          have "(\<exists>err. res = Inl err \<and> db' = db1) \<or> (res = Inr m' \<and>
              conclude_review E u data (other_pending data db) (tx1\<lparr>match_comments := cs\<rparr>) = Inr db')"
            using r up rc cs Inr by (auto simp: review_def data split: sum.splits)
          then show thesis
          proof (elim disjE exE conjE)
            fix err assume "res = Inl err" "db' = db1"
            then show thesis using failed cs by simp
          next
            assume res: "res = Inr m'"
              and fin: "conclude_review E u data (other_pending data db) (tx1\<lparr>match_comments := cs\<rparr>) = Inr db'"
            show thesis
              by (rule written [OF res ok])
                (use conclude_review_Inr [OF fin] in \<open>simp add: UpdateScreeningMatchStatus_Inr [OF up] other_pending_def data\<close>)
          qed
        qed
      qed
    qed
  qed
qed

lemma others_pending:
  assumes "distinct (map SM_Id (match_rows db))" "x \<in> set (match_rows db)"
  shows "SM_Id x \<in> SM_Id ` set (filter (\<lambda>y. SM_Id y \<noteq> i \<and> pending y) (ListScreeningMatches sid db))
    \<longleftrightarrow> SM_Id x \<noteq> i \<and> SM_ScreeningId x = sid \<and> pending x"
  using same_key [OF assms(1)] assms(2) by (auto simp: ListScreeningMatches_def image_iff)

text \<open>What a review writes, on the rows of the tables.\<close>

lemma review_written:
  assumes keyed: "keyed db" and run: "UpdateMatchStatus E u db = (Inr m', db')"
  obtains m s d where "reviewable E u m s d db"
    "match_rows db' = map (reviewed_match u (Sc_Id s)) (match_rows db)"
    "screening_rows db' = map (\<lambda>x. if Sc_Id x = Sc_Id s
       then x\<lparr>Sc_Status := reviewed_status u s (ListScreeningMatches (Sc_Id s) db)\<rparr> else x) (screening_rows db)"
    "whitelists db' = (case Sc_CounterpartyIdentifier s of None \<Rightarrow> whitelists db
       | Some c \<Rightarrow> if UP_Status u = ScreeningMatchStatusNoHit \<and> UP_Whitelist u
           then whitelists (AddScreeningMatchWhitelist (OrganizationId d) c (SM_EntityId m) (UP_ReviewerId u) db) else whitelists db)"
  using run
proof (cases rule: UpdateMatchStatus_cases)
  case (written _ m s d cs)
  let ?ps = "filter (\<lambda>x. SM_Id x \<noteq> SM_Id m \<and> pending x) (ListScreeningMatches (Sc_Id s) db)"
  let ?tx = "db\<lparr>match_rows := map (\<lambda>x. if SM_Id x = SM_Id m then x\<lparr>SM_Status := UP_Status u, SM_ReviewedBy := UP_ReviewerId u\<rparr> else x)
            (match_rows db), match_comments := cs\<rparr>"
  let ?d = "\<lparr>ctx_decision = d, ctx_case = Option.bind (D_CaseId d) (\<lambda>j. find_case j (case_tables db)), ctx_screening = s, ctx_match = m\<rparr>"
  have m: "SM_Id m = UP_MatchId u" "Sc_Id s = SM_ScreeningId m" "s \<in> set (screening_rows db)" "m \<in> set (match_rows db)"
    "Sc_Status s = ScreeningStatusInReview"
    using written(2) GetScreeningMatch_Inr GetScreening_Inr unfolding reviewable_def by blast+
  have ids: "distinct (map SM_Id (match_rows db))" "distinct (map Sc_Id (screening_rows db))" using keyed by (simp_all add: keyed_def)
  have stat: "UP_Status u = ScreeningMatchStatusConfirmedHit \<or> UP_Status u = ScreeningMatchStatusNoHit"
    using written(2) by (auto simp: reviewable_def)
  have skipped: "(if SM_Id (if SM_Id x = SM_Id m then x\<lparr>SM_Status := UP_Status u, SM_ReviewedBy := UP_ReviewerId u\<rparr> else x)
        \<in> SM_Id ` set ?ps then (if SM_Id x = SM_Id m then x\<lparr>SM_Status := UP_Status u, SM_ReviewedBy := UP_ReviewerId u\<rparr> else x)
        \<lparr>SM_Status := ScreeningMatchStatusSkipped, SM_ReviewedBy := UP_ReviewerId u\<rparr>
      else (if SM_Id x = SM_Id m then x\<lparr>SM_Status := UP_Status u, SM_ReviewedBy := UP_ReviewerId u\<rparr> else x))
    = reviewed_match u (Sc_Id s) x" if "x \<in> set (match_rows db)" "UP_Status u = ScreeningMatchStatusConfirmedHit" for x
    using others_pending [OF ids(1) that(1), of "SM_Id m" "Sc_Id s"] that(2) m(1)
    by (auto simp: reviewed_match_def)
  have none: "?ps = [] \<longleftrightarrow> (\<forall>x\<in>set (ListScreeningMatches (Sc_Id s) db). pending x \<longrightarrow> SM_Id x = UP_MatchId u)"
    using m(1) by (auto simp: filter_empty_conv)
  note rows = written(3) [unfolded same_reviews_def concluded_rows, simplified]
  show thesis
  proof (rule that [OF written(2)])
    show "match_rows db' = map (reviewed_match u (Sc_Id s)) (match_rows db)"
    proof (cases "UP_Status u = ScreeningMatchStatusConfirmedHit")
      case True
      then show ?thesis using rows skipped
        by (simp add: comp_def)
    next
      case False
      then show ?thesis using rows m(1) by (simp add: reviewed_match_def cong: if_cong)
    qed
    show "screening_rows db' = map (\<lambda>x. if Sc_Id x = Sc_Id s
       then x\<lparr>Sc_Status := reviewed_status u s (ListScreeningMatches (Sc_Id s) db)\<rparr> else x) (screening_rows db)"
    proof -
      have same: "map (\<lambda>x. if Sc_Id x = Sc_Id s then x\<lparr>Sc_Status := Sc_Status s\<rparr> else x) (screening_rows db) = screening_rows db"
      proof (rule map_idI)
        fix x assume "x \<in> set (screening_rows db)"
        then show "(if Sc_Id x = Sc_Id s then x\<lparr>Sc_Status := Sc_Status s\<rparr> else x) = x"
          using same_key [OF ids(2), of x s] m(3) by (cases "Sc_Id x = Sc_Id s") simp_all
      qed
      have rs: "reviewed_status u s (ListScreeningMatches (Sc_Id s) db) = (if UP_Status u = ScreeningMatchStatusConfirmedHit
          then ScreeningStatusConfirmedHit else if \<not> Sc_Partial s \<and> ?ps = [] then ScreeningStatusNoHit else Sc_Status s)"
        unfolding none by (simp add: reviewed_status_def)
      have "screening_rows db' = (if UP_Status u = ScreeningMatchStatusConfirmedHit
          then map (\<lambda>x. if Sc_Id x = Sc_Id s then x\<lparr>Sc_Status := ScreeningStatusConfirmedHit\<rparr> else x) (screening_rows db)
          else if \<not> Sc_Partial s \<and> ?ps = []
          then map (\<lambda>x. if Sc_Id x = Sc_Id s then x\<lparr>Sc_Status := ScreeningStatusNoHit\<rparr> else x) (screening_rows db)
          else screening_rows db)"
        using rows stat by auto
      then show ?thesis unfolding rs using same by simp
    qed
    show "whitelists db' = (case Sc_CounterpartyIdentifier s of None \<Rightarrow> whitelists db
       | Some c \<Rightarrow> if UP_Status u = ScreeningMatchStatusNoHit \<and> UP_Whitelist u
           then whitelists (AddScreeningMatchWhitelist (OrganizationId d) c (SM_EntityId m) (UP_ReviewerId u) db) else whitelists db)"
      using rows by (simp add: AddScreeningMatchWhitelist_def split: option.splits)
  qed
qed simp

section \<open>Consistent reviews\<close>

text \<open>The status of a screening agrees with those of its matches.\<close>

definition review_ok :: "Screening \<Rightarrow> ScreeningMatch list \<Rightarrow> bool" where
  "review_ok s ms \<longleftrightarrow> (case Sc_Status s of
     ScreeningStatusInReview \<Rightarrow> (\<forall>m\<in>set ms. pending m \<or> SM_Status m = ScreeningMatchStatusNoHit)
       \<and> (Sc_Partial s \<or> (\<exists>m\<in>set ms. pending m))
   | ScreeningStatusConfirmedHit \<Rightarrow> length (filter (\<lambda>m. SM_Status m = ScreeningMatchStatusConfirmedHit) ms) = 1
       \<and> (\<forall>m\<in>set ms. \<not> pending m)
   | ScreeningStatusNoHit \<Rightarrow> (\<forall>m\<in>set ms. SM_Status m = ScreeningMatchStatusNoHit)
   | _ \<Rightarrow> ms = [])"

definition reviews_ok :: "review_db \<Rightarrow> bool" where
  "reviews_ok db \<longleftrightarrow> keyed db \<and> (\<forall>s\<in>set (screening_rows db). review_ok s (ListScreeningMatches (Sc_Id s) db))"

lemma reviews_ok_cong:
  assumes "match_rows db' = match_rows db" "screening_rows db' = screening_rows db"
  shows "reviews_ok db' = reviews_ok db"
  by (simp add: reviews_ok_def keyed_def ListScreeningMatches_def assms)

lemma reviewed_match_keys [simp]:
  "SM_Id (reviewed_match u i m) = SM_Id m" "SM_ScreeningId (reviewed_match u i m) = SM_ScreeningId m"
  by (simp_all add: reviewed_match_def)

lemma filter_one:
  assumes "distinct (map f xs)" "x \<in> set xs" "P x" "\<And>y. y \<in> set xs \<Longrightarrow> P y \<Longrightarrow> f y = f x"
  shows "length (filter P xs) = 1"
proof -
  have d: "distinct xs" using assms(1) by (simp add: distinct_map)
  have "set (filter P xs) = {x}"
    using assms same_key [OF assms(1)] by auto
  moreover have "length (filter P xs) = card (set (filter P xs))"
    using distinct_card [OF distinct_filter [OF d]] by simp
  ultimately show ?thesis by simp
qed

lemma review_keeps:
  assumes ok: "reviews_ok db" and run: "UpdateMatchStatus E u db = (res, db')"
  shows "reviews_ok db'"
proof (cases res)
  case (Inl err)
  from run Inl obtain cs where "db' = db\<lparr>match_comments := cs\<rparr>"
    by (cases rule: UpdateMatchStatus_cases) blast+
  then have "reviews_ok db' = reviews_ok db" by (intro reviews_ok_cong) simp_all
  then show ?thesis using ok by simp
next
  case (Inr m')
  have keyed: "keyed db" using ok by (simp add: reviews_ok_def)
  from run Inr have "UpdateMatchStatus E u db = (Inr m', db')" by simp
  from review_written [OF keyed this] obtain m s d where r: "reviewable E u m s d db"
    and ms: "match_rows db' = map (reviewed_match u (Sc_Id s)) (match_rows db)"
    and ss: "screening_rows db' = map (\<lambda>x. if Sc_Id x = Sc_Id s
       then x\<lparr>Sc_Status := reviewed_status u s (ListScreeningMatches (Sc_Id s) db)\<rparr> else x) (screening_rows db)"
    by blast
  have m: "SM_Id m = UP_MatchId u" "Sc_Id s = SM_ScreeningId m" "s \<in> set (screening_rows db)" "m \<in> set (match_rows db)"
    "Sc_Status s = ScreeningStatusInReview" "pending m"
    using r GetScreeningMatch_Inr GetScreening_Inr unfolding reviewable_def by blast+
  have stat: "UP_Status u = ScreeningMatchStatusConfirmedHit \<or> UP_Status u = ScreeningMatchStatusNoHit"
    using r by (auto simp: reviewable_def)
  have list: "ListScreeningMatches i db' = map (reviewed_match u (Sc_Id s)) (ListScreeningMatches i db)" for i
    by (simp add: ListScreeningMatches_def ms filter_map comp_def)
  have "map Sc_Id (screening_rows db') = map Sc_Id (screening_rows db)" "map SM_Id (match_rows db') = map SM_Id (match_rows db)"
    "map SM_ScreeningId (match_rows db') = map SM_ScreeningId (match_rows db)"
    by (simp_all add: ms ss)
  then have keyed': "keyed db'" using keyed by (simp only: keyed_def)
  have other: "reviewed_match u (Sc_Id s) x = x" if "x \<in> set (ListScreeningMatches i db)" "i \<noteq> Sc_Id s" for x i
    using that m keyed same_key [of SM_Id "match_rows db" x m] by (auto simp: reviewed_match_def ListScreeningMatches_def keyed_def)
  let ?ms = "ListScreeningMatches (Sc_Id s) db"
  have s_ok: "review_ok s ?ms" using ok m(3) by (simp add: reviews_ok_def)
  have d: "distinct (map SM_Id ?ms)" using keyed by (simp add: keyed_def ListScreeningMatches_def distinct_map_filter)
  have mem: "m \<in> set ?ms" using m by (simp add: ListScreeningMatches_def)
  have sid: "SM_ScreeningId x = Sc_Id s" if "x \<in> set ?ms" for x using that by (simp add: ListScreeningMatches_def)
  have before: "pending x \<or> SM_Status x = ScreeningMatchStatusNoHit" if "x \<in> set ?ms" for x
    using s_ok that m(5) by (simp add: review_ok_def)
  have unconfirmed: "SM_Status x \<noteq> ScreeningMatchStatusConfirmedHit" if "x \<in> set ?ms" for x
    using before [OF that] by auto
  have new: "review_ok (s\<lparr>Sc_Status := reviewed_status u s ?ms\<rparr>) (map (reviewed_match u (Sc_Id s)) ?ms)"
  proof (cases "UP_Status u = ScreeningMatchStatusConfirmedHit")
    case True
    have "length (filter (\<lambda>x. SM_Status (reviewed_match u (Sc_Id s) x) = ScreeningMatchStatusConfirmedHit) ?ms) = 1"
      by (rule filter_one [OF d mem]) (use True m(1) unconfirmed in \<open>auto simp: reviewed_match_def split: if_splits\<close>)
    then show ?thesis using True sid
      by (auto simp: review_ok_def reviewed_status_def filter_map comp_def reviewed_match_def)
  next
    case False
    then have no: "UP_Status u = ScreeningMatchStatusNoHit" using stat by simp
    then show ?thesis using before m sid
      by (auto simp: review_ok_def reviewed_status_def reviewed_match_def)
  qed
  have "review_ok x (ListScreeningMatches (Sc_Id x) db')" if "x \<in> set (screening_rows db')" for x
  proof -
    from that obtain y where y: "y \<in> set (screening_rows db)" and x: "x = (if Sc_Id y = Sc_Id s
       then y\<lparr>Sc_Status := reviewed_status u s ?ms\<rparr> else y)" by (auto simp: ss)
    show ?thesis
    proof (cases "Sc_Id y = Sc_Id s")
      case True
      then have "y = s" using same_key [of Sc_Id "screening_rows db" y s] keyed y m(3) by (simp add: keyed_def)
      then show ?thesis using new True by (simp add: x list)
    next
      case False
      then show ?thesis using ok y other by (simp add: x list reviews_ok_def map_idI)
    qed
  qed
  then show ?thesis using keyed' by (simp add: reviews_ok_def)
qed

section \<open>New screenings\<close>

definition fresh_ids :: "(nat \<Rightarrow> string) \<Rightarrow> review_db \<Rightarrow> bool" where
  "fresh_ids newId db \<longleftrightarrow> inj newId \<and> (\<forall>k. newId k \<notin> set (map SM_Id (match_rows db)))"

text \<open>The status that a screening has when it is stored.\<close>

definition initial_status :: "Screening \<Rightarrow> string list \<Rightarrow> bool" where
  "initial_status s es \<longleftrightarrow> Sc_Status s = InitialStatusFromMatches es \<or> Sc_Status s = ScreeningStatusError \<and> es = []"

lemma insert_keeps:
  assumes ok: "reviews_ok db" and new: "Sc_Id s \<notin> set (map Sc_Id (screening_rows db))" "fresh_ids newId db" "initial_status s es"
  shows "reviews_ok (InsertScreening newId s es db)"
proof -
  let ?new = "map (\<lambda>(k, e). \<lparr>SM_Id = newId k, SM_ScreeningId = Sc_Id s, SM_EntityId = e,
       SM_Status = ScreeningMatchStatusPending, SM_ReviewedBy = None\<rparr>) (enumerate 0 es)"
  have ids: "map SM_Id ?new = map newId [0..<length es]"
    by (rule nth_equalityI) (simp_all add: nth_enumerate_eq)
  have "distinct (map newId [0..<length es])" using new(2) by (simp add: fresh_ids_def distinct_map inj_def inj_on_def)
  moreover have "set (map newId [0..<length es]) \<inter> set (map SM_Id (match_rows db)) = {}"
    using new(2) by (auto simp: fresh_ids_def)
  moreover have "SM_ScreeningId ` set ?new \<subseteq> {Sc_Id s}" by auto
  ultimately have keyed: "keyed (InsertScreening newId s es db)"
    using ok new(1) ids unfolding reviews_ok_def keyed_def
    by (simp add: InsertScreening_def del: set_map) (auto simp: Int_commute)
  have old: "ListScreeningMatches (Sc_Id x) (InsertScreening newId s es db) = ListScreeningMatches (Sc_Id x) db"
    if "x \<in> set (screening_rows db)" for x
    using that new(1) by (auto simp: ListScreeningMatches_def InsertScreening_def filter_empty_conv)
  have rel: "SM_ScreeningId x \<in> set (map Sc_Id (screening_rows db))" if "x \<in> set (match_rows db)" for x
    using ok that by (auto simp: reviews_ok_def keyed_def)
  have "filter (\<lambda>m. SM_ScreeningId m = Sc_Id s) (match_rows db) = []"
    unfolding filter_empty_conv using rel new(1) by metis
  then have mine: "ListScreeningMatches (Sc_Id s) (InsertScreening newId s es db) = ?new"
    by (simp add: ListScreeningMatches_def InsertScreening_def case_prod_unfold comp_def)
  have "review_ok s ?new"
    using new(3) by (cases es) (auto simp: review_ok_def initial_status_def InitialStatusFromMatches_def enumerate_simps)
  moreover have "screening_rows (InsertScreening newId s es db) = screening_rows db @ [s]"
    by (simp add: InsertScreening_def)
  ultimately show ?thesis using ok keyed old mine by (auto simp: reviews_ok_def)
qed

lemma archive_rows:
  "map Sc_Id (screening_rows (ArchiveScreening i db)) = map Sc_Id (screening_rows db)"
  "match_rows (ArchiveScreening i db) = match_rows db"
  by (simp_all add: ArchiveScreening_def)

lemma archive_keeps: "reviews_ok db \<Longrightarrow> reviews_ok (ArchiveScreening i db)"
proof -
  assume ok: "reviews_ok db"
  have "keyed (ArchiveScreening i db)" using ok unfolding reviews_ok_def keyed_def archive_rows by blast
  moreover have "review_ok (x\<lparr>Sc_IsArchived := b\<rparr>) ms = review_ok x ms" for x b ms
    by (cases "Sc_Status x") (simp_all add: review_ok_def)
  ultimately show ?thesis using ok
    by (auto simp: reviews_ok_def ArchiveScreening_def ListScreeningMatches_def)
qed

text \<open>What a refinement writes.\<close>

lemma Refine_Inr:
  assumes "Refine E S i newId sid r db = (Inr s, db')"
  obtains d sc found where "enforceCanRefineScreening E sid db = Inr (d, sc)"
    "SearchProvider S sc (getWhitelistFromScreening (OrganizationId d) (Sc_CounterpartyIdentifier sc) db) = Inr found"
    "s = refined_screening i r d sc found"
    "db' = InsertScreening newId s (SR_EntityIds found) (ArchiveScreening (Sc_Id sc) db)
     \<or> db' = (InsertScreening newId s (SR_EntityIds found) (ArchiveScreening (Sc_Id sc) db))
         \<lparr>enrichment_tasks := enrichment_tasks db @ [i]\<rparr>"
  using assms unfolding Refine_def
  by (auto simp: attempt_Inr check_Inr Let_def InsertScreening_def ArchiveScreening_def split: sum.splits prod.splits if_splits)

lemma Refine_Inl: "Refine E S i newId sid r db = (Inl err, db') \<Longrightarrow> db' = db"
  by (auto simp: Refine_def split: sum.splits prod.splits)

lemma refinement_keeps:
  assumes ok: "reviews_ok db" and run: "Refine E S i newId sid r db = (res, db')"
    and new: "i \<notin> set (map Sc_Id (screening_rows db))" "fresh_ids newId db"
  shows "reviews_ok db'"
proof (cases res)
  case (Inl err)
  then show ?thesis using run ok Refine_Inl by blast
next
  case (Inr s)
  with run have "Refine E S i newId sid r db = (Inr s, db')" by simp
  then obtain d sc found where s: "s = refined_screening i r d sc found"
    and db': "db' = InsertScreening newId s (SR_EntityIds found) (ArchiveScreening (Sc_Id sc) db)
     \<or> db' = (InsertScreening newId s (SR_EntityIds found) (ArchiveScreening (Sc_Id sc) db))
         \<lparr>enrichment_tasks := enrichment_tasks db @ [i]\<rparr>"
    by (rule Refine_Inr)
  let ?a = "ArchiveScreening (Sc_Id sc) db"
  have "reviews_ok (InsertScreening newId s (SR_EntityIds found) ?a)"
  proof (rule insert_keeps [OF archive_keeps [OF ok]])
    show "Sc_Id s \<notin> set (map Sc_Id (screening_rows ?a))"
      using new(1) unfolding archive_rows by (simp add: s refined_screening_def)
    show "fresh_ids newId ?a" using new(2) by (simp add: fresh_ids_def ArchiveScreening_def)
    show "initial_status s (SR_EntityIds found)" by (simp add: s refined_screening_def initial_status_def)
  qed
  moreover have "reviews_ok db' = reviews_ok (InsertScreening newId s (SR_EntityIds found) ?a)"
    using db' by (intro reviews_ok_cong) auto
  ultimately show ?thesis by simp
qed

section \<open>The requests\<close>

inductive review_step :: "review_db \<Rightarrow> review_db \<Rightarrow> bool" where
  store: "Sc_Id s \<notin> set (map Sc_Id (screening_rows db)) \<Longrightarrow> fresh_ids newId db \<Longrightarrow> initial_status s es
    \<Longrightarrow> review_step db (InsertScreening newId s es db)"
| refine: "Refine E S i newId sid r db = (res, db') \<Longrightarrow> i \<notin> set (map Sc_Id (screening_rows db)) \<Longrightarrow> fresh_ids newId db
    \<Longrightarrow> review_step db db'"
| review: "UpdateMatchStatus E u db = (res', db') \<Longrightarrow> review_step db db'"
| comment: "MatchAddComment E i c db = (res'', db') \<Longrightarrow> review_step db db'"
| add_whitelist: "CreateWhitelist E org c' e r' db = Inr db' \<Longrightarrow> review_step db db'"
| delete_whitelist: "DeleteWhitelist E org c'' e db = Inr db' \<Longrightarrow> review_step db db'"
| case_change: "review_step db (db\<lparr>case_tables := cs\<rparr>)"

inductive reviewed :: "review_db \<Rightarrow> bool" where
  empty: "screening_rows db = [] \<Longrightarrow> match_rows db = [] \<Longrightarrow> reviewed db"
| step: "reviewed db \<Longrightarrow> review_step db db' \<Longrightarrow> reviewed db'"

lemma MatchAddComment_rows:
  assumes "MatchAddComment E i c db = (res, db')"
  shows "match_rows db' = match_rows db" "screening_rows db' = screening_rows db"
  using assms by (auto simp: MatchAddComment_def AddScreeningMatchComment_def split: sum.splits if_splits)

lemma whitelist_rows:
  "CreateWhitelist E org c e r db = Inr db' \<Longrightarrow> match_rows db' = match_rows db \<and> screening_rows db' = screening_rows db"
  "DeleteWhitelist E org c' e db = Inr db' \<Longrightarrow> match_rows db' = match_rows db \<and> screening_rows db' = screening_rows db"
  by (auto simp: CreateWhitelist_def DeleteWhitelist_def check_Inr AddScreeningMatchWhitelist_def DeleteScreeningMatchWhitelist_def)

lemma review_step_keeps: "review_step db db' \<Longrightarrow> reviews_ok db \<Longrightarrow> reviews_ok db'"
proof (induction rule: review_step.induct)
  case (comment E i c db res db')
  then show ?case using reviews_ok_cong [OF MatchAddComment_rows [OF comment.hyps]] by simp
next
  case (case_change db cs)
  have "reviews_ok (db\<lparr>case_tables := cs\<rparr>) = reviews_ok db" by (rule reviews_ok_cong) simp_all
  then show ?case using case_change by simp
qed (blast intro: insert_keeps refinement_keeps review_keeps reviews_ok_cong [THEN iffD2] dest: whitelist_rows)+

lemma reviewed_ok: "reviewed db \<Longrightarrow> reviews_ok db"
proof (induction rule: reviewed.induct)
  case (empty db)
  then show ?case by (simp add: reviews_ok_def keyed_def)
qed (rule review_step_keeps)

text \<open>A match that was reviewed or skipped stays as it is.\<close>

lemma review_final:
  assumes keyed: "keyed db" and run: "UpdateMatchStatus E u db = (res, db')" and x: "x \<in> set (match_rows db)" "\<not> pending x"
  shows "x \<in> set (match_rows db')"
proof (cases res)
  case (Inl err)
  from run Inl obtain cs where "db' = db\<lparr>match_comments := cs\<rparr>"
    by (cases rule: UpdateMatchStatus_cases) blast+
  then show ?thesis using x by simp
next
  case (Inr m')
  from run Inr have "UpdateMatchStatus E u db = (Inr m', db')" by simp
  from review_written [OF keyed this] obtain m s d where r: "reviewable E u m s d db"
    and ms: "match_rows db' = map (reviewed_match u (Sc_Id s)) (match_rows db)" by blast
  have m: "SM_Id m = UP_MatchId u" "m \<in> set (match_rows db)" "pending m"
    using r GetScreeningMatch_Inr unfolding reviewable_def by blast+
  have "SM_Id x \<noteq> UP_MatchId u"
    using same_key [of SM_Id "match_rows db" x m] keyed x m by (auto simp: keyed_def)
  then have "reviewed_match u (Sc_Id s) x = x" using x by (simp add: reviewed_match_def)
  then show ?thesis using x ms by (metis image_eqI list.set_map)
qed

lemma step_final:
  assumes "review_step db db'" "keyed db" "x \<in> set (match_rows db)" "\<not> pending x"
  shows "x \<in> set (match_rows db')"
  using assms
proof (induction rule: review_step.induct)
  case (refine E S i newId sid r db res db')
  show ?case
  proof (cases res)
    case (Inl err)
    then show ?thesis using refine Refine_Inl by blast
  next
    case (Inr s)
    with refine have "Refine E S i newId sid r db = (Inr s, db')" by simp
    then show ?thesis using refine by (elim Refine_Inr) (auto simp: InsertScreening_def ArchiveScreening_def)
  qed
next
  case (review E u db res' db')
  then show ?case by (blast intro: review_final)
next
  case (comment E i c db res db')
  then show ?case using MatchAddComment_rows(1) by fastforce
qed (auto simp: InsertScreening_def dest!: whitelist_rows)

end
