(* ===== verification/Continuous_Laws.thy ===== *)
theory Continuous_Laws
  imports Continuous_Reviews Review_Laws
begin

text \<open>
  The review of continuous screenings: what the requests write on the rows of screenings and matches, the
  consistency of a screening with its matches, and that every request keeps it.
\<close>

section \<open>The rows\<close>

definition cs_rows :: "continuous_db \<Rightarrow> ContinuousScreening list \<times> ContinuousScreeningMatch list" where
  "cs_rows db = (screenings (case_db_of db), cs_matches db)"

definition set_status :: "uuid \<Rightarrow> ScreeningStatus \<Rightarrow> ContinuousScreening list \<Rightarrow> ContinuousScreening list" where
  "set_status i st ss = map (\<lambda>s. if CS_Id s = i then s\<lparr>CS_Status := st\<rparr> else s) ss"

definition set_match_status ::
    "uuid list \<Rightarrow> ScreeningMatchStatus \<Rightarrow> uuid option \<Rightarrow> ContinuousScreeningMatch list \<Rightarrow> ContinuousScreeningMatch list" where
  "set_match_status ids st r ms = map (\<lambda>m. if CSM_Id m \<in> set ids then m\<lparr>CSM_Status := st, CSM_ReviewedBy := r\<rparr> else m) ms"

lemma set_match_status_Nil [simp]: "set_match_status [] st r ms = ms"
  by (simp add: set_match_status_def)

lemma cs_rows_steps [simp]:
  "cs_rows (add_case_events evs tx) = cs_rows tx"
  "cs_rows (UpdateContinuousScreeningStatus i st tx) = (set_status i st (fst (cs_rows tx)), snd (cs_rows tx))"
  "cs_rows (UpdateContinuousScreeningMatchStatusByBatch ids mst r tx) = (fst (cs_rows tx), set_match_status ids mst r (snd (cs_rows tx)))"
  "cs_rows (updateScreeningStatusWithEvent R s st u tx) = (set_status (CS_Id s) st (fst (cs_rows tx)), snd (cs_rows tx))"
  "cs_rows (skipPendingMatches R s ps u r tx)
     = (fst (cs_rows tx), set_match_status (map CSM_Id ps) ScreeningMatchStatusSkipped r (snd (cs_rows tx)))"
  "cs_rows (AttachObjectRiskTags ts tx) = cs_rows tx"
  "cs_rows (tx\<lparr>cs_comments := cs\<rparr>) = cs_rows tx"
  "cs_rows (tx\<lparr>match_webhooks := ws\<rparr>) = cs_rows tx"
  "cs_rows (tx\<lparr>cs_enrichment_tasks := es\<rparr>) = cs_rows tx"
  by (simp_all add: cs_rows_def add_case_events_def BatchCreateCaseEvents_def UpdateContinuousScreeningStatus_def
      UpdateContinuousScreeningMatchStatusByBatch_def updateScreeningStatusWithEvent_def skipPendingMatches_def
      AttachObjectRiskTags_def set_status_def set_match_status_def)

lemma cs_rows_whitelist: "CreateWhitelist E org c e r (reviews tx) = Inr rv \<Longrightarrow> cs_rows (tx\<lparr>reviews := rv\<rparr>) = cs_rows tx"
  by (auto simp: CreateWhitelist_def check_Inr AddScreeningMatchWhitelist_def cs_rows_def)

lemma side_effects_screenings: "PerformCaseActionSideEffects E c db = Inr db' \<Longrightarrow> screenings db' = screenings db"
  by (auto simp: PerformCaseActionSideEffects_def performCaseActionSideEffectsWithoutStatusChange_def cdb_UpdateCase_def
      on_case_def attempt_Inr check_Inr SelfAssignOnAction_def UnboostCase_def createCaseContributorIfNotExist_def Let_def
      CreateCaseEvent_def BatchCreateCaseEvents_def cdb_AssignCase_def
      split: if_splits option.splits sum.splits)

section \<open>The effect of a review\<close>

abbreviation cs_pending :: "ContinuousScreeningMatch \<Rightarrow> bool" where
  "cs_pending m \<equiv> CSM_Status m = ScreeningMatchStatusPending"

abbreviation others :: "uuid \<Rightarrow> ContinuousScreeningMatch list \<Rightarrow> ContinuousScreeningMatch list" where
  "others i ms \<equiv> filter (\<lambda>x. CSM_Id x \<noteq> i \<and> cs_pending x) ms"

text \<open>The status that a screening gets, from its matches as they were before the review.\<close>

definition concluded_status ::
    "ScreeningMatchStatus \<Rightarrow> uuid \<Rightarrow> ContinuousScreening \<Rightarrow> ContinuousScreeningMatch list \<Rightarrow> ScreeningStatus" where
  "concluded_status st i s ms =
     (if st = ScreeningMatchStatusConfirmedHit \<and> IsObjectTriggered s then ScreeningStatusConfirmedHit
      else if CS_IsPartial s \<or> others i ms \<noteq> [] then CS_Status s
      else if st = ScreeningMatchStatusConfirmedHit then ScreeningStatusConfirmedHit
      else if \<not> IsObjectTriggered s \<and> (\<exists>m\<in>set ms. CSM_Status m = ScreeningMatchStatusConfirmedHit)
      then ScreeningStatusConfirmedHit else ScreeningStatusNoHit)"

lemma handleWhitelistCreation_rows: "handleWhitelistCreation R s m u tx = Inr tx' \<Longrightarrow> cs_rows tx' = cs_rows tx"
  by (auto simp: handleWhitelistCreation_def attempt_Inr cs_rows_whitelist)

lemma risk_tags_rows: "addRiskTagsFromConfirmedMatch R s m u tx = Inr tx' \<Longrightarrow> cs_rows tx' = cs_rows tx"
  by (auto simp: addRiskTagsFromConfirmedMatch_def attempt_Inr split: if_splits)

lemma conclude_continuous_rows:
  assumes run: "conclude_continuous R u s ms m um r tx = Inr tx'"
    and s: "s \<in> set (fst (cs_rows tx))" "distinct (map CS_Id (fst (cs_rows tx)))"
    and st: "UP_Status u \<in> {ScreeningMatchStatusConfirmedHit, ScreeningMatchStatusNoHit}"
  shows "cs_rows tx' = (set_status (CS_Id s) (concluded_status (UP_Status u) (CSM_Id m) s ms) (fst (cs_rows tx)),
    if UP_Status u = ScreeningMatchStatusConfirmedHit \<and> IsObjectTriggered s
    then set_match_status (map CSM_Id (others (CSM_Id m) ms)) ScreeningMatchStatusSkipped r (snd (cs_rows tx)) else snd (cs_rows tx))"
proof -
  have same: "set_status (CS_Id s) (CS_Status s) (fst (cs_rows tx)) = fst (cs_rows tx)"
    unfolding set_status_def
  proof (rule map_idI)
    fix x assume "x \<in> set (fst (cs_rows tx))"
    then show "(if CS_Id x = CS_Id s then x\<lparr>CS_Status := CS_Status s\<rparr> else x) = x"
      using same_key [OF s(2), of x s] s(1) by (cases "CS_Id x = CS_Id s") simp_all
  qed
  show ?thesis
  proof (cases "UP_Status u = ScreeningMatchStatusConfirmedHit")
    case True
    then obtain tx1 where tag: "addRiskTagsFromConfirmedMatch R s um (UP_ReviewerId u) tx = Inr tx1"
      and tx': "tx' = (if IsObjectTriggered s
         then skipPendingMatches R s (others (CSM_Id m) ms) (UP_ReviewerId u) r
           (updateScreeningStatusWithEvent R s ScreeningStatusConfirmedHit (UP_ReviewerId u) tx1)
         else if \<not> CS_IsPartial s \<and> others (CSM_Id m) ms = []
         then updateScreeningStatusWithEvent R s ScreeningStatusConfirmedHit (UP_ReviewerId u) tx1 else tx1)"
      using run by (auto simp: conclude_continuous_def handleConfirmedHit_def attempt_Inr Let_def)
    show ?thesis
      using True same unfolding tx' by (auto simp: concluded_status_def risk_tags_rows [OF tag])
  next
    case False
    then have "cs_rows tx' = cs_rows (if \<not> CS_IsPartial s \<and> others (CSM_Id m) ms = []
        then handleNoHitLastMatch R s ms (UP_ReviewerId u) tx else tx)"
      using run by (auto simp: conclude_continuous_def Let_def dest!: handleWhitelistCreation_rows)
    then show ?thesis
      using False same by (auto simp: concluded_status_def handleNoHitLastMatch_def list_ex_iff)
  qed
qed

lemma adapt_match_simps [simp]:
  "CSM_Id (adapt_match R m) = CSM_Id m" "CSM_Status (adapt_match R m) = CSM_Status m"
  "CSM_ScreeningId (adapt_match R m) = CSM_ScreeningId m" "CSM_EntityId (adapt_match R m) = CSM_EntityId m"
  "CSM_Payload (adapt_match R m) = CSM_Payload m"
  by (simp_all add: adapt_match_def)

lemma others_adapt: "map CSM_Id (others i (map (adapt_match R) ms)) = map CSM_Id (others i ms)"
  by (induction ms) simp_all

lemma concluded_status_adapt [simp]: "concluded_status st i s (map (adapt_match R) ms) = concluded_status st i s ms"
proof -
  have "map CSM_Id (others i (map (adapt_match R) ms)) = [] \<longleftrightarrow> map CSM_Id (others i ms) = []"
    unfolding others_adapt ..
  then have "(others i (map (adapt_match R) ms) \<noteq> []) = (others i ms \<noteq> [])" by (simp only: map_is_Nil_conv)
  moreover have "(\<exists>m\<in>set (map (adapt_match R) ms). CSM_Status m = ScreeningMatchStatusConfirmedHit)
    = (\<exists>m\<in>set ms. CSM_Status m = ScreeningMatchStatusConfirmedHit)" by simp
  ultimately show ?thesis unfolding concluded_status_def by presburger
qed

definition matches_of :: "uuid \<Rightarrow> continuous_db \<Rightarrow> ContinuousScreeningMatch list" where
  "matches_of i db = filter (\<lambda>m. CSM_ScreeningId m = i) (cs_matches db)"

definition cs_keyed :: "continuous_db \<Rightarrow> bool" where
  "cs_keyed db \<longleftrightarrow> distinct (map CS_Id (screenings (case_db_of db))) \<and> distinct (map CSM_Id (cs_matches db))
     \<and> set (map CSM_ScreeningId (cs_matches db)) \<subseteq> set (map CS_Id (screenings (case_db_of db)))"

lemma find_screening_Some: "find_screening i db = Some s \<Longrightarrow> s \<in> set (screenings (case_db_of db)) \<and> CS_Id s = i"
  by (auto simp: find_screening_def find_Some_iff)

lemma GetWithMatches_Inr:
  "GetContinuousScreeningWithMatchesById R i db = Inr (s, ms) \<longleftrightarrow>
     find_screening i db = Some s \<and> ms = map (adapt_match R) (matches_of i db)"
  by (auto simp: GetContinuousScreeningWithMatchesById_def matches_of_def split: option.splits)

lemma GetMatch_Inr:
  "GetContinuousScreeningMatch R i db = Inr m \<Longrightarrow> \<exists>x. x \<in> set (cs_matches db) \<and> m = adapt_match R x \<and> CSM_Id x = i"
  by (auto simp: GetContinuousScreeningMatch_def find_Some_iff intro!: nth_mem exI split: option.splits)

text \<open>The rows that a review writes: the match, those that it skips, and the status of the screening.\<close>

definition reviewed_rows :: "ScreeningMatchStatus \<Rightarrow> uuid \<Rightarrow> uuid option \<Rightarrow> ContinuousScreening \<Rightarrow> continuous_db
    \<Rightarrow> ContinuousScreening list \<times> ContinuousScreeningMatch list" where
  "reviewed_rows st i r s db =
     (let ms = matches_of (CS_Id s) db in
      (set_status (CS_Id s) (concluded_status st i s ms) (screenings (case_db_of db)),
       set_match_status (if st = ScreeningMatchStatusConfirmedHit \<and> IsObjectTriggered s then map CSM_Id (others i ms) else [])
         ScreeningMatchStatusSkipped r (set_match_status [i] st r (cs_matches db))))"

lemma save_comment_rows: "save_comment R c tx = Inr (saved, tx') \<Longrightarrow> cs_rows tx' = cs_rows tx"
  by (auto simp: save_comment_def AddContinuousScreeningMatchComment_def attempt_Inr split: option.splits if_splits)

lemma announce_rows: "announce_review R i m saved tx = Inr (m', tx') \<Longrightarrow> cs_rows tx' = cs_rows tx"
  by (auto simp: announce_review_def attempt_Inr check_Inr Let_def)

text \<open>The steps of a review that succeeds.\<close>

lemma review_transaction_steps:
  assumes "review_transaction R u i r db = Inr (m', db')"
  obtains m s ms caseId c um tx1 saved tx2 cdb tx4 where
    "GetContinuousScreeningMatch R i db = Inr m" "GetContinuousScreeningWithMatchesById R (CSM_ScreeningId m) db = Inr (s, ms)"
    "CS_CaseId s = Some caseId" "CS_Status s = ScreeningStatusInReview" "GetCaseById caseId (case_db_of db) = Inr c"
    "checkPermissionOnCaseAndContinuousScreening R c s db = None"
    "UpdateContinuousScreeningMatchStatus R i (UP_Status u) r db = Inr (um, tx1)"
    "save_comment R (UP_Comment u) tx1 = Inr (saved, tx2)"
    "PerformCaseActionSideEffects (CaseEnv R) c
       (case_db_of (add_case_events [match_event R s (UP_ReviewerId u) (UP_Status u) m] tx2)) = Inr cdb"
    "conclude_continuous R u s ms m um r (with_case_db cdb tx2) = Inr tx4"
    "announce_review R (CSM_ScreeningId m) um saved tx4 = Inr (m', db')"
  using assms unfolding review_transaction_def
  by (auto simp: attempt_Inr check_Inr split: option.splits if_splits prod.splits)

lemma review_transaction_Inr:
  assumes run: "review_transaction R u i r db = Inr (m', db')" and keyed: "cs_keyed db"
    and st: "UP_Status u \<in> {ScreeningMatchStatusConfirmedHit, ScreeningMatchStatusNoHit}"
  obtains x s c where "x \<in> set (cs_matches db)" "CSM_Id x = i" "s \<in> set (screenings (case_db_of db))" "CS_Id s = CSM_ScreeningId x"
    "CS_Status s = ScreeningStatusInReview" "CS_CaseId s \<noteq> None" "GetCaseById (case_of s) (case_db_of db) = Inr c"
    "checkPermissionOnCaseAndContinuousScreening R c s db = None" "cs_rows db' = reviewed_rows (UP_Status u) i r s db"
proof -
  obtain m s ms caseId c um tx1 saved tx2 cdb tx4
    where m: "GetContinuousScreeningMatch R i db = Inr m"
      and s: "GetContinuousScreeningWithMatchesById R (CSM_ScreeningId m) db = Inr (s, ms)"
      and caseId: "CS_CaseId s = Some caseId" and rev: "CS_Status s = ScreeningStatusInReview"
      and c: "GetCaseById caseId (case_db_of db) = Inr c"
      and perm: "checkPermissionOnCaseAndContinuousScreening R c s db = None"
      and up: "UpdateContinuousScreeningMatchStatus R i (UP_Status u) r db = Inr (um, tx1)"
      and com: "save_comment R (UP_Comment u) tx1 = Inr (saved, tx2)"
      and eff: "PerformCaseActionSideEffects (CaseEnv R) c
          (case_db_of (add_case_events [match_event R s (UP_ReviewerId u) (UP_Status u) m] tx2)) = Inr cdb"
      and con: "conclude_continuous R u s ms m um r (with_case_db cdb tx2) = Inr tx4"
      and ann: "announce_review R (CSM_ScreeningId m) um saved tx4 = Inr (m', db')"
    by (rule review_transaction_steps [OF run])
  from GetMatch_Inr [OF m] obtain x where x: "x \<in> set (cs_matches db)" "m = adapt_match R x" "CSM_Id x = i" by blast
  have fs: "s \<in> set (screenings (case_db_of db))" "CS_Id s = CSM_ScreeningId x" and ms: "ms = map (adapt_match R) (matches_of (CS_Id s) db)"
    using s x(2) find_screening_Some by (auto simp: GetWithMatches_Inr)
  have r1: "cs_rows tx1 = (screenings (case_db_of db), set_match_status [i] (UP_Status u) r (cs_matches db))"
    using up by (auto simp: UpdateContinuousScreeningMatchStatus_def attempt_Inr Let_def cs_rows_def [of db])
  have r2: "cs_rows tx2 = cs_rows tx1" by (rule save_comment_rows [OF com])
  have "screenings cdb = screenings (case_db_of tx2)"
    using side_effects_screenings [OF eff] by (simp add: add_case_events_def BatchCreateCaseEvents_def)
  then have r3: "cs_rows (with_case_db cdb tx2) = cs_rows tx1" using r2 by (simp add: cs_rows_def)
  have "cs_rows tx4 = reviewed_rows (UP_Status u) i r s db"
    using conclude_continuous_rows [OF con _ _ st] fs(1) keyed x
    by (auto simp: r3 r1 reviewed_rows_def Let_def ms cs_keyed_def others_adapt)
  then have rows: "cs_rows db' = reviewed_rows (UP_Status u) i r s db" using announce_rows [OF ann] by simp
  have "GetCaseById (case_of s) (case_db_of db) = Inr c" using c caseId by (simp add: case_of_def)
  with that [OF x(1) x(3) fs rev _ _ perm rows] caseId show thesis by simp
qed

section \<open>Consistent screenings\<close>

text \<open>The status of a screening agrees with those of its matches; one of an object has at most one hit.\<close>

abbreviation hits :: "ContinuousScreeningMatch list \<Rightarrow> ContinuousScreeningMatch list" where
  "hits ms \<equiv> filter (\<lambda>m. CSM_Status m = ScreeningMatchStatusConfirmedHit) ms"

definition cs_ok :: "ContinuousScreening \<Rightarrow> ContinuousScreeningMatch list \<Rightarrow> bool" where
  "cs_ok s ms \<longleftrightarrow> (case CS_Status s of
     ScreeningStatusInReview \<Rightarrow> IsObjectTriggered s \<longrightarrow> hits ms = []
   | ScreeningStatusConfirmedHit \<Rightarrow> (\<forall>m\<in>set ms. \<not> cs_pending m) \<and> (IsObjectTriggered s \<longrightarrow> length (hits ms) = 1)
   | ScreeningStatusNoHit \<Rightarrow> (\<forall>m\<in>set ms. \<not> cs_pending m) \<and> (IsObjectTriggered s \<longrightarrow> hits ms = [])
   | _ \<Rightarrow> False)"

definition continuous_ok :: "continuous_db \<Rightarrow> bool" where
  "continuous_ok db \<longleftrightarrow> cs_keyed db
     \<and> (\<forall>s\<in>set (screenings (case_db_of db)). cs_ok s (matches_of (CS_Id s) db))"

text \<open>The case of a screening is not part of it.\<close>

definition uncased :: "ContinuousScreening \<Rightarrow> ContinuousScreening" where
  "uncased s = s\<lparr>CS_CaseId := None\<rparr>"

lemma uncased_simps [simp]: "CS_Id (uncased s) = CS_Id s" "cs_ok (uncased s) ms = cs_ok s ms"
proof -
  show "CS_Id (uncased s) = CS_Id s" by (simp add: uncased_def)
  show "cs_ok (uncased s) ms = cs_ok s ms"
    by (cases "CS_Status s") (simp_all add: cs_ok_def uncased_def IsObjectTriggered_def)
qed

definition same_screenings :: "case_db \<Rightarrow> case_db \<Rightarrow> bool" where
  "same_screenings c c' \<longleftrightarrow> map uncased (screenings c') = map uncased (screenings c)"

lemma continuous_ok_uncased:
  "continuous_ok db \<longleftrightarrow> distinct (map CS_Id (map uncased (screenings (case_db_of db)))) \<and> distinct (map CSM_Id (cs_matches db))
     \<and> set (map CSM_ScreeningId (cs_matches db)) \<subseteq> set (map CS_Id (map uncased (screenings (case_db_of db))))
     \<and> (\<forall>s\<in>set (map uncased (screenings (case_db_of db))). cs_ok s (filter (\<lambda>m. CSM_ScreeningId m = CS_Id s) (cs_matches db)))"
  by (simp add: continuous_ok_def cs_keyed_def matches_of_def comp_def image_image)

lemma continuous_ok_cong:
  assumes "same_screenings (case_db_of db) (case_db_of db')" "cs_matches db' = cs_matches db"
  shows "continuous_ok db' = continuous_ok db"
  using assms unfolding continuous_ok_uncased same_screenings_def by (simp only:)

lemma same_screenings_refl [simp]: "same_screenings c c"
  by (simp add: same_screenings_def)

lemma same_screenings_trans: "same_screenings a b \<Longrightarrow> same_screenings b c \<Longrightarrow> same_screenings a c"
  by (simp add: same_screenings_def)

text \<open>The rule for a request that changes one screening and its matches.\<close>

lemma continuous_okI:
  assumes ok: "continuous_ok db" and s: "s \<in> set (screenings (case_db_of db))"
    and ss: "screenings (case_db_of db') = map (\<lambda>x. if CS_Id x = CS_Id s then f x else x) (screenings (case_db_of db))"
    and f: "\<And>x. CS_Id (f x) = CS_Id x"
    and ms: "cs_matches db' = map g (cs_matches db)"
    and g: "\<And>x. CSM_Id (g x) = CSM_Id x" "\<And>x. CSM_ScreeningId (g x) = CSM_ScreeningId x"
      "\<And>x. x \<in> set (cs_matches db) \<Longrightarrow> CSM_ScreeningId x \<noteq> CS_Id s \<Longrightarrow> g x = x"
    and new: "cs_ok (f s) (map g (matches_of (CS_Id s) db))"
  shows "continuous_ok db'"
proof -
  have keyed: "cs_keyed db" using ok by (simp add: continuous_ok_def)
  have "map CS_Id (screenings (case_db_of db')) = map CS_Id (screenings (case_db_of db))"
    "map CSM_Id (cs_matches db') = map CSM_Id (cs_matches db)"
    "map CSM_ScreeningId (cs_matches db') = map CSM_ScreeningId (cs_matches db)"
    by (simp_all add: ss ms f g comp_def if_distrib)
  then have keyed': "cs_keyed db'" using keyed by (simp only: cs_keyed_def)
  have list: "matches_of i db' = map g (matches_of i db)" for i
    by (simp add: matches_of_def ms filter_map comp_def g)
  have "cs_ok x (matches_of (CS_Id x) db')" if "x \<in> set (screenings (case_db_of db'))" for x
  proof -
    from that obtain y where y: "y \<in> set (screenings (case_db_of db))" and x: "x = (if CS_Id y = CS_Id s then f y else y)"
      by (auto simp: ss)
    show ?thesis
    proof (cases "CS_Id y = CS_Id s")
      case True
      then have "y = s" using same_key [of CS_Id "screenings (case_db_of db)" y s] keyed y s by (simp add: cs_keyed_def)
      then show ?thesis using new by (simp add: x list f)
    next
      case False
      have "map g (matches_of (CS_Id y) db) = matches_of (CS_Id y) db"
        using False g(3) by (intro map_idI) (auto simp: matches_of_def)
      then show ?thesis using ok y False by (simp add: x list continuous_ok_def)
    qed
  qed
  then show ?thesis using keyed' by (simp add: continuous_ok_def)
qed

section \<open>Reviews and dismissals\<close>

lemma set_match_status_eq:
  "set_match_status ids st r ms = map (\<lambda>m. if CSM_Id m \<in> set ids then m\<lparr>CSM_Status := st, CSM_ReviewedBy := r\<rparr> else m) ms"
  by (simp add: set_match_status_def)

lemma matches_of_distinct: "cs_keyed db \<Longrightarrow> distinct (map CSM_Id (matches_of i db))"
  by (simp add: cs_keyed_def matches_of_def distinct_map_filter)

lemma review_keeps_continuous:
  assumes ok: "continuous_ok db" and run: "review_transaction R u i r db = Inr (m', db')"
    and st: "UP_Status u \<in> {ScreeningMatchStatusConfirmedHit, ScreeningMatchStatusNoHit}"
  shows "continuous_ok db'"
proof -
  have keyed: "cs_keyed db" using ok by (simp add: continuous_ok_def)
  from review_transaction_Inr [OF run keyed st] obtain x s
    where x: "x \<in> set (cs_matches db)" "CSM_Id x = i" and s: "s \<in> set (screenings (case_db_of db))" "CS_Id s = CSM_ScreeningId x"
      and rev: "CS_Status s = ScreeningStatusInReview" and rows: "cs_rows db' = reviewed_rows (UP_Status u) i r s db" by blast
  let ?ms = "matches_of (CS_Id s) db"
  let ?skip = "if UP_Status u = ScreeningMatchStatusConfirmedHit \<and> IsObjectTriggered s then CSM_Id ` set (others i ?ms) else {}"
  define g where "g = (\<lambda>m :: ContinuousScreeningMatch. if CSM_Id m = i then m\<lparr>CSM_Status := UP_Status u, CSM_ReviewedBy := r\<rparr>
    else if CSM_Id m \<in> ?skip then m\<lparr>CSM_Status := ScreeningMatchStatusSkipped, CSM_ReviewedBy := r\<rparr> else m)"
  have keys: "CSM_Id (g m) = CSM_Id m" "CSM_ScreeningId (g m) = CSM_ScreeningId m" for m by (simp_all add: g_def)
  have d: "distinct (map CSM_Id ?ms)" by (rule matches_of_distinct [OF keyed])
  have mem: "x \<in> set ?ms" using x s by (simp add: matches_of_def)
  have not_skip: "i \<notin> ?skip" by auto
  have pend: "CSM_Id m \<in> CSM_Id ` set (others i ?ms) \<longleftrightarrow> CSM_Id m \<noteq> i \<and> cs_pending m" if "m \<in> set ?ms" for m
    using that same_key [OF d] by (auto simp: image_iff)
  have before: "cs_ok s ?ms" using ok s(1) by (simp add: continuous_ok_def)
  show ?thesis
  proof (rule continuous_okI [OF ok s(1), where f = "\<lambda>y. y\<lparr>CS_Status := concluded_status (UP_Status u) i s ?ms\<rparr>" and g = g])
    show "screenings (case_db_of db') = map (\<lambda>y. if CS_Id y = CS_Id s
        then y\<lparr>CS_Status := concluded_status (UP_Status u) i s ?ms\<rparr> else y) (screenings (case_db_of db))"
      using rows by (simp add: cs_rows_def reviewed_rows_def Let_def set_status_def)
    show "cs_matches db' = map g (cs_matches db)"
      using rows not_skip by (auto simp: cs_rows_def reviewed_rows_def Let_def set_match_status_def g_def)
    show "g m = m" if "m \<in> set (cs_matches db)" "CSM_ScreeningId m \<noteq> CS_Id s" for m
    proof -
      have "CSM_Id m \<noteq> CSM_Id y" if "y \<in> set ?ms" for y
        using that \<open>m \<in> set (cs_matches db)\<close> \<open>CSM_ScreeningId m \<noteq> CS_Id s\<close> same_key [of CSM_Id "cs_matches db" m y] keyed
        by (auto simp: cs_keyed_def matches_of_def)
      then show ?thesis using mem x(2) by (auto simp: image_iff g_def)
    qed
    show "cs_ok (s\<lparr>CS_Status := concluded_status (UP_Status u) i s ?ms\<rparr>) (map g ?ms)"
    proof (cases "UP_Status u = ScreeningMatchStatusConfirmedHit \<and> IsObjectTriggered s")
      case True
      have none: "CSM_Status m \<noteq> ScreeningMatchStatusConfirmedHit" if "m \<in> set ?ms" for m
        using before rev True that by (auto simp: cs_ok_def filter_empty_conv)
      have "length (filter (\<lambda>m. CSM_Status (g m) = ScreeningMatchStatusConfirmedHit) ?ms) = 1"
        by (rule filter_one [OF d mem]) (use True x(2) none in \<open>auto simp: g_def split: if_splits\<close>)
      moreover have "\<not> cs_pending (g m)" if "m \<in> set ?ms" for m using True pend [OF that] by (auto simp: g_def)
      ultimately show ?thesis using True
        by (simp add: cs_ok_def concluded_status_def filter_map comp_def IsObjectTriggered_def)
    next
      case False
      have "\<forall>m\<in>set ?ms. \<not> cs_pending (g m)" if "others i ?ms = []"
        using that st False by (auto simp: filter_empty_conv g_def)
      moreover have "hits (map g ?ms) = []" if "hits ?ms = []" "UP_Status u \<noteq> ScreeningMatchStatusConfirmedHit"
        using that by (auto simp: filter_empty_conv g_def)
      ultimately show ?thesis using False before rev st
        by (auto simp: cs_ok_def concluded_status_def IsObjectTriggered_def split: if_splits)
    qed
  qed (simp_all add: keys)
qed

lemma dismiss_rows:
  assumes run: "dismiss_transaction R i u r db = Inr (sm, db')"
  obtains s where "s \<in> set (screenings (case_db_of db))" "CS_Id s = i" "CS_Status s = ScreeningStatusInReview" "CS_CaseId s \<noteq> None"
    "DismissContinuousScreeningHits (CaseCreds (CaseEnv R)) (OrganizationId s) = None"
    "cs_rows db' = (set_status i ScreeningStatusNoHit (screenings (case_db_of db)),
      set_match_status (map CSM_Id (filter cs_pending (matches_of i db))) ScreeningMatchStatusSkipped r (cs_matches db))"
proof -
  from run obtain s ms where s: "GetContinuousScreeningWithMatchesById R i db = Inr (s, ms)"
    and perm: "DismissContinuousScreeningHits (CaseCreds (CaseEnv R)) (OrganizationId s) = None"
    and rev: "CS_CaseId s \<noteq> None" "CS_Status s = ScreeningStatusInReview"
    and db': "db' = updateScreeningStatusWithEvent R s ScreeningStatusNoHit u
         (skipPendingMatches R s (filter cs_pending ms) u r db)"
    unfolding dismiss_transaction_def Let_def by (auto simp: attempt_Inr check_Inr split: if_splits prod.splits)
  have ms: "ms = map (adapt_match R) (matches_of i db)" and fs: "s \<in> set (screenings (case_db_of db))" "CS_Id s = i"
    using s find_screening_Some by (auto simp: GetWithMatches_Inr)
  have "map CSM_Id (filter cs_pending ms) = map CSM_Id (filter cs_pending (matches_of i db))"
    unfolding ms by (simp add: filter_map comp_def)
  then have "cs_rows db' = (set_status i ScreeningStatusNoHit (screenings (case_db_of db)),
      set_match_status (map CSM_Id (filter cs_pending (matches_of i db))) ScreeningMatchStatusSkipped r (cs_matches db))"
    unfolding db' by (simp add: fs(2) cs_rows_def [of db])
  with that [OF fs rev(2,1) perm] show thesis .
qed

lemma dismiss_keeps_continuous:
  assumes ok: "continuous_ok db" and run: "dismiss_transaction R i u r db = Inr (sm, db')"
  shows "continuous_ok db'"
proof -
  have keyed: "cs_keyed db" using ok by (simp add: continuous_ok_def)
  from dismiss_rows [OF run] obtain s where s: "s \<in> set (screenings (case_db_of db))" "CS_Id s = i"
    and rev: "CS_Status s = ScreeningStatusInReview"
    and rows: "cs_rows db' = (set_status i ScreeningStatusNoHit (screenings (case_db_of db)),
      set_match_status (map CSM_Id (filter cs_pending (matches_of i db))) ScreeningMatchStatusSkipped r (cs_matches db))" by blast
  let ?ms = "matches_of i db"
  let ?g = "\<lambda>m. if CSM_Id m \<in> CSM_Id ` set (filter cs_pending ?ms)
    then m\<lparr>CSM_Status := ScreeningMatchStatusSkipped, CSM_ReviewedBy := r\<rparr> else m"
  have d: "distinct (map CSM_Id ?ms)" by (rule matches_of_distinct [OF keyed])
  have before: "cs_ok s ?ms" using ok s by (auto simp: continuous_ok_def)
  show ?thesis
  proof (rule continuous_okI [OF ok s(1), where f = "\<lambda>y. y\<lparr>CS_Status := ScreeningStatusNoHit\<rparr>" and g = ?g])
    show "screenings (case_db_of db') = map (\<lambda>y. if CS_Id y = CS_Id s then y\<lparr>CS_Status := ScreeningStatusNoHit\<rparr> else y)
        (screenings (case_db_of db))"
      using rows s by (simp add: cs_rows_def set_status_def)
    show "cs_matches db' = map ?g (cs_matches db)" using rows by (simp add: cs_rows_def set_match_status_def)
    show "?g m = m" if "m \<in> set (cs_matches db)" "CSM_ScreeningId m \<noteq> CS_Id s" for m
    proof -
      have "CSM_Id m \<noteq> CSM_Id y" if "y \<in> set ?ms" for y
        using that \<open>m \<in> set (cs_matches db)\<close> \<open>CSM_ScreeningId m \<noteq> CS_Id s\<close> same_key [of CSM_Id "cs_matches db" m y] keyed s
        by (auto simp: cs_keyed_def matches_of_def)
      then show ?thesis by (auto simp: image_iff)
    qed
    show "cs_ok (s\<lparr>CS_Status := ScreeningStatusNoHit\<rparr>) (map ?g (matches_of (CS_Id s) db))"
      using before rev by (auto simp: cs_ok_def filter_empty_conv IsObjectTriggered_def s(2))
  qed simp_all
qed

section \<open>New screenings and new matches\<close>

definition fresh_match_ids :: "(nat \<Rightarrow> uuid) \<Rightarrow> continuous_db \<Rightarrow> bool" where
  "fresh_match_ids newId db \<longleftrightarrow> inj newId \<and> (\<forall>k. newId k \<notin> set (map CSM_Id (cs_matches db)))"

text \<open>The identifiers that matches have before they are stored are those that they are given.\<close>

definition preassigned :: "(nat \<Rightarrow> uuid) \<Rightarrow> nat \<Rightarrow> (uuid option \<times> string \<times> string) list \<Rightarrow> bool" where
  "preassigned newId k found \<longleftrightarrow> (\<forall>j<length found. fst (found ! j) = None \<or> fst (found ! j) = Some (newId (k + j)))"

lemma preassigned_Cons:
  "preassigned newId k (f # fs) \<longleftrightarrow> (fst f = None \<or> fst f = Some (newId k)) \<and> preassigned newId (Suc k) fs"
  unfolding preassigned_def by (auto simp: nth_Cons less_Suc_eq_0_disj split: nat.splits)

lemma offload_preassigned:
  assumes "OffloadContinuousScreeningMatches R newId k org sid found = Inr off" "preassigned newId k found"
  shows "preassigned newId k off \<and> length off = length found"
  using assms
proof (induction R newId k org sid found arbitrary: off rule: OffloadContinuousScreeningMatches.induct)
  case (2 R newId k org sid i e p found)
  show ?case
  proof (cases "OffloadingEnabled R \<and> ScreeningOffloadingEnabled R")
    case True
    with 2(2) obtain rest where rest: "OffloadContinuousScreeningMatches R newId (Suc k) org sid found = Inr rest"
      and off: "off = (Some (case i of None \<Rightarrow> newId k | Some j \<Rightarrow> j), e, []) # rest"
      by (auto simp: attempt_Inr check_Inr Let_def)
    have "preassigned newId (Suc k) rest \<and> length rest = length found"
      by (rule 2(1)) (use True rest 2(3) in \<open>simp_all add: preassigned_Cons\<close>)
    then show ?thesis using 2(3) by (auto simp: off preassigned_Cons split: option.splits)
  next
    case False
    then show ?thesis using 2 by simp
  qed
qed (simp add: preassigned_def)

lemma new_matches_ids:
  assumes "preassigned newId 0 found"
  shows "map CSM_Id (new_matches newId sid found) = map newId [0..<length found]"
proof (rule nth_equalityI)
  fix j assume "j < length (map CSM_Id (new_matches newId sid found))"
  then have j: "j < length found" by (simp add: new_matches_def)
  then have "fst (found ! j) = None \<or> fst (found ! j) = Some (newId j)" using assms by (simp add: preassigned_def)
  then show "map CSM_Id (new_matches newId sid found) ! j = map newId [0..<length found] ! j"
    using j by (cases "found ! j") (auto simp: new_matches_def nth_enumerate_eq)
qed (simp add: new_matches_def)

lemma new_matches_all:
  "m \<in> set (new_matches newId sid found) \<Longrightarrow> CSM_ScreeningId m = sid \<and> cs_pending m"
  by (auto simp: new_matches_def)

lemma new_matches_entity: "m \<in> set (new_matches newId sid found) \<Longrightarrow> \<exists>k p. (k, CSM_EntityId m, p) \<in> set found"
proof -
  assume "m \<in> set (new_matches newId sid found)"
  then obtain k i e p where f: "(k, i, e, p) \<in> set (enumerate 0 found)" and m: "CSM_EntityId m = e"
    by (auto simp: new_matches_def)
  from f have "(i, e, p) \<in> snd ` set (enumerate 0 found)" by force
  then have "(i, e, p) \<in> set found" by (metis list.set_map map_snd_enumerate)
  then show ?thesis using m by blast
qed

lemma offload_entities:
  "OffloadContinuousScreeningMatches R newId k org sid found = Inr off \<Longrightarrow> fst ` snd ` set off \<subseteq> fst ` snd ` set found"
proof (induction R newId k org sid found arbitrary: off rule: OffloadContinuousScreeningMatches.induct)
  case (2 R newId k org sid i e p found)
  show ?case
  proof (cases "OffloadingEnabled R \<and> ScreeningOffloadingEnabled R")
    case True
    with 2(2) obtain j rest where rest: "OffloadContinuousScreeningMatches R newId (Suc k) org sid found = Inr rest"
      and off: "off = (j, e, []) # rest"
      by (auto simp: attempt_Inr check_Inr Let_def)
    have "fst ` snd ` set rest \<subseteq> fst ` snd ` set found" by (rule 2(1)) (use True rest in simp_all)
    then show ?thesis by (auto simp: off)
  next
    case False
    then show ?thesis using 2(2) by auto
  qed
qed simp

lemma new_matches_length [simp]: "length (new_matches newId sid found) = length found"
  by (simp add: new_matches_def)

lemma store_keeps_continuous:
  assumes ok: "continuous_ok db" and new: "IN_Id a \<notin> set (map CS_Id (screenings (case_db_of db)))" "fresh_match_ids newId db"
    "preassigned newId 0 (FM_Matches (IN_Screening a))"
    and st: "FM_Status (IN_Screening a) = InitialStatusFromMatches (map (fst \<circ> snd) (FM_Matches (IN_Screening a)))"
    and run: "InsertContinuousScreening R newId a db = (sm, db')"
  shows "continuous_ok db'"
proof -
  let ?ms = "new_matches newId (IN_Id a) (FM_Matches (IN_Screening a))"
  have ss: "screenings (case_db_of db') = screenings (case_db_of db) @ [inserted_screening a]"
    and ms: "cs_matches db' = cs_matches db @ ?ms"
    using run by (auto simp: InsertContinuousScreening_def InsertContinuousScreeningMatches_def Let_def)
  have i: "CS_Id (inserted_screening a) = IN_Id a" by (simp add: inserted_screening_def)
  have ids: "map CSM_Id ?ms = map newId [0..<length (FM_Matches (IN_Screening a))]" by (rule new_matches_ids [OF new(3)])
  have "distinct (map CSM_Id ?ms)" unfolding ids using new(2) by (simp add: fresh_match_ids_def distinct_map inj_def inj_on_def)
  moreover have "set (map CSM_Id ?ms) \<inter> set (map CSM_Id (cs_matches db)) = {}"
    unfolding ids using new(2) by (auto simp: fresh_match_ids_def)
  moreover have "CSM_ScreeningId ` set ?ms \<subseteq> {IN_Id a}" using new_matches_all by auto
  ultimately have keyed: "cs_keyed db'"
    using ok new(1) i unfolding continuous_ok_def cs_keyed_def ss ms by (auto simp: Int_commute)
  have rel: "CSM_ScreeningId x \<in> set (map CS_Id (screenings (case_db_of db)))" if "x \<in> set (cs_matches db)" for x
    using ok that by (auto simp: continuous_ok_def cs_keyed_def)
  have "filter (\<lambda>m. CSM_ScreeningId m = IN_Id a) (cs_matches db) = []"
    unfolding filter_empty_conv using rel new(1) by metis
  then have mine: "matches_of (IN_Id a) db' = ?ms"
    using new_matches_all by (auto simp: matches_of_def ms filter_id_conv)
  have old: "matches_of (CS_Id x) db' = matches_of (CS_Id x) db" if "x \<in> set (screenings (case_db_of db))" for x
    using that new(1) new_matches_all by (auto simp: matches_of_def ms filter_empty_conv)
  have status: "CS_Status (inserted_screening a) = FM_Status (IN_Screening a)"
    by (simp add: inserted_screening_def ScreeningStatus_roundtrip)
  have no_hits: "hits ?ms = []" using new_matches_all by (fastforce simp: filter_empty_conv)
  have "cs_ok (inserted_screening a) ?ms"
    by (cases "FM_Matches (IN_Screening a) = []")
      (simp_all add: cs_ok_def status st no_hits InitialStatusFromMatches_def, simp add: new_matches_def)
  then show ?thesis using ok keyed old by (auto simp: continuous_ok_def ss i mine)
qed

lemma events_screenings [simp]:
  "screenings (BatchCreateCaseEvents evs c) = screenings c" "screenings (CreateCaseEvent ev c) = screenings c"
  "screenings (createCaseContributorIfNotExist j u c) = screenings c" "screenings (UnsnoozeCase j c) = screenings c"
  "screenings (UpdateDecisionCaseId ids j c) = screenings c" "screenings (cdb_CreateCase j now a c) = screenings c"
  by (simp_all add: BatchCreateCaseEvents_def CreateCaseEvent_def createCaseContributorIfNotExist_def UnsnoozeCase_def
      on_case_def UpdateDecisionCaseId_def cdb_CreateCase_def)

lemma create_case_screenings:
  assumes "CreateCase E j now u a b tx = Inr (c, tx')"
  shows "same_screenings tx tx'"
proof -
  have auto_assign: "triggerAutoAssignment E org inb t = Inr t' \<Longrightarrow> screenings t' = screenings t" for org inb t t'
    by (auto simp: triggerAutoAssignment_def attempt_Inr split: if_splits option.splits)
  have join: "same_screenings t (updateContinuousScreeningsWithEvents str org j u ids t)" for str org ids t
    by (simp add: same_screenings_def updateContinuousScreeningsWithEvents_def UpdateContinuousScreeningsCaseId_def
        comp_def uncased_def)
  have rest: "screenings (UpdateDecisionsWithEvents org j u ids t) = screenings t"
    "screenings (creation_events b org j u t) = screenings t" for org ids t
    by (simp_all add: UpdateDecisionsWithEvents_def creation_events_def)
  obtain tx1 where tx1: "screenings tx1 = screenings tx"
    and tx': "tx' = updateContinuousScreeningsWithEvents (UuidStr E) (OrganizationId a) j u (CC_ContinuousScreeningIds a)
      (UpdateDecisionsWithEvents (OrganizationId a) j u (CC_DecisionIds a) (creation_events b (OrganizationId a) j u tx1))"
    using assms by (auto simp: CreateCase_def Let_def attempt_Inr check_Inr dest!: auto_assign)
  show ?thesis unfolding tx'
    by (rule same_screenings_trans [OF _ join]) (simp add: same_screenings_def rest tx1)
qed

lemma file_screening_rows:
  assumes "file_screening R w j now name a s tx = Inr tx'"
  shows "same_screenings (case_db_of tx) (case_db_of tx') \<and> cs_matches tx' = cs_matches tx"
  using assms
  by (auto simp: file_screening_def HandleCaseCreation_def attempt_Inr send_case_webhook_def same_screenings_def
      split: if_splits option.splits dest!: create_case_screenings)

lemma enqueue_rows:
  "enqueue_enrichment R i tx = Inr tx' \<Longrightarrow> same_screenings (case_db_of tx) (case_db_of tx') \<and> cs_matches tx' = cs_matches tx"
  by (auto simp: enqueue_enrichment_def check_Inr)

lemma track_update_rows [simp]: "reviews (track_update a tx) = reviews tx" "cs_matches (track_update a tx) = cs_matches tx"
  by (simp_all add: track_update_def CreateContinuousScreeningDeltaTrack_def split: option.splits)

definition storable :: "(nat \<Rightarrow> uuid) \<Rightarrow> CreateContinuousScreening \<Rightarrow> continuous_db \<Rightarrow> bool" where
  "storable newId a db \<longleftrightarrow> IN_Id a \<notin> set (map CS_Id (screenings (case_db_of db))) \<and> fresh_match_ids newId db
     \<and> preassigned newId 0 (FM_Matches (IN_Screening a))
     \<and> FM_Status (IN_Screening a) = InitialStatusFromMatches (map (fst \<circ> snd) (FM_Matches (IN_Screening a)))"

lemma stored_continuous:
  assumes ok: "continuous_ok db" and new: "storable newId a db" and run: "InsertContinuousScreening R newId a db = (sm, db1)"
    and rest: "same_screenings (case_db_of db1) (case_db_of db2)" "cs_matches db2 = cs_matches db1"
  shows "continuous_ok db2"
  using continuous_ok_cong [OF rest] store_keeps_continuous [OF ok _ _ _ _ run] new by (simp add: storable_def)

lemma transactions_keep_continuous:
  assumes ok: "continuous_ok db" and new: "storable newId a db"
  shows "create_object_transaction R newId j now name a db = Inr (sm, db') \<Longrightarrow> continuous_ok db'"
    "do_screening_transaction R newId j now name skip a db = Inr (sm, db') \<Longrightarrow> continuous_ok db'"
    "delta_transaction R newId j now name a db = Inr (sm, db') \<Longrightarrow> continuous_ok db'"
proof -
  obtain s ms db1 where run: "InsertContinuousScreening R newId a db = ((s, ms), db1)" by (metis surj_pair)
  note kept = stored_continuous [OF ok new run]
  show "create_object_transaction R newId j now name a db = Inr (sm, db') \<Longrightarrow> continuous_ok db'"
    by (rule kept) (auto simp: create_object_transaction_def run attempt_Inr
        dest!: file_screening_rows enqueue_rows elim: same_screenings_trans)
  show "do_screening_transaction R newId j now name skip a db = Inr (sm, db') \<Longrightarrow> continuous_ok db'"
    by (rule kept) (auto simp: do_screening_transaction_def run attempt_Inr
        dest!: file_screening_rows enqueue_rows elim: same_screenings_trans)
  show "delta_transaction R newId j now name a db = Inr (sm, db') \<Longrightarrow> continuous_ok db'"
    by (rule kept) (auto simp: delta_transaction_def run attempt_Inr
        dest!: file_screening_rows enqueue_rows elim: same_screenings_trans split: if_splits)
qed

text \<open>The identifiers that a search gives to its matches are left to the storage.\<close>

definition search_unnamed :: "continuous_env \<Rightarrow> bool" where
  "search_unnamed R \<longleftrightarrow> (\<forall>s ws found. SearchMore R s ws = Inr found \<longrightarrow> (\<forall>f\<in>set (FM_Matches found). fst f = None))"

lemma load_more_rows:
  assumes run: "load_more_transaction R newId i db = Inr (sm, db')" and named: "search_unnamed R"
  obtains s and found :: found_matches and off where "s \<in> set (screenings (case_db_of db))" "CS_Id s = i" "CS_Status s = ScreeningStatusInReview"
    "CS_IsPartial s" "WriteContinuousScreeningHit (CaseCreds (CaseEnv R)) (OrganizationId s) = None"
    "screenings (case_db_of db') = map (\<lambda>x. if CS_Id x = i then x\<lparr>CS_NumberOfMatches := CS_NumberOfMatches s + int (length off),
       CS_IsPartial := FM_Partial found\<rparr> else x) (screenings (case_db_of db))"
    "cs_matches db' = cs_matches db @ new_matches newId i off" "preassigned newId 0 off"
proof -
  from run obtain s ms configOrg found off where s: "GetContinuousScreeningWithMatchesById R i db = Inr (s, ms)"
    and perm: "WriteContinuousScreeningHit (CaseCreds (CaseEnv R)) (OrganizationId s) = None"
    and rev: "CS_Status s = ScreeningStatusInReview" "CS_IsPartial s"
    and search: "search_more R configOrg s db = Inr found"
    and off: "OffloadContinuousScreeningMatches R newId 0 (OrganizationId s) i
      (filter (\<lambda>(_, e, _). \<not> List.member (map CSM_EntityId ms) e) (FM_Matches found)) = Inr off"
    and enq: "enqueue_enrichment R i (UpdateContinuousScreening i (CS_NumberOfMatches s + int (length off)) (FM_Partial found)
      (db\<lparr>cs_matches := cs_matches db @ new_matches newId i off\<rparr>)) = Inr db'"
    unfolding load_more_transaction_def InsertContinuousScreeningMatches_def Let_def
    by (auto simp: attempt_Inr check_Inr split: if_splits prod.splits)
  have fs: "s \<in> set (screenings (case_db_of db))" "CS_Id s = i" using s find_screening_Some by (auto simp: GetWithMatches_Inr)
  have "\<forall>f\<in>set (FM_Matches found). fst f = None"
    using search named by (auto simp: search_more_def search_unnamed_def attempt_Inr split: if_splits option.splits prod.splits)
  then have "preassigned newId 0 (filter (\<lambda>(_, e, _). \<not> List.member (map CSM_EntityId ms) e) (FM_Matches found))"
    unfolding preassigned_def by (metis filter_is_subset nth_mem subsetD)
  then have pre: "preassigned newId 0 off" using offload_preassigned [OF off] by simp
  show thesis
    by (rule that [where found = found, OF fs rev perm _ _ pre])
      (use enq fs in \<open>auto simp: enqueue_enrichment_def check_Inr UpdateContinuousScreening_def\<close>)
qed

lemma load_more_keeps_continuous:
  assumes ok: "continuous_ok db" and run: "load_more_transaction R newId i db = Inr (sm, db')"
    and fresh: "fresh_match_ids newId db" and named: "search_unnamed R"
  shows "continuous_ok db'"
proof -
  obtain s and found :: found_matches and off where s: "s \<in> set (screenings (case_db_of db))" "CS_Id s = i"
    and rev: "CS_Status s = ScreeningStatusInReview" and "CS_IsPartial s"
    and "WriteContinuousScreeningHit (CaseCreds (CaseEnv R)) (OrganizationId s) = None"
    and ss: "screenings (case_db_of db') = map (\<lambda>x. if CS_Id x = i then x\<lparr>CS_NumberOfMatches := CS_NumberOfMatches s + int (length off),
       CS_IsPartial := FM_Partial found\<rparr> else x) (screenings (case_db_of db))"
    and ms: "cs_matches db' = cs_matches db @ new_matches newId i off" and pre: "preassigned newId 0 off"
    by (rule load_more_rows [OF run named])
  let ?new = "new_matches newId i off"
  let ?mid = "db\<lparr>cs_matches := cs_matches db @ ?new\<rparr>"
  have keyed: "cs_keyed db" using ok by (simp add: continuous_ok_def)
  have ids: "map CSM_Id ?new = map newId [0..<length off]" by (rule new_matches_ids [OF pre])
  have "distinct (map CSM_Id ?new)" unfolding ids using fresh by (simp add: fresh_match_ids_def distinct_map inj_def inj_on_def)
  moreover have "set (map CSM_Id ?new) \<inter> set (map CSM_Id (cs_matches db)) = {}"
    unfolding ids using fresh by (auto simp: fresh_match_ids_def)
  moreover have "CSM_ScreeningId ` set ?new \<subseteq> {i}" using new_matches_all by auto
  ultimately have keyed': "cs_keyed ?mid" using keyed s unfolding cs_keyed_def by (auto simp: Int_commute)
  have of_other: "matches_of j ?mid = matches_of j db" if "j \<noteq> i" for j
    using that new_matches_all by (auto simp: matches_of_def filter_empty_conv)
  have of_mine: "matches_of i ?mid = matches_of i db @ ?new"
    using new_matches_all by (auto simp: matches_of_def filter_id_conv)
  have no_hits: "hits ?new = []" using new_matches_all by (fastforce simp: filter_empty_conv)
  have mid: "continuous_ok ?mid"
    unfolding continuous_ok_def
  proof (intro conjI ballI)
    fix x assume "x \<in> set (screenings (case_db_of ?mid))"
    then have x: "x \<in> set (screenings (case_db_of db))" by simp
    then have x_ok: "cs_ok x (matches_of (CS_Id x) db)" using ok by (simp add: continuous_ok_def)
    show "cs_ok x (matches_of (CS_Id x) ?mid)"
    proof (cases "CS_Id x = i")
      case True
      then have "x = s" using same_key [of CS_Id "screenings (case_db_of db)" x s] keyed x s by (simp add: cs_keyed_def)
      then show ?thesis using x_ok rev no_hits by (simp add: s(2) of_mine cs_ok_def)
    next
      case False
      then show ?thesis using x_ok of_other by simp
    qed
  qed (rule keyed')
  show ?thesis
  proof (rule continuous_okI [OF mid, where s = s and g = "\<lambda>m. m" and
      f = "\<lambda>x. x\<lparr>CS_NumberOfMatches := CS_NumberOfMatches s + int (length off), CS_IsPartial := FM_Partial found\<rparr>"])
    have "cs_ok s (matches_of (CS_Id s) ?mid)" using mid s(1) unfolding continuous_ok_def by simp
    then show "cs_ok (s\<lparr>CS_NumberOfMatches := CS_NumberOfMatches s + int (length off), CS_IsPartial := FM_Partial found\<rparr>)
        (map (\<lambda>m. m) (matches_of (CS_Id s) ?mid))"
      using rev by (simp add: cs_ok_def IsObjectTriggered_def)
  qed (use s ss ms in simp_all)
qed

section \<open>The requests\<close>

inductive continuous_step :: "continuous_db \<Rightarrow> continuous_db \<Rightarrow> bool" where
  object_added: "create_object_transaction R newId j now name a db = Inr (sm, db') \<Longrightarrow> storable newId a db \<Longrightarrow> continuous_step db db'"
| object_updated: "do_screening_transaction R newId j now name skip a db = Inr (sm, db') \<Longrightarrow> storable newId a db
    \<Longrightarrow> continuous_step db db'"
| dataset_updated: "delta_transaction R newId j now name a db = Inr (sm, db') \<Longrightarrow> storable newId a db \<Longrightarrow> continuous_step db db'"
| review: "ReviewContinuousScreeningMatch R u db = (res, db') \<Longrightarrow> continuous_step db db'"
| dismiss: "DismissContinuousScreening R i r db = (res', db') \<Longrightarrow> continuous_step db db'"
| load_more: "LoadMoreContinuousScreeningMatches R newId i db = (res'', db') \<Longrightarrow> fresh_match_ids newId db \<Longrightarrow> search_unnamed R
    \<Longrightarrow> continuous_step db db'"
| elsewhere: "same_screenings (case_db_of db) (case_db_of db') \<Longrightarrow> cs_matches db' = cs_matches db \<Longrightarrow> continuous_step db db'"

inductive continuous :: "continuous_db \<Rightarrow> bool" where
  empty: "screenings (case_db_of db) = [] \<Longrightarrow> cs_matches db = [] \<Longrightarrow> continuous db"
| step: "continuous db \<Longrightarrow> continuous_step db db' \<Longrightarrow> continuous db'"

lemma Transaction_db: "Transaction fn st = (res, st') \<Longrightarrow> st' = st \<or> (\<exists>v. res = Inr v \<and> fn st = Inr (v, st'))"
  by (auto simp: Transaction_def split: sum.splits)

lemma Review_cases:
  assumes "ReviewContinuousScreeningMatch R u db = (res, db')"
  obtains (failed) err where "res = Inl err" "db' = db"
  | (written) i r m where "res = Inr m" "ParseUuid R (UP_MatchId u) = Some i"
      "UP_Status u \<in> {ScreeningMatchStatusConfirmedHit, ScreeningMatchStatusNoHit}" "review_transaction R u i r db = Inr (m, db')"
  using assms by (auto simp: ReviewContinuousScreeningMatch_def parse_reviewer_def Transaction_def
      split: option.splits if_splits sum.splits)

lemma Dismiss_cases:
  assumes "DismissContinuousScreening R i u db = (res, db')"
  obtains "db' = db" | r sm where "dismiss_transaction R i u r db = Inr (sm, db')"
  using assms by (auto simp: DismissContinuousScreening_def parse_reviewer_def hydrated_answer_def Transaction_def
      split: option.splits sum.splits)

lemma LoadMore_cases:
  assumes "LoadMoreContinuousScreeningMatches R newId i db = (res, db')"
  obtains "db' = db" | sm where "load_more_transaction R newId i db = Inr (sm, db')"
  using assms by (auto simp: LoadMoreContinuousScreeningMatches_def hydrated_answer_def Transaction_def split: sum.splits)

lemma continuous_step_keeps: "continuous_step db db' \<Longrightarrow> continuous_ok db \<Longrightarrow> continuous_ok db'"
proof (induction rule: continuous_step.induct)
  case (review R u db res db')
  then show ?case by (cases rule: Review_cases) (auto intro: review_keeps_continuous)
next
  case (dismiss R i r db res db')
  then show ?case by (cases rule: Dismiss_cases) (auto intro: dismiss_keeps_continuous)
next
  case (load_more R newId i db res db')
  then show ?case by (cases rule: LoadMore_cases) (auto intro: load_more_keeps_continuous)
next
  case (elsewhere db db')
  then show ?case using continuous_ok_cong by blast
qed (blast intro: transactions_keep_continuous)+

lemma continuous_ok: "continuous db \<Longrightarrow> continuous_ok db"
proof (induction rule: continuous.induct)
  case (empty db)
  then show ?case by (simp add: continuous_ok_def cs_keyed_def)
qed (rule continuous_step_keeps)

section \<open>The whitelist, the tags\<close>

lemma whitelist_contains:
  "whitelisted org c e (whitelists (AddScreeningMatchWhitelist org c e r db))"
  by (auto simp: AddScreeningMatchWhitelist_def whitelisted_def list_ex_iff)

lemma whitelisted_object:
  "whitelisted org (MarbleEntityIdBuilder ty i) e (whitelists db) \<Longrightarrow> e \<in> set (object_whitelist org ty i db)"
  by (auto simp: whitelisted_def object_whitelist_def SearchScreeningMatchWhitelist_def list_ex_iff)

lemma whitelisted_entity:
  "whitelisted org c e (whitelists db) \<Longrightarrow> e \<in> set (referents @ [entityId]) \<Longrightarrow> c \<in> set (entity_whitelist org entityId referents db)"
  by (auto simp: whitelisted_def entity_whitelist_def SearchScreeningMatchWhitelistByIds_def list_ex_iff)

lemma MapOpenSanctionsTopicToRiskTags_exact:
  "r \<in> set (MapOpenSanctionsTopicToRiskTags ts) \<longleftrightarrow> r \<noteq> RiskTagUnknown \<and> (\<exists>t\<in>set ts. MapOpenSanctionsTopicToRiskTag t = r)"
  "distinct (MapOpenSanctionsTopicToRiskTags ts)"
  by (auto simp: MapOpenSanctionsTopicToRiskTags_def)

text \<open>After a review without a hit the two sides are whitelisted.\<close>

lemma announce_tables: "announce_review R i m saved tx = Inr (m', tx') \<Longrightarrow> reviews tx' = reviews tx \<and> risk_annotations tx' = risk_annotations tx"
  by (auto simp: announce_review_def attempt_Inr check_Inr Let_def)

lemma handleWhitelistCreation_sides:
  assumes "handleWhitelistCreation R s m u tx = Inr tx'"
  obtains c e where "whitelist_sides s m = Inr (c, e)" "whitelisted (OrganizationId s) c e (whitelists (reviews tx'))"
proof -
  from assms obtain c e rv where "whitelist_sides s m = Inr (c, e)"
    and rv: "CreateWhitelist (CaseEnv R) (OrganizationId s) c e u (reviews tx) = Inr rv" and tx': "tx' = tx\<lparr>reviews := rv\<rparr>"
    by (auto simp: handleWhitelistCreation_def attempt_Inr)
  moreover from rv have "whitelisted (OrganizationId s) c e (whitelists (reviews tx'))"
    unfolding tx' CreateWhitelist_def check_Inr using whitelist_contains by auto
  ultimately show thesis using that by blast
qed

lemma no_hit_whitelisted:
  assumes run: "review_transaction R u i r db = Inr (m', db')" and st: "UP_Status u = ScreeningMatchStatusNoHit"
  obtains x s c e where "x \<in> set (cs_matches db)" "CSM_Id x = i" "s \<in> set (screenings (case_db_of db))" "CS_Id s = CSM_ScreeningId x"
    "whitelist_sides s (adapt_match R x) = Inr (c, e)" "whitelisted (OrganizationId s) c e (whitelists (reviews db'))"
  using run
proof (rule review_transaction_steps)
  fix m s ms caseId c um tx1 saved tx2 cdb tx4
  assume m: "GetContinuousScreeningMatch R i db = Inr m"
    and s: "GetContinuousScreeningWithMatchesById R (CSM_ScreeningId m) db = Inr (s, ms)"
    and con: "conclude_continuous R u s ms m um r (with_case_db cdb tx2) = Inr tx4"
    and ann: "announce_review R (CSM_ScreeningId m) um saved tx4 = Inr (m', db')"
  from GetMatch_Inr [OF m] obtain x where x: "x \<in> set (cs_matches db)" "m = adapt_match R x" "CSM_Id x = i" by blast
  have fs: "s \<in> set (screenings (case_db_of db))" "CS_Id s = CSM_ScreeningId x"
    using s x(2) find_screening_Some by (auto simp: GetWithMatches_Inr)
  from con st obtain t where "handleWhitelistCreation R s m (UP_ReviewerId u) t = Inr tx4"
    by (auto simp: conclude_continuous_def Let_def split: if_splits)
  then obtain c e where "whitelist_sides s m = Inr (c, e)" "whitelisted (OrganizationId s) c e (whitelists (reviews tx4))"
    by (rule handleWhitelistCreation_sides)
  then show thesis using that [OF x(1,3) fs] announce_tables [OF ann] x(2) by simp
qed

text \<open>The tags of an object.\<close>

definition tagged :: "uuid \<Rightarrow> string \<Rightarrow> string \<Rightarrow> RiskTag \<Rightarrow> ObjectRiskTag list \<Rightarrow> bool" where
  "tagged org ty i r ts \<longleftrightarrow> (\<exists>t\<in>set ts. OrganizationId t = org \<and> RT_ObjectType t = ty \<and> RT_ObjectId t = i \<and> RT_Tag t = r)"

lemma has_risk_tag_tagged: "has_risk_tag t ts \<longleftrightarrow> tagged (OrganizationId t) (RT_ObjectType t) (RT_ObjectId t) (RT_Tag t) ts"
  by (auto simp: has_risk_tag_def tagged_def list_ex_iff)

lemma tagged_append: "tagged org ty i r (ts @ us) \<longleftrightarrow> tagged org ty i r ts \<or> tagged org ty i r us"
  by (auto simp: tagged_def)

lemma tagged_fold:
  "tagged org ty i r (fold (\<lambda>t ts. if has_risk_tag t ts then ts else ts @ [t]) new ts)
    \<longleftrightarrow> tagged org ty i r ts \<or> tagged org ty i r new"
proof (induction new arbitrary: ts)
  case (Cons t new)
  have "tagged org ty i r (if has_risk_tag t ts then ts else ts @ [t]) \<longleftrightarrow> tagged org ty i r ts \<or> tagged org ty i r [t]"
    by (simp add: tagged_append has_risk_tag_tagged) (auto simp: tagged_def)
  moreover have "tagged org ty i r (t # new) \<longleftrightarrow> tagged org ty i r [t] \<or> tagged org ty i r new"
    using tagged_append [of org ty i r "[t]" new] by simp
  ultimately show ?case using Cons.IH by simp
qed (simp add: tagged_def)

lemma attach_tagged:
  "tagged org ty i r (risk_annotations (AttachObjectRiskTags new tx)) \<longleftrightarrow> tagged org ty i r (risk_annotations tx) \<or> tagged org ty i r new"
  by (simp add: AttachObjectRiskTags_def tagged_fold)

lemma tags_kept [simp]:
  "risk_annotations (updateScreeningStatusWithEvent R s st u tx) = risk_annotations tx"
  "risk_annotations (skipPendingMatches R s ps u r tx) = risk_annotations tx"
  "risk_annotations (UpdateContinuousScreeningMatchStatusByBatch ids mst r tx) = risk_annotations tx"
  by (simp_all add: updateScreeningStatusWithEvent_def add_case_events_def UpdateContinuousScreeningStatus_def
      skipPendingMatches_def UpdateContinuousScreeningMatchStatusByBatch_def)

lemma save_comment_tags: "save_comment R c tx = Inr (saved, tx') \<Longrightarrow> risk_annotations tx' = risk_annotations tx"
  by (auto simp: save_comment_def AddContinuousScreeningMatchComment_def attempt_Inr split: option.splits if_splits)

lemma addRiskTags_tagged:
  assumes "addRiskTagsFromConfirmedMatch R s m u tx = Inr tx'"
  obtains ty i e p ts where "risk_source s m = Inr ((ty, i), e, p)" "ExtractRiskTagsFromEntityPayload R p = Inr ts"
    "\<And>org ty' i' r. tagged org ty' i' r (risk_annotations tx')
       \<longleftrightarrow> tagged org ty' i' r (risk_annotations tx) \<or> org = OrganizationId s \<and> ty' = ty \<and> i' = i \<and> r \<in> set ts"
proof -
  from assms obtain ty i e p ts where src: "risk_source s m = Inr ((ty, i), e, p)" and ts: "ExtractRiskTagsFromEntityPayload R p = Inr ts"
    and tx': "tx' = (if ts = [] then tx
         else AttachObjectRiskTags (map (\<lambda>t. \<lparr>OrganizationId = OrganizationId s, RT_ObjectType = ty, RT_ObjectId = i, RT_Tag = t,
           RT_ScreeningId = CS_Id s, RT_EntityId = e, RT_AnnotatedBy = u\<rparr>) ts) tx)"
    by (auto simp: addRiskTagsFromConfirmedMatch_def attempt_Inr)
  have "tagged org ty' i' r (risk_annotations tx')
       \<longleftrightarrow> tagged org ty' i' r (risk_annotations tx) \<or> org = OrganizationId s \<and> ty' = ty \<and> i' = i \<and> r \<in> set ts" for org ty' i' r
    unfolding tx' by (cases "ts = []") (auto simp: attach_tagged, auto simp: tagged_def)
  with that [OF src ts] show thesis .
qed

lemma risk_source_cong:
  assumes "CSM_EntityId m = CSM_EntityId m'" "CSM_Payload m = CSM_Payload m'" "CSM_Metadata m = CSM_Metadata m'"
  shows "risk_source s m = risk_source s m'"
  unfolding risk_source_def assms ..

lemma confirmed_tagged:
  assumes run: "review_transaction R u i r db = Inr (m', db')" and keyed: "cs_keyed db"
    and st: "UP_Status u = ScreeningMatchStatusConfirmedHit"
  obtains x s ty oid e p ts where "x \<in> set (cs_matches db)" "CSM_Id x = i" "s \<in> set (screenings (case_db_of db))" "CS_Id s = CSM_ScreeningId x"
    "risk_source s (adapt_match R x) = Inr ((ty, oid), e, p)" "ExtractRiskTagsFromEntityPayload R p = Inr ts"
    "\<And>org ty' i' t. tagged org ty' i' t (risk_annotations db')
       \<longleftrightarrow> tagged org ty' i' t (risk_annotations db) \<or> org = OrganizationId s \<and> ty' = ty \<and> i' = oid \<and> t \<in> set ts"
  using run
proof (rule review_transaction_steps)
  fix m s ms caseId c um tx1 saved tx2 cdb tx4
  assume m: "GetContinuousScreeningMatch R i db = Inr m"
    and s: "GetContinuousScreeningWithMatchesById R (CSM_ScreeningId m) db = Inr (s, ms)"
    and up: "UpdateContinuousScreeningMatchStatus R i (UP_Status u) r db = Inr (um, tx1)"
    and com: "save_comment R (UP_Comment u) tx1 = Inr (saved, tx2)"
    and con: "conclude_continuous R u s ms m um r (with_case_db cdb tx2) = Inr tx4"
    and ann: "announce_review R (CSM_ScreeningId m) um saved tx4 = Inr (m', db')"
  from GetMatch_Inr [OF m] obtain x where x: "x \<in> set (cs_matches db)" "m = adapt_match R x" "CSM_Id x = i" by blast
  have fs: "s \<in> set (screenings (case_db_of db))" "CS_Id s = CSM_ScreeningId x"
    using s x(2) find_screening_Some by (auto simp: GetWithMatches_Inr)
  have tx1: "tx1 = UpdateContinuousScreeningMatchStatusByBatch [i] (UP_Status u) r db"
    and um: "GetContinuousScreeningMatch R i tx1 = Inr um"
    using up by (auto simp: UpdateContinuousScreeningMatchStatus_def attempt_Inr Let_def)
  from GetMatch_Inr [OF um] obtain y where "y \<in> set (cs_matches tx1)" "um = adapt_match R y" "CSM_Id y = i" by blast
  then obtain z where z: "z \<in> set (cs_matches db)" "CSM_Id z = i" and um': "um = adapt_match R (z\<lparr>CSM_Status := UP_Status u, CSM_ReviewedBy := r\<rparr>)"
    unfolding tx1 UpdateContinuousScreeningMatchStatusByBatch_def by (auto split: if_splits)
  have "z = x" using same_key [of CSM_Id "cs_matches db" z x] keyed x z by (simp add: cs_keyed_def)
  then have src: "risk_source s um = risk_source s (adapt_match R x)"
    unfolding um' by (intro risk_source_cong) (simp_all add: adapt_match_def)
  have old: "risk_annotations (with_case_db cdb tx2) = risk_annotations db"
    using save_comment_tags [OF com] by (simp add: tx1)
  from con st obtain t where tag: "addRiskTagsFromConfirmedMatch R s um (UP_ReviewerId u) (with_case_db cdb tx2) = Inr t"
    and "risk_annotations tx4 = risk_annotations t"
    by (auto simp: conclude_continuous_def handleConfirmedHit_def attempt_Inr Let_def)
  then have new: "risk_annotations db' = risk_annotations t" using announce_tables [OF ann] by simp
  from tag show thesis
  proof (rule addRiskTags_tagged)
    fix ty oid e p ts
    assume "risk_source s um = Inr ((ty, oid), e, p)" "ExtractRiskTagsFromEntityPayload R p = Inr ts"
      "\<And>org ty' i' t'. tagged org ty' i' t' (risk_annotations t)
       \<longleftrightarrow> tagged org ty' i' t' (risk_annotations (with_case_db cdb tx2)) \<or> org = OrganizationId s \<and> ty' = ty \<and> i' = oid \<and> t' \<in> set ts"
    then show thesis using that [OF x(1,3) fs] src unfolding new old by simp
  qed
qed

end
