(* ===== verification/Review_Properties.thy ===== *)
theory Review_Properties
  imports Continuous_Laws Case_Properties
begin

text \<open>
  The properties of the reviews of screenings, of decisions and continuous ones, and what some reviews do
  beside their intent.
\<close>

section \<open>Examples\<close>

text \<open>A screening of the decision \<open>d\<close> of the case \<open>c\<close> with two matches, and its reviews.\<close>

definition example_screening :: Screening where
  "example_screening = \<lparr>OrganizationId = 7, Sc_Id = ''s'', Sc_DecisionId = ''d'', Sc_ConfigId = ''k'',
     Sc_Status = ScreeningStatusInReview, Sc_CounterpartyIdentifier = Some ''p'', Sc_IsManual = False, Sc_IsArchived = False,
     Sc_RequestedBy = None, Sc_Partial = False, Sc_NumberOfMatches = 2\<rparr>"

definition example_ids :: "nat \<Rightarrow> string" where
  "example_ids k = replicate (Suc k) CHR ''m''"

definition review_start :: review_db where
  "review_start = \<lparr>case_tables = created_db, screening_rows = [], match_rows = [], match_comments = [], whitelists = [],
     enrichment_tasks = []\<rparr>"

definition stored_db :: review_db where
  "stored_db = InsertScreening example_ids example_screening [''E'', ''F''] review_start"

definition review_of :: "string \<Rightarrow> ScreeningMatchStatus \<Rightarrow> ScreeningMatchUpdate" where
  "review_of i st = \<lparr>UP_MatchId = i, UP_ReviewerId = Some ''u'', UP_Status = st, UP_Comment = None, UP_Whitelist = True\<rparr>"

definition rejected_db :: review_db where
  "rejected_db = snd (UpdateMatchStatus case_example (review_of ''m'' ScreeningMatchStatusNoHit) stored_db)"

lemma stored_reachable: "reviewed stored_db"
proof -
  have "reviewed review_start" by (rule reviewed.empty) (simp_all add: review_start_def)
  moreover have "review_step review_start stored_db"
    unfolding stored_db_def
    by (rule review_step.store) (simp_all add: review_start_def fresh_ids_def inj_def example_ids_def initial_status_def
        InitialStatusFromMatches_def example_screening_def replicate_eq_replicate)
  ultimately show ?thesis by (rule reviewed.step)
qed

lemma reject_example:
  "\<exists>m. UpdateMatchStatus case_example (review_of ''m'' ScreeningMatchStatusNoHit) stored_db = (Inr m, rejected_db)"
proof -
  have "case fst (UpdateMatchStatus case_example (review_of ''m'' ScreeningMatchStatusNoHit) stored_db) of
    Inl _ \<Rightarrow> False | Inr _ \<Rightarrow> True" by code_simp
  then show ?thesis unfolding rejected_db_def
    by (cases "UpdateMatchStatus case_example (review_of ''m'' ScreeningMatchStatusNoHit) stored_db") (auto split: sum.splits)
qed



lemma created_screenings: "screenings created_db = []"
  by code_simp

text \<open>A monitored object whose screening has two matches, in a case of its own.\<close>

definition continuous_example :: continuous_env where
  "continuous_example = \<lparr>CaseEnv = case_example, ParseUuid = (\<lambda>s. Some (length s)), OffloadingEnabled = False,
     ScreeningOffloadingEnabled = False, ReadBlobEntity = (\<lambda>_ _. Inr []), ReadBlobMatch = (\<lambda>_ _ _. Inr []),
     WriteBlobMatch = (\<lambda>_ _ _ _. None), ReadTopics = (\<lambda>p. Inr [p]), ReadNoteMetadata = (\<lambda>_. Some (''o'', ''t'')),
     ReadScore = (\<lambda>_. None), ReadConfigOrg = (\<lambda>_. Inr 7), ReadEntity = (\<lambda>_. Inr (''E'', [])),
     SearchMore = (\<lambda>_ _. Inr (AdaptScreeningFromSearchResponse [(''E'', ''pep''), (''G'', ''crime'')] False 2)),
     MatchWebhookFails = (\<lambda>_. None), EnrichmentTaskFails = (\<lambda>_. None)\<rparr>"

definition continuous_start :: continuous_db where
  "continuous_start = \<lparr>reviews = review_start, cs_matches = [], cs_comments = [], risk_annotations = [], match_webhooks = [],
     cs_enrichment_tasks = [], cs_delta_tracks = []\<rparr>"

definition example_input :: "ContinuousScreeningTriggerType \<Rightarrow> bool \<Rightarrow> CreateContinuousScreening" where
  "example_input t partial = \<lparr>IN_Id = 9, IN_OrgId = 7, IN_InboxId = 3,
     IN_Screening = AdaptScreeningFromSearchResponse [(''E'', ''sanction''), (''F'', ''pep'')] partial 2,
     IN_ObjectType = Some ''t'', IN_ObjectId = Some ''o'', IN_ObjectInternalId = Some 1, IN_EntityId = Some ''E'', IN_EntityPayload = ''crime'', IN_TriggerType = t\<rparr>"

definition monitored_db :: "ContinuousScreeningTriggerType \<Rightarrow> bool \<Rightarrow> continuous_db" where
  "monitored_db t partial = (case create_object_transaction continuous_example (\<lambda>k. k + 20) ''n'' 5 ''name'' (example_input t partial)
     continuous_start of Inl _ \<Rightarrow> continuous_start | Inr (_, db) \<Rightarrow> db)"

definition cs_review :: "nat \<Rightarrow> ScreeningMatchStatus \<Rightarrow> ScreeningMatchUpdate" where
  "cs_review i st = \<lparr>UP_MatchId = replicate i CHR ''x'', UP_ReviewerId = None, UP_Status = st, UP_Comment = None, UP_Whitelist = False\<rparr>"

abbreviation after_review :: "nat \<Rightarrow> ScreeningMatchStatus \<Rightarrow> continuous_db \<Rightarrow> continuous_db" where
  "after_review i st db \<equiv> snd (ReviewContinuousScreeningMatch continuous_example (cs_review i st) db)"

section \<open>Screenings of decisions\<close>



lemma api_or_case:
  assumes "enforceCanReadOrUpdateCase E i db = Inr d" "Cred_Role (CaseCreds E) \<noteq> API_CLIENT"
  shows "\<exists>c ids. Option.bind (D_CaseId d) (\<lambda>j. find_case j db) = Some c \<and> ReadOrUpdateCase (CaseCreds E) c ids = None"
  using assms by (auto simp: enforceCanReadOrUpdateCase_def attempt_Inr check_Inr split: list.splits option.splits)

text \<open>C19: a review that succeeds was of a pending match of an active screening in review, by a user who reads the case
  of its decision or by a client of the API. It writes the decision, skips the other pending matches of a confirmed
  screening, concludes the screening when nothing is left, and whitelists a rejected match when asked to.\<close>

theorem match_review_written:
  assumes "reviewed db" "UpdateMatchStatus E u db = (Inr m', db')"
  shows "\<exists>m s d. reviewable E u m s d db
     \<and> (Cred_Role (CaseCreds E) = API_CLIENT \<or>
        (\<exists>c. Option.bind (D_CaseId d) (\<lambda>j. find_case j (case_tables db)) = Some c
          \<and> HasPermission (Cred_Role (CaseCreds E)) CASE_READ_WRITE \<and> org_access (CaseCreds E) (OrganizationId c)))
     \<and> match_rows db' = map (reviewed_match u (Sc_Id s)) (match_rows db)
     \<and> screening_rows db' = map (\<lambda>x. if Sc_Id x = Sc_Id s
         then x\<lparr>Sc_Status := reviewed_status u s (ListScreeningMatches (Sc_Id s) db)\<rparr> else x) (screening_rows db)
     \<and> (UP_Status u = ScreeningMatchStatusNoHit \<and> UP_Whitelist u \<longrightarrow> (\<forall>c. Sc_CounterpartyIdentifier s = Some c
         \<longrightarrow> whitelisted (OrganizationId d) c (SM_EntityId m) (whitelists db')))"
proof -
  have keyed: "keyed db" using reviewed_ok [OF assms(1)] by (simp add: reviews_ok_def)
  from review_written [OF keyed assms(2)] obtain m s d where r: "reviewable E u m s d db"
    and rows: "match_rows db' = map (reviewed_match u (Sc_Id s)) (match_rows db)"
      "screening_rows db' = map (\<lambda>x. if Sc_Id x = Sc_Id s
         then x\<lparr>Sc_Status := reviewed_status u s (ListScreeningMatches (Sc_Id s) db)\<rparr> else x) (screening_rows db)"
    and ws: "whitelists db' = (case Sc_CounterpartyIdentifier s of None \<Rightarrow> whitelists db
       | Some c \<Rightarrow> if UP_Status u = ScreeningMatchStatusNoHit \<and> UP_Whitelist u
           then whitelists (AddScreeningMatchWhitelist (OrganizationId d) c (SM_EntityId m) (UP_ReviewerId u) db) else whitelists db)"
    by blast
  have "Cred_Role (CaseCreds E) = API_CLIENT \<or>
        (\<exists>c. Option.bind (D_CaseId d) (\<lambda>j. find_case j (case_tables db)) = Some c
          \<and> HasPermission (Cred_Role (CaseCreds E)) CASE_READ_WRITE \<and> org_access (CaseCreds E) (OrganizationId c))"
    using r api_or_case unfolding reviewable_def ReadOrUpdateCase_def by (fastforce simp: errors_Join_None_iff)
  moreover have "UP_Status u = ScreeningMatchStatusNoHit \<and> UP_Whitelist u \<longrightarrow> (\<forall>c. Sc_CounterpartyIdentifier s = Some c
      \<longrightarrow> whitelisted (OrganizationId d) c (SM_EntityId m) (whitelists db'))"
    using whitelist_contains by (simp add: ws)
  ultimately show ?thesis using r rows by (intro exI [of _ m] exI [of _ s] exI [of _ d] conjI)
qed

theorem match_review_written_witness:
  "\<exists>i. match_rows rejected_db = map (reviewed_match (review_of ''m'' ScreeningMatchStatusNoHit) i) (match_rows stored_db)"
  using reject_example match_review_written [OF stored_reachable] by blast



section \<open>Continuous screenings\<close>

text \<open>C18: in every reachable state a continuous screening is in review, confirmed or without a hit; when it is not in review
  none of its matches is pending; one of an object has exactly one hit when it is confirmed, and none otherwise.\<close>

theorem continuous_consistent:
  assumes "continuous db" "s \<in> set (screenings (case_db_of db))"
  shows "CS_Status s \<in> {ScreeningStatusInReview, ScreeningStatusConfirmedHit, ScreeningStatusNoHit}
     \<and> (CS_Status s \<noteq> ScreeningStatusInReview \<longrightarrow> filter cs_pending (matches_of (CS_Id s) db) = [])
     \<and> (IsObjectTriggered s \<longrightarrow>
         length (hits (matches_of (CS_Id s) db)) = (if CS_Status s = ScreeningStatusConfirmedHit then 1 else 0))"
proof -
  have "cs_ok s (matches_of (CS_Id s) db)" using continuous_ok [OF assms(1)] assms(2) by (simp add: continuous_ok_def)
  then show ?thesis by (cases "CS_Status s") (auto simp: cs_ok_def filter_empty_conv)
qed

lemma monitored_created:
  assumes "case create_object_transaction continuous_example (\<lambda>k. k + 20) ''n'' 5 ''name'' (example_input t partial) continuous_start of
    Inl _ \<Rightarrow> False | Inr _ \<Rightarrow> True"
  shows "continuous (monitored_db t partial)"
proof -
  obtain sm db where r: "create_object_transaction continuous_example (\<lambda>k. k + 20) ''n'' 5 ''name'' (example_input t partial)
      continuous_start = Inr (sm, db)"
    using assms by (auto split: sum.splits)
  have "continuous continuous_start"
    by (rule continuous.empty) (simp_all add: continuous_start_def review_start_def created_screenings)
  moreover have "continuous_step continuous_start db"
    by (rule continuous_step.object_added [OF r])
      (simp add: storable_def continuous_start_def review_start_def created_screenings example_input_def fresh_match_ids_def
        inj_def preassigned_def AdaptScreeningFromSearchResponse_def InitialStatusFromMatches_def nth_Cons split: nat.splits)
  ultimately show ?thesis by (auto simp: monitored_db_def r intro: continuous.step)
qed

lemma monitored_object_reachable: "continuous (monitored_db ContinuousScreeningTriggerTypeObjectAdded False)"
  by (rule monitored_created) code_simp

lemma after_review_reachable: "continuous db \<Longrightarrow> continuous (after_review i st db)"
  by (erule continuous.step, rule continuous_step.review) (rule prod.collapse [symmetric])

definition confirmed_db :: continuous_db where
  "confirmed_db = after_review 20 ScreeningMatchStatusConfirmedHit (monitored_db ContinuousScreeningTriggerTypeObjectAdded False)"

lemma confirmed_reachable: "continuous confirmed_db"
  unfolding confirmed_db_def by (rule after_review_reachable [OF monitored_object_reachable])

theorem continuous_consistent_witness: "length (hits (matches_of 9 confirmed_db)) = 1"
proof -
  let ?s = "hd (screenings (case_db_of confirmed_db))"
  have "?s \<in> set (screenings (case_db_of confirmed_db)) \<and> IsObjectTriggered ?s
     \<and> CS_Status ?s = ScreeningStatusConfirmedHit \<and> CS_Id ?s = 9" by code_simp
  then show ?thesis using continuous_consistent [OF confirmed_reachable, of ?s] by simp
qed





text \<open>C23: a confirmed hit adds to the object the tags of the topics in the stored payload, and no other tag to anything;
  it adds none when the payload is in the blob store.\<close>

theorem hit_tags_object:
  assumes "continuous db" "ReviewContinuousScreeningMatch R u db = (Inr m, db')" "UP_Status u = ScreeningMatchStatusConfirmedHit"
  shows "\<exists>x s ty i e p ts. x \<in> set (cs_matches db) \<and> s \<in> set (screenings (case_db_of db)) \<and> CS_Id s = CSM_ScreeningId x
     \<and> ParseUuid R (UP_MatchId u) = Some (CSM_Id x) \<and> risk_source s (adapt_match R x) = Inr ((ty, i), e, p)
     \<and> (p = [] \<longrightarrow> ts = []) \<and> (p \<noteq> [] \<longrightarrow> ReadTopics R p = Inr ts)
     \<and> (\<forall>org ty' i' r. tagged org ty' i' r (risk_annotations db') \<longleftrightarrow> tagged org ty' i' r (risk_annotations db)
          \<or> org = OrganizationId s \<and> ty' = ty \<and> i' = i \<and> r \<noteq> RiskTagUnknown \<and> (\<exists>t\<in>set ts. MapOpenSanctionsTopicToRiskTag t = r))"
proof -
  have keyed: "cs_keyed db" using continuous_ok [OF assms(1)] by (simp add: continuous_ok_def)
  from assms(2) obtain j r where j: "ParseUuid R (UP_MatchId u) = Some j" and run: "review_transaction R u j r db = Inr (m, db')"
    by (cases rule: Review_cases) auto
  from run keyed assms(3) show ?thesis
  proof (rule confirmed_tagged)
    fix x s ty i e p ts
    assume x: "x \<in> set (cs_matches db)" "CSM_Id x = j" and s: "s \<in> set (screenings (case_db_of db))" "CS_Id s = CSM_ScreeningId x"
      and src: "risk_source s (adapt_match R x) = Inr ((ty, i), e, p)" and ts: "ExtractRiskTagsFromEntityPayload R p = Inr ts"
      and new: "\<And>org ty' i' t. tagged org ty' i' t (risk_annotations db')
        \<longleftrightarrow> tagged org ty' i' t (risk_annotations db) \<or> org = OrganizationId s \<and> ty' = ty \<and> i' = i \<and> t \<in> set ts"
    obtain topics where topics: "p = [] \<longrightarrow> topics = []" "p \<noteq> [] \<longrightarrow> ReadTopics R p = Inr topics"
      and exact: "\<And>r. r \<in> set ts \<longleftrightarrow> r \<noteq> RiskTagUnknown \<and> (\<exists>t\<in>set topics. MapOpenSanctionsTopicToRiskTag t = r)"
    proof (cases "p = []")
      case True
      then show thesis using that [of "[]"] ts by (simp add: ExtractRiskTagsFromEntityPayload_def)
    next
      case False
      with ts obtain topics where "ReadTopics R p = Inr topics" "ts = (if topics = [] then [] else MapOpenSanctionsTopicToRiskTags topics)"
        by (auto simp: ExtractRiskTagsFromEntityPayload_def attempt_Inr)
      then show thesis using that [of topics] False by (auto simp: MapOpenSanctionsTopicToRiskTags_exact)
    qed
    have "\<forall>org ty' i' r. tagged org ty' i' r (risk_annotations db') \<longleftrightarrow> tagged org ty' i' r (risk_annotations db)
          \<or> org = OrganizationId s \<and> ty' = ty \<and> i' = i \<and> r \<noteq> RiskTagUnknown \<and> (\<exists>t\<in>set topics. MapOpenSanctionsTopicToRiskTag t = r)"
      unfolding new exact by blast
    with x s j src topics show ?thesis
      by (intro exI [of _ x] exI [of _ s] exI [of _ ty] exI [of _ i] exI [of _ e] exI [of _ p] exI [of _ topics]) simp
  qed
qed

theorem hit_tags_object_witness:
  "\<exists>org. tagged org ''t'' ''o'' RiskTagSanctions (risk_annotations confirmed_db)"
proof -
  let ?db = "monitored_db ContinuousScreeningTriggerTypeObjectAdded False"
  let ?u = "cs_review 20 ScreeningMatchStatusConfirmedHit"
  have "case fst (ReviewContinuousScreeningMatch continuous_example ?u ?db) of Inl _ \<Rightarrow> False | Inr _ \<Rightarrow> True" by code_simp
  then obtain m where run: "ReviewContinuousScreeningMatch continuous_example ?u ?db = (Inr m, confirmed_db)"
    unfolding confirmed_db_def
    by (cases "ReviewContinuousScreeningMatch continuous_example ?u ?db") (auto split: sum.splits)
  have "UP_Status ?u = ScreeningMatchStatusConfirmedHit" by (simp add: cs_review_def)
  from hit_tags_object [OF monitored_object_reachable run this] show ?thesis
  proof (elim exE conjE)
    fix x s ty i e p ts
    assume x: "x \<in> set (cs_matches ?db)" "s \<in> set (screenings (case_db_of ?db))" "ParseUuid continuous_example (UP_MatchId ?u) = Some (CSM_Id x)"
      and src: "risk_source s (adapt_match continuous_example x) = Inr ((ty, i), e, p)" "p \<noteq> [] \<longrightarrow> ReadTopics continuous_example p = Inr ts"
      and new: "\<forall>org ty' i' r. tagged org ty' i' r (risk_annotations confirmed_db) \<longleftrightarrow> tagged org ty' i' r (risk_annotations ?db)
          \<or> org = OrganizationId s \<and> ty' = ty \<and> i' = i \<and> r \<noteq> RiskTagUnknown \<and> (\<exists>t\<in>set ts. MapOpenSanctionsTopicToRiskTag t = r)"
    have "list_all (\<lambda>x. list_all (\<lambda>s. CSM_Id x = 20 \<longrightarrow> risk_source s (adapt_match continuous_example x) = Inr ((''t'', ''o''), ''E'', ''sanction''))
        (screenings (case_db_of ?db))) (cs_matches ?db)" by code_simp
    moreover have "CSM_Id x = 20" using x(3) by (simp add: cs_review_def continuous_example_def)
    ultimately have eqs: "ty = ''t''" "i = ''o''" "p = ''sanction''" using x(1,2) src(1) by (auto simp: list_all_iff)
    then have "ts = [''sanction'']" using src(2) by (simp add: continuous_example_def)
    moreover have "MapOpenSanctionsTopicToRiskTag ''sanction'' = RiskTagSanctions" by code_simp
    ultimately have "tagged (OrganizationId s) ''t'' ''o'' RiskTagSanctions (risk_annotations confirmed_db)"
      using new eqs by simp
    then show ?thesis by blast
  qed
qed

text \<open>A dismissal needs the permission to dismiss; it skips what is pending, keeps what was decided, and leaves the
  screening without a hit.\<close>

theorem dismissal_written:
  assumes "dismiss_transaction R i u r db = Inr (sm, db')"
  shows "\<exists>s. s \<in> set (screenings (case_db_of db)) \<and> CS_Id s = i \<and> CS_Status s = ScreeningStatusInReview \<and> CS_CaseId s \<noteq> None
     \<and> HasPermission (Cred_Role (CaseCreds (CaseEnv R))) CONTINUOUS_SCREENING_HIT_DISMISS
     \<and> org_access (CaseCreds (CaseEnv R)) (OrganizationId s)
     \<and> screenings (case_db_of db') = set_status i ScreeningStatusNoHit (screenings (case_db_of db))
     \<and> cs_matches db' = set_match_status (map CSM_Id (filter cs_pending (matches_of i db))) ScreeningMatchStatusSkipped r (cs_matches db)"
  using assms
proof (rule dismiss_rows)
  fix s assume "s \<in> set (screenings (case_db_of db))" "CS_Id s = i" "CS_Status s = ScreeningStatusInReview" "CS_CaseId s \<noteq> None"
    "DismissContinuousScreeningHits (CaseCreds (CaseEnv R)) (OrganizationId s) = None"
    "cs_rows db' = (set_status i ScreeningStatusNoHit (screenings (case_db_of db)),
      set_match_status (map CSM_Id (filter cs_pending (matches_of i db))) ScreeningMatchStatusSkipped r (cs_matches db))"
  then show ?thesis
    by (intro exI [of _ s]) (simp add: g_DismissContinuousScreeningHits.granted_iff cs_rows_def)
qed

definition dismissed_db :: continuous_db where
  "dismissed_db = (case dismiss_transaction continuous_example 9 None None (monitored_db ContinuousScreeningTriggerTypeObjectAdded False) of
     Inl _ \<Rightarrow> continuous_start | Inr (_, db) \<Rightarrow> db)"

theorem dismissal_written_witness:
  "screenings (case_db_of dismissed_db)
     = set_status 9 ScreeningStatusNoHit (screenings (case_db_of (monitored_db ContinuousScreeningTriggerTypeObjectAdded False)))"
proof -
  let ?run = "dismiss_transaction continuous_example 9 None None (monitored_db ContinuousScreeningTriggerTypeObjectAdded False)"
  have "case ?run of Inl _ \<Rightarrow> False | Inr _ \<Rightarrow> True" by code_simp
  then obtain sm where run: "?run = Inr (sm, dismissed_db)"
    by (auto simp: dismissed_db_def split: sum.splits)
  from dismissal_written [OF run] show ?thesis by blast
qed

text \<open>A request for more matches keeps every match, adds only pending matches of entities that the screening did not
  have, and counts them.\<close>

theorem load_more_adds:
  assumes "load_more_transaction R newId i db = Inr (sm, db')"
  shows "\<exists>s new. s \<in> set (screenings (case_db_of db)) \<and> CS_Id s = i \<and> CS_Status s = ScreeningStatusInReview \<and> CS_IsPartial s
     \<and> HasPermission (Cred_Role (CaseCreds (CaseEnv R))) CONTINUOUS_SCREENING_HIT_WRITE
     \<and> org_access (CaseCreds (CaseEnv R)) (OrganizationId s)
     \<and> cs_matches db' = cs_matches db @ new
     \<and> (\<forall>m\<in>set new. CSM_ScreeningId m = i \<and> cs_pending m \<and> CSM_EntityId m \<notin> set (map CSM_EntityId (matches_of i db)))
     \<and> (\<forall>t\<in>set (screenings (case_db_of db')). CS_Id t = i
          \<longrightarrow> CS_NumberOfMatches t = CS_NumberOfMatches s + int (length new))"
proof -
  from assms obtain s ms and found :: found_matches and off where s: "GetContinuousScreeningWithMatchesById R i db = Inr (s, ms)"
    and perm: "WriteContinuousScreeningHit (CaseCreds (CaseEnv R)) (OrganizationId s) = None"
    and rev: "CS_Status s = ScreeningStatusInReview" "CS_IsPartial s"
    and off: "OffloadContinuousScreeningMatches R newId 0 (OrganizationId s) i
      (filter (\<lambda>(_, e, _). \<not> List.member (map CSM_EntityId ms) e) (FM_Matches found)) = Inr off"
    and enq: "enqueue_enrichment R i (UpdateContinuousScreening i (CS_NumberOfMatches s + int (length off)) (FM_Partial found)
      (db\<lparr>cs_matches := cs_matches db @ new_matches newId i off\<rparr>)) = Inr db'"
    unfolding load_more_transaction_def InsertContinuousScreeningMatches_def Let_def
    by (auto simp: attempt_Inr check_Inr split: if_splits prod.splits)
  have ms: "ms = map (adapt_match R) (matches_of i db)" and fs: "s \<in> set (screenings (case_db_of db))" "CS_Id s = i"
    using s find_screening_Some by (auto simp: GetWithMatches_Inr)
  have old: "map CSM_EntityId ms = map CSM_EntityId (matches_of i db)" by (simp add: ms)
  have "fst ` snd ` set off \<subseteq> fst ` snd ` set (filter (\<lambda>(_, e, _). \<not> List.member (map CSM_EntityId ms) e) (FM_Matches found))"
    by (rule offload_entities [OF off])
  then have new: "e \<notin> set (map CSM_EntityId (matches_of i db))" if "(k, e, p) \<in> set off" for k e p
    using that unfolding old by force
  obtain tasks where db': "db' = (UpdateContinuousScreening i (CS_NumberOfMatches s + int (length off)) (FM_Partial found)
      (db\<lparr>cs_matches := cs_matches db @ new_matches newId i off\<rparr>))\<lparr>cs_enrichment_tasks := tasks\<rparr>"
    using enq unfolding enqueue_enrichment_def check_Inr by blast
  show ?thesis
  proof (intro exI [of _ s] exI [of _ "new_matches newId i off"] conjI)
    show "\<forall>m\<in>set (new_matches newId i off). CSM_ScreeningId m = i \<and> cs_pending m
        \<and> CSM_EntityId m \<notin> set (map CSM_EntityId (matches_of i db))"
    proof
      fix m assume m: "m \<in> set (new_matches newId i off)"
      then obtain k p where "(k, CSM_EntityId m, p) \<in> set off" using new_matches_entity by blast
      then show "CSM_ScreeningId m = i \<and> cs_pending m \<and> CSM_EntityId m \<notin> set (map CSM_EntityId (matches_of i db))"
        using new_matches_all [OF m] new by blast
    qed
    show "\<forall>t\<in>set (screenings (case_db_of db')). CS_Id t = i
          \<longrightarrow> CS_NumberOfMatches t = CS_NumberOfMatches s + int (length (new_matches newId i off))"
    proof (intro ballI impI)
      fix t assume t: "t \<in> set (screenings (case_db_of db'))" "CS_Id t = i"
      let ?f = "\<lambda>x. if CS_Id x = i then x\<lparr>CS_NumberOfMatches := CS_NumberOfMatches s + int (length off),
          CS_IsPartial := FM_Partial found\<rparr> else x"
      have ss: "screenings (case_db_of db') = map ?f (screenings (case_db_of db))"
        unfolding db' UpdateContinuousScreening_def by simp
      have "t \<in> ?f ` set (screenings (case_db_of db))" using t(1) unfolding ss list.set_map .
      then obtain y where y: "t = ?f y" by (rule imageE)
      have "CS_Id y = i" using t(2) y by (cases "CS_Id y = i") simp_all
      then show "CS_NumberOfMatches t = CS_NumberOfMatches s + int (length (new_matches newId i off))"
        by (simp add: y)
    qed
    show "cs_matches db' = cs_matches db @ new_matches newId i off"
      unfolding db' UpdateContinuousScreening_def by simp
    show "HasPermission (Cred_Role (CaseCreds (CaseEnv R))) CONTINUOUS_SCREENING_HIT_WRITE"
      "org_access (CaseCreds (CaseEnv R)) (OrganizationId s)"
      using perm by (simp_all add: g_WriteContinuousScreeningHit.granted_iff)
  qed (fact fs rev)+
qed

definition more_db :: continuous_db where
  "more_db = (case load_more_transaction continuous_example (\<lambda>k. k + 30) 9 (monitored_db ContinuousScreeningTriggerTypeObjectAdded True) of
     Inl _ \<Rightarrow> continuous_start | Inr (_, db) \<Rightarrow> db)"

theorem load_more_adds_witness:
  "\<exists>new. cs_matches more_db = cs_matches (monitored_db ContinuousScreeningTriggerTypeObjectAdded True) @ new"
proof -
  let ?run = "load_more_transaction continuous_example (\<lambda>k. k + 30) 9 (monitored_db ContinuousScreeningTriggerTypeObjectAdded True)"
  have "case ?run of Inl _ \<Rightarrow> False | Inr _ \<Rightarrow> True" by code_simp
  then obtain sm where run: "?run = Inr (sm, more_db)"
    by (auto simp: more_db_def split: sum.splits)
  from load_more_adds [OF run] show ?thesis by blast
qed

text \<open>The comparison that spares a case compares the sets of entities, when neither side repeats one.\<close>

theorem matches_equal_iff_same_entities:
  assumes "distinct (map CSM_EntityId ms)" "distinct (map (fst \<circ> snd) found)"
  shows "areScreeningMatchesEqual ms found \<longleftrightarrow> set (map CSM_EntityId ms) = set (map (fst \<circ> snd) found)"
proof -
  have "list_all (\<lambda>(_, e, _). List.member (map CSM_EntityId ms) e) found
      \<longleftrightarrow> set (map (fst \<circ> snd) found) \<subseteq> set (map CSM_EntityId ms)"
    by (auto simp: list_all_iff)
  moreover have "length ms = card (set (map CSM_EntityId ms))" "length found = card (set (map (fst \<circ> snd) found))"
    using distinct_card [OF assms(1)] distinct_card [OF assms(2)] by simp_all
  ultimately show ?thesis
    unfolding areScreeningMatchesEqual_def by (metis List.finite_set card_subset_eq order_refl)
qed

theorem matches_equal_iff_same_entities_witness:
  "areScreeningMatchesEqual (cs_matches confirmed_db) [(None, ''F'', []), (None, ''E'', [])]"
proof -
  have "distinct (map CSM_EntityId (cs_matches confirmed_db)) \<and> map CSM_EntityId (cs_matches confirmed_db) = [''E'', ''F'']"
    by code_simp
  then show ?thesis
    using matches_equal_iff_same_entities [of "cs_matches confirmed_db" "[(None, ''F'', []), (None, ''E'', [])]"] by auto
qed

section \<open>What some reviews do beside their intent\<close>

text \<open>A client of the API of another organization reviews the match.\<close>

definition foreign_client :: case_env where
  "foreign_client = case_example\<lparr>CaseCreds := case_admin\<lparr>Cred_OrganizationId := 8, Cred_Role := API_CLIENT\<rparr>\<rparr>"

lemma foreign_client_reviews:
  "case fst (UpdateMatchStatus foreign_client (review_of ''m'' ScreeningMatchStatusConfirmedHit) stored_db) of
     Inl _ \<Rightarrow> False | Inr _ \<Rightarrow> True"
  by code_simp

text \<open>A screening that was refined and archived is refined again: two screenings are then active.\<close>

definition refine_env :: search_env where
  "refine_env = \<lparr>SearchProvider = (\<lambda>_ _. Inr \<lparr>SR_EntityIds = [''G''], SR_Partial = False, SR_Count = 7\<rparr>), OffloadFails = (\<lambda>_. None),
     IsSelfHosted = False, EnrichTaskFails = (\<lambda>_. False)\<rparr>"

definition refined_twice :: review_db where
  "refined_twice = snd (Refine case_example refine_env ''s3'' (\<lambda>k. replicate k CHR ''r'') ''s'' None
     (snd (Refine case_example refine_env ''s2'' (\<lambda>k. replicate k CHR ''q'') ''s'' None stored_db)))"

lemma two_active_screenings: "map Sc_Id (filter (\<lambda>s. \<not> Sc_IsArchived s) (screening_rows refined_twice)) = [''s2'', ''s3'']"
  by code_simp

text \<open>A dataset screening that may have more matches: one is confirmed, the other rejected, and no more are found. It stays in
  review with nothing pending. When the hit is then rejected it is confirmed, without a hit.\<close>

definition no_more_env :: continuous_env where
  "no_more_env = continuous_example\<lparr>SearchMore := (\<lambda>_ _. Inr (AdaptScreeningFromSearchResponse [] False 0))\<rparr>"

definition exhausted_db :: continuous_db where
  "exhausted_db = snd (LoadMoreContinuousScreeningMatches no_more_env (\<lambda>k. k + 30) 9
     (after_review 21 ScreeningMatchStatusNoHit (after_review 20 ScreeningMatchStatusConfirmedHit
       (monitored_db ContinuousScreeningTriggerTypeDatasetUpdated True))))"

lemma exhausted_stays:
  "map CS_Status (screenings (case_db_of exhausted_db)) = [ScreeningStatusInReview]
   \<and> map CSM_Status (cs_matches exhausted_db) = [ScreeningMatchStatusConfirmedHit, ScreeningMatchStatusNoHit]
   \<and> map CS_IsPartial (screenings (case_db_of exhausted_db)) = [False]"
  by code_simp

lemma confirmed_without_hit:
  "map CS_Status (screenings (case_db_of (after_review 20 ScreeningMatchStatusNoHit exhausted_db))) = [ScreeningStatusConfirmedHit]
   \<and> hits (cs_matches (after_review 20 ScreeningMatchStatusNoHit exhausted_db)) = []"
  by code_simp

text \<open>A dismissal leaves a dataset screening without a hit although one of its matches is one.\<close>

lemma dismissed_with_hit:
  "(let db = snd (DismissContinuousScreening continuous_example 9 None (after_review 20 ScreeningMatchStatusConfirmedHit
      (monitored_db ContinuousScreeningTriggerTypeDatasetUpdated False)))
    in map CS_Status (screenings (case_db_of db)) = [ScreeningStatusNoHit] \<and> length (hits (cs_matches db)) = 1)"
  by code_simp

text \<open>The search of a dataset cannot be repeated once the payload of its entity is in the blob store.\<close>

lemma offloaded_entity_not_searched:
  assumes "IsDatasetTriggered s" "CS_EntityPayload s = []"
  shows "\<exists>err. search_more R org s db = Inl err"
  using assms by (simp add: search_more_def attempt_def)

end
