(* ===== verification/Webhooks.thy ===== *)
theory Webhooks
  imports Go_Runtime Security
begin

text \<open>
  Webhooks: the endpoints of an organization with their secrets (\<^verbatim>\<open>src/usecases/webhooks/usecase.go\<close>), the
  validation of an endpoint (\<open>url_validator.go\<close>, \<open>delivery_service.go\<close>), the signature of a request (\<open>signature.go\<close>),
  the events (\<open>events_usecase.go\<close>), and the jobs that dispatch, deliver and clean them
  (\<^verbatim>\<open>src/usecases/worker_jobs/webhook_dispatch_job.go\<close>, \<open>webhook_delivery_job.go\<close>, \<open>webhook_cleanup_job.go\<close>), on the
  tables of \<^verbatim>\<open>src/repositories/webhook_repository.go\<close>.

  The network is a parameter: the resolution of a host, the answer of an endpoint, the answer to a ping. A request
  that was sent is logged in \<open>wh_requests\<close>, which no failure of a transaction takes back. A time is a number of
  nanoseconds.
\<close>

section \<open>Data\<close>

definition validWebhookEventTypes :: "string list" where
  "validWebhookEventTypes = [''case.updated'', ''case.created_manually'', ''case.created_from_workflow'',
     ''case.decisions_updated'', ''case.tags_updated'', ''case.comment_created'', ''case.file_created'',
     ''decision.created'', ''case.rule_snooze_created'', ''case.decision_reviewed'', ''async_decision.failed'',
     ''continuous_screening.created'', ''continuous_screening.match_reviewed'', ''user_scoring.risk_level_changed'']"

record NewWebhook = org_owned +
  WH_Id :: uuid
  WH_Url :: string
  WH_EventTypes :: "string list"
  WH_HttpTimeoutSeconds :: int
  WH_RateLimit :: "int option"
  WH_RateLimitDurationSeconds :: "int option"
  WH_Enabled :: bool
  WH_CreatedAt :: int
  WH_DeletedAt :: "int option"

record NewWebhookSecret =
  WS_Id :: uuid
  WS_WebhookId :: uuid
  WS_Value :: string
  WS_CreatedAt :: int
  WS_ExpiresAt :: "int option"
  WS_RevokedAt :: "int option"

record WebhookEventV2 = org_owned +
  WE_Id :: uuid
  WE_EventType :: string
  WE_ApiVersion :: string
  WE_EventData :: string
  WE_CreatedAt :: int

datatype WebhookDeliveryStatus = WebhookDeliveryStatusPending | WebhookDeliveryStatusSuccess | WebhookDeliveryStatusFailed

record WebhookDelivery =
  WD_Id :: uuid
  WD_WebhookEventId :: uuid
  WD_WebhookId :: uuid
  WD_Status :: WebhookDeliveryStatus
  WD_Attempts :: int
  WD_NextRetryAt :: "int option"
  WD_LastError :: "string option"
  WD_LastResponseStatus :: "int option"

record WebhookRegister =
  RG_EventTypes :: "string list"
  RG_Url :: string
  RG_HttpTimeout :: "int option"
  RG_RateLimit :: "int option"
  RG_RateLimitDuration :: "int option"

record WebhookUpdate =
  UW_EventTypes :: "string list option"
  UW_Url :: "string option"
  UW_HttpTimeout :: "int option"
  UW_RateLimit :: "int option"
  UW_RateLimitDuration :: "int option"

text \<open>The form of webhooks and secrets in the API, with times as text.\<close>

record Webhook_Secret =
  LS_CreatedAt :: string
  LS_DeletedAt :: string
  LS_ExpiresAt :: string
  LS_Uid :: string
  LS_Value :: string

record Webhook = org_owned +
  LW_Id :: string
  LW_EventTypes :: "string list"
  LW_Secrets :: "Webhook_Secret list"
  LW_Url :: string
  LW_HttpTimeout :: "int option"
  LW_RateLimit :: "int option"
  LW_RateLimitDuration :: "int option"

text \<open>
  An error of the network is the answers it gives to the tests of \<open>formatError\<close>: the first two on the error itself, the
  others on the error that an URL error wraps.
\<close>

record send_error =
  SE_DeadlineExceeded :: bool
  SE_Canceled :: bool
  SE_Timeout :: bool
  SE_DNS :: bool
  SE_OpError :: "string option"
  SE_CertificateInvalid :: bool
  SE_UnknownAuthority :: bool
  SE_Hostname :: bool
  SE_EOF :: bool
  SE_Message :: string

record WebhookSendResult =
  SR_StatusCode :: int
  SR_Error :: "send_error option"

definition IsSuccess :: "WebhookSendResult \<Rightarrow> bool" where
  "IsSuccess r \<longleftrightarrow> SR_StatusCode r \<ge> 200 \<and> SR_StatusCode r < 300 \<and> SR_Error r = None"

record webhook_request =
  RQ_Url :: string
  RQ_Body :: string
  RQ_Timeout :: int
  RQ_Headers :: "(string \<times> string) list"

record parsed_url =
  URL_Scheme :: string
  URL_HasUser :: bool
  URL_Hostname :: string

record webhook_env =
  WhCreds :: Credentials
  HasLicense :: bool
  ParseRequestURI :: "string \<Rightarrow> bool"
  ParseURL :: "string \<Rightarrow> parsed_url option"
  LookupIPAddr :: "string \<Rightarrow> ip_addr list option"
  AllowInsecureURLs :: bool
  IPWhitelist :: "ip_prefix list"
  Ping :: "string \<Rightarrow> string \<Rightarrow> go_error option"
  RandomSecret :: "go_error + string"
  ParseWebhookId :: "string \<Rightarrow> uuid option"
  UuidText :: "uuid \<Rightarrow> string"
  FormatTime :: "int \<Rightarrow> string"
  AddDays :: "int \<Rightarrow> int \<Rightarrow> int"
  AdaptEventData :: "string \<Rightarrow> go_error + string \<times> string"
  ComputeHMAC :: "string \<Rightarrow> string \<Rightarrow> string"
  FormatInt :: "int \<Rightarrow> string"
  MarbleVersion :: string
  NewRequestError :: "string \<Rightarrow> send_error option"
  DoRequest :: "webhook_request \<Rightarrow> WebhookSendResult"
  DispatchTaskFails :: "uuid \<Rightarrow> go_error option"
  DeliveryTaskFails :: "uuid \<Rightarrow> go_error option"

record webhook_db =
  wh_webhooks :: "NewWebhook list"
  wh_secrets :: "NewWebhookSecret list"
  wh_events :: "WebhookEventV2 list"
  wh_deliveries :: "WebhookDelivery list"
  wh_dispatch_jobs :: "uuid list"
  wh_delivery_jobs :: "(uuid \<times> int option) list"
  wh_requests :: "(uuid \<times> webhook_request) list"

section \<open>The tables\<close>

abbreviation live :: "uuid \<Rightarrow> NewWebhook \<Rightarrow> bool" where
  "live i w \<equiv> WH_Id w = i \<and> WH_DeletedAt w = None"

definition CreateWebhook :: "NewWebhook \<Rightarrow> webhook_db \<Rightarrow> webhook_db" where
  "CreateWebhook w db = db\<lparr>wh_webhooks := wh_webhooks db @ [w]\<rparr>"

definition GetWebhook :: "uuid \<Rightarrow> webhook_db \<Rightarrow> go_error + NewWebhook" where
  "GetWebhook i db = (case find (live i) (wh_webhooks db) of None \<Rightarrow> Inl NotFoundError | Some w \<Rightarrow> Inr w)"

definition ListWebhooks :: "uuid \<Rightarrow> webhook_db \<Rightarrow> NewWebhook list" where
  "ListWebhooks orgId db =
     sort_key (\<lambda>w. - WH_CreatedAt w) (filter (\<lambda>w. OrganizationId w = orgId \<and> WH_DeletedAt w = None) (wh_webhooks db))"

text \<open>No type means every type.\<close>

definition ListWebhooksByEventType :: "uuid \<Rightarrow> string \<Rightarrow> webhook_db \<Rightarrow> NewWebhook list" where
  "ListWebhooksByEventType orgId eventType db =
     filter (\<lambda>w. OrganizationId w = orgId \<and> WH_Enabled w \<and> WH_DeletedAt w = None
       \<and> (WH_EventTypes w = [] \<or> List.member (WH_EventTypes w) eventType)) (wh_webhooks db)"

text \<open>A column that is not given keeps its value.\<close>

definition given :: "'a option \<Rightarrow> 'a \<Rightarrow> 'a" where
  "given v old = (case v of None \<Rightarrow> old | Some x \<Rightarrow> x)"

definition updated_webhook :: "WebhookUpdate \<Rightarrow> NewWebhook \<Rightarrow> NewWebhook" where
  "updated_webhook u w = w\<lparr>WH_EventTypes := given (UW_EventTypes u) (WH_EventTypes w), WH_Url := given (UW_Url u) (WH_Url w),
     WH_HttpTimeoutSeconds := given (UW_HttpTimeout u) (WH_HttpTimeoutSeconds w),
     WH_RateLimit := given (map_option Some (UW_RateLimit u)) (WH_RateLimit w),
     WH_RateLimitDurationSeconds := given (map_option Some (UW_RateLimitDuration u)) (WH_RateLimitDurationSeconds w)\<rparr>"

definition db_UpdateWebhook :: "uuid \<Rightarrow> WebhookUpdate \<Rightarrow> webhook_db \<Rightarrow> webhook_db" where
  "db_UpdateWebhook i u db =
     (if UW_EventTypes u = None \<and> UW_Url u = None \<and> UW_HttpTimeout u = None \<and> UW_RateLimit u = None \<and> UW_RateLimitDuration u = None
      then db
      else db\<lparr>wh_webhooks := map (\<lambda>w. if live i w then updated_webhook u w else w) (wh_webhooks db)\<rparr>)"

definition db_DeleteWebhook :: "int \<Rightarrow> uuid \<Rightarrow> webhook_db \<Rightarrow> webhook_db" where
  "db_DeleteWebhook now i db =
     db\<lparr>wh_webhooks := map (\<lambda>w. if live i w then w\<lparr>WH_DeletedAt := Some now\<rparr> else w) (wh_webhooks db)\<rparr>"

definition AddWebhookSecret :: "NewWebhookSecret \<Rightarrow> webhook_db \<Rightarrow> webhook_db" where
  "AddWebhookSecret s db = db\<lparr>wh_secrets := wh_secrets db @ [s]\<rparr>"

definition ListActiveWebhookSecrets :: "int \<Rightarrow> uuid \<Rightarrow> webhook_db \<Rightarrow> NewWebhookSecret list" where
  "ListActiveWebhookSecrets now i db = sort_key (\<lambda>s. - WS_CreatedAt s)
     (filter (\<lambda>s. WS_WebhookId s = i \<and> WS_RevokedAt s = None
        \<and> (case WS_ExpiresAt s of None \<Rightarrow> True | Some t \<Rightarrow> t > now)) (wh_secrets db))"

definition ListAllWebhookSecrets :: "uuid \<Rightarrow> webhook_db \<Rightarrow> NewWebhookSecret list" where
  "ListAllWebhookSecrets i db = sort_key (\<lambda>s. - WS_CreatedAt s) (filter (\<lambda>s. WS_WebhookId s = i) (wh_secrets db))"

definition db_RevokeWebhookSecret :: "int \<Rightarrow> uuid \<Rightarrow> webhook_db \<Rightarrow> webhook_db" where
  "db_RevokeWebhookSecret now i db = db\<lparr>wh_secrets := map (\<lambda>s.
     if WS_Id s = i \<and> WS_RevokedAt s = None then s\<lparr>WS_RevokedAt := Some now\<rparr> else s) (wh_secrets db)\<rparr>"

definition GetWebhookSecret :: "uuid \<Rightarrow> webhook_db \<Rightarrow> go_error + NewWebhookSecret" where
  "GetWebhookSecret i db = (case find (\<lambda>s. WS_Id s = i) (wh_secrets db) of None \<Rightarrow> Inl NotFoundError | Some s \<Rightarrow> Inr s)"

definition permanent_secret :: "uuid \<Rightarrow> NewWebhookSecret \<Rightarrow> bool" where
  "permanent_secret i s \<longleftrightarrow> WS_WebhookId s = i \<and> WS_RevokedAt s = None \<and> WS_ExpiresAt s = None"

definition ExpireWebhookSecrets :: "uuid \<Rightarrow> int \<Rightarrow> webhook_db \<Rightarrow> webhook_db" where
  "ExpireWebhookSecrets i t db = db\<lparr>wh_secrets := map (\<lambda>s.
     if permanent_secret i s then s\<lparr>WS_ExpiresAt := Some t\<rparr> else s) (wh_secrets db)\<rparr>"

definition CountPermanentWebhookSecrets :: "uuid \<Rightarrow> webhook_db \<Rightarrow> nat" where
  "CountPermanentWebhookSecrets i db = length (filter (permanent_secret i) (wh_secrets db))"

definition CreateWebhookEventV2 :: "WebhookEventV2 \<Rightarrow> webhook_db \<Rightarrow> webhook_db" where
  "CreateWebhookEventV2 e db = db\<lparr>wh_events := wh_events db @ [e]\<rparr>"

definition GetWebhookEventV2 :: "uuid \<Rightarrow> webhook_db \<Rightarrow> go_error + WebhookEventV2" where
  "GetWebhookEventV2 i db = (case find (\<lambda>e. WE_Id e = i) (wh_events db) of None \<Rightarrow> Inl NotFoundError | Some e \<Rightarrow> Inr e)"

text \<open>The deliveries of an event go with it.\<close>

definition delete_events :: "uuid list \<Rightarrow> webhook_db \<Rightarrow> webhook_db" where
  "delete_events ids db = db\<lparr>wh_events := filter (\<lambda>e. \<not> List.member ids (WE_Id e)) (wh_events db),
     wh_deliveries := filter (\<lambda>d. \<not> List.member ids (WD_WebhookEventId d)) (wh_deliveries db)\<rparr>"

definition DeleteWebhookEventV2 :: "uuid \<Rightarrow> webhook_db \<Rightarrow> webhook_db" where
  "DeleteWebhookEventV2 i db = delete_events [i] db"

definition WebhookDeliveryExists :: "uuid \<Rightarrow> uuid \<Rightarrow> webhook_db \<Rightarrow> bool" where
  "WebhookDeliveryExists eventId webhookId db =
     list_ex (\<lambda>d. WD_WebhookEventId d = eventId \<and> WD_WebhookId d = webhookId) (wh_deliveries db)"

text \<open>The table has one row for an event and a webhook, and both exist.\<close>

definition CreateWebhookDelivery :: "WebhookDelivery \<Rightarrow> webhook_db \<Rightarrow> go_error + webhook_db" where
  "CreateWebhookDelivery d db =
     (if WebhookDeliveryExists (WD_WebhookEventId d) (WD_WebhookId d) db \<or> list_ex (\<lambda>x. WD_Id x = WD_Id d) (wh_deliveries db)
        then Inl (ErrNew ''unique violation'')
      else if \<not> list_ex (\<lambda>e. WE_Id e = WD_WebhookEventId d) (wh_events db) \<or> \<not> list_ex (\<lambda>w. WH_Id w = WD_WebhookId d) (wh_webhooks db)
        then Inl (ErrNew ''foreign key violation'')
      else Inr (db\<lparr>wh_deliveries := wh_deliveries db @ [d]\<rparr>))"

definition GetWebhookDelivery :: "uuid \<Rightarrow> webhook_db \<Rightarrow> go_error + WebhookDelivery" where
  "GetWebhookDelivery i db = (case find (\<lambda>d. WD_Id d = i) (wh_deliveries db) of None \<Rightarrow> Inl NotFoundError | Some d \<Rightarrow> Inr d)"

definition on_delivery :: "uuid \<Rightarrow> (WebhookDelivery \<Rightarrow> WebhookDelivery) \<Rightarrow> webhook_db \<Rightarrow> webhook_db" where
  "on_delivery i f db = db\<lparr>wh_deliveries := map (\<lambda>d. if WD_Id d = i then f d else d) (wh_deliveries db)\<rparr>"

definition UpdateWebhookDeliverySuccess :: "uuid \<Rightarrow> int \<Rightarrow> webhook_db \<Rightarrow> webhook_db" where
  "UpdateWebhookDeliverySuccess i responseStatus =
     on_delivery i (\<lambda>d. d\<lparr>WD_Status := WebhookDeliveryStatusSuccess, WD_LastResponseStatus := Some responseStatus\<rparr>)"

definition UpdateWebhookDeliveryFailed :: "uuid \<Rightarrow> string \<Rightarrow> int option \<Rightarrow> webhook_db \<Rightarrow> webhook_db" where
  "UpdateWebhookDeliveryFailed i errMsg responseStatus = on_delivery i (\<lambda>d.
     d\<lparr>WD_Status := WebhookDeliveryStatusFailed, WD_LastError := Some errMsg,
       WD_LastResponseStatus := given (map_option Some responseStatus) (WD_LastResponseStatus d)\<rparr>)"

definition UpdateWebhookDeliveryAttempt :: "uuid \<Rightarrow> string \<Rightarrow> int option \<Rightarrow> int \<Rightarrow> int \<Rightarrow> webhook_db \<Rightarrow> webhook_db" where
  "UpdateWebhookDeliveryAttempt i errMsg responseStatus attempts nextRetryAt = on_delivery i (\<lambda>d.
     d\<lparr>WD_Attempts := attempts, WD_LastError := Some errMsg, WD_NextRetryAt := Some nextRetryAt,
       WD_LastResponseStatus := given (map_option Some responseStatus) (WD_LastResponseStatus d)\<rparr>)"

text \<open>A batch of the events older than a time, of those that the table gives first.\<close>

definition DeleteOldWebhookEventsV2Batch :: "int \<Rightarrow> nat \<Rightarrow> webhook_db \<Rightarrow> nat \<times> webhook_db" where
  "DeleteOldWebhookEventsV2Batch olderThan limit db =
     (let ids = take limit (map WE_Id (filter (\<lambda>e. WE_CreatedAt e < olderThan) (wh_events db)))
      in (length ids, delete_events ids db))"

end
