(* ===== verification/Webhook_Requests.thy ===== *)
theory Webhook_Requests
  imports Webhooks
begin

text \<open>
  The requests on the webhooks of an organization and on their secrets (\<^verbatim>\<open>src/usecases/webhooks/usecase.go\<close>), with the
  checks of what a client registers (\<^verbatim>\<open>src/models/webhook.go\<close>) and of the endpoint
  (\<^verbatim>\<open>src/usecases/webhooks/url_validator.go\<close>, \<open>delivery_service.go\<close>).
\<close>

section \<open>Endpoints\<close>

text \<open>
  A prefix of four bytes, and one of eight groups of sixteen bits. The tests of the net package read an IPv4 address out of
  an IPv6 one that maps it, and so does the membership in a prefix.
\<close>

definition block4 :: "nat list \<Rightarrow> nat \<Rightarrow> ip_prefix" where
  "block4 bytes n = \<lparr>prefix_addr = Addr4 (bytes_value bytes), prefix_bits = n\<rparr>"

definition block6 :: "nat list \<Rightarrow> nat \<Rightarrow> ip_prefix" where
  "block6 groups n = \<lparr>prefix_addr = Addr6 (fold (\<lambda>g acc. acc * 65536 + g) groups 0), prefix_bits = n\<rparr>"

definition reservedIPBlocks :: "ip_prefix list" where
  "reservedIPBlocks =
    [block4 [0, 0, 0, 0] 8, block4 [10, 0, 0, 0] 8, block4 [100, 64, 0, 0] 10, block4 [127, 0, 0, 0] 8, block4 [169, 254, 0, 0] 16,
     block4 [172, 16, 0, 0] 12, block4 [192, 0, 0, 0] 24, block4 [192, 0, 2, 0] 24, block4 [192, 88, 99, 0] 24,
     block4 [192, 168, 0, 0] 16, block4 [198, 18, 0, 0] 15, block4 [198, 51, 100, 0] 24, block4 [203, 0, 113, 0] 24,
     block4 [224, 0, 0, 0] 4, block4 [240, 0, 0, 0] 4,
     block6 [0, 0, 0, 0, 0, 0, 0, 0] 128, block6 [0, 0, 0, 0, 0, 0, 0, 1] 128, block6 [0x64, 0xff9b, 0, 0, 0, 0, 0, 0] 96,
     block6 [0x100, 0, 0, 0, 0, 0, 0, 0] 64, block6 [0x2001, 0, 0, 0, 0, 0, 0, 0] 32, block6 [0x2001, 0xdb8, 0, 0, 0, 0, 0, 0] 32,
     block6 [0x2002, 0, 0, 0, 0, 0, 0, 0] 16, block6 [0xfc00, 0, 0, 0, 0, 0, 0, 0] 7, block6 [0xfe80, 0, 0, 0, 0, 0, 0, 0] 10,
     block6 [0xff00, 0, 0, 0, 0, 0, 0, 0] 8]"

definition IPNet_Contains :: "ip_prefix \<Rightarrow> ip_addr \<Rightarrow> bool" where
  "IPNet_Contains b ip = Prefix_Contains b (Unmap ip)"

text \<open>The first byte of an IPv4 address, and the others; the first sixteen bits of an IPv6 address.\<close>

definition v4_byte :: "nat \<Rightarrow> nat \<Rightarrow> nat" where
  "v4_byte i v = v div 256 ^ (3 - i) mod 256"

definition IP_IsUnspecified :: "ip_addr \<Rightarrow> bool" where
  "IP_IsUnspecified ip = (case Unmap ip of Addr4 v \<Rightarrow> v = 0 | Addr6 v \<Rightarrow> v = 0)"

definition IP_IsLoopback :: "ip_addr \<Rightarrow> bool" where
  "IP_IsLoopback ip = (case Unmap ip of Addr4 v \<Rightarrow> v4_byte 0 v = 127 | Addr6 v \<Rightarrow> v = 1)"

definition IP_IsPrivate :: "ip_addr \<Rightarrow> bool" where
  "IP_IsPrivate ip = (case Unmap ip of
     Addr4 v \<Rightarrow> v4_byte 0 v = 10 \<or> v4_byte 0 v = 172 \<and> v4_byte 1 v div 16 = 1 \<or> v4_byte 0 v = 192 \<and> v4_byte 1 v = 168
   | Addr6 v \<Rightarrow> v div 2 ^ 121 = 126)"

definition IP_IsMulticast :: "ip_addr \<Rightarrow> bool" where
  "IP_IsMulticast ip = (case Unmap ip of Addr4 v \<Rightarrow> v4_byte 0 v div 16 = 14 | Addr6 v \<Rightarrow> v div 2 ^ 120 = 255)"

definition IP_IsLinkLocalMulticast :: "ip_addr \<Rightarrow> bool" where
  "IP_IsLinkLocalMulticast ip = (case Unmap ip of
     Addr4 v \<Rightarrow> v4_byte 0 v = 224 \<and> v4_byte 1 v = 0 \<and> v4_byte 2 v = 0
   | Addr6 v \<Rightarrow> v div 2 ^ 120 = 255 \<and> v div 2 ^ 112 mod 16 = 2)"

definition IP_IsLinkLocalUnicast :: "ip_addr \<Rightarrow> bool" where
  "IP_IsLinkLocalUnicast ip = (case Unmap ip of
     Addr4 v \<Rightarrow> v4_byte 0 v = 169 \<and> v4_byte 1 v = 254
   | Addr6 v \<Rightarrow> v div 2 ^ 118 = 1018)"

definition isReservedIP :: "ip_addr \<Rightarrow> ip_prefix list \<Rightarrow> bool" where
  "isReservedIP ip whitelist =
     (if list_ex (\<lambda>b. IPNet_Contains b ip) whitelist then False
      else if IP_IsLoopback ip \<or> IP_IsPrivate ip \<or> IP_IsLinkLocalUnicast ip \<or> IP_IsLinkLocalMulticast ip
        \<or> IP_IsMulticast ip \<or> IP_IsUnspecified ip then True
      else list_ex (\<lambda>b. IPNet_Contains b ip) reservedIPBlocks)"

definition Validate_url :: "webhook_env \<Rightarrow> string \<Rightarrow> go_error option" where
  "Validate_url R rawURL = (case ParseURL R rawURL of
     None \<Rightarrow> Some (ErrWrap BadParameterError ''invalid URL format'')
   | Some parsed \<Rightarrow>
      if AllowInsecureURLs R \<and> URL_Scheme parsed \<noteq> ''https'' \<and> URL_Scheme parsed \<noteq> ''http''
        then Some (ErrWrap BadParameterError ''URL scheme must be http or https'')
      else if \<not> AllowInsecureURLs R \<and> URL_Scheme parsed \<noteq> ''https''
        then Some (ErrWrap BadParameterError ''URL scheme must be https'')
      else if URL_HasUser parsed then Some (ErrWrap BadParameterError ''URL must not contain credentials'')
      else if URL_Hostname parsed = [] then Some (ErrWrap BadParameterError ''URL must have a hostname'')
      else (case LookupIPAddr R (URL_Hostname parsed) of
         None \<Rightarrow> Some (ErrWrap BadParameterError ''could not resolve hostname'')
       | Some ips \<Rightarrow> if list_ex (\<lambda>ip. isReservedIP ip (IPWhitelist R)) ips
           then Some (ErrWrap BadParameterError ''URL resolves to a reserved IP address'') else None))"

fun ping_any :: "(string \<Rightarrow> go_error option) \<Rightarrow> string list \<Rightarrow> go_error option \<Rightarrow> go_error option" where
  "ping_any f [] lastErr = lastErr"
| "ping_any f (m # ms) lastErr = (case f m of None \<Rightarrow> None | Some err \<Rightarrow> ping_any f ms (Some err))"

definition ValidateEndpoint :: "webhook_env \<Rightarrow> string \<Rightarrow> go_error option" where
  "ValidateEndpoint R url = (case Validate_url R url of Some err \<Rightarrow> Some err
   | None \<Rightarrow> map_option (\<lambda>err. ErrWrap err ''endpoint validation failed: no 2xx response'')
       (ping_any (\<lambda>method. Ping R method url) [''HEAD'', ''GET'', ''POST''] None))"

section \<open>What a client registers\<close>

definition negative :: "int option \<Rightarrow> bool" where
  "negative v = (case v of None \<Rightarrow> False | Some x \<Rightarrow> x < 0)"

definition invalid_limits :: "int option \<Rightarrow> int option \<Rightarrow> int option \<Rightarrow> go_error option" where
  "invalid_limits timeout limit duration =
     (if negative timeout then Some (ErrWrap BadParameterError ''invalid HttpTimeout'')
      else if negative limit then Some (ErrWrap BadParameterError ''invalid RateLimit'')
      else if negative duration then Some (ErrWrap BadParameterError ''invalid RateLimitDuration'')
      else None)"

definition valid_types :: "string list \<Rightarrow> bool" where
  "valid_types ts = list_all (List.member validWebhookEventTypes) ts"

definition WebhookRegister_Validate :: "webhook_env \<Rightarrow> WebhookRegister \<Rightarrow> go_error option" where
  "WebhookRegister_Validate R a =
     (if \<not> valid_types (RG_EventTypes a) then Some (ErrWrap BadParameterError ''invalid event type'')
      else if \<not> ParseRequestURI R (RG_Url a) then Some (ErrWrap BadParameterError ''invalid Url'')
      else invalid_limits (RG_HttpTimeout a) (RG_RateLimit a) (RG_RateLimitDuration a))"

definition WebhookUpdate_Validate :: "webhook_env \<Rightarrow> WebhookUpdate \<Rightarrow> go_error option" where
  "WebhookUpdate_Validate R u =
     (if (case UW_EventTypes u of None \<Rightarrow> False | Some ts \<Rightarrow> \<not> valid_types ts) then Some (ErrWrap BadParameterError ''invalid event type'')
      else if (case UW_Url u of None \<Rightarrow> False | Some url \<Rightarrow> \<not> ParseRequestURI R url) then Some (ErrWrap BadParameterError ''invalid Url'')
      else invalid_limits (UW_HttpTimeout u) (UW_RateLimit u) (UW_RateLimitDuration u))"

section \<open>Requests on webhooks\<close>

definition adaptNewSecretToLegacy :: "webhook_env \<Rightarrow> NewWebhookSecret \<Rightarrow> Webhook_Secret" where
  "adaptNewSecretToLegacy R s =
     \<lparr>LS_CreatedAt = FormatTime R (WS_CreatedAt s),
      LS_DeletedAt = (case WS_RevokedAt s of None \<Rightarrow> [] | Some t \<Rightarrow> FormatTime R t),
      LS_ExpiresAt = (case WS_ExpiresAt s of None \<Rightarrow> [] | Some t \<Rightarrow> FormatTime R t),
      LS_Uid = UuidText R (WS_Id s), LS_Value = WS_Value s\<rparr>"

definition adaptNewWebhookToLegacy :: "webhook_env \<Rightarrow> NewWebhook \<Rightarrow> NewWebhookSecret list \<Rightarrow> Webhook" where
  "adaptNewWebhookToLegacy R w ss =
     \<lparr>OrganizationId = OrganizationId w, LW_Id = UuidText R (WH_Id w), LW_EventTypes = WH_EventTypes w,
      LW_Secrets = map (adaptNewSecretToLegacy R) ss, LW_Url = WH_Url w,
      LW_HttpTimeout = (if WH_HttpTimeoutSeconds w > 0 then Some (WH_HttpTimeoutSeconds w) else None),
      LW_RateLimit = WH_RateLimit w, LW_RateLimitDuration = WH_RateLimitDurationSeconds w\<rparr>"

text \<open>The webhook of an identifier in a request, when it can be read, or changed.\<close>

definition parsed_webhook :: "webhook_env \<Rightarrow> string \<Rightarrow> webhook_db \<Rightarrow> go_error + NewWebhook" where
  "parsed_webhook R i db = (case ParseWebhookId R i of
     None \<Rightarrow> Inl NotFoundError
   | Some u \<Rightarrow> (case GetWebhook u db of Inl _ \<Rightarrow> Inl NotFoundError | Inr w \<Rightarrow> Inr w))"

definition with_secrets :: "webhook_env \<Rightarrow> NewWebhook \<Rightarrow> webhook_db \<Rightarrow> Webhook" where
  "with_secrets R w db = adaptNewWebhookToLegacy R w (ListAllWebhookSecrets (WH_Id w) db)"

definition uc_ListWebhooks :: "webhook_env \<Rightarrow> uuid \<Rightarrow> webhook_db \<Rightarrow> go_error + Webhook list" where
  "uc_ListWebhooks R orgId db = MapErr (ListWebhooks orgId db)
     (\<lambda>w. check (CanReadWebhook (WhCreds R) w) (Inr (with_secrets R w db)))"

definition uc_GetWebhook :: "webhook_env \<Rightarrow> string \<Rightarrow> webhook_db \<Rightarrow> go_error + Webhook" where
  "uc_GetWebhook R i db = attempt (parsed_webhook R i db) (\<lambda>w.
     check (CanReadWebhook (WhCreds R) w) (Inr (with_secrets R w db)))"

definition registered :: "uuid \<Rightarrow> int \<Rightarrow> uuid \<Rightarrow> WebhookRegister \<Rightarrow> NewWebhook" where
  "registered i now orgId a = \<lparr>OrganizationId = orgId, WH_Id = i, WH_Url = RG_Url a, WH_EventTypes = RG_EventTypes a,
     WH_HttpTimeoutSeconds = (case RG_HttpTimeout a of None \<Rightarrow> 30 | Some t \<Rightarrow> t), WH_RateLimit = RG_RateLimit a,
     WH_RateLimitDurationSeconds = RG_RateLimitDuration a, WH_Enabled = True, WH_CreatedAt = now, WH_DeletedAt = None\<rparr>"

definition new_secret :: "uuid \<Rightarrow> int \<Rightarrow> uuid \<Rightarrow> string \<Rightarrow> NewWebhookSecret" where
  "new_secret i now webhookId v = \<lparr>WS_Id = i, WS_WebhookId = webhookId, WS_Value = v, WS_CreatedAt = now,
     WS_ExpiresAt = None, WS_RevokedAt = None\<rparr>"

definition RegisterWebhook :: "webhook_env \<Rightarrow> uuid \<times> uuid \<Rightarrow> int \<Rightarrow> uuid \<Rightarrow> WebhookRegister \<Rightarrow> webhook_db
    \<Rightarrow> (go_error + Webhook) \<times> webhook_db" where
  "RegisterWebhook R newIds now orgId a db = Transaction (\<lambda>tx.
     check (CanCreateWebhook (WhCreds R) orgId) (
     check (WebhookRegister_Validate R a) (
     check (map_option (\<lambda>err. ErrWrap err ''webhook endpoint unreachable'') (ValidateEndpoint R (RG_Url a))) (
     attempt (RandomSecret R) (\<lambda>secretValue.
       let w = registered (fst newIds) now orgId a; s = new_secret (snd newIds) now (fst newIds) secretValue
       in Inr (adaptNewWebhookToLegacy R w [s], AddWebhookSecret s (CreateWebhook w tx))))))) db"

definition DeleteWebhook :: "webhook_env \<Rightarrow> int \<Rightarrow> string \<Rightarrow> webhook_db \<Rightarrow> (go_error + unit) \<times> webhook_db" where
  "DeleteWebhook R now i db = Transaction (\<lambda>tx.
     attempt (parsed_webhook R i tx) (\<lambda>w.
     check (CanModifyWebhook (WhCreds R) w) (Inr ((), db_DeleteWebhook now (WH_Id w) tx)))) db"

text \<open>The endpoint is called before the permission is checked.\<close>

definition UpdateWebhook :: "webhook_env \<Rightarrow> string \<Rightarrow> WebhookUpdate \<Rightarrow> webhook_db \<Rightarrow> (go_error + Webhook) \<times> webhook_db" where
  "UpdateWebhook R i u db = Transaction (\<lambda>tx.
     check (WebhookUpdate_Validate R u) (
     check (case UW_Url u of None \<Rightarrow> None
       | Some url \<Rightarrow> map_option (\<lambda>err. ErrWrap err ''webhook endpoint validation failed'') (ValidateEndpoint R url)) (
     attempt (parsed_webhook R i tx) (\<lambda>w.
     check (CanModifyWebhook (WhCreds R) w) (
     let tx1 = db_UpdateWebhook (WH_Id w) u tx
     in attempt (wrapped (GetWebhook (WH_Id w) tx1) ''error fetching updated webhook'') (\<lambda>w1. Inr (with_secrets R w1 tx1, tx1))))))) db"

section \<open>Requests on secrets\<close>

definition CreateWebhookSecret :: "webhook_env \<Rightarrow> uuid \<Rightarrow> int \<Rightarrow> uuid \<Rightarrow> int option \<Rightarrow> webhook_db
    \<Rightarrow> (go_error + Webhook_Secret) \<times> webhook_db" where
  "CreateWebhookSecret R newId now webhookId expireExistingInDays db = Transaction (\<lambda>tx.
     case GetWebhook webhookId tx of
       Inl _ \<Rightarrow> Inl NotFoundError
     | Inr w \<Rightarrow> check (CanModifyWebhook (WhCreds R) w) (
         attempt (RandomSecret R) (\<lambda>secretValue.
         let s = new_secret newId now webhookId secretValue;
             tx1 = (case expireExistingInDays of None \<Rightarrow> tx | Some n \<Rightarrow> ExpireWebhookSecrets webhookId (AddDays R now n) tx)
         in Inr (adaptNewSecretToLegacy R s, AddWebhookSecret s tx1)))) db"

definition RevokeWebhookSecret :: "webhook_env \<Rightarrow> int \<Rightarrow> uuid \<Rightarrow> uuid \<Rightarrow> webhook_db \<Rightarrow> (go_error + unit) \<times> webhook_db" where
  "RevokeWebhookSecret R now webhookId secretId db = Transaction (\<lambda>tx.
     case GetWebhook webhookId tx of
       Inl _ \<Rightarrow> Inl NotFoundError
     | Inr w \<Rightarrow> check (CanModifyWebhook (WhCreds R) w) (case GetWebhookSecret secretId tx of
         Inl _ \<Rightarrow> Inl NotFoundError
       | Inr s \<Rightarrow>
          if WS_WebhookId s \<noteq> webhookId then Inl NotFoundError
          else if WS_RevokedAt s \<noteq> None then Inl (ErrWrap BadParameterError ''secret is already revoked'')
          else (let remainingPermanent = int (CountPermanentWebhookSecrets webhookId tx) - (if WS_ExpiresAt s = None then 1 else 0)
            in if remainingPermanent < 1
               then Inl (ErrWrap BadParameterError ''cannot revoke: webhook must retain at least one permanent secret'')
               else Inr ((), db_RevokeWebhookSecret now secretId tx)))) db"

end
