(* ===== verification/Webhook_Delivery.thy ===== *)
theory Webhook_Delivery
  imports Webhook_Requests
begin

text \<open>
  The life of an event: it is stored with a job of dispatch (\<^verbatim>\<open>src/usecases/webhooks/events_usecase.go\<close>), the dispatch creates
  a delivery and a job for each webhook (\<^verbatim>\<open>src/usecases/worker_jobs/webhook_dispatch_job.go\<close>), a delivery is sent until it
  succeeds or has failed too often (\<open>webhook_delivery_job.go\<close>), and old events are deleted (\<open>webhook_cleanup_job.go\<close>). A job
  that ends with an error stays in its queue.
\<close>

section \<open>Events\<close>

definition EnqueueWebhookDispatch :: "webhook_env \<Rightarrow> uuid \<Rightarrow> webhook_db \<Rightarrow> go_error + webhook_db" where
  "EnqueueWebhookDispatch R i db =
     check (DispatchTaskFails R i) (Inr (db\<lparr>wh_dispatch_jobs := wh_dispatch_jobs db @ [i]\<rparr>))"

definition EnqueueWebhookDelivery :: "webhook_env \<Rightarrow> uuid \<Rightarrow> webhook_db \<Rightarrow> go_error + webhook_db" where
  "EnqueueWebhookDelivery R i db =
     check (DeliveryTaskFails R i) (Inr (db\<lparr>wh_delivery_jobs := wh_delivery_jobs db @ [(i, None)]\<rparr>))"

definition EnqueueWebhookDeliveryAt :: "webhook_env \<Rightarrow> uuid \<Rightarrow> int \<Rightarrow> webhook_db \<Rightarrow> go_error + webhook_db" where
  "EnqueueWebhookDeliveryAt R i t db =
     check (DeliveryTaskFails R i) (Inr (db\<lparr>wh_delivery_jobs := wh_delivery_jobs db @ [(i, Some t)]\<rparr>))"

text \<open>The data of an event is its serialized content, as the table gives it back.\<close>

definition CreateWebhookEvent :: "webhook_env \<Rightarrow> uuid \<Rightarrow> int \<Rightarrow> uuid \<Rightarrow> string \<Rightarrow> string \<Rightarrow> webhook_db
    \<Rightarrow> go_error + webhook_db" where
  "CreateWebhookEvent R newId now orgId eventType content tx =
     (if \<not> HasLicense R then Inr tx
      else check (SendWebhookEvent (WhCreds R) orgId) (
        attempt (wrapped (AdaptEventData R content) ''error adapting webhook event data'') (\<lambda>(apiVersion, eventData).
        wrapped (EnqueueWebhookDispatch R newId (CreateWebhookEventV2 \<lparr>OrganizationId = orgId, WE_Id = newId, WE_EventType = eventType,
          WE_ApiVersion = apiVersion, WE_EventData = eventData, WE_CreatedAt = now\<rparr> tx)) ''error enqueueing webhook dispatch job'')))"

section \<open>Dispatch\<close>

definition new_delivery :: "uuid \<Rightarrow> WebhookEventV2 \<Rightarrow> NewWebhook \<Rightarrow> WebhookDelivery" where
  "new_delivery i e w = \<lparr>WD_Id = i, WD_WebhookEventId = WE_Id e, WD_WebhookId = WH_Id w, WD_Status = WebhookDeliveryStatusPending,
     WD_Attempts = 0, WD_NextRetryAt = None, WD_LastError = None, WD_LastResponseStatus = None\<rparr>"

fun create_deliveries :: "webhook_env \<Rightarrow> (nat \<Rightarrow> uuid) \<Rightarrow> nat \<Rightarrow> WebhookEventV2 \<Rightarrow> NewWebhook list \<Rightarrow> webhook_db
    \<Rightarrow> go_error + webhook_db" where
  "create_deliveries R newId n e [] tx = Inr tx"
| "create_deliveries R newId n e (w # ws) tx =
     (if WebhookDeliveryExists (WE_Id e) (WH_Id w) tx then create_deliveries R newId n e ws tx
      else attempt (CreateWebhookDelivery (new_delivery (newId n) e w) tx) (\<lambda>tx1.
           attempt (EnqueueWebhookDelivery R (newId n) tx1) (create_deliveries R newId (Suc n) e ws)))"

definition dispatch_work :: "webhook_env \<Rightarrow> (nat \<Rightarrow> uuid) \<Rightarrow> uuid \<Rightarrow> webhook_db \<Rightarrow> (go_error + unit) \<times> webhook_db" where
  "dispatch_work R newId i db = (case GetWebhookEventV2 i db of
     Inl err \<Rightarrow> if errors_is err NotFoundError then (Inr (), db) else (Inl (ErrWrap err ''failed to get webhook event''), db)
   | Inr e \<Rightarrow> (let ws = ListWebhooksByEventType (OrganizationId e) (WE_EventType e) db in
       if ws = [] then (Inr (), DeleteWebhookEventV2 (WE_Id e) db)
       else Transaction (\<lambda>tx. wrapped (attempt (create_deliveries R newId 0 e ws tx) (\<lambda>tx1. Inr ((), tx1)))
         ''failed to create deliveries'') db))"

section \<open>The request\<close>

text \<open>A signature for each secret, numbered from one.\<close>

definition Sign :: "webhook_env \<Rightarrow> string \<Rightarrow> NewWebhookSecret list \<Rightarrow> int \<Rightarrow> string" where
  "Sign R payload secrets timestamp =
     (if secrets = [] then ''t='' @ FormatInt R timestamp @ '',v1=''
      else (let signedPayload = FormatInt R timestamp @ '','' @ payload;
          sigs = map (\<lambda>(i, s). ''v'' @ FormatInt R (int i + 1) @ ''='' @ ComputeHMAC R (WS_Value s) signedPayload)
            (enumerate 0 secrets)
        in ''t='' @ FormatInt R timestamp @ '','' @ strings_Join sigs '',''))"

definition userAgent :: "webhook_env \<Rightarrow> string" where
  "userAgent R = (if MarbleVersion R = [] then ''Marble'' else ''Marble/'' @ MarbleVersion R)"

definition second :: int where "second = 1000000000"
definition MaxWebhookTimeout :: int where "MaxWebhookTimeout = 30 * second"
definition DefaultWebhookTimeout :: int where "DefaultWebhookTimeout = 30 * second"

definition webhook_timeout :: "NewWebhook \<Rightarrow> int" where
  "webhook_timeout w =
     (let configuredTimeout = wrap64 (WH_HttpTimeoutSeconds w * second)
      in if WH_HttpTimeoutSeconds w > 0 \<and> configuredTimeout \<le> MaxWebhookTimeout then configuredTimeout else DefaultWebhookTimeout)"

definition webhook_request_of :: "webhook_env \<Rightarrow> int \<Rightarrow> NewWebhook \<Rightarrow> NewWebhookSecret list \<Rightarrow> WebhookEventV2 \<Rightarrow> WebhookDelivery
    \<Rightarrow> webhook_request" where
  "webhook_request_of R now w secrets e d =
     (let signature = Sign R (WE_EventData e) secrets (now div second)
      in \<lparr>RQ_Url = WH_Url w, RQ_Body = WE_EventData e, RQ_Timeout = webhook_timeout w,
          RQ_Headers = [(''Content-Type'', ''application/json''), (''X-Convoy-Signature'', signature),
            (''Webhooks-Signature'', signature), (''Webhook-Signature'', signature), (''Marble-Api-Version'', WE_ApiVersion e),
            (''Webhook-Idempotency-Key'', UuidText R (WD_Id d)), (''Webhook-Event-Id'', UuidText R (WE_Id e)),
            (''Webhook-Event-Type'', WE_EventType e), (''User-Agent'', userAgent R)]\<rparr>)"

text \<open>The request that was sent, if any, and the result.\<close>

definition SendWebhook :: "webhook_env \<Rightarrow> int \<Rightarrow> NewWebhook \<Rightarrow> NewWebhookSecret list \<Rightarrow> WebhookEventV2 \<Rightarrow> WebhookDelivery
    \<Rightarrow> webhook_request list \<times> WebhookSendResult" where
  "SendWebhook R now w secrets e d = (case NewRequestError R (WH_Url w) of
     Some err \<Rightarrow> ([], \<lparr>SR_StatusCode = 0, SR_Error = Some err\<rparr>)
   | None \<Rightarrow> (let rq = webhook_request_of R now w secrets e d in ([rq], DoRequest R rq)))"

section \<open>Delivery\<close>

definition DefaultMaxAttempts :: int where "DefaultMaxAttempts = 12"

definition DefaultRetryDelays :: "int list" where
  "DefaultRetryDelays = [30 * second, 2 * 60 * second, 10 * 60 * second, 3600 * second, 4 * 3600 * second, 12 * 3600 * second]"

definition CalculateBackoff :: "int \<Rightarrow> int" where
  "CalculateBackoff n =
     (if n < 1 then 0
      else (let idx = n - 1 in
        if idx \<ge> int (length DefaultRetryDelays) then DefaultRetryDelays ! (length DefaultRetryDelays - 1)
        else DefaultRetryDelays ! nat idx))"

definition op_message :: "send_error \<Rightarrow> string option" where
  "op_message err = (case SE_OpError err of
     None \<Rightarrow> None
   | Some s \<Rightarrow>
      if strings_Contains s ''connection refused'' then Some ''Connection refused: endpoint is not accepting connections''
      else if strings_Contains s ''no route to host'' then Some ''No route to host: endpoint is unreachable''
      else if strings_Contains s ''network is unreachable'' then Some ''Network unreachable''
      else None)"

definition formatError :: "webhook_env \<Rightarrow> WebhookSendResult \<Rightarrow> string" where
  "formatError R r = (case SR_Error r of
     None \<Rightarrow> ''HTTP '' @ FormatInt R (SR_StatusCode r)
   | Some err \<Rightarrow>
      if SE_DeadlineExceeded err then ''Request timed out''
      else if SE_Canceled err then ''Request was cancelled''
      else if SE_Timeout err then ''Connection timed out''
      else if SE_DNS err then ''DNS lookup failed: could not resolve hostname''
      else (case op_message err of
        Some s \<Rightarrow> s
      | None \<Rightarrow>
          if SE_CertificateInvalid err then ''TLS certificate error: certificate is invalid''
          else if SE_UnknownAuthority err then ''TLS certificate error: unknown certificate authority''
          else if SE_Hostname err then ''TLS certificate error: hostname mismatch''
          else if strings_Contains (SE_Message err) ''certificate'' \<or> strings_Contains (SE_Message err) ''x509'' then ''TLS certificate error''
          else if SE_EOF err then ''Connection closed unexpectedly by the server''
          else ''Request failed: '' @ (if length (SE_Message err) > 100 then take 100 (SE_Message err) @ ''...'' else SE_Message err)))"

text \<open>What the result of a request does to the delivery.\<close>

definition status_code :: "WebhookSendResult \<Rightarrow> int option" where
  "status_code r = (if SR_StatusCode r > 0 then Some (SR_StatusCode r) else None)"

definition record_result :: "webhook_env \<Rightarrow> int \<Rightarrow> WebhookDelivery \<Rightarrow> WebhookSendResult \<Rightarrow> webhook_db \<Rightarrow> (go_error + unit) \<times> webhook_db" where
  "record_result R now d r db =
     (let newAttempts = WD_Attempts d + 1;
          errMsg = formatError R r;
          statusCode = status_code r;
          nextRetryAt = now + CalculateBackoff newAttempts
      in if IsSuccess r then (Inr (), UpdateWebhookDeliverySuccess (WD_Id d) (SR_StatusCode r) db)
         else if newAttempts \<ge> DefaultMaxAttempts then (Inr (), UpdateWebhookDeliveryFailed (WD_Id d) errMsg statusCode db)
         else Transaction (\<lambda>tx. wrapped (attempt (EnqueueWebhookDeliveryAt R (WD_Id d) nextRetryAt
           (UpdateWebhookDeliveryAttempt (WD_Id d) errMsg statusCode newAttempts nextRetryAt tx)) (\<lambda>tx1. Inr ((), tx1)))
           ''failed to enqueue retry job'') db)"

definition delivery_work :: "webhook_env \<Rightarrow> int \<Rightarrow> uuid \<Rightarrow> webhook_db \<Rightarrow> (go_error + unit) \<times> webhook_db" where
  "delivery_work R now i db = (case GetWebhookDelivery i db of
     Inl err \<Rightarrow> (Inl (ErrWrap err ''failed to get delivery''), db)
   | Inr d \<Rightarrow>
      if WD_Status d \<noteq> WebhookDeliveryStatusPending then (Inr (), db)
      else (case GetWebhook (WD_WebhookId d) db of
         Inl err \<Rightarrow> (Inl (ErrWrap err ''failed to get webhook for delivery''), db)
       | Inr w \<Rightarrow> (case GetWebhookEventV2 (WD_WebhookEventId d) db of
           Inl err \<Rightarrow> (Inl (ErrWrap err ''failed to get webhook event for delivery''), db)
         | Inr e \<Rightarrow>
            (case SendWebhook R now w (ListActiveWebhookSecrets now (WH_Id w) db) e d of
               (rqs, r) \<Rightarrow> record_result R now d r (db\<lparr>wh_requests := wh_requests db @ map (Pair (WD_Id d)) rqs\<rparr>)))))"

section \<open>Cleanup\<close>

text \<open>A full batch deletes something, so the loop ends.\<close>

definition WEBHOOK_RETENTION_PERIOD :: int where "WEBHOOK_RETENTION_PERIOD = 30 * 24 * 3600 * second"
definition WEBHOOK_CLEANUP_BATCH :: nat where "WEBHOOK_CLEANUP_BATCH = 1000"

function cleanup_loop :: "int \<Rightarrow> webhook_db \<Rightarrow> webhook_db" where
  "cleanup_loop cutoff db =
     (let (deleted, db1) = DeleteOldWebhookEventsV2Batch cutoff WEBHOOK_CLEANUP_BATCH db
      in if deleted < WEBHOOK_CLEANUP_BATCH then db1 else cleanup_loop cutoff db1)"
  by pat_completeness auto

lemma delete_old_batch_shrinks:
  assumes "(deleted, db1) = DeleteOldWebhookEventsV2Batch cutoff n db" "\<not> deleted < n" "n > 0"
  shows "length (wh_events db1) < length (wh_events db)"
proof -
  define old where "old = map WE_Id (filter (\<lambda>e. WE_CreatedAt e < cutoff) (wh_events db))"
  have deleted: "deleted = length (take n old)" and db1: "db1 = delete_events (take n old) db"
    using assms(1) by (simp_all add: DeleteOldWebhookEventsV2Batch_def Let_def old_def)
  from deleted assms(2,3) have "take n old \<noteq> []" by auto
  then obtain i where i: "i \<in> set (take n old)" by (meson last_in_set)
  then have "i \<in> set old" by (rule in_set_takeD)
  then obtain e where "e \<in> set (wh_events db)" "WE_Id e = i" by (auto simp: old_def)
  then show ?thesis
    using i length_filter_less [of e "wh_events db" "\<lambda>e. \<not> List.member (take n old) (WE_Id e)"]
    by (simp add: db1 delete_events_def)
qed

termination cleanup_loop
proof (relation "measure (\<lambda>(_, db). length (wh_events db))")
  fix cutoff db x deleted db1
  assume "x = DeleteOldWebhookEventsV2Batch cutoff WEBHOOK_CLEANUP_BATCH db" "(deleted, db1) = x"
    "\<not> deleted < WEBHOOK_CLEANUP_BATCH"
  then have "length (wh_events db1) < length (wh_events db)"
    by (intro delete_old_batch_shrinks [of deleted db1 cutoff WEBHOOK_CLEANUP_BATCH db]) (simp_all add: WEBHOOK_CLEANUP_BATCH_def)
  then show "((cutoff, db1), cutoff, db) \<in> measure (\<lambda>(_, db). length (wh_events db))" by simp
qed simp

declare cleanup_loop.simps [simp del]

definition cleanup_work :: "int \<Rightarrow> webhook_db \<Rightarrow> webhook_db" where
  "cleanup_work now db = cleanup_loop (now - WEBHOOK_RETENTION_PERIOD) db"

end
