(* ===== verification/Webhook_Laws.thy ===== *)
theory Webhook_Laws
  imports Webhook_Delivery
begin

text \<open>
  The laws of the webhooks: what each request and each job does to the rows, the states that they reach, and the
  invariants of these states.
\<close>

section \<open>Consistent tables\<close>

abbreviation undecided :: "WebhookDelivery \<Rightarrow> bool" where
  "undecided d \<equiv> WD_Status d = WebhookDeliveryStatusPending"

definition delivery_key :: "WebhookDelivery \<Rightarrow> uuid \<times> uuid" where
  "delivery_key d = (WD_WebhookEventId d, WD_WebhookId d)"

definition has_job :: "webhook_db \<Rightarrow> uuid \<Rightarrow> bool" where
  "has_job db i \<longleftrightarrow> (\<exists>t. (i, t) \<in> set (wh_delivery_jobs db))"

definition endpoints_ok :: "webhook_db \<Rightarrow> bool" where
  "endpoints_ok db \<longleftrightarrow> distinct (map WH_Id (wh_webhooks db)) \<and> distinct (map WS_Id (wh_secrets db))
     \<and> (\<forall>w\<in>set (wh_webhooks db). \<exists>s\<in>set (wh_secrets db). permanent_secret (WH_Id w) s)"

definition delivery_ok :: "webhook_db \<Rightarrow> WebhookDelivery \<Rightarrow> bool" where
  "delivery_ok db d \<longleftrightarrow> 0 \<le> WD_Attempts d \<and> WD_Attempts d < DefaultMaxAttempts \<and> (undecided d \<longrightarrow> has_job db (WD_Id d))
     \<and> (\<exists>e\<in>set (wh_events db). \<exists>w\<in>set (wh_webhooks db). delivery_key d = (WE_Id e, WH_Id w) \<and> OrganizationId e = OrganizationId w)"

definition deliveries_ok :: "webhook_db \<Rightarrow> bool" where
  "deliveries_ok db \<longleftrightarrow> distinct (map WE_Id (wh_events db)) \<and> distinct (map WD_Id (wh_deliveries db))
     \<and> distinct (map delivery_key (wh_deliveries db)) \<and> (\<forall>d\<in>set (wh_deliveries db). delivery_ok db d)"

definition webhooks_ok :: "webhook_db \<Rightarrow> bool" where
  "webhooks_ok db \<longleftrightarrow> endpoints_ok db \<and> deliveries_ok db"

section \<open>Rows by identifier\<close>

lemma find_iff:
  assumes "distinct (map f xs)" "x \<in> set xs" "f x = i"
  shows "find (\<lambda>x. f x = i) xs = Some x"
  using assms by (induction xs) auto

lemma find_Some_in: "find P xs = Some x \<Longrightarrow> x \<in> set xs \<and> P x"
  by (auto simp: find_Some_iff)

lemma rows:
  "GetWebhook i db = Inr w \<Longrightarrow> w \<in> set (wh_webhooks db) \<and> live i w"
  "GetWebhookEventV2 j db = Inr e \<Longrightarrow> e \<in> set (wh_events db) \<and> WE_Id e = j"
  "GetWebhookDelivery k db = Inr d \<Longrightarrow> d \<in> set (wh_deliveries db) \<and> WD_Id d = k"
  "GetWebhookSecret l db = Inr s \<Longrightarrow> s \<in> set (wh_secrets db) \<and> WS_Id s = l"
  by (auto simp: GetWebhook_def GetWebhookEventV2_def GetWebhookDelivery_def GetWebhookSecret_def
      split: option.splits dest: find_Some_in)

lemma parsed_webhook_row: "parsed_webhook R i db = Inr w \<Longrightarrow> w \<in> set (wh_webhooks db) \<and> live (WH_Id w) w"
  by (auto simp: parsed_webhook_def split: option.splits sum.splits dest: rows)

section \<open>Endpoints and secrets\<close>

lemma endpoints_ok_cong:
  "wh_webhooks db' = wh_webhooks db \<Longrightarrow> wh_secrets db' = wh_secrets db \<Longrightarrow> endpoints_ok db' = endpoints_ok db"
  by (simp add: endpoints_ok_def)

text \<open>A change of webhooks that keeps their identifiers.\<close>

lemma endpoints_ok_map:
  assumes "endpoints_ok db" "wh_webhooks db' = map f (wh_webhooks db)" "\<And>w. WH_Id (f w) = WH_Id w" "wh_secrets db' = wh_secrets db"
  shows "endpoints_ok db'"
  using assms by (simp add: endpoints_ok_def comp_def)

text \<open>The other rows of deliveries are not affected, as long as webhooks keep their organization.\<close>

lemma deliveries_ok_webhooks:
  assumes ok: "deliveries_ok db"
    and same: "wh_events db' = wh_events db" "wh_deliveries db' = wh_deliveries db" "wh_delivery_jobs db' = wh_delivery_jobs db"
    and kept: "\<And>w. w \<in> set (wh_webhooks db) \<Longrightarrow> \<exists>w'\<in>set (wh_webhooks db'). WH_Id w' = WH_Id w \<and> OrganizationId w' = OrganizationId w"
  shows "deliveries_ok db'"
proof -
  have "delivery_ok db' d" if "delivery_ok db d" for d
    using that kept unfolding delivery_ok_def has_job_def same by (metis (full_types))
  then show ?thesis using ok by (simp add: deliveries_ok_def same)
qed

lemma mapped_webhooks_keep:
  assumes ok: "webhooks_ok db" and rows: "wh_webhooks db' = map f (wh_webhooks db)"
    and f: "\<And>w. WH_Id (f w) = WH_Id w \<and> OrganizationId (f w) = OrganizationId w"
    and same: "wh_secrets db' = wh_secrets db" "wh_events db' = wh_events db" "wh_deliveries db' = wh_deliveries db"
      "wh_delivery_jobs db' = wh_delivery_jobs db"
  shows "webhooks_ok db'"
proof -
  have "\<exists>w'\<in>set (wh_webhooks db'). WH_Id w' = WH_Id w \<and> OrganizationId w' = OrganizationId w" if "w \<in> set (wh_webhooks db)" for w
    using that f [of w] by (auto simp: rows)
  from deliveries_ok_webhooks [OF _ same(2-4) this] have "deliveries_ok db'" using ok unfolding webhooks_ok_def by blast
  moreover have "endpoints_ok db'" using ok endpoints_ok_map [OF _ rows _ same(1)] f by (simp add: webhooks_ok_def)
  ultimately show ?thesis by (simp add: webhooks_ok_def)
qed

lemma updated_webhook_simps [simp]:
  "WH_Id (updated_webhook u w) = WH_Id w" "OrganizationId (updated_webhook u w) = OrganizationId w"
  "WH_DeletedAt (updated_webhook u w) = WH_DeletedAt w"
  by (simp_all add: updated_webhook_def)

lemma updated_webhook_nothing:
  "UW_EventTypes u = None \<Longrightarrow> UW_Url u = None \<Longrightarrow> UW_HttpTimeout u = None \<Longrightarrow> UW_RateLimit u = None \<Longrightarrow> UW_RateLimitDuration u = None
    \<Longrightarrow> updated_webhook u w = w"
  by (simp add: updated_webhook_def given_def)

lemma db_UpdateWebhook_rows:
  "wh_webhooks (db_UpdateWebhook i u db) = map (\<lambda>w. if live i w then updated_webhook u w else w) (wh_webhooks db)"
  by (auto simp: db_UpdateWebhook_def updated_webhook_nothing intro!: map_idI [symmetric])

lemma db_UpdateWebhook_rest [simp]:
  "wh_secrets (db_UpdateWebhook i u db) = wh_secrets db" "wh_events (db_UpdateWebhook i u db) = wh_events db"
  "wh_deliveries (db_UpdateWebhook i u db) = wh_deliveries db" "wh_delivery_jobs (db_UpdateWebhook i u db) = wh_delivery_jobs db"
  "wh_requests (db_UpdateWebhook i u db) = wh_requests db"
  by (simp_all add: db_UpdateWebhook_def)

lemma update_keeps: "webhooks_ok db \<Longrightarrow> webhooks_ok (db_UpdateWebhook i u db)"
  by (rule mapped_webhooks_keep [OF _ db_UpdateWebhook_rows]) simp_all

lemma delete_keeps: "webhooks_ok db \<Longrightarrow> webhooks_ok (db_DeleteWebhook now i db)"
  by (rule mapped_webhooks_keep [of db _ "\<lambda>w. if live i w then w\<lparr>WH_DeletedAt := Some now\<rparr> else w"])
    (simp_all add: db_DeleteWebhook_def)

lemma register_keeps:
  assumes "webhooks_ok db" "i \<notin> WH_Id ` set (wh_webhooks db)" "j \<notin> WS_Id ` set (wh_secrets db)"
  shows "webhooks_ok (AddWebhookSecret (new_secret j now i v) (CreateWebhook (registered i now org a) db))"
  using assms by (auto simp: webhooks_ok_def endpoints_ok_def AddWebhookSecret_def CreateWebhook_def registered_def
      new_secret_def permanent_secret_def intro!: deliveries_ok_webhooks [of db])

lemma secret_rows_keep:
  assumes "webhooks_ok db" "distinct (map WS_Id ss)"
    and "\<And>w. w \<in> set (wh_webhooks db) \<Longrightarrow> \<exists>s\<in>set ss. permanent_secret (WH_Id w) s"
  shows "webhooks_ok (db\<lparr>wh_secrets := ss\<rparr>)"
  using assms by (auto simp: webhooks_ok_def endpoints_ok_def intro!: deliveries_ok_webhooks [of db])

lemma mapped_secrets_keep:
  fixes f :: "NewWebhookSecret \<Rightarrow> NewWebhookSecret"
  assumes ok: "webhooks_ok db" and f: "\<And>s. WS_Id (f s) = WS_Id s"
    and new: "distinct (map WS_Id (wh_secrets db) @ map WS_Id ss)"
    and has: "\<And>w. w \<in> set (wh_webhooks db) \<Longrightarrow> \<exists>s\<in>set (map f (wh_secrets db) @ ss). permanent_secret (WH_Id w) s"
  shows "webhooks_ok (db\<lparr>wh_secrets := map f (wh_secrets db) @ ss\<rparr>)"
proof (rule secret_rows_keep [OF ok _ has])
  have "map WS_Id (map f (wh_secrets db)) = map WS_Id (wh_secrets db)" by (simp add: f)
  then show "distinct (map WS_Id (map f (wh_secrets db) @ ss))" using new by (simp only: map_append)
qed

lemma add_secret_keeps:
  assumes ok: "webhooks_ok db" and new: "i \<notin> WS_Id ` set (wh_secrets db)"
  shows "webhooks_ok (AddWebhookSecret (new_secret i now k v) db)"
    "webhooks_ok (AddWebhookSecret (new_secret i now k v) (ExpireWebhookSecrets k t db))"
proof -
  have ids: "distinct (map WS_Id (wh_secrets db))"
    and has: "\<And>w. w \<in> set (wh_webhooks db) \<Longrightarrow> \<exists>s\<in>set (wh_secrets db). permanent_secret (WH_Id w) s"
    using ok by (auto simp: webhooks_ok_def endpoints_ok_def)
  show "webhooks_ok (AddWebhookSecret (new_secret i now k v) db)"
    unfolding AddWebhookSecret_def by (rule secret_rows_keep [OF ok]) (use ids new has in \<open>auto simp: new_secret_def\<close>)
  define f :: "NewWebhookSecret \<Rightarrow> NewWebhookSecret" where "f = (\<lambda>s. if permanent_secret k s then s\<lparr>WS_ExpiresAt := Some t\<rparr> else s)"
  have "\<exists>s\<in>set (map f (wh_secrets db) @ [new_secret i now k v]). permanent_secret (WH_Id w) s"
    if w: "w \<in> set (wh_webhooks db)" for w
  proof (cases "WH_Id w = k")
    case True
    then show ?thesis by (auto simp: new_secret_def permanent_secret_def)
  next
    case False
    from has [OF w] obtain s where "s \<in> set (wh_secrets db)" "permanent_secret (WH_Id w) s" by blast
    moreover from this False have "f s = s" by (simp add: f_def permanent_secret_def)
    ultimately show ?thesis by (metis Un_iff image_eqI list.set_map set_append)
  qed
  moreover have "WS_Id (f s) = WS_Id s" for s by (simp add: f_def)
  moreover have "distinct (map WS_Id (wh_secrets db) @ map WS_Id [new_secret i now k v])" using ids new by (simp add: new_secret_def)
  ultimately have "webhooks_ok (db\<lparr>wh_secrets := map f (wh_secrets db) @ [new_secret i now k v]\<rparr>)"
    using mapped_secrets_keep [OF ok, of f] by blast
  then show "webhooks_ok (AddWebhookSecret (new_secret i now k v) (ExpireWebhookSecrets k t db))"
    unfolding AddWebhookSecret_def ExpireWebhookSecrets_def f_def by simp
qed

text \<open>A secret is revoked only when another permanent one stays.\<close>

lemma other_permanent:
  assumes "distinct (map WS_Id ss)" "s \<in> set ss" "length (filter (permanent_secret k) ss) > 1"
  shows "\<exists>x\<in>set ss. permanent_secret k x \<and> WS_Id x \<noteq> WS_Id s"
proof (rule ccontr)
  assume "\<not> ?thesis"
  then have "set (filter (permanent_secret k) ss) \<subseteq> {x \<in> set ss. WS_Id x = WS_Id s}" by auto
  also have "\<dots> \<subseteq> {s}" using assms(1,2) by (auto simp: distinct_map inj_on_def)
  finally have "card (set (filter (permanent_secret k) ss)) \<le> 1" by (metis card.empty card_insert_disjoint card_mono empty_iff finite.intros One_nat_def)
  moreover have "distinct (filter (permanent_secret k) ss)" using assms(1) by (simp add: distinct_map)
  ultimately show False using assms(3) distinct_card by fastforce
qed

lemma revoke_keeps:
  assumes ok: "webhooks_ok db" and run: "RevokeWebhookSecret R now k i db = (Inr (), db')"
  shows "webhooks_ok db'"
proof -
  obtain s where s: "s \<in> set (wh_secrets db)" "WS_Id s = i" "WS_WebhookId s = k" "WS_RevokedAt s = None"
    and rest: "int (CountPermanentWebhookSecrets k db) - (if WS_ExpiresAt s = None then 1 else 0) \<ge> 1"
    and db': "db' = db_RevokeWebhookSecret now i db"
    using run by (auto simp: RevokeWebhookSecret_def check_Inr Let_def split: sum.splits if_splits dest!: rows)
  define f :: "NewWebhookSecret \<Rightarrow> NewWebhookSecret" where "f = (\<lambda>s. if WS_Id s = i \<and> WS_RevokedAt s = None then s\<lparr>WS_RevokedAt := Some now\<rparr> else s)"
  have ids: "distinct (map WS_Id (wh_secrets db))"
    and has: "\<And>w. w \<in> set (wh_webhooks db) \<Longrightarrow> \<exists>s\<in>set (wh_secrets db). permanent_secret (WH_Id w) s"
    using ok by (auto simp: webhooks_ok_def endpoints_ok_def)
  have "\<exists>x\<in>set (map f (wh_secrets db)). permanent_secret (WH_Id w) x" if w: "w \<in> set (wh_webhooks db)" for w
  proof -
    have "\<exists>x\<in>set (wh_secrets db). permanent_secret (WH_Id w) x \<and> WS_Id x \<noteq> i"
    proof (cases "WH_Id w = k \<and> WS_ExpiresAt s = None")
      case True
      with rest have "length (filter (permanent_secret k) (wh_secrets db)) > 1" by (simp add: CountPermanentWebhookSecrets_def)
      from other_permanent [OF ids s(1) this] True s(2) show ?thesis by simp
    next
      case False
      from has [OF w] obtain x where x: "x \<in> set (wh_secrets db)" "permanent_secret (WH_Id w) x" by blast
      have "WS_Id x \<noteq> i"
      proof
        assume "WS_Id x = i"
        then have "x = s" using ids x(1) s by (auto simp: distinct_map inj_on_def)
        with x(2) s(3) False show False by (simp add: permanent_secret_def)
      qed
      with x show ?thesis by blast
    qed
    then obtain x where "x \<in> set (wh_secrets db)" "permanent_secret (WH_Id w) x" "f x = x" by (auto simp: f_def)
    then show ?thesis by (metis image_eqI list.set_map)
  qed
  moreover have "WS_Id (f s) = WS_Id s" for s by (simp add: f_def)
  ultimately have "webhooks_ok (db\<lparr>wh_secrets := map f (wh_secrets db) @ []\<rparr>)"
    using mapped_secrets_keep [OF ok, of f "[]"] ids by simp
  then show ?thesis unfolding db' db_RevokeWebhookSecret_def f_def by simp
qed

section \<open>Deliveries\<close>

lemma delivery_ok_mono:
  assumes "delivery_ok db d" "set (wh_events db) \<subseteq> set (wh_events db')" "set (wh_webhooks db) \<subseteq> set (wh_webhooks db')"
    and "undecided d \<Longrightarrow> has_job db (WD_Id d) \<Longrightarrow> has_job db' (WD_Id d)"
  shows "delivery_ok db' d"
  using assms unfolding delivery_ok_def by (meson subsetD)

text \<open>A change of one delivery, when the jobs of the others stay.\<close>

lemma on_delivery_keeps:
  assumes ok: "deliveries_ok db"
    and f: "\<And>d. WD_Id (f d) = WD_Id d \<and> delivery_key (f d) = delivery_key d"
    and changed: "\<And>d. d \<in> set (wh_deliveries db) \<Longrightarrow> WD_Id d = i \<Longrightarrow>
        0 \<le> WD_Attempts (f d) \<and> WD_Attempts (f d) < DefaultMaxAttempts \<and> (undecided (f d) \<longrightarrow> (\<exists>t. (i, t) \<in> set js))"
    and jobs: "\<And>j t. j \<noteq> i \<Longrightarrow> (j, t) \<in> set (wh_delivery_jobs db) \<Longrightarrow> (j, t) \<in> set js"
  shows "deliveries_ok ((on_delivery i f db)\<lparr>wh_delivery_jobs := js\<rparr>)" (is "deliveries_ok ?db'")
proof -
  let ?g = "\<lambda>d. if WD_Id d = i then f d else d"
  have rows: "wh_deliveries ?db' = map ?g (wh_deliveries db)" "wh_events ?db' = wh_events db" "wh_webhooks ?db' = wh_webhooks db"
    by (simp_all add: on_delivery_def)
  have job: "has_job ?db' j = (\<exists>t. (j, t) \<in> set js)" for j by (simp add: has_job_def)
  have ids: "map WD_Id (map ?g ds) = map WD_Id ds" and keys: "map delivery_key (map ?g ds) = map delivery_key ds" for ds
    using f by auto
  have "delivery_ok ?db' (?g d)" if d: "d \<in> set (wh_deliveries db)" for d
  proof (cases "WD_Id d = i")
    case True
    from ok d have "delivery_ok db d" by (simp add: deliveries_ok_def)
    with changed [OF d True] f [of d] True show ?thesis unfolding delivery_ok_def rows job by simp
  next
    case False
    have "delivery_ok ?db' d"
    proof (rule delivery_ok_mono [of db])
      show "delivery_ok db d" using ok d by (simp add: deliveries_ok_def)
      show "has_job ?db' (WD_Id d)" if "has_job db (WD_Id d)" using that jobs [OF False] by (auto simp: has_job_def)
    qed (simp_all only: rows order_refl)
    with False show ?thesis by simp
  qed
  then have "\<forall>d\<in>set (wh_deliveries ?db'). delivery_ok ?db' d" unfolding rows set_map by blast
  moreover have "distinct (map WD_Id (wh_deliveries ?db'))" "distinct (map delivery_key (wh_deliveries ?db'))"
    using ok by (simp_all only: rows ids keys deliveries_ok_def)
  ultimately show ?thesis using ok unfolding deliveries_ok_def rows(2) by blast
qed

text \<open>A job that ends without an error leaves its queue.\<close>

definition job_done :: "uuid \<times> int option \<Rightarrow> (go_error + unit) \<times> webhook_db \<Rightarrow> webhook_db" where
  "job_done job r = (case fst r of Inl _ \<Rightarrow> snd r | Inr _ \<Rightarrow> (snd r)\<lparr>wh_delivery_jobs := remove1 job (wh_delivery_jobs (snd r))\<rparr>)"

lemma job_done_simps [simp]:
  "job_done job (Inl err, db) = db" "job_done job (Inr (), db) = db\<lparr>wh_delivery_jobs := remove1 job (wh_delivery_jobs db)\<rparr>"
  by (simp_all add: job_done_def)

lemma on_delivery_rows [simp]:
  "wh_deliveries (on_delivery i f db) = map (\<lambda>d. if WD_Id d = i then f d else d) (wh_deliveries db)"
  "wh_events (on_delivery i f db) = wh_events db" "wh_webhooks (on_delivery i f db) = wh_webhooks db"
  "wh_secrets (on_delivery i f db) = wh_secrets db" "wh_delivery_jobs (on_delivery i f db) = wh_delivery_jobs db"
  "wh_requests (on_delivery i f db) = wh_requests db" "wh_dispatch_jobs (on_delivery i f db) = wh_dispatch_jobs db"
  by (simp_all add: on_delivery_def)

lemma unique_delivery: "deliveries_ok db \<Longrightarrow> d \<in> set (wh_deliveries db) \<Longrightarrow> x \<in> set (wh_deliveries db) \<Longrightarrow> WD_Id x = WD_Id d \<Longrightarrow> x = d"
  by (auto simp: deliveries_ok_def distinct_map inj_on_def)

lemma record_result_cases:
  assumes "record_result R now d r db = (res, db')"
  obtains (success) "res = Inr ()" "IsSuccess r" "db' = UpdateWebhookDeliverySuccess (WD_Id d) (SR_StatusCode r) db"
  | (failed) "res = Inr ()" "\<not> IsSuccess r" "WD_Attempts d + 1 \<ge> DefaultMaxAttempts"
      "db' = UpdateWebhookDeliveryFailed (WD_Id d) (formatError R r) (status_code r) db"
  | (retry) "res = Inr ()" "\<not> IsSuccess r" "WD_Attempts d + 1 < DefaultMaxAttempts"
      "db' = (UpdateWebhookDeliveryAttempt (WD_Id d) (formatError R r) (status_code r) (WD_Attempts d + 1)
           (now + CalculateBackoff (WD_Attempts d + 1)) db)
         \<lparr>wh_delivery_jobs := wh_delivery_jobs db @ [(WD_Id d, Some (now + CalculateBackoff (WD_Attempts d + 1)))]\<rparr>"
  | (refused) err where "res = Inl err" "db' = db" "DeliveryTaskFails R (WD_Id d) \<noteq> None"
proof (cases "IsSuccess r")
  case True
  then show ?thesis using assms by (intro success) (simp_all add: record_result_def Let_def)
next
  case no: False
  show ?thesis
  proof (cases "WD_Attempts d + 1 \<ge> DefaultMaxAttempts")
    case True
    then show ?thesis using assms no by (intro failed) (simp_all add: record_result_def Let_def)
  next
    case False
    show ?thesis
    proof (cases "DeliveryTaskFails R (WD_Id d)")
      case None
      then show ?thesis using assms no False
        by (intro retry) (simp_all add: record_result_def Let_def EnqueueWebhookDeliveryAt_def UpdateWebhookDeliveryAttempt_def Transaction_def)
    next
      case (Some err)
      then show ?thesis using assms no False
        by (intro refused [of "ErrWrap err ''failed to enqueue retry job''"]) (auto simp: record_result_def Let_def EnqueueWebhookDeliveryAt_def Transaction_def)
    qed
  qed
qed

lemmas delivery_updates = UpdateWebhookDeliverySuccess_def UpdateWebhookDeliveryFailed_def UpdateWebhookDeliveryAttempt_def

lemma record_result_keeps:
  assumes ok: "deliveries_ok db" and d: "d \<in> set (wh_deliveries db)" and job: "(WD_Id d, t) \<in> set (wh_delivery_jobs db)"
    and run: "record_result R now d r db = res"
  shows "deliveries_ok (job_done (WD_Id d, t) res)"
proof -
  have range: "0 \<le> WD_Attempts x \<and> WD_Attempts x < DefaultMaxAttempts \<and> x = d" if "x \<in> set (wh_deliveries db)" "WD_Id x = WD_Id d" for x
    using ok that d unique_delivery [OF ok d that] by (auto simp: deliveries_ok_def delivery_ok_def)
  obtain v db' where res: "res = (v, db')" by (cases res)
  have others: "(j, u) \<in> set (remove1 (WD_Id d, t) js)" if "j \<noteq> WD_Id d" "(j, u) \<in> set js" for j u js using that by simp
  from run [unfolded res] show ?thesis
  proof (cases rule: record_result_cases)
    case success
    show ?thesis unfolding res success job_done_def delivery_updates fst_conv snd_conv sum.case
      by (rule on_delivery_keeps [OF ok]) (auto simp: delivery_key_def dest: range)
  next
    case failed
    show ?thesis unfolding res failed job_done_def delivery_updates fst_conv snd_conv sum.case
      by (rule on_delivery_keeps [OF ok]) (auto simp: delivery_key_def dest: range)
  next
    case retry
    have js: "remove1 (WD_Id d, t) (wh_delivery_jobs db @ [(WD_Id d, u)]) = remove1 (WD_Id d, t) (wh_delivery_jobs db) @ [(WD_Id d, u)]" for u
      using job by (simp add: remove1_append)
    show ?thesis
      apply (simp add: res retry job_done_def delivery_updates js)
      apply (rule on_delivery_keeps [OF ok])
        apply (use range [OF d] retry(3) in \<open>auto simp: delivery_key_def\<close>)
      done
  next
    case (refused err)
    then show ?thesis using ok by (simp add: res job_done_def)
  qed
qed

lemma delivery_work_keeps:
  assumes ok: "deliveries_ok db" and job: "(i, t) \<in> set (wh_delivery_jobs db)"
  shows "deliveries_ok (job_done (i, t) (delivery_work R now i db))"
proof -
  have same: "deliveries_ok (db\<lparr>wh_requests := rs\<rparr>) = deliveries_ok db" for rs db
    by (simp add: deliveries_ok_def delivery_ok_def has_job_def)
  show ?thesis
  proof (cases "GetWebhookDelivery i db")
    case (Inl err)
    then show ?thesis using ok by (simp add: delivery_work_def job_done_def)
  next
    case (Inr d)
    then have d: "d \<in> set (wh_deliveries db)" "WD_Id d = i" by (auto dest: rows)
    show ?thesis
    proof (cases "undecided d")
      case False
      have alone: "x = d" if "x \<in> set (wh_deliveries db)" "WD_Id x = i" for x using unique_delivery [OF ok d(1) that(1)] that(2) d(2) by simp
      have "deliveries_ok ((on_delivery i id db)\<lparr>wh_delivery_jobs := remove1 (i, t) (wh_delivery_jobs db)\<rparr>)"
      proof (rule on_delivery_keeps [OF ok])
        fix x assume x: "x \<in> set (wh_deliveries db)" "WD_Id x = i"
        from alone [OF this] False have "\<not> undecided x" by simp
        with ok x(1) show "0 \<le> WD_Attempts (id x) \<and> WD_Attempts (id x) < DefaultMaxAttempts
            \<and> (undecided (id x) \<longrightarrow> (\<exists>t'. (i, t') \<in> set (remove1 (i, t) (wh_delivery_jobs db))))"
          by (simp add: deliveries_ok_def delivery_ok_def)
      qed auto
      moreover have "on_delivery i id db = db" by (simp add: on_delivery_def id_def)
      ultimately show ?thesis using Inr False by (simp add: delivery_work_def job_done_def)
    next
      case True
      have "deliveries_ok (job_done (i, t) (record_result R now d r (db\<lparr>wh_requests := rs\<rparr>)))" for r rs
        using record_result_keeps [of "db\<lparr>wh_requests := rs\<rparr>" d t R now r] ok d job by (simp add: same)
      then show ?thesis using ok Inr True
        by (simp add: delivery_work_def split: sum.splits prod.splits)
    qed
  qed
qed

section \<open>Dispatch\<close>

definition missing :: "WebhookEventV2 \<Rightarrow> NewWebhook list \<Rightarrow> webhook_db \<Rightarrow> NewWebhook list" where
  "missing e ws db = filter (\<lambda>w. \<not> WebhookDeliveryExists (WE_Id e) (WH_Id w) db) ws"

definition dispatched :: "(nat \<Rightarrow> uuid) \<Rightarrow> nat \<Rightarrow> WebhookEventV2 \<Rightarrow> NewWebhook list \<Rightarrow> webhook_db \<Rightarrow> webhook_db" where
  "dispatched newId n e ws db = db\<lparr>
     wh_deliveries := wh_deliveries db @ map (\<lambda>(k, w). new_delivery (newId k) e w) (enumerate n ws),
     wh_delivery_jobs := wh_delivery_jobs db @ map (\<lambda>(k, _). (newId k, None)) (enumerate n ws)\<rparr>"

lemma create_deliveries_rows:
  assumes "create_deliveries R newId n e ws tx = Inr tx'" "distinct (map WH_Id ws)"
  shows "tx' = dispatched newId n e (missing e ws tx) tx"
  using assms
proof (induction ws arbitrary: n tx)
  case Nil
  then show ?case by (simp add: dispatched_def missing_def)
next
  case (Cons w ws)
  show ?case
  proof (cases "WebhookDeliveryExists (WE_Id e) (WH_Id w) tx")
    case True
    with Cons show ?thesis by (simp add: missing_def)
  next
    case False
    let ?tx1 = "dispatched newId n e [w] tx"
    have run: "create_deliveries R newId (Suc n) e ws ?tx1 = Inr tx'"
      using Cons.prems(1) False
      by (auto simp: attempt_Inr CreateWebhookDelivery_def EnqueueWebhookDelivery_def check_Inr dispatched_def new_delivery_def split: if_splits)
    have "missing e ws ?tx1 = missing e ws tx"
      using Cons.prems(2) unfolding missing_def
      by (intro filter_cong) (auto simp: WebhookDeliveryExists_def dispatched_def new_delivery_def)
    with Cons.IH [OF run] Cons.prems(2) False show ?thesis by (simp add: dispatched_def missing_def)
  qed
qed

definition new_ids :: "(nat \<Rightarrow> uuid) \<Rightarrow> webhook_db \<Rightarrow> bool" where
  "new_ids newId db \<longleftrightarrow> inj newId \<and> (\<forall>n. newId n \<notin> WD_Id ` set (wh_deliveries db) \<and> newId n \<notin> fst ` set (wh_requests db))"

lemma new_delivery_columns:
  "map WD_Id (map (\<lambda>(k, w). new_delivery (newId k) e w) ps) = map newId (map fst ps)"
  "map delivery_key (map (\<lambda>(k, w). new_delivery (newId k) e w) ps) = map (\<lambda>w. (WE_Id e, WH_Id w)) (map snd ps)"
  by (induction ps) (auto simp: new_delivery_def delivery_key_def)

lemma dispatched_keeps:
  assumes ok: "deliveries_ok db" and new: "new_ids newId db" and e: "e \<in> set (wh_events db)"
    and ws: "distinct (map WH_Id ws)" "\<And>w. w \<in> set ws \<Longrightarrow> w \<in> set (wh_webhooks db) \<and> OrganizationId w = OrganizationId e"
    and absent: "\<And>w. w \<in> set ws \<Longrightarrow> \<not> WebhookDeliveryExists (WE_Id e) (WH_Id w) db"
  shows "deliveries_ok (dispatched newId 0 e ws db)"
proof -
  let ?db' = "dispatched newId 0 e ws db"
  let ?ds = "map (\<lambda>(k, w). new_delivery (newId k) e w) (enumerate 0 ws)"
  have rows: "wh_deliveries ?db' = wh_deliveries db @ ?ds" "wh_events ?db' = wh_events db" "wh_webhooks ?db' = wh_webhooks db"
    by (simp_all add: dispatched_def)
  have ids: "map WD_Id ?ds = map newId (map fst (enumerate 0 ws))"
    and keys: "map delivery_key ?ds = map (\<lambda>w. (WE_Id e, WH_Id w)) (map snd (enumerate 0 ws))"
    by (rule new_delivery_columns)+
  have job: "has_job ?db' j" if "has_job db j \<or> j \<in> set (map WD_Id ?ds)" for j
    using that by (auto simp: has_job_def dispatched_def new_delivery_def image_iff) (metis case_prod_conv)
  have "distinct (map WD_Id (wh_deliveries ?db'))"
  proof -
    have "distinct (map newId ks)" if "distinct ks" for ks
      using new that by (auto simp: new_ids_def distinct_map intro: inj_on_subset)
    moreover have "set (map WD_Id (wh_deliveries db)) \<inter> set (map newId ks) = {}" for ks using new by (auto simp: new_ids_def) (metis image_eqI)
    ultimately show ?thesis using ok unfolding rows map_append ids distinct_append deliveries_ok_def
      by (metis distinct_enumerate distinct_map enumerate_map_upt map_fst_enumerate distinct_upt)
  qed
  moreover have "distinct (map delivery_key (wh_deliveries ?db'))"
    using ok ws(1) absent unfolding rows map_append keys
    by (auto simp: deliveries_ok_def distinct_map inj_on_def WebhookDeliveryExists_def list_ex_iff delivery_key_def)
  moreover have "delivery_ok ?db' d" if "d \<in> set (wh_deliveries ?db')" for d
  proof -
    from that consider "d \<in> set (wh_deliveries db)" | "d \<in> set ?ds" unfolding rows set_append by blast
    then show ?thesis
    proof cases
      case 1
      show ?thesis by (rule delivery_ok_mono [of db]) (use ok 1 in \<open>simp_all add: deliveries_ok_def rows job\<close>)
    next
      case 2
      then obtain k w where kw: "(k, w) \<in> set (enumerate 0 ws)" and d: "d = new_delivery (newId k) e w" by auto
      from kw have w: "w \<in> set ws" by (metis enumerate_eq_zip set_zip_rightD)
      from 2 have "has_job ?db' (WD_Id d)" by (intro job) force
      with ws(2) [OF w] e show ?thesis unfolding delivery_ok_def rows
        by (auto simp: d new_delivery_def delivery_key_def DefaultMaxAttempts_def intro!: bexI [of _ e] bexI [of _ w])
    qed
  qed
  ultimately show ?thesis using ok by (simp add: deliveries_ok_def rows)
qed

lemma dispatch_work_cases:
  assumes "dispatch_work R newId i db = (res, db')" "distinct (map WH_Id (wh_webhooks db))"
  obtains (absent) "db' = db" "GetWebhookEventV2 i db = Inl NotFoundError"
  | (unheard) e where "e \<in> set (wh_events db)" "WE_Id e = i" "ListWebhooksByEventType (OrganizationId e) (WE_EventType e) db = []"
      "res = Inr ()" "db' = delete_events [i] db"
  | (refused) err where "res = Inl err" "db' = db"
  | (dispatched) e where "e \<in> set (wh_events db)" "WE_Id e = i" "res = Inr ()"
      "db' = dispatched newId 0 e (missing e (ListWebhooksByEventType (OrganizationId e) (WE_EventType e) db) db) db"
proof (cases "GetWebhookEventV2 i db")
  case (Inl err)
  then have "err = NotFoundError" by (simp add: GetWebhookEventV2_def split: option.splits)
  then show ?thesis using Inl assms(1) by (intro absent) (simp_all add: dispatch_work_def)
next
  case (Inr e)
  then have e: "e \<in> set (wh_events db)" "WE_Id e = i" by (auto dest: rows)
  let ?ws = "ListWebhooksByEventType (OrganizationId e) (WE_EventType e) db"
  show ?thesis
  proof (cases "?ws = []")
    case True
    with Inr e assms(1) show ?thesis by (intro unheard [of e]) (simp_all add: dispatch_work_def DeleteWebhookEventV2_def)
  next
    case False
    have ws: "distinct (map WH_Id ?ws)" using assms(2) by (simp add: ListWebhooksByEventType_def distinct_map_filter)
    show ?thesis
    proof (cases "create_deliveries R newId 0 e ?ws db")
      case (Inl err)
      with Inr False assms(1) show ?thesis
        by (intro refused [of "ErrWrap err ''failed to create deliveries''"]) (simp_all add: dispatch_work_def Transaction_def)
    next
      case (Inr tx)
      with \<open>GetWebhookEventV2 i db = Inr e\<close> False assms(1) create_deliveries_rows [OF Inr ws] show ?thesis
        by (intro dispatched [of e] e) (simp_all add: dispatch_work_def Transaction_def)
    qed
  qed
qed

lemma heard_webhooks: "w \<in> set (ListWebhooksByEventType org ty db) \<longleftrightarrow> w \<in> set (wh_webhooks db) \<and> OrganizationId w = org \<and> WH_Enabled w
    \<and> WH_DeletedAt w = None \<and> (WH_EventTypes w = [] \<or> ty \<in> set (WH_EventTypes w))"
  by (auto simp: ListWebhooksByEventType_def)

section \<open>Cleanup\<close>

lemma delete_events_keeps: "deliveries_ok db \<Longrightarrow> deliveries_ok (delete_events ids db)"
proof -
  assume ok: "deliveries_ok db"
  have "delivery_ok (delete_events ids db) d" if "d \<in> set (wh_deliveries db)" "WD_WebhookEventId d \<notin> set ids" for d
  proof -
    from ok that obtain e w where "e \<in> set (wh_events db)" "w \<in> set (wh_webhooks db)" "delivery_key d = (WE_Id e, WH_Id w)"
      "OrganizationId e = OrganizationId w" "0 \<le> WD_Attempts d" "WD_Attempts d < DefaultMaxAttempts" "undecided d \<longrightarrow> has_job db (WD_Id d)"
      by (auto simp: deliveries_ok_def delivery_ok_def)
    moreover from this that have "WE_Id e \<notin> set ids" by (simp add: delivery_key_def)
    ultimately show ?thesis unfolding delivery_ok_def delete_events_def has_job_def by force
  qed
  then show ?thesis using ok by (simp add: deliveries_ok_def delete_events_def distinct_map_filter)
qed

lemma delete_events_rows [simp]:
  "wh_webhooks (delete_events ids db) = wh_webhooks db" "wh_secrets (delete_events ids db) = wh_secrets db"
  "wh_requests (delete_events ids db) = wh_requests db" "wh_delivery_jobs (delete_events ids db) = wh_delivery_jobs db"
  by (simp_all add: delete_events_def)

lemma delete_events_twice: "delete_events js (delete_events is db) = delete_events (is @ js) db"
  by (auto simp: delete_events_def intro!: filter_cong)

definition old_events :: "int \<Rightarrow> webhook_db \<Rightarrow> uuid list" where
  "old_events cutoff db = map WE_Id (filter (\<lambda>e. WE_CreatedAt e < cutoff) (wh_events db))"

lemma old_events_after:
  assumes "distinct (map WE_Id (wh_events db))"
  shows "old_events cutoff (delete_events (take n (old_events cutoff db)) db) = drop n (old_events cutoff db)"
proof -
  let ?xs = "filter (\<lambda>e. WE_CreatedAt e < cutoff) (wh_events db)"
  have d: "distinct (map WE_Id ?xs)" using assms by (rule distinct_map_filter)
  have "filter (\<lambda>e. WE_Id e \<notin> set (take n (map WE_Id ?xs))) ?xs = drop n ?xs"
  proof -
    have "filter (\<lambda>e. WE_Id e \<notin> set (take n (map WE_Id xs))) xs = drop n xs" if "distinct (map WE_Id xs)" for xs :: "WebhookEventV2 list"
      using that
    proof (induction xs arbitrary: n)
      case (Cons x xs)
      show ?case
      proof (cases n)
        case 0
        then show ?thesis by simp
      next
        case (Suc m)
        have "filter (\<lambda>e. WE_Id e \<notin> set (take m (map WE_Id xs)) \<and> WE_Id e \<noteq> WE_Id x) xs = filter (\<lambda>e. WE_Id e \<notin> set (take m (map WE_Id xs))) xs"
          using Cons.prems by (intro filter_cong) (auto simp: image_iff)
        then show ?thesis using Suc Cons by (simp add: conj_commute)
      qed
    qed simp
    from this [OF d] show ?thesis .
  qed
  then show ?thesis by (simp add: old_events_def delete_events_def drop_map filter_filter conj_commute)
qed

lemma cleanup_loop_rows:
  "distinct (map WE_Id (wh_events db)) \<Longrightarrow> cleanup_loop cutoff db = delete_events (old_events cutoff db) db"
proof (induction cutoff db rule: cleanup_loop.induct)
  case (1 cutoff db)
  let ?ids = "take WEBHOOK_CLEANUP_BATCH (old_events cutoff db)"
  let ?db1 = "delete_events ?ids db"
  have batch: "DeleteOldWebhookEventsV2Batch cutoff WEBHOOK_CLEANUP_BATCH db = (length ?ids, ?db1)"
    by (simp add: DeleteOldWebhookEventsV2Batch_def Let_def old_events_def)
  show ?case
  proof (cases "length ?ids < WEBHOOK_CLEANUP_BATCH")
    case True
    then have "?ids = old_events cutoff db" by simp
    then show ?thesis using True by (subst cleanup_loop.simps) (simp add: batch)
  next
    case False
    have "distinct (map WE_Id (wh_events ?db1))" using "1.prems" by (simp add: delete_events_def distinct_map_filter)
    from "1.IH" [OF batch [symmetric] refl False this]
    have "cleanup_loop cutoff ?db1 = delete_events (old_events cutoff ?db1) ?db1" .
    also have "\<dots> = delete_events (old_events cutoff db) db"
      by (simp add: old_events_after [OF "1.prems"] delete_events_twice)
    finally show ?thesis using False by (subst cleanup_loop.simps) (simp add: batch)
  qed
qed

section \<open>Reachable states\<close>

text \<open>
  A step is a request, an event, or the run of a job that is in its queue and due, in an environment of those that \<open>P\<close>
  allows. New identifiers are fresh. A job of dispatch or delivery leaves its queue when it ends without an error.
\<close>

definition dispatch_done :: "uuid \<Rightarrow> (go_error + unit) \<times> webhook_db \<Rightarrow> webhook_db" where
  "dispatch_done i r = (case fst r of Inl _ \<Rightarrow> snd r | Inr _ \<Rightarrow> (snd r)\<lparr>wh_dispatch_jobs := remove1 i (wh_dispatch_jobs (snd r))\<rparr>)"

inductive webhook_step :: "(webhook_env \<Rightarrow> bool) \<Rightarrow> webhook_db \<Rightarrow> webhook_db \<Rightarrow> bool" for P where
  register: "P R \<Longrightarrow> RegisterWebhook R (i, j) now org a db = (res, db') \<Longrightarrow> i \<notin> WH_Id ` set (wh_webhooks db)
      \<Longrightarrow> j \<notin> WS_Id ` set (wh_secrets db) \<Longrightarrow> webhook_step P db db'"
| update: "P R \<Longrightarrow> UpdateWebhook R k u db = (res, db') \<Longrightarrow> webhook_step P db db'"
| delete: "P R \<Longrightarrow> DeleteWebhook R now k db = (res, db') \<Longrightarrow> webhook_step P db db'"
| create_secret: "P R \<Longrightarrow> CreateWebhookSecret R j now i n db = (res, db') \<Longrightarrow> j \<notin> WS_Id ` set (wh_secrets db) \<Longrightarrow> webhook_step P db db'"
| revoke_secret: "P R \<Longrightarrow> RevokeWebhookSecret R now i j db = (res, db') \<Longrightarrow> webhook_step P db db'"
| event: "P R \<Longrightarrow> CreateWebhookEvent R i now org ty content db = Inr db' \<Longrightarrow> i \<notin> WE_Id ` set (wh_events db) \<Longrightarrow> webhook_step P db db'"
| dispatch: "P R \<Longrightarrow> i \<in> set (wh_dispatch_jobs db) \<Longrightarrow> new_ids newId db
      \<Longrightarrow> webhook_step P db (dispatch_done i (dispatch_work R newId i db))"
| deliver: "P R \<Longrightarrow> (i, t) \<in> set (wh_delivery_jobs db) \<Longrightarrow> (\<forall>s. t = Some s \<longrightarrow> s \<le> now)
      \<Longrightarrow> webhook_step P db (job_done (i, t) (delivery_work R now i db))"
| cleanup: "webhook_step P db (cleanup_work now db)"

definition no_webhooks :: webhook_db where
  "no_webhooks = \<lparr>wh_webhooks = [], wh_secrets = [], wh_events = [], wh_deliveries = [], wh_dispatch_jobs = [],
     wh_delivery_jobs = [], wh_requests = []\<rparr>"

definition webhooks_reached :: "(webhook_env \<Rightarrow> bool) \<Rightarrow> webhook_db \<Rightarrow> bool" where
  "webhooks_reached P db \<longleftrightarrow> (webhook_step P)\<^sup>*\<^sup>* no_webhooks db"

lemma deliveries_ok_cong:
  "wh_events db' = wh_events db \<Longrightarrow> wh_webhooks db' = wh_webhooks db \<Longrightarrow> wh_deliveries db' = wh_deliveries db
    \<Longrightarrow> wh_delivery_jobs db' = wh_delivery_jobs db \<Longrightarrow> deliveries_ok db' = deliveries_ok db"
  by (simp add: deliveries_ok_def delivery_ok_def has_job_def)

lemma event_keeps:
  assumes ok: "webhooks_ok db" and run: "CreateWebhookEvent R i now org ty content db = Inr db'" and new: "i \<notin> WE_Id ` set (wh_events db)"
  shows "webhooks_ok db'"
proof (cases "HasLicense R")
  case False
  then show ?thesis using ok run by (simp add: CreateWebhookEvent_def)
next
  case True
  then obtain v d where db': "db' = db\<lparr>wh_events := wh_events db @ [\<lparr>OrganizationId = org, WE_Id = i, WE_EventType = ty, WE_ApiVersion = v,
      WE_EventData = d, WE_CreatedAt = now\<rparr>], wh_dispatch_jobs := wh_dispatch_jobs db @ [i]\<rparr>"
    using run by (auto simp: CreateWebhookEvent_def check_Inr attempt_Inr wrapped_Inr EnqueueWebhookDispatch_def CreateWebhookEventV2_def)
  have dok: "deliveries_ok db" using ok by (simp add: webhooks_ok_def)
  have "delivery_ok db' d" if "d \<in> set (wh_deliveries db)" for d
  proof (rule delivery_ok_mono)
    show "delivery_ok db d" using dok that by (simp add: deliveries_ok_def)
  qed (auto simp: db' has_job_def)
  then have "\<forall>d\<in>set (wh_deliveries db'). delivery_ok db' d" by (simp add: db')
  moreover have "distinct (map WE_Id (wh_events db'))" using dok new by (simp add: db' deliveries_ok_def)
  moreover have "wh_deliveries db' = wh_deliveries db" by (simp add: db')
  ultimately have "deliveries_ok db'" using dok unfolding deliveries_ok_def by simp
  moreover have "endpoints_ok db'" using ok endpoints_ok_cong [of db' db] by (simp add: webhooks_ok_def db')
  ultimately show ?thesis by (simp add: webhooks_ok_def)
qed

lemma job_done_rows [simp]:
  "wh_webhooks (job_done job r) = wh_webhooks (snd r)" "wh_secrets (job_done job r) = wh_secrets (snd r)"
  "wh_requests (job_done job r) = wh_requests (snd r)" "wh_deliveries (job_done job r) = wh_deliveries (snd r)"
  "wh_events (job_done job r) = wh_events (snd r)"
  by (simp_all add: job_done_def split: sum.splits)

lemma dispatch_done_rows [simp]:
  "wh_webhooks (dispatch_done i r) = wh_webhooks (snd r)" "wh_secrets (dispatch_done i r) = wh_secrets (snd r)"
  "wh_requests (dispatch_done i r) = wh_requests (snd r)" "wh_deliveries (dispatch_done i r) = wh_deliveries (snd r)"
  "wh_events (dispatch_done i r) = wh_events (snd r)" "wh_delivery_jobs (dispatch_done i r) = wh_delivery_jobs (snd r)"
  by (simp_all add: dispatch_done_def split: sum.splits)

lemma record_result_endpoints:
  assumes "record_result R now d r db = (res, db')"
  shows "wh_webhooks db' = wh_webhooks db \<and> wh_secrets db' = wh_secrets db \<and> wh_events db' = wh_events db \<and> wh_requests db' = wh_requests db"
  using assms by (cases rule: record_result_cases) (simp_all add: delivery_updates)

lemma delivery_work_rows:
  "wh_webhooks (snd (delivery_work R now i db)) = wh_webhooks db \<and> wh_secrets (snd (delivery_work R now i db)) = wh_secrets db
    \<and> wh_events (snd (delivery_work R now i db)) = wh_events db"
proof -
  have "wh_webhooks (snd (record_result R now d r x)) = wh_webhooks x \<and> wh_secrets (snd (record_result R now d r x)) = wh_secrets x
      \<and> wh_events (snd (record_result R now d r x)) = wh_events x" for d r x
    using record_result_endpoints [of R now d r x] by (metis prod.collapse)
  then show ?thesis by (simp add: delivery_work_def split: sum.splits prod.splits)
qed

lemma dispatch_work_keeps:
  assumes ok: "webhooks_ok db" and new: "new_ids newId db"
  shows "webhooks_ok (dispatch_done i (dispatch_work R newId i db))"
proof -
  obtain res db' where run: "dispatch_work R newId i db = (res, db')" by (metis surj_pair)
  have dok: "deliveries_ok db" and ids: "distinct (map WH_Id (wh_webhooks db))" using ok by (simp_all add: webhooks_ok_def endpoints_ok_def)
  have "deliveries_ok db' \<and> wh_webhooks db' = wh_webhooks db \<and> wh_secrets db' = wh_secrets db"
    using run ids
  proof (cases rule: dispatch_work_cases)
    case (unheard e)
    then show ?thesis using delete_events_keeps [OF dok] by simp
  next
    case (dispatched e)
    have "deliveries_ok db'" unfolding dispatched(4)
      by (rule dispatched_keeps [OF dok new dispatched(1)])
        (use ids in \<open>auto simp: missing_def heard_webhooks ListWebhooksByEventType_def distinct_map_filter\<close>)
    then show ?thesis using dispatched(4) by (simp add: dispatched_def)
  qed (use dok in simp_all)
  moreover have "deliveries_ok (dispatch_done i (res, db')) = deliveries_ok db'" by (rule deliveries_ok_cong) simp_all
  moreover have "endpoints_ok (dispatch_done i (res, db')) = endpoints_ok db'" by (rule endpoints_ok_cong) simp_all
  moreover have "wh_webhooks db' = wh_webhooks db \<Longrightarrow> wh_secrets db' = wh_secrets db \<Longrightarrow> endpoints_ok db' = endpoints_ok db"
    by (rule endpoints_ok_cong)
  ultimately show ?thesis using ok unfolding run webhooks_ok_def by blast
qed

lemma step_keeps: "webhook_step P db db' \<Longrightarrow> webhooks_ok db \<Longrightarrow> webhooks_ok db'"
proof (induction rule: webhook_step.induct)
  case (register R i j now org a db res db')
  then show ?case
    by (cases res) (auto simp: RegisterWebhook_def check_Inr attempt_Inr Let_def intro!: register_keeps)
next
  case (update R k u db res db')
  then show ?case
    by (cases res) (auto simp: UpdateWebhook_def check_Inr attempt_Inr wrapped_Inr Let_def intro!: update_keeps)
next
  case (delete R now k db res db')
  then show ?case
    by (cases res) (auto simp: DeleteWebhook_def check_Inr attempt_Inr intro!: delete_keeps)
next
  case (create_secret R j now i n db res db')
  then show ?case
    by (cases res) (auto simp: CreateWebhookSecret_def check_Inr attempt_Inr Let_def split: sum.splits option.splits
        intro!: add_secret_keeps)
next
  case (revoke_secret R now i j db res db')
  then show ?case by (cases res) (auto intro: revoke_keeps simp: RevokeWebhookSecret_def)
next
  case (event R i now org ty content db db')
  then show ?case by (blast intro: event_keeps)
next
  case (dispatch R i db newId)
  then show ?case by (blast intro: dispatch_work_keeps)
next
  case (deliver R i t db now)
  then show ?case using delivery_work_rows [of R now i db]
    by (auto simp: webhooks_ok_def endpoints_ok_def delivery_work_keeps)
next
  case (cleanup db now)
  then have "distinct (map WE_Id (wh_events db))" by (simp add: webhooks_ok_def deliveries_ok_def)
  then show ?case using cleanup delete_events_keeps [of db]
    by (simp add: cleanup_work_def cleanup_loop_rows webhooks_ok_def endpoints_ok_def delete_events_def)
qed

lemma reached_ok: "webhooks_reached P db \<Longrightarrow> webhooks_ok db"
  unfolding webhooks_reached_def
proof (induction rule: rtranclp_induct)
  case base
  show ?case by (simp add: webhooks_ok_def endpoints_ok_def deliveries_ok_def no_webhooks_def)
qed (rule step_keeps)

section \<open>The run of a delivery\<close>

lemma delivery_work_cases:
  assumes "delivery_work R now i db = (res, db')"
  obtains (failed) err where "res = Inl err" "db' = db"
  | (decided) d where "GetWebhookDelivery i db = Inr d" "\<not> undecided d" "res = Inr ()" "db' = db"
  | (sent) d w e rqs r where "GetWebhookDelivery i db = Inr d" "undecided d" "GetWebhook (WD_WebhookId d) db = Inr w"
      "GetWebhookEventV2 (WD_WebhookEventId d) db = Inr e"
      "SendWebhook R now w (ListActiveWebhookSecrets now (WH_Id w) db) e d = (rqs, r)"
      "record_result R now d r (db\<lparr>wh_requests := wh_requests db @ map (Pair (WD_Id d)) rqs\<rparr>) = (res, db')"
proof (cases "GetWebhookDelivery i db")
  case (Inl err)
  then show ?thesis using assms by (intro failed) (auto simp: delivery_work_def)
next
  case d: (Inr d)
  show ?thesis
  proof (cases "undecided d")
    case False
    then show ?thesis using assms d by (intro decided) (auto simp: delivery_work_def)
  next
    case True
    show ?thesis
    proof (cases "GetWebhook (WD_WebhookId d) db")
      case (Inl err)
      then show ?thesis using assms d True by (intro failed) (auto simp: delivery_work_def)
    next
      case w: (Inr w)
      show ?thesis
      proof (cases "GetWebhookEventV2 (WD_WebhookEventId d) db")
        case (Inl err)
        then show ?thesis using assms d True w by (intro failed) (auto simp: delivery_work_def)
      next
        case (Inr e)
        obtain rqs r where "SendWebhook R now w (ListActiveWebhookSecrets now (WH_Id w) db) e d = (rqs, r)" by (metis surj_pair)
        then show ?thesis using assms d True w Inr by (intro sent) (simp_all add: delivery_work_def)
      qed
    qed
  qed
qed

section \<open>Requests of a delivery\<close>

definition sent_requests :: "uuid \<Rightarrow> webhook_db \<Rightarrow> nat" where
  "sent_requests i db = length (filter (\<lambda>(j, _). j = i) (wh_requests db))"

definition requests_counted :: "webhook_db \<Rightarrow> bool" where
  "requests_counted db \<longleftrightarrow> (\<forall>i. int (sent_requests i db) \<le> DefaultMaxAttempts)
     \<and> (\<forall>d\<in>set (wh_deliveries db). int (sent_requests (WD_Id d) db) \<le> WD_Attempts d + (if undecided d then 0 else 1))"

lemma sent_requests_append:
  "sent_requests i (db\<lparr>wh_requests := wh_requests db @ map (Pair j) rqs\<rparr>) = sent_requests i db + (if i = j then length rqs else 0)"
  by (simp add: sent_requests_def comp_def)

lemma sent_requests_cong: "wh_requests db' = wh_requests db \<Longrightarrow> sent_requests i db' = sent_requests i db"
  by (simp add: sent_requests_def)

lemma requests_counted_less:
  assumes "requests_counted db" "wh_requests db' = wh_requests db" "set (wh_deliveries db') \<subseteq> set (wh_deliveries db)"
  shows "requests_counted db'"
  using assms(1,3) unfolding requests_counted_def sent_requests_cong [OF assms(2)] by blast

lemma fresh_unsent: "new_ids newId db \<Longrightarrow> sent_requests (newId k) db = 0"
  by (auto simp: new_ids_def sent_requests_def filter_empty_conv image_iff) (metis fst_conv)

lemma one_request: "SendWebhook R now w ss e d = (rqs, r) \<Longrightarrow> length rqs \<le> 1"
  by (auto simp: SendWebhook_def Let_def split: option.splits)

lemma counted_on_delivery:
  assumes counted: "requests_counted db" and ok: "deliveries_ok db" and d: "d \<in> set (wh_deliveries db)" "undecided d"
    and sent: "\<And>j. sent_requests j db' = sent_requests j db + (if j = WD_Id d then n else 0)" "n \<le> 1"
    and rows: "wh_deliveries db' = map (\<lambda>x. if WD_Id x = WD_Id d then f x else x) (wh_deliveries db)"
    and f: "WD_Id (f d) = WD_Id d" "WD_Attempts (f d) + (if undecided (f d) then 0 else 1) = WD_Attempts d + 1"
  shows "requests_counted db'"
proof -
  have n: "int (sent_requests (WD_Id d) db) \<le> WD_Attempts d" and less: "WD_Attempts d < DefaultMaxAttempts"
    using counted d ok by (auto simp: requests_counted_def deliveries_ok_def delivery_ok_def)
  have "int (sent_requests i db') \<le> DefaultMaxAttempts" for i
    using counted n less sent by (cases "i = WD_Id d") (auto simp: requests_counted_def)
  moreover have "int (sent_requests (WD_Id x) db') \<le> WD_Attempts x + (if undecided x then 0 else 1)" if "x \<in> set (wh_deliveries db')" for x
  proof -
    from that obtain y where y: "y \<in> set (wh_deliveries db)" "x = (if WD_Id y = WD_Id d then f y else y)" unfolding rows by auto
    show ?thesis
    proof (cases "WD_Id y = WD_Id d")
      case True
      then have "x = f d" using unique_delivery [OF ok d(1) y(1)] y(2) by simp
      then show ?thesis using f n sent by simp
    next
      case False
      then have "sent_requests (WD_Id x) db' = sent_requests (WD_Id x) db" "x = y" using sent y(2) by simp_all
      then show ?thesis using counted y(1) by (simp add: requests_counted_def)
    qed
  qed
  ultimately show ?thesis by (simp add: requests_counted_def)
qed

lemma delivery_work_counted:
  assumes counted: "requests_counted db" and ok: "deliveries_ok db" and queue: "\<And>j. DeliveryTaskFails R j = None"
    and run: "delivery_work R now i db = (res, db')"
  shows "requests_counted db'"
  using run
proof (cases rule: delivery_work_cases)
  case (sent d w e rqs r)
  let ?x = "db\<lparr>wh_requests := wh_requests db @ map (Pair (WD_Id d)) rqs\<rparr>"
  have d: "d \<in> set (wh_deliveries db)" using sent(1) by (auto dest: rows)
  have n: "length rqs \<le> 1" using sent(5) by (rule one_request)
  note count = counted_on_delivery [OF counted ok d sent(2)]
  have log: "wh_requests db' = wh_requests ?x" using record_result_endpoints [OF sent(6)] by simp
  have more: "sent_requests j db' = sent_requests j db + (if j = WD_Id d then length rqs else 0)" for j
    using sent_requests_cong [OF log, of j] by (simp add: sent_requests_append)
  from sent(6) show ?thesis
  proof (cases rule: record_result_cases)
    case success
    show ?thesis by (rule count [OF more n, where f = "\<lambda>d. d\<lparr>WD_Status := WebhookDeliveryStatusSuccess, WD_LastResponseStatus := Some (SR_StatusCode r)\<rparr>"])
        (simp_all add: success delivery_updates)
  next
    case failed
    show ?thesis by (rule count [OF more n, where f = "\<lambda>da. da\<lparr>WD_Status := WebhookDeliveryStatusFailed, WD_LastError := Some (formatError R r),
          WD_LastResponseStatus := given (map_option Some (status_code r)) (WD_LastResponseStatus da)\<rparr>"])
        (simp_all add: failed delivery_updates)
  next
    case retry
    show ?thesis by (rule count [OF more n, where f = "\<lambda>da. da\<lparr>WD_Attempts := WD_Attempts d + 1, WD_LastError := Some (formatError R r),
          WD_NextRetryAt := Some (now + CalculateBackoff (WD_Attempts d + 1)),
          WD_LastResponseStatus := given (map_option Some (status_code r)) (WD_LastResponseStatus da)\<rparr>"])
        (use sent(2) in \<open>simp_all add: retry delivery_updates\<close>)
  next
    case (refused err)
    then show ?thesis using queue by simp
  qed
qed (use counted in simp_all)

lemma requests_same_rows:
  "RegisterWebhook R ij now org a db = (res, db') \<Longrightarrow> wh_requests db' = wh_requests db \<and> wh_deliveries db' = wh_deliveries db"
  "UpdateWebhook R k u db = (res2, db') \<Longrightarrow> wh_requests db' = wh_requests db \<and> wh_deliveries db' = wh_deliveries db"
  "DeleteWebhook R now k db = (res3, db') \<Longrightarrow> wh_requests db' = wh_requests db \<and> wh_deliveries db' = wh_deliveries db"
  "CreateWebhookSecret R j now i n db = (res4, db') \<Longrightarrow> wh_requests db' = wh_requests db \<and> wh_deliveries db' = wh_deliveries db"
  "RevokeWebhookSecret R now i j db = (res3, db') \<Longrightarrow> wh_requests db' = wh_requests db \<and> wh_deliveries db' = wh_deliveries db"
  "CreateWebhookEvent R i now org ty content db = Inr db' \<Longrightarrow> wh_requests db' = wh_requests db \<and> wh_deliveries db' = wh_deliveries db"
       apply (cases res; auto simp: RegisterWebhook_def check_Inr attempt_Inr Let_def AddWebhookSecret_def CreateWebhook_def)
      apply (cases res2; auto simp: UpdateWebhook_def check_Inr attempt_Inr wrapped_Inr Let_def)
     apply (cases res3; auto simp: DeleteWebhook_def check_Inr attempt_Inr db_DeleteWebhook_def)
    apply (cases res4; auto simp: CreateWebhookSecret_def check_Inr attempt_Inr Let_def AddWebhookSecret_def ExpireWebhookSecrets_def
      split: sum.splits option.splits)
   apply (cases res3; auto simp: RevokeWebhookSecret_def check_Inr Let_def db_RevokeWebhookSecret_def split: sum.splits if_splits)
  apply (auto simp: CreateWebhookEvent_def check_Inr attempt_Inr wrapped_Inr EnqueueWebhookDispatch_def CreateWebhookEventV2_def split: if_splits)
  done

lemma dispatch_counted:
  assumes counted: "requests_counted db" and new: "new_ids newId db" and ids: "distinct (map WH_Id (wh_webhooks db))"
    and run: "dispatch_work R newId i db = (res, db')"
  shows "requests_counted db'"
  using run ids
proof (cases rule: dispatch_work_cases)
  case (unheard e)
  then show ?thesis by (intro requests_counted_less [OF counted]) (auto simp: delete_events_def)
next
  case (dispatched e)
  have same: "sent_requests j db' = sent_requests j db" for j by (rule sent_requests_cong) (simp add: dispatched dispatched_def)
  have "int (sent_requests (WD_Id d) db) \<le> WD_Attempts d + (if undecided d then 0 else 1)" if "d \<in> set (wh_deliveries db')" for d
  proof -
    from that consider "d \<in> set (wh_deliveries db)" | k w where "d = new_delivery (newId k) e w" by (auto simp: dispatched(4) dispatched_def)
    then show ?thesis
    proof cases
      case 1
      with counted show ?thesis unfolding requests_counted_def by blast
    next
      case 2
      then show ?thesis using fresh_unsent [OF new, of k] by (simp add: new_delivery_def)
    qed
  qed
  with counted show ?thesis unfolding requests_counted_def same by blast
qed (use counted in simp_all)

lemma step_counted:
  assumes "webhook_step P db db'" and queue: "\<And>R j. P R \<Longrightarrow> DeliveryTaskFails R j = None"
    and ok: "webhooks_ok db" and counted: "requests_counted db"
  shows "requests_counted db'"
  using assms(1)
proof cases
  case (dispatch R i newId)
  obtain res x where run: "dispatch_work R newId i db = (res, x)" by (metis surj_pair)
  have "requests_counted x" using dispatch_counted [OF counted dispatch(4) _ run] ok by (simp add: webhooks_ok_def endpoints_ok_def)
  then show ?thesis by (rule requests_counted_less) (simp_all add: dispatch run)
next
  case (deliver R i t now)
  obtain res x where run: "delivery_work R now i db = (res, x)" by (metis surj_pair)
  have "requests_counted x" using delivery_work_counted [OF counted _ queue run] ok deliver by (simp add: webhooks_ok_def)
  then show ?thesis by (rule requests_counted_less) (simp_all add: deliver run)
next
  case (cleanup now)
  have "distinct (map WE_Id (wh_events db))" using ok by (simp add: webhooks_ok_def deliveries_ok_def)
  then show ?thesis by (intro requests_counted_less [OF counted]) (auto simp: cleanup cleanup_work_def cleanup_loop_rows delete_events_def)
qed (use requests_counted_less [OF counted] requests_same_rows in \<open>(metis order_refl)+\<close>)

lemma reached_counted:
  assumes "webhooks_reached P db" "\<And>R j. P R \<Longrightarrow> DeliveryTaskFails R j = None"
  shows "requests_counted db"
  using assms(1) unfolding webhooks_reached_def
proof (induction rule: rtranclp_induct)
  case base
  show ?case by (simp add: requests_counted_def no_webhooks_def sent_requests_def DefaultMaxAttempts_def)
next
  case (step y z)
  then have "webhooks_ok y" using reached_ok by (simp add: webhooks_reached_def)
  with step assms(2) show ?case by (blast intro: step_counted)
qed

end
