(* ===== verification/Webhook_Properties.thy ===== *)
theory Webhook_Properties
  imports Webhook_Laws
begin

text \<open>
  The properties of webhooks: the invariants of the states that the requests and the jobs reach, what a dispatch and a
  delivery do, which endpoints are accepted, and who changes a webhook; each with an organization that registers an endpoint
  and announces an event.
\<close>

section \<open>An example\<close>

definition webhook_admin :: Credentials where
  "webhook_admin = \<lparr>ActorIdentity = \<lparr>Identity_UserId = ''u'', Identity_Email = [], Identity_FirstName = [],
     Identity_LastName = [], Identity_ApiKeyId = [], Identity_ApiKeyName = []\<rparr>,
     Cred_OrganizationId = 7, Cred_Role = ADMIN\<rparr>"

text \<open>An endpoint that resolves to a public address, and answers a ping, and a request with the status \<open>code\<close>.\<close>

definition hook_lookup :: "string \<Rightarrow> ip_addr list option" where
  "hook_lookup host = Some [Addr4 (bytes_value [93, 184, 216, 34])]"

definition hook_env :: "int \<Rightarrow> webhook_env" where
  "hook_env code = \<lparr>WhCreds = webhook_admin, HasLicense = True, ParseRequestURI = (\<lambda>_. True),
     ParseURL = (\<lambda>_. Some \<lparr>URL_Scheme = ''https'', URL_HasUser = False, URL_Hostname = ''h''\<rparr>),
     LookupIPAddr = hook_lookup, AllowInsecureURLs = False, IPWhitelist = [],
     Ping = (\<lambda>_ _. None), RandomSecret = Inr ''secret'', ParseWebhookId = (\<lambda>s. Some (length s)),
     UuidText = (\<lambda>n. replicate n CHR ''x''), FormatTime = (\<lambda>_. []), AddDays = (\<lambda>t n. t + n * 24 * 3600 * second),
     AdaptEventData = (\<lambda>c. Inr (''v1'', c)), ComputeHMAC = (\<lambda>k m. k @ m), FormatInt = (\<lambda>_. ''0''), MarbleVersion = [],
     NewRequestError = (\<lambda>_. None), DoRequest = (\<lambda>_. \<lparr>SR_StatusCode = code, SR_Error = None\<rparr>),
     DispatchTaskFails = (\<lambda>_. None), DeliveryTaskFails = (\<lambda>_. None)\<rparr>"

definition hook_registration :: WebhookRegister where
  "hook_registration = \<lparr>RG_EventTypes = [''case.updated''], RG_Url = ''https://h'', RG_HttpTimeout = None, RG_RateLimit = None,
     RG_RateLimitDuration = None\<rparr>"

definition hook_registered :: webhook_db where
  "hook_registered = AddWebhookSecret (new_secret 2 0 1 ''secret'') (CreateWebhook (registered 1 0 7 hook_registration) no_webhooks)"

definition hook_announced :: webhook_db where
  "hook_announced = (case CreateWebhookEvent (hook_env 500) 3 0 7 ''case.updated'' ''{}'' hook_registered of
     Inl _ \<Rightarrow> hook_registered | Inr db \<Rightarrow> db)"

definition hook_dispatched :: webhook_db where
  "hook_dispatched = dispatch_done 3 (dispatch_work (hook_env 500) ((+) 4) 3 hook_announced)"

definition hook_sent :: webhook_db where
  "hook_sent = job_done (4, None) (delivery_work (hook_env 500) 0 4 hook_dispatched)"

abbreviation queue_works :: "webhook_env \<Rightarrow> bool" where
  "queue_works R \<equiv> DeliveryTaskFails R = (\<lambda>_. None)"

lemma queue_works_example: "queue_works (hook_env code)"
  by (simp add: hook_env_def)

lemma reached_step: "webhooks_reached P db \<Longrightarrow> webhook_step P db db' \<Longrightarrow> webhooks_reached P db'"
  unfolding webhooks_reached_def by (rule rtranclp.rtrancl_into_rtrancl)

lemma hook_endpoint_valid: "ValidateEndpoint (hook_env code) url = None"
proof -
  have "\<not> isReservedIP (Addr4 (bytes_value [93, 184, 216, 34])) []"
    by (simp add: isReservedIP_def IP_IsUnspecified_def IP_IsLoopback_def IP_IsPrivate_def IP_IsMulticast_def
        IP_IsLinkLocalMulticast_def IP_IsLinkLocalUnicast_def Unmap_def v4_byte_def bytes_value_def reservedIPBlocks_def
        IPNet_Contains_def Prefix_Contains_def block4_def block6_def)
  then show ?thesis by (simp add: ValidateEndpoint_def Validate_url_def hook_env_def hook_lookup_def)
qed

lemma hook_registered_run:
  "\<exists>w. RegisterWebhook (hook_env 500) (1, 2) 0 7 hook_registration no_webhooks = (Inr w, hook_registered)"
proof -
  have "CanCreateWebhook webhook_admin 7 = None" "WebhookRegister_Validate (hook_env 500) hook_registration = None" by code_simp+
  then show ?thesis
    by (simp add: RegisterWebhook_def hook_endpoint_valid hook_registered_def) (simp add: hook_env_def Let_def)
qed

lemma hook_registered_reached: "webhooks_reached queue_works hook_registered"
proof -
  have start: "webhooks_reached queue_works no_webhooks" by (simp add: webhooks_reached_def)
  from hook_registered_run show ?thesis
    by (auto intro!: reached_step [OF start] webhook_step.register queue_works_example simp: no_webhooks_def)
qed

lemma hook_announced_run: "CreateWebhookEvent (hook_env 500) 3 0 7 ''case.updated'' ''{}'' hook_registered = Inr hook_announced"
proof -
  have "\<not> isl (CreateWebhookEvent (hook_env 500) 3 0 7 ''case.updated'' ''{}'' hook_registered)" by code_simp
  then show ?thesis unfolding hook_announced_def by (auto split: sum.splits)
qed

lemma hook_announced_reached: "webhooks_reached queue_works hook_announced"
proof -
  have "wh_events hook_registered = []" by code_simp
  then show ?thesis by (intro reached_step [OF hook_registered_reached]
      webhook_step.event [where P = queue_works, OF queue_works_example hook_announced_run]) simp
qed

lemma hook_new_ids: "new_ids ((+) 4) hook_announced"
proof -
  have "wh_deliveries hook_announced = []" "wh_requests hook_announced = []" by code_simp+
  then show ?thesis by (simp add: new_ids_def)
qed

lemma hook_dispatched_reached: "webhooks_reached queue_works hook_dispatched"
proof -
  have "List.member (wh_dispatch_jobs hook_announced) 3" by code_simp
  then show ?thesis unfolding hook_dispatched_def
    by (intro reached_step [OF hook_announced_reached] webhook_step.dispatch hook_new_ids queue_works_example) simp
qed

lemma hook_sent_reached: "webhooks_reached queue_works hook_sent"
proof -
  have "List.member (wh_delivery_jobs hook_dispatched) (4, None)" by code_simp
  then show ?thesis unfolding hook_sent_def
    by (intro reached_step [OF hook_dispatched_reached] webhook_step.deliver queue_works_example) simp_all
qed

section \<open>Invariants\<close>



text \<open>C25: as long as the queue takes the retries, at most twelve requests are sent for a delivery, however often its jobs
  run, and no more than the attempts it counts while it is undecided.\<close>

theorem deliveries_bounded:
  assumes "webhooks_reached P db" "\<And>R j. P R \<Longrightarrow> DeliveryTaskFails R j = None"
  shows "sent_requests i db \<le> 12
    \<and> (\<forall>d\<in>set (wh_deliveries db). WD_Status d = WebhookDeliveryStatusPending \<longrightarrow> int (sent_requests (WD_Id d) db) \<le> WD_Attempts d)"
  using reached_counted [OF assms] by (force simp: requests_counted_def DefaultMaxAttempts_def)

theorem deliveries_bounded_witness: "sent_requests 4 hook_sent = 1 \<and> sent_requests 4 hook_sent \<le> 12"
proof -
  have "sent_requests 4 hook_sent = 1" by code_simp
  with deliveries_bounded [OF hook_sent_reached, of 4] show ?thesis by simp
qed

section \<open>Deliveries\<close>






section \<open>Dispatch\<close>

lemma create_deliveries_none:
  "(\<And>w. w \<in> set ws \<Longrightarrow> WebhookDeliveryExists (WE_Id e) (WH_Id w) tx) \<Longrightarrow> create_deliveries R newId n e ws tx = Inr tx"
  by (induction ws arbitrary: n) auto

lemma dispatched_rows [simp]:
  "wh_webhooks (dispatched newId n e ws db) = wh_webhooks db" "wh_events (dispatched newId n e ws db) = wh_events db"
  by (simp_all add: dispatched_def)

lemma set_dispatched:
  "d \<in> set (wh_deliveries (dispatched newId n e ws db)) \<longleftrightarrow> d \<in> set (wh_deliveries db)
    \<or> (\<exists>k w. (k, w) \<in> set (enumerate n ws) \<and> d = new_delivery (newId k) e w)"
  by (auto simp: dispatched_def)

lemma dispatched_exists:
  "w \<in> set ws \<Longrightarrow> \<exists>d\<in>set (wh_deliveries (dispatched newId n e (missing e ws db) db)). delivery_key d = (WE_Id e, WH_Id w)"
proof (cases "WebhookDeliveryExists (WE_Id e) (WH_Id w) db")
  case True
  then show ?thesis by (auto simp: WebhookDeliveryExists_def list_ex_iff set_dispatched delivery_key_def)
next
  case False
  assume "w \<in> set ws"
  with False have "w \<in> set (map snd (enumerate n (missing e ws db)))" by (simp add: missing_def)
  then obtain k where "(k, w) \<in> set (enumerate n (missing e ws db))" unfolding set_map by (metis imageE prod.collapse)
  then have "new_delivery (newId k) e w \<in> set (wh_deliveries (dispatched newId n e (missing e ws db) db))"
    by (auto simp: set_dispatched)
  then show ?thesis by (rule bexI [rotated]) (simp add: new_delivery_def delivery_key_def)
qed

text \<open>C27: a run of the dispatch of an event that ends without an error gives every live and enabled webhook of the
  organization that listens to the type of the event exactly one delivery of it. The deliveries that exist are kept, the new
  ones are such deliveries, with a job, and running the dispatch again changes nothing. An event that no webhook listens to
  is deleted.\<close>

theorem dispatch_exact:
  assumes "webhooks_reached P db" "new_ids newId db" "GetWebhookEventV2 i db = Inr e" "dispatch_work R newId i db = (Inr (), db')"
  shows "if ListWebhooksByEventType (OrganizationId e) (WE_EventType e) db = []
    then wh_events db' = filter (\<lambda>x. WE_Id x \<noteq> i) (wh_events db)
    else wh_events db' = wh_events db \<and> set (wh_deliveries db) \<subseteq> set (wh_deliveries db')
      \<and> (\<forall>w\<in>set (wh_webhooks db). OrganizationId w = OrganizationId e \<and> WH_Enabled w \<and> WH_DeletedAt w = None
           \<and> (WH_EventTypes w = [] \<or> WE_EventType e \<in> set (WH_EventTypes w))
         \<longrightarrow> (\<exists>!d. d \<in> set (wh_deliveries db') \<and> delivery_key d = (i, WH_Id w)))
      \<and> (\<forall>d\<in>set (wh_deliveries db') - set (wh_deliveries db). WD_Status d = WebhookDeliveryStatusPending \<and> WD_Attempts d = 0
         \<and> (WD_Id d, None) \<in> set (wh_delivery_jobs db')
         \<and> (\<exists>w\<in>set (ListWebhooksByEventType (OrganizationId e) (WE_EventType e) db). delivery_key d = (i, WH_Id w)))
      \<and> dispatch_work R newId' i db' = (Inr (), db')"
proof -
  have ok: "webhooks_ok db" using assms(1) by (rule reached_ok)
  then have ids: "distinct (map WH_Id (wh_webhooks db))" and events: "distinct (map WE_Id (wh_events db))"
    by (simp_all add: webhooks_ok_def endpoints_ok_def deliveries_ok_def)
  have e: "e \<in> set (wh_events db)" "WE_Id e = i" using assms(3) by (auto dest: rows)
  have only: "x = e" if "x \<in> set (wh_events db)" "WE_Id x = i" for x
    using events e that by (auto simp: distinct_map inj_on_def)
  from assms(4) ids show ?thesis
  proof (cases rule: dispatch_work_cases)
    case (unheard x)
    then have "x = e" using only by simp
    with unheard show ?thesis by (simp add: delete_events_def)
  next
    case (dispatched x)
    then have x: "x = e" using only by simp
    let ?ws = "ListWebhooksByEventType (OrganizationId e) (WE_EventType e) db"
    have db': "db' = dispatched newId 0 e (missing e ?ws db) db" using dispatched(4) x by simp
    show ?thesis
    proof (cases "?ws = []")
      case True
      then show ?thesis using assms(3,4) by (simp add: dispatch_work_def DeleteWebhookEventV2_def delete_events_def e(2)) force
    next
      case False
      have rows: "d \<in> set (wh_deliveries db') \<longleftrightarrow> d \<in> set (wh_deliveries db)
          \<or> (\<exists>k w. (k, w) \<in> set (enumerate 0 (missing e ?ws db)) \<and> d = new_delivery (newId k) e w)" for d
        unfolding db' by (rule set_dispatched)
      have "deliveries_ok db'" unfolding db'
        by (rule dispatched_keeps [OF _ assms(2) e(1)])
          (use ok ids in \<open>auto simp: webhooks_ok_def missing_def heard_webhooks ListWebhooksByEventType_def distinct_map_filter\<close>)
      then have unique: "d = d'" if "d \<in> set (wh_deliveries db')" "d' \<in> set (wh_deliveries db')" "delivery_key d = delivery_key d'" for d d'
        using that by (auto simp: deliveries_ok_def distinct_map inj_on_def)
      have exists: "\<exists>d\<in>set (wh_deliveries db'). delivery_key d = (i, WH_Id w)" if "w \<in> set ?ws" for w
        using dispatched_exists [OF that, of newId 0 e db] e(2) unfolding db' by simp
      have once: "\<exists>!d. d \<in> set (wh_deliveries db') \<and> delivery_key d = (i, WH_Id w)" if "w \<in> set ?ws" for w
        using exists [OF that] by (auto intro!: ex_ex1I intro: unique)
      have new: "undecided d \<and> WD_Attempts d = 0 \<and> (WD_Id d, None) \<in> set (wh_delivery_jobs db')
          \<and> (\<exists>w\<in>set ?ws. delivery_key d = (i, WH_Id w))" if d: "d \<in> set (wh_deliveries db') - set (wh_deliveries db)" for d
      proof -
        from d obtain k w where kw: "(k, w) \<in> set (enumerate 0 (missing e ?ws db))" "d = new_delivery (newId k) e w"
          unfolding Diff_iff rows by blast
        then have "w \<in> set ?ws" by (metis enumerate_eq_zip filter_is_subset missing_def set_zip_rightD subsetD)
        moreover have "(newId k, None) \<in> set (wh_delivery_jobs db')" using kw(1) by (force simp: db' dispatched_def)
        ultimately show ?thesis using kw(2) e(2) by (auto simp: new_delivery_def delivery_key_def)
      qed
      have "dispatch_work R newId' i db' = (Inr (), db')"
      proof -
        have "GetWebhookEventV2 i db' = Inr e" "ListWebhooksByEventType (OrganizationId e) (WE_EventType e) db' = ?ws"
          using assms(3) by (simp_all add: db' GetWebhookEventV2_def ListWebhooksByEventType_def)
        moreover have "create_deliveries R newId' 0 e ?ws db' = Inr db'"
          using exists e(2) by (intro create_deliveries_none) (auto simp: WebhookDeliveryExists_def list_ex_iff delivery_key_def)
        ultimately show ?thesis using False by (simp add: dispatch_work_def Transaction_def)
      qed
      then show ?thesis using False once new rows by (simp add: heard_webhooks) (auto simp: db')
    qed
  qed (use assms in simp_all)
qed

theorem dispatch_exact_witness:
  "\<exists>d. d \<in> set (wh_deliveries (snd (dispatch_work (hook_env 500) ((+) 4) 3 hook_announced))) \<and> delivery_key d = (3, 1)"
proof -
  let ?R = "hook_env 500" and ?db = hook_announced
  let ?e = "\<lparr>OrganizationId = 7, WE_Id = 3, WE_EventType = ''case.updated'', WE_ApiVersion = ''v1'', WE_EventData = ''{}'', WE_CreatedAt = 0\<rparr>"
  have e: "GetWebhookEventV2 3 ?db = Inr ?e" by code_simp
  have "fst (dispatch_work ?R ((+) 4) 3 ?db) = Inr ()" by code_simp
  then have run: "dispatch_work ?R ((+) 4) 3 ?db = (Inr (), snd (dispatch_work ?R ((+) 4) 3 ?db))" by (metis prod.collapse)
  have w: "registered 1 0 7 hook_registration \<in> set (wh_webhooks ?db)"
  proof -
    have "wh_webhooks ?db = [registered 1 0 7 hook_registration]" by code_simp
    then show ?thesis by simp
  qed
  then have "ListWebhooksByEventType 7 ''case.updated'' ?db \<noteq> []"
    using heard_webhooks [of "registered 1 0 7 hook_registration" 7 "''case.updated''" ?db] by (auto simp: registered_def hook_registration_def)
  with dispatch_exact [OF hook_announced_reached hook_new_ids e run, of undefined] w
  show ?thesis by (force simp: registered_def hook_registration_def)
qed

section \<open>Endpoints\<close>

lemma ip_nets:
  "IPNet_Contains (block4 bs n) ip \<longleftrightarrow> (case Unmap ip of Addr4 v \<Rightarrow> n \<le> 32 \<and> bytes_value bs div 2 ^ (32 - n) = v div 2 ^ (32 - n) | Addr6 _ \<Rightarrow> False)"
  "IPNet_Contains (block6 gs n) ip \<longleftrightarrow> (case Unmap ip of Addr4 _ \<Rightarrow> False
     | Addr6 v \<Rightarrow> n \<le> 128 \<and> fold (\<lambda>g acc. acc * 65536 + g) gs 0 div 2 ^ (128 - n) = v div 2 ^ (128 - n))"
  by (simp_all add: IPNet_Contains_def Prefix_Contains_def block4_def block6_def split: ip_addr.splits)

lemma v4_high: "v < 2 ^ 32 \<Longrightarrow> v div 65536 = v4_byte 0 v * 256 + v4_byte 1 v"
proof -
  assume v: "v < 2 ^ 32"
  have "v div 16777216 = v div 65536 div 256" by (simp add: div_mult2_eq [symmetric])
  moreover from v have "v div 16777216 < 256" by (simp add: less_mult_imp_div_less)
  ultimately show ?thesis by (simp add: v4_byte_def)
qed

lemma v4_nets:
  assumes v: "v < 2 ^ 32"
  shows "v4_byte 0 v = a \<Longrightarrow> v div 2 ^ 24 = a"
    "v4_byte 0 v = a \<Longrightarrow> v4_byte 1 v = b \<Longrightarrow> v div 2 ^ 16 = a * 256 + b"
    "v4_byte 0 v = a \<Longrightarrow> v4_byte 1 v div 16 = c \<Longrightarrow> v div 2 ^ 20 = a * 16 + c"
    "v4_byte 0 v div 16 = d \<Longrightarrow> v div 2 ^ 28 = d"
proof -
  note h = v4_high [OF v]
  have b: "v4_byte 1 v < 256" by (simp add: v4_byte_def)
  have d: "v div 2 ^ 20 = v div 65536 div 16" "v div 2 ^ 24 = v div 65536 div 256" "v div 2 ^ 28 = v div 65536 div 256 div 16"
    by (simp_all add: div_mult2_eq [symmetric])
  have e: "v div 65536 div 256 = v4_byte 0 v" unfolding h using b by simp
  have f: "(v4_byte 0 v * 256 + v4_byte 1 v) div 16 = v4_byte 0 v * 16 + v4_byte 1 v div 16" by simp
  show "v4_byte 0 v = a \<Longrightarrow> v div 2 ^ 24 = a" using d e by simp
  show "v4_byte 0 v = a \<Longrightarrow> v4_byte 1 v = b \<Longrightarrow> v div 2 ^ 16 = a * 256 + b" using h by simp
  show "v4_byte 0 v = a \<Longrightarrow> v4_byte 1 v div 16 = c \<Longrightarrow> v div 2 ^ 20 = a * 16 + c" using d(1) f h by simp
  show "v4_byte 0 v div 16 = d \<Longrightarrow> v div 2 ^ 28 = d" using d(3) e by simp
qed

lemma Unmap_range: "(case ip of Addr4 v \<Rightarrow> v < 2 ^ 32 | Addr6 v \<Rightarrow> v < 2 ^ 128) \<Longrightarrow> Unmap ip = Addr4 v \<Longrightarrow> v < 2 ^ 32"
  by (auto simp: Unmap_def split: ip_addr.splits if_splits)

lemma reserved_v4:
  assumes v: "v < 2 ^ 32" and ip: "Unmap ip = Addr4 v"
    and test: "IP_IsLoopback ip \<or> IP_IsPrivate ip \<or> IP_IsLinkLocalUnicast ip \<or> IP_IsLinkLocalMulticast ip \<or> IP_IsMulticast ip \<or> IP_IsUnspecified ip"
  shows "list_ex (\<lambda>b. IPNet_Contains b ip) reservedIPBlocks"
proof -
  have nets: "v div 16777216 = v4_byte 0 v" "v div 65536 = v4_byte 0 v * 256 + v4_byte 1 v"
    "v div 1048576 = v4_byte 0 v * 16 + v4_byte 1 v div 16" "v div 268435456 = v4_byte 0 v div 16"
    using v4_nets [OF v] by simp_all
  from test consider "v4_byte 0 v = 127" | "v4_byte 0 v = 10" | "v4_byte 0 v = 172" "v4_byte 1 v div 16 = 1"
    | "v4_byte 0 v = 192" "v4_byte 1 v = 168" | "v4_byte 0 v = 169" "v4_byte 1 v = 254" | "v4_byte 0 v div 16 = 14" | "v = 0"
    using ip by (auto simp: IP_IsUnspecified_def IP_IsLoopback_def IP_IsPrivate_def IP_IsMulticast_def
        IP_IsLinkLocalMulticast_def IP_IsLinkLocalUnicast_def)
  then show ?thesis
    by cases (simp_all add: reservedIPBlocks_def ip_nets ip bytes_value_def nets)
qed

lemma reserved_v6:
  assumes ip: "Unmap ip = Addr6 v"
    and test: "IP_IsLoopback ip \<or> IP_IsPrivate ip \<or> IP_IsLinkLocalUnicast ip \<or> IP_IsLinkLocalMulticast ip \<or> IP_IsMulticast ip \<or> IP_IsUnspecified ip"
  shows "list_ex (\<lambda>b. IPNet_Contains b ip) reservedIPBlocks"
proof -
  from test consider "v = 1" | "v div 2 ^ 121 = 126" | "v div 2 ^ 118 = 1018" | "v div 2 ^ 120 = 255" | "v = 0"
    using ip by (auto simp: IP_IsUnspecified_def IP_IsLoopback_def IP_IsPrivate_def IP_IsMulticast_def
        IP_IsLinkLocalMulticast_def IP_IsLinkLocalUnicast_def)
  then show ?thesis by cases (simp_all add: reservedIPBlocks_def ip_nets ip)
qed

text \<open>For every address the six tests of the net package add nothing to the list of reserved blocks, so an address is
  refused exactly when a reserved block contains it and the whitelist does not.\<close>

theorem reserved_blocks_decide:
  assumes "case ip of Addr4 v \<Rightarrow> v < 2 ^ 32 | Addr6 v \<Rightarrow> v < 2 ^ 128"
  shows "isReservedIP ip whitelist \<longleftrightarrow>
    \<not> list_ex (\<lambda>b. IPNet_Contains b ip) whitelist \<and> list_ex (\<lambda>b. IPNet_Contains b ip) reservedIPBlocks"
proof (cases "Unmap ip")
  case (Addr4 v)
  with reserved_v4 [OF Unmap_range [OF assms Addr4] Addr4] show ?thesis by (auto simp: isReservedIP_def)
next
  case (Addr6 v)
  with reserved_v6 [OF Addr6] show ?thesis by (auto simp: isReservedIP_def)
qed

theorem reserved_blocks_decide_witness:
  "isReservedIP (Addr4 (bytes_value [10, 0, 0, 1])) [] \<and> \<not> isReservedIP (Addr4 (bytes_value [8, 8, 8, 8])) []"
  using reserved_blocks_decide [of "Addr4 (bytes_value [10, 0, 0, 1])" "[]"] reserved_blocks_decide [of "Addr4 (bytes_value [8, 8, 8, 8])" "[]"]
  by (simp add: reservedIPBlocks_def ip_nets Unmap_def bytes_value_def)

text \<open>Where the URL of a webhook comes from: it is the old one, or one that was validated.\<close>

definition urls_from :: "webhook_env \<Rightarrow> webhook_db \<Rightarrow> webhook_db \<Rightarrow> bool" where
  "urls_from R db db' \<longleftrightarrow> (\<forall>w\<in>set (wh_webhooks db'). WH_Url w \<in> WH_Url ` set (wh_webhooks db) \<or> ValidateEndpoint R (WH_Url w) = None)"

lemma urls_same: "wh_webhooks db' = wh_webhooks db \<Longrightarrow> urls_from R db db'"
  by (simp add: urls_from_def)

lemma register_urls: "RegisterWebhook R (i, j) now org a db = (res, db') \<Longrightarrow> urls_from R db db'"
  by (cases res) (auto simp: RegisterWebhook_def check_Inr attempt_Inr Let_def urls_from_def AddWebhookSecret_def CreateWebhook_def registered_def)

lemma update_urls: "UpdateWebhook R k u db = (res, db') \<Longrightarrow> urls_from R db db'"
  by (cases res) (auto simp: UpdateWebhook_def check_Inr attempt_Inr wrapped_Inr Let_def urls_from_def db_UpdateWebhook_rows
      updated_webhook_def given_def split: option.splits)

lemma delete_urls: "DeleteWebhook R now k db = (res, db') \<Longrightarrow> urls_from R db db'"
  by (cases res) (auto simp: DeleteWebhook_def check_Inr attempt_Inr urls_from_def db_DeleteWebhook_def)

lemma secret_webhooks:
  "CreateWebhookSecret R j now i n db = (res, db') \<Longrightarrow> wh_webhooks db' = wh_webhooks db"
  "RevokeWebhookSecret R now i j db = (res2, db') \<Longrightarrow> wh_webhooks db' = wh_webhooks db"
  "CreateWebhookEvent R i now org ty content db = Inr db' \<Longrightarrow> wh_webhooks db' = wh_webhooks db"
    apply (cases res; auto simp: CreateWebhookSecret_def check_Inr attempt_Inr Let_def AddWebhookSecret_def ExpireWebhookSecrets_def
      split: sum.splits option.splits)
   apply (cases res2; auto simp: RevokeWebhookSecret_def check_Inr Let_def db_RevokeWebhookSecret_def split: sum.splits if_splits)
  apply (auto simp: CreateWebhookEvent_def check_Inr attempt_Inr wrapped_Inr EnqueueWebhookDispatch_def CreateWebhookEventV2_def split: if_splits)
  done

lemma dispatch_webhooks:
  assumes "distinct (map WH_Id (wh_webhooks db))"
  shows "wh_webhooks (snd (dispatch_work R newId i db)) = wh_webhooks db"
proof -
  obtain res db' where run: "dispatch_work R newId i db = (res, db')" by (metis surj_pair)
  from run assms have "wh_webhooks db' = wh_webhooks db" by (cases rule: dispatch_work_cases) simp_all
  then show ?thesis by (simp add: run)
qed

lemma step_urls:
  assumes "webhook_step P db db'" "webhooks_ok db"
  shows "(\<exists>R. P R \<and> urls_from R db db') \<or> wh_webhooks db' = wh_webhooks db"
  using assms(1)
proof cases
  case (register R i j now org a res)
  then show ?thesis using register_urls by blast
next
  case (update R k u res)
  then show ?thesis using update_urls by blast
next
  case (delete R now k res)
  then show ?thesis using delete_urls by blast
next
  case (cleanup now)
  have "distinct (map WE_Id (wh_events db))" using assms(2) by (simp add: webhooks_ok_def deliveries_ok_def)
  then show ?thesis by (simp add: cleanup cleanup_work_def cleanup_loop_rows)
next
  case (dispatch R i newId)
  then show ?thesis using assms(2) dispatch_webhooks [of db R newId i] by (simp add: webhooks_ok_def endpoints_ok_def)
next
  case (deliver R i t now)
  then show ?thesis using delivery_work_rows [of R now i db] by simp
qed (use secret_webhooks in simp_all)

lemma reached_urls: "webhooks_reached P db \<Longrightarrow> w \<in> set (wh_webhooks db) \<Longrightarrow> \<exists>R. P R \<and> ValidateEndpoint R (WH_Url w) = None"
  unfolding webhooks_reached_def
proof (induction arbitrary: w rule: rtranclp_induct)
  case base
  then show ?case by (simp add: no_webhooks_def)
next
  case (step y z)
  then have "webhooks_ok y" using reached_ok by (simp add: webhooks_reached_def)
  from step_urls [OF step.hyps(2) this] consider R where "P R" "urls_from R y z" | "wh_webhooks z = wh_webhooks y" by blast
  then show ?case using step.IH step.prems by cases (auto simp: urls_from_def)
qed

lemma ping_any_None: "ping_any f ms (Some err) = None \<Longrightarrow> \<exists>m\<in>set ms. f m = None"
  by (induction ms arbitrary: err) (auto split: option.splits)

text \<open>C28: the URL of every webhook was accepted when it was registered or changed: it is https, or http where insecure URLs
  are allowed, it has no credentials, its host resolved to addresses of which none is in a reserved block unless the
  whitelist contains it, and it answered a ping.\<close>

theorem endpoint_public:
  assumes "webhooks_reached P db" "w \<in> set (wh_webhooks db)"
  shows "\<exists>R url ips. P R \<and> ParseURL R (WH_Url w) = Some url
    \<and> (URL_Scheme url = ''https'' \<or> AllowInsecureURLs R \<and> URL_Scheme url = ''http'') \<and> \<not> URL_HasUser url \<and> URL_Hostname url \<noteq> []
    \<and> LookupIPAddr R (URL_Hostname url) = Some ips
    \<and> (\<forall>ip\<in>set ips. (\<forall>b\<in>set reservedIPBlocks. \<not> IPNet_Contains b ip) \<or> (\<exists>b\<in>set (IPWhitelist R). IPNet_Contains b ip))
    \<and> (\<exists>method\<in>{''HEAD'', ''GET'', ''POST''}. Ping R method (WH_Url w) = None)"
proof -
  from reached_urls [OF assms] obtain R where R: "P R" "ValidateEndpoint R (WH_Url w) = None" by blast
  then have url: "Validate_url R (WH_Url w) = None"
    and ping: "ping_any (\<lambda>method. Ping R method (WH_Url w)) [''HEAD'', ''GET'', ''POST''] None = None"
    by (auto simp: ValidateEndpoint_def split: option.splits)
  from ping have "\<exists>method\<in>{''HEAD'', ''GET'', ''POST''}. Ping R method (WH_Url w) = None"
    by (auto split: option.splits)
  moreover have "(\<forall>b\<in>set reservedIPBlocks. \<not> IPNet_Contains b ip) \<or> (\<exists>b\<in>set (IPWhitelist R). IPNet_Contains b ip)"
    if "\<not> isReservedIP ip (IPWhitelist R)" for ip
    using that by (auto simp: isReservedIP_def list_ex_iff split: if_splits)
  ultimately show ?thesis using R(1) url
    by (intro exI [of _ R]) (auto simp: Validate_url_def list_ex_iff split: option.splits if_splits)
qed

theorem endpoint_public_witness: "\<exists>R url. queue_works R \<and> ParseURL R ''https://h'' = Some url \<and> \<not> URL_HasUser url"
proof -
  have "wh_webhooks hook_sent = [registered 1 0 7 hook_registration]" by code_simp
  then have "registered 1 0 7 hook_registration \<in> set (wh_webhooks hook_sent)" by simp
  from endpoint_public [OF hook_sent_reached this] show ?thesis by (auto simp: registered_def hook_registration_def)
qed

section \<open>Who changes a webhook\<close>

text \<open>The requests that change a webhook or its secrets, when they succeed.\<close>

inductive webhook_changed :: "webhook_env \<Rightarrow> uuid \<Rightarrow> webhook_db \<Rightarrow> webhook_db \<Rightarrow> bool" for R where
  register: "RegisterWebhook R (i, j) now org a db = (Inr w, db') \<Longrightarrow> webhook_changed R i db db'"
| update: "UpdateWebhook R k u db = (Inr w, db') \<Longrightarrow> ParseWebhookId R k = Some i \<Longrightarrow> webhook_changed R i db db'"
| delete: "DeleteWebhook R now k db = (Inr (), db') \<Longrightarrow> ParseWebhookId R k = Some i \<Longrightarrow> webhook_changed R i db db'"
| create_secret: "CreateWebhookSecret R j now i n db = (Inr s, db') \<Longrightarrow> webhook_changed R i db db'"
| revoke_secret: "RevokeWebhookSecret R now i j db = (Inr (), db') \<Longrightarrow> webhook_changed R i db db'"

definition only_webhook :: "uuid \<Rightarrow> webhook_db \<Rightarrow> webhook_db \<Rightarrow> bool" where
  "only_webhook i db db' \<longleftrightarrow> filter (\<lambda>w. WH_Id w \<noteq> i) (wh_webhooks db') = filter (\<lambda>w. WH_Id w \<noteq> i) (wh_webhooks db)
    \<and> filter (\<lambda>s. WS_WebhookId s \<noteq> i) (wh_secrets db') = filter (\<lambda>s. WS_WebhookId s \<noteq> i) (wh_secrets db)
    \<and> wh_events db' = wh_events db \<and> wh_deliveries db' = wh_deliveries db \<and> wh_requests db' = wh_requests db
    \<and> wh_dispatch_jobs db' = wh_dispatch_jobs db \<and> wh_delivery_jobs db' = wh_delivery_jobs db"

abbreviation granted_on :: "webhook_env \<Rightarrow> uuid \<Rightarrow> webhook_db \<Rightarrow> bool" where
  "granted_on R i db \<equiv> \<exists>w\<in>set (wh_webhooks db). WH_Id w = i \<and> HasPermission (Cred_Role (WhCreds R)) WEBHOOK
     \<and> org_access (WhCreds R) (OrganizationId w)"

lemma filter_unchanged:
  "(\<And>x. x \<in> set xs \<Longrightarrow> P x \<Longrightarrow> f x = x) \<Longrightarrow> (\<And>x. x \<in> set xs \<Longrightarrow> P (f x) = P x) \<Longrightarrow> filter P (map f xs) = filter P xs"
  by (induction xs) auto

lemma kept_granted:
  assumes "w \<in> set (wh_webhooks db)" "CanModifyWebhook (WhCreds R) w = None" "WH_Id w = i" "wh_webhooks db' = map f (wh_webhooks db)"
    and "WH_Id (f w) = WH_Id w" "OrganizationId (f w) = OrganizationId w"
  shows "granted_on R i db'"
proof (rule bexI [of _ "f w"])
  show "f w \<in> set (wh_webhooks db')" using assms(1) by (simp add: assms(4))
qed (use assms in \<open>simp add: g_CanModifyWebhook.granted_iff\<close>)

lemma same_granted:
  "w \<in> set (wh_webhooks db) \<Longrightarrow> CanModifyWebhook (WhCreds R) w = None \<Longrightarrow> WH_Id w = i \<Longrightarrow> wh_webhooks db' = wh_webhooks db
    \<Longrightarrow> granted_on R i db'"
  by (rule kept_granted [of w db R i db' id]) simp_all

lemma register_guarded: "RegisterWebhook R (i, j) now org a db = (Inr w, db') \<Longrightarrow> granted_on R i db' \<and> only_webhook i db db'"
  by (auto simp: RegisterWebhook_def check_Inr attempt_Inr Let_def only_webhook_def AddWebhookSecret_def CreateWebhook_def registered_def
      new_secret_def g_CanCreateWebhook.granted_iff)

lemma parsed_webhook_id: "parsed_webhook R k db = Inr w \<Longrightarrow> ParseWebhookId R k = Some i \<Longrightarrow> w \<in> set (wh_webhooks db) \<and> WH_Id w = i"
  by (auto simp: parsed_webhook_def split: sum.splits dest!: rows)

lemma update_guarded:
  assumes "UpdateWebhook R k u db = (Inr w, db')" "ParseWebhookId R k = Some i"
  shows "granted_on R i db' \<and> only_webhook i db db'"
proof -
  obtain x where x: "parsed_webhook R k db = Inr x" "CanModifyWebhook (WhCreds R) x = None" and db': "db' = db_UpdateWebhook (WH_Id x) u db"
    using assms(1) by (auto simp: UpdateWebhook_def check_Inr attempt_Inr wrapped_Inr Let_def)
  from parsed_webhook_id [OF x(1) assms(2)] have i: "x \<in> set (wh_webhooks db)" "WH_Id x = i" by simp_all
  have "granted_on R i db'" 
    by (rule kept_granted [OF i(1) x(2) i(2), where f = "\<lambda>w. if live (WH_Id x) w then updated_webhook u w else w"])
      (simp_all add: db' db_UpdateWebhook_rows)
  moreover have "wh_dispatch_jobs db' = wh_dispatch_jobs db" by (simp add: db' db_UpdateWebhook_def)
  ultimately show ?thesis by (simp add: only_webhook_def db' i(2) db_UpdateWebhook_rows filter_unchanged)
qed

lemma delete_guarded:
  assumes "DeleteWebhook R now k db = (Inr (), db')" "ParseWebhookId R k = Some i"
  shows "granted_on R i db' \<and> only_webhook i db db'"
proof -
  obtain x where x: "parsed_webhook R k db = Inr x" "CanModifyWebhook (WhCreds R) x = None" and db': "db' = db_DeleteWebhook now (WH_Id x) db"
    using assms(1) by (auto simp: DeleteWebhook_def check_Inr attempt_Inr)
  from parsed_webhook_id [OF x(1) assms(2)] have i: "x \<in> set (wh_webhooks db)" "WH_Id x = i" by simp_all
  have "granted_on R i db'" 
    by (rule kept_granted [OF i(1) x(2) i(2), where f = "\<lambda>w. if live (WH_Id x) w then w\<lparr>WH_DeletedAt := Some now\<rparr> else w"])
      (simp_all add: db' db_DeleteWebhook_def)
  then show ?thesis by (simp add: only_webhook_def db' i(2) db_DeleteWebhook_def filter_unchanged)
qed

lemma create_secret_guarded:
  assumes "CreateWebhookSecret R j now i n db = (Inr s, db')"
  shows "granted_on R i db' \<and> only_webhook i db db'"
proof -
  obtain x v where x: "GetWebhook i db = Inr x" "CanModifyWebhook (WhCreds R) x = None"
    and db': "db' = AddWebhookSecret (new_secret j now i v)
      (case n of None \<Rightarrow> db | Some n \<Rightarrow> ExpireWebhookSecrets i (AddDays R now n) db)"
    using assms by (auto simp: CreateWebhookSecret_def check_Inr attempt_Inr Let_def split: sum.splits)
  from rows(1) [OF x(1)] have i: "x \<in> set (wh_webhooks db)" "WH_Id x = i" by simp_all
  have "granted_on R i db'"
    by (rule same_granted [OF i(1) x(2) i(2)]) (simp add: db' AddWebhookSecret_def ExpireWebhookSecrets_def split: option.splits)
  then show ?thesis
    by (auto simp: only_webhook_def db' AddWebhookSecret_def ExpireWebhookSecrets_def new_secret_def permanent_secret_def
        split: option.splits if_splits intro!: filter_unchanged)
qed

lemma revoke_guarded:
  assumes ok: "webhooks_ok db" and run: "RevokeWebhookSecret R now i j db = (Inr (), db')"
  shows "granted_on R i db' \<and> only_webhook i db db'"
proof -
  obtain x s where x: "GetWebhook i db = Inr x" "CanModifyWebhook (WhCreds R) x = None"
    and s: "GetWebhookSecret j db = Inr s" "WS_WebhookId s = i" and db': "db' = db_RevokeWebhookSecret now j db"
    using run by (auto simp: RevokeWebhookSecret_def check_Inr Let_def split: sum.splits if_splits)
  from rows(1) [OF x(1)] have i: "x \<in> set (wh_webhooks db)" "WH_Id x = i" by simp_all
  have own: "WS_WebhookId y = i" if "y \<in> set (wh_secrets db)" "WS_Id y = j" for y
    using rows(4) [OF s(1)] s(2) that ok by (auto simp: webhooks_ok_def endpoints_ok_def distinct_map inj_on_def)
  have secrets: "wh_secrets db' = map (\<lambda>s. if WS_Id s = j \<and> WS_RevokedAt s = None then s\<lparr>WS_RevokedAt := Some now\<rparr> else s) (wh_secrets db)"
    by (simp add: db' db_RevokeWebhookSecret_def)
  have "filter (\<lambda>s. WS_WebhookId s \<noteq> i) (wh_secrets db') = filter (\<lambda>s. WS_WebhookId s \<noteq> i) (wh_secrets db)"
    unfolding secrets by (rule filter_unchanged) (use own in \<open>auto split: if_splits\<close>)
  moreover have "granted_on R i db'" by (rule same_granted [OF i(1) x(2) i(2)]) (simp add: db' db_RevokeWebhookSecret_def)
  ultimately show ?thesis by (simp add: only_webhook_def) (simp add: db' db_RevokeWebhookSecret_def)
qed

text \<open>C29: a request that changes a webhook or its secrets is by a user with the permission on webhooks in the organization
  of the webhook, and changes nothing else: the other webhooks and their secrets, the events, the deliveries and the jobs
  stay.\<close>

theorem webhook_requests_guarded:
  assumes "webhooks_reached P db" "webhook_changed R i db db'"
  shows "(\<exists>w\<in>set (wh_webhooks db'). WH_Id w = i \<and> HasPermission (Cred_Role (WhCreds R)) WEBHOOK \<and> org_access (WhCreds R) (OrganizationId w))
    \<and> filter (\<lambda>w. WH_Id w \<noteq> i) (wh_webhooks db') = filter (\<lambda>w. WH_Id w \<noteq> i) (wh_webhooks db)
    \<and> filter (\<lambda>s. WS_WebhookId s \<noteq> i) (wh_secrets db') = filter (\<lambda>s. WS_WebhookId s \<noteq> i) (wh_secrets db)
    \<and> wh_events db' = wh_events db \<and> wh_deliveries db' = wh_deliveries db \<and> wh_requests db' = wh_requests db
    \<and> wh_dispatch_jobs db' = wh_dispatch_jobs db \<and> wh_delivery_jobs db' = wh_delivery_jobs db"
proof -
  from assms(2) have "granted_on R i db' \<and> only_webhook i db db'"
    by cases (blast dest: register_guarded update_guarded delete_guarded create_secret_guarded revoke_guarded [OF reached_ok [OF assms(1)]])+
  then show ?thesis by (simp add: only_webhook_def)
qed

theorem webhook_requests_guarded_witness:
  "\<exists>w. w \<in> set (wh_webhooks hook_registered) \<and> org_access webhook_admin (OrganizationId w)"
proof -
  from hook_registered_run obtain w where "webhook_changed (hook_env 500) 1 no_webhooks hook_registered" by (auto intro: webhook_changed.register)
  from webhook_requests_guarded [OF _ this, of queue_works] show ?thesis
    by (auto simp: webhooks_reached_def hook_env_def)
qed

section \<open>Findings\<close>

text \<open>The endpoint of an update is called before the permission is checked: a foreign request gets the answer of the endpoint.\<close>

lemma update_calls_endpoint_first:
  assumes "WebhookUpdate_Validate R u = None" "UW_Url u = Some url" "ValidateEndpoint R url = Some err"
  shows "UpdateWebhook R k u db = (Inl (ErrWrap err ''webhook endpoint validation failed''), db)"
  using assms by (simp add: UpdateWebhook_def)

text \<open>The delivery of a webhook that was deleted stays undecided: its job fails each time it runs.\<close>

lemma deleted_webhook_delivery_undecided:
  assumes "GetWebhookDelivery i db = Inr d" "undecided d" "GetWebhook (WD_WebhookId d) db = Inl err"
  shows "delivery_work R now i db = (Inl (ErrWrap err ''failed to get webhook for delivery''), db)"
  using assms by (simp add: delivery_work_def)

text \<open>The last attempt is not counted in the row of a delivery that failed.\<close>

lemma failed_attempts_not_counted:
  assumes "WD_Attempts d = 11" "\<not> IsSuccess r" "d \<in> set (wh_deliveries db)"
  shows "\<exists>d'\<in>set (wh_deliveries (snd (record_result R now d r db))). WD_Id d' = WD_Id d \<and> WD_Status d' = WebhookDeliveryStatusFailed \<and> WD_Attempts d' = 11"
proof -
  let ?d = "d\<lparr>WD_Status := WebhookDeliveryStatusFailed, WD_LastError := Some (formatError R r),
    WD_LastResponseStatus := given (map_option Some (status_code r)) (WD_LastResponseStatus d)\<rparr>"
  have "?d \<in> set (wh_deliveries (snd (record_result R now d r db)))"
    using assms by (auto simp: record_result_def Let_def DefaultMaxAttempts_def UpdateWebhookDeliveryFailed_def image_iff intro!: bexI [of _ d])
  then show ?thesis using assms(1) by (intro bexI [of _ ?d]) simp_all
qed

text \<open>
  The permanent secrets are counted on a connection of their own: of two requests that read the same state, each finds the
  secret of the other, and the webhook is left without one.
\<close>

definition two_secrets :: webhook_db where
  "two_secrets = AddWebhookSecret (new_secret 5 0 1 ''other'') hook_registered"

lemma concurrent_revocations_leave_no_secret:
  "fst (RevokeWebhookSecret (hook_env 500) 1 1 2 two_secrets) = Inr () \<and> fst (RevokeWebhookSecret (hook_env 500) 1 1 5 two_secrets) = Inr ()
    \<and> CountPermanentWebhookSecrets 1 (db_RevokeWebhookSecret 1 5 (db_RevokeWebhookSecret 1 2 two_secrets)) = 0"
  by code_simp

end
