(* ===== verification/Spec2Isabelle.thy ===== *)
theory Spec2Isabelle
  imports Go_Prelude Permissions Security Ast_Node Eval_Errors Iso_Duration Evaluator_Laws Ast_Cache
    Scenario_Laws Index_Properties Publication_Properties Scoring_Properties Case_Properties Review_Properties
    Webhook_Properties
begin

text \<open>
  Marble is a decision engine for fraud and compliance. An organization describes its data (tables,
  fields, links), writes scenarios (a trigger, rules and screenings, each a formula), publishes a
  version of them, and asks for the decision of a scenario on an object. This library models the
  core of the backend in \<^verbatim>\<open>src/\<close>: who may do what, how formulas are evaluated, how a
  scenario becomes a decision, how a version of it goes live and with which indexes, how the records
  of an organization get their risk score, how decisions are filed into cases and worked on, how
  the hits of screenings are reviewed, of decisions and of monitored objects, and how events are
  delivered to the endpoints of an organization.

  \<^bold>\<open>How the code is represented.\<close> A struct is a record, an enumeration a datatype, an error a value of
  \<open>go_error\<close> with the wrapping and joining of the code, and a fallible function returns
  \<open>go_error + 'a\<close> (\<open>Inl\<close> is the error). A guard that returns only an error is an \<open>go_error option\<close>.
  A function that can panic returns an \<open>option\<close> around it, where \<open>None\<close> is the panic, up to the place
  where the code recovers. Go's 64-bit integers are \<open>int\<close> with \<open>wrap64\<close> at each operation that can
  overflow; floating point numbers are an abstract type with a record of operations. Go's slices
  and maps are lists and maps, and where the order of a map's traversal matters it is a parameter.
  A database is a record of tables, and a request is a function of it, inside \<open>Transaction\<close> where the
  code opens one, so an error leaves the tables as they were.

  \<^bold>\<open>The theories.\<close>

  \<^item> \<open>Go_Prelude\<close>, \<open>Go_Runtime\<close>: errors, integers, slices, the strings and floating point operations of
    Go's library (\<^verbatim>\<open>models/errors.go\<close>, \<^verbatim>\<open>pure_utils\<close>).
  \<^item> \<open>Permissions\<close>, \<open>Security\<close>: the tables of permissions and roles (\<^verbatim>\<open>models/permission.go\<close>,
    \<^verbatim>\<open>role.go\<close>, \<^verbatim>\<open>role_permission.go\<close>), the credentials and every guard of
    \<^verbatim>\<open>usecases/security\<close>. The locale \<open>org_guard\<close> states what a guard of a resource of one organization
    promises; each such guard is an interpretation of it.
  \<^item> \<open>Ast_Node\<close>, \<open>Ast_Dto\<close>, \<open>Eval_Errors\<close>: formulas, their evaluation trees, their form in the API and
    the errors that an evaluation reports (\<^verbatim>\<open>models/ast\<close>, \<^verbatim>\<open>dto/dto_ast_node.go\<close>).
  \<^item> \<open>Iso_Duration\<close>: the durations of formulas (\<^verbatim>\<open>pure_utils/duration\<close>).
  \<^item> \<open>Evaluators\<close>, \<open>Evaluator_Laws\<close>: the evaluators of the functions that read no database
    (\<^verbatim>\<open>usecases/ast_eval/evaluate\<close>); the locale \<open>float_order\<close> is the order of floating point numbers.
  \<^item> \<open>Ast_Eval\<close>, \<open>Ast_Eval_Laws\<close>, \<open>Ast_Cache\<close>: the evaluation of a formula with its weights, early exits
    and cache (\<^verbatim>\<open>usecases/ast_eval\<close>); the locale \<open>cost_order\<close> is the sorting of children by cost.
  \<^item> \<open>Decision_Models\<close>, \<open>Data_Model\<close>: outcomes, rule executions, the client data model and its pivots
    (\<^verbatim>\<open>models\<close>).
  \<^item> \<open>Rule_Execution\<close>, \<open>Rule_Laws\<close>: one rule, and the concurrent execution of the rules of an iteration as a
    step relation on the states of its goroutines (\<^verbatim>\<open>usecases/evaluate_scenario\<close>); the locale
    \<open>expression_evaluation\<close> is what it uses of the evaluation of formulas.
  \<^item> \<open>Screening_Config\<close>, \<open>Screening_Eval\<close>: the configurations of screenings, the preparation of their
    queries, and their execution (\<^verbatim>\<open>evaluate_screening.go\<close>).
  \<^item> \<open>Scenario_Eval\<close>, \<open>Scenario_Laws\<close>: the decision of a scenario on an object and the test run of a
    version beside the live one (\<^verbatim>\<open>evaluate_scenario.go\<close>).
  \<^item> \<open>Index_Families\<close>, \<open>Index_Laws\<close>, \<open>Index_Properties\<close>: the database indexes that the aggregations of
    a scenario need (\<^verbatim>\<open>usecases/indexes\<close>, \<^verbatim>\<open>models/index_family.go\<close>, \<^verbatim>\<open>concrete_index.go\<close>).
  \<^item> \<open>Scenario_Validation\<close>, \<open>Validation_Laws\<close>: the validation of a version (\<^verbatim>\<open>usecases/scenarios\<close>); the
    locale \<open>dry_run_evaluation\<close> is what it uses of the evaluation.
  \<^item> \<open>Publication\<close>, \<open>Publication_Laws\<close>, \<open>Publication_Properties\<close>: the publication of versions
    (\<^verbatim>\<open>usecases/scenario_publications_usecase.go\<close>, \<^verbatim>\<open>scenario_publisher.go\<close>); the locale
    \<open>publication_repository\<close> is the contract of the repositories, interpreted on their tables.
  \<^item> \<open>Scoring_Models\<close>, \<open>Scoring\<close>, \<open>Scoring_Rulesets\<close>, \<open>Scoring_Laws\<close>, \<open>Scoring_State\<close>,
    \<open>Scoring_Properties\<close>: the scores, rulesets and settings of user scoring (\<^verbatim>\<open>usecases/scoring\<close>), with the
    requests and jobs as the steps of a relation on the tables.
  \<^item> \<open>Case_Models\<close>, \<open>Case_Editing\<close>, \<open>Case_Laws\<close>, \<open>Decision_Workflows\<close>, \<open>Case_State\<close>, \<open>Case_Properties\<close>: the
    cases with their decisions, tags, events and inboxes, the requests on them and their mass update
    (\<^verbatim>\<open>usecases/case_usecase.go\<close>, \<^verbatim>\<open>repositories/case_repository.go\<close>), and the workflows that file a decision
    (\<^verbatim>\<open>usecases/decision_workflows\<close>).
  \<^item> \<open>Screening_Reviews\<close>, \<open>Review_Laws\<close>: the review and the refinement of the screening of a decision
    (\<^verbatim>\<open>usecases/screening_usecase.go\<close>).
  \<^item> \<open>Continuous_Models\<close>, \<open>Continuous_Reviews\<close>, \<open>Continuous_Laws\<close>, \<open>Review_Properties\<close>: the screenings of
    monitored objects, how they are stored, filed into a case, reviewed, dismissed and completed
    (\<^verbatim>\<open>usecases/continuous_screening\<close>), and the properties of both kinds of review.
  \<^item> \<open>Webhooks\<close>, \<open>Webhook_Requests\<close>, \<open>Webhook_Delivery\<close>, \<open>Webhook_Laws\<close>, \<open>Webhook_Properties\<close>: the tables of
    webhooks (\<^verbatim>\<open>repositories/webhook_repository.go\<close>), the requests on them and the validation of their
    endpoints (\<^verbatim>\<open>usecases/webhooks\<close>), and the jobs that dispatch, deliver and delete events
    (\<^verbatim>\<open>usecases/worker_jobs/webhook_*.go\<close>), as the steps of a relation on the tables, the queues and the log of
    the requests that were sent.

  \<^bold>\<open>How the parts interact.\<close> A request carries \<open>Credentials\<close>, and each use case asks the guards of
  \<open>Security\<close> before it reads or writes. \<open>EvalScenario\<close> calls the trigger, then the rules, then the
  screenings, all through \<open>EvaluateAst\<close>, and turns their results into an outcome. Publication calls the
  validation, which runs the same \<open>EvaluateAst\<close> on a fake object, and the choice of indexes, which reads the
  formulas. Scoring reuses formulas, their API form and the choice of indexes. The workflow of a decision
  creates a case or joins an open one with the operations of \<open>Case_Editing\<close>. A review writes the tables of
  screenings and, through \<open>PerformCaseActionSideEffects\<close>, the case of the decision, and a continuous screening
  with a hit gets its case from \<open>CreateCase\<close>, so \<open>review_db\<close> holds a \<open>case_db\<close> and \<open>continuous_db\<close> a
  \<open>review_db\<close>. Decisions, cases and reviews announce events: there the announcement is a parameter, which
  may fail, and \<open>CreateWebhookEvent\<close> is what it does. So the laws of
  \<open>Ast_Eval_Laws\<close> (a failed evaluation carries an error, the optimisations and the cache change no result)
  discharge the assumptions of the locales \<open>expression_evaluation\<close> and \<open>dry_run_evaluation\<close>, and the
  properties of scenarios and of publication rest on those interpretations.

  \<^bold>\<open>What is shown.\<close> Scenarios: the outcome of a decision is the one of its score and screenings; a rule
  is a hit, a miss, a snooze or an error and scores only when it hits; the concurrent execution ends,
  gives the same results for every schedule and reports only genuine errors; errors and panics stay
  within the decision. Formulas: laziness, reordering and caching are transparent; operators follow
  three-valued logic; arithmetic is exact or wraps as 64-bit integers do. Access: no guard lets a user
  reach another organization, each asks for its permission, and users cannot raise their own role.
  Publication: what goes live is committed, valid, allowed and served by indexes, and the log of
  publications determines the live version. Indexes: coverage is exactly what a search needs, and
  creation is idempotent. Scoring: every reachable state has one active score for a record and one draft
  for a record type; overrides and cooldowns protect the active score; risk levels stay in range.
  Cases: a request changes something only for who may; an update follows the transitions and touches one
  case; a workflow files a decision once; the tables stay consistent. Reviews: the status of a screening
  agrees with those of its matches in every reachable state; a review is of a pending match, writes exactly
  the decision and its consequences, and is final; a rejected match is not searched again and a confirmed
  one tags the object. Webhooks: in every reachable state a webhook keeps a permanent secret, an event has
  one delivery at most to a webhook, and an undecided delivery has a job; a dispatch reaches exactly the
  webhooks that listen; a delivery is signed, sent at most twelve times, and decided by the answer; every
  endpoint was validated.
  Lemmas beside the properties show where the code does not do what it means to
  (\<open>refine_loses_order\<close>, \<open>refresh_webhook_inverted\<close>, \<open>refresh_answers_ignored_score\<close>,
  \<open>draft_lookup_hides_ruleset\<close>, \<open>added_decision_no_boost\<close>, \<open>snooze_outside_inbox\<close>, \<open>removed_tag_event\<close>,
  \<open>mass_reopen_pending\<close>, \<open>foreign_client_reviews\<close>, \<open>two_active_screenings\<close>, \<open>confirmed_without_hit\<close>,
  \<open>exhausted_stays\<close>, \<open>dismissed_with_hit\<close>, \<open>offloaded_entity_not_searched\<close>,
  \<open>update_calls_endpoint_first\<close>, \<open>deleted_webhook_delivery_undecided\<close>, \<open>failed_attempts_not_counted\<close>,
  \<open>concurrent_revocations_leave_no_secret\<close>).

  \<^bold>\<open>Bounds and termination.\<close> No definition has fuel. Evaluation recurses on the formula. The concurrent
  execution of rules is a relation, with a measure that every step decreases, so each schedule is finite.
  The paging of the first insertion of scores ends because each page moves past an internal identifier, and
  the deletion of old events because a full batch deletes at least one.

  \<^bold>\<open>Parameters.\<close> Code that is not under \<^verbatim>\<open>src/\<close> or that reads the outside world is an argument: the hash
  of a formula, the order of a stable sort, the evaluators that read a database, the readers of an
  organization's data, feature access, the screening provider, the task queue, the network of
  webhooks (the resolution of a host, the answers of an endpoint, the HMAC), the clock and the generation of
  identifiers. Floating point laws are hypotheses of the few properties that need an
  order of floats, and their witnesses use exact rationals. Where a result of such a call matters (an
  error, a refusal), the model branches on it as the code does.

  \<^bold>\<open>Not modelled.\<close> The HTTP handlers and their serialization (\<^verbatim>\<open>api\<close>, \<^verbatim>\<open>pubapi\<close>, \<^verbatim>\<open>dto\<close>), the start of
  the servers (\<^verbatim>\<open>cmd\<close>, \<^verbatim>\<open>infra\<close>), the SQL of the repositories except the tables that publication,
  scoring, cases, reviews and webhooks use, and the evaluators that read databases (aggregation, database access,
  fuzzy match, annotations): they are inputs and outputs. The ingestion of objects and the changes of the
  data model are mostly SQL on schemas that the client defines. AI agents, billing, analytics, authentication and the search of screenings are calls of external services. The edition of scenarios, rules,
  workflows and settings, the import of an organization and the workers that wrap other use cases store
  what they are given behind the guards of \<open>Security\<close>. Of cases, the files, annotations, rule snoozes,
  suspicious activity reports, lists and searches are left out; of continuous screening, the configurations, the
  monitored objects and the files of changes. Logs, traces, metrics and cancellation of contexts have no effect on
  results and are left out everywhere.
\<close>

end
